(* ===== verification/Prelude.thy ===== *)
theory Prelude
  imports Main "HOL-Library.Word"
begin

text \<open>
  What every component shares: Python's exceptions as a datatype and the bind of the
  error sum, byte strings as lists of 8-bit words, Python's slices, \<open>bytes([...])\<close>,
  \<open>int.to_bytes\<close>, \<open>int.from_bytes\<close> and \<open>int.bit_length\<close>, and the laws that turn the
  bit operations of the source into arithmetic.  Python's unbounded integers are \<open>int\<close>;
  an octet is an \<open>8 word\<close>.
\<close>

unbundle bit_operations_syntax

named_theorems wire \<open>unfolding rules for the octet-level encoders\<close>
named_theorems bitarith \<open>bit operations of the source as arithmetic\<close>

section \<open>Exceptions and the error sum\<close>

datatype py_error =
    ValueError | UnicodeError | OverflowError | StructError | TypeError | IndexError
  | KeyError | RuntimeError | InvalidStateError | OSError | AssertionError | AttributeError

type_synonym byte = "8 word"
type_synonym bytes = "byte list"

fun rbind :: "'e + 'a \<Rightarrow> ('a \<Rightarrow> 'e + 'b) \<Rightarrow> 'e + 'b" where
  "rbind (Inl e) f = Inl e"
| "rbind (Inr x) f = f x"

lemma rbind_cong [fundef_cong]:
  "m = m' \<Longrightarrow> (\<And>x. m' = Inr x \<Longrightarrow> f x = f' x) \<Longrightarrow> rbind m f = rbind m' f'"
  by (cases m) auto

lemma rbind_Inr_iff [simp]:
  "rbind m f = Inr y \<longleftrightarrow> (\<exists>x. m = Inr x \<and> f x = Inr y)"
  by (cases m) auto

lemma rbind_Inl_iff:
  "rbind m f = Inl e \<longleftrightarrow> m = Inl e \<or> (\<exists>x. m = Inr x \<and> f x = Inl e)"
  by (cases m) auto

lemma if_Inl_eq_Inr [simp]:
  "(if c then Inl e else m) = Inr y \<longleftrightarrow> \<not> c \<and> m = Inr y"
  "(if c then m else Inl e) = Inr y \<longleftrightarrow> c \<and> m = Inr y"
  by auto

text \<open>The only exceptions a computation can raise.\<close>

definition raises_only :: "py_error set \<Rightarrow> py_error + 'a \<Rightarrow> bool" where
  "raises_only E m \<longleftrightarrow> (case m of Inl e \<Rightarrow> e \<in> E | Inr _ \<Rightarrow> True)"

lemma raises_only_Inr [simp]: "raises_only E (Inr x)"
  and raises_only_Inl [simp]: "raises_only E (Inl e) \<longleftrightarrow> e \<in> E"
  by (simp_all add: raises_only_def)

lemma raises_only_rbind [intro]:
  "raises_only E m \<Longrightarrow> (\<And>x. m = Inr x \<Longrightarrow> raises_only E (f x)) \<Longrightarrow> raises_only E (rbind m f)"
  by (cases m) auto

lemma raises_only_if [intro]:
  "(c \<Longrightarrow> raises_only E a) \<Longrightarrow> (\<not> c \<Longrightarrow> raises_only E b) \<Longrightarrow> raises_only E (if c then a else b)"
  by simp

lemma raises_only_mono: "raises_only E m \<Longrightarrow> E \<subseteq> F \<Longrightarrow> raises_only F m"
  by (cases m) auto

section \<open>Slices\<close>

text \<open>\<open>xs[a:b]\<close> for \<open>0 \<le> a\<close>, \<open>0 \<le> b\<close>: clamped at the end, empty when \<open>b \<le> a\<close>.\<close>

definition py_slice :: "'a list \<Rightarrow> nat \<Rightarrow> nat \<Rightarrow> 'a list" where
  "py_slice xs a b = take (b - a) (drop a xs)"

lemma length_py_slice [simp]: "length (py_slice xs a b) = min (b - a) (length xs - a)"
  by (simp add: py_slice_def)

lemma py_slice_append [simp]:
  "length p = a \<Longrightarrow> py_slice (p @ c @ s) a (a + length c) = c"
  by (simp add: py_slice_def)

text \<open>\<open>xs[i]\<close>: a negative index counts from the end, out of range raises IndexError.\<close>

definition py_index :: "'a list \<Rightarrow> int \<Rightarrow> py_error + 'a" where
  "py_index xs k =
     (if k \<in> {- int (length xs)..<int (length xs)}
      then Inr (xs ! nat (k mod int (length xs))) else Inl IndexError)"

lemma py_index_ok [simp]: "0 \<le> i \<Longrightarrow> i < int (length xs) \<Longrightarrow> py_index xs i = Inr (xs ! nat i)"
  by (simp add: py_index_def)

lemma nth_at_length [simp]:
  "length p = n \<Longrightarrow> (p @ x # s) ! n = x"
  by (simp add: nth_append)

text \<open>Reading one octet of a buffer; beyond its end it raises IndexError.\<close>

definition octet_at :: "bytes \<Rightarrow> nat \<Rightarrow> py_error + int" where
  "octet_at xs i = (if i < length xs then Inr (uint (xs ! i)) else Inl IndexError)"

lemma octet_at_ok [simp]: "i < length xs \<Longrightarrow> octet_at xs i = Inr (uint (xs ! i))"
  by (simp add: octet_at_def)

lemma octet_at_0 [simp]:
  "xs \<noteq> [] \<Longrightarrow> octet_at xs 0 = Inr (uint (xs ! 0))"
  "\<not> length xs < 2 \<Longrightarrow> octet_at xs 0 = Inr (uint (xs ! 0))"
  "\<not> length xs < 3 \<Longrightarrow> octet_at xs 0 = Inr (uint (xs ! 0))"
  "\<not> length xs < 4 \<Longrightarrow> octet_at xs 0 = Inr (uint (xs ! 0))"
  "\<not> length xs < 6 \<Longrightarrow> octet_at xs 0 = Inr (uint (xs ! 0))"
  by (auto simp: octet_at_def)

section \<open>Octets from integers\<close>

text \<open>An octet from an integer; \<open>bytes([...])\<close> checks the range first.\<close>

definition byte_of :: "int \<Rightarrow> byte" where
  "byte_of x = word_of_int x"

lemma byte_of_numeral [simp]:
  "byte_of 0 = 0" "byte_of 1 = 1" "byte_of (numeral k) = numeral k"
  by (simp_all add: byte_of_def)

lemma uint_byte_of_mod: "uint (byte_of x) = x mod 256"
  by (simp add: byte_of_def uint_word_of_int)

lemma byte_of_uint [simp]: "byte_of (uint b) = b"
  by (simp add: byte_of_def)

fun mk_bytes :: "int list \<Rightarrow> py_error + bytes" where
  "mk_bytes [] = Inr []"
| "mk_bytes (x # xs) =
     (if 0 \<le> x \<and> x < 256
      then rbind (mk_bytes xs) (\<lambda>bs. Inr (byte_of x # bs)) else Inl ValueError)"

lemma mk_bytes_Inr_iff:
  "mk_bytes xs = Inr bs \<longleftrightarrow> (\<forall>x\<in>set xs. 0 \<le> x \<and> x < 256) \<and> bs = map byte_of xs"
  by (induction xs arbitrary: bs) auto

lemma mk_bytes_ok: "\<forall>x\<in>set xs. 0 \<le> x \<and> x < 256 \<Longrightarrow> mk_bytes xs = Inr (map byte_of xs)"
  by (simp add: mk_bytes_Inr_iff)

lemma mk_bytes_raises: "raises_only {ValueError} (mk_bytes xs)"
  by (induction xs) auto

lemma uint_byte_of [simp]: "0 \<le> x \<Longrightarrow> x < 256 \<Longrightarrow> uint (byte_of x) = x"
  by (simp add: uint_byte_of_mod)

lemma byte_bounds [simp]: "0 \<le> uint (b :: byte)" "uint (b :: byte) < 256"
  using uint_lt2p [of b] by simp_all

lemma byte_le [simp]: "uint (b :: byte) \<le> 255"
  using byte_bounds(2) [of b] by linarith

lemma byte_eqI: "uint (a :: byte) = uint b \<Longrightarrow> a = b"
  by (rule word_uint_eqI)

text \<open>\<open>int.from_bytes(bs, "big")\<close> and \<open>v.to_bytes(n, "big")\<close>.\<close>

fun be_bytes :: "nat \<Rightarrow> int \<Rightarrow> bytes" where
  "be_bytes 0 v = []"
| "be_bytes (Suc n) v = be_bytes n (v div 256) @ [byte_of v]"

definition int_from_bytes :: "bytes \<Rightarrow> int" where
  "int_from_bytes bs = foldl (\<lambda>a b. a * 256 + uint b) 0 bs"

definition int_to_bytes :: "int \<Rightarrow> nat \<Rightarrow> py_error + bytes" where
  "int_to_bytes v n = (if 0 \<le> v \<and> v < 256 ^ n then Inr (be_bytes n v) else Inl OverflowError)"

lemma length_be_bytes [simp]: "length (be_bytes n v) = n"
  by (induction n arbitrary: v) auto

lemma int_from_bytes_Nil [simp]: "int_from_bytes [] = 0"
  by (simp add: int_from_bytes_def)

lemma int_from_bytes_snoc [simp]:
  "int_from_bytes (bs @ [b]) = int_from_bytes bs * 256 + uint b"
  by (simp add: int_from_bytes_def)

lemma int_from_bytes_single [simp]: "int_from_bytes [b] = uint b"
  by (simp add: int_from_bytes_def)

lemma int_from_bytes_range: "0 \<le> int_from_bytes bs \<and> int_from_bytes bs < 256 ^ length bs"
proof (induction bs rule: rev_induct)
  case (snoc b bs)
  have "int_from_bytes bs * 256 + uint b < (int_from_bytes bs + 1) * 256"
    using byte_bounds(2) [of b] by (simp add: algebra_simps)
  also have "\<dots> \<le> 256 ^ length bs * 256"
    using snoc by (intro mult_right_mono) auto
  finally show ?case using snoc by simp
qed simp

lemmas int_from_bytes_nonneg [simp] = int_from_bytes_range [THEN conjunct1]
lemmas int_from_bytes_less = int_from_bytes_range [THEN conjunct2]

lemma int_from_be_bytes: "int_from_bytes (be_bytes n v) = v mod 256 ^ n"
proof (induction n arbitrary: v)
  case (Suc n)
  have "uint (byte_of v) = v mod 256"
    by (rule uint_byte_of_mod)
  then show ?case
    by (simp add: Suc zmod_zmult2_eq)
qed simp

lemma int_from_to_bytes:
  "int_to_bytes v n = Inr bs \<Longrightarrow> int_from_bytes bs = v"
  by (auto simp: int_to_bytes_def int_from_be_bytes)

lemma be_bytes_from_bytes: "be_bytes (length bs) (int_from_bytes bs) = bs"
proof (induction bs rule: rev_induct)
  case (snoc b bs)
  have d: "(int_from_bytes bs * 256 + uint b) div 256 = int_from_bytes bs"
    by simp
  have "byte_of (int_from_bytes bs * 256 + uint b) = (b :: byte)"
    by (rule byte_eqI) (simp add: uint_byte_of_mod)
  with snoc d show ?case by simp
qed simp

lemma int_to_bytes_ok: "0 \<le> v \<Longrightarrow> v < 256 ^ n \<Longrightarrow> int_to_bytes v n = Inr (be_bytes n v)"
  by (simp add: int_to_bytes_def)

lemma int_to_from_bytes: "int_to_bytes (int_from_bytes bs) (length bs) = Inr bs"
  by (simp add: int_to_bytes_def int_from_bytes_less be_bytes_from_bytes)

lemma int_to_bytes_raises: "raises_only {OverflowError} (int_to_bytes v n)"
  by (simp add: int_to_bytes_def)

text \<open>The same with \<open>signed=True\<close>: two's complement.\<close>

definition int_from_bytes_signed :: "bytes \<Rightarrow> int" where
  "int_from_bytes_signed bs =
     (let u = int_from_bytes bs
      in if bs \<noteq> [] \<and> 2 ^ (8 * length bs - 1) \<le> u then u - 256 ^ length bs else u)"

definition int_to_bytes_signed :: "int \<Rightarrow> nat \<Rightarrow> py_error + bytes" where
  "int_to_bytes_signed v n =
     (if - (2 ^ (8 * n - 1)) \<le> v \<and> v < 2 ^ (8 * n - 1)
      then Inr (be_bytes n (v mod 256 ^ n)) else Inl OverflowError)"

lemma pow256: "(256::int) ^ n = 2 ^ (8 * n)"
  by (simp add: power_mult)

lemma pow256_half: "0 < n \<Longrightarrow> (256::int) ^ n = 2 * 2 ^ (8 * n - 1)"
  by (simp add: pow256 flip: power_Suc)

lemma int_from_to_bytes_signed:
  assumes "int_to_bytes_signed v n = Inr bs" and "0 < n"
  shows "int_from_bytes_signed bs = v"
proof -
  let ?h = "2 ^ (8 * n - 1) :: int"
  from assms(1) have b: "- ?h \<le> v" "v < ?h" and bs: "bs = be_bytes n (v mod 256 ^ n)"
    by (auto simp: int_to_bytes_signed_def split: if_splits)
  have p: "(256::int) ^ n = 2 * ?h" using assms(2) by (rule pow256_half)
  have u: "int_from_bytes bs = v mod (2 * ?h)"
    by (simp add: bs int_from_be_bytes p)
  have ne: "bs \<noteq> []" and l: "length bs = n"
    using assms(2) bs by (auto simp flip: length_0_conv)
  show ?thesis
  proof (cases "0 \<le> v")
    case True
    then have "v mod (2 * ?h) = v" using b by simp
    then show ?thesis using b True u ne l by (simp add: int_from_bytes_signed_def)
  next
    case False
    then have "v mod (2 * ?h) = v + 2 * ?h"
      using b mod_pos_pos_trivial [of "v + 2 * ?h" "2 * ?h"] by simp
    then show ?thesis using b False u ne l p by (simp add: int_from_bytes_signed_def)
  qed
qed

text \<open>\<open>int.bit_length\<close>: the number of bits of the absolute value.\<close>

fun bitlen :: "nat \<Rightarrow> nat" where
  "bitlen n = (if n = 0 then 0 else Suc (bitlen (n div 2)))"

declare bitlen.simps [simp del]

definition bit_length :: "int \<Rightarrow> nat" where
  "bit_length v = bitlen (nat \<bar>v\<bar>)"

lemma bitlen_0 [simp]: "bitlen 0 = 0"
  by (simp add: bitlen.simps)

lemma bitlen_le_iff: "bitlen n \<le> k \<longleftrightarrow> n < 2 ^ k"
proof (induction n arbitrary: k rule: bitlen.induct)
  case (1 n)
  show ?case
  proof (cases "n = 0 \<or> k = 0")
    case True
    then show ?thesis by (auto simp: bitlen.simps [of n])
  next
    case False
    then obtain j where k: "k = Suc j" by (cases k) auto
    have "bitlen n \<le> k \<longleftrightarrow> bitlen (n div 2) \<le> j"
      using False by (simp add: bitlen.simps [of n] k)
    also have "\<dots> \<longleftrightarrow> n div 2 < 2 ^ j" using 1 False by simp
    also have "\<dots> \<longleftrightarrow> n < 2 ^ k" by (auto simp: k)
    finally show ?thesis .
  qed
qed

lemma bit_length_le_iff: "0 \<le> v \<Longrightarrow> bit_length v \<le> k \<longleftrightarrow> v < 2 ^ k"
  by (simp add: bit_length_def bitlen_le_iff nat_less_iff)

lemma less_bit_length_iff: "0 \<le> v \<Longrightarrow> k < bit_length v \<longleftrightarrow> 2 ^ k \<le> v"
  using bit_length_le_iff [of v k] by linarith

section \<open>Bit operations as arithmetic\<close>

lemma and_mask_mod: "(x :: int) AND (2 ^ n - 1) = x mod 2 ^ n"
  by (simp flip: mask_eq_exp_minus_1 take_bit_eq_mask add: take_bit_eq_mod)

lemma and_masks [bitarith]:
  fixes x :: int
  shows "x AND 1 = x mod 2" "x AND 3 = x mod 4" "x AND 7 = x mod 8" "x AND 15 = x mod 16"
    "x AND 63 = x mod 64" "x AND 255 = x mod 256" "x AND 0x3FFFFF = x mod 0x400000"
  using and_mask_mod [of x 1] and_mask_mod [of x 2] and_mask_mod [of x 3]
    and_mask_mod [of x 4] and_mask_mod [of x 6] and_mask_mod [of x 8] and_mask_mod [of x 22]
  by simp_all

lemma shifts [bitarith]:
  fixes x :: int
  shows "push_bit n x = x * 2 ^ n" "drop_bit n x = x div 2 ^ n"
  by (simp_all add: push_bit_eq_mult drop_bit_eq_div)

text \<open>An \<open>or\<close> of a multiple of \<open>2\<^sup>n\<close> and a number below \<open>2\<^sup>n\<close> is their sum.\<close>

lemma or_low: "0 \<le> (y :: int) \<Longrightarrow> y < 2 ^ n \<Longrightarrow> x * 2 ^ n OR y = x * 2 ^ n + y"
proof -
  assume y: "0 \<le> y" "y < 2 ^ n"
  have "bit (x * 2 ^ n) k \<Longrightarrow> \<not> bit y k" for k
  proof -
    assume "bit (x * 2 ^ n) k"
    then have "n \<le> k" by (simp add: bit_push_bit_iff_int flip: push_bit_eq_mult)
    moreover have "take_bit n y = y" using y by (simp add: take_bit_int_eq_self)
    ultimately show "\<not> bit y k" by (metis bit_take_bit_iff not_le)
  qed
  then show ?thesis by (subst disjunctive_add) auto
qed

lemma and_pow_ne_0: "(x :: int) AND 2 ^ n \<noteq> 0 \<longleftrightarrow> bit x n"
  by (simp add: bit_iff_and_push_bit_not_eq_0 push_bit_eq_mult)

text \<open>A flag test \<open>x & 0x08\<close> on an octet reads one bit of it.\<close>

lemma flag_tests:
  fixes x :: int
  shows "x AND 1 \<noteq> 0 \<longleftrightarrow> bit x 0" "x AND 2 \<noteq> 0 \<longleftrightarrow> bit x 1" "x AND 4 \<noteq> 0 \<longleftrightarrow> bit x 2"
    "x AND 8 \<noteq> 0 \<longleftrightarrow> bit x 3" "x AND 0x20 \<noteq> 0 \<longleftrightarrow> bit x 5" "x AND 0x80 \<noteq> 0 \<longleftrightarrow> bit x 7"
  using and_pow_ne_0 [of x 0] and_pow_ne_0 [of x 1] and_pow_ne_0 [of x 2]
    and_pow_ne_0 [of x 3] and_pow_ne_0 [of x 5] and_pow_ne_0 [of x 7]
  by simp_all

end
