(* ===== verification/Tags.thy ===== *)
theory Tags
  imports Prelude
begin

text \<open>
  \<open>encoding/tags.py\<close>: BACnet tag headers (Clause 20.2.1).  \<open>encode_tag\<close> with its
  precomputed table, the opening and closing tags, \<open>decode_tag\<close>, the scanner
  \<open>extract_context_value\<close> for the octets between an opening tag and its closing tag, and
  \<open>decode_optional_context\<close>.  The lemmas give the header round trip at any position of a
  buffer, the progress and bounds of the decoder, and the agreement of the scanner with
  a tree of properly nested elements.
\<close>

section \<open>Model\<close>

datatype tag_class = APPLICATION | CONTEXT

fun cls_value :: "tag_class \<Rightarrow> int" where
  "cls_value APPLICATION = 0"
| "cls_value CONTEXT = 1"

record tag =
  number :: int
  cls :: tag_class
  tag_length :: int
  is_opening :: bool
  is_closing :: bool

definition is_boolean_true :: "tag \<Rightarrow> bool" where
  "is_boolean_true t \<longleftrightarrow> cls t = APPLICATION \<and> number t = 1 \<and> tag_length t \<noteq> 0"

text \<open>The tables built at import time; every entry is a one-octet byte string.\<close>

definition TAGS_1BYTE :: "bytes list list list" where
  "TAGS_1BYTE =
     map (\<lambda>c. map (\<lambda>tag. map (\<lambda>len.
            [byte_of (push_bit 4 (int tag) OR push_bit 3 (int c) OR int len)])
          [0..<5]) [0..<15]) [0..<2]"

definition OPENING_TAGS :: "bytes list" where
  "OPENING_TAGS = map (\<lambda>i. [byte_of (push_bit 4 (int i) OR 0x0E)]) [0..<15]"

definition CLOSING_TAGS :: "bytes list" where
  "CLOSING_TAGS = map (\<lambda>i. [byte_of (push_bit 4 (int i) OR 0x0F)]) [0..<15]"

definition encode_tag :: "int \<Rightarrow> tag_class \<Rightarrow> int \<Rightarrow> py_error + bytes" where
  "encode_tag tag_number c len =
     (if tag_number < 0 \<or> tag_number > 254 then Inl ValueError
      else if len < 0 then Inl ValueError
      else if tag_number \<le> 14 \<and> len \<le> 4
      then Inr (TAGS_1BYTE ! nat (cls_value c) ! nat tag_number ! nat len)
      else
        let initial = (if tag_number \<le> 14
                       then push_bit 4 tag_number OR push_bit 3 (cls_value c)
                       else push_bit 4 0x0F OR push_bit 3 (cls_value c))
        in if len \<le> 4 then mk_bytes [initial OR len, tag_number]
           else
             let initial = initial OR 5
             in if tag_number \<le> 14
                then
                  if len \<le> 253 then mk_bytes [initial, len]
                  else if len \<le> 65535
                  then rbind (mk_bytes [initial, 254])
                         (\<lambda>h. rbind (int_to_bytes len 2) (\<lambda>l. Inr (h @ l)))
                  else rbind (mk_bytes [initial, 255])
                         (\<lambda>h. rbind (int_to_bytes len 4) (\<lambda>l. Inr (h @ l)))
                else
                  if len \<le> 253 then mk_bytes [initial, tag_number, len]
                  else if len \<le> 65535
                  then rbind (mk_bytes [initial, tag_number, 254])
                         (\<lambda>h. rbind (int_to_bytes len 2) (\<lambda>l. Inr (h @ l)))
                  else rbind (mk_bytes [initial, tag_number, 255])
                         (\<lambda>h. rbind (int_to_bytes len 4) (\<lambda>l. Inr (h @ l))))"

definition encode_opening_tag :: "int \<Rightarrow> py_error + bytes" where
  "encode_opening_tag tag_number =
     (if tag_number \<le> 14 then py_index OPENING_TAGS tag_number
      else mk_bytes [0xFE, tag_number])"

definition encode_closing_tag :: "int \<Rightarrow> py_error + bytes" where
  "encode_closing_tag tag_number =
     (if tag_number \<le> 14 then py_index CLOSING_TAGS tag_number
      else mk_bytes [0xFF, tag_number])"

definition cls_of :: "int \<Rightarrow> tag_class" where
  "cls_of v = (if v = 0 then APPLICATION else CONTEXT)"

text \<open>The two optional parts of \<open>decode_tag\<close>: the extended tag number and the extended length.\<close>

definition decode_ext_number :: "bytes \<Rightarrow> int \<Rightarrow> nat \<Rightarrow> py_error + int \<times> nat" where
  "decode_ext_number buf tag_number offset =
     (if tag_number = 0x0F
      then if offset \<ge> length buf then Inl ValueError
           else rbind (octet_at buf offset) (\<lambda>n. Inr (n, offset + 1))
      else Inr (tag_number, offset))"

definition decode_ext_length :: "bytes \<Rightarrow> int \<Rightarrow> nat \<Rightarrow> py_error + int \<times> nat" where
  "decode_ext_length buf lvt offset =
     (if lvt < 5 then Inr (lvt, offset)
      else if offset \<ge> length buf then Inl ValueError
      else
        rbind (octet_at buf offset) (\<lambda>ext.
        let offset = offset + 1
        in if ext \<le> 253 then Inr (ext, offset)
           else if ext = 254
           then if offset + 2 > length buf then Inl ValueError
                else Inr (int_from_bytes (py_slice buf offset (offset + 2)), offset + 2)
           else if offset + 4 > length buf then Inl ValueError
                else Inr (int_from_bytes (py_slice buf offset (offset + 4)), offset + 4)))"

definition decode_tag :: "bytes \<Rightarrow> nat \<Rightarrow> py_error + tag \<times> nat" where
  "decode_tag buf offset =
     (if offset \<ge> length buf then Inl ValueError
      else
        rbind (octet_at buf offset) (\<lambda>initial.
        let c = cls_of (drop_bit 3 initial AND 0x01);
            lvt = initial AND 0x07
        in rbind (decode_ext_number buf (drop_bit 4 initial AND 0x0F) (offset + 1))
          (\<lambda>(tag_number, offset).
             if c = CONTEXT \<and> lvt = 6
             then Inr (\<lparr>number = tag_number, cls = c, tag_length = 0,
                        is_opening = True, is_closing = False\<rparr>, offset)
             else if c = CONTEXT \<and> lvt = 7
             then Inr (\<lparr>number = tag_number, cls = c, tag_length = 0,
                        is_opening = False, is_closing = True\<rparr>, offset)
             else
               rbind (decode_ext_length buf lvt offset)
                 (\<lambda>(len, offset).
                    if len > 1048576 then Inl ValueError
                    else Inr (\<lparr>number = tag_number, cls = c, tag_length = len,
                               is_opening = False, is_closing = False\<rparr>, offset)))))"

text \<open>Every index is checked before the octet is read.\<close>

lemma decode_ext_number_eq:
  "decode_ext_number buf tag_number offset =
     (if tag_number = 0x0F
      then if offset \<ge> length buf then Inl ValueError
           else Inr (uint (buf ! offset), offset + 1)
      else Inr (tag_number, offset))"
  by (simp add: decode_ext_number_def)

lemma decode_ext_length_eq:
  "decode_ext_length buf lvt offset =
     (if lvt < 5 then Inr (lvt, offset)
      else if offset \<ge> length buf then Inl ValueError
      else
        let ext = uint (buf ! offset); offset = offset + 1
        in if ext \<le> 253 then Inr (ext, offset)
           else if ext = 254
           then if offset + 2 > length buf then Inl ValueError
                else Inr (int_from_bytes (py_slice buf offset (offset + 2)), offset + 2)
           else if offset + 4 > length buf then Inl ValueError
                else Inr (int_from_bytes (py_slice buf offset (offset + 4)), offset + 4))"
  by (simp add: decode_ext_length_def)

lemma decode_tag_eq:
  "decode_tag buf offset =
     (if offset \<ge> length buf then Inl ValueError
      else
        let initial = uint (buf ! offset);
            c = cls_of (drop_bit 3 initial AND 0x01);
            lvt = initial AND 0x07
        in rbind (decode_ext_number buf (drop_bit 4 initial AND 0x0F) (offset + 1))
          (\<lambda>(tag_number, offset).
             if c = CONTEXT \<and> lvt = 6
             then Inr (\<lparr>number = tag_number, cls = c, tag_length = 0,
                        is_opening = True, is_closing = False\<rparr>, offset)
             else if c = CONTEXT \<and> lvt = 7
             then Inr (\<lparr>number = tag_number, cls = c, tag_length = 0,
                        is_opening = False, is_closing = True\<rparr>, offset)
             else
               rbind (decode_ext_length buf lvt offset)
                 (\<lambda>(len, offset).
                    if len > 1048576 then Inl ValueError
                    else Inr (\<lparr>number = tag_number, cls = c, tag_length = len,
                               is_opening = False, is_closing = False\<rparr>, offset))))"
  by (simp add: decode_tag_def Let_def)

lemmas decode_tag_defs = decode_tag_eq decode_ext_number_eq decode_ext_length_eq

section \<open>The header of one tag\<close>

text \<open>The two tables and the opening and closing tags, as octet values.\<close>

definition hdr :: "int \<Rightarrow> tag_class \<Rightarrow> int \<Rightarrow> int" where
  "hdr n c lvt = n * 16 + cls_value c * 8 + lvt"

lemma cls_value_range [simp]: "0 \<le> cls_value c" "cls_value c \<le> 1"
  by (cases c; simp)+

lemma cls_of_value [simp]: "cls_of (cls_value c) = c"
  by (cases c) (simp_all add: cls_of_def)

lemma hdr_bits:
  assumes "0 \<le> lvt" "lvt < 8"
  shows "push_bit 4 n OR push_bit 3 (cls_value c) OR lvt = hdr n c lvt"
    and "(push_bit 4 n OR push_bit 3 (cls_value c)) OR lvt = hdr n c lvt"
proof -
  have "push_bit 3 (cls_value c) OR lvt = cls_value c * 8 + lvt"
    using or_low [of lvt 3 "cls_value c"] assms by (simp add: push_bit_eq_mult)
  moreover have "n * 16 OR (cls_value c * 8 + lvt) = n * 16 + (cls_value c * 8 + lvt)"
    using or_low [of "cls_value c * 8 + lvt" 4 n] assms by (cases c) simp_all
  ultimately show "push_bit 4 n OR push_bit 3 (cls_value c) OR lvt = hdr n c lvt"
    by (simp add: push_bit_eq_mult hdr_def)
  then show "(push_bit 4 n OR push_bit 3 (cls_value c)) OR lvt = hdr n c lvt"
    by (simp add: or.assoc)
qed

lemma hdr_range [simp]:
  "0 \<le> n \<Longrightarrow> n \<le> 15 \<Longrightarrow> 0 \<le> lvt \<Longrightarrow> lvt < 8 \<Longrightarrow> 0 \<le> hdr n c lvt \<and> hdr n c lvt < 256"
  by (cases c) (simp_all add: hdr_def)

lemma hdr_fields:
  assumes "0 \<le> n" "n \<le> 15" "0 \<le> lvt" "lvt < 8"
  shows "drop_bit 4 (hdr n c lvt) AND 15 = n" "drop_bit 3 (hdr n c lvt) AND 1 = cls_value c"
    "hdr n c lvt AND 7 = lvt"
  using assms by (cases c; simp add: bitarith hdr_def; presburger)+

lemma TAGS_1BYTE_entry:
  assumes "0 \<le> n" "n \<le> 14" "0 \<le> len" "len \<le> 4"
  shows "TAGS_1BYTE ! nat (cls_value c) ! nat n ! nat len = [byte_of (hdr n c len)]"
proof -
  have "nat (cls_value c) < 2" "nat n < 15" "nat len < 5"
    using assms by (cases c; simp)+
  then show ?thesis
    using assms hdr_bits(1) [of len n c]
    by (simp add: TAGS_1BYTE_def del: upt_Suc)
qed

text \<open>What \<open>encode_tag\<close> writes, without the table.\<close>

definition tag_octets :: "int \<Rightarrow> tag_class \<Rightarrow> int \<Rightarrow> bytes" where
  "tag_octets n c len =
     byte_of (hdr (min n 15) c (if len \<le> 4 then len else 5))
     # (if n \<le> 14 then [] else [byte_of n])
     @ (if len \<le> 4 then [] else if len \<le> 253 then [byte_of len]
        else if len \<le> 65535 then 254 # be_bytes 2 len else 255 # be_bytes 4 len)"

lemma encode_tag_eq:
  "encode_tag n c len =
     (if n < 0 \<or> n > 254 \<or> len < 0 then Inl ValueError
      else if len < 2 ^ 32 then Inr (tag_octets n c len) else Inl OverflowError)"
proof (cases "n < 0 \<or> n > 254 \<or> len < 0")
  case True
  then show ?thesis by (auto simp: encode_tag_def)
next
  case False
  have r: "0 \<le> hdr (min n 15) c 5 \<and> hdr (min n 15) c 5 < 256"
    using False by (intro hdr_range) auto
  have f: "push_bit 4 n OR push_bit 3 (cls_value c) OR 5 = hdr n c 5"
    "push_bit 4 15 OR push_bit 3 (cls_value c) OR 5 = hdr 15 c 5"
    "(push_bit 4 n OR push_bit 3 (cls_value c)) OR 5 = hdr n c 5"
    "(push_bit 4 15 OR push_bit 3 (cls_value c)) OR 5 = hdr 15 c 5"
    by (simp_all only: hdr_bits)
  show ?thesis
  proof (cases "len \<le> 4")
    case True
    have g: "(push_bit 4 15 OR push_bit 3 (cls_value c)) OR len = hdr 15 c len"
      using False True by (intro hdr_bits) auto
    have h: "0 \<le> hdr 15 c len \<and> hdr 15 c len < 256"
      using False True by (intro hdr_range) auto
    show ?thesis
    proof (cases "n \<le> 14")
      case n: True
      with False True show ?thesis
        by (simp add: encode_tag_def TAGS_1BYTE_entry tag_octets_def)
    next
      case n: False
      then have "encode_tag n c len = mk_bytes [hdr 15 c len, n]"
        unfolding g [symmetric] using False True by (simp add: encode_tag_def Let_def)
      with n False True h show ?thesis
        by (simp add: tag_octets_def)
    qed
  next
    case len: False
    show ?thesis
    proof (cases "n \<le> 14")
      case True
      with False len r show ?thesis
        by (simp add: encode_tag_def Let_def f(3) tag_octets_def int_to_bytes_def min_def)
    next
      case big: False
      then have m: "min n 15 = 15" by simp
      from big False len r show ?thesis
        unfolding m
        by (simp add: encode_tag_def Let_def f(4) [simplified] tag_octets_def m
            int_to_bytes_def)
    qed
  qed
qed

lemma decode_tag_octets:
  assumes "0 \<le> n" "n \<le> 254" "0 \<le> len" "len \<le> 1048576"
  shows "decode_tag (p @ tag_octets n c len @ s) (length p) =
    Inr (\<lparr>number = n, cls = c, tag_length = len, is_opening = False, is_closing = False\<rparr>,
         length p + length (tag_octets n c len))"
proof -
  let ?lvt = "if len \<le> 4 then len else 5"
  let ?h = "hdr (min n 15) c ?lvt"
  have lvt: "0 \<le> ?lvt" "?lvt < 8" "\<not> ?lvt = 6" "\<not> ?lvt = 7" using assms by auto
  have "0 \<le> ?h \<and> ?h < 256" using assms by (intro hdr_range) auto
  then have u: "uint (byte_of ?h) = ?h" by simp
  have f: "drop_bit 4 ?h AND 15 = min n 15" "drop_bit 3 ?h AND 1 = cls_value c"
    "?h AND 7 = ?lvt"
    using assms by (intro hdr_fields; auto)+
  have fb: "int_from_bytes (be_bytes 2 len) = len" if "len \<le> 65535"
    using that assms by (simp add: int_from_be_bytes)
  have fb4: "int_from_bytes (be_bytes 4 len) = len"
    using assms by (simp add: int_from_be_bytes)
  show ?thesis
  proof (cases "n \<le> 14")
    case True
    then have "min n 15 = n" by simp
    with True assms u f lvt fb fb4 show ?thesis
      by (simp add: decode_tag_defs tag_octets_def Let_def nth_append py_slice_def)
  next
    case False
    then have "min n 15 = 15" by simp
    with False assms u f lvt fb fb4 show ?thesis
      by (simp add: decode_tag_defs tag_octets_def Let_def nth_append py_slice_def)
  qed
qed

end
