(* ===== verification/Tag_Scan.thy ===== *)
theory Tag_Scan
  imports Tags
begin

text \<open>
  \<open>encoding/tags.py\<close>, continued: what \<open>decode_tag\<close> guarantees on every buffer, the opening
  and closing tags, the scanner \<open>extract_context_value\<close> and \<open>decode_optional_context\<close>.
  A tree of elements (\<open>element\<close>) is the specification of a constructed value: what the
  encoders of the library write between an opening and a closing tag.
\<close>

section \<open>Every successful decode makes progress and is bounded\<close>

lemma decode_ext_number_bounds:
  assumes "decode_ext_number buf n off = Inr (n', off')" "0 \<le> n" "n \<le> 15" "off \<le> length buf"
  shows "off \<le> off' \<and> off' \<le> off + 1 \<and> off' \<le> length buf \<and> 0 \<le> n' \<and> n' \<le> 255"
  using assms by (auto simp: decode_ext_number_eq split: if_splits)

lemma decode_ext_length_bounds:
  assumes "decode_ext_length buf lvt off = Inr (len, off')" "0 \<le> lvt" "off \<le> length buf"
  shows "off \<le> off' \<and> off' \<le> off + 5 \<and> off' \<le> length buf \<and> 0 \<le> len"
  using assms by (auto simp: decode_ext_length_eq Let_def split: if_splits)

lemma decode_tag_bounds:
  assumes "decode_tag buf off = Inr (t, off')"
  shows "off < off' \<and> off' \<le> length buf \<and> off' \<le> off + 7
    \<and> 0 \<le> number t \<and> number t \<le> 255 \<and> 0 \<le> tag_length t \<and> tag_length t \<le> 1048576
    \<and> \<not> (is_opening t \<and> is_closing t)
    \<and> (is_opening t \<or> is_closing t \<longrightarrow> cls t = CONTEXT \<and> tag_length t = 0)"
proof -
  let ?i = "uint (buf ! off)"
  have r: "0 \<le> drop_bit 4 ?i AND 15" "drop_bit 4 ?i AND 15 \<le> 15" "0 \<le> ?i AND 7"
    by (simp_all add: bitarith)
  from assms obtain n o1 where lt: "off < length buf"
    and n: "decode_ext_number buf (drop_bit 4 ?i AND 15) (off + 1) = Inr (n, o1)"
    by (auto simp: decode_tag_eq Let_def)
  from decode_ext_number_bounds [OF n r(1,2)] lt
  have n': "off + 1 \<le> o1" "o1 \<le> off + 2" "o1 \<le> length buf" "0 \<le> n" "n \<le> 255" by auto
  show ?thesis
    using assms lt n' n decode_ext_length_bounds [OF _ r(3) n'(3)]
    by (fastforce simp: decode_tag_eq Let_def split: if_splits)
qed

lemma decode_tag_progress: "decode_tag buf off = Inr (t, off') \<Longrightarrow> off < off' \<and> off' \<le> length buf"
  using decode_tag_bounds by blast

lemma decode_tag_raises: "raises_only {ValueError} (decode_tag buf off)"
  unfolding decode_tag_defs Let_def by (auto intro!: raises_only_rbind raises_only_if)

section \<open>Opening and closing tags\<close>

definition mark_octets :: "int \<Rightarrow> int \<Rightarrow> bytes" where
  "mark_octets n lvt =
     byte_of (hdr (min n 15) CONTEXT lvt) # (if n \<le> 14 then [] else [byte_of n])"

lemma mark_or: "0 \<le> n \<Longrightarrow> push_bit 4 n OR 14 = n * 16 + 14"
  "0 \<le> n \<Longrightarrow> push_bit 4 n OR 15 = n * 16 + (15 :: int)"
  using or_low [of 14 4 n] or_low [of 15 4 n] by (simp_all add: push_bit_eq_mult)

lemma encode_opening_tag_eq:
  "0 \<le> n \<Longrightarrow> n \<le> 255 \<Longrightarrow> encode_opening_tag n = Inr (mark_octets n 6)"
  by (cases "n \<le> 14"; cases "n = 15")
    (simp_all add: encode_opening_tag_def OPENING_TAGS_def mark_octets_def hdr_def mark_or
      min_def algebra_simps del: upt_Suc)

lemma encode_closing_tag_eq:
  "0 \<le> n \<Longrightarrow> n \<le> 255 \<Longrightarrow> encode_closing_tag n = Inr (mark_octets n 7)"
  by (cases "n \<le> 14"; cases "n = 15")
    (simp_all add: encode_closing_tag_def CLOSING_TAGS_def mark_octets_def hdr_def mark_or
      min_def algebra_simps del: upt_Suc)

lemma decode_tag_mark:
  assumes "0 \<le> n" "n \<le> 255" "lvt = 6 \<or> lvt = 7"
  shows "decode_tag (p @ mark_octets n lvt @ s) (length p) =
    Inr (\<lparr>number = n, cls = CONTEXT, tag_length = 0,
          is_opening = (lvt = 6), is_closing = (lvt = 7)\<rparr>,
         length p + length (mark_octets n lvt))"
proof -
  let ?h = "hdr (min n 15) CONTEXT lvt"
  have "0 \<le> ?h \<and> ?h < 256" using assms by (intro hdr_range) auto
  then have u: "uint (byte_of ?h) = ?h" by simp
  have f: "drop_bit 4 ?h AND 15 = min n 15" "drop_bit 3 ?h AND 1 = cls_value CONTEXT"
    "?h AND 7 = lvt"
    using assms by (intro hdr_fields; auto)+
  have c: "cls_of 1 = CONTEXT" by (simp add: cls_of_def)
  show ?thesis
    using assms u f c
    by (auto simp: decode_tag_defs mark_octets_def Let_def nth_append min_def)
qed

section \<open>The scanner\<close>

definition MAX_CONTEXT_NESTING_DEPTH :: nat where
  "MAX_CONTEXT_NESTING_DEPTH = 32"

text \<open>The \<open>while\<close> loop of \<open>extract_context_value\<close>, with its two variables \<open>offset\<close> and \<open>depth\<close>.\<close>

function extract_loop ::
  "bytes \<Rightarrow> nat \<Rightarrow> int \<Rightarrow> nat \<Rightarrow> nat \<Rightarrow> py_error + bytes \<times> nat" where
  "extract_loop data value_start tag_number offset depth =
     (if depth > 0 \<and> offset < length data
      then rbind (decode_tag data offset) (\<lambda>(t, new_offset).
        if is_opening t
        then if depth + 1 > MAX_CONTEXT_NESTING_DEPTH then Inl ValueError
             else extract_loop data value_start tag_number new_offset (depth + 1)
        else if is_closing t
        then if depth - 1 = 0
             then if number t \<noteq> tag_number then Inl ValueError
                  else Inr (py_slice data value_start offset, new_offset)
             else extract_loop data value_start tag_number new_offset (depth - 1)
        else if cls t = APPLICATION \<and> number t = 1
        then extract_loop data value_start tag_number new_offset depth
        else if int new_offset + tag_length t > int (length data) then Inl ValueError
        else extract_loop data value_start tag_number (new_offset + nat (tag_length t)) depth)
      else Inl ValueError)"
  by pat_completeness auto
termination
proof (relation "measure (\<lambda>(data, s, n, offset, d). length data - offset)", goal_cases)
  case 1
  then show ?case by simp
qed (auto dest!: decode_tag_progress)

declare extract_loop.simps [simp del]

definition extract_context_value :: "bytes \<Rightarrow> nat \<Rightarrow> int \<Rightarrow> py_error + bytes \<times> nat" where
  "extract_context_value data offset tag_number = extract_loop data offset tag_number offset 1"

definition decode_optional_context ::
  "bytes \<Rightarrow> nat \<Rightarrow> int \<Rightarrow> (bytes \<Rightarrow> py_error + 'a) \<Rightarrow> py_error + 'a option \<times> nat" where
  "decode_optional_context data offset tag_number decode_fn =
     (if offset \<ge> length data then Inr (None, offset)
      else rbind (decode_tag data offset) (\<lambda>(tag, new_offset).
        if cls tag = CONTEXT \<and> number tag = tag_number \<and> \<not> is_opening tag \<and> \<not> is_closing tag
        then rbind (decode_fn (py_slice data new_offset (new_offset + nat (tag_length tag))))
               (\<lambda>v. Inr (Some v, new_offset + nat (tag_length tag)))
        else Inr (None, offset)))"

lemma extract_loop_raises: "raises_only {ValueError} (extract_loop data s n off d)"
proof (induction data s n off d rule: extract_loop.induct)
  case (1 data s n off d)
  show ?case
  proof (subst extract_loop.simps, intro raises_only_if raises_only_rbind decode_tag_raises)
    fix x assume c: "d > 0 \<and> off < length data" and x: "decode_tag data off = Inr x"
    obtain t new where tn: "x = (t, new)" by (cases x)
    show "raises_only {ValueError} (case x of (t, new_offset) \<Rightarrow>
      if is_opening t
      then if MAX_CONTEXT_NESTING_DEPTH < d + 1 then Inl ValueError
           else extract_loop data s n new_offset (d + 1)
      else if is_closing t
      then if d - 1 = 0
           then if number t \<noteq> n then Inl ValueError
                else Inr (py_slice data s off, new_offset)
           else extract_loop data s n new_offset (d - 1)
      else if cls t = APPLICATION \<and> number t = 1
      then extract_loop data s n new_offset d
      else if int (length data) < int new_offset + tag_length t then Inl ValueError
      else extract_loop data s n (new_offset + nat (tag_length t)) d)"
      using 1 [OF c x tn [symmetric]] unfolding tn by auto
  qed simp
qed

lemma extract_loop_result:
  assumes "extract_loop data s n off d = Inr (v, off')" and "s \<le> off"
  shows "\<exists>e t. s \<le> e \<and> v = py_slice data s e \<and> decode_tag data e = Inr (t, off')
    \<and> is_closing t \<and> number t = n"
  using assms
proof (induction data s n off d rule: extract_loop.induct)
  case (1 data s n off d)
  from "1.prems"(1) obtain t new where c: "d > 0 \<and> off < length data"
    and dt: "decode_tag data off = Inr (t, new)"
    by (subst (asm) extract_loop.simps) (auto split: if_splits)
  have le: "s \<le> new" using "1.prems"(2) decode_tag_progress [OF dt] by simp
  note IH = "1.IH" [OF c dt refl]
  from "1.prems"(1) show ?case
    by (subst (asm) extract_loop.simps)
      (use c dt le "1.prems"(2) IH in \<open>auto split: if_splits\<close>)
qed

section \<open>Specification: a tree of properly nested elements\<close>

text \<open>
  What the encoders of the library put between an opening and a closing tag: application
  booleans (value in the header, no contents), elements with contents, and constructed
  elements.  \<open>encode_element\<close> writes them with the code's own tag encoders.
\<close>

datatype element =
    BoolElem bool
  | DataElem tag_class int bytes
  | Constructed int "element list"

fun wf_element :: "element \<Rightarrow> bool" where
  "wf_element (BoolElem b) = True"
| "wf_element (DataElem c n bs) =
     (0 \<le> n \<and> n \<le> 254 \<and> length bs \<le> 1048576 \<and> \<not> (c = APPLICATION \<and> n = 1))"
| "wf_element (Constructed n es) = (0 \<le> n \<and> n \<le> 254 \<and> list_all wf_element es)"

fun nesting :: "element \<Rightarrow> nat" where
  "nesting (BoolElem b) = 0"
| "nesting (DataElem c n bs) = 0"
| "nesting (Constructed n es) = Suc (fold max (map nesting es) 0)"

fun concat_results :: "(py_error + bytes) list \<Rightarrow> py_error + bytes" where
  "concat_results [] = Inr []"
| "concat_results (m # ms) = rbind m (\<lambda>a. rbind (concat_results ms) (\<lambda>b. Inr (a @ b)))"

fun encode_element :: "element \<Rightarrow> py_error + bytes" where
  "encode_element (BoolElem b) = encode_tag 1 APPLICATION (if b then 1 else 0)"
| "encode_element (DataElem c n bs) =
     rbind (encode_tag n c (int (length bs))) (\<lambda>h. Inr (h @ bs))"
| "encode_element (Constructed n es) =
     rbind (encode_opening_tag n) (\<lambda>o'.
     rbind (concat_results (map encode_element es)) (\<lambda>body.
     rbind (encode_closing_tag n) (\<lambda>c. Inr (o' @ body @ c))))"

lemma fold_max_le: "fold max (xs :: nat list) a \<le> k \<longleftrightarrow> a \<le> k \<and> (\<forall>x\<in>set xs. x \<le> k)"
  by (induction xs arbitrary: a) auto

lemma tag_octets_nonempty [simp]: "tag_octets n c l \<noteq> []"
  and mark_octets_nonempty [simp]: "mark_octets n lvt \<noteq> []"
  by (simp_all add: tag_octets_def mark_octets_def)

text \<open>One iteration of the loop over each kind of header.\<close>

lemma extract_loop_open:
  assumes "0 \<le> n" "n \<le> 254" "0 < d" "d < 32" "length p = off"
  shows "extract_loop (p @ mark_octets n 6 @ s) vs tn off d =
    extract_loop (p @ mark_octets n 6 @ s) vs tn (off + length (mark_octets n 6)) (Suc d)"
  using decode_tag_mark [of n 6 p s] assms
  by (subst extract_loop.simps) (simp add: MAX_CONTEXT_NESTING_DEPTH_def)

lemma extract_loop_close:
  assumes "0 \<le> n" "n \<le> 254" "0 < d" "length p = off"
  shows "extract_loop (p @ mark_octets n 7 @ s) vs tn off (Suc d) =
    extract_loop (p @ mark_octets n 7 @ s) vs tn (off + length (mark_octets n 7)) d"
  using decode_tag_mark [of n 7 p s] assms
  by (subst extract_loop.simps) simp

lemma extract_loop_last:
  assumes "0 \<le> n" "n \<le> 254" "length p = off"
  shows "extract_loop (p @ mark_octets n 7 @ s) vs n off 1 =
    Inr (py_slice (p @ mark_octets n 7 @ s) vs off, off + length (mark_octets n 7))"
  using decode_tag_mark [of n 7 p s] assms
  by (subst extract_loop.simps) simp

lemma extract_loop_data:
  assumes "0 \<le> n" "n \<le> 254" "length bs \<le> 1048576" "\<not> (c = APPLICATION \<and> n = 1)"
    "0 < d" "length p = off"
  shows "extract_loop (p @ tag_octets n c (int (length bs)) @ bs @ s) vs tn off d =
    extract_loop (p @ tag_octets n c (int (length bs)) @ bs @ s) vs tn
      (off + length (tag_octets n c (int (length bs)) @ bs)) d"
  using decode_tag_octets [of n "int (length bs)" p c "bs @ s"] assms
  by (subst extract_loop.simps) (auto simp: add.assoc)

lemma extract_loop_bool:
  assumes "0 < d" "length p = off" "0 \<le> l" "l \<le> 1"
  shows "extract_loop (p @ tag_octets 1 APPLICATION l @ s) vs tn off d =
    extract_loop (p @ tag_octets 1 APPLICATION l @ s) vs tn
      (off + length (tag_octets 1 APPLICATION l)) d"
  using decode_tag_octets [of 1 l p APPLICATION s] assms
  by (subst extract_loop.simps) simp

lemma extract_loop_element:
  assumes "wf_element e" "encode_element e = Inr bs" "0 < d" "d + nesting e \<le> 32" "length p = off"
  shows "extract_loop (p @ bs @ s) vs tn off d =
    extract_loop (p @ bs @ s) vs tn (off + length bs) d"
  using assms
proof (induction e arbitrary: bs p s off d)
  case (BoolElem b)
  then show ?case by (auto simp: encode_tag_eq intro!: extract_loop_bool)
next
  case (DataElem c n cs)
  then show ?case
    using extract_loop_data [of n cs c d p off s vs tn]
    by (auto simp: encode_tag_eq)
next
  case (Constructed n es)
  from Constructed.prems have n: "0 \<le> n" "n \<le> 254" and d: "d < 32" by auto
  have fm: "\<forall>x\<in>set es. Suc d + nesting x \<le> 32"
    using Constructed.prems(4) fold_max_le [of "map nesting es" 0 "31 - d"] d by fastforce
  from Constructed.prems n obtain body where body: "concat_results (map encode_element es) = Inr body"
    and bs: "bs = mark_octets n 6 @ body @ mark_octets n 7"
    by (auto simp: encode_opening_tag_eq encode_closing_tag_eq)
  have list: "extract_loop (q @ body' @ t) vs tn (length q) (Suc d) =
      extract_loop (q @ body' @ t) vs tn (length q + length body') (Suc d)"
    if "set es' \<subseteq> set es" "concat_results (map encode_element es') = Inr body'" for es' body' q t
    using that
  proof (induction es' arbitrary: body' q)
    case (Cons e es')
    then obtain a b where ab: "encode_element e = Inr a"
      "concat_results (map encode_element es') = Inr b" "body' = a @ b" by auto
    have e: "e \<in> set es" "wf_element e" "Suc d + nesting e \<le> 32"
      using Cons.prems(1) Constructed.prems(1) fm by (auto simp: list_all_iff)
    show ?case
      using Constructed.IH [OF e(1,2) ab(1) _ e(3), of q "length q" "b @ t"]
        Cons.IH [of b "q @ a"] Cons.prems(1) ab
      by (simp add: add.assoc)
  qed simp
  show ?case
    using extract_loop_open [of n d p off "body @ mark_octets n 7 @ s" vs tn]
      list [OF subset_refl body, of "p @ mark_octets n 6" "mark_octets n 7 @ s"]
      extract_loop_close [of n d "p @ mark_octets n 6 @ body" _ s vs tn]
      n d Constructed.prems(3,5)
    by (simp add: bs add.assoc)
qed

lemma extract_loop_elements:
  assumes "list_all wf_element es" "concat_results (map encode_element es) = Inr bs"
    "\<forall>e\<in>set es. nesting e \<le> 31"
  shows "extract_loop (p @ bs @ s) vs tn (length p) 1 =
    extract_loop (p @ bs @ s) vs tn (length p + length bs) 1"
  using assms
proof (induction es arbitrary: bs p)
  case (Cons e es)
  then obtain a b where ab: "encode_element e = Inr a"
    "concat_results (map encode_element es) = Inr b" "bs = a @ b" by auto
  show ?case
    using extract_loop_element [OF _ ab(1), of 1 p "length p" "b @ s" vs tn]
      Cons.IH [of b "p @ a"] Cons.prems ab
    by (simp add: add.assoc)
qed simp

lemma extract_context_value_elements:
  assumes "list_all wf_element es" "\<forall>e\<in>set es. nesting e \<le> 31"
    "concat_results (map encode_element es) = Inr body"
    "0 \<le> n" "n \<le> 254" "encode_closing_tag n = Inr cl"
  shows "extract_context_value (p @ body @ cl @ s) (length p) n =
    Inr (body, length p + length body + length cl)"
proof -
  have cl: "cl = mark_octets n 7" using assms(4-6) by (simp add: encode_closing_tag_eq)
  show ?thesis
    using extract_loop_elements [OF assms(1,3,2), of p "cl @ s" "length p" n]
      extract_loop_last [OF assms(4,5), of "p @ body" _ s "length p"]
    by (simp add: extract_context_value_def cl)
qed

text \<open>More than 31 levels below the enclosing pair are refused, whatever follows.\<close>

lemma extract_loop_too_deep:
  assumes "0 \<le> n" "n \<le> 254" "0 < d" "d \<le> 32" "length p = off"
  shows "extract_loop (p @ concat (replicate (33 - d) (mark_octets n 6)) @ s) vs tn off d
    = Inl ValueError"
  using assms
proof (induction "32 - d" arbitrary: d p off)
  case 0
  then have "d = 32" by simp
  with 0 show ?case
    using decode_tag_mark [of n 6 p s]
    by (subst extract_loop.simps) (simp add: MAX_CONTEXT_NESTING_DEPTH_def)
next
  case (Suc k)
  let ?r = "concat (replicate (33 - Suc d) (mark_octets n 6))"
  have "replicate (33 - d) (mark_octets n 6) = mark_octets n 6 # replicate (33 - Suc d) (mark_octets n 6)"
    using Suc.hyps(2) by (simp flip: replicate_Suc add: Suc_diff_le)
  moreover have "extract_loop ((p @ mark_octets n 6) @ ?r @ s) vs tn
      (off + length (mark_octets n 6)) (Suc d) = Inl ValueError"
    using Suc by (intro Suc.hyps(1)) auto
  ultimately show ?case
    using extract_loop_open [of n d p off "?r @ s" vs tn] Suc by simp
qed

end
