(* ===== verification/Bacnet_Types.thy ===== *)
theory Bacnet_Types
  imports Prelude
begin

text \<open>
  \<open>types/primitives.py\<close>: object identifiers, dates, times and bit strings, with the
  constructors' checks, the four-octet form of an object identifier and the JSON forms.
  The lemmas give the object identifier's round trips in both directions, the bit order
  of a bit string, and what its JSON form keeps.
\<close>

section \<open>Object identifiers\<close>

text \<open>
  \<open>ObjectType(v)\<close>: the declared members are 0 to 62 and \<open>_missing_\<close> makes a member for
  every other value up to 1023; a member is its integer value here.
\<close>

definition ObjectType :: "int \<Rightarrow> py_error + int" where
  "ObjectType v = (if 0 \<le> v \<and> v \<le> 1023 then Inr v else Inl ValueError)"

record object_identifier =
  object_type :: int
  instance_number :: int

definition ObjectIdentifier :: "int \<Rightarrow> int \<Rightarrow> py_error + object_identifier" where
  "ObjectIdentifier ty inst =
     (if \<not> (0 \<le> ty \<and> ty \<le> 1023) then Inl ValueError
      else if \<not> (0 \<le> inst \<and> inst \<le> 0x3FFFFF) then Inl ValueError
      else Inr \<lparr>object_type = ty, instance_number = inst\<rparr>)"

definition oid_encode :: "object_identifier \<Rightarrow> py_error + bytes" where
  "oid_encode oid =
     int_to_bytes (push_bit 22 (object_type oid) OR (instance_number oid AND 0x3FFFFF)) 4"

definition oid_decode :: "bytes \<Rightarrow> py_error + object_identifier" where
  "oid_decode data =
     (let value = int_from_bytes (py_slice data 0 4)
      in rbind (ObjectType (drop_bit 22 value))
           (\<lambda>ty. ObjectIdentifier ty (value AND 0x3FFFFF)))"

definition valid_oid :: "object_identifier \<Rightarrow> bool" where
  "valid_oid oid \<longleftrightarrow> 0 \<le> object_type oid \<and> object_type oid \<le> 1023
     \<and> 0 \<le> instance_number oid \<and> instance_number oid \<le> 0x3FFFFF"

lemma ObjectIdentifier_Inr_iff [simp]:
  "ObjectIdentifier ty inst = Inr oid \<longleftrightarrow>
   valid_oid oid \<and> object_type oid = ty \<and> instance_number oid = inst"
  by (cases oid) (auto simp: ObjectIdentifier_def valid_oid_def)

text \<open>The 32-bit value of an identifier: type in the high ten bits, instance in the low 22.\<close>

lemma oid_value:
  assumes "valid_oid oid"
  shows "push_bit 22 (object_type oid) OR (instance_number oid AND 0x3FFFFF)
    = object_type oid * 2 ^ 22 + instance_number oid"
proof -
  have "instance_number oid AND 0x3FFFFF = instance_number oid"
    using assms by (simp add: bitarith valid_oid_def)
  then show ?thesis
    using or_low [of "instance_number oid" 22 "object_type oid"] assms
    by (simp add: push_bit_eq_mult valid_oid_def)
qed

lemma oid_encode_eq:
  assumes "valid_oid oid"
  shows "oid_encode oid = Inr (be_bytes 4 (object_type oid * 2 ^ 22 + instance_number oid))"
  unfolding oid_encode_def oid_value [OF assms]
  by (rule int_to_bytes_ok) (use assms in \<open>simp_all add: valid_oid_def\<close>)

lemma oid_fields:
  assumes "0 \<le> t" "t \<le> 1023" "0 \<le> i" "i \<le> (0x3FFFFF :: int)"
  shows "drop_bit 22 (t * 2 ^ 22 + i) = t" "(t * 2 ^ 22 + i) AND 0x3FFFFF = i"
  using assms by (simp_all add: bitarith)

lemma oid_decode_encode:
  assumes "valid_oid oid" "oid_encode oid = Inr bs"
  shows "oid_decode (bs @ s) = Inr oid \<and> length bs = 4"
proof -
  let ?v = "object_type oid * 2 ^ 22 + instance_number oid"
  have bs: "bs = be_bytes 4 ?v" using assms oid_encode_eq by simp
  have v: "0 \<le> ?v" "?v < 256 ^ 4" using assms(1) by (auto simp: valid_oid_def)
  have "int_from_bytes (py_slice (bs @ s) 0 4) = ?v"
    using v by (simp add: bs py_slice_def int_from_be_bytes)
  then show ?thesis
    using assms(1) oid_fields [of "object_type oid" "instance_number oid"]
    by (simp add: oid_decode_def Let_def ObjectType_def bs valid_oid_def)
qed

lemma oid_encode_decode:
  assumes "length bs = 4"
  shows "\<exists>oid. oid_decode bs = Inr oid \<and> valid_oid oid \<and> oid_encode oid = Inr bs"
proof -
  let ?v = "int_from_bytes bs"
  have v: "0 \<le> ?v" "?v < 2 ^ 32" using int_from_bytes_less [of bs] assms by simp_all
  let ?oid = "\<lparr>object_type = ?v div 2 ^ 22, instance_number = ?v mod 2 ^ 22\<rparr>"
  have ok: "valid_oid ?oid" using v by (auto simp: valid_oid_def pos_imp_zdiv_nonneg_iff)
  have "py_slice bs 0 4 = bs" using assms by (simp add: py_slice_def)
  then have "oid_decode bs = Inr ?oid"
    using ok by (simp add: oid_decode_def Let_def ObjectType_def bitarith valid_oid_def)
  moreover have "oid_encode ?oid = Inr bs"
    using oid_encode_eq [OF ok] be_bytes_from_bytes [of bs] assms by simp
  ultimately show ?thesis using ok by blast
qed

section \<open>Dates and times\<close>

record bacnet_date =
  year :: int
  month :: int
  day :: int
  day_of_week :: int

record bacnet_time =
  hour :: int
  minute :: int
  second :: int
  hundredth :: int

text \<open>\<open>to_dict\<close> and \<open>from_dict\<close>: the wildcard 0xFF is \<open>None\<close> in the JSON form.\<close>

definition wild_to_json :: "int \<Rightarrow> int option" where
  "wild_to_json v = (if v = 0xFF then None else Some v)"

definition wild_from_json :: "int option \<Rightarrow> int" where
  "wild_from_json j = (case j of None \<Rightarrow> 0xFF | Some v \<Rightarrow> v)"

definition date_to_dict :: "bacnet_date \<Rightarrow> (string \<times> int option) list" where
  "date_to_dict d =
     [(''year'', wild_to_json (year d)), (''month'', wild_to_json (month d)),
      (''day'', wild_to_json (day d)), (''day_of_week'', wild_to_json (day_of_week d))]"

definition dict_get :: "(string \<times> 'a) list \<Rightarrow> string \<Rightarrow> py_error + 'a" where
  "dict_get d k = (case map_of d k of None \<Rightarrow> Inl KeyError | Some v \<Rightarrow> Inr v)"

definition date_from_dict :: "(string \<times> int option) list \<Rightarrow> py_error + bacnet_date" where
  "date_from_dict d =
     rbind (dict_get d ''year'') (\<lambda>y. rbind (dict_get d ''month'') (\<lambda>m.
     rbind (dict_get d ''day'') (\<lambda>dd. rbind (dict_get d ''day_of_week'') (\<lambda>w.
       Inr \<lparr>year = wild_from_json y, month = wild_from_json m, day = wild_from_json dd,
            day_of_week = wild_from_json w\<rparr>))))"

definition time_to_dict :: "bacnet_time \<Rightarrow> (string \<times> int option) list" where
  "time_to_dict t =
     [(''hour'', wild_to_json (hour t)), (''minute'', wild_to_json (minute t)),
      (''second'', wild_to_json (second t)), (''hundredth'', wild_to_json (hundredth t))]"

definition time_from_dict :: "(string \<times> int option) list \<Rightarrow> py_error + bacnet_time" where
  "time_from_dict d =
     rbind (dict_get d ''hour'') (\<lambda>h. rbind (dict_get d ''minute'') (\<lambda>m.
     rbind (dict_get d ''second'') (\<lambda>s. rbind (dict_get d ''hundredth'') (\<lambda>c.
       Inr \<lparr>hour = wild_from_json h, minute = wild_from_json m, second = wild_from_json s,
            hundredth = wild_from_json c\<rparr>))))"

lemma wild_json [simp]: "wild_from_json (wild_to_json v) = v"
  by (simp add: wild_from_json_def wild_to_json_def)

lemma date_json: "date_from_dict (date_to_dict d) = Inr d"
  by (cases d) (simp add: date_from_dict_def date_to_dict_def dict_get_def)

lemma time_json: "time_from_dict (time_to_dict t) = Inr t"
  by (cases t) (simp add: time_from_dict_def time_to_dict_def dict_get_def)

section \<open>Bit strings\<close>

record bit_string =
  bs_data :: bytes
  unused_bits :: int

definition BitString :: "bytes \<Rightarrow> int \<Rightarrow> py_error + bit_string" where
  "BitString v unused =
     (if \<not> (0 \<le> unused \<and> unused \<le> 7) then Inl ValueError
      else if length v = 0 \<and> unused \<noteq> 0 then Inl ValueError
      else Inr \<lparr>bs_data = v, unused_bits = unused\<rparr>)"

definition bs_len :: "bit_string \<Rightarrow> int" where
  "bs_len b = int (length (bs_data b)) * 8 - unused_bits b"

definition bs_getitem :: "bit_string \<Rightarrow> int \<Rightarrow> py_error + bool" where
  "bs_getitem b i =
     (if i < 0 \<or> i \<ge> bs_len b then Inl IndexError
      else rbind (py_index (bs_data b) (i div 8))
             (\<lambda>x. Inr (uint x AND push_bit (nat (7 - i mod 8)) 1 \<noteq> 0)))"

fun sequence :: "(py_error + 'a) list \<Rightarrow> py_error + 'a list" where
  "sequence [] = Inr []"
| "sequence (m # ms) = rbind m (\<lambda>x. rbind (sequence ms) (\<lambda>xs. Inr (x # xs)))"

definition bs_to_dict :: "bit_string \<Rightarrow> py_error + bool list \<times> int" where
  "bs_to_dict b =
     rbind (sequence (map (\<lambda>i. bs_getitem b (int i)) [0..<nat (bs_len b)]))
       (\<lambda>bits. Inr (bits, unused_bits b))"

text \<open>The loop of \<open>from_dict\<close>: \<open>result[i // 8] |= 1 << (7 - (i % 8))\<close> for each set bit.\<close>

fun fill_bits :: "bool list \<Rightarrow> nat \<Rightarrow> bytes \<Rightarrow> bytes" where
  "fill_bits [] i r = r"
| "fill_bits (b # bs) i r =
     fill_bits bs (Suc i)
       (if b then r[i div 8 := r ! (i div 8) OR push_bit (7 - i mod 8) 1] else r)"

definition bs_from_dict :: "bool list \<times> int \<Rightarrow> py_error + bit_string" where
  "bs_from_dict d =
     (case d of (bits, unused) \<Rightarrow>
        BitString (fill_bits bits 0 (replicate ((length bits + 7) div 8) 0)) unused)"

definition valid_bs :: "bit_string \<Rightarrow> bool" where
  "valid_bs b \<longleftrightarrow> 0 \<le> unused_bits b \<and> unused_bits b \<le> 7
     \<and> (bs_data b = [] \<longrightarrow> unused_bits b = 0)"

lemma BitString_Inr_iff [simp]:
  "BitString v u = Inr b \<longleftrightarrow> valid_bs b \<and> bs_data b = v \<and> unused_bits b = u"
  by (cases b) (auto simp: BitString_def valid_bs_def)

text \<open>Bit \<open>k\<close> of a byte list, most significant bit of each octet first.\<close>

definition msb_bit :: "bytes \<Rightarrow> nat \<Rightarrow> bool" where
  "msb_bit r k \<longleftrightarrow> bit (r ! (k div 8)) (7 - k mod 8)"

lemma length_fill_bits [simp]: "length (fill_bits bits i r) = length r"
  by (induction bits i r rule: fill_bits.induct) auto

lemma fill_bits_bit:
  assumes "i + length bits \<le> 8 * length r" "k < 8 * length r"
  shows "msb_bit (fill_bits bits i r) k \<longleftrightarrow>
    msb_bit r k \<or> (i \<le> k \<and> k < i + length bits \<and> bits ! (k - i))"
  using assms
proof (induction bits arbitrary: i r)
  case (Cons b bits)
  let ?r = "if b then r[i div 8 := r ! (i div 8) OR push_bit (7 - i mod 8) 1] else r"
  have i: "i div 8 < length r" using Cons.prems by auto
  have upd: "msb_bit ?r k \<longleftrightarrow> msb_bit r k \<or> (b \<and> k = i)"
  proof (cases "k div 8 = i div 8")
    case True
    have "k mod 8 = i mod 8 \<longleftrightarrow> k = i" using True by (metis div_mult_mod_eq)
    moreover have "bit (push_bit (7 - i mod 8) 1 :: byte) (7 - k mod 8) \<longleftrightarrow> k mod 8 = i mod 8"
    proof -
      have "i mod 8 < 8" "k mod 8 < 8" by simp_all
      then show ?thesis by (auto simp: bit_simps)
    qed
    ultimately show ?thesis using True i by (auto simp: msb_bit_def bit_or_iff)
  next
    case False
    then show ?thesis by (auto simp: msb_bit_def)
  qed
  have "msb_bit (fill_bits bits (Suc i) ?r) k \<longleftrightarrow>
      msb_bit ?r k \<or> (Suc i \<le> k \<and> k < Suc i + length bits \<and> bits ! (k - Suc i))"
    by (rule Cons.IH) (use Cons.prems in auto)
  moreover have "(b # bits) ! (k - i) = bits ! (k - Suc i)" if "Suc i \<le> k"
    using that by (simp add: nth_Cons')
  ultimately show ?case using upd
    by (cases "k = i") (auto simp: less_eq_Suc_le)
qed auto

lemma bs_getitem_eq:
  assumes "valid_bs b" "int k < bs_len b"
  shows "bs_getitem b (int k) = Inr (msb_bit (bs_data b) k)"
proof -
  have k: "k div 8 < length (bs_data b)"
    using assms by (auto simp: bs_len_def valid_bs_def)
  have "int k div 8 = int (k div 8)" "7 - int k mod 8 = int (7 - k mod 8)"
    by (simp_all add: zdiv_int zmod_int of_nat_diff)
  moreover have "nat (7 - int m) = 7 - m" for m by arith
  moreover have "7 - k mod 8 < 8" by simp
  ultimately show ?thesis
    using assms k
    by (simp add: bs_getitem_def msb_bit_def push_bit_eq_mult and_pow_ne_0 bit_uint_iff
        conj_absorb del: diff_less_Suc)
qed

lemma sequence_Inr: "\<forall>x\<in>set xs. f x = Inr (g x) \<Longrightarrow> sequence (map f xs) = Inr (map g xs)"
  by (induction xs) auto

text \<open>
  The JSON form of a bit string is the list of its significant bits; reading it back keeps
  the length and those bits, and clears the padding of the last octet.
\<close>

lemma bs_json:
  assumes "valid_bs b"
  shows "\<exists>d b'. bs_to_dict b = Inr d \<and> bs_from_dict d = Inr b' \<and> valid_bs b'
    \<and> unused_bits b' = unused_bits b \<and> length (bs_data b') = length (bs_data b)
    \<and> (\<forall>k < 8 * length (bs_data b).
          msb_bit (bs_data b') k \<longleftrightarrow> int k < bs_len b \<and> msb_bit (bs_data b) k)"
proof -
  let ?n = "length (bs_data b)" and ?L = "nat (bs_len b)"
  let ?bits = "map (msb_bit (bs_data b)) [0..<?L]"
  have u: "0 \<le> unused_bits b" "unused_bits b \<le> 7" "?n = 0 \<Longrightarrow> unused_bits b = 0"
    using assms by (auto simp: valid_bs_def)
  have L: "int ?L = int ?n * 8 - unused_bits b"
    using u by (cases "bs_data b") (auto simp: bs_len_def)
  have len: "(?L + 7) div 8 = ?n"
  proof -
    have "?L + 7 = ?n * 8 + nat (7 - unused_bits b)" using L u by linarith
    moreover have "nat (7 - unused_bits b) < 8" using u by linarith
    ultimately show ?thesis by simp
  qed
  let ?data = "fill_bits ?bits 0 (replicate ?n 0)"
  have d: "bs_to_dict b = Inr (?bits, unused_bits b)"
  proof -
    have "\<forall>i\<in>set [0..<?L]. bs_getitem b (int i) = Inr (msb_bit (bs_data b) i)"
      using assms by (auto intro!: bs_getitem_eq)
    then show ?thesis by (simp add: bs_to_dict_def sequence_Inr)
  qed
  have v: "valid_bs \<lparr>bs_data = ?data, unused_bits = unused_bits b\<rparr>"
    using u by (auto simp: valid_bs_def simp flip: length_0_conv)
  have "bs_from_dict (?bits, unused_bits b) = Inr \<lparr>bs_data = ?data, unused_bits = unused_bits b\<rparr>"
    using v by (simp add: bs_from_dict_def len)
  moreover have "msb_bit ?data k \<longleftrightarrow> int k < bs_len b \<and> msb_bit (bs_data b) k" if k: "k < 8 * ?n" for k
  proof -
    have "\<not> msb_bit (replicate ?n (0 :: byte)) k"
      using k by (simp add: msb_bit_def)
    moreover have "?L \<le> 8 * ?n" using L u by linarith
    ultimately have "msb_bit ?data k \<longleftrightarrow> k < ?L \<and> ?bits ! k"
      using k fill_bits_bit [of 0 ?bits "replicate ?n 0" k] by simp
    then show ?thesis by auto
  qed
  ultimately show ?thesis using d v by auto
qed

end
