(* ===== verification/Charset.thy ===== *)
theory Charset
  imports Prelude
begin

text \<open>
  The codecs behind BACnet character strings.  A Python \<open>str\<close> is a list of code points.
  \<open>str.encode\<close> and \<open>bytes.decode\<close> with strict error handling for the character sets the
  library names: UTF-8, UTF-16BE, UTF-32BE and ISO 8859-1.  (The JIS codec needs its code
  table and is a parameter where the library calls it.)  The interface \<open>text_codec\<close>
  states what the library relies on, and each codec is an interpretation of it.
\<close>

type_synonym py_str = "int list"

definition surrogate :: "int \<Rightarrow> bool" where
  "surrogate c \<longleftrightarrow> 0xD800 \<le> c \<and> c \<le> 0xDFFF"

definition code_point :: "int \<Rightarrow> bool" where
  "code_point c \<longleftrightarrow> 0 \<le> c \<and> c \<le> 0x10FFFF"

fun map_concat :: "('a \<Rightarrow> py_error + bytes) \<Rightarrow> 'a list \<Rightarrow> py_error + bytes" where
  "map_concat f [] = Inr []"
| "map_concat f (x # xs) = rbind (f x) (\<lambda>a. rbind (map_concat f xs) (\<lambda>b. Inr (a @ b)))"

text \<open>A decoder step prepends one code point to the rest of the decoded text.\<close>

definition rcons :: "int \<Rightarrow> py_error + py_str \<Rightarrow> py_error + py_str" where
  "rcons c m = rbind m (\<lambda>s. Inr (c # s))"

lemma rcons_cong [fundef_cong]: "c = c' \<Longrightarrow> m = m' \<Longrightarrow> rcons c m = rcons c' m'"
  by simp

lemma rcons_Inr [simp]: "rcons c (Inr s) = Inr (c # s)"
  by (simp add: rcons_def)

lemma raises_only_rcons [intro]: "raises_only E m \<Longrightarrow> raises_only E (rcons c m)"
  by (auto simp: rcons_def)

section \<open>The four codecs\<close>

definition utf8_char :: "int \<Rightarrow> py_error + bytes" where
  "utf8_char c =
     (if c < 0x80 then Inr [byte_of c]
      else if c < 0x800 then Inr [byte_of (0xC0 + c div 64), byte_of (0x80 + c mod 64)]
      else if surrogate c then Inl UnicodeError
      else if c < 0x10000
      then Inr [byte_of (0xE0 + c div 4096), byte_of (0x80 + c div 64 mod 64),
                byte_of (0x80 + c mod 64)]
      else Inr [byte_of (0xF0 + c div 262144), byte_of (0x80 + c div 4096 mod 64),
                byte_of (0x80 + c div 64 mod 64), byte_of (0x80 + c mod 64)])"

definition cont :: "byte \<Rightarrow> bool" where
  "cont b \<longleftrightarrow> 0x80 \<le> uint b \<and> uint b < 0xC0"

definition cval :: "byte \<Rightarrow> int" where
  "cval b = uint b - 0x80"

fun utf8_decode :: "bytes \<Rightarrow> py_error + py_str" where
  "utf8_decode [] = Inr []"
| "utf8_decode (b0 # r) =
     (let v = uint b0 in
      if v < 0x80 then rcons v (utf8_decode r)
      else if 0xC2 \<le> v \<and> v \<le> 0xDF then
        (case r of
           b1 # r' \<Rightarrow>
             if cont b1 then rcons ((v - 0xC0) * 64 + cval b1) (utf8_decode r')
             else Inl UnicodeError
         | _ \<Rightarrow> Inl UnicodeError)
      else if 0xE0 \<le> v \<and> v \<le> 0xEF then
        (case r of
           b1 # b2 # r' \<Rightarrow>
             let c = (v - 0xE0) * 4096 + cval b1 * 64 + cval b2
             in if cont b1 \<and> cont b2 \<and> 0x800 \<le> c \<and> \<not> surrogate c
                then rcons c (utf8_decode r') else Inl UnicodeError
         | _ \<Rightarrow> Inl UnicodeError)
      else if 0xF0 \<le> v \<and> v \<le> 0xF4 then
        (case r of
           b1 # b2 # b3 # r' \<Rightarrow>
             let c = (v - 0xF0) * 262144 + cval b1 * 4096 + cval b2 * 64 + cval b3
             in if cont b1 \<and> cont b2 \<and> cont b3 \<and> 0x10000 \<le> c \<and> c \<le> 0x10FFFF
                then rcons c (utf8_decode r') else Inl UnicodeError
         | _ \<Rightarrow> Inl UnicodeError)
      else Inl UnicodeError)"

definition utf16_char :: "int \<Rightarrow> py_error + bytes" where
  "utf16_char c =
     (if surrogate c then Inl UnicodeError
      else if c < 0x10000 then Inr (be_bytes 2 c)
      else Inr (be_bytes 2 (0xD800 + (c - 0x10000) div 1024)
                @ be_bytes 2 (0xDC00 + (c - 0x10000) mod 1024)))"

fun utf16_decode :: "bytes \<Rightarrow> py_error + py_str" where
  "utf16_decode [] = Inr []"
| "utf16_decode [b] = Inl UnicodeError"
| "utf16_decode (b0 # b1 # r) =
     (let u = int_from_bytes [b0, b1] in
      if \<not> surrogate u then rcons u (utf16_decode r)
      else if u < 0xDC00 then
        (case r of
           b2 # b3 # r' \<Rightarrow>
             let l = int_from_bytes [b2, b3]
             in if 0xDC00 \<le> l \<and> l \<le> 0xDFFF
                then rcons (0x10000 + (u - 0xD800) * 1024 + (l - 0xDC00)) (utf16_decode r')
                else Inl UnicodeError
         | _ \<Rightarrow> Inl UnicodeError)
      else Inl UnicodeError)"

definition utf32_char :: "int \<Rightarrow> py_error + bytes" where
  "utf32_char c = (if surrogate c then Inl UnicodeError else Inr (be_bytes 4 c))"

fun utf32_decode :: "bytes \<Rightarrow> py_error + py_str" where
  "utf32_decode [] = Inr []"
| "utf32_decode (b0 # b1 # b2 # b3 # r) =
     (let c = int_from_bytes [b0, b1, b2, b3]
      in if surrogate c \<or> 0x10FFFF < c then Inl UnicodeError
         else rcons c (utf32_decode r))"
| "utf32_decode _ = Inl UnicodeError"

definition latin1_char :: "int \<Rightarrow> py_error + bytes" where
  "latin1_char c = (if c < 256 then Inr [byte_of c] else Inl UnicodeError)"

definition latin1_decode :: "bytes \<Rightarrow> py_error + py_str" where
  "latin1_decode bs = Inr (map uint bs)"

abbreviation utf8_encode :: "py_str \<Rightarrow> py_error + bytes" where
  "utf8_encode \<equiv> map_concat utf8_char"

abbreviation utf16_encode :: "py_str \<Rightarrow> py_error + bytes" where
  "utf16_encode \<equiv> map_concat utf16_char"

abbreviation utf32_encode :: "py_str \<Rightarrow> py_error + bytes" where
  "utf32_encode \<equiv> map_concat utf32_char"

abbreviation latin1_encode :: "py_str \<Rightarrow> py_error + bytes" where
  "latin1_encode \<equiv> map_concat latin1_char"

section \<open>The interface of a codec\<close>

text \<open>
  What a client relies on: decoding the octets of one code point followed by a valid rest
  gives that code point and the rest.  From it: a whole text survives the round trip, and
  two texts with the same octets are equal.
\<close>

locale text_codec =
  fixes enc_char :: "int \<Rightarrow> py_error + bytes"
    and dec :: "bytes \<Rightarrow> py_error + py_str"
  assumes dec_Nil: "dec [] = Inr []"
    and dec_char: "code_point c \<Longrightarrow> enc_char c = Inr bs \<Longrightarrow> dec (bs @ r) = rcons c (dec r)"
begin

lemma dec_enc:
  "\<forall>c\<in>set s. code_point c \<Longrightarrow> map_concat enc_char s = Inr bs \<Longrightarrow> dec bs = Inr s"
proof (induction s arbitrary: bs)
  case (Cons c s)
  then obtain a b where "enc_char c = Inr a" "map_concat enc_char s = Inr b" "bs = a @ b" by auto
  with Cons show ?case using dec_char [of c a b] by simp
qed (simp add: dec_Nil)

lemma enc_inj:
  assumes "\<forall>c\<in>set s. code_point c" "\<forall>c\<in>set t. code_point c"
    "map_concat enc_char s = Inr bs" "map_concat enc_char t = Inr bs"
  shows "s = t"
  using dec_enc [OF assms(1,3)] dec_enc [OF assms(2,4)] by simp

end

text \<open>The base-64 digits of a code point.\<close>

lemma digits64:
  fixes c :: int
  shows "c = c div 64 * 64 + c mod 64"
    and "c = c div 4096 * 4096 + c div 64 mod 64 * 64 + c mod 64"
    and "c = c div 262144 * 262144 + c div 4096 mod 64 * 4096 + c div 64 mod 64 * 64 + c mod 64"
proof -
  show e1: "c = c div 64 * 64 + c mod 64" by simp
  have d: "c div 4096 = c div 64 div 64" "c div 262144 = c div 4096 div 64"
    by (simp_all add: zdiv_zmult2_eq [symmetric])
  have "c div 64 = c div 4096 * 64 + c div 64 mod 64" unfolding d by simp
  with e1 show e2: "c = c div 4096 * 4096 + c div 64 mod 64 * 64 + c mod 64" by linarith
  have "c div 4096 = c div 262144 * 64 + c div 4096 mod 64" unfolding d(2) by simp
  with e2 show "c = c div 262144 * 262144 + c div 4096 mod 64 * 4096 + c div 64 mod 64 * 64 + c mod 64"
    by linarith
qed

lemma cont_byte [simp]:
  "0 \<le> d \<Longrightarrow> d < 64 \<Longrightarrow> cont (byte_of (0x80 + d))"
  "0 \<le> d \<Longrightarrow> d < 64 \<Longrightarrow> cval (byte_of (0x80 + d)) = d"
  by (simp_all add: cont_def cval_def)

lemma utf8_decode_2:
  assumes "2 \<le> a" "a < 32" "0 \<le> d" "d < 64"
  shows "utf8_decode (byte_of (0xC0 + a) # byte_of (0x80 + d) # r)
    = rcons (a * 64 + d) (utf8_decode r)"
  using assms by (simp add: Let_def)

lemma utf8_decode_3:
  assumes "0 \<le> a" "a < 16" "0 \<le> b" "b < 64" "0 \<le> d" "d < 64"
    "0x800 \<le> a * 4096 + b * 64 + d" "\<not> surrogate (a * 4096 + b * 64 + d)"
  shows "utf8_decode (byte_of (0xE0 + a) # byte_of (0x80 + b) # byte_of (0x80 + d) # r)
    = rcons (a * 4096 + b * 64 + d) (utf8_decode r)"
  using assms by (simp add: Let_def)

lemma utf8_decode_4:
  assumes "0 \<le> a" "a < 5" "0 \<le> e" "e < 64" "0 \<le> b" "b < 64" "0 \<le> d" "d < 64"
    "0x10000 \<le> a * 262144 + e * 4096 + b * 64 + d"
    "a * 262144 + e * 4096 + b * 64 + d \<le> 0x10FFFF"
  shows "utf8_decode
      (byte_of (0xF0 + a) # byte_of (0x80 + e) # byte_of (0x80 + b) # byte_of (0x80 + d) # r)
    = rcons (a * 262144 + e * 4096 + b * 64 + d) (utf8_decode r)"
  using assms by (simp add: Let_def)

lemma utf8_dec_char:
  assumes "code_point c" "utf8_char c = Inr bs"
  shows "utf8_decode (bs @ r) = rcons c (utf8_decode r)"
proof -
  have c: "0 \<le> c" "c \<le> 0x10FFFF" using assms(1) by (simp_all add: code_point_def)
  have m: "0 \<le> x mod 64" "x mod 64 < 64" for x :: int by simp_all
  consider "c < 0x80" | "0x80 \<le> c" "c < 0x800" | "0x800 \<le> c" "c < 0x10000" "\<not> surrogate c"
    | "0x10000 \<le> c"
    using assms(2) by (force simp: utf8_char_def split: if_splits)
  then show ?thesis
  proof cases
    case 1
    with assms c show ?thesis by (auto simp: utf8_char_def)
  next
    case 2
    then have "2 \<le> c div 64" "c div 64 < 32" by linarith+
    from utf8_decode_2 [OF this m [of c], of r] 2 assms(2) show ?thesis
      unfolding digits64(1) [of c, symmetric] by (auto simp: utf8_char_def simp del: utf8_decode.simps)
  next
    case 3
    then have d: "0 \<le> c div 4096" "c div 4096 < 16" by linarith+
    from utf8_decode_3 [OF this m [of "c div 64"] m [of c], of r,
        unfolded digits64(2) [of c, symmetric]] 3 assms(2)
    show ?thesis by (auto simp: utf8_char_def simp del: utf8_decode.simps)
  next
    case 4
    then have d: "0 \<le> c div 262144" "c div 262144 < 5" "\<not> surrogate c"
      using c by (auto simp: surrogate_def)
    from utf8_decode_4 [OF d(1,2) m [of "c div 4096"] m [of "c div 64"] m [of c], of r,
        unfolded digits64(3) [of c, symmetric]] 4 c d assms(2)
    show ?thesis by (auto simp: utf8_char_def simp del: utf8_decode.simps)
  qed
qed

interpretation utf8: text_codec utf8_char utf8_decode
  by unfold_locales (simp, rule utf8_dec_char)

lemma be_bytes_2: "\<exists>b0 b1. be_bytes 2 v = [b0, b1] \<and> int_from_bytes [b0, b1] = v mod 65536"
proof -
  have "length (be_bytes 2 v) = 2" by simp
  then obtain b0 b1 where "be_bytes 2 v = [b0, b1]"
    by (auto simp del: length_be_bytes simp: numeral_2_eq_2 length_Suc_conv)
  with int_from_be_bytes [of 2 v] show ?thesis by simp
qed

lemma utf16_dec_char:
  assumes "code_point c" "utf16_char c = Inr bs"
  shows "utf16_decode (bs @ r) = rcons c (utf16_decode r)"
proof (cases "c < 0x10000")
  case True
  with assms have s: "\<not> surrogate c" "0 \<le> c" "bs = be_bytes 2 c"
    by (auto simp: utf16_char_def code_point_def split: if_splits)
  from be_bytes_2 [of c] True s show ?thesis by auto
next
  case False
  define h l where hl: "h = (c - 0x10000) div 1024" "l = (c - 0x10000) mod 1024"
  have b: "0 \<le> h" "h < 1024" "0 \<le> l" "l < 1024" and c: "c = 0x10000 + h * 1024 + l"
    using False assms(1) by (auto simp: code_point_def hl)
  from False assms have bs: "bs = be_bytes 2 (0xD800 + h) @ be_bytes 2 (0xDC00 + l)"
    by (auto simp: utf16_char_def hl split: if_splits)
  obtain b0 b1 b2 b3 where e: "be_bytes 2 (0xD800 + h) = [b0, b1]"
      "int_from_bytes [b0, b1] = 0xD800 + h" "be_bytes 2 (0xDC00 + l) = [b2, b3]"
      "int_from_bytes [b2, b3] = 0xDC00 + l"
    using be_bytes_2 [of "0xD800 + h"] be_bytes_2 [of "0xDC00 + l"] b by auto
  have "surrogate (0xD800 + h)" using b by (simp add: surrogate_def)
  then show ?thesis using b by (simp add: bs e c)
qed

interpretation utf16: text_codec utf16_char utf16_decode
  by unfold_locales (simp, rule utf16_dec_char)

lemma utf32_dec_char:
  assumes "code_point c" "utf32_char c = Inr bs"
  shows "utf32_decode (bs @ r) = rcons c (utf32_decode r)"
proof -
  from assms have s: "\<not> surrogate c" "bs = be_bytes 4 c"
    by (auto simp: utf32_char_def split: if_splits)
  then have "length bs = 4" by simp
  then obtain b0 b1 b2 b3 where b: "bs = [b0, b1, b2, b3]"
    by (auto simp: numeral_eq_Suc length_Suc_conv)
  have "int_from_bytes [b0, b1, b2, b3] = c"
    unfolding b [symmetric] s(2) using assms(1) by (simp add: int_from_be_bytes code_point_def)
  with assms(1) s(1) show ?thesis unfolding b by (simp add: code_point_def)
qed

interpretation utf32: text_codec utf32_char utf32_decode
  by unfold_locales (simp, rule utf32_dec_char)

interpretation latin1: text_codec latin1_char latin1_decode
  by unfold_locales
    (auto simp: latin1_decode_def latin1_char_def code_point_def split: if_splits)

end
