(* ===== verification/Float_Bits.thy ===== *)
theory Float_Bits
  imports Prelude
begin

text \<open>
  Python floats and the \<open>struct\<close> formats \<open>">f"\<close> and \<open>">d"\<close>.  A float is its IEEE-754
  binary64 pattern, a \<open>64 word\<close>; packing as \<open>"f"\<close> rounds to the nearest binary32 value,
  ties to even, and raises OverflowError when a finite value becomes too large; unpacking
  is exact.  The lemmas show that unpacking and then packing a number gives it back.
\<close>

type_synonym py_float = "64 word"

definition f64_parts :: "py_float \<Rightarrow> int \<times> int \<times> int" where
  "f64_parts x = (let u = uint x in (u div 2 ^ 63, u div 2 ^ 52 mod 2 ^ 11, u mod 2 ^ 52))"

definition f64_make :: "int \<Rightarrow> int \<Rightarrow> int \<Rightarrow> py_float" where
  "f64_make s e m = word_of_int (s * 2 ^ 63 + e * 2 ^ 52 + m)"

definition f32_parts :: "int \<Rightarrow> int \<times> int \<times> int" where
  "f32_parts u = (u div 2 ^ 31, u div 2 ^ 23 mod 2 ^ 8, u mod 2 ^ 23)"

definition f32_nan :: "int \<Rightarrow> bool" where
  "f32_nan u \<longleftrightarrow> u div 2 ^ 23 mod 2 ^ 8 = 255 \<and> u mod 2 ^ 23 \<noteq> 0"

text \<open>Division by \<open>2\<^sup>k\<close> rounded to the nearest integer, ties to even.\<close>

definition round_half_even :: "int \<Rightarrow> nat \<Rightarrow> int" where
  "round_half_even m k =
     (let q = m div 2 ^ k; r = m mod 2 ^ k
      in if 2 * r > 2 ^ k \<or> (2 * r = 2 ^ k \<and> odd q) then q + 1 else q)"

text \<open>The binary32 pattern, without the sign, of a finite binary64 number.\<close>

definition f32_magnitude :: "int \<Rightarrow> int \<Rightarrow> int" where
  "f32_magnitude e m =
     (let sig = (if e = 0 then m else 2 ^ 52 + m); e' = (if e = 0 then 1 else e) - 896
      in if 1 \<le> e' then (e' - 1) * 2 ^ 23 + round_half_even sig 29
         else round_half_even sig (nat (30 - e')))"

definition pack_f :: "py_float \<Rightarrow> py_error + bytes" where
  "pack_f x =
     (case f64_parts x of (s, e, m) \<Rightarrow>
        if e = 2047
        then Inr (be_bytes 4 (s * 2 ^ 31 + 255 * 2 ^ 23
               + (if m = 0 then 0 else m div 2 ^ 29 mod 2 ^ 22 + 2 ^ 22)))
        else let a = f32_magnitude e m
             in if 255 * 2 ^ 23 \<le> a then Inl OverflowError
                else Inr (be_bytes 4 (s * 2 ^ 31 + a)))"

definition unpack_f :: "bytes \<Rightarrow> py_float" where
  "unpack_f bs =
     (case f32_parts (int_from_bytes bs) of (s, e, m) \<Rightarrow>
        if e = 255
        then f64_make s 2047 (if m = 0 then 0 else m mod 2 ^ 22 * 2 ^ 29 + 2 ^ 51)
        else if e = 0
        then if m = 0 then f64_make s 0 0
             else f64_make s (int (bit_length m) + 873)
                    ((m - 2 ^ (bit_length m - 1)) * 2 ^ (53 - bit_length m))
        else f64_make s (e + 896) (m * 2 ^ 29))"

definition pack_d :: "py_float \<Rightarrow> bytes" where
  "pack_d x = be_bytes 8 (uint x)"

definition unpack_d :: "bytes \<Rightarrow> py_float" where
  "unpack_d bs = word_of_int (int_from_bytes bs)"

section \<open>Round trips\<close>

lemma length_pack_f: "pack_f x = Inr bs \<Longrightarrow> length bs = 4"
  by (auto simp: pack_f_def Let_def split: prod.splits if_splits)

lemma length_pack_d [simp]: "length (pack_d x) = 8"
  by (simp add: pack_d_def)

lemma pack_f_raises: "raises_only {OverflowError} (pack_f x)"
  by (auto simp: pack_f_def Let_def split: prod.splits)

lemma unpack_pack_d: "unpack_d (pack_d x) = x"
proof -
  have "uint x < 256 ^ 8" using uint_lt2p [of x] by simp
  then show ?thesis by (simp add: unpack_d_def pack_d_def int_from_be_bytes)
qed

lemma pack_unpack_d: "length bs = 8 \<Longrightarrow> pack_d (unpack_d bs) = bs"
  using int_from_bytes_less [of bs] be_bytes_from_bytes [of bs]
  by (simp add: pack_d_def unpack_d_def uint_word_of_int)

lemma f64_parts_make:
  assumes "0 \<le> s" "s \<le> 1" "0 \<le> e" "e < 2 ^ 11" "0 \<le> m" "m < 2 ^ 52"
  shows "f64_parts (f64_make s e m) = (s, e, m)"
proof -
  let ?v = "s * 2 ^ 63 + e * 2 ^ 52 + m"
  have "?v mod 2 ^ LENGTH(64) = ?v"
    using assms by (intro mod_pos_pos_trivial) (simp_all del: of_int_add)
  then have u: "uint (f64_make s e m) = ?v"
    by (simp only: f64_make_def uint_word_of_int)
  have "?v div 2 ^ 52 = s * 2 ^ 11 + e" using assms by (simp add: div_plus_div_distrib_dvd_left)
  moreover have "?v mod 2 ^ 52 = m"
  proof -
    have "?v = m + (s * 2 ^ 11 + e) * 2 ^ 52" by simp
    then show ?thesis using assms by (simp only: mod_mult_self1 mod_pos_pos_trivial)
  qed
  moreover have "?v div 2 ^ 63 = s" using assms by simp
  ultimately show ?thesis using assms by (simp add: f64_parts_def Let_def u)
qed

lemma round_exact: "round_half_even (a * 2 ^ k) k = a"
  by (simp add: round_half_even_def)

lemma f32_magnitude_normal:
  assumes "1 \<le> e" "0 \<le> m"
  shows "f32_magnitude (e + 896) (m * 2 ^ 29) = e * 2 ^ 23 + m"
proof -
  have "(2 ^ 52 + m * 2 ^ 29 :: int) = (2 ^ 23 + m) * 2 ^ 29" by simp
  then have "round_half_even (2 ^ 52 + m * 2 ^ 29) 29 = 2 ^ 23 + m"
    by (simp only: round_exact)
  with assms show ?thesis by (simp add: f32_magnitude_def Let_def algebra_simps)
qed

lemma f32_magnitude_subnormal:
  assumes "0 < m" "m < 2 ^ 23"
  shows "f32_magnitude (int (bit_length m) + 873)
    ((m - 2 ^ (bit_length m - 1)) * 2 ^ (53 - bit_length m)) = m"
proof -
  let ?k = "bit_length m"
  have k: "?k \<le> 23" "1 \<le> ?k"
    using bit_length_le_iff [of m 23] less_bit_length_iff [of m 0] assms by simp_all
  have "(2::int) ^ (?k - 1) * 2 ^ (53 - ?k) = 2 ^ 52"
    using k by (simp flip: power_add)
  then have "2 ^ 52 + (m - 2 ^ (?k - 1)) * 2 ^ (53 - ?k) = m * 2 ^ (53 - ?k)"
    by (simp add: left_diff_distrib)
  moreover have "nat (30 - (int ?k + 873 - 896)) = 53 - ?k" using k by simp
  ultimately show ?thesis
    using k by (simp add: f32_magnitude_def Let_def round_exact)
qed

lemma subnormal_mantissa:
  assumes "0 < m" "m < (2 :: int) ^ 23"
  shows "0 \<le> (m - 2 ^ (bit_length m - 1)) * 2 ^ (53 - bit_length m)"
    and "(m - 2 ^ (bit_length m - 1)) * 2 ^ (53 - bit_length m) < 2 ^ 52"
    and "bit_length m \<le> 23"
proof -
  let ?k = "bit_length m"
  show k: "?k \<le> 23" using bit_length_le_iff [of m 23] assms by simp
  have k1: "1 \<le> ?k" using less_bit_length_iff [of m 0] assms by simp
  have lo: "2 ^ (?k - 1) \<le> m" using less_bit_length_iff [of m "?k - 1"] assms k1 by simp
  have "m < 2 ^ ?k" using bit_length_le_iff [of m ?k] assms by simp
  then have hi: "m - 2 ^ (?k - 1) < 2 ^ (?k - 1)"
    using k1 by (cases ?k) auto
  show "0 \<le> (m - 2 ^ (?k - 1)) * 2 ^ (53 - ?k)" using lo by simp
  have "(m - 2 ^ (?k - 1)) * 2 ^ (53 - ?k) < 2 ^ (?k - 1) * 2 ^ (53 - ?k)"
    using hi by (intro mult_strict_right_mono) auto
  also have "\<dots> = 2 ^ 52" using k k1 by (simp flip: power_add)
  finally show "(m - 2 ^ (?k - 1)) * 2 ^ (53 - ?k) < 2 ^ 52" .
qed

lemma pack_unpack_f:
  assumes "length bs = 4" "\<not> f32_nan (int_from_bytes bs)"
  shows "pack_f (unpack_f bs) = Inr bs"
proof -
  let ?u = "int_from_bytes bs"
  obtain s e m where sem: "f32_parts ?u = (s, e, m)" by (cases "f32_parts ?u")
  have u: "0 \<le> ?u" "?u < 2 ^ 32" using int_from_bytes_less [of bs] assms by simp_all
  then have s: "0 \<le> s" "s \<le> 1" and e: "0 \<le> e" "e \<le> 255" and m: "0 \<le> m" "m < 2 ^ 23"
    using sem by (auto simp: f32_parts_def pos_imp_zdiv_nonneg_iff)
  have eq: "?u = s * 2 ^ 31 + e * 2 ^ 23 + m"
  proof -
    have "?u div 2 ^ 31 = ?u div 2 ^ 23 div 2 ^ 8" by (simp flip: zdiv_zmult2_eq)
    then have "?u div 2 ^ 23 = s * 2 ^ 8 + e"
      using sem div_mult_mod_eq [of "?u div 2 ^ 23" "2 ^ 8"] by (simp add: f32_parts_def)
    then show ?thesis
      using sem div_mult_mod_eq [of ?u "2 ^ 23"] by (simp add: f32_parts_def)
  qed
  have bs: "be_bytes 4 (s * 2 ^ 31 + e * 2 ^ 23 + m) = bs"
    using be_bytes_from_bytes [of bs] assms(1) unfolding eq by simp
  have up: "unpack_f bs =
      (if e = 255 then f64_make s 2047 (if m = 0 then 0 else m mod 2 ^ 22 * 2 ^ 29 + 2 ^ 51)
       else if e = 0
       then if m = 0 then f64_make s 0 0
            else f64_make s (int (bit_length m) + 873)
                   ((m - 2 ^ (bit_length m - 1)) * 2 ^ (53 - bit_length m))
       else f64_make s (e + 896) (m * 2 ^ 29))"
    by (simp add: unpack_f_def sem)
  have "\<not> (e = 255 \<and> m \<noteq> 0)"
    using assms(2) sem by (auto simp: f32_nan_def f32_parts_def)
  with e m consider "e = 255" "m = 0" | "e = 0" "m = 0" | "e = 0" "0 < m" | "1 \<le> e" "e \<le> 254"
    by (atomize_elim, arith)
  then show ?thesis
  proof cases
    case 1
    with s bs show ?thesis
      by (simp add: up pack_f_def f64_parts_make)
  next
    case 2
    with s bs show ?thesis
      by (simp add: up pack_f_def f64_parts_make f32_magnitude_def
          round_half_even_def)
  next
    case 3
    note sm = subnormal_mantissa [OF 3(2) m(2)]
    have "m < 255 * 2 ^ 23" using m by simp
    with 3 s bs sm f32_magnitude_subnormal [OF 3(2) m(2)] show ?thesis
      by (simp add: up pack_f_def f64_parts_make)
  next
    case 4
    have "m * 2 ^ 29 < 2 ^ 52" using m by simp
    moreover have "e * 2 ^ 23 + m < 255 * 2 ^ 23" using 4 m by simp
    ultimately show ?thesis
      using 4 s m bs f32_magnitude_normal [OF 4(1) m(1)]
      by (simp add: up pack_f_def f64_parts_make add.assoc)
  qed
qed

section \<open>Doubles that are singles\<close>

text \<open>
  The finite and infinite binary64 numbers that binary32 has as well: zeros and infinities, numbers in
  the exponent range of the normal singles whose last 29 bits are zero, and numbers below it with
  correspondingly more zero bits.
\<close>

definition exact_single :: "py_float \<Rightarrow> bool" where
  "exact_single x = (case f64_parts x of (s, e, m) \<Rightarrow>
     (e = 0 \<or> e = 2047) \<and> m = 0
     \<or> 897 \<le> e \<and> e \<le> 1150 \<and> m mod 2 ^ 29 = 0
     \<or> 874 \<le> e \<and> e \<le> 896 \<and> m mod 2 ^ nat (926 - e) = 0)"

lemma f64_make_parts:
  assumes "f64_parts x = (s, e, m)"
  shows "f64_make s e m = x" "0 \<le> s" "s \<le> 1" "0 \<le> m" "m < 2 ^ 52"
proof -
  let ?u = "uint x"
  have u: "0 \<le> ?u" "?u < 2 ^ 64" using uint_lt2p [of x] by simp_all
  have parts: "s = ?u div 2 ^ 63" "e = ?u div 2 ^ 52 mod 2 ^ 11" "m = ?u mod 2 ^ 52"
    using assms by (simp_all add: f64_parts_def Let_def)
  have "?u div 2 ^ 63 = ?u div 2 ^ 52 div 2 ^ 11" by (simp flip: zdiv_zmult2_eq)
  then have "?u div 2 ^ 52 = s * 2 ^ 11 + e"
    using div_mult_mod_eq [of "?u div 2 ^ 52" "2 ^ 11"] parts by simp
  then have "s * 2 ^ 63 + e * 2 ^ 52 + m = ?u"
    using div_mult_mod_eq [of ?u "2 ^ 52"] parts(3) by simp
  then show "f64_make s e m = x" by (simp only: f64_make_def word_of_int_uint)
  show "0 \<le> s" "s \<le> 1" using u parts(1) by (auto simp: pos_imp_zdiv_nonneg_iff)
  show "0 \<le> m" "m < 2 ^ 52" using parts(3) by simp_all
qed

lemma f32_octets:
  assumes "0 \<le> s" "s \<le> 1" "0 \<le> e" "e \<le> 255" "0 \<le> m" "m < 2 ^ 23"
  defines "bs \<equiv> be_bytes 4 (s * 2 ^ 31 + e * 2 ^ 23 + m)"
  shows "f32_parts (int_from_bytes bs) = (s, e, m)" "length bs = 4"
proof -
  let ?u = "s * 2 ^ 31 + e * 2 ^ 23 + m"
  have q: "?u div 2 ^ 23 = s * 2 ^ 8 + e" using assms(5,6) by (simp add: div_plus_div_distrib_dvd_left)
  have r: "?u mod 2 ^ 23 = m"
  proof -
    have "?u = m + (s * 2 ^ 8 + e) * 2 ^ 23" by simp
    then show ?thesis using assms(5,6) by (simp only: mod_mult_self1 mod_pos_pos_trivial)
  qed
  have "?u div 2 ^ 31 = s" using assms by simp
  moreover have "?u < 256 ^ 4" using assms by simp
  then have "int_from_bytes bs = ?u" using assms by (simp add: bs_def int_from_be_bytes)
  ultimately show "f32_parts (int_from_bytes bs) = (s, e, m)"
    using q r assms by (simp add: f32_parts_def)
qed (simp add: bs_def)

lemma exact_single_octets:
  assumes "exact_single x"
  obtains bs where "length bs = 4" "\<not> f32_nan (int_from_bytes bs)" "unpack_f bs = x"
proof -
  note result = that
  obtain s e m where p: "f64_parts x = (s, e, m)" by (cases "f64_parts x")
  note x = f64_make_parts [OF p]
  have thesis if "0 \<le> e'" "e' \<le> 255" "0 \<le> m'" "m' < 2 ^ 23" "e' = 255 \<Longrightarrow> m' = 0"
    and "(if e' = 255 then f64_make s 2047 0
       else if e' = 0
       then if m' = 0 then f64_make s 0 0
            else f64_make s (int (bit_length m') + 873)
                   ((m' - 2 ^ (bit_length m' - 1)) * 2 ^ (53 - bit_length m'))
       else f64_make s (e' + 896) (m' * 2 ^ 29)) = f64_make s e m" for e' m'
  proof -
    note o4 = f32_octets [OF x(2,3) that(1-4)]
    show thesis
      using that o4 x(1)
      by (intro result [of "be_bytes 4 (s * 2 ^ 31 + e' * 2 ^ 23 + m')"])
        (auto simp: unpack_f_def f32_nan_def f32_parts_def)
  qed
  note found = this
  consider "e = 0" "m = 0" | "e = 2047" "m = 0" | "897 \<le> e" "e \<le> 1150" "m mod 2 ^ 29 = 0"
    | "874 \<le> e" "e \<le> 896" "m mod 2 ^ nat (926 - e) = 0"
    using assms p by (auto simp: exact_single_def)
  then show thesis
  proof cases
    case 3
    then have "m div 2 ^ 29 * 2 ^ 29 = m" using div_mult_mod_eq [of m "2 ^ 29"] by simp
    moreover have "0 \<le> m div 2 ^ 29" "m div 2 ^ 29 < 2 ^ 23" using x(4,5) by (simp_all add: pos_imp_zdiv_nonneg_iff)
    ultimately show thesis using 3 by (intro found [of "e - 896" "m div 2 ^ 29"]) simp_all
  next
    case 4
    define k where "k = nat (e - 873)"
    have k: "1 \<le> k" "k \<le> 23" "int k + 873 = e" "nat (926 - e) = 53 - k" using 4 by (simp_all add: k_def)
    let ?q = "m div 2 ^ (53 - k)"
    have m: "?q * 2 ^ (53 - k) = m" using 4(3) k(4) div_mult_mod_eq [of m "2 ^ (53 - k)"] by simp
    have "(2 :: int) ^ 52 = 2 ^ (k - 1) * 2 ^ (53 - k)" using k by (simp flip: power_add)
    then have "?q * 2 ^ (53 - k) < 2 ^ (k - 1) * 2 ^ (53 - k)" using x(5) m by simp
    then have q: "0 \<le> ?q" "?q < 2 ^ (k - 1)"
      using x(4) by (simp_all add: pos_imp_zdiv_nonneg_iff del: One_nat_def)
    then have len: "bit_length (2 ^ (k - 1) + ?q) = k"
      using bit_length_le_iff [of "2 ^ (k - 1) + ?q" k] less_bit_length_iff [of "2 ^ (k - 1) + ?q" "k - 1"] k(1)
      by (cases k) auto
    have "(2 :: int) ^ k \<le> 2 ^ 23" using k(2) by (intro power_increasing) simp_all
    then have "2 ^ (k - 1) + ?q < 2 ^ 23" using q k(1) by (cases k) auto
    then show thesis
      using q len k m by (intro found [of 0 "2 ^ (k - 1) + ?q"]) (simp_all add: add_pos_nonneg)
  qed (use found [of 0 0] found [of 255 0] in simp_all)
qed

end
