(* ===== verification/Primitives.thy ===== *)
theory Primitives
  imports Tag_Scan Bacnet_Types Charset Float_Bits
begin

text \<open>
  \<open>encoding/primitives.py\<close>: the contents octets of every primitive type (Clause 20.2), the
  application- and context-tagged encoders, and the decoders of one and of many
  application-tagged values.  The character set codec of JIS, which needs its code table,
  is the argument \<open>jp\<close> of the functions that reach it.
\<close>

section \<open>Contents octets\<close>

definition UNSIGNED_1BYTE :: "bytes list" where
  "UNSIGNED_1BYTE = map (\<lambda>i. [byte_of (int i)]) [0..<256]"

definition encode_unsigned :: "int \<Rightarrow> py_error + bytes" where
  "encode_unsigned v =
     (if v < 0 then Inl ValueError
      else if v \<le> 0xFF then Inr (UNSIGNED_1BYTE ! nat v)
      else if v > 0xFFFFFFFF then Inl ValueError
      else int_to_bytes v ((bit_length v + 7) div 8))"

definition decode_unsigned :: "bytes \<Rightarrow> int" where
  "decode_unsigned data = int_from_bytes data"

definition encode_unsigned64 :: "int \<Rightarrow> py_error + bytes" where
  "encode_unsigned64 v =
     (if v < 0 then Inl ValueError
      else if v \<le> 0xFF then Inr (UNSIGNED_1BYTE ! nat v)
      else if v > 0xFFFFFFFFFFFFFFFF then Inl ValueError
      else int_to_bytes v ((bit_length v + 7) div 8))"

definition decode_unsigned64 :: "bytes \<Rightarrow> int" where
  "decode_unsigned64 data = int_from_bytes data"

definition min_signed_bytes :: "int \<Rightarrow> nat" where
  "min_signed_bytes v =
     (if v = 0 then 1
      else if v > 0 then (bit_length v + 8) div 8
      else (bit_length (- v - 1) + 8) div 8)"

definition encode_signed :: "int \<Rightarrow> py_error + bytes" where
  "encode_signed v =
     (if v < - 0x80000000 \<or> v > 0x7FFFFFFF then Inl ValueError
      else int_to_bytes_signed v (min_signed_bytes v))"

definition decode_signed :: "bytes \<Rightarrow> int" where
  "decode_signed data = int_from_bytes_signed data"

definition encode_real :: "py_float \<Rightarrow> py_error + bytes" where
  "encode_real x = pack_f x"

definition decode_real :: "bytes \<Rightarrow> py_error + py_float" where
  "decode_real data = (if length data < 4 then Inl ValueError else Inr (unpack_f (take 4 data)))"

definition encode_double :: "py_float \<Rightarrow> py_error + bytes" where
  "encode_double x = Inr (pack_d x)"

definition decode_double :: "bytes \<Rightarrow> py_error + py_float" where
  "decode_double data = (if length data < 8 then Inl ValueError else Inr (unpack_d (take 8 data)))"

definition decode_octet_string :: "bytes \<Rightarrow> bytes" where
  "decode_octet_string data = data"

definition encode_character_string ::
  "(py_str \<Rightarrow> py_error + bytes) \<Rightarrow> py_str \<Rightarrow> int \<Rightarrow> py_error + bytes" where
  "encode_character_string jp s charset =
     rbind
       (if charset = 0 then utf8_encode s
        else if charset = 1 \<or> charset = 2 then jp s
        else if charset = 3 then utf32_encode s
        else if charset = 4 then utf16_encode s
        else if charset = 5 then latin1_encode s
        else Inl ValueError)
       (\<lambda>encoded. Inr (byte_of charset # encoded))"

definition decode_character_string ::
  "(bytes \<Rightarrow> py_error + py_str) \<Rightarrow> bytes \<Rightarrow> py_error + py_str" where
  "decode_character_string jp data =
     (case data of
        [] \<Rightarrow> Inl ValueError
      | b # rest \<Rightarrow>
          let charset = uint b
          in if charset = 0 then utf8_decode rest
             else if charset = 1 \<or> charset = 2 then jp rest
             else if charset = 3 then utf32_decode rest
             else if charset = 4 then utf16_decode rest
             else latin1_decode rest)"

definition encode_enumerated :: "int \<Rightarrow> py_error + bytes" where
  "encode_enumerated v = encode_unsigned v"

definition decode_enumerated :: "bytes \<Rightarrow> int" where
  "decode_enumerated data = decode_unsigned data"

definition encode_bit_string :: "bit_string \<Rightarrow> py_error + bytes" where
  "encode_bit_string b = rbind (mk_bytes [unused_bits b]) (\<lambda>u. Inr (u @ bs_data b))"

definition decode_bit_string :: "bytes \<Rightarrow> py_error + bit_string" where
  "decode_bit_string data =
     (case data of
        [] \<Rightarrow> Inl ValueError
      | u # rest \<Rightarrow> if uint u > 7 then Inl ValueError else BitString rest (uint u))"

definition encode_date :: "bacnet_date \<Rightarrow> py_error + bytes" where
  "encode_date d =
     (if year d = 0xFF then mk_bytes [0xFF, month d, day d, day_of_week d]
      else if \<not> (1900 \<le> year d \<and> year d \<le> 2155) then Inl ValueError
      else mk_bytes [year d - 1900, month d, day d, day_of_week d])"

definition decode_date :: "bytes \<Rightarrow> py_error + bacnet_date" where
  "decode_date data =
     (if length data < 4 then Inl ValueError
      else
        rbind (octet_at data 0) (\<lambda>y.
        rbind (octet_at data 1) (\<lambda>m.
        rbind (octet_at data 2) (\<lambda>d.
        rbind (octet_at data 3) (\<lambda>w.
          Inr \<lparr>year = (if y = 0xFF then 0xFF else y + 1900), month = m, day = d,
               day_of_week = w\<rparr>)))))"

lemma decode_date_eq:
  "decode_date data =
     (if length data < 4 then Inl ValueError
      else Inr \<lparr>year = (if uint (data ! 0) = 0xFF then 0xFF else uint (data ! 0) + 1900),
                month = uint (data ! 1), day = uint (data ! 2), day_of_week = uint (data ! 3)\<rparr>)"
  by (simp add: decode_date_def)

definition encode_time :: "bacnet_time \<Rightarrow> py_error + bytes" where
  "encode_time t = mk_bytes [hour t, minute t, second t, hundredth t]"

definition decode_time :: "bytes \<Rightarrow> py_error + bacnet_time" where
  "decode_time data =
     (if length data < 4 then Inl ValueError
      else
        rbind (octet_at data 0) (\<lambda>h.
        rbind (octet_at data 1) (\<lambda>m.
        rbind (octet_at data 2) (\<lambda>s.
        rbind (octet_at data 3) (\<lambda>c.
          Inr \<lparr>hour = h, minute = m, second = s, hundredth = c\<rparr>)))))"

lemma decode_time_eq:
  "decode_time data =
     (if length data < 4 then Inl ValueError
      else Inr \<lparr>hour = uint (data ! 0), minute = uint (data ! 1), second = uint (data ! 2),
                hundredth = uint (data ! 3)\<rparr>)"
  by (simp add: decode_time_def)

definition encode_object_identifier :: "int \<Rightarrow> int \<Rightarrow> py_error + bytes" where
  "encode_object_identifier obj_type inst =
     rbind (ObjectType obj_type) (\<lambda>t. rbind (ObjectIdentifier t inst) oid_encode)"

definition decode_object_identifier :: "bytes \<Rightarrow> py_error + int \<times> int" where
  "decode_object_identifier data =
     (if length data < 4 then Inl ValueError
      else let v = int_from_bytes (py_slice data 0 4)
           in Inr (drop_bit 22 v, v AND 0x3FFFFF))"

definition encode_boolean :: "bool \<Rightarrow> bytes" where
  "encode_boolean v = (if v then [1] else [0])"

definition decode_boolean :: "bytes \<Rightarrow> py_error + bool" where
  "decode_boolean data = (case data of [] \<Rightarrow> Inl ValueError | b # _ \<Rightarrow> Inr (uint b \<noteq> 0))"

section \<open>Tagged encoders\<close>

definition encode_application_tagged :: "int \<Rightarrow> bytes \<Rightarrow> py_error + bytes" where
  "encode_application_tagged n data =
     rbind (encode_tag n APPLICATION (int (length data))) (\<lambda>h. Inr (h @ data))"

definition encode_context_tagged :: "int \<Rightarrow> bytes \<Rightarrow> py_error + bytes" where
  "encode_context_tagged n data =
     rbind (encode_tag n CONTEXT (int (length data))) (\<lambda>h. Inr (h @ data))"

definition encode_application_null :: "py_error + bytes" where
  "encode_application_null = encode_application_tagged 0 []"

definition encode_application_boolean :: "bool \<Rightarrow> py_error + bytes" where
  "encode_application_boolean v = encode_tag 1 APPLICATION (if v then 1 else 0)"

definition encode_application_unsigned :: "int \<Rightarrow> py_error + bytes" where
  "encode_application_unsigned v = rbind (encode_unsigned v) (encode_application_tagged 2)"

definition encode_application_signed :: "int \<Rightarrow> py_error + bytes" where
  "encode_application_signed v = rbind (encode_signed v) (encode_application_tagged 3)"

definition encode_application_real :: "py_float \<Rightarrow> py_error + bytes" where
  "encode_application_real v = rbind (encode_real v) (encode_application_tagged 4)"

definition encode_application_double :: "py_float \<Rightarrow> py_error + bytes" where
  "encode_application_double v = rbind (encode_double v) (encode_application_tagged 5)"

definition encode_application_octet_string :: "bytes \<Rightarrow> py_error + bytes" where
  "encode_application_octet_string v = encode_application_tagged 6 v"

text \<open>The default character set is 0, so the JIS codec is not reached from here.\<close>

definition encode_application_character_string :: "py_str \<Rightarrow> py_error + bytes" where
  "encode_application_character_string v =
     rbind (encode_character_string (\<lambda>_. Inl ValueError) v 0) (encode_application_tagged 7)"

definition encode_application_bit_string :: "bit_string \<Rightarrow> py_error + bytes" where
  "encode_application_bit_string v = rbind (encode_bit_string v) (encode_application_tagged 8)"

definition encode_application_enumerated :: "int \<Rightarrow> py_error + bytes" where
  "encode_application_enumerated v = rbind (encode_enumerated v) (encode_application_tagged 9)"

definition encode_application_date :: "bacnet_date \<Rightarrow> py_error + bytes" where
  "encode_application_date v = rbind (encode_date v) (encode_application_tagged 10)"

definition encode_application_time :: "bacnet_time \<Rightarrow> py_error + bytes" where
  "encode_application_time v = rbind (encode_time v) (encode_application_tagged 11)"

definition encode_application_object_id :: "int \<Rightarrow> int \<Rightarrow> py_error + bytes" where
  "encode_application_object_id t i =
     rbind (encode_object_identifier t i) (encode_application_tagged 12)"

definition encode_context_object_id :: "int \<Rightarrow> object_identifier \<Rightarrow> py_error + bytes" where
  "encode_context_object_id n v = rbind (oid_encode v) (encode_context_tagged n)"

definition encode_context_unsigned :: "int \<Rightarrow> int \<Rightarrow> py_error + bytes" where
  "encode_context_unsigned n v = rbind (encode_unsigned v) (encode_context_tagged n)"

definition encode_context_signed :: "int \<Rightarrow> int \<Rightarrow> py_error + bytes" where
  "encode_context_signed n v = rbind (encode_signed v) (encode_context_tagged n)"

definition encode_context_enumerated :: "int \<Rightarrow> int \<Rightarrow> py_error + bytes" where
  "encode_context_enumerated n v = rbind (encode_enumerated v) (encode_context_tagged n)"

definition encode_context_boolean :: "int \<Rightarrow> bool \<Rightarrow> py_error + bytes" where
  "encode_context_boolean n v = encode_context_tagged n (encode_boolean v)"

definition encode_context_real :: "int \<Rightarrow> py_float \<Rightarrow> py_error + bytes" where
  "encode_context_real n v = rbind (encode_real v) (encode_context_tagged n)"

definition encode_context_octet_string :: "int \<Rightarrow> bytes \<Rightarrow> py_error + bytes" where
  "encode_context_octet_string n v = encode_context_tagged n v"

definition encode_context_bit_string :: "int \<Rightarrow> bit_string \<Rightarrow> py_error + bytes" where
  "encode_context_bit_string n v = rbind (encode_bit_string v) (encode_context_tagged n)"

definition encode_context_date :: "int \<Rightarrow> bacnet_date \<Rightarrow> py_error + bytes" where
  "encode_context_date n v = rbind (encode_date v) (encode_context_tagged n)"

section \<open>Application-tagged decoders\<close>

datatype py_value =
    VNone | VBool bool | VInt int | VFloat py_float | VBytes bytes | VStr py_str
  | VBits bit_string | VDate bacnet_date | VTime bacnet_time | VOid object_identifier

text \<open>The second \<open>match\<close> of \<open>decode_application_value\<close>, on the contents octets.\<close>

definition decode_content ::
  "(bytes \<Rightarrow> py_error + py_str) \<Rightarrow> int \<Rightarrow> bytes \<Rightarrow> py_error + py_value" where
  "decode_content jp n content =
     (if n = 2 then Inr (VInt (decode_unsigned content))
      else if n = 3 then Inr (VInt (decode_signed content))
      else if n = 4 then rbind (decode_real content) (\<lambda>x. Inr (VFloat x))
      else if n = 5 then rbind (decode_double content) (\<lambda>x. Inr (VFloat x))
      else if n = 6 then Inr (VBytes (decode_octet_string content))
      else if n = 7 then rbind (decode_character_string jp content) (\<lambda>s. Inr (VStr s))
      else if n = 8 then rbind (decode_bit_string content) (\<lambda>b. Inr (VBits b))
      else if n = 9 then Inr (VInt (decode_enumerated content))
      else if n = 10 then rbind (decode_date content) (\<lambda>d. Inr (VDate d))
      else if n = 11 then rbind (decode_time content) (\<lambda>t. Inr (VTime t))
      else if n = 12
      then rbind (decode_object_identifier content) (\<lambda>(t, i).
             rbind (ObjectType t) (\<lambda>t. rbind (ObjectIdentifier t i) (\<lambda>v. Inr (VOid v))))
      else Inl ValueError)"

definition decode_application_value ::
  "(bytes \<Rightarrow> py_error + py_str) \<Rightarrow> bytes \<Rightarrow> py_error + py_value" where
  "decode_application_value jp data =
     rbind (decode_tag data 0) (\<lambda>(tag, offset).
       if cls tag \<noteq> APPLICATION then Inl ValueError
       else if number tag = 0 then Inr VNone
       else if number tag = 1 then Inr (VBool (is_boolean_true tag))
       else if int offset + tag_length tag > int (length data) then Inl ValueError
       else decode_content jp (number tag)
              (py_slice data offset (offset + nat (tag_length tag))))"

definition MAX_DECODED_VALUES :: nat where
  "MAX_DECODED_VALUES = 10000"

definition element_end :: "tag \<Rightarrow> nat \<Rightarrow> nat" where
  "element_end tag tag_end =
     (if number tag = 1 then tag_end else tag_end + nat (tag_length tag))"

function decode_all_loop ::
  "(bytes \<Rightarrow> py_error + py_str) \<Rightarrow> bytes \<Rightarrow> nat \<Rightarrow> py_value list \<Rightarrow> py_error + py_value list" where
  "decode_all_loop jp data offset results =
     (if offset < length data
      then if length results \<ge> MAX_DECODED_VALUES then Inl ValueError
           else rbind (decode_tag data offset) (\<lambda>(tag, tag_end).
             if cls tag \<noteq> APPLICATION then Inl ValueError
             else rbind
               (decode_application_value jp (py_slice data offset (element_end tag tag_end)))
               (\<lambda>v. decode_all_loop jp data (element_end tag tag_end) (results @ [v])))
      else Inr results)"
  by pat_completeness auto
termination
  by (relation "measure (\<lambda>(jp, data, offset, r). length data - offset)")
    (auto simp: element_end_def dest!: decode_tag_progress)

declare decode_all_loop.simps [simp del]

definition decode_all_application_values ::
  "(bytes \<Rightarrow> py_error + py_str) \<Rightarrow> bytes \<Rightarrow> py_error + py_value list" where
  "decode_all_application_values jp data = decode_all_loop jp data 0 []"

datatype unwrapped = Nothing | Single py_value | Many "py_value list"

definition decode_and_unwrap ::
  "(bytes \<Rightarrow> py_error + py_str) \<Rightarrow> bytes \<Rightarrow> py_error + unwrapped" where
  "decode_and_unwrap jp data =
     rbind (decode_all_application_values jp data) (\<lambda>values.
       Inr (case values of [v] \<Rightarrow> Single v | [] \<Rightarrow> Nothing | _ \<Rightarrow> Many values))"

end
