(* ===== verification/Primitive_Laws.thy ===== *)
theory Primitive_Laws
  imports Primitives
begin

text \<open>
  The laws of \<open>encoding/primitives.py\<close>.  \<open>content_codec\<close> is the interface between the
  tagged encoders and the contents encoders: a valid value has contents octets, and the
  decoder gives back its view of the value.  \<open>app_codec\<close> extends it with an application tag;
  its lemmas, the round trip of one tagged element and of a stream of elements, are
  proved once and hold for every primitive type through its interpretation.
\<close>

section \<open>Integers\<close>

lemma UNSIGNED_1BYTE_entry: "0 \<le> v \<Longrightarrow> v < 256 \<Longrightarrow> UNSIGNED_1BYTE ! nat v = [byte_of v]"
  by (subgoal_tac "nat v < 256") (simp_all add: UNSIGNED_1BYTE_def del: upt_Suc upt_rec_numeral)

text \<open>The number of octets: the least \<open>n > 0\<close> with \<open>v < 256\<^sup>n\<close>.\<close>

lemma octet_count:
  assumes "0 < v"
  shows "v < 256 ^ ((bit_length v + 7) div 8)"
    and "256 ^ ((bit_length v + 7) div 8 - 1) \<le> v"
    and "0 < (bit_length v + 7) div 8"
proof -
  let ?n = "(bit_length v + 7) div 8"
  have b: "0 < bit_length v" using less_bit_length_iff [of v 0] assms by simp
  then show n: "0 < ?n" by simp
  have "bit_length v \<le> 8 * ?n" by linarith
  then show "v < 256 ^ ?n" using bit_length_le_iff [of v "8 * ?n"] assms by (simp add: pow256)
  have "8 * (?n - 1) < bit_length v" using n b by linarith
  then show "256 ^ (?n - 1) \<le> v"
    using less_bit_length_iff [of v "8 * (?n - 1)"] assms by (simp add: pow256)
qed

lemma encode_unsigned_eq:
  "encode_unsigned v =
     (if 0 \<le> v \<and> v < 2 ^ 32
      then Inr (if v = 0 then [0] else be_bytes ((bit_length v + 7) div 8) v)
      else Inl ValueError)"
proof (cases "0 < v \<and> v < 256")
  case True
  have "(bit_length v + 7) div 8 = 1"
    using True less_bit_length_iff [of v 0] bit_length_le_iff [of v 8] by simp
  with True show ?thesis by (simp add: encode_unsigned_def UNSIGNED_1BYTE_entry)
next
  case False
  then show ?thesis
    using octet_count(1) [of v] UNSIGNED_1BYTE_entry [of 0]
    by (auto simp: encode_unsigned_def int_to_bytes_ok)
qed

lemma unsigned_octets:
  assumes "0 \<le> v" "v < 2 ^ 32"
  obtains bs where "encode_unsigned v = Inr bs" "int_from_bytes bs = v" "1 \<le> length bs"
    "length bs \<le> 4" "length bs = 1 \<or> 256 ^ (length bs - 1) \<le> v"
proof (cases "v = 0")
  case True
  then show ?thesis using that [of "[0]"] by (simp add: encode_unsigned_eq)
next
  case False
  let ?n = "(bit_length v + 7) div 8"
  have "?n \<le> 4" using bit_length_le_iff [of v 32] assms by simp
  then show ?thesis
    using that [of "be_bytes ?n v"] octet_count [of v] False assms
    by (simp add: encode_unsigned_eq int_from_be_bytes Suc_le_eq)
qed

lemma no_shorter_octets:
  assumes "cs \<noteq> []" "n = 1 \<or> 256 ^ (n - 1) \<le> int_from_bytes cs"
  shows "n \<le> length cs"
proof (cases "n = 1")
  case True
  with assms(1) show ?thesis by (cases cs) auto
next
  case False
  with assms(2) have "(256 :: int) ^ (n - 1) \<le> int_from_bytes cs" by simp
  also note int_from_bytes_less [of cs]
  finally have "n - 1 < length cs" by (rule power_less_imp_less_exp [rotated]) simp
  then show ?thesis by simp
qed

lemma min_signed_bytes_bounds:
  fixes v :: int
  defines "n \<equiv> min_signed_bytes v"
  shows "0 < n" and "- (2 ^ (8 * n - 1)) \<le> v" and "v < 2 ^ (8 * n - 1)"
proof -
  define a where "a = (if v < 0 then - v - 1 else v)"
  have a: "0 \<le> a" by (simp add: a_def)
  have n: "n = (bit_length a + 8) div 8"
    by (auto simp: n_def min_signed_bytes_def a_def bit_length_def)
  then show "0 < n" by simp
  have "bit_length a \<le> 8 * n - 1" using n by linarith
  then have "a < 2 ^ (8 * n - 1)" using bit_length_le_iff [OF a] by simp
  then show "- (2 ^ (8 * n - 1)) \<le> v" "v < 2 ^ (8 * n - 1)"
    by (auto simp: a_def split: if_splits)
qed

lemma min_signed_bytes_least:
  assumes "0 < k" "- (2 ^ (8 * k - 1)) \<le> v" "v < 2 ^ (8 * k - 1)"
  shows "min_signed_bytes v \<le> k"
proof -
  define a where "a = (if v < 0 then - v - 1 else v)"
  have a: "0 \<le> a" "a < 2 ^ (8 * k - 1)" using assms by (auto simp: a_def)
  have "min_signed_bytes v = (bit_length a + 8) div 8"
    by (auto simp: min_signed_bytes_def a_def bit_length_def)
  moreover have "bit_length a \<le> 8 * k - 1" using bit_length_le_iff [OF a(1)] a(2) by simp
  ultimately show ?thesis using assms(1) by linarith
qed

lemma signed_octets:
  assumes "- (2 ^ 31) \<le> v" "v < 2 ^ 31"
  obtains bs where "encode_signed v = Inr bs" "decode_signed bs = v" "1 \<le> length bs"
    "length bs \<le> 4"
proof -
  let ?n = "min_signed_bytes v"
  let ?bs = "be_bytes ?n (v mod 256 ^ ?n)"
  note b = min_signed_bytes_bounds [of v]
  have e: "int_to_bytes_signed v ?n = Inr ?bs" using b by (simp add: int_to_bytes_signed_def)
  have "?n \<le> 4" using min_signed_bytes_least [of 4 v] assms by simp
  moreover have "decode_signed ?bs = v"
    using int_from_to_bytes_signed [OF e b(1)] by (simp add: decode_signed_def)
  ultimately show ?thesis
    using that [of ?bs] b(1) e assms by (simp add: encode_signed_def)
qed

section \<open>The interface of a primitive type\<close>

locale content_codec =
  fixes enc :: "'a \<Rightarrow> py_error + bytes"
    and dec :: "bytes \<Rightarrow> py_error + 'b"
    and view :: "'a \<Rightarrow> 'b"
    and valid :: "'a \<Rightarrow> bool"
  assumes enc_total: "valid x \<Longrightarrow> \<exists>bs. enc x = Inr bs \<and> length bs \<le> 1048576"
    and dec_enc: "valid x \<Longrightarrow> enc x = Inr bs \<Longrightarrow> dec bs = Inr (view x)"
begin

lemma enc_inj: "valid x \<Longrightarrow> valid y \<Longrightarrow> enc x = enc y \<Longrightarrow> view x = view y"
  using enc_total [of x] dec_enc [of x] dec_enc [of y] by force

end

text \<open>One element in front of anything decodes to its view and ends where it ends.\<close>

definition element_for ::
  "(bytes \<Rightarrow> py_error + py_str) \<Rightarrow> bytes \<Rightarrow> py_value \<Rightarrow> bool" where
  "element_for jp bs v \<longleftrightarrow> bs \<noteq> []
     \<and> (\<forall>s. decode_application_value jp (bs @ s) = Inr v)
     \<and> (\<forall>p s. \<exists>tag tag_end. decode_tag (p @ bs @ s) (length p) = Inr (tag, tag_end)
          \<and> cls tag = APPLICATION \<and> element_end tag tag_end = length p + length bs)"

lemma element_forI_data:
  assumes n: "2 \<le> n" "n \<le> 12" and len: "length c \<le> 1048576"
    and d: "decode_content jp n c = Inr v"
    and bs: "encode_application_tagged n c = Inr bs"
  shows "element_for jp bs v"
proof -
  let ?o = "tag_octets n APPLICATION (int (length c))"
  have bs: "bs = ?o @ c"
    using bs n len by (auto simp: encode_application_tagged_def encode_tag_eq split: if_splits)
  have t: "decode_tag (p @ ?o @ s) (length p) =
      Inr (\<lparr>number = n, cls = APPLICATION, tag_length = int (length c), is_opening = False,
            is_closing = False\<rparr>, length p + length ?o)" for p s
    using decode_tag_octets [of n "int (length c)" p APPLICATION s] n len by simp
  have "decode_application_value jp (bs @ s) = Inr v" for s
    using t [of "[]" "c @ s"] d n
    by (simp add: bs decode_application_value_def py_slice_def)
  moreover have "\<exists>tag tag_end. decode_tag (p @ bs @ s) (length p) = Inr (tag, tag_end)
      \<and> cls tag = APPLICATION \<and> element_end tag tag_end = length p + length bs" for p s
    using t [of p "c @ s"] n by (simp add: bs element_end_def)
  ultimately show ?thesis by (simp add: element_for_def bs)
qed

locale app_codec = content_codec enc dec view valid
  for enc :: "'a \<Rightarrow> py_error + bytes" and dec :: "bytes \<Rightarrow> py_error + 'b"
    and view :: "'a \<Rightarrow> 'b" and valid :: "'a \<Rightarrow> bool" +
  fixes tagno :: int and wrap :: "'b \<Rightarrow> py_value" and jp :: "bytes \<Rightarrow> py_error + py_str"
  assumes tagno: "2 \<le> tagno" "tagno \<le> 12"
    and dispatch: "dec c = Inr y \<Longrightarrow> decode_content jp tagno c = Inr (wrap y)"
begin

lemma element:
  assumes "valid x" "rbind (enc x) (encode_application_tagged tagno) = Inr bs"
  shows "element_for jp bs (wrap (view x))"
proof -
  from assms(2) obtain c where c: "enc x = Inr c" "encode_application_tagged tagno c = Inr bs"
    by auto
  have "length c \<le> 1048576" using enc_total [OF assms(1)] c(1) by auto
  then show ?thesis
    using element_forI_data [OF tagno _ dispatch c(2)] dec_enc [OF assms(1) c(1)] by blast
qed

lemma element_total:
  assumes "valid x"
  shows "\<exists>bs. rbind (enc x) (encode_application_tagged tagno) = Inr bs"
proof -
  from enc_total [OF assms] obtain c where "enc x = Inr c" "length c \<le> 1048576" by blast
  then show ?thesis using tagno by (simp add: encode_application_tagged_def encode_tag_eq)
qed

end

section \<open>Every primitive type is an instance\<close>

definition single :: "py_float \<Rightarrow> py_float" where
  "single x = (case pack_f x of Inl _ \<Rightarrow> x | Inr bs \<Rightarrow> unpack_f bs)"

definition valid_str :: "py_str \<Rightarrow> bool" where
  "valid_str s \<longleftrightarrow> (\<forall>c\<in>set s. code_point c \<and> \<not> surrogate c) \<and> 4 * length s \<le> 1048575"

definition octet :: "int \<Rightarrow> bool" where
  "octet v \<longleftrightarrow> 0 \<le> v \<and> v \<le> 255"

lemma octet_byte [simp]: "octet v \<Longrightarrow> uint (byte_of v) = v"
  by (simp add: octet_def)

lemma mk_bytes_octets: "list_all octet xs \<Longrightarrow> mk_bytes xs = Inr (map byte_of xs)"
  by (rule mk_bytes_ok) (auto simp: list_all_iff octet_def)

lemma octetI: "0 \<le> v \<Longrightarrow> v < 256 \<Longrightarrow> octet v"
  by (simp add: octet_def)

definition valid_date :: "bacnet_date \<Rightarrow> bool" where
  "valid_date d \<longleftrightarrow> (year d = 0xFF \<or> 1900 \<le> year d \<and> year d \<le> 2154)
     \<and> octet (month d) \<and> octet (day d) \<and> octet (day_of_week d)"

definition valid_time :: "bacnet_time \<Rightarrow> bool" where
  "valid_time t \<longleftrightarrow> octet (hour t) \<and> octet (minute t) \<and> octet (second t) \<and> octet (hundredth t)"

lemma utf8_total:
  "\<forall>c\<in>set s. code_point c \<and> \<not> surrogate c \<Longrightarrow>
   \<exists>bs. utf8_encode s = Inr bs \<and> length bs \<le> 4 * length s"
proof (induction s)
  case (Cons c s)
  then obtain bs where "utf8_encode s = Inr bs" "length bs \<le> 4 * length s" by auto
  moreover have "\<exists>a. utf8_char c = Inr a \<and> length a \<le> 4"
    using Cons.prems by (simp add: utf8_char_def)
  ultimately show ?case by fastforce
qed simp

lemma string_codec:
  assumes "valid_str s"
  shows "\<exists>bs. encode_character_string jpe s 0 = Inr bs \<and> length bs \<le> 1048576"
    and "encode_character_string jpe s 0 = Inr bs \<Longrightarrow> decode_character_string jp bs = Inr s"
proof -
  have v: "\<forall>c\<in>set s. code_point c \<and> \<not> surrogate c" "\<forall>c\<in>set s. code_point c"
    and l: "4 * length s \<le> 1048575"
    using assms by (auto simp: valid_str_def)
  from utf8_total [OF v(1)] l show "\<exists>bs. encode_character_string jpe s 0 = Inr bs \<and> length bs \<le> 1048576"
    by (auto simp: encode_character_string_def)
  show "decode_character_string jp bs = Inr s" if "encode_character_string jpe s 0 = Inr bs"
    using that utf8.dec_enc [OF v(2)]
    by (auto simp: encode_character_string_def decode_character_string_def)
qed

lemma encode_date_decode:
  assumes "valid_date d" "encode_date d = Inr bs"
  shows "decode_date (bs @ s) = Inr d \<and> length bs = 4"
  using assms
  by (cases d)
    (auto simp: valid_date_def encode_date_def decode_date_eq octet_def mk_bytes_Inr_iff
      nth_append split: if_splits)

lemma encode_date_total: "valid_date d \<Longrightarrow> \<exists>bs. encode_date d = Inr bs"
  by (auto simp: valid_date_def encode_date_def octet_def)

lemma encode_time_decode:
  assumes "encode_time t = Inr bs"
  shows "decode_time (bs @ s) = Inr t \<and> length bs = 4"
  using assms
  by (cases t) (auto simp: encode_time_def decode_time_eq mk_bytes_Inr_iff nth_append)

lemma encode_time_total: "valid_time t \<Longrightarrow> \<exists>bs. encode_time t = Inr bs"
  by (auto simp: valid_time_def encode_time_def octet_def)

lemma bit_string_decode:
  "valid_bs b \<Longrightarrow> encode_bit_string b = Inr bs \<Longrightarrow> decode_bit_string bs = Inr b"
  by (auto simp: encode_bit_string_def decode_bit_string_def valid_bs_def)

lemma bit_string_total:
  "valid_bs b \<Longrightarrow> length (bs_data b) \<le> 1048575 \<Longrightarrow>
   \<exists>bs. encode_bit_string b = Inr bs \<and> length bs \<le> 1048576"
  by (auto simp: encode_bit_string_def valid_bs_def)

lemma oid_codec:
  assumes "valid_oid v"
  shows "\<exists>bs. oid_encode v = Inr bs \<and> length bs \<le> 1048576"
    and "oid_encode v = Inr bs \<Longrightarrow> decode_content jp 12 bs = Inr (VOid v)"
proof -
  from oid_encode_eq [OF assms] show "\<exists>bs. oid_encode v = Inr bs \<and> length bs \<le> 1048576" by simp
  assume bs: "oid_encode v = Inr bs"
  with oid_decode_encode [OF assms bs, of "[]"]
  show "decode_content jp 12 bs = Inr (VOid v)"
    by (auto simp: decode_content_def decode_object_identifier_def oid_decode_def Let_def)
qed

text \<open>
  The interpretations.  The decoders that cannot fail are wrapped in \<open>Inr\<close>; the
  object identifier's decoder is the constructor call of \<open>decode_application_value\<close>.
\<close>

interpretation unsigned: app_codec encode_unsigned "\<lambda>c. Inr (decode_unsigned c)" "\<lambda>v. v"
  "\<lambda>v. 0 \<le> v \<and> v < 2 ^ 32" 2 VInt jp for jp
proof
  fix v :: int and bs assume v: "0 \<le> v \<and> v < 2 ^ 32"
  then obtain b where "encode_unsigned v = Inr b" "int_from_bytes b = v" "length b \<le> 4"
    using unsigned_octets by blast
  then show "\<exists>bs. encode_unsigned v = Inr bs \<and> length bs \<le> 1048576"
    and "encode_unsigned v = Inr bs \<Longrightarrow> Inr (decode_unsigned bs) = Inr v"
    by (auto simp: decode_unsigned_def)
qed (auto simp: decode_content_def)

interpretation enumerated: app_codec encode_enumerated "\<lambda>c. Inr (decode_enumerated c)" "\<lambda>v. v"
  "\<lambda>v. 0 \<le> v \<and> v < 2 ^ 32" 9 VInt jp for jp
proof
  fix v :: int and bs assume v: "0 \<le> v \<and> v < 2 ^ 32"
  show "\<exists>bs. encode_enumerated v = Inr bs \<and> length bs \<le> 1048576"
    and "encode_enumerated v = Inr bs \<Longrightarrow> Inr (decode_enumerated bs) = Inr v"
    using unsigned.enc_total [OF v] unsigned.dec_enc [OF v, of bs]
    by (auto simp: encode_enumerated_def decode_enumerated_def)
qed (auto simp: decode_content_def)

interpretation signed: app_codec encode_signed "\<lambda>c. Inr (decode_signed c)" "\<lambda>v. v"
  "\<lambda>v. - (2 ^ 31) \<le> v \<and> v < 2 ^ 31" 3 VInt jp for jp
proof
  fix v :: int and bs assume v: "- (2 ^ 31) \<le> v \<and> v < 2 ^ 31"
  then obtain b where "encode_signed v = Inr b" "decode_signed b = v" "length b \<le> 4"
    using signed_octets by blast
  then show "\<exists>bs. encode_signed v = Inr bs \<and> length bs \<le> 1048576"
    and "encode_signed v = Inr bs \<Longrightarrow> Inr (decode_signed bs) = Inr v"
    by auto
qed (auto simp: decode_content_def)

interpretation real: app_codec encode_real decode_real single
  "\<lambda>x. \<exists>bs. pack_f x = Inr bs" 4 VFloat jp for jp
  by unfold_locales
    (use length_pack_f in \<open>fastforce simp: encode_real_def decode_real_def single_def
      decode_content_def\<close>)+

interpretation double: app_codec encode_double decode_double "\<lambda>x. x" "\<lambda>x. True" 5 VFloat jp for jp
  by unfold_locales
    (auto simp: encode_double_def decode_double_def decode_content_def unpack_pack_d)

interpretation octets: app_codec "\<lambda>c. Inr c" "\<lambda>c. Inr (decode_octet_string c)" "\<lambda>x. x"
  "\<lambda>x. length x \<le> 1048576" 6 VBytes jp for jp
  by unfold_locales (auto simp: decode_octet_string_def decode_content_def)

interpretation chars: app_codec "\<lambda>s. encode_character_string jpe s 0" "decode_character_string jp"
  "\<lambda>x. x" valid_str 7 VStr jp for jpe jp
  by unfold_locales (use string_codec in \<open>auto simp: decode_content_def\<close>)

interpretation bits: app_codec encode_bit_string decode_bit_string "\<lambda>x. x"
  "\<lambda>b. valid_bs b \<and> length (bs_data b) \<le> 1048575" 8 VBits jp for jp
  by unfold_locales (use bit_string_total bit_string_decode in \<open>auto simp: decode_content_def\<close>)

interpretation date: app_codec encode_date decode_date "\<lambda>x. x" valid_date 10 VDate jp for jp
  using encode_date_total encode_date_decode [where s = "[]"]
  by unfold_locales (auto simp: decode_content_def, fastforce)

interpretation time: app_codec encode_time decode_time "\<lambda>x. x" valid_time 11 VTime jp for jp
  using encode_time_total encode_time_decode [where s = "[]"]
  by unfold_locales (auto simp: decode_content_def, fastforce)

interpretation objid: app_codec oid_encode "\<lambda>c. decode_content jp 12 c" VOid valid_oid
  12 "\<lambda>v. v" jp for jp
  by unfold_locales (use oid_codec in auto)

section \<open>Streams of application-tagged values\<close>

lemma decode_all_stream:
  assumes "list_all2 (element_for jp) bss vs" "length results \<le> MAX_DECODED_VALUES"
  shows "decode_all_loop jp (p @ concat bss) (length p) results =
    (if length results + length vs \<le> MAX_DECODED_VALUES then Inr (results @ vs)
     else Inl ValueError)"
  using assms
proof (induction bss vs arbitrary: p results rule: list_all2_induct)
  case Nil
  then show ?case by (subst decode_all_loop.simps) simp
next
  case (Cons b bss v vs)
  then have b: "b \<noteq> []" and v: "decode_application_value jp b = Inr v"
    by (auto simp: element_for_def dest: spec [where x = "[]"])
  from Cons.hyps(1) obtain tag te where t: "decode_tag (p @ b @ concat bss) (length p) = Inr (tag, te)"
    "cls tag = APPLICATION" "element_end tag te = length p + length b"
    by (fastforce simp: element_for_def)
  have "py_slice (p @ b @ concat bss) (length p) (length p + length b) = b"
    by (simp add: py_slice_def)
  with Cons.IH [of "results @ [v]" "p @ b"] Cons.prems b v t show ?case
    by (subst decode_all_loop.simps) (auto simp: Suc_le_eq)
qed

text \<open>
  The thirteen kinds of primitive value with the encoder the library has for each, the
  value its decoder returns, and the range each encoder accepts.
\<close>

datatype app_value =
    ANull | ABool bool | AUnsigned int | ASigned int | AReal py_float | ADouble py_float
  | AOctets bytes | AChars py_str | ABits bit_string | AEnumerated int | ADate bacnet_date
  | ATime bacnet_time | AObjectId object_identifier

fun encode_app_value :: "app_value \<Rightarrow> py_error + bytes" where
  "encode_app_value ANull = encode_application_null"
| "encode_app_value (ABool b) = encode_application_boolean b"
| "encode_app_value (AUnsigned v) = encode_application_unsigned v"
| "encode_app_value (ASigned v) = encode_application_signed v"
| "encode_app_value (AReal x) = encode_application_real x"
| "encode_app_value (ADouble x) = encode_application_double x"
| "encode_app_value (AOctets b) = encode_application_octet_string b"
| "encode_app_value (AChars s) = encode_application_character_string s"
| "encode_app_value (ABits b) = encode_application_bit_string b"
| "encode_app_value (AEnumerated v) = encode_application_enumerated v"
| "encode_app_value (ADate d) = encode_application_date d"
| "encode_app_value (ATime t) = encode_application_time t"
| "encode_app_value (AObjectId v) =
     encode_application_object_id (object_type v) (instance_number v)"

fun decoded :: "app_value \<Rightarrow> py_value" where
  "decoded ANull = VNone"
| "decoded (ABool b) = VBool b"
| "decoded (AUnsigned v) = VInt v"
| "decoded (ASigned v) = VInt v"
| "decoded (AReal x) = VFloat (single x)"
| "decoded (ADouble x) = VFloat x"
| "decoded (AOctets b) = VBytes b"
| "decoded (AChars s) = VStr s"
| "decoded (ABits b) = VBits b"
| "decoded (AEnumerated v) = VInt v"
| "decoded (ADate d) = VDate d"
| "decoded (ATime t) = VTime t"
| "decoded (AObjectId v) = VOid v"

text \<open>The value itself, which is what comes back unless a Real is rounded to single precision.\<close>

fun value_of :: "app_value \<Rightarrow> py_value" where
  "value_of (AReal x) = VFloat x"
| "value_of v = decoded v"

fun exact_app :: "app_value \<Rightarrow> bool" where
  "exact_app (AReal x) = exact_single x"
| "exact_app v = True"

lemma single_exact:
  assumes "exact_single x"
  shows "single x = x"
proof -
  obtain bs where "length bs = 4" "\<not> f32_nan (int_from_bytes bs)" "unpack_f bs = x"
    by (rule exact_single_octets [OF assms])
  then show ?thesis using pack_unpack_f [of bs] by (simp add: single_def)
qed

lemma decoded_exact: "exact_app v \<Longrightarrow> decoded v = value_of v"
  by (cases v) (simp_all add: single_exact)

fun valid_app :: "app_value \<Rightarrow> bool" where
  "valid_app (AUnsigned v) = (0 \<le> v \<and> v < 2 ^ 32)"
| "valid_app (ASigned v) = (- (2 ^ 31) \<le> v \<and> v < 2 ^ 31)"
| "valid_app (AReal x) = (case pack_f x of Inr _ \<Rightarrow> True | Inl _ \<Rightarrow> False)"
| "valid_app (AOctets b) = (length b \<le> 1048576)"
| "valid_app (AChars s) = valid_str s"
| "valid_app (ABits b) = (valid_bs b \<and> length (bs_data b) \<le> 1048575)"
| "valid_app (AEnumerated v) = (0 \<le> v \<and> v < 2 ^ 32)"
| "valid_app (ADate d) = valid_date d"
| "valid_app (ATime t) = valid_time t"
| "valid_app (AObjectId v) = valid_oid v"
| "valid_app _ = True"

lemma element_for_null:
  assumes "encode_application_null = Inr bs"
  shows "element_for jp bs VNone"
proof -
  have bs: "bs = tag_octets 0 APPLICATION 0"
    using assms
    by (simp add: encode_application_null_def encode_application_tagged_def encode_tag_eq)
  have t: "decode_tag (p @ bs @ s) (length p) =
      Inr (\<lparr>number = 0, cls = APPLICATION, tag_length = 0, is_opening = False,
            is_closing = False\<rparr>, length p + length bs)" for p s
    using decode_tag_octets [of 0 0 p APPLICATION s] by (simp add: bs)
  have "decode_application_value jp (bs @ s) = Inr VNone" for s
    using t [of "[]" s] by (simp add: decode_application_value_def)
  then show ?thesis using t by (simp add: element_for_def element_end_def bs)
qed

lemma element_for_bool:
  assumes "encode_application_boolean b = Inr bs"
  shows "element_for jp bs (VBool b)"
proof -
  let ?l = "if b then 1 else 0 :: int"
  have bs: "bs = tag_octets 1 APPLICATION ?l"
    using assms by (auto simp: encode_application_boolean_def encode_tag_eq)
  have t: "decode_tag (p @ bs @ s) (length p) =
      Inr (\<lparr>number = 1, cls = APPLICATION, tag_length = ?l, is_opening = False,
            is_closing = False\<rparr>, length p + length bs)" for p s
    using decode_tag_octets [of 1 ?l p APPLICATION s] by (simp add: bs)
  have "decode_application_value jp (bs @ s) = Inr (VBool b)" for s
    using t [of "[]" s] by (simp add: decode_application_value_def is_boolean_true_def)
  then show ?thesis using t by (simp add: element_for_def element_end_def bs)
qed

lemma encode_object_identifier_eq:
  "valid_oid v \<Longrightarrow> encode_object_identifier (object_type v) (instance_number v) = oid_encode v"
  by (cases v) (simp add: encode_object_identifier_def ObjectType_def ObjectIdentifier_def valid_oid_def)

lemmas app_encoder_defs = encode_application_unsigned_def encode_application_signed_def
  encode_application_real_def encode_application_double_def encode_application_octet_string_def
  encode_application_character_string_def encode_application_bit_string_def
  encode_application_enumerated_def encode_application_date_def encode_application_time_def
  encode_application_object_id_def

lemma app_value_element:
  assumes "valid_app v" "encode_app_value v = Inr bs"
  shows "element_for jp bs (decoded v)"
  using assms
  by (cases v)
    (auto simp: app_encoder_defs encode_object_identifier_eq split: sum.splits
      intro: element_for_null element_for_bool unsigned.element signed.element real.element
        double.element octets.element chars.element [where jpe = "\<lambda>_. Inl ValueError"] bits.element
        enumerated.element         date.element time.element objid.element)

lemma app_value_total:
  assumes "valid_app v"
  shows "\<exists>bs. encode_app_value v = Inr bs"
proof (cases v)
  case ANull
  then show ?thesis
    by (simp add: encode_application_null_def encode_application_tagged_def encode_tag_eq)
next
  case (ABool b)
  then show ?thesis by (simp add: encode_application_boolean_def encode_tag_eq)
next
  case (AReal x)
  with assms show ?thesis
    using real.element_total [of x] by (auto simp: app_encoder_defs split: sum.splits)
qed (use assms unsigned.element_total signed.element_total double.element_total
      octets.element_total chars.element_total bits.element_total enumerated.element_total
      date.element_total time.element_total objid.element_total
     in \<open>simp_all add: app_encoder_defs encode_object_identifier_eq\<close>)

lemma concat_results_total:
  "\<forall>v\<in>set vs. \<exists>bs. f v = Inr bs \<Longrightarrow> \<exists>bs. concat_results (map f vs) = Inr bs"
  by (induction vs) auto

lemma app_values_elements:
  assumes "\<forall>v\<in>set vs. valid_app v" "concat_results (map encode_app_value vs) = Inr bs"
  shows "\<exists>bss. bs = concat bss \<and> list_all2 (element_for jp) bss (map decoded vs)"
  using assms
proof (induction vs arbitrary: bs)
  case (Cons v vs)
  then obtain a b where ab: "encode_app_value v = Inr a"
    "concat_results (map encode_app_value vs) = Inr b" "bs = a @ b" by auto
  from Cons.IH [OF _ ab(2)] Cons.prems(1)
  obtain bss where "b = concat bss" "list_all2 (element_for jp) bss (map decoded vs)" by auto
  with ab app_value_element [OF _ ab(1)] Cons.prems(1) show ?case
    by (intro exI [of _ "a # bss"]) simp
qed (auto intro: exI [of _ "[]"])

end
