(* ===== verification/Npdu.thy ===== *)
theory Npdu
  imports Prelude
begin

text \<open>
  \<open>network/npdu.py\<close> and the address type of \<open>network/address.py\<close>: the network PDU of
  Clause 6.2, its encoder and decoder, and the router's fast path for local delivery.
\<close>

section \<open>Addresses\<close>

record bacnet_address =
  network :: "int option"
  mac_address :: bytes

definition BACnetAddress :: "int option \<Rightarrow> bytes \<Rightarrow> py_error + bacnet_address" where
  "BACnetAddress net mac =
     (if (case net of None \<Rightarrow> False | Some n \<Rightarrow> n \<noteq> 0xFFFF \<and> (n < 1 \<or> n > 65534))
      then Inl ValueError else Inr \<lparr>network = net, mac_address = mac\<rparr>)"

definition valid_address :: "bacnet_address \<Rightarrow> bool" where
  "valid_address a \<longleftrightarrow>
     (case network a of None \<Rightarrow> True | Some n \<Rightarrow> 1 \<le> n \<and> n \<le> 0xFFFF)"

definition is_local :: "bacnet_address \<Rightarrow> bool" where
  "is_local a \<longleftrightarrow> network a = None"

definition is_broadcast :: "bacnet_address \<Rightarrow> bool" where
  "is_broadcast a \<longleftrightarrow> network a = Some 0xFFFF \<or> length (mac_address a) = 0"

definition is_global_broadcast :: "bacnet_address \<Rightarrow> bool" where
  "is_global_broadcast a \<longleftrightarrow> network a = Some 0xFFFF"

definition is_remote_broadcast :: "bacnet_address \<Rightarrow> bool" where
  "is_remote_broadcast a \<longleftrightarrow>
     network a \<noteq> None \<and> network a \<noteq> Some 0xFFFF \<and> length (mac_address a) = 0"

definition GLOBAL_BROADCAST :: bacnet_address where
  "GLOBAL_BROADCAST = \<lparr>network = Some 0xFFFF, mac_address = []\<rparr>"

definition remote_broadcast :: "int \<Rightarrow> py_error + bacnet_address" where
  "remote_broadcast n = BACnetAddress (Some n) []"

definition remote_station :: "int \<Rightarrow> bytes \<Rightarrow> py_error + bacnet_address" where
  "remote_station n mac = BACnetAddress (Some n) mac"

lemma BACnetAddress_Inr_iff:
  "BACnetAddress net mac = Inr a \<longleftrightarrow> valid_address a \<and> network a = net \<and> mac_address a = mac"
  by (cases a) (auto simp: BACnetAddress_def valid_address_def split: option.splits)

section \<open>The NPDU\<close>

datatype network_priority = NORMAL | URGENT | CRITICAL_EQUIPMENT | LIFE_SAFETY

fun priority_value :: "network_priority \<Rightarrow> int" where
  "priority_value NORMAL = 0"
| "priority_value URGENT = 1"
| "priority_value CRITICAL_EQUIPMENT = 2"
| "priority_value LIFE_SAFETY = 3"

definition PRIORITIES :: "network_priority list" where
  "PRIORITIES = [NORMAL, URGENT, CRITICAL_EQUIPMENT, LIFE_SAFETY]"

record npdu =
  version :: int
  is_network_message :: bool
  expecting_reply :: bool
  priority :: network_priority
  destination :: "bacnet_address option"
  npdu_source :: "bacnet_address option"
  hop_count :: int
  message_type :: "int option"
  vendor_id :: "int option"
  apdu_data :: bytes
  network_message_data :: bytes

text \<open>\<open>struct.pack("!HB", h, b)\<close> and \<open>struct.pack("!H", h)\<close>.\<close>

definition pack_H :: "int \<Rightarrow> py_error + bytes" where
  "pack_H h = (if 0 \<le> h \<and> h < 65536 then Inr (be_bytes 2 h) else Inl StructError)"

definition pack_HB :: "int \<Rightarrow> int \<Rightarrow> py_error + bytes" where
  "pack_HB h b =
     (if 0 \<le> h \<and> h < 65536 \<and> 0 \<le> b \<and> b < 256 then Inr (be_bytes 2 h @ [byte_of b])
      else Inl StructError)"

definition control_octet :: "network_priority \<Rightarrow> bool \<Rightarrow> bool \<Rightarrow> bool \<Rightarrow> bool \<Rightarrow> int" where
  "control_octet prio net has_dest has_src reply =
     (let c = priority_value prio AND 0x03;
          c = (if net then c OR 0x80 else c);
          c = (if has_dest then c OR 0x20 else c);
          c = (if has_src then c OR 0x08 else c)
      in if reply then c OR 0x04 else c)"

text \<open>One address field of the header: network number, length, MAC.\<close>

definition encode_address_field :: "bacnet_address option \<Rightarrow> py_error + bytes" where
  "encode_address_field addr =
     (case addr of None \<Rightarrow> Inr []
      | Some a \<Rightarrow>
          rbind (pack_HB (case network a of Some n \<Rightarrow> n | None \<Rightarrow> 0) (int (length (mac_address a))))
            (\<lambda>h. Inr (h @ mac_address a)))"

definition encode_payload :: "npdu \<Rightarrow> py_error + bytes" where
  "encode_payload n =
     (if is_network_message n
      then case message_type n of None \<Rightarrow> Inl ValueError
           | Some ty \<Rightarrow>
               rbind (mk_bytes [ty]) (\<lambda>t.
               rbind (if ty \<ge> 0x80
                      then pack_H (case vendor_id n of Some v \<Rightarrow> v | None \<Rightarrow> 0) else Inr [])
                 (\<lambda>v. Inr (t @ v @ network_message_data n)))
      else Inr (apdu_data n))"

text \<open>The checks before the buffer is allocated.\<close>

definition npdu_rejected :: "npdu \<Rightarrow> bool" where
  "npdu_rejected n \<longleftrightarrow>
     (case destination n of None \<Rightarrow> False | Some d \<Rightarrow> network d = None)
     \<or> (case npdu_source n of None \<Rightarrow> False
        | Some s \<Rightarrow> network s = None \<or> network s = Some 0xFFFF \<or> network s = Some 0
            \<or> length (mac_address s) = 0)
     \<or> (is_network_message n \<and> message_type n = None)"

definition encode_npdu :: "npdu \<Rightarrow> py_error + bytes" where
  "encode_npdu n =
     (if npdu_rejected n then Inl ValueError
      else
        rbind (mk_bytes [1, control_octet (priority n) (is_network_message n)
                 (destination n \<noteq> None) (npdu_source n \<noteq> None) (expecting_reply n)]) (\<lambda>hdr.
        rbind (encode_address_field (destination n)) (\<lambda>d.
        rbind (encode_address_field (npdu_source n)) (\<lambda>s.
        rbind (if destination n \<noteq> None then mk_bytes [hop_count n] else Inr []) (\<lambda>h.
        rbind (encode_payload n) (\<lambda>p. Inr (hdr @ d @ s @ h @ p)))))))"

section \<open>Decoding\<close>

definition decode_destination :: "bytes \<Rightarrow> nat \<Rightarrow> py_error + bacnet_address \<times> nat" where
  "decode_destination data offset =
     (if offset + 3 > length data then Inl ValueError
      else
        let dnet = int_from_bytes (py_slice data offset (offset + 2))
        in rbind (octet_at data (offset + 2)) (\<lambda>d.
        let dlen = nat d; offset = offset + 3
        in if dlen > 0 \<and> offset + dlen > length data then Inl ValueError
           else rbind (BACnetAddress (Some dnet) (py_slice data offset (offset + dlen)))
                  (\<lambda>a. Inr (a, offset + dlen))))"

definition decode_source :: "bytes \<Rightarrow> nat \<Rightarrow> py_error + bacnet_address \<times> nat" where
  "decode_source data offset =
     (if offset + 3 > length data then Inl ValueError
      else
        let snet = int_from_bytes (py_slice data offset (offset + 2))
        in if snet = 0xFFFF then Inl ValueError
           else if snet = 0 then Inl ValueError
           else
             rbind (octet_at data (offset + 2)) (\<lambda>s.
             let slen = nat s; offset = offset + 3
             in if slen = 0 then Inl ValueError
                else if offset + slen > length data then Inl ValueError
                else rbind (BACnetAddress (Some snet) (py_slice data offset (offset + slen)))
                       (\<lambda>a. Inr (a, offset + slen))))"

text \<open>The message type, its vendor id when proprietary, and the rest of the octets.\<close>

definition decode_message :: "bytes \<Rightarrow> nat \<Rightarrow> py_error + int \<times> int option \<times> bytes" where
  "decode_message data offset =
     (if offset \<ge> length data then Inl ValueError
      else
        rbind (octet_at data offset) (\<lambda>ty.
        let offset = offset + 1
        in if ty \<ge> 0x80
           then if offset + 2 > length data then Inl ValueError
                else Inr (ty, Some (int_from_bytes (py_slice data offset (offset + 2))),
                          drop (offset + 2) data)
           else Inr (ty, None, drop offset data)))"

definition optionally :: "bool \<Rightarrow> (nat \<Rightarrow> py_error + 'a \<times> nat) \<Rightarrow> nat \<Rightarrow> py_error + 'a option \<times> nat" where
  "optionally b f offset =
     (if b then rbind (f offset) (\<lambda>(x, offset). Inr (Some x, offset)) else Inr (None, offset))"

definition decode_hop_count :: "bytes \<Rightarrow> bool \<Rightarrow> nat \<Rightarrow> py_error + int \<times> nat" where
  "decode_hop_count data has_dest offset =
     (if has_dest
      then if offset \<ge> length data then Inl ValueError
           else rbind (octet_at data offset) (\<lambda>h. Inr (h, offset + 1))
      else Inr (255, offset))"

definition decode_npdu :: "bytes \<Rightarrow> py_error + npdu" where
  "decode_npdu data =
     (if length data < 2 then Inl ValueError
      else
        rbind (octet_at data 0) (\<lambda>ver.
        if ver \<noteq> 1 then Inl ValueError
        else
        rbind (octet_at data 1) (\<lambda>control.
        let net = (control AND 0x80 \<noteq> 0); has_dest = (control AND 0x20 \<noteq> 0);
            has_src = (control AND 0x08 \<noteq> 0); reply = (control AND 0x04 \<noteq> 0)
        in rbind (py_index PRIORITIES (control AND 0x03)) (\<lambda>prio.
           rbind (optionally has_dest (decode_destination data) 2) (\<lambda>(dest, offset).
           rbind (optionally has_src (decode_source data) offset) (\<lambda>(src, offset).
           rbind (decode_hop_count data has_dest offset) (\<lambda>(hops, offset).
           rbind (if net
                  then rbind (decode_message data offset)
                         (\<lambda>(ty, vid, rest). Inr (Some ty, vid, rest, []))
                  else Inr (None, None, [], drop offset data)) (\<lambda>(ty, vid, nmd, apdu).
             Inr \<lparr>version = ver, is_network_message = net, expecting_reply = reply,
                  priority = prio, destination = dest, npdu_source = src, hop_count = hops,
                  message_type = ty, vendor_id = vid, apdu_data = apdu,
                  network_message_data = nmd\<rparr>))))))))"

text \<open>Every index is checked before the octet is read, so the decoders are the following functions.\<close>

lemma decode_destination_eq:
  "decode_destination data offset =
     (if offset + 3 > length data then Inl ValueError
      else
        let dnet = int_from_bytes (py_slice data offset (offset + 2));
            dlen = nat (uint (data ! (offset + 2))); offset = offset + 3
        in if dlen > 0 \<and> offset + dlen > length data then Inl ValueError
           else rbind (BACnetAddress (Some dnet) (py_slice data offset (offset + dlen)))
                  (\<lambda>a. Inr (a, offset + dlen)))"
  by (simp add: decode_destination_def Let_def del: zero_less_nat_eq nat_0_iff)

lemma decode_source_eq:
  "decode_source data offset =
     (if offset + 3 > length data then Inl ValueError
      else
        let snet = int_from_bytes (py_slice data offset (offset + 2))
        in if snet = 0xFFFF then Inl ValueError
           else if snet = 0 then Inl ValueError
           else
             let slen = nat (uint (data ! (offset + 2))); offset = offset + 3
             in if slen = 0 then Inl ValueError
                else if offset + slen > length data then Inl ValueError
                else rbind (BACnetAddress (Some snet) (py_slice data offset (offset + slen)))
                       (\<lambda>a. Inr (a, offset + slen)))"
  by (simp add: decode_source_def Let_def del: zero_less_nat_eq nat_0_iff)

lemma decode_message_eq:
  "decode_message data offset =
     (if offset \<ge> length data then Inl ValueError
      else
        let ty = uint (data ! offset); offset = offset + 1
        in if ty \<ge> 0x80
           then if offset + 2 > length data then Inl ValueError
                else Inr (ty, Some (int_from_bytes (py_slice data offset (offset + 2))),
                          drop (offset + 2) data)
           else Inr (ty, None, drop offset data))"
  by (simp add: decode_message_def Let_def)

lemma decode_hop_count_eq:
  "decode_hop_count data has_dest offset =
     (if has_dest
      then if offset \<ge> length data then Inl ValueError
           else Inr (uint (data ! offset), offset + 1)
      else Inr (255, offset))"
  by (simp add: decode_hop_count_def)

lemma decode_npdu_eq:
  "decode_npdu data =
     (if length data < 2 then Inl ValueError
      else if uint (data ! 0) \<noteq> 1 then Inl ValueError
      else
        let control = uint (data ! 1);
            net = (control AND 0x80 \<noteq> 0); has_dest = (control AND 0x20 \<noteq> 0);
            has_src = (control AND 0x08 \<noteq> 0); reply = (control AND 0x04 \<noteq> 0)
        in rbind (py_index PRIORITIES (control AND 0x03)) (\<lambda>prio.
           rbind (optionally has_dest (decode_destination data) 2) (\<lambda>(dest, offset).
           rbind (optionally has_src (decode_source data) offset) (\<lambda>(src, offset).
           rbind (if has_dest
                  then if offset \<ge> length data then Inl ValueError
                       else Inr (uint (data ! offset), offset + 1)
                  else Inr (255, offset)) (\<lambda>(hops, offset).
           rbind (if net
                  then rbind (decode_message data offset)
                         (\<lambda>(ty, vid, rest). Inr (Some ty, vid, rest, []))
                  else Inr (None, None, [], drop offset data)) (\<lambda>(ty, vid, nmd, apdu).
             Inr \<lparr>version = uint (data ! 0), is_network_message = net, expecting_reply = reply,
                  priority = prio, destination = dest, npdu_source = src, hop_count = hops,
                  message_type = ty, vendor_id = vid, apdu_data = apdu,
                  network_message_data = nmd\<rparr>))))))"
  by (simp add: decode_npdu_def Let_def decode_hop_count_eq)

section \<open>The router's fast path\<close>

text \<open>
  \<open>encode_npdu_local_delivery\<close>: the destination is dropped and the source injected without
  building an intermediate NPDU.  Storing \<open>None\<close> in the buffer is a TypeError.
\<close>

definition encode_npdu_local_delivery :: "npdu \<Rightarrow> int \<Rightarrow> bytes \<Rightarrow> py_error + bytes" where
  "encode_npdu_local_delivery n source_network source_mac =
     (let c = priority_value (priority n) AND 0x03;
          c = (if is_network_message n then c OR 0x80 else c);
          c = c OR 0x08;
          c = (if expecting_reply n then c OR 0x04 else c)
      in rbind (mk_bytes [1, c]) (\<lambda>hdr.
         rbind (pack_HB source_network (int (length source_mac))) (\<lambda>s.
           if is_network_message n
           then case message_type n of None \<Rightarrow> Inl TypeError
                | Some ty \<Rightarrow>
                    rbind (mk_bytes [ty]) (\<lambda>t.
                    rbind (if ty \<ge> 0x80
                           then pack_H (case vendor_id n of Some v \<Rightarrow> v | None \<Rightarrow> 0) else Inr [])
                      (\<lambda>v. Inr (hdr @ s @ source_mac @ t @ v @ network_message_data n)))
           else Inr (hdr @ s @ source_mac @ apdu_data n))))"

end
