(* ===== verification/Npdu_Laws.thy ===== *)
theory Npdu_Laws
  imports Npdu Primitive_Laws
begin

text \<open>
  The laws of \<open>network/npdu.py\<close>: the NPDUs that can be encoded, that decoding gives back the
  view the header can carry, that a decoded NPDU encodes to the octets it came from, which
  exceptions the decoder can raise, and that the router's local-delivery fast path agrees with
  the general encoder.
\<close>

section \<open>What a header can carry\<close>

definition dest_ok :: "bacnet_address \<Rightarrow> bool" where
  "dest_ok a \<longleftrightarrow>
     (case network a of None \<Rightarrow> False | Some n \<Rightarrow> 1 \<le> n \<and> n \<le> 0xFFFF) \<and> length (mac_address a) \<le> 255"

definition source_ok :: "bacnet_address \<Rightarrow> bool" where
  "source_ok a \<longleftrightarrow> dest_ok a \<and> network a \<noteq> Some 0xFFFF \<and> mac_address a \<noteq> []"

definition message_ok :: "npdu \<Rightarrow> bool" where
  "message_ok n \<longleftrightarrow>
     (case message_type n of None \<Rightarrow> False
      | Some t \<Rightarrow> octet t \<and> (128 \<le> t \<longrightarrow>
          (case vendor_id n of None \<Rightarrow> True | Some v \<Rightarrow> 0 \<le> v \<and> v \<le> 0xFFFF)))"

definition npdu_ok :: "npdu \<Rightarrow> bool" where
  "npdu_ok n \<longleftrightarrow>
     (case destination n of None \<Rightarrow> True | Some d \<Rightarrow> dest_ok d \<and> octet (hop_count n))
     \<and> (case npdu_source n of None \<Rightarrow> True | Some s \<Rightarrow> source_ok s)
     \<and> (is_network_message n \<longrightarrow> message_ok n)"

definition npdu_view :: "npdu \<Rightarrow> npdu" where
  "npdu_view n =
     n\<lparr>version := 1,
       hop_count := (if destination n = None then 255 else hop_count n),
       message_type := (if is_network_message n then message_type n else None),
       vendor_id := (case message_type n of None \<Rightarrow> None
         | Some t \<Rightarrow> if is_network_message n \<and> 128 \<le> t
             then Some (case vendor_id n of None \<Rightarrow> 0 | Some v \<Rightarrow> v) else None),
       apdu_data := (if is_network_message n then [] else apdu_data n),
       network_message_data := (if is_network_message n then network_message_data n else [])\<rparr>"

section \<open>The control octet\<close>

lemma priority_bits [simp]: "priority_value p AND 3 = priority_value p"
  by (cases p) simp_all

lemma control_octet_fields:
  "octet (control_octet p n d s r)"
  "control_octet p n d s r AND 0x03 = priority_value p"
  "control_octet p n d s r AND 0x80 \<noteq> 0 \<longleftrightarrow> n"
  "control_octet p n d s r AND 0x20 \<noteq> 0 \<longleftrightarrow> d"
  "control_octet p n d s r AND 0x08 \<noteq> 0 \<longleftrightarrow> s"
  "control_octet p n d s r AND 0x04 \<noteq> 0 \<longleftrightarrow> r"
  by (cases p; cases n; cases d; cases s; cases r; simp add: control_octet_def octet_def)+

lemma priorities_index [simp]: "py_index PRIORITIES (priority_value p) = Inr p"
  by (cases p) (simp_all add: PRIORITIES_def py_index_def)

section \<open>Address fields\<close>

definition address_octets :: "int \<Rightarrow> bytes \<Rightarrow> bytes" where
  "address_octets v mac = be_bytes 2 v @ byte_of (int (length mac)) # mac"

definition opt_octets :: "bacnet_address option \<Rightarrow> bytes" where
  "opt_octets a = (case a of None \<Rightarrow> []
     | Some x \<Rightarrow> address_octets (case network x of None \<Rightarrow> 0 | Some v \<Rightarrow> v) (mac_address x))"

lemma int_from_be_2: "0 \<le> v \<Longrightarrow> v \<le> 0xFFFF \<Longrightarrow> int_from_bytes (be_bytes 2 v) = v"
  by (simp add: int_from_be_bytes)

lemma take_2_be [simp]: "take 2 (be_bytes 2 v @ xs) = be_bytes 2 v"
  by simp

lemma encode_address_ok:
  "dest_ok a \<Longrightarrow> encode_address_field (Some a) = Inr (opt_octets (Some a))"
  by (auto simp: encode_address_field_def dest_ok_def pack_HB_def opt_octets_def
      address_octets_def split: option.splits)

lemma address_field_at:
  fixes p s :: bytes
  assumes "0 \<le> v" "v \<le> 0xFFFF" "length mac \<le> 255"
  defines "data \<equiv> p @ address_octets v mac @ s"
  shows "int_from_bytes (py_slice data (length p) (length p + 2)) = v"
    "nat (uint (data ! (length p + 2))) = length mac"
    "py_slice data (length p + 3) (length p + 3 + length mac) = mac"
    "\<not> length data < length p + 3" "\<not> length data < length p + 3 + length mac"
  using assms int_from_be_2 [of v]
  by (simp_all add: address_octets_def py_slice_def nth_append)

lemma decode_destination_at:
  assumes "dest_ok a"
  shows "decode_destination (p @ opt_octets (Some a) @ s) (length p)
    = Inr (a, length p + length (opt_octets (Some a)))"
proof -
  obtain v where v: "network a = Some v" "1 \<le> v" "v \<le> 0xFFFF" "length (mac_address a) \<le> 255"
    using assms by (auto simp: dest_ok_def split: option.splits)
  have "BACnetAddress (Some v) (mac_address a) = Inr a"
    using v by (simp add: BACnetAddress_Inr_iff valid_address_def)
  then show ?thesis
    using address_field_at [of v "mac_address a" p s] v
    by (simp add: decode_destination_eq opt_octets_def Let_def)
      (simp add: address_octets_def)
qed

lemma decode_source_at:
  assumes "source_ok a"
  shows "decode_source (p @ opt_octets (Some a) @ s) (length p)
    = Inr (a, length p + length (opt_octets (Some a)))"
proof -
  obtain v where v: "network a = Some v" "1 \<le> v" "v < 0xFFFF" "length (mac_address a) \<le> 255"
    "mac_address a \<noteq> []"
    using assms by (auto simp: source_ok_def dest_ok_def split: option.splits)
  have "BACnetAddress (Some v) (mac_address a) = Inr a"
    using v by (simp add: BACnetAddress_Inr_iff valid_address_def)
  then show ?thesis
    using address_field_at [of v "mac_address a" p s] v
    by (simp add: decode_source_eq opt_octets_def Let_def)
      (simp add: address_octets_def)
qed

section \<open>The message of a network NPDU\<close>

definition message_octets :: "npdu \<Rightarrow> bytes" where
  "message_octets n =
     (case message_type n of None \<Rightarrow> []
      | Some t \<Rightarrow> byte_of t # (if 128 \<le> t
          then be_bytes 2 (case vendor_id n of None \<Rightarrow> 0 | Some v \<Rightarrow> v) else [])
          @ network_message_data n)"

lemma encode_payload_ok:
  "(is_network_message n \<longrightarrow> message_ok n) \<Longrightarrow>
   encode_payload n = Inr (if is_network_message n then message_octets n else apdu_data n)"
  by (auto simp: encode_payload_def message_ok_def message_octets_def pack_H_def octet_def
      split: option.splits)

lemma decode_message_at:
  assumes "message_ok n"
  shows "decode_message (p @ message_octets n) (length p) =
    Inr (the (message_type n),
      if 128 \<le> the (message_type n)
      then Some (case vendor_id n of None \<Rightarrow> 0 | Some v \<Rightarrow> v) else None,
      network_message_data n)"
proof -
  obtain t where t: "message_type n = Some t" "octet t"
    using assms by (auto simp: message_ok_def split: option.splits)
  let ?v = "case vendor_id n of None \<Rightarrow> 0 | Some v \<Rightarrow> v"
  show ?thesis
  proof (cases "128 \<le> t")
    case True
    then have "0 \<le> ?v" "?v \<le> 0xFFFF"
      using assms t by (auto simp: message_ok_def split: option.splits)
    then have "int_from_bytes (be_bytes 2 ?v) = ?v" by (rule int_from_be_2)
    then show ?thesis using t True
      by (simp add: decode_message_eq message_octets_def octet_def Let_def py_slice_def)
  next
    case False
    then show ?thesis using t
      by (simp add: decode_message_eq message_octets_def octet_def Let_def)
  qed
qed

section \<open>Round trip\<close>

definition npdu_octets :: "npdu \<Rightarrow> bytes" where
  "npdu_octets n =
     [1, byte_of (control_octet (priority n) (is_network_message n) (destination n \<noteq> None)
        (npdu_source n \<noteq> None) (expecting_reply n))]
     @ opt_octets (destination n) @ opt_octets (npdu_source n)
     @ (if destination n \<noteq> None then [byte_of (hop_count n)] else [])
     @ (if is_network_message n then message_octets n else apdu_data n)"

lemma not_rejected: "npdu_ok n \<Longrightarrow> \<not> npdu_rejected n"
  by (auto simp: npdu_ok_def npdu_rejected_def dest_ok_def source_ok_def message_ok_def
      split: option.splits)

lemma encode_npdu_ok:
  assumes "npdu_ok n"
  shows "encode_npdu n = Inr (npdu_octets n)"
proof -
  let ?c = "control_octet (priority n) (is_network_message n) (destination n \<noteq> None)
        (npdu_source n \<noteq> None) (expecting_reply n)"
  have c: "mk_bytes [1, ?c] = Inr [1, byte_of ?c]"
    using control_octet_fields(1) [of "priority n" "is_network_message n" "destination n \<noteq> None"
        "npdu_source n \<noteq> None" "expecting_reply n"]
    by (simp add: octet_def)
  have d: "encode_address_field (destination n) = Inr (opt_octets (destination n))"
    using assms encode_address_ok
    by (cases "destination n") (auto simp: npdu_ok_def encode_address_field_def opt_octets_def)
  have s: "encode_address_field (npdu_source n) = Inr (opt_octets (npdu_source n))"
    using assms encode_address_ok
    by (cases "npdu_source n")
      (auto simp: npdu_ok_def encode_address_field_def opt_octets_def source_ok_def)
  have h: "(if destination n \<noteq> None then mk_bytes [hop_count n] else Inr [])
      = Inr (if destination n \<noteq> None then [byte_of (hop_count n)] else [])"
    using assms by (auto simp: npdu_ok_def octet_def split: option.splits)
  have p: "encode_payload n = Inr (if is_network_message n then message_octets n else apdu_data n)"
    using assms by (intro encode_payload_ok) (simp add: npdu_ok_def)
  show ?thesis
    unfolding encode_npdu_def c d s h p
    using not_rejected [OF assms] by (simp add: npdu_octets_def)
qed

lemma optional_field_at:
  assumes "\<And>a. opt = Some a \<Longrightarrow>
    f (p @ opt_octets (Some a) @ s) (length p) = Inr (a, length p + length (opt_octets (Some a)))"
  shows "optionally (opt \<noteq> None) (f (p @ opt_octets opt @ s)) (length p)
    = Inr (opt, length p + length (opt_octets opt))"
  using assms by (cases opt) (auto simp: optionally_def opt_octets_def)

lemma npdu_round:
  assumes ok: "npdu_ok n"
  shows "decode_npdu (npdu_octets n) = Inr (npdu_view n)"
proof -
  define c where "c = control_octet (priority n) (is_network_message n) (destination n \<noteq> None)
        (npdu_source n \<noteq> None) (expecting_reply n)"
  note cf = control_octet_fields [of "priority n" "is_network_message n" "destination n \<noteq> None"
      "npdu_source n \<noteq> None" "expecting_reply n", folded c_def]
  define h where "h = (if destination n \<noteq> None then [byte_of (hop_count n)] else [])"
  define m where "m = (if is_network_message n then message_octets n else apdu_data n)"
  define D where "D = opt_octets (destination n)"
  define S where "S = opt_octets (npdu_source n)"
  let ?hd = "[1, byte_of c] :: bytes"
  let ?data = "?hd @ D @ S @ h @ m"
  have eq: "npdu_octets n = ?data"
    by (simp add: npdu_octets_def c_def h_def m_def D_def S_def)
  have d: "optionally (destination n \<noteq> None) (decode_destination ?data) 2
      = Inr (destination n, 2 + length D)"
    using optional_field_at [of "destination n" decode_destination ?hd "S @ h @ m",
        OF decode_destination_at] ok
    by (simp add: npdu_ok_def numeral_2_eq_2 D_def split: option.splits)
  have s: "optionally (npdu_source n \<noteq> None) (decode_source ?data) (2 + length D)
      = Inr (npdu_source n, 2 + length D + length S)"
    using optional_field_at [of "npdu_source n" decode_source "?hd @ D" "h @ m",
        OF decode_source_at] ok
    by (simp add: npdu_ok_def numeral_2_eq_2 S_def split: option.splits)
  let ?o = "2 + length D + length S"
  have hb: "?data ! ?o = byte_of (hop_count n)" if "destination n \<noteq> None"
    using that by (simp add: h_def nth_append)
  have hops: "(if destination n \<noteq> None
      then if ?o \<ge> length ?data then Inl ValueError else Inr (uint (?data ! ?o), ?o + 1)
      else Inr (255, ?o)) = Inr (hop_count (npdu_view n), ?o + length h)"
    using ok hb by (auto simp: npdu_view_def h_def npdu_ok_def split: option.splits)
  have dr: "drop (?o + length h) ?data = m" by simp
  have msg: "decode_message ?data (?o + length h) =
      Inr (the (message_type n), vendor_id (npdu_view n), network_message_data n)"
    if "is_network_message n"
    using decode_message_at [of n "?hd @ D @ S @ h"] that ok
    by (auto simp: m_def npdu_ok_def npdu_view_def message_ok_def add.commute add.left_commute
        split: option.splits)
  have pay: "(if is_network_message n
      then rbind (decode_message ?data (?o + length h))
             (\<lambda>(ty, vid, rest). Inr (Some ty, vid, rest, []))
      else Inr (None, None, [], drop (?o + length h) ?data)) =
      Inr (message_type (npdu_view n), vendor_id (npdu_view n),
        network_message_data (npdu_view n), apdu_data (npdu_view n))"
    using msg ok dr
    by (auto simp: npdu_view_def m_def npdu_ok_def message_ok_def split: option.splits)
  have len: "\<not> length ?data < 2" and b0: "uint (?data ! 0) = 1" and b1: "uint (?data ! 1) = c"
    using cf(1) by simp_all
  have "decode_npdu ?data = Inr \<lparr>version = 1, is_network_message = is_network_message n,
      expecting_reply = expecting_reply n, priority = priority n, destination = destination n,
      npdu_source = npdu_source n, hop_count = hop_count (npdu_view n),
      message_type = message_type (npdu_view n), vendor_id = vendor_id (npdu_view n),
      apdu_data = apdu_data (npdu_view n), network_message_data = network_message_data (npdu_view n)\<rparr>"
    by (simp only: decode_npdu_eq Let_def len b0 b1 cf priorities_index d s hops pay
        rbind.simps prod.case if_False simp_thms)
  then show ?thesis
    unfolding eq by (simp add: npdu_view_def)
qed

section \<open>From the octets back\<close>

lemma byte_at:
  "off < length (data :: bytes) \<Longrightarrow> drop off data = data ! off # drop (off + 1) data"
  by (simp add: Cons_nth_drop_Suc)

lemma drop_split: "drop a xs = py_slice xs a (a + k) @ drop (a + k) xs"
  using append_take_drop_id [of k "drop a xs"] by (simp add: py_slice_def add.commute)

lemma two_at:
  assumes "off + 2 \<le> length (data :: bytes)"
  shows "drop off data = be_bytes 2 (int_from_bytes (py_slice data off (off + 2))) @ drop (off + 2) data"
    and "int_from_bytes (py_slice data off (off + 2)) \<le> 0xFFFF"
proof -
  let ?s = "py_slice data off (off + 2)"
  have l: "length ?s = 2" using assms by simp
  then show "int_from_bytes ?s \<le> 0xFFFF"
    using int_from_bytes_less [of ?s] by simp
  have "drop off data = ?s @ drop (off + 2) data"
    by (rule drop_split)
  then show "drop off data = be_bytes 2 (int_from_bytes ?s) @ drop (off + 2) data"
    using be_bytes_from_bytes [of ?s] l by simp
qed

lemma address_split:
  assumes "off + 3 \<le> length (data :: bytes)" "off + 3 + nat (uint (data ! (off + 2))) \<le> length data"
  defines "mac \<equiv> py_slice data (off + 3) (off + 3 + nat (uint (data ! (off + 2))))"
  shows "drop off data = address_octets (int_from_bytes (py_slice data off (off + 2))) mac
      @ drop (off + 3 + nat (uint (data ! (off + 2)))) data"
    and "length mac = nat (uint (data ! (off + 2)))"
proof -
  let ?l = "nat (uint (data ! (off + 2)))"
  show l: "length mac = ?l" using assms by simp
  have "drop (off + 2) data = data ! (off + 2) # drop (off + 3) data"
    using byte_at [of "off + 2" data] assms by (simp add: numeral_3_eq_3)
  moreover have "drop (off + 3) data = mac @ drop (off + 3 + ?l) data"
    unfolding mac_def by (rule drop_split)
  moreover have "data ! (off + 2) = byte_of (int (length mac))"
    using l by simp
  ultimately show "drop off data = address_octets (int_from_bytes (py_slice data off (off + 2))) mac
      @ drop (off + 3 + ?l) data"
    using two_at(1) [of off data] assms by (simp add: address_octets_def)
qed

lemma decode_destination_inverse:
  assumes "decode_destination data off = Inr (a, off')"
  shows "dest_ok a \<and> drop off data = opt_octets (Some a) @ drop off' data \<and> off' \<le> length data"
proof -
  let ?v = "int_from_bytes (py_slice data off (off + 2))"
  let ?l = "nat (uint (data ! (off + 2)))"
  have b: "off + 3 \<le> length data" "off + 3 + ?l \<le> length data" "off' = off + 3 + ?l"
    "BACnetAddress (Some ?v) (py_slice data (off + 3) (off + 3 + ?l)) = Inr a"
    using assms by (auto simp: decode_destination_eq Let_def split: if_splits)
  note s = address_split [OF b(1,2)]
  have a: "network a = Some ?v" "mac_address a = py_slice data (off + 3) (off + 3 + ?l)" "1 \<le> ?v"
    using b(4) by (auto simp: BACnetAddress_Inr_iff valid_address_def)
  have "?l \<le> 255" using byte_le [of "data ! (off + 2)"] by linarith
  then show ?thesis
    using a s b two_at(2) [of off data] by (simp add: dest_ok_def opt_octets_def)
qed

lemma decode_source_inverse:
  assumes "decode_source data off = Inr (a, off')"
  shows "source_ok a \<and> drop off data = opt_octets (Some a) @ drop off' data \<and> off' \<le> length data"
proof -
  have d: "decode_destination data off = Inr (a, off')"
    using assms by (auto simp: decode_source_eq decode_destination_eq Let_def split: if_splits)
  have "network a \<noteq> Some 0xFFFF \<and> mac_address a \<noteq> []"
    using assms by (auto simp: decode_source_eq Let_def BACnetAddress_Inr_iff py_slice_def
        split: if_splits)
  with decode_destination_inverse [OF d] show ?thesis by (simp add: source_ok_def)
qed

lemma optionally_inverse:
  assumes "optionally b f off = Inr (x, off')"
    and "\<And>a o'. f off = Inr (a, o') \<Longrightarrow>
      P a \<and> drop off data = opt_octets (Some a) @ drop o' data \<and> o' \<le> length data"
    and "off \<le> length data"
  shows "(x \<noteq> None \<longleftrightarrow> b) \<and> (\<forall>a. x = Some a \<longrightarrow> P a)
    \<and> drop off data = opt_octets x @ drop off' data \<and> off' \<le> length data"
  using assms by (auto simp: optionally_def opt_octets_def split: if_splits)

lemma decode_message_inverse:
  assumes "decode_message data off = Inr (ty, vid, rest)"
  shows "octet ty \<and> (128 \<le> ty \<longrightarrow> (\<exists>v. vid = Some v \<and> 0 \<le> v \<and> v \<le> 0xFFFF))
    \<and> (\<not> 128 \<le> ty \<longrightarrow> vid = None)
    \<and> drop off data = byte_of ty # (if 128 \<le> ty then be_bytes 2 (the vid) else []) @ rest"
  using assms byte_at [of off data] two_at [of "off + 1" data]
  by (auto simp: decode_message_eq Let_def octet_def split: if_splits)

lemma control_cases:
  assumes "py_index PRIORITIES (c AND 3) = Inr p" "0 \<le> c" "c < 256" "c AND 0x50 = 0"
  shows "control_octet p (c AND 0x80 \<noteq> 0) (c AND 0x20 \<noteq> 0) (c AND 0x08 \<noteq> 0) (c AND 0x04 \<noteq> 0) = c"
proof -
  have "list_all (\<lambda>c. c AND 0x50 \<noteq> 0 \<or> (case py_index PRIORITIES (c AND 3) of Inl _ \<Rightarrow> True
     | Inr p \<Rightarrow> control_octet p (c AND 0x80 \<noteq> 0) (c AND 0x20 \<noteq> 0) (c AND 0x08 \<noteq> 0) (c AND 0x04 \<noteq> 0) = c))
     [0..255]"
    by code_simp
  then show ?thesis using assms by (auto simp: list_all_iff dest!: bspec [where x = c])
qed

text \<open>A decoded NPDU has exactly the fields its control octet announces.\<close>

lemma decode_npdu_shape:
  fixes data :: bytes
  defines "c \<equiv> uint (data ! 1)"
  assumes "decode_npdu data = Inr n"
  shows "npdu_ok n" "npdu_view n = n" "2 \<le> length data" "data ! 0 = 1"
    "drop 2 data = drop 2 (npdu_octets n)" "py_index PRIORITIES (c AND 0x03) = Inr (priority n)"
    "is_network_message n \<longleftrightarrow> c AND 0x80 \<noteq> 0" "expecting_reply n \<longleftrightarrow> c AND 0x04 \<noteq> 0"
    "destination n \<noteq> None \<longleftrightarrow> c AND 0x20 \<noteq> 0" "npdu_source n \<noteq> None \<longleftrightarrow> c AND 0x08 \<noteq> 0"
proof -
  let ?c = "uint (data ! 1)"
  from assms(2) obtain prio dest off src off2 hops off3 ty vid nmd ad where
    len: "2 \<le> length data" and v: "uint (data ! 0) = 1"
    and p: "py_index PRIORITIES (?c AND 0x03) = Inr prio"
    and d: "optionally (?c AND 0x20 \<noteq> 0) (decode_destination data) 2 = Inr (dest, off)"
    and s: "optionally (?c AND 0x08 \<noteq> 0) (decode_source data) off = Inr (src, off2)"
    and h: "(if ?c AND 0x20 \<noteq> 0
        then if off2 \<ge> length data then Inl ValueError else Inr (uint (data ! off2), off2 + 1)
        else Inr (255, off2)) = Inr (hops, off3)"
    and m: "(if ?c AND 0x80 \<noteq> 0
        then rbind (decode_message data off3) (\<lambda>(ty, vid, rest). Inr (Some ty, vid, rest, []))
        else Inr (None, None, [], drop off3 data)) = Inr (ty, vid, nmd, ad)"
    and n: "n = \<lparr>version = 1, is_network_message = (?c AND 0x80 \<noteq> 0),
        expecting_reply = (?c AND 0x04 \<noteq> 0), priority = prio, destination = dest,
        npdu_source = src, hop_count = hops, message_type = ty, vendor_id = vid,
        apdu_data = ad, network_message_data = nmd\<rparr>"
    unfolding decode_npdu_eq Let_def if_Inl_eq_Inr rbind_Inr_iff split_paired_Ex prod.case
    by (auto simp del: rbind_Inr_iff if_Inl_eq_Inr split del: if_split)
  have D: "(dest \<noteq> None \<longleftrightarrow> ?c AND 0x20 \<noteq> 0) \<and> (\<forall>a. dest = Some a \<longrightarrow> dest_ok a)
      \<and> drop 2 data = opt_octets dest @ drop off data \<and> off \<le> length data"
    using optionally_inverse [OF d, of dest_ok data] decode_destination_inverse len by blast
  then have S: "(src \<noteq> None \<longleftrightarrow> ?c AND 0x08 \<noteq> 0) \<and> (\<forall>a. src = Some a \<longrightarrow> source_ok a)
      \<and> drop off data = opt_octets src @ drop off2 data \<and> off2 \<le> length data"
    using optionally_inverse [OF s, of source_ok data] decode_source_inverse by blast
  have H: "drop off2 data = (if dest \<noteq> None then [byte_of hops] else []) @ drop off3 data"
    "dest \<noteq> None \<longrightarrow> octet hops"
    using h D byte_at [of off2 data] by (auto simp: octet_def split: if_splits)
  have M: "drop off3 data = (if is_network_message n then message_octets n else apdu_data n)"
    "is_network_message n \<longrightarrow> message_ok n"
    using m decode_message_inverse [of data off3]
    by (fastforce simp: n message_octets_def message_ok_def split: if_splits)+
  have fields: "priority n = prio" "destination n = dest" "npdu_source n = src" "hop_count n = hops"
    by (simp_all add: n)
  have tail: "drop 2 data = opt_octets dest @ opt_octets src
      @ (if dest \<noteq> None then [byte_of hops] else [])
      @ (if is_network_message n then message_octets n else apdu_data n)"
  proof -
    have "drop 2 data = opt_octets dest @ drop off data" using D by blast
    also have "drop off data = opt_octets src @ drop off2 data" using S by blast
    also note H(1)
    also note M(1)
    finally show ?thesis .
  qed
  show "npdu_ok n"
    using D S H(2) M(2) by (auto simp: npdu_ok_def n split: option.splits)
  show "npdu_view n = n"
    using h D m decode_message_inverse [of data off3]
    by (fastforce simp: n npdu_view_def split: if_splits)
  show "2 \<le> length data" "data ! 0 = 1"
    using len v byte_of_uint [of "data ! 0"] by simp_all
  show "drop 2 data = drop 2 (npdu_octets n)"
    unfolding npdu_octets_def fields tail by simp
  show "py_index PRIORITIES (c AND 0x03) = Inr (priority n)"
    "is_network_message n \<longleftrightarrow> c AND 0x80 \<noteq> 0" "expecting_reply n \<longleftrightarrow> c AND 0x04 \<noteq> 0"
    "destination n \<noteq> None \<longleftrightarrow> c AND 0x20 \<noteq> 0" "npdu_source n \<noteq> None \<longleftrightarrow> c AND 0x08 \<noteq> 0"
    using p D S by (simp_all add: n c_def)
qed

lemma decode_npdu_inverse:
  assumes "decode_npdu data = Inr n" and reserved: "uint (data ! 1) AND 0x50 = 0"
  shows "npdu_ok n \<and> npdu_octets n = data"
proof -
  note shape = decode_npdu_shape [OF assms(1)]
  have split: "data = data ! 0 # data ! 1 # drop 2 data"
    using shape(3) byte_at [of 0 data] byte_at [of 1 data]
    by (metis Suc_1 Suc_eq_plus1 Suc_le_lessD drop_0 less_Suc_eq_0_disj less_le_trans add_0 zero_less_two)
  have b1: "data ! 1 = byte_of (control_octet (priority n) (is_network_message n)
      (destination n \<noteq> None) (npdu_source n \<noteq> None) (expecting_reply n))"
    using control_cases [OF shape(6) _ _ reserved] shape(7-10) by simp
  have "npdu_octets n = 1 # data ! 1 # drop 2 (npdu_octets n)"
    unfolding b1 by (simp add: npdu_octets_def)
  then have "npdu_octets n = data" using split shape(4,5) by metis
  then show ?thesis using shape(1) by simp
qed

section \<open>Exceptions\<close>

lemma BACnetAddress_raises [simp]: "raises_only {ValueError} (BACnetAddress net mac)"
  by (simp add: BACnetAddress_def)

lemma priorities_total: "\<exists>p. py_index PRIORITIES (c AND 3) = Inr p"
  by (rule exI, rule py_index_ok) (simp_all add: PRIORITIES_def bitarith)

lemma optionally_raises:
  "(\<And>off. raises_only E (f off)) \<Longrightarrow> raises_only E (optionally b f off)"
  by (auto simp: optionally_def intro!: raises_only_rbind split: prod.splits)

lemma decode_npdu_raises: "raises_only {ValueError} (decode_npdu data)"
proof -
  have "raises_only {ValueError} (decode_destination data off)" for off
    by (auto simp: decode_destination_eq Let_def intro!: raises_only_rbind)
  moreover have "raises_only {ValueError} (decode_source data off)" for off
    by (auto simp: decode_source_eq Let_def intro!: raises_only_rbind)
  moreover have "raises_only {ValueError} (decode_message data off)" for off
    by (auto simp: decode_message_eq Let_def)
  moreover obtain p where "py_index PRIORITIES (uint (data ! 1) AND 3) = Inr p"
    using priorities_total by blast
  ultimately show ?thesis
    by (auto simp: decode_npdu_eq Let_def intro!: raises_only_rbind optionally_raises
        split: prod.splits)
qed

section \<open>Local delivery\<close>

lemma rbind_assoc: "rbind (rbind m f) g = rbind m (\<lambda>x. rbind (f x) g)"
  by (cases m) simp_all

definition relayed :: "npdu \<Rightarrow> int \<Rightarrow> bytes \<Rightarrow> npdu" where
  "relayed n snet smac =
     n\<lparr>destination := None, npdu_source := Some \<lparr>network = Some snet, mac_address = smac\<rparr>\<rparr>"

lemma local_delivery_agrees:
  assumes "1 \<le> snet" "snet \<le> 65534" "smac \<noteq> []" "length smac \<le> 255"
    and "is_network_message n \<longrightarrow> message_type n \<noteq> None"
  shows "encode_npdu_local_delivery n snet smac = encode_npdu (relayed n snet smac)"
proof -
  let ?c = "control_octet (priority n) (is_network_message n) False True (expecting_reply n)"
  have c: "mk_bytes [1, ?c] = Inr [1, byte_of ?c]"
    using control_octet_fields(1) [of "priority n" "is_network_message n" False True "expecting_reply n"]
    by (simp add: octet_def)
  have s: "pack_HB snet (int (length smac)) = Inr (be_bytes 2 snet @ [byte_of (int (length smac))])"
    using assms by (simp add: pack_HB_def)
  have fast: "encode_npdu_local_delivery n snet smac =
      rbind (encode_payload n)
        (\<lambda>p. Inr ([1, byte_of ?c] @ (be_bytes 2 snet @ [byte_of (int (length smac))]) @ smac @ p))"
  proof -
    have "encode_npdu_local_delivery n snet smac =
        rbind (mk_bytes [1, ?c]) (\<lambda>hdr. rbind (pack_HB snet (int (length smac)))
          (\<lambda>s. rbind (encode_payload n) (\<lambda>p. Inr (hdr @ s @ smac @ p))))"
      using assms(5)
      by (auto simp add: encode_npdu_local_delivery_def encode_payload_def control_octet_def rbind_assoc
          Let_def simp del: mk_bytes.simps split: option.splits cong: rbind_cong)
    then show ?thesis unfolding c s by simp
  qed
  have pay: "encode_payload (relayed n snet smac) = encode_payload n"
    by (simp add: encode_payload_def relayed_def split: option.split)
  have "\<not> npdu_rejected (relayed n snet smac)"
    using assms by (simp add: npdu_rejected_def relayed_def)
  then have "encode_npdu (relayed n snet smac) =
      rbind (mk_bytes [1, ?c]) (\<lambda>hdr. rbind (pack_HB snet (int (length smac)))
        (\<lambda>s. rbind (encode_payload n) (\<lambda>p. Inr (hdr @ (s @ smac) @ p))))"
    unfolding encode_npdu_def pay
    by (simp add: relayed_def encode_address_field_def rbind_assoc del: mk_bytes.simps)
  then show ?thesis unfolding fast c s by simp
qed

end
