(* ===== verification/Procs.thy ===== *)
theory Procs
  imports Prelude
begin

text \<open>
  Procedures of the stateful components: a state is passed in and out, and a raised exception
  keeps the state it was raised in, as in Python.  \<open>keeps I m\<close> says that a procedure maintains
  a state predicate whether it returns or raises.
\<close>

type_synonym ('s, 'e, 'a) eproc = "'s \<Rightarrow> ('e + 'a) \<times> 's"

type_synonym ('s, 'a) proc = "('s, py_error, 'a) eproc"

definition return_p :: "'a \<Rightarrow> ('s, 'e, 'a) eproc" where
  "return_p x s = (Inr x, s)"

definition raise_p :: "'e \<Rightarrow> ('s, 'e, 'a) eproc" where
  "raise_p e s = (Inl e, s)"

definition bind_p :: "('s, 'e, 'a) eproc \<Rightarrow> ('a \<Rightarrow> ('s, 'e, 'b) eproc) \<Rightarrow> ('s, 'e, 'b) eproc" where
  "bind_p m f s = (case m s of (Inl e, s') \<Rightarrow> (Inl e, s') | (Inr x, s') \<Rightarrow> f x s')"

definition seq_p :: "('s, 'e, 'a) eproc \<Rightarrow> ('s, 'e, 'b) eproc \<Rightarrow> ('s, 'e, 'b) eproc" where
  "seq_p m n = bind_p m (\<lambda>_. n)"

definition read_p :: "('s \<Rightarrow> 'a) \<Rightarrow> ('s, 'e, 'a) eproc" where
  "read_p f s = (Inr (f s), s)"

definition write_p :: "('s \<Rightarrow> 's) \<Rightarrow> ('s, 'e, unit) eproc" where
  "write_p f s = (Inr (), f s)"

definition lift_p :: "'e + 'a \<Rightarrow> ('s, 'e, 'a) eproc" where
  "lift_p r s = (r, s)"

text \<open>\<open>try ... except\<close> around a procedure: the handler runs in the state the exception left.\<close>

definition catch_p :: "('s, 'e, 'a) eproc \<Rightarrow> ('e \<Rightarrow> ('s, 'e, 'a) eproc) \<Rightarrow> ('s, 'e, 'a) eproc" where
  "catch_p m h s = (case m s of (Inl e, s') \<Rightarrow> h e s' | (Inr x, s') \<Rightarrow> (Inr x, s'))"

fun each_p :: "('x \<Rightarrow> ('s, 'e, unit) eproc) \<Rightarrow> 'x list \<Rightarrow> ('s, 'e, unit) eproc" where
  "each_p f [] = return_p ()"
| "each_p f (x # xs) = seq_p (f x) (each_p f xs)"

lemmas proc_defs = return_p_def raise_p_def bind_p_def seq_p_def read_p_def write_p_def lift_p_def

section \<open>Running a procedure\<close>

text \<open>The simplifier runs a procedure on a state with these equations.\<close>

named_theorems run \<open>equations that run a procedure on a state\<close>

lemma run_basic [run]:
  "return_p x s = (Inr x, s)" "raise_p e s = (Inl e, s)" "read_p f s = (Inr (f s), s)"
  "write_p g s = (Inr (), g s)" "lift_p r s = (r, s)"
  by (simp_all add: proc_defs)

lemma run_bind:
  "m s = (Inr x, s') \<Longrightarrow> bind_p m f s = f x s'"
  "m s = (Inl e, s') \<Longrightarrow> bind_p m f s = (Inl e, s')"
  by (simp_all add: bind_p_def)

lemma run_bind_basic [run]:
  "bind_p (return_p x) f s = f x s" "bind_p (raise_p e) f s = (Inl e, s)"
  "bind_p (read_p g) f s = f (g s) s" "bind_p (lift_p (Inr x)) f s = f x s"
  "bind_p (lift_p (Inl e)) f s = (Inl e, s)"
  "seq_p (write_p h) n s = n (h s)" "seq_p (return_p x) n s = n s"
  by (simp_all add: proc_defs)

lemma bind_assoc: "bind_p (bind_p m f) g = bind_p m (\<lambda>x. bind_p (f x) g)"
  by (rule ext) (simp add: bind_p_def split: prod.split sum.split)

lemma seq_assoc [run]:
  "seq_p (seq_p m n) k = seq_p m (seq_p n k)" "seq_p (bind_p m f) n = bind_p m (\<lambda>x. seq_p (f x) n)"
  "bind_p (seq_p m n) f = seq_p m (bind_p n f)"
  by (simp_all add: seq_p_def bind_assoc)

section \<open>Preservation\<close>

definition keeps :: "('s \<Rightarrow> bool) \<Rightarrow> ('s, 'e, 'a) eproc \<Rightarrow> bool" where
  "keeps I m \<longleftrightarrow> (\<forall>s. I s \<longrightarrow> I (snd (m s)))"

named_theorems keeps_intros \<open>preservation rules of the combinators\<close>

lemma keepsD: "keeps I m \<Longrightarrow> I s \<Longrightarrow> I (snd (m s))"
  by (simp add: keeps_def)

lemma keeps_basic [keeps_intros]:
  "keeps I (return_p x)" "keeps I (raise_p e)" "keeps I (read_p f)" "keeps I (lift_p r)"
  by (simp_all add: keeps_def proc_defs)

lemma keeps_write [keeps_intros]: "(\<And>s. I s \<Longrightarrow> I (f s)) \<Longrightarrow> keeps I (write_p f)"
  by (simp add: keeps_def proc_defs)

lemma keeps_bind [keeps_intros]:
  "keeps I m \<Longrightarrow> (\<And>x. keeps I (f x)) \<Longrightarrow> keeps I (bind_p m f)"
  by (auto simp: keeps_def bind_p_def split: prod.split sum.split)

lemma keeps_seq [keeps_intros]: "keeps I m \<Longrightarrow> keeps I n \<Longrightarrow> keeps I (seq_p m n)"
  unfolding seq_p_def by (rule keeps_bind)

lemma keeps_each [keeps_intros]: "(\<And>x. keeps I (f x)) \<Longrightarrow> keeps I (each_p f xs)"
  by (induction xs) (auto intro: keeps_intros)

lemma keeps_if [keeps_intros]:
  "(c \<Longrightarrow> keeps I a) \<Longrightarrow> (\<not> c \<Longrightarrow> keeps I b) \<Longrightarrow> keeps I (if c then a else b)"
  by simp

lemma keeps_option [keeps_intros]:
  "(m = None \<Longrightarrow> keeps I a) \<Longrightarrow> (\<And>x. m = Some x \<Longrightarrow> keeps I (f x)) \<Longrightarrow>
   keeps I (case m of None \<Rightarrow> a | Some x \<Rightarrow> f x)"
  by (cases m) simp_all

lemma keeps_pair [keeps_intros]:
  "(\<And>x y. p = (x, y) \<Longrightarrow> keeps I (f x y)) \<Longrightarrow> keeps I (case p of (x, y) \<Rightarrow> f x y)"
  by (cases p) simp

lemma keeps_catch [keeps_intros]:
  "keeps I m \<Longrightarrow> (\<And>e. keeps I (h e)) \<Longrightarrow> keeps I (catch_p m h)"
  by (auto simp: keeps_def catch_p_def split: prod.split sum.split)

lemma keeps_sum [keeps_intros]:
  "(\<And>e. r = Inl e \<Longrightarrow> keeps I (f e)) \<Longrightarrow> (\<And>x. r = Inr x \<Longrightarrow> keeps I (g x)) \<Longrightarrow>
   keeps I (case r of Inl e \<Rightarrow> f e | Inr x \<Rightarrow> g x)"
  by (cases r) simp_all

section \<open>Event systems\<close>

text \<open>
  A component that reacts to events (a frame, a call, a timer) by running a procedure on its state.
  \<open>ok s ev\<close> says which events can happen in which state.
\<close>

inductive reachable :: "('s \<Rightarrow> 'e \<Rightarrow> bool) \<Rightarrow> ('e \<Rightarrow> ('s, 'x, 'a) eproc) \<Rightarrow> 's \<Rightarrow> 's \<Rightarrow> bool"
  for ok step s0 where
  reach_start: "reachable ok step s0 s0"
| reach_event: "reachable ok step s0 s \<Longrightarrow> ok s ev \<Longrightarrow> reachable ok step s0 (snd (step ev s))"

lemma reachable_trans:
  "reachable ok step s1 s2 \<Longrightarrow> reachable ok step s0 s1 \<Longrightarrow> reachable ok step s0 s2"
  by (induction rule: reachable.induct) (auto intro: reach_event)

text \<open>What every event keeps holds in every reachable state.\<close>

locale event_system =
  fixes ok :: "'s \<Rightarrow> 'e \<Rightarrow> bool" and step :: "'e \<Rightarrow> ('s, 'x, 'a) eproc" and inv :: "'s \<Rightarrow> bool"
  assumes step_keeps: "inv s \<Longrightarrow> ok s ev \<Longrightarrow> inv (snd (step ev s))"
begin

lemma reachable_inv: "reachable ok step s0 s \<Longrightarrow> inv s0 \<Longrightarrow> inv s"
  by (induction rule: reachable.induct) (simp_all add: step_keeps)

text \<open>A second predicate that events keep as long as the invariant holds.\<close>

lemma reachable_stable:
  assumes "\<And>s ev. inv s \<Longrightarrow> P s \<Longrightarrow> ok s ev \<Longrightarrow> P (snd (step ev s))"
  shows "reachable ok step s0 s \<Longrightarrow> inv s0 \<Longrightarrow> P s0 \<Longrightarrow> P s"
proof (induction rule: reachable.induct)
  case (reach_event s ev)
  then show ?case using assms reachable_inv by blast
qed

end

end
