(* ===== verification/Apdu.thy ===== *)
theory Apdu
  imports Primitives
begin

text \<open>
  \<open>encoding/apdu.py\<close>: the eight application PDUs (Clause 20.1), the max-segments and
  max-APDU fields, and \<open>encode_apdu\<close> and \<open>decode_apdu\<close> with one encoder and one decoder per
  PDU type.  The enumerations PDU fields use (\<open>types/enums.py\<close>) come first.
\<close>

section \<open>Enumerations\<close>

datatype pdu_type =
    CONFIRMED_REQUEST | UNCONFIRMED_REQUEST | SIMPLE_ACK | COMPLEX_ACK
  | SEGMENT_ACK | ERROR_PDU | REJECT_PDU | ABORT_PDU

definition pdu_types :: "pdu_type list" where
  "pdu_types = [CONFIRMED_REQUEST, UNCONFIRMED_REQUEST, SIMPLE_ACK, COMPLEX_ACK,
     SEGMENT_ACK, ERROR_PDU, REJECT_PDU, ABORT_PDU]"

datatype abort_reason =
    ABORT_OTHER | ABORT_BUFFER_OVERFLOW | INVALID_APDU_IN_THIS_STATE
  | PREEMPTED_BY_HIGHER_PRIORITY_TASK | SEGMENTATION_NOT_SUPPORTED | SECURITY_ERROR
  | INSUFFICIENT_SECURITY | WINDOW_SIZE_OUT_OF_RANGE | APPLICATION_EXCEEDED_REPLY_TIME
  | OUT_OF_RESOURCES | TSM_TIMEOUT | APDU_TOO_LONG

fun abort_value :: "abort_reason \<Rightarrow> int" where
  "abort_value ABORT_OTHER = 0"
| "abort_value ABORT_BUFFER_OVERFLOW = 1"
| "abort_value INVALID_APDU_IN_THIS_STATE = 2"
| "abort_value PREEMPTED_BY_HIGHER_PRIORITY_TASK = 3"
| "abort_value SEGMENTATION_NOT_SUPPORTED = 4"
| "abort_value SECURITY_ERROR = 5"
| "abort_value INSUFFICIENT_SECURITY = 6"
| "abort_value WINDOW_SIZE_OUT_OF_RANGE = 7"
| "abort_value APPLICATION_EXCEEDED_REPLY_TIME = 8"
| "abort_value OUT_OF_RESOURCES = 9"
| "abort_value TSM_TIMEOUT = 10"
| "abort_value APDU_TOO_LONG = 11"

definition abort_reasons :: "abort_reason list" where
  "abort_reasons = [ABORT_OTHER, ABORT_BUFFER_OVERFLOW, INVALID_APDU_IN_THIS_STATE,
     PREEMPTED_BY_HIGHER_PRIORITY_TASK, SEGMENTATION_NOT_SUPPORTED, SECURITY_ERROR,
     INSUFFICIENT_SECURITY, WINDOW_SIZE_OUT_OF_RANGE, APPLICATION_EXCEEDED_REPLY_TIME,
     OUT_OF_RESOURCES, TSM_TIMEOUT, APDU_TOO_LONG]"

datatype reject_reason =
    REJECT_OTHER | REJECT_BUFFER_OVERFLOW | INCONSISTENT_PARAMETERS
  | INVALID_PARAMETER_DATA_TYPE | INVALID_TAG | MISSING_REQUIRED_PARAMETER
  | PARAMETER_OUT_OF_RANGE | TOO_MANY_ARGUMENTS | UNDEFINED_ENUMERATION
  | UNRECOGNIZED_SERVICE

fun reject_value :: "reject_reason \<Rightarrow> int" where
  "reject_value REJECT_OTHER = 0"
| "reject_value REJECT_BUFFER_OVERFLOW = 1"
| "reject_value INCONSISTENT_PARAMETERS = 2"
| "reject_value INVALID_PARAMETER_DATA_TYPE = 3"
| "reject_value INVALID_TAG = 4"
| "reject_value MISSING_REQUIRED_PARAMETER = 5"
| "reject_value PARAMETER_OUT_OF_RANGE = 6"
| "reject_value TOO_MANY_ARGUMENTS = 7"
| "reject_value UNDEFINED_ENUMERATION = 8"
| "reject_value UNRECOGNIZED_SERVICE = 9"

definition reject_reasons :: "reject_reason list" where
  "reject_reasons = [REJECT_OTHER, REJECT_BUFFER_OVERFLOW, INCONSISTENT_PARAMETERS,
     INVALID_PARAMETER_DATA_TYPE, INVALID_TAG, MISSING_REQUIRED_PARAMETER,
     PARAMETER_OUT_OF_RANGE, TOO_MANY_ARGUMENTS, UNDEFINED_ENUMERATION,
     UNRECOGNIZED_SERVICE]"

datatype error_class =
    EC_DEVICE | EC_OBJECT | EC_PROPERTY | EC_RESOURCES | EC_SECURITY | EC_SERVICES
  | EC_VT | EC_COMMUNICATION

fun error_class_value :: "error_class \<Rightarrow> int" where
  "error_class_value EC_DEVICE = 0"
| "error_class_value EC_OBJECT = 1"
| "error_class_value EC_PROPERTY = 2"
| "error_class_value EC_RESOURCES = 3"
| "error_class_value EC_SECURITY = 4"
| "error_class_value EC_SERVICES = 5"
| "error_class_value EC_VT = 6"
| "error_class_value EC_COMMUNICATION = 7"

definition error_classes :: "error_class list" where
  "error_classes = [EC_DEVICE, EC_OBJECT, EC_PROPERTY, EC_RESOURCES, EC_SECURITY,
     EC_SERVICES, EC_VT, EC_COMMUNICATION]"

text \<open>\<open>E(v)\<close> for an \<open>IntEnum\<close> with the members of a table indexed by value.\<close>

definition enum_member :: "'e list \<Rightarrow> int \<Rightarrow> py_error + 'e" where
  "enum_member ms v = (if 0 \<le> v \<and> v < int (length ms) then Inr (ms ! nat v) else Inl ValueError)"

definition AbortReason :: "int \<Rightarrow> py_error + abort_reason" where
  "AbortReason v = enum_member abort_reasons v"

definition RejectReason :: "int \<Rightarrow> py_error + reject_reason" where
  "RejectReason v = enum_member reject_reasons v"

definition ErrorClass :: "int \<Rightarrow> py_error + error_class" where
  "ErrorClass v = enum_member error_classes v"

text \<open>\<open>ErrorCode\<close> has the members 0 to 138 without 33; a member is its value here.\<close>

definition ErrorCode :: "int \<Rightarrow> py_error + int" where
  "ErrorCode v = (if 0 \<le> v \<and> v \<le> 138 \<and> v \<noteq> 33 then Inr v else Inl ValueError)"

section \<open>Header fields\<close>

definition MAX_SEGMENTS_ENCODE :: "int \<Rightarrow> int option" where
  "MAX_SEGMENTS_ENCODE = map_of [(2, 1), (4, 2), (8, 3), (16, 4), (32, 5), (64, 6)]"

definition encode_max_segments :: "int option \<Rightarrow> int" where
  "encode_max_segments v =
     (case v of None \<Rightarrow> 0
      | Some n \<Rightarrow> (case MAX_SEGMENTS_ENCODE n of Some k \<Rightarrow> k | None \<Rightarrow> 7))"

definition decode_max_segments :: "int \<Rightarrow> py_error + int option" where
  "decode_max_segments v =
     py_index [None, Some 2, Some 4, Some 8, Some 16, Some 32, Some 64, None] v"

definition MAX_APDU_ENCODE :: "int \<Rightarrow> int option" where
  "MAX_APDU_ENCODE = map_of [(50, 0), (128, 1), (206, 2), (480, 3), (1024, 4), (1476, 5)]"

definition encode_max_apdu :: "int \<Rightarrow> int" where
  "encode_max_apdu v = (case MAX_APDU_ENCODE v of Some k \<Rightarrow> k | None \<Rightarrow> 5)"

definition decode_max_apdu :: "int \<Rightarrow> py_error + int" where
  "decode_max_apdu v =
     (if v < 6 then py_index [50, 128, 206, 480, 1024, 1476] v else Inr 1476)"

section \<open>PDUs\<close>

record confirmed_request =
  cr_segmented :: bool
  cr_more_follows :: bool
  cr_segmented_response_accepted :: bool
  cr_max_segments :: "int option"
  cr_max_apdu_length :: int
  cr_invoke_id :: int
  cr_sequence_number :: "int option"
  cr_proposed_window_size :: "int option"
  cr_service_choice :: int
  cr_service_request :: bytes

record unconfirmed_request =
  ur_service_choice :: int
  ur_service_request :: bytes

record simple_ack =
  sa_invoke_id :: int
  sa_service_choice :: int

record complex_ack =
  ca_segmented :: bool
  ca_more_follows :: bool
  ca_invoke_id :: int
  ca_sequence_number :: "int option"
  ca_proposed_window_size :: "int option"
  ca_service_choice :: int
  ca_service_ack :: bytes

record segment_ack =
  sg_negative_ack :: bool
  sg_sent_by_server :: bool
  sg_invoke_id :: int
  sg_sequence_number :: int
  sg_actual_window_size :: int

record error_pdu =
  er_invoke_id :: int
  er_service_choice :: int
  er_error_class :: error_class
  er_error_code :: int
  er_error_data :: bytes

record reject_pdu =
  rj_invoke_id :: int
  rj_reject_reason :: reject_reason

record abort_pdu =
  ab_sent_by_server :: bool
  ab_invoke_id :: int
  ab_abort_reason :: abort_reason

datatype apdu =
    ConfirmedRequestPDU confirmed_request
  | UnconfirmedRequestPDU unconfirmed_request
  | SimpleAckPDU simple_ack
  | ComplexAckPDU complex_ack
  | SegmentAckPDU segment_ack
  | ErrorPDU error_pdu
  | RejectPDU reject_pdu
  | AbortPDU abort_pdu

section \<open>Encoders\<close>

text \<open>
  \<open>buf.append(x)\<close> refuses an integer outside 0 to 255 with ValueError, as \<open>bytes([x])\<close>
  does; the header octets of a PDU are one \<open>mk_bytes\<close> of what is appended.
\<close>

definition flag :: "bool \<Rightarrow> int \<Rightarrow> int \<Rightarrow> int" where
  "flag b m x = (if b then x OR m else x)"

definition segmentation_fields :: "bool \<Rightarrow> int option \<Rightarrow> int option \<Rightarrow> int list" where
  "segmentation_fields segmented seq win =
     (if segmented
      then [case seq of Some s \<Rightarrow> s | None \<Rightarrow> 0, case win of Some w \<Rightarrow> w | None \<Rightarrow> 1]
      else [])"

definition encode_confirmed_request :: "confirmed_request \<Rightarrow> py_error + bytes" where
  "encode_confirmed_request p =
     (let byte0 = flag (cr_segmented_response_accepted p) 0x02
            (flag (cr_more_follows p) 0x04 (flag (cr_segmented p) 0x08 (push_bit 4 0)));
          byte1 = push_bit 4 (encode_max_segments (cr_max_segments p))
            OR encode_max_apdu (cr_max_apdu_length p)
      in rbind (mk_bytes ([byte0, byte1, cr_invoke_id p]
              @ segmentation_fields (cr_segmented p) (cr_sequence_number p)
                  (cr_proposed_window_size p)
              @ [cr_service_choice p]))
           (\<lambda>buf. Inr (buf @ cr_service_request p)))"

definition encode_unconfirmed_request :: "unconfirmed_request \<Rightarrow> py_error + bytes" where
  "encode_unconfirmed_request p =
     rbind (mk_bytes [push_bit 4 1, ur_service_choice p])
       (\<lambda>buf. Inr (buf @ ur_service_request p))"

definition encode_simple_ack :: "simple_ack \<Rightarrow> py_error + bytes" where
  "encode_simple_ack p = mk_bytes [push_bit 4 2, sa_invoke_id p, sa_service_choice p]"

definition encode_complex_ack :: "complex_ack \<Rightarrow> py_error + bytes" where
  "encode_complex_ack p =
     (let byte0 = flag (ca_more_follows p) 0x04 (flag (ca_segmented p) 0x08 (push_bit 4 3))
      in rbind (mk_bytes ([byte0, ca_invoke_id p]
              @ segmentation_fields (ca_segmented p) (ca_sequence_number p)
                  (ca_proposed_window_size p)
              @ [ca_service_choice p]))
           (\<lambda>buf. Inr (buf @ ca_service_ack p)))"

definition encode_segment_ack :: "segment_ack \<Rightarrow> py_error + bytes" where
  "encode_segment_ack p =
     (let byte0 = flag (sg_sent_by_server p) 0x01 (flag (sg_negative_ack p) 0x02 (push_bit 4 4))
      in mk_bytes [byte0, sg_invoke_id p, sg_sequence_number p, sg_actual_window_size p])"

definition encode_error :: "error_pdu \<Rightarrow> py_error + bytes" where
  "encode_error p =
     rbind (mk_bytes [push_bit 4 5, er_invoke_id p, er_service_choice p]) (\<lambda>buf.
     rbind (encode_application_enumerated (error_class_value (er_error_class p))) (\<lambda>c.
     rbind (encode_application_enumerated (er_error_code p)) (\<lambda>d.
       Inr (buf @ c @ d @ (if er_error_data p \<noteq> [] then er_error_data p else [])))))"

definition encode_reject :: "reject_pdu \<Rightarrow> py_error + bytes" where
  "encode_reject p =
     mk_bytes [push_bit 4 6, rj_invoke_id p, reject_value (rj_reject_reason p)]"

definition encode_abort :: "abort_pdu \<Rightarrow> py_error + bytes" where
  "encode_abort p =
     (let byte0 = flag (ab_sent_by_server p) 0x01 (push_bit 4 7)
      in mk_bytes [byte0, ab_invoke_id p, abort_value (ab_abort_reason p)])"

definition encode_apdu :: "apdu \<Rightarrow> py_error + bytes" where
  "encode_apdu pdu =
     (case pdu of
        ConfirmedRequestPDU p \<Rightarrow> encode_confirmed_request p
      | UnconfirmedRequestPDU p \<Rightarrow> encode_unconfirmed_request p
      | SimpleAckPDU p \<Rightarrow> encode_simple_ack p
      | ComplexAckPDU p \<Rightarrow> encode_complex_ack p
      | SegmentAckPDU p \<Rightarrow> encode_segment_ack p
      | ErrorPDU p \<Rightarrow> encode_error p
      | RejectPDU p \<Rightarrow> encode_reject p
      | AbortPDU p \<Rightarrow> encode_abort p)"

section \<open>Decoders\<close>

definition decode_segmentation_fields ::
  "bytes \<Rightarrow> nat \<Rightarrow> bool \<Rightarrow> nat \<Rightarrow> py_error + int option \<times> int option \<times> nat" where
  "decode_segmentation_fields data offset segmented min_len =
     (if \<not> segmented then Inr (None, None, offset)
      else if length data < min_len then Inl ValueError
      else
        rbind (octet_at data offset) (\<lambda>seq.
        rbind (octet_at data (offset + 1)) (\<lambda>win. Inr (Some seq, Some win, offset + 2))))"

definition decode_confirmed_request :: "bytes \<Rightarrow> py_error + confirmed_request" where
  "decode_confirmed_request data =
     (if length data < 4 then Inl ValueError
      else
        rbind (octet_at data 0) (\<lambda>byte0.
        let segmented = (byte0 AND 0x08 \<noteq> 0)
        in rbind (octet_at data 1) (\<lambda>byte1.
           rbind (decode_max_segments (drop_bit 4 byte1 AND 0x07)) (\<lambda>max_segments.
           rbind (decode_max_apdu (byte1 AND 0x0F)) (\<lambda>max_apdu.
           rbind (octet_at data 2) (\<lambda>iid.
           rbind (decode_segmentation_fields data 3 segmented 6) (\<lambda>(seq, win, offset).
           rbind (octet_at data offset) (\<lambda>sc.
             Inr \<lparr>cr_segmented = segmented, cr_more_follows = (byte0 AND 0x04 \<noteq> 0),
                  cr_segmented_response_accepted = (byte0 AND 0x02 \<noteq> 0),
                  cr_max_segments = max_segments, cr_max_apdu_length = max_apdu,
                  cr_invoke_id = iid, cr_sequence_number = seq,
                  cr_proposed_window_size = win, cr_service_choice = sc,
                  cr_service_request = drop (offset + 1) data\<rparr>))))))))"

definition decode_unconfirmed_request :: "bytes \<Rightarrow> py_error + unconfirmed_request" where
  "decode_unconfirmed_request data =
     (if length data < 2 then Inl ValueError
      else rbind (octet_at data 1)
             (\<lambda>sc. Inr \<lparr>ur_service_choice = sc, ur_service_request = drop 2 data\<rparr>))"

definition decode_simple_ack :: "bytes \<Rightarrow> py_error + simple_ack" where
  "decode_simple_ack data =
     (if length data < 3 then Inl ValueError
      else rbind (octet_at data 1) (\<lambda>iid. rbind (octet_at data 2) (\<lambda>sc.
             Inr \<lparr>sa_invoke_id = iid, sa_service_choice = sc\<rparr>)))"

definition decode_complex_ack :: "bytes \<Rightarrow> py_error + complex_ack" where
  "decode_complex_ack data =
     (if length data < 3 then Inl ValueError
      else
        rbind (octet_at data 0) (\<lambda>byte0.
        let segmented = (byte0 AND 0x08 \<noteq> 0)
        in rbind (octet_at data 1) (\<lambda>iid.
           rbind (decode_segmentation_fields data 2 segmented 5) (\<lambda>(seq, win, offset).
           rbind (octet_at data offset) (\<lambda>sc.
             Inr \<lparr>ca_segmented = segmented, ca_more_follows = (byte0 AND 0x04 \<noteq> 0),
                  ca_invoke_id = iid, ca_sequence_number = seq,
                  ca_proposed_window_size = win, ca_service_choice = sc,
                  ca_service_ack = drop (offset + 1) data\<rparr>)))))"

definition decode_segment_ack :: "bytes \<Rightarrow> py_error + segment_ack" where
  "decode_segment_ack data =
     (if length data < 4 then Inl ValueError
      else
        rbind (octet_at data 0) (\<lambda>byte0.
        rbind (octet_at data 1) (\<lambda>iid.
        rbind (octet_at data 2) (\<lambda>seq.
        rbind (octet_at data 3) (\<lambda>win.
          Inr \<lparr>sg_negative_ack = (byte0 AND 0x02 \<noteq> 0), sg_sent_by_server = (byte0 AND 0x01 \<noteq> 0),
               sg_invoke_id = iid, sg_sequence_number = seq, sg_actual_window_size = win\<rparr>)))))"

text \<open>One application-tagged enumerated of an Error PDU, with the truncation check.\<close>

definition decode_error_field :: "bytes \<Rightarrow> nat \<Rightarrow> py_error + int \<times> nat" where
  "decode_error_field data offset =
     rbind (decode_tag data offset) (\<lambda>(tag, offset).
       if int offset + tag_length tag > int (length data) then Inl ValueError
       else Inr (decode_enumerated (py_slice data offset (offset + nat (tag_length tag))),
                 offset + nat (tag_length tag)))"

definition decode_error :: "bytes \<Rightarrow> py_error + error_pdu" where
  "decode_error data =
     (if length data < 5 then Inl ValueError
      else
        rbind (octet_at data 1) (\<lambda>iid.
        rbind (octet_at data 2) (\<lambda>sc.
        rbind (decode_error_field data 3) (\<lambda>(c, offset).
        rbind (ErrorClass c) (\<lambda>ecls.
        rbind (decode_error_field data offset) (\<lambda>(d, offset).
        rbind (ErrorCode d) (\<lambda>ecode.
          Inr \<lparr>er_invoke_id = iid, er_service_choice = sc,
               er_error_class = ecls, er_error_code = ecode,
               er_error_data = (if offset < length data then drop offset data else [])\<rparr>)))))))"

definition decode_reject :: "bytes \<Rightarrow> py_error + reject_pdu" where
  "decode_reject data =
     (if length data < 3 then Inl ValueError
      else rbind (octet_at data 1) (\<lambda>iid. rbind (octet_at data 2) (\<lambda>v.
           rbind (RejectReason v) (\<lambda>r. Inr \<lparr>rj_invoke_id = iid, rj_reject_reason = r\<rparr>))))"

definition decode_abort :: "bytes \<Rightarrow> py_error + abort_pdu" where
  "decode_abort data =
     (if length data < 3 then Inl ValueError
      else rbind (octet_at data 0) (\<lambda>byte0. rbind (octet_at data 1) (\<lambda>iid.
           rbind (octet_at data 2) (\<lambda>v. rbind (AbortReason v)
             (\<lambda>r. Inr \<lparr>ab_sent_by_server = (byte0 AND 0x01 \<noteq> 0),
                       ab_invoke_id = iid, ab_abort_reason = r\<rparr>)))))"

definition rmap :: "('a \<Rightarrow> 'b) \<Rightarrow> py_error + 'a \<Rightarrow> py_error + 'b" where
  "rmap f m = rbind m (\<lambda>x. Inr (f x))"

definition decode_apdu :: "bytes \<Rightarrow> py_error + apdu" where
  "decode_apdu data =
     (if length data < 1 then Inl ValueError
      else
        rbind (octet_at data 0) (\<lambda>byte0.
        rbind (enum_member pdu_types (drop_bit 4 byte0 AND 0x0F)) (\<lambda>pdu_type.
          case pdu_type of
            CONFIRMED_REQUEST \<Rightarrow> rmap ConfirmedRequestPDU (decode_confirmed_request data)
          | UNCONFIRMED_REQUEST \<Rightarrow> rmap UnconfirmedRequestPDU (decode_unconfirmed_request data)
          | SIMPLE_ACK \<Rightarrow> rmap SimpleAckPDU (decode_simple_ack data)
          | COMPLEX_ACK \<Rightarrow> rmap ComplexAckPDU (decode_complex_ack data)
          | SEGMENT_ACK \<Rightarrow> rmap SegmentAckPDU (decode_segment_ack data)
          | ERROR_PDU \<Rightarrow> rmap ErrorPDU (decode_error data)
          | REJECT_PDU \<Rightarrow> rmap RejectPDU (decode_reject data)
          | ABORT_PDU \<Rightarrow> rmap AbortPDU (decode_abort data))))"

text \<open>Every index is checked before the octet is read, so the decoders are the following functions.\<close>

lemma decode_segmentation_fields_eq:
  "offset + 1 < min_len \<Longrightarrow> decode_segmentation_fields data offset segmented min_len =
     (if \<not> segmented then Inr (None, None, offset)
      else if length data < min_len then Inl ValueError
      else Inr (Some (uint (data ! offset)), Some (uint (data ! (offset + 1))), offset + 2))"
  by (simp add: decode_segmentation_fields_def)

lemma decode_confirmed_request_eq:
  "decode_confirmed_request data =
     (if length data < 4 then Inl ValueError
      else
        let byte0 = uint (data ! 0); segmented = (byte0 AND 0x08 \<noteq> 0); byte1 = uint (data ! 1)
        in rbind (decode_max_segments (drop_bit 4 byte1 AND 0x07)) (\<lambda>max_segments.
           rbind (decode_max_apdu (byte1 AND 0x0F)) (\<lambda>max_apdu.
           rbind (decode_segmentation_fields data 3 segmented 6) (\<lambda>(seq, win, offset).
             Inr \<lparr>cr_segmented = segmented, cr_more_follows = (byte0 AND 0x04 \<noteq> 0),
                  cr_segmented_response_accepted = (byte0 AND 0x02 \<noteq> 0),
                  cr_max_segments = max_segments, cr_max_apdu_length = max_apdu,
                  cr_invoke_id = uint (data ! 2), cr_sequence_number = seq,
                  cr_proposed_window_size = win, cr_service_choice = uint (data ! offset),
                  cr_service_request = drop (offset + 1) data\<rparr>))))"
  by (auto simp: decode_confirmed_request_def decode_segmentation_fields_def Let_def)

lemma decode_unconfirmed_request_eq:
  "decode_unconfirmed_request data =
     (if length data < 2 then Inl ValueError
      else Inr \<lparr>ur_service_choice = uint (data ! 1), ur_service_request = drop 2 data\<rparr>)"
  by (auto simp: decode_unconfirmed_request_def Let_def)

lemma decode_simple_ack_eq:
  "decode_simple_ack data =
     (if length data < 3 then Inl ValueError
      else Inr \<lparr>sa_invoke_id = uint (data ! 1), sa_service_choice = uint (data ! 2)\<rparr>)"
  by (auto simp: decode_simple_ack_def Let_def)

lemma decode_complex_ack_eq:
  "decode_complex_ack data =
     (if length data < 3 then Inl ValueError
      else
        let byte0 = uint (data ! 0); segmented = (byte0 AND 0x08 \<noteq> 0)
        in rbind (decode_segmentation_fields data 2 segmented 5) (\<lambda>(seq, win, offset).
             Inr \<lparr>ca_segmented = segmented, ca_more_follows = (byte0 AND 0x04 \<noteq> 0),
                  ca_invoke_id = uint (data ! 1), ca_sequence_number = seq,
                  ca_proposed_window_size = win, ca_service_choice = uint (data ! offset),
                  ca_service_ack = drop (offset + 1) data\<rparr>))"
  by (auto simp: decode_complex_ack_def decode_segmentation_fields_def Let_def)

lemma decode_segment_ack_eq:
  "decode_segment_ack data =
     (if length data < 4 then Inl ValueError
      else
        let byte0 = uint (data ! 0)
        in Inr \<lparr>sg_negative_ack = (byte0 AND 0x02 \<noteq> 0), sg_sent_by_server = (byte0 AND 0x01 \<noteq> 0),
                sg_invoke_id = uint (data ! 1), sg_sequence_number = uint (data ! 2),
                sg_actual_window_size = uint (data ! 3)\<rparr>)"
  by (auto simp: decode_segment_ack_def Let_def)

lemma decode_error_eq:
  "decode_error data =
     (if length data < 5 then Inl ValueError
      else
        rbind (decode_error_field data 3) (\<lambda>(c, offset).
        rbind (ErrorClass c) (\<lambda>ecls.
        rbind (decode_error_field data offset) (\<lambda>(d, offset).
        rbind (ErrorCode d) (\<lambda>ecode.
          Inr \<lparr>er_invoke_id = uint (data ! 1), er_service_choice = uint (data ! 2),
               er_error_class = ecls, er_error_code = ecode,
               er_error_data = (if offset < length data then drop offset data else [])\<rparr>)))))"
  by (auto simp: decode_error_def Let_def)

lemma decode_reject_eq:
  "decode_reject data =
     (if length data < 3 then Inl ValueError
      else rbind (RejectReason (uint (data ! 2)))
             (\<lambda>r. Inr \<lparr>rj_invoke_id = uint (data ! 1), rj_reject_reason = r\<rparr>))"
  by (auto simp: decode_reject_def Let_def)

lemma decode_abort_eq:
  "decode_abort data =
     (if length data < 3 then Inl ValueError
      else rbind (AbortReason (uint (data ! 2)))
             (\<lambda>r. Inr \<lparr>ab_sent_by_server = (uint (data ! 0) AND 0x01 \<noteq> 0),
                       ab_invoke_id = uint (data ! 1), ab_abort_reason = r\<rparr>))"
  by (auto simp: decode_abort_def Let_def)

lemma decode_apdu_eq:
  "decode_apdu data =
     (if length data < 1 then Inl ValueError
      else
        rbind (enum_member pdu_types (drop_bit 4 (uint (data ! 0)) AND 0x0F)) (\<lambda>pdu_type.
          case pdu_type of
            CONFIRMED_REQUEST \<Rightarrow> rmap ConfirmedRequestPDU (decode_confirmed_request data)
          | UNCONFIRMED_REQUEST \<Rightarrow> rmap UnconfirmedRequestPDU (decode_unconfirmed_request data)
          | SIMPLE_ACK \<Rightarrow> rmap SimpleAckPDU (decode_simple_ack data)
          | COMPLEX_ACK \<Rightarrow> rmap ComplexAckPDU (decode_complex_ack data)
          | SEGMENT_ACK \<Rightarrow> rmap SegmentAckPDU (decode_segment_ack data)
          | ERROR_PDU \<Rightarrow> rmap ErrorPDU (decode_error data)
          | REJECT_PDU \<Rightarrow> rmap RejectPDU (decode_reject data)
          | ABORT_PDU \<Rightarrow> rmap AbortPDU (decode_abort data)))"
  by (auto simp: decode_apdu_def Let_def)

end
