(* ===== verification/Segmentation.thy ===== *)
theory Segmentation
  imports Apdu "HOL-Library.AList"
begin

text \<open>
  \<open>segmentation/manager.py\<close>: splitting a service payload into segments and sending them window
  by window (\<open>SegmentSender\<close>), and collecting them on the other side (\<open>SegmentReceiver\<close>).
  Segments are tracked by absolute index; the wire carries the index modulo 256.  The two
  dataclasses are records whose methods return the updated record; the dictionary of
  received segments is an association list.  The receiver's creation time, which only logging
  and diagnostics read, is left out.
\<close>

section \<open>Pure functions\<close>

definition MAX_REASSEMBLY_SIZE :: int where
  "MAX_REASSEMBLY_SIZE = 1048576"

definition DEFAULT_PROPOSED_WINDOW_SIZE :: int where
  "DEFAULT_PROPOSED_WINDOW_SIZE = 16"

datatype segment_action = CONTINUE | SEND_ACK | RESEND_LAST_ACK | COMPLETE | ABORT

datatype segmented_pdu = Seg_confirmed_request | Seg_complex_ack

datatype seg_error = SegRaised py_error | SegmentationError abort_reason

definition in_window :: "int \<Rightarrow> int \<Rightarrow> int \<Rightarrow> bool" where
  "in_window seq_a seq_b actual_window_size \<longleftrightarrow> (seq_a - seq_b) mod 256 < actual_window_size"

definition duplicate_in_window :: "int \<Rightarrow> int \<Rightarrow> int \<Rightarrow> int \<Rightarrow> bool" where
  "duplicate_in_window seq_a seq_b actual_window_size proposed_window_size \<longleftrightarrow>
     (let wm = max actual_window_size proposed_window_size; diff = (seq_a - seq_b) mod 256
      in wm < diff \<and> diff \<le> 255)"

definition compute_max_segment_payload :: "int \<Rightarrow> segmented_pdu \<Rightarrow> int" where
  "compute_max_segment_payload max_apdu_length ty =
     max_apdu_length - (case ty of Seg_confirmed_request \<Rightarrow> 6 | Seg_complex_ack \<Rightarrow> 5)"

text \<open>\<open>range(0, n, step)\<close> for a positive step.\<close>

definition py_range :: "nat \<Rightarrow> nat \<Rightarrow> nat list" where
  "py_range n step = map (\<lambda>k. k * step) [0..<(n + step - 1) div step]"

definition split_payload :: "bytes \<Rightarrow> int \<Rightarrow> py_error + bytes list" where
  "split_payload payload max_segment_size =
     (if max_segment_size \<le> 0 then Inl ValueError
      else if length payload = 0 then Inr [[]]
      else Inr (map (\<lambda>i. py_slice payload i (i + nat max_segment_size))
                  (py_range (length payload) (nat max_segment_size))))"

definition check_segment_count :: "nat \<Rightarrow> int option \<Rightarrow> bool" where
  "check_segment_count num_segments max_segments =
     (case max_segments of None \<Rightarrow> True | Some m \<Rightarrow> int num_segments \<le> m)"

section \<open>The sender\<close>

record segment_sender =
  ss_segments :: "bytes list"
  ss_invoke_id :: int
  ss_service_choice :: int
  ss_proposed_window_size :: int
  ss_actual_window_size :: int
  ss_window_start_idx :: nat

definition create_sender ::
  "bytes \<Rightarrow> int \<Rightarrow> int \<Rightarrow> int \<Rightarrow> segmented_pdu \<Rightarrow> int \<Rightarrow> int option \<Rightarrow> seg_error + segment_sender" where
  "create_sender payload iid sc max_apdu_length ty proposed peer_max_segments =
     (case split_payload payload (compute_max_segment_payload max_apdu_length ty) of
        Inl e \<Rightarrow> Inl (SegRaised e)
      | Inr segs \<Rightarrow>
          if \<not> check_segment_count (length segs) peer_max_segments
          then Inl (SegmentationError APDU_TOO_LONG)
          else Inr \<lparr>ss_segments = segs, ss_invoke_id = iid, ss_service_choice = sc,
                    ss_proposed_window_size = proposed, ss_actual_window_size = proposed,
                    ss_window_start_idx = 0\<rparr>)"

definition fill_window :: "segment_sender \<Rightarrow> (int \<times> bytes \<times> bool) list" where
  "fill_window s =
     (let end_idx = min (int (length (ss_segments s)))
                        (int (ss_window_start_idx s) + ss_actual_window_size s);
          last_idx = int (length (ss_segments s)) - 1
      in map (\<lambda>idx. (int idx AND 0xFF, ss_segments s ! idx, int idx < last_idx))
           [ss_window_start_idx s..<nat end_idx])"

definition sender_is_complete :: "segment_sender \<Rightarrow> bool" where
  "sender_is_complete s \<longleftrightarrow> ss_window_start_idx s \<ge> length (ss_segments s)"

definition seq_to_idx :: "segment_sender \<Rightarrow> int \<Rightarrow> nat" where
  "seq_to_idx s seq =
     (let search_start = max 0 (int (ss_window_start_idx s) - ss_actual_window_size s)
      in case find (\<lambda>idx. int idx AND 0xFF = seq) [nat search_start..<length (ss_segments s)] of
           Some idx \<Rightarrow> idx
         | None \<Rightarrow> ss_window_start_idx s)"

text \<open>The \<open>negative\<close> flag only changes a log message.\<close>

definition sender_handle_segment_ack ::
  "segment_sender \<Rightarrow> int \<Rightarrow> int \<Rightarrow> bool \<Rightarrow> bool \<times> segment_sender" where
  "sender_handle_segment_ack s ack_seq actual_window_size negative =
     (let acked_idx = seq_to_idx s ack_seq;
          s' = s\<lparr>ss_actual_window_size := actual_window_size,
                 ss_window_start_idx := acked_idx + 1\<rparr>
      in (sender_is_complete s', s'))"

section \<open>The receiver\<close>

record segment_receiver =
  sr_segments :: "(nat \<times> bytes) list"
  sr_expected_idx :: nat
  sr_actual_window_size :: int
  sr_proposed_window_size :: int
  sr_service_choice :: int
  sr_final_idx :: "nat option"
  sr_last_ack_seq :: int
  sr_window_start_idx :: nat
  sr_total_bytes :: int

definition create_receiver :: "bytes \<Rightarrow> int \<Rightarrow> int \<Rightarrow> bool \<Rightarrow> int \<Rightarrow> segment_receiver" where
  "create_receiver first_segment_data sc proposed more_follows our_window_size =
     \<lparr>sr_segments = [(0, first_segment_data)], sr_expected_idx = 1,
      sr_actual_window_size = min our_window_size proposed,
      sr_proposed_window_size = proposed, sr_service_choice = sc,
      sr_final_idx = (if more_follows then None else Some 0), sr_last_ack_seq = 0,
      sr_window_start_idx = 1, sr_total_bytes = int (length first_segment_data)\<rparr>"

definition receiver_is_complete :: "segment_receiver \<Rightarrow> bool" where
  "receiver_is_complete r \<longleftrightarrow>
     (case sr_final_idx r of None \<Rightarrow> False | Some f \<Rightarrow> sr_expected_idx r > f)"

definition seq_to_abs_idx :: "segment_receiver \<Rightarrow> int \<Rightarrow> nat" where
  "seq_to_abs_idx r seq_num =
     (let expected_seq = int (sr_expected_idx r) AND 0xFF;
          offset = (seq_num - expected_seq) mod 256
      in sr_expected_idx r + nat offset)"

text \<open>
  The loop that moves the expected index past the segments already there; it stops because
  every iteration uses up one key of the dictionary.
\<close>

function advance :: "(nat \<times> bytes) list \<Rightarrow> nat \<Rightarrow> nat" where
  "advance segs i = (if i \<in> fst ` set segs then advance segs (i + 1) else i)"
  by pat_completeness auto
termination
proof (relation "measure (\<lambda>(segs, i). card {k \<in> fst ` set segs. i \<le> k})", goal_cases)
  case (2 segs i)
  let ?A = "{k \<in> fst ` set segs. i + 1 \<le> k}" and ?B = "{k \<in> fst ` set segs. i \<le> k}"
  have "?A \<subseteq> ?B" by auto
  moreover have "i \<in> ?B" "i \<notin> ?A" using 2 by simp_all
  ultimately have "?A \<subset> ?B" by blast
  then show ?case by (simp add: psubset_card_mono)
qed simp

declare advance.simps [simp del]

definition receive_segment ::
  "segment_receiver \<Rightarrow> int \<Rightarrow> bytes \<Rightarrow> bool \<Rightarrow> (segment_action \<times> int) \<times> segment_receiver" where
  "receive_segment r seq_num data more_follows =
     (let expected_seq = int (sr_expected_idx r) AND 0xFF
      in if in_window seq_num expected_seq (sr_actual_window_size r)
         then
           let abs_idx = seq_to_abs_idx r seq_num;
               old = (case map_of (sr_segments r) abs_idx of None \<Rightarrow> 0 | Some d \<Rightarrow> int (length d));
               r = r\<lparr>sr_segments := AList.update abs_idx data (sr_segments r),
                     sr_total_bytes := sr_total_bytes r - old + int (length data)\<rparr>
           in if sr_total_bytes r > MAX_REASSEMBLY_SIZE then ((ABORT, -1), r)
              else
                let r = (if more_follows then r else r\<lparr>sr_final_idx := Some abs_idx\<rparr>);
                    r = r\<lparr>sr_expected_idx := advance (sr_segments r) (sr_expected_idx r),
                          sr_last_ack_seq := seq_num\<rparr>
                in if receiver_is_complete r
                   then ((COMPLETE, seq_num), r\<lparr>sr_window_start_idx := sr_expected_idx r\<rparr>)
                   else if int (sr_expected_idx r)
                             \<ge> int (sr_window_start_idx r) + sr_actual_window_size r
                   then ((SEND_ACK, seq_num), r\<lparr>sr_window_start_idx := sr_expected_idx r\<rparr>)
                   else ((CONTINUE, seq_num), r)
         else if duplicate_in_window seq_num expected_seq (sr_actual_window_size r)
                   (sr_proposed_window_size r)
         then ((RESEND_LAST_ACK, sr_last_ack_seq r), r)
         else ((ABORT, -1), r))"

fun collect_parts :: "(nat \<times> bytes) list \<Rightarrow> nat list \<Rightarrow> py_error + bytes" where
  "collect_parts segs [] = Inr []"
| "collect_parts segs (i # ks) =
     (case map_of segs i of None \<Rightarrow> Inl KeyError
      | Some d \<Rightarrow> rbind (collect_parts segs ks) (\<lambda>rest. Inr (d @ rest)))"

definition reassemble :: "segment_receiver \<Rightarrow> py_error + bytes" where
  "reassemble r =
     (case sr_final_idx r of
        None \<Rightarrow> Inl ValueError
      | Some f \<Rightarrow> if \<not> receiver_is_complete r then Inl ValueError
                  else collect_parts (sr_segments r) [0..<f + 1])"

end
