(* ===== verification/Segmentation_Laws.thy ===== *)
theory Segmentation_Laws
  imports Segmentation
begin

text \<open>
  The laws of \<open>segmentation/manager.py\<close>: splitting loses nothing and respects the segment size,
  an acknowledged sequence number is mapped back to the right absolute index, the receiver
  keeps an invariant that ties its dictionary to the sender's segments under reordering and
  duplication, and a transfer window by window ends with the original payload.
\<close>

section \<open>Splitting\<close>

lemma concat_slices:
  "concat (map (\<lambda>k. py_slice p (k * n) (k * n + n)) [0..<c]) = take (c * n) p"
proof (induction c)
  case (Suc c)
  have "take (c * n + n) p = take (c * n) p @ py_slice p (c * n) (c * n + n)"
    by (simp add: take_add py_slice_def)
  with Suc show ?case by (simp add: add.commute)
qed simp

lemma ceil_div:
  assumes "0 < n" "0 < (l :: nat)"
  shows "l \<le> (l + n - 1) div n * n" "((l + n - 1) div n - 1) * n < l" "0 < (l + n - 1) div n"
proof -
  let ?c = "(l + n - 1) div n"
  have d: "l + n - 1 = ?c * n + (l + n - 1) mod n" by simp
  moreover have "(l + n - 1) mod n < n" using assms by simp
  ultimately show "l \<le> ?c * n" using assms by linarith
  have "n \<le> l + n - 1" using assms by simp
  then show c: "0 < ?c" using assms by (simp add: div_greater_zero_iff)
  have "(?c - 1) * n + n = ?c * n" using c by (metis Suc_diff_1 add.commute mult_Suc)
  then show "(?c - 1) * n < l" using d assms by linarith
qed

lemma split_payload_eq:
  assumes "0 < m" "p \<noteq> []"
  shows "split_payload p m = Inr (map (\<lambda>k. py_slice p (k * nat m) (k * nat m + nat m))
    [0..<(length p + nat m - 1) div nat m])"
  using assms by (simp add: split_payload_def py_range_def comp_def)

lemma split_payload_segments:
  assumes "0 < m"
  shows "\<exists>segs. split_payload p m = Inr segs \<and> segs \<noteq> [] \<and> concat segs = p
    \<and> (\<forall>s\<in>set segs. int (length s) \<le> m)
    \<and> (\<forall>k. k + 1 < length segs \<longrightarrow> int (length (segs ! k)) = m)"
proof (cases "p = []")
  case True
  then show ?thesis using assms by (simp add: split_payload_def)
next
  case False
  let ?n = "nat m" and ?c = "(length p + nat m - 1) div nat m"
  define segs where "segs = map (\<lambda>k. py_slice p (k * ?n) (k * ?n + ?n)) [0..<?c]"
  note c = ceil_div [of ?n "length p"]
  have "concat segs = p" using concat_slices [of p ?n ?c] c(1) assms False by (simp add: segs_def)
  moreover have "segs \<noteq> []" using c(3) assms False by (simp add: segs_def)
  moreover have "\<forall>k. k + 1 < length segs \<longrightarrow> int (length (segs ! k)) = m"
  proof (intro allI impI)
    fix k assume k: "k + 1 < length segs"
    then have "k + 1 \<le> ?c - 1" by (simp add: segs_def)
    then have "(k + 1) * ?n \<le> (?c - 1) * ?n" by (rule mult_right_mono) simp
    then have "k * ?n + ?n \<le> length p" using c(2) assms False by (simp add: add.commute)
    then show "int (length (segs ! k)) = m" using k assms by (simp add: segs_def)
  qed
  moreover have "\<forall>s\<in>set segs. int (length s) \<le> m" using assms by (auto simp: segs_def)
  moreover have "split_payload p m = Inr segs" unfolding segs_def by (rule split_payload_eq [OF assms False])
  ultimately show ?thesis by blast
qed

section \<open>The sender\<close>

definition wire :: "bytes list \<Rightarrow> nat \<Rightarrow> int \<times> bytes \<times> bool" where
  "wire segs i = (int i AND 0xFF, segs ! i, int i < int (length segs) - 1)"

lemma fill_window_eq:
  "fill_window s = map (wire (ss_segments s))
     [ss_window_start_idx s..<nat (min (int (length (ss_segments s)))
        (int (ss_window_start_idx s) + ss_actual_window_size s))]"
  by (simp add: fill_window_def wire_def Let_def)

lemma mod_256_eq_less:
  fixes i j :: nat
  assumes "int i mod 256 = int j mod 256" "j \<le> i" "i < j + 256"
  shows "i = j"
proof -
  have "256 dvd int i - int j" using assms(1) by (simp add: mod_eq_dvd_iff)
  then obtain k where "int i - int j = 256 * k" ..
  moreover have "0 \<le> int i - int j" "int i - int j < 256" using assms by simp_all
  ultimately have "k = 0" by linarith
  then show ?thesis using \<open>int i - int j = 256 * k\<close> by simp
qed

lemma seq_to_idx_correct:
  assumes "i < length (ss_segments s)"
    "int (ss_window_start_idx s) - ss_actual_window_size s \<le> int i"
    "int i < max 0 (int (ss_window_start_idx s) - ss_actual_window_size s) + 256"
  shows "seq_to_idx s (int i AND 0xFF) = i"
proof -
  define a where "a = nat (max 0 (int (ss_window_start_idx s) - ss_actual_window_size s))"
  let ?xs = "[a..<length (ss_segments s)]"
  have a: "a \<le> i" "i < a + 256" using assms by (simp_all add: a_def)
  have "int (?xs ! j) AND 255 \<noteq> int i AND 255" if j: "j < i - a" for j
  proof
    assume "int (?xs ! j) AND 255 = int i AND 255"
    moreover have "?xs ! j = a + j" using j assms(1) by simp
    ultimately have "int i mod 256 = int (a + j) mod 256" by (simp only: bitarith)
    then have "i = a + j" by (rule mod_256_eq_less) (use j a in linarith)+
    then show False using j by simp
  qed
  then have "find (\<lambda>idx. int idx AND 255 = int i AND 255) ?xs = Some i"
    unfolding find_Some_iff by (intro exI [of _ "i - a"]) (use a assms(1) in \<open>simp add: diff_less_mono\<close>)
  then show ?thesis by (simp add: seq_to_idx_def a_def)
qed

section \<open>The receiver\<close>

abbreviation stored :: "segment_receiver \<Rightarrow> nat \<Rightarrow> bytes option" where
  "stored r \<equiv> map_of (sr_segments r)"

definition receiver_inv :: "bytes list \<Rightarrow> segment_receiver \<Rightarrow> bool" where
  "receiver_inv segs r \<longleftrightarrow> segs \<noteq> []
     \<and> (\<forall>k d. stored r k = Some d \<longrightarrow> k < length segs \<and> d = segs ! k)
     \<and> {..<sr_expected_idx r} \<subseteq> dom (stored r) \<and> sr_expected_idx r \<notin> dom (stored r)
     \<and> sr_final_idx r = (if length segs - 1 \<in> dom (stored r) then Some (length segs - 1) else None)
     \<and> sr_total_bytes r = (\<Sum>k\<in>dom (stored r). int (length (segs ! k)))"

lemma receiver_inv_window_start [simp]:
  "receiver_inv segs (r\<lparr>sr_window_start_idx := v\<rparr>) \<longleftrightarrow> receiver_inv segs r"
  by (simp add: receiver_inv_def)

lemma inv_dom: "receiver_inv segs r \<Longrightarrow> dom (stored r) \<subseteq> {..<length segs}"
  by (auto simp: receiver_inv_def)

lemma inv_expected_le: "receiver_inv segs r \<Longrightarrow> sr_expected_idx r \<le> length segs"
proof (rule ccontr)
  assume inv: "receiver_inv segs r" and "\<not> sr_expected_idx r \<le> length segs"
  then have "length segs \<in> {..<sr_expected_idx r}" by simp
  then have "length segs \<in> dom (stored r)" using inv by (auto simp only: receiver_inv_def)
  then show False using inv_dom [OF inv] by auto
qed

lemma inv_last:
  assumes "receiver_inv segs r" "sr_expected_idx r = length segs"
  shows "sr_final_idx r = Some (length segs - 1)"
proof -
  have "length segs - 1 \<in> {..<sr_expected_idx r}" using assms by (simp add: receiver_inv_def)
  then have "length segs - 1 \<in> dom (stored r)" using assms(1) by (auto simp only: receiver_inv_def)
  then show ?thesis using assms(1) by (simp add: receiver_inv_def)
qed

lemma inv_complete:
  assumes "receiver_inv segs r"
  shows "receiver_is_complete r \<longleftrightarrow> sr_expected_idx r = length segs"
proof
  assume "receiver_is_complete r"
  then show "sr_expected_idx r = length segs"
    using assms inv_expected_le [OF assms]
    by (auto simp: receiver_inv_def receiver_is_complete_def split: if_splits)
next
  assume e: "sr_expected_idx r = length segs"
  have "segs \<noteq> []" using assms by (simp add: receiver_inv_def)
  with e show "receiver_is_complete r"
    using inv_last [OF assms e] by (simp add: receiver_is_complete_def)
qed

lemma collect_parts_all:
  "\<forall>k\<in>set ks. map_of m k = Some (segs ! k) \<Longrightarrow>
   collect_parts m ks = Inr (concat (map (\<lambda>k. segs ! k) ks))"
  by (induction ks) auto

lemma inv_reassemble:
  assumes "receiver_inv segs r"
  shows "reassemble r = (if receiver_is_complete r then Inr (concat segs) else Inl ValueError)"
proof (cases "receiver_is_complete r")
  case True
  then have e: "sr_expected_idx r = length segs" and ne: "segs \<noteq> []"
    using assms inv_complete by (auto simp: receiver_inv_def)
  have "\<forall>k\<in>set [0..<length segs]. map_of (sr_segments r) k = Some (segs ! k)"
  proof
    fix k assume "k \<in> set [0..<length segs]"
    then have "k \<in> {..<sr_expected_idx r}" using e by simp
    then have "k \<in> dom (stored r)" using assms by (auto simp only: receiver_inv_def)
    then show "stored r k = Some (segs ! k)" using assms by (auto simp: receiver_inv_def)
  qed
  from collect_parts_all [OF this]
  have "collect_parts (sr_segments r) [0..<length segs] = Inr (concat segs)"
    by (simp add: map_nth)
  moreover have "sr_final_idx r = Some (length segs - 1)"
    using inv_last [OF assms e] .
  ultimately show ?thesis using True ne by (simp add: reassemble_def del: upt_Suc)
next
  case False
  then show ?thesis by (simp add: reassemble_def split: option.splits)
qed

lemma advance_spec:
  "i \<le> advance m i \<and> {i..<advance m i} \<subseteq> dom (map_of m) \<and> advance m i \<notin> dom (map_of m)"
proof (induction m i rule: advance.induct)
  case (1 m i)
  show ?case
  proof (cases "i \<in> fst ` set m")
    case True
    with 1 have "i + 1 \<le> advance m (i + 1)" "{i + 1..<advance m (i + 1)} \<subseteq> dom (map_of m)"
      "advance m (i + 1) \<notin> dom (map_of m)" by auto
    moreover have "{i..<advance m (i + 1)} \<subseteq> insert i {i + 1..<advance m (i + 1)}" by auto
    ultimately show ?thesis
      using True by (subst (1 2 3) advance.simps) (auto simp: dom_map_of_conv_image_fst)
  next
    case False
    then show ?thesis by (subst (1 2 3) advance.simps) (simp add: dom_map_of_conv_image_fst)
  qed
qed

lemma advance_eqI:
  assumes "i \<le> j" "{i..<j} \<subseteq> dom (map_of m)" "j \<notin> dom (map_of m)"
  shows "advance m i = j"
proof (rule ccontr)
  assume ne: "advance m i \<noteq> j"
  note s = advance_spec [of i m]
  from ne consider "advance m i < j" | "j < advance m i" by linarith
  then show False
  proof cases
    case 1
    then have "advance m i \<in> {i..<j}" using s by simp
    then show False using s assms(2) by blast
  next
    case 2
    then have "j \<in> {i..<advance m i}" using assms(1) by simp
    then show False using s assms(3) by blast
  qed
qed

text \<open>An arrival is timely when its index is less than 256 away from the expected one: less than
  256 ahead, and at most \<open>256 - window\<close> behind.\<close>

definition timely :: "segment_receiver \<Rightarrow> nat \<Rightarrow> bool" where
  "timely r i \<longleftrightarrow> int i < int (sr_expected_idx r) + 256
     \<and> int (sr_expected_idx r) + sr_actual_window_size r \<le> int i + 256"

lemma in_window_timely:
  assumes "timely r i"
  shows "in_window (int i AND 0xFF) (int (sr_expected_idx r) AND 0xFF) (sr_actual_window_size r)
      \<longleftrightarrow> sr_expected_idx r \<le> i \<and> int i < int (sr_expected_idx r) + sr_actual_window_size r"
    and "sr_expected_idx r \<le> i \<Longrightarrow> seq_to_abs_idx r (int i AND 0xFF) = i"
proof -
  let ?e = "int (sr_expected_idx r)"
  have m: "((int i AND 0xFF) - (?e AND 0xFF)) mod 256 = (int i - ?e) mod 256"
    by (simp add: bitarith mod_diff_eq)
  have pos: "(int i - ?e) mod 256 = int i - ?e" if "?e \<le> int i"
    using that assms by (simp add: timely_def)
  have neg: "(int i - ?e) mod 256 = int i - ?e + 256" if "int i < ?e" "?e - int i \<le> 256"
    using that mod_pos_pos_trivial [of "int i - ?e + 256" 256] by simp
  show "in_window (int i AND 0xFF) (?e AND 0xFF) (sr_actual_window_size r)
      \<longleftrightarrow> sr_expected_idx r \<le> i \<and> int i < ?e + sr_actual_window_size r"
  proof (cases "?e \<le> int i")
    case True
    then show ?thesis using m pos by (auto simp: in_window_def)
  next
    case False
    have "sr_actual_window_size r \<le> (int i - ?e) mod 256"
    proof (cases "?e - int i \<le> 256")
      case True
      then show ?thesis using False neg assms by (simp add: timely_def)
    next
      case 2: False
      then have "sr_actual_window_size r \<le> 0" using assms by (simp add: timely_def)
      then show ?thesis using pos_mod_sign [of 256 "int i - ?e"] by linarith
    qed
    then show ?thesis using m False by (auto simp: in_window_def)
  qed
  show "seq_to_abs_idx r (int i AND 0xFF) = i" if "sr_expected_idx r \<le> i"
    using that m pos by (simp add: seq_to_abs_idx_def Let_def)
qed

text \<open>The receiver after it has stored segment \<open>i\<close>, before it decides what to answer.\<close>

definition store :: "bytes list \<Rightarrow> segment_receiver \<Rightarrow> nat \<Rightarrow> segment_receiver" where
  "store segs r i =
     (let m = AList.update i (segs ! i) (sr_segments r)
      in r\<lparr>sr_segments := m,
           sr_total_bytes := sr_total_bytes r
             - (case stored r i of None \<Rightarrow> 0 | Some d \<Rightarrow> int (length d)) + int (length (segs ! i)),
           sr_final_idx := (if i = length segs - 1 then Some i else sr_final_idx r),
           sr_expected_idx := advance m (sr_expected_idx r),
           sr_last_ack_seq := int i AND 0xFF\<rparr>)"

lemma store_fields [simp]:
  "stored (store segs r i) = (stored r)(i \<mapsto> segs ! i)"
  "sr_actual_window_size (store segs r i) = sr_actual_window_size r"
  "sr_proposed_window_size (store segs r i) = sr_proposed_window_size r"
  "sr_window_start_idx (store segs r i) = sr_window_start_idx r"
  by (simp_all add: store_def Let_def update_conv')

lemma store_expected:
  "sr_expected_idx (store segs r i) =
    advance (AList.update i (segs ! i) (sr_segments r)) (sr_expected_idx r)"
  by (simp add: store_def Let_def)

lemma sum_update:
  assumes "finite A" "i \<in> A \<Longrightarrow> old = (f i :: int)" "i \<notin> A \<Longrightarrow> old = 0"
  shows "sum f (insert i A) = sum f A - old + f i"
  using assms by (cases "i \<in> A") (simp_all add: insert_absorb)

lemma store_inv:
  assumes inv: "receiver_inv segs r" and i: "i < length segs"
  shows "receiver_inv segs (store segs r i)"
proof -
  let ?m = "AList.update i (segs ! i) (sr_segments r)" and ?r = "store segs r i"
  have m: "map_of ?m = (stored r)(i \<mapsto> segs ! i)" by (rule update_conv')
  note adv = advance_spec [of "sr_expected_idx r" ?m, unfolded m]
  have below: "{..<advance ?m (sr_expected_idx r)} \<subseteq> dom ((stored r)(i \<mapsto> segs ! i))"
  proof
    fix k assume "k \<in> {..<advance ?m (sr_expected_idx r)}"
    then consider "k \<in> {..<sr_expected_idx r}" | "k \<in> {sr_expected_idx r..<advance ?m (sr_expected_idx r)}"
      by fastforce
    then show "k \<in> dom ((stored r)(i \<mapsto> segs ! i))"
    proof cases
      case 1
      then have "k \<in> dom (stored r)" using inv by (auto simp only: receiver_inv_def)
      then show ?thesis by simp
    qed (use adv in blast)
  qed
  have tot: "sr_total_bytes ?r = (\<Sum>k\<in>dom (stored ?r). int (length (segs ! k)))"
  proof -
    have "sum (\<lambda>k. int (length (segs ! k))) (insert i (dom (stored r))) =
        sum (\<lambda>k. int (length (segs ! k))) (dom (stored r))
        - (case stored r i of None \<Rightarrow> 0 | Some d \<Rightarrow> int (length d)) + int (length (segs ! i))"
      using inv by (intro sum_update) (auto simp: receiver_inv_def finite_dom_map_of)
    then show ?thesis using inv by (simp add: receiver_inv_def store_def Let_def m)
  qed
  have fin: "sr_final_idx ?r =
      (if length segs - 1 \<in> dom (stored ?r) then Some (length segs - 1) else None)"
    using inv i by (auto simp: receiver_inv_def store_def Let_def m)
  have "\<forall>k d. stored ?r k = Some d \<longrightarrow> k < length segs \<and> d = segs ! k"
    using inv i by (simp add: receiver_inv_def)
  moreover have "segs \<noteq> []" using i by auto
  ultimately show ?thesis
    unfolding receiver_inv_def using below adv tot fin
    by (simp only: store_expected store_fields m simp_thms)
qed

lemma sum_lengths: "(\<Sum>k<length segs. int (length (segs ! k))) = int (length (concat segs))"
proof (induction segs rule: rev_induct)
  case (snoc s segs)
  then show ?case by (simp add: nth_append)
qed simp

lemma inv_total_le:
  assumes "receiver_inv segs r"
  shows "sr_total_bytes r \<le> int (length (concat segs))"
proof -
  have "sr_total_bytes r = (\<Sum>k\<in>dom (stored r). int (length (segs ! k)))"
    using assms by (simp add: receiver_inv_def)
  also have "\<dots> \<le> (\<Sum>k<length segs. int (length (segs ! k)))"
    using inv_dom [OF assms] by (intro sum_mono2) auto
  also note sum_lengths
  finally show ?thesis .
qed

definition answer :: "bytes list \<Rightarrow> segment_receiver \<Rightarrow> segment_action" where
  "answer segs r =
     (if sr_expected_idx r = length segs then COMPLETE
      else if int (sr_expected_idx r) \<ge> int (sr_window_start_idx r) + sr_actual_window_size r
      then SEND_ACK else CONTINUE)"

definition receive_wire ::
  "segment_receiver \<Rightarrow> int \<times> bytes \<times> bool \<Rightarrow> (segment_action \<times> int) \<times> segment_receiver" where
  "receive_wire r w = (case w of (seq, d, follows) \<Rightarrow> receive_segment r seq d follows)"

lemma receive_in_window:
  assumes inv: "receiver_inv segs r" and ti: "timely r i" and i: "i < length segs"
    and win: "sr_expected_idx r \<le> i" "int i < int (sr_expected_idx r) + sr_actual_window_size r"
    and size: "int (length (concat segs)) \<le> MAX_REASSEMBLY_SIZE"
  shows "receive_wire r (wire segs i) =
    (let r' = store segs r i; a = answer segs r'
     in ((a, int i AND 0xFF),
         if a = CONTINUE then r' else r'\<lparr>sr_window_start_idx := sr_expected_idx r'\<rparr>))"
proof -
  let ?seq = "int i AND 0xFF" and ?more = "int i < int (length segs) - 1"
  let ?r' = "store segs r i"
  note inv' = store_inv [OF inv i]
  have w: "in_window ?seq (int (sr_expected_idx r) AND 0xFF) (sr_actual_window_size r)"
    "seq_to_abs_idx r ?seq = i"
    using in_window_timely [OF ti] win by auto
  have t: "\<not> MAX_REASSEMBLY_SIZE < sr_total_bytes r
      - (case stored r i of None \<Rightarrow> 0 | Some d \<Rightarrow> int (length d)) + int (length (segs ! i))"
    using inv_total_le [OF inv'] size by (simp add: store_def Let_def)
  have more: "?more \<longleftrightarrow> i \<noteq> length segs - 1" using i by auto
  have c: "receiver_is_complete ?r' \<longleftrightarrow> sr_expected_idx ?r' = length segs"
    by (rule inv_complete [OF inv'])
  define r1 where "r1 = r\<lparr>sr_segments := AList.update i (segs ! i) (sr_segments r),
      sr_total_bytes := sr_total_bytes r - (case stored r i of None \<Rightarrow> 0 | Some d \<Rightarrow> int (length d))
        + int (length (segs ! i))\<rparr>"
  define r2 where "r2 = (if ?more then r1 else r1\<lparr>sr_final_idx := Some i\<rparr>)"
  have r2: "r2\<lparr>sr_expected_idx := advance (sr_segments r2) (sr_expected_idx r2),
      sr_last_ack_seq := ?seq\<rparr> = ?r'"
    using more by (simp add: r2_def r1_def store_def Let_def)
  have t1: "\<not> MAX_REASSEMBLY_SIZE < sr_total_bytes r1" using t by (simp add: r1_def)
  have "receive_segment r ?seq (segs ! i) ?more =
      (if receiver_is_complete ?r'
       then ((COMPLETE, ?seq), ?r'\<lparr>sr_window_start_idx := sr_expected_idx ?r'\<rparr>)
       else if int (sr_expected_idx ?r') \<ge> int (sr_window_start_idx ?r') + sr_actual_window_size ?r'
       then ((SEND_ACK, ?seq), ?r'\<lparr>sr_window_start_idx := sr_expected_idx ?r'\<rparr>)
       else ((CONTINUE, ?seq), ?r'))"
    unfolding receive_segment_def Let_def w(2) r1_def [symmetric] r2_def [symmetric] r2
    using w(1) t1 by (simp only: if_True if_False)
  then show ?thesis
    by (simp add: receive_wire_def wire_def answer_def c Let_def)
qed

lemma receive_outside_window:
  assumes "timely r i"
    "\<not> (sr_expected_idx r \<le> i \<and> int i < int (sr_expected_idx r) + sr_actual_window_size r)"
  shows "snd (receive_wire r (wire segs i)) = r"
    and "fst (receive_wire r (wire segs i)) \<in> {(RESEND_LAST_ACK, sr_last_ack_seq r), (ABORT, -1)}"
  using in_window_timely(1) [OF assms(1)] assms(2)
  by (auto simp: receive_wire_def wire_def receive_segment_def Let_def)

text \<open>The receiver keeps its invariant whatever timely segment arrives.\<close>

lemma receive_preserves:
  assumes "receiver_inv segs r" "timely r i" "i < length segs"
    "int (length (concat segs)) \<le> MAX_REASSEMBLY_SIZE"
  shows "receiver_inv segs (snd (receive_wire r (wire segs i)))"
proof (cases "sr_expected_idx r \<le> i \<and> int i < int (sr_expected_idx r) + sr_actual_window_size r")
  case True
  show ?thesis
    using receive_in_window [OF assms(1-3) _ _ assms(4)] True store_inv [OF assms(1,3)]
    by (simp add: Let_def)
next
  case False
  then show ?thesis using receive_outside_window(1) [OF assms(2)] assms(1) by simp
qed

section \<open>Whole transfers\<close>

lemma create_receiver_inv:
  assumes "segs \<noteq> []"
  shows "receiver_inv segs (create_receiver (segs ! 0) sc pw (1 < length segs) our)"
proof -
  have "0 < length segs" using assms by simp
  then consider "length segs = 1" | "1 < length segs" by linarith
  then show ?thesis
    using assms by cases (auto simp: receiver_inv_def create_receiver_def)
qed

fun deliver :: "segment_receiver \<Rightarrow> (int \<times> bytes \<times> bool) list \<Rightarrow>
    (segment_action \<times> int) list \<times> segment_receiver" where
  "deliver r [] = ([], r)"
| "deliver r (w # ws) =
     (case receive_wire r w of (a, r') \<Rightarrow>
        case deliver r' ws of (acts, r'') \<Rightarrow> (a # acts, r''))"

fun all_timely :: "bytes list \<Rightarrow> segment_receiver \<Rightarrow> nat list \<Rightarrow> bool" where
  "all_timely segs r [] = True"
| "all_timely segs r (i # ks) =
     (i < length segs \<and> timely r i \<and> all_timely segs (snd (receive_wire r (wire segs i))) ks)"

lemma deliver_preserves:
  assumes "receiver_inv segs r" "all_timely segs r ks"
    "int (length (concat segs)) \<le> MAX_REASSEMBLY_SIZE"
  shows "receiver_inv segs (snd (deliver r (map (wire segs) ks)))"
  using assms
proof (induction ks arbitrary: r)
  case (Cons i ks)
  then have "receiver_inv segs (snd (receive_wire r (wire segs i)))"
    using receive_preserves by simp
  with Cons show ?case by (simp add: case_prod_beta)
qed simp

text \<open>In-order reception: exactly the first \<open>e\<close> segments are there.\<close>

definition in_order :: "bytes list \<Rightarrow> segment_receiver \<Rightarrow> nat \<Rightarrow> nat \<Rightarrow> int \<Rightarrow> bool" where
  "in_order segs r e start aw \<longleftrightarrow> receiver_inv segs r \<and> dom (stored r) = {..<e}
     \<and> sr_expected_idx r = e \<and> sr_window_start_idx r = start \<and> sr_actual_window_size r = aw"

lemma receive_next:
  assumes ord: "in_order segs r e start aw" and e: "e < length segs"
    and aw: "1 \<le> aw" "aw \<le> 127" and size: "int (length (concat segs)) \<le> MAX_REASSEMBLY_SIZE"
  shows "\<exists>a r'. receive_wire r (wire segs e) = ((a, int e AND 0xFF), r')
    \<and> a = (if e + 1 = length segs then COMPLETE
           else if int e + 1 \<ge> int start + aw then SEND_ACK else CONTINUE)
    \<and> in_order segs r' (e + 1) (if a = CONTINUE then start else e + 1) aw"
proof -
  have inv: "receiver_inv segs r" and d: "dom (stored r) = {..<e}" and ex: "sr_expected_idx r = e"
    and ws: "sr_window_start_idx r = start" and awr: "sr_actual_window_size r = aw"
    using ord by (auto simp: in_order_def)
  have ti: "timely r e" using ex awr aw by (simp add: timely_def)
  let ?r' = "store segs r e"
  have dom': "dom (stored ?r') = {..<e + 1}" using d by auto
  have adv: "sr_expected_idx ?r' = e + 1"
    unfolding store_expected ex
  proof (rule advance_eqI)
    have "{e..<e + 1} = {e}" by auto
    then show "{e..<e + 1} \<subseteq> dom (map_of (AList.update e (segs ! e) (sr_segments r)))"
      by (simp add: update_conv')
  qed (simp_all add: update_conv' d)
  have inv': "receiver_inv segs (?r'\<lparr>sr_window_start_idx := v\<rparr>)" for v
    using store_inv [OF inv e] by simp
  have a: "answer segs ?r' = (if e + 1 = length segs then COMPLETE
      else if int e + 1 \<ge> int start + aw then SEND_ACK else CONTINUE)"
    using adv ws awr by (simp add: answer_def add.commute)
  have "receive_wire r (wire segs e) = ((answer segs ?r', int e AND 0xFF),
      if answer segs ?r' = CONTINUE then ?r' else ?r'\<lparr>sr_window_start_idx := sr_expected_idx ?r'\<rparr>)"
    using receive_in_window [OF inv ti e _ _ size] ex awr aw by (simp add: Let_def)
  moreover have "in_order segs (if answer segs ?r' = CONTINUE then ?r'
      else ?r'\<lparr>sr_window_start_idx := sr_expected_idx ?r'\<rparr>) (e + 1)
      (if answer segs ?r' = CONTINUE then start else e + 1) aw"
    using inv' store_inv [OF inv e] dom' adv ws awr by (simp add: in_order_def)
  ultimately show ?thesis using a by blast
qed

text \<open>One window, delivered in order: nothing is answered before its last segment.\<close>

lemma deliver_window:
  assumes "in_order segs r e start aw" "1 \<le> aw" "aw \<le> 127" "start \<le> e" "0 < n"
    "e + n \<le> length segs" "int (e + n) \<le> int start + aw"
    "int (length (concat segs)) \<le> MAX_REASSEMBLY_SIZE"
  shows "\<exists>acts a r'. deliver r (map (wire segs) [e..<e + n]) = (acts @ [(a, int (e + n - 1) AND 0xFF)], r')
    \<and> (\<forall>x\<in>set acts. fst x = CONTINUE)
    \<and> a = (if e + n = length segs then COMPLETE
           else if int (e + n) \<ge> int start + aw then SEND_ACK else CONTINUE)
    \<and> in_order segs r' (e + n) (if a = CONTINUE then start else e + n) aw"
  using assms
proof (induction n arbitrary: r e)
  case (Suc n)
  from receive_next [OF Suc.prems(1) _ Suc.prems(2,3,8)] Suc.prems(6)
  obtain a r1 where r1: "receive_wire r (wire segs e) = ((a, int e AND 0xFF), r1)"
    "a = (if e + 1 = length segs then COMPLETE
          else if int e + 1 \<ge> int start + aw then SEND_ACK else CONTINUE)"
    "in_order segs r1 (e + 1) (if a = CONTINUE then start else e + 1) aw" by auto
  have up: "[e..<e + Suc n] = e # [e + 1..<e + Suc n]" by (simp add: upt_rec)
  show ?case
  proof (cases "n = 0")
    case True
    then show ?thesis
      by (intro exI [of _ "[]"] exI [of _ a] exI [of _ r1]) (use r1 in \<open>simp split: if_splits\<close>)
  next
    case False
    then have c: "a = CONTINUE" using r1(2) Suc.prems by auto
    with r1(3) have "in_order segs r1 (e + 1) start aw" by simp
    have en: "e + 1 + n = e + Suc n" by simp
    from Suc.IH [OF \<open>in_order segs r1 (e + 1) start aw\<close>, unfolded en] Suc.prems False
    obtain acts a' r' where d1: "deliver r1 (map (wire segs) [e + 1..<e + Suc n]) =
        (acts @ [(a', int (e + Suc n - 1) AND 0xFF)], r')" "\<forall>x\<in>set acts. fst x = CONTINUE"
      and rest: "a' = (if e + Suc n = length segs then COMPLETE
           else if int (e + Suc n) \<ge> int start + aw then SEND_ACK else CONTINUE)"
      "in_order segs r' (e + Suc n) (if a' = CONTINUE then start else e + Suc n) aw"
      by auto
    have "deliver r (map (wire segs) [e..<e + Suc n]) =
        (((a, int e AND 0xFF) # acts) @ [(a', int (e + Suc n - 1) AND 0xFF)], r')"
      unfolding up using r1(1) d1(1) by simp
    moreover have "\<forall>x\<in>set ((a, int e AND 0xFF) # acts). fst x = CONTINUE" using c d1(2) by simp
    ultimately show ?thesis using rest by blast
  qed
qed simp

text \<open>
  A transfer: the sender fills its window, the receiver takes the segments in order, the
  acknowledgement it answers goes back to the sender, until the sender is complete.
\<close>

fun transfer ::
  "nat \<Rightarrow> segment_sender \<Rightarrow> segment_receiver \<Rightarrow> (segment_sender \<times> segment_receiver) option" where
  "transfer 0 s r = None"
| "transfer (Suc fuel) s r =
     (case deliver r (fill_window s) of (acts, r') \<Rightarrow>
        if acts = [] then None
        else case last acts of (a, seq) \<Rightarrow>
          case sender_handle_segment_ack s seq (sr_actual_window_size r') False of (complete, s') \<Rightarrow>
            if complete then Some (s', r')
            else if a = SEND_ACK then transfer fuel s' r' else None)"

lemma ack_advances:
  assumes "ss_window_start_idx s = w" "ss_actual_window_size s = aw" "1 \<le> aw" "aw \<le> 127"
    "0 < n" "int n \<le> aw" "w + n \<le> length (ss_segments s)"
  shows "sender_handle_segment_ack s (int (w + n - 1) AND 0xFF) aw neg =
    (w + n = length (ss_segments s), s\<lparr>ss_window_start_idx := w + n\<rparr>)"
proof -
  have "seq_to_idx s (int (w + n - 1) AND 0xFF) = w + n - 1"
    by (rule seq_to_idx_correct) (use assms in auto)
  then show ?thesis
    using assms by (auto simp: sender_handle_segment_ack_def sender_is_complete_def Let_def)
qed

lemma transfer_completes:
  assumes "in_order segs r w w aw" "1 \<le> aw" "aw \<le> 127" "w < length segs" "length segs - w \<le> fuel"
    "int (length (concat segs)) \<le> MAX_REASSEMBLY_SIZE"
    "ss_segments s = segs" "ss_window_start_idx s = w" "ss_actual_window_size s = aw"
  shows "\<exists>s' r'. transfer fuel s r = Some (s', r') \<and> sender_is_complete s'
    \<and> in_order segs r' (length segs) (length segs) aw"
  using assms
proof (induction fuel arbitrary: s r w)
  case (Suc fuel)
  define n where "n = nat (min (int (length segs) - int w) aw)"
  have n: "0 < n" "w + n \<le> length segs" "int n \<le> aw"
    "w + n = length segs \<or> int n = aw"
    using Suc.prems by (auto simp: n_def)
  have fw: "fill_window s = map (wire segs) [w..<w + n]"
    using Suc.prems by (simp add: fill_window_eq n_def min_def nat_diff_distrib' nat_add_distrib)
  from deliver_window [OF Suc.prems(1-3) order.refl n(1,2) _ Suc.prems(6)] n(3)
  obtain acts a r' where d: "deliver r (map (wire segs) [w..<w + n]) =
      (acts @ [(a, int (w + n - 1) AND 0xFF)], r')"
    and a: "a = (if w + n = length segs then COMPLETE
           else if int (w + n) \<ge> int w + aw then SEND_ACK else CONTINUE)"
    and o: "in_order segs r' (w + n) (if a = CONTINUE then w else w + n) aw" by auto
  have awr: "sr_actual_window_size r' = aw" using o by (simp add: in_order_def)
  have ack: "sender_handle_segment_ack s (int (w + n - 1) AND 0xFF) aw False =
      (w + n = length segs, s\<lparr>ss_window_start_idx := w + n\<rparr>)"
    using ack_advances [of s w aw n False] Suc.prems n by simp
  show ?case
  proof (cases "w + n = length segs")
    case True
    then show ?thesis
      using d ack awr o a Suc.prems by (auto simp: fw sender_is_complete_def)
  next
    case False
    then have a': "a = SEND_ACK" using a n(4) by auto
    have "\<exists>s' r''. transfer fuel (s\<lparr>ss_window_start_idx := w + n\<rparr>) r' = Some (s', r'')
        \<and> sender_is_complete s' \<and> in_order segs r'' (length segs) (length segs) aw"
      by (rule Suc.IH [of r' "w + n"]) (use Suc.prems n False o a' in auto)
    then show ?thesis using d ack awr False a' by (simp add: fw)
  qed
qed simp

section \<open>From the payload to the payload\<close>

lemma create_sender_segments:
  assumes "create_sender payload iid sc max_apdu ty pw peer = Inr s"
  shows "ss_segments s \<noteq> [] \<and> concat (ss_segments s) = payload
    \<and> (\<forall>d\<in>set (ss_segments s). int (length d) \<le> compute_max_segment_payload max_apdu ty)
    \<and> ss_window_start_idx s = 0 \<and> ss_actual_window_size s = pw"
proof -
  let ?m = "compute_max_segment_payload max_apdu ty"
  have "0 < ?m"
    using assms by (auto simp: create_sender_def split_payload_def split: if_splits)
  from split_payload_segments [OF this, of payload] obtain segs where
    "split_payload payload ?m = Inr segs" "segs \<noteq> []" "concat segs = payload"
    "\<forall>d\<in>set segs. int (length d) \<le> ?m" by blast
  then show ?thesis using assms by (auto simp: create_sender_def split: if_splits)
qed

lemma first_ack:
  assumes "ss_segments s \<noteq> []" "ss_window_start_idx s = 0" "1 \<le> ss_actual_window_size s"
  shows "sender_handle_segment_ack s 0 aw neg =
    (length (ss_segments s) = 1,
     s\<lparr>ss_actual_window_size := aw, ss_window_start_idx := 1\<rparr>)"
proof -
  have "0 < length (ss_segments s)" using assms(1) by simp
  then have "length (ss_segments s) \<le> 1 \<longleftrightarrow> length (ss_segments s) = 1" by linarith
  moreover have "seq_to_idx s 0 = 0"
    using seq_to_idx_correct [of 0 s] assms by simp
  ultimately show ?thesis by (simp add: sender_handle_segment_ack_def sender_is_complete_def Let_def)
qed

lemma create_receiver_in_order:
  assumes "segs \<noteq> []"
  shows "in_order segs (create_receiver (segs ! 0) sc pw (1 < length segs) our) 1 1 (min our pw)"
  using create_receiver_inv [OF assms, of sc pw our]
  by (auto simp: in_order_def create_receiver_def)

lemma transfer_payload:
  assumes "create_sender payload iid sc max_apdu ty pw peer = Inr s"
    and "1 \<le> our" "our \<le> 127" "1 \<le> pw" "int (length payload) \<le> MAX_REASSEMBLY_SIZE"
    and r: "r = create_receiver (ss_segments s ! 0) sc pw (1 < length (ss_segments s)) our"
    and s': "sender_handle_segment_ack s 0 (sr_actual_window_size r) False = (complete, s')"
  shows "if complete then reassemble r = Inr payload
    else \<exists>s'' r''. transfer (length (ss_segments s)) s' r = Some (s'', r'')
      \<and> sender_is_complete s'' \<and> reassemble r'' = Inr payload"
proof -
  let ?segs = "ss_segments s" and ?aw = "min our pw"
  note s = create_sender_segments [OF assms(1)]
  have ord: "in_order ?segs r 1 1 ?aw"
    unfolding r by (rule create_receiver_in_order) (use s in simp)
  have ack: "complete = (length ?segs = 1)"
    "s' = s\<lparr>ss_actual_window_size := sr_actual_window_size r, ss_window_start_idx := 1\<rparr>"
    using first_ack [of s "sr_actual_window_size r" False] s s' assms(4) by auto
  have awr: "sr_actual_window_size r = ?aw" using ord by (simp add: in_order_def)
  have fin: "reassemble r' = Inr payload" if "in_order ?segs r' (length ?segs) w ?aw" for r' w
    using that inv_reassemble [of ?segs r'] inv_complete [of ?segs r'] s by (simp add: in_order_def)
  show ?thesis
  proof (cases complete)
    case True
    then show ?thesis using fin [of r 1] ord ack by simp
  next
    case False
    then have "1 < length ?segs" using ack s by (cases ?segs) auto
    moreover have "1 \<le> ?aw" "?aw \<le> 127" using assms(2-4) by simp_all
    ultimately obtain s'' r'' where "transfer (length ?segs) s' r = Some (s'', r'')" "sender_is_complete s''"
      "in_order ?segs r'' (length ?segs) (length ?segs) ?aw"
      using transfer_completes [OF ord, of "length ?segs" s'] assms s ack awr by auto
    then show ?thesis using False fin by auto
  qed
qed

end
