(* ===== verification/Errors.thy ===== *)
theory Errors
  imports Apdu Procs
begin

text \<open>
  The exceptions of \<open>services/errors.py\<close>, beside Python's own: what the object model and the
  service handlers raise, and what the receive path turns into Error, Reject and Abort APDUs.
\<close>

datatype client_error =
    BACnetError error_class int bytes
  | BACnetRejectError reject_reason
  | BACnetAbortError abort_reason
  | BACnetTimeoutError

datatype exc = Python py_error | Bacnet client_error

text \<open>A Python-level result where service exceptions can occur as well.\<close>

definition py :: "py_error + 'a \<Rightarrow> exc + 'a" where
  "py r = (case r of Inl e \<Rightarrow> Inl (Python e) | Inr x \<Rightarrow> Inr x)"

lemma py_simps [simp]: "py (Inl e) = Inl (Python e)" "py (Inr x) = Inr x"
  by (simp_all add: py_def)

lemma py_Inr_iff [simp]: "py r = Inr x \<longleftrightarrow> r = Inr x"
  by (cases r) simp_all

abbreviation bacnet_error :: "error_class \<Rightarrow> int \<Rightarrow> exc" where
  "bacnet_error c code \<equiv> Bacnet (BACnetError c code [])"

end
