(* ===== verification/Client_Tsm.thy ===== *)
theory Client_Tsm
  imports Procs Segmentation_Laws Npdu Errors
begin

text \<open>
  The client half of \<open>app/tsm.py\<close> (Clause 5.4.4): outstanding confirmed requests, correlated
  by peer address and invoke id.  A transaction is a record in a map from keys; the handlers
  run on the event loop one at a time, so each is a procedure on the state of the machine.
  The network is the log of what it took and a function that says what its \<open>send\<close> raises, if
  anything (\<open>RuntimeError\<close> of a router without the port, an error of the socket); \<open>timeout_handle\<close> is the timer that is scheduled
  and not yet fired or cancelled; the three delays are the three timers.  The coroutine
  \<open>send_request\<close> is cut at its one \<open>await\<close>: \<open>send_request\<close> runs up to it and \<open>resume_request\<close> is
  the part after the future is done.
\<close>

section \<open>Transactions\<close>

datatype client_state = CL_IDLE | CL_SEGMENTED_REQUEST | AWAIT_CONFIRMATION | SEGMENTED_CONFIRMATION

datatype future = Pending | Result bytes | Failed client_error | Cancelled

text \<open>\<open>T_arr\<close>: the APDU timeout; \<open>T_seg\<close>: one, \<open>T_wait_for_seg\<close>: four segment timeouts.\<close>

datatype timer = T_arr | T_seg | T_wait_for_seg

record client_txn =
  ct_invoke_id :: int
  ct_destination :: bacnet_address
  ct_service_choice :: int
  ct_request_data :: bytes
  ct_future :: future
  ct_retry_count :: int
  ct_timeout_handle :: "timer option"
  ct_state :: client_state
  ct_segment_sender :: "segment_sender option"
  ct_segment_receiver :: "segment_receiver option"
  ct_seg_retry_count :: int
  ct_effective_max_apdu :: int

type_synonym txn_key = "bacnet_address \<times> int"
type_synonym message = "bytes \<times> bacnet_address \<times> bool"

text \<open>What \<open>send\<close> of the network layer raises for octets and a destination; one that takes everything.\<close>

type_synonym network = "bytes \<Rightarrow> bacnet_address \<Rightarrow> py_error option"

definition network_up :: network where
  "network_up data dest = None"

record client_tsm =
  cm_retries :: int
  cm_max_apdu_length :: int
  cm_max_segments :: "int option"
  cm_proposed_window_size :: int
  cm_transactions :: "txn_key \<Rightarrow> client_txn option"
  cm_next_invoke_id :: int
  cm_sent :: "message list"
  cm_network :: network

type_synonym 'a client_proc = "(client_tsm, 'a) proc"

definition client_init :: "int \<Rightarrow> int \<Rightarrow> int option \<Rightarrow> int \<Rightarrow> client_tsm" where
  "client_init retries max_apdu max_segments window =
     \<lparr>cm_retries = retries, cm_max_apdu_length = max_apdu, cm_max_segments = max_segments,
      cm_proposed_window_size = window, cm_transactions = Map.empty, cm_next_invoke_id = 0,
      cm_sent = [], cm_network = network_up\<rparr>"

section \<open>Access to the state\<close>

definition net_send :: "bytes \<Rightarrow> bacnet_address \<Rightarrow> bool \<Rightarrow> unit client_proc" where
  "net_send data dest reply =
     bind_p (read_p cm_network) (\<lambda>network.
     case network data dest of
       Some e \<Rightarrow> raise_p e
     | None \<Rightarrow> write_p (\<lambda>s. s\<lparr>cm_sent := cm_sent s @ [(data, dest, reply)]\<rparr>))"

definition put_txn :: "txn_key \<Rightarrow> client_txn \<Rightarrow> unit client_proc" where
  "put_txn key t = write_p (\<lambda>s. s\<lparr>cm_transactions := (cm_transactions s)(key \<mapsto> t)\<rparr>)"

definition pop_txn :: "txn_key \<Rightarrow> unit client_proc" where
  "pop_txn key = write_p (\<lambda>s. s\<lparr>cm_transactions := (cm_transactions s)(key := None)\<rparr>)"

text \<open>An attribute of the transaction at a key is assigned.\<close>

definition set_txn :: "txn_key \<Rightarrow> (client_txn \<Rightarrow> client_txn) \<Rightarrow> unit client_proc" where
  "set_txn key f = write_p (\<lambda>s. s\<lparr>cm_transactions := (cm_transactions s)(key :=
     map_option f (cm_transactions s key))\<rparr>)"

text \<open>The transaction at a key, whose presence the caller has checked (KeyError otherwise).\<close>

definition the_txn :: "txn_key \<Rightarrow> client_txn client_proc" where
  "the_txn key = bind_p (read_p (\<lambda>s. cm_transactions s key)) (\<lambda>o'.
     case o' of None \<Rightarrow> raise_p KeyError | Some t \<Rightarrow> return_p t)"

definition set_future :: "txn_key \<Rightarrow> future \<Rightarrow> unit client_proc" where
  "set_future key v = bind_p (the_txn key) (\<lambda>t.
     if ct_future t \<noteq> Pending then raise_p InvalidStateError
     else set_txn key (\<lambda>t. t\<lparr>ct_future := v\<rparr>))"

text \<open>The common start of the handlers: \<open>txn and not txn.future.done()\<close>.\<close>

definition with_pending :: "txn_key \<Rightarrow> (client_txn \<Rightarrow> unit client_proc) \<Rightarrow> unit client_proc" where
  "with_pending key f = bind_p (read_p (\<lambda>s. cm_transactions s key)) (\<lambda>o'.
     case o' of None \<Rightarrow> return_p ()
     | Some t \<Rightarrow> if ct_future t \<noteq> Pending then return_p () else f t)"

section \<open>Timers\<close>

definition cancel_timeout :: "txn_key \<Rightarrow> unit client_proc" where
  "cancel_timeout key = set_txn key (\<lambda>t. t\<lparr>ct_timeout_handle := None\<rparr>)"

definition start_timeout :: "txn_key \<Rightarrow> unit client_proc" where
  "start_timeout key = set_txn key (\<lambda>t. t\<lparr>ct_timeout_handle := Some T_arr\<rparr>)"

definition start_segment_timeout :: "txn_key \<Rightarrow> bool \<Rightarrow> unit client_proc" where
  "start_segment_timeout key wait_for_seg =
     set_txn key (\<lambda>t. t\<lparr>ct_timeout_handle := Some (if wait_for_seg then T_wait_for_seg else T_seg)\<rparr>)"

section \<open>Sending\<close>

definition allocate_invoke_id :: "bacnet_address \<Rightarrow> int client_proc" where
  "allocate_invoke_id dest s =
     (case find (\<lambda>k. cm_transactions s (dest, (cm_next_invoke_id s + k) AND 0xFF) = None)
             (map int [0..<256]) of
        Some k \<Rightarrow> (Inr ((cm_next_invoke_id s + k) AND 0xFF),
                   s\<lparr>cm_next_invoke_id := (cm_next_invoke_id s + k + 1) AND 0xFF\<rparr>)
      | None \<Rightarrow> (Inl RuntimeError, s\<lparr>cm_next_invoke_id := (cm_next_invoke_id s + 256) AND 0xFF\<rparr>))"

definition send_confirmed_request :: "txn_key \<Rightarrow> int \<Rightarrow> unit client_proc" where
  "send_confirmed_request key max_apdu =
     bind_p (the_txn key) (\<lambda>t.
     bind_p (read_p cm_max_segments) (\<lambda>max_segments.
     bind_p (lift_p (encode_apdu (ConfirmedRequestPDU
       \<lparr>cr_segmented = False, cr_more_follows = False, cr_segmented_response_accepted = True,
        cr_max_segments = max_segments, cr_max_apdu_length = max_apdu,
        cr_invoke_id = ct_invoke_id t, cr_sequence_number = None, cr_proposed_window_size = None,
        cr_service_choice = ct_service_choice t, cr_service_request = ct_request_data t\<rparr>)))
       (\<lambda>apdu_bytes.
     seq_p (net_send apdu_bytes (ct_destination t) True)
    (seq_p (set_txn key (\<lambda>t. t\<lparr>ct_state := AWAIT_CONFIRMATION\<rparr>))
           (start_timeout key)))))"

definition request_segment :: "client_txn \<Rightarrow> int option \<Rightarrow> int \<Rightarrow> int \<times> bytes \<times> bool \<Rightarrow> apdu" where
  "request_segment t max_segments window seg =
     (case seg of (seq_num, seg_data, more_follows) \<Rightarrow> ConfirmedRequestPDU
       \<lparr>cr_segmented = True, cr_more_follows = more_follows, cr_segmented_response_accepted = True,
        cr_max_segments = max_segments, cr_max_apdu_length = ct_effective_max_apdu t,
        cr_invoke_id = ct_invoke_id t, cr_sequence_number = Some seq_num,
        cr_proposed_window_size = Some window,
        cr_service_choice = ct_service_choice t, cr_service_request = seg_data\<rparr>)"

definition fill_and_send_request_window :: "txn_key \<Rightarrow> unit client_proc" where
  "fill_and_send_request_window key =
     bind_p (the_txn key) (\<lambda>t.
     case ct_segment_sender t of
       None \<Rightarrow> return_p ()
     | Some sender \<Rightarrow>
         bind_p (read_p cm_max_segments) (\<lambda>max_segments.
         seq_p (each_p (\<lambda>seg.
             bind_p (lift_p (encode_apdu
                (request_segment t max_segments (ss_proposed_window_size sender) seg)))
               (\<lambda>apdu_bytes. net_send apdu_bytes (ct_destination t) True)) (fill_window sender))
           (start_segment_timeout key True)))"

definition send_segmented_request :: "txn_key \<Rightarrow> int \<Rightarrow> unit client_proc" where
  "send_segmented_request key max_apdu =
     bind_p (the_txn key) (\<lambda>t.
     bind_p (read_p cm_proposed_window_size) (\<lambda>window.
     case create_sender (ct_request_data t) (ct_invoke_id t) (ct_service_choice t) max_apdu
            Seg_confirmed_request window None of
       Inl (SegRaised e) \<Rightarrow> raise_p e
     | Inl (SegmentationError r) \<Rightarrow> set_future key (Failed (BACnetAbortError r))
     | Inr sender \<Rightarrow>
         seq_p (set_txn key (\<lambda>t. t\<lparr>ct_segment_sender := Some sender,
                                   ct_state := CL_SEGMENTED_REQUEST\<rparr>))
               (fill_and_send_request_window key)))"

definition send_client_segment_ack :: "txn_key \<Rightarrow> int \<Rightarrow> bool \<Rightarrow> unit client_proc" where
  "send_client_segment_ack key seq negative =
     bind_p (the_txn key) (\<lambda>t.
     case ct_segment_receiver t of
       None \<Rightarrow> return_p ()
     | Some receiver \<Rightarrow>
         bind_p (lift_p (encode_apdu (SegmentAckPDU
           \<lparr>sg_negative_ack = negative, sg_sent_by_server = False, sg_invoke_id = ct_invoke_id t,
            sg_sequence_number = seq, sg_actual_window_size = sr_actual_window_size receiver\<rparr>)))
           (\<lambda>ack. net_send ack (ct_destination t) True))"

definition abort_transaction :: "txn_key \<Rightarrow> abort_reason \<Rightarrow> unit client_proc" where
  "abort_transaction key reason =
     bind_p (the_txn key) (\<lambda>t.
     bind_p (lift_p (encode_apdu (AbortPDU
       \<lparr>ab_sent_by_server = False, ab_invoke_id = ct_invoke_id t, ab_abort_reason = reason\<rparr>)))
       (\<lambda>abort.
     seq_p (net_send abort (ct_destination t) False)
    (bind_p (the_txn key) (\<lambda>t.
     if ct_future t = Pending
     then seq_p (cancel_timeout key) (set_future key (Failed (BACnetAbortError reason)))
     else return_p ()))))"

text \<open>The choice between a plain and a segmented request, made when sending and when retrying.\<close>

definition transmit_request :: "txn_key \<Rightarrow> unit client_proc" where
  "transmit_request key =
     bind_p (the_txn key) (\<lambda>t.
     if int (length (ct_request_data t))
          > compute_max_segment_payload (ct_effective_max_apdu t) Seg_confirmed_request
     then send_segmented_request key (ct_effective_max_apdu t)
     else send_confirmed_request key (ct_effective_max_apdu t))"

text \<open>\<open>finally\<close>: the transaction is dropped (with its timer) when sending raises.\<close>

definition finally_pop :: "txn_key \<Rightarrow> unit client_proc \<Rightarrow> unit client_proc" where
  "finally_pop key m s =
     (case m s of (Inr x, s') \<Rightarrow> (Inr x, s') | (Inl e, s') \<Rightarrow> (Inl e, snd (pop_txn key s')))"

definition send_request ::
  "int \<Rightarrow> bytes \<Rightarrow> bacnet_address \<Rightarrow> int option \<Rightarrow> txn_key client_proc" where
  "send_request service_choice request_data dest max_apdu_override =
     bind_p (read_p cm_max_apdu_length) (\<lambda>own.
     let effective = (case max_apdu_override of Some m \<Rightarrow> m | None \<Rightarrow> own) in
     bind_p (allocate_invoke_id dest) (\<lambda>iid.
     let key = (dest, iid) in
     seq_p (put_txn key
       \<lparr>ct_invoke_id = iid, ct_destination = dest, ct_service_choice = service_choice,
        ct_request_data = request_data, ct_future = Pending, ct_retry_count = 0,
        ct_timeout_handle = None, ct_state = CL_IDLE, ct_segment_sender = None,
        ct_segment_receiver = None, ct_seg_retry_count = 0, ct_effective_max_apdu = effective\<rparr>)
    (seq_p (finally_pop key (transmit_request key)) (return_p key))))"

text \<open>
  The coroutine goes on once its future is done: the transaction and its timer go away and
  the outcome is returned or raised in the caller.
\<close>

definition resume_request :: "txn_key \<Rightarrow> future client_proc" where
  "resume_request key =
     bind_p (the_txn key) (\<lambda>t. seq_p (pop_txn key) (return_p (ct_future t)))"

section \<open>Responses\<close>

definition handle_simple_ack :: "bacnet_address \<Rightarrow> int \<Rightarrow> int \<Rightarrow> unit client_proc" where
  "handle_simple_ack src iid service_choice =
     (let key = (src, iid) in with_pending key (\<lambda>t.
        if ct_state t \<noteq> AWAIT_CONFIRMATION then return_p ()
        else seq_p (cancel_timeout key) (set_future key (Result []))))"

definition handle_complex_ack :: "bacnet_address \<Rightarrow> int \<Rightarrow> int \<Rightarrow> bytes \<Rightarrow> unit client_proc" where
  "handle_complex_ack src iid service_choice data =
     (let key = (src, iid) in with_pending key (\<lambda>t.
        if ct_state t \<noteq> AWAIT_CONFIRMATION then return_p ()
        else seq_p (cancel_timeout key) (set_future key (Result data))))"

definition handle_error ::
  "bacnet_address \<Rightarrow> int \<Rightarrow> error_class \<Rightarrow> int \<Rightarrow> bytes \<Rightarrow> unit client_proc" where
  "handle_error src iid error_class error_code error_data =
     (let key = (src, iid) in with_pending key (\<lambda>t.
        seq_p (cancel_timeout key)
              (set_future key (Failed (BACnetError error_class error_code error_data)))))"

definition handle_reject :: "bacnet_address \<Rightarrow> int \<Rightarrow> reject_reason \<Rightarrow> unit client_proc" where
  "handle_reject src iid reason =
     (let key = (src, iid) in with_pending key (\<lambda>t.
        seq_p (cancel_timeout key) (set_future key (Failed (BACnetRejectError reason)))))"

definition handle_abort :: "bacnet_address \<Rightarrow> int \<Rightarrow> abort_reason \<Rightarrow> unit client_proc" where
  "handle_abort src iid reason =
     (let key = (src, iid) in with_pending key (\<lambda>t.
        seq_p (cancel_timeout key) (set_future key (Failed (BACnetAbortError reason)))))"

definition handle_segment_ack :: "bacnet_address \<Rightarrow> segment_ack \<Rightarrow> unit client_proc" where
  "handle_segment_ack src pdu =
     (let key = (src, sg_invoke_id pdu) in with_pending key (\<lambda>t.
        if ct_state t \<noteq> CL_SEGMENTED_REQUEST then return_p ()
        else case ct_segment_sender t of
          None \<Rightarrow> return_p ()
        | Some sender \<Rightarrow>
            if sg_actual_window_size pdu < 1 \<or> sg_actual_window_size pdu > 127
            then abort_transaction key WINDOW_SIZE_OUT_OF_RANGE
            else
              let (complete, sender') = sender_handle_segment_ack sender (sg_sequence_number pdu)
                    (sg_actual_window_size pdu) (sg_negative_ack pdu)
              in seq_p (set_txn key (\<lambda>t. t\<lparr>ct_segment_sender := Some sender',
                                         ct_seg_retry_count := 0\<rparr>))
                (if complete
                 then seq_p (set_txn key (\<lambda>t. t\<lparr>ct_state := AWAIT_CONFIRMATION,
                                              ct_segment_sender := None\<rparr>))
                            (start_timeout key)
                 else fill_and_send_request_window key)))"

text \<open>\<open>x or 1\<close> for an optional integer.\<close>

definition or_one :: "int option \<Rightarrow> int" where
  "or_one v = (case v of None \<Rightarrow> 1 | Some x \<Rightarrow> if x = 0 then 1 else x)"

definition begin_segmented_response ::
  "txn_key \<Rightarrow> complex_ack \<Rightarrow> unit client_proc" where
  "begin_segmented_response key pdu =
     seq_p (cancel_timeout key)
    (bind_p (read_p cm_proposed_window_size) (\<lambda>our_window.
     let receiver = create_receiver (ca_service_ack pdu) (ca_service_choice pdu)
           (or_one (ca_proposed_window_size pdu)) (ca_more_follows pdu) our_window
     in seq_p (set_txn key (\<lambda>t. t\<lparr>ct_segment_receiver := Some receiver,
                                 ct_state := SEGMENTED_CONFIRMATION\<rparr>))
       (if \<not> ca_more_follows pdu
        then bind_p (lift_p (reassemble receiver)) (\<lambda>data. set_future key (Result data))
        else seq_p (send_client_segment_ack key 0 False) (start_segment_timeout key False))))"

definition continue_segmented_response ::
  "txn_key \<Rightarrow> segment_receiver \<Rightarrow> int \<Rightarrow> complex_ack \<Rightarrow> unit client_proc" where
  "continue_segmented_response key receiver seq pdu =
     (let ((action, ack_seq), receiver') =
            receive_segment receiver seq (ca_service_ack pdu) (ca_more_follows pdu)
      in seq_p (set_txn key (\<lambda>t. t\<lparr>ct_segment_receiver := Some receiver'\<rparr>))
        (case action of
           COMPLETE \<Rightarrow> seq_p (cancel_timeout key)
             (seq_p (send_client_segment_ack key ack_seq False)
             (bind_p (lift_p (reassemble receiver')) (\<lambda>data. set_future key (Result data))))
         | SEND_ACK \<Rightarrow> seq_p (send_client_segment_ack key ack_seq False)
             (start_segment_timeout key False)
         | CONTINUE \<Rightarrow> start_segment_timeout key False
         | RESEND_LAST_ACK \<Rightarrow> seq_p (send_client_segment_ack key ack_seq False)
             (start_segment_timeout key False)
         | ABORT \<Rightarrow> abort_transaction key INVALID_APDU_IN_THIS_STATE))"

definition handle_segmented_complex_ack :: "bacnet_address \<Rightarrow> complex_ack \<Rightarrow> unit client_proc" where
  "handle_segmented_complex_ack src pdu =
     (let key = (src, ca_invoke_id pdu) in with_pending key (\<lambda>t.
        if ca_sequence_number pdu = Some 0 \<and> ct_state t = AWAIT_CONFIRMATION
        then begin_segmented_response key pdu
        else if ct_state t \<noteq> SEGMENTED_CONFIRMATION then return_p ()
        else case ct_segment_receiver t of
          None \<Rightarrow> return_p ()
        | Some receiver \<Rightarrow>
            (case ca_sequence_number pdu of
               None \<Rightarrow> return_p ()
             | Some seq \<Rightarrow> continue_segmented_response key receiver seq pdu)))"

section \<open>Timeouts\<close>

definition on_timeout :: "txn_key \<Rightarrow> unit client_proc" where
  "on_timeout key = with_pending key (\<lambda>t.
     bind_p (read_p cm_retries) (\<lambda>retries.
     if ct_retry_count t < retries
     then seq_p (set_txn key (\<lambda>t. t\<lparr>ct_retry_count := ct_retry_count t + 1\<rparr>))
                (transmit_request key)
     else set_future key (Failed BACnetTimeoutError)))"

definition on_segment_timeout :: "txn_key \<Rightarrow> unit client_proc" where
  "on_segment_timeout key = with_pending key (\<lambda>t.
     bind_p (read_p cm_retries) (\<lambda>retries.
     if ct_state t = CL_SEGMENTED_REQUEST
     then (if ct_seg_retry_count t < retries
           then seq_p (set_txn key (\<lambda>t. t\<lparr>ct_seg_retry_count := ct_seg_retry_count t + 1\<rparr>))
                      (fill_and_send_request_window key)
           else abort_transaction key TSM_TIMEOUT)
     else if ct_state t = SEGMENTED_CONFIRMATION
     then (if ct_seg_retry_count t < retries
           then seq_p (set_txn key (\<lambda>t. t\<lparr>ct_seg_retry_count := ct_seg_retry_count t + 1\<rparr>))
             (case ct_segment_receiver t of
                None \<Rightarrow> return_p ()
              | Some receiver \<Rightarrow>
                  seq_p (send_client_segment_ack key (sr_last_ack_seq receiver) True)
                        (start_segment_timeout key False))
           else abort_transaction key TSM_TIMEOUT)
     else return_p ()))"

section \<open>Runs\<close>

text \<open>
  What can happen to the machine: the application sends a request or cancels one, the event
  loop resumes a coroutine whose future is done or fires a scheduled timer, a decoded response
  PDU arrives.  A timer that fires is no longer scheduled.
\<close>

datatype client_event =
    Ev_request int bytes bacnet_address "int option"
  | Ev_response bacnet_address apdu
  | Ev_timer txn_key
  | Ev_resume txn_key
  | Ev_cancel txn_key

text \<open>The dispatch of \<open>app/application.py\<close> on the response PDUs.\<close>

fun client_dispatch :: "bacnet_address \<Rightarrow> apdu \<Rightarrow> unit client_proc" where
  "client_dispatch src (SimpleAckPDU p) = handle_simple_ack src (sa_invoke_id p) (sa_service_choice p)"
| "client_dispatch src (ComplexAckPDU p) =
     (if ca_segmented p then handle_segmented_complex_ack src p
      else handle_complex_ack src (ca_invoke_id p) (ca_service_choice p) (ca_service_ack p))"
| "client_dispatch src (ErrorPDU p) =
     handle_error src (er_invoke_id p) (er_error_class p) (er_error_code p) (er_error_data p)"
| "client_dispatch src (RejectPDU p) = handle_reject src (rj_invoke_id p) (rj_reject_reason p)"
| "client_dispatch src (AbortPDU p) = handle_abort src (ab_invoke_id p) (ab_abort_reason p)"
| "client_dispatch src (SegmentAckPDU p) =
     (if sg_sent_by_server p then handle_segment_ack src p else return_p ())"
| "client_dispatch src (ConfirmedRequestPDU p) = return_p ()"
| "client_dispatch src (UnconfirmedRequestPDU p) = return_p ()"

definition fire_timer :: "txn_key \<Rightarrow> unit client_proc" where
  "fire_timer key = bind_p (the_txn key) (\<lambda>t.
     seq_p (cancel_timeout key)
       (case ct_timeout_handle t of
          None \<Rightarrow> return_p ()
        | Some T_arr \<Rightarrow> on_timeout key
        | Some _ \<Rightarrow> on_segment_timeout key))"

fun client_step :: "client_event \<Rightarrow> unit client_proc" where
  "client_step (Ev_request sc data dest override) =
     seq_p (send_request sc data dest override) (return_p ())"
| "client_step (Ev_response src pdu) = client_dispatch src pdu"
| "client_step (Ev_timer key) = fire_timer key"
| "client_step (Ev_resume key) = seq_p (resume_request key) (return_p ())"
| "client_step (Ev_cancel key) = with_pending key (\<lambda>t. set_future key Cancelled)"

end
