(* ===== verification/Server_Tsm.thy ===== *)
theory Server_Tsm
  imports Client_Tsm
begin

text \<open>
  The server half of \<open>app/tsm.py\<close> (Clause 5.4.5): incoming confirmed requests, their
  segmented reception and response, and the cached response that answers a repeated request.
  A transaction is an object that a running request handler keeps a reference to after the
  machine has dropped it from its dictionary, so objects live in a store and the dictionary maps
  a key to a reference.  A timer belongs to the object that started it, but its callback is
  given the key and looks the transaction up again.  As for the client, the network is the log
  of what it took and the function of what its \<open>send\<close> raises, and a timer handle is present while its timer is scheduled.  The two
  constructor arguments that no method reads (\<open>max_apdu_length\<close>, \<open>max_segments\<close>) are left out.
\<close>

section \<open>Transactions\<close>

datatype server_state = SV_IDLE | SV_SEGMENTED_REQUEST | AWAIT_RESPONSE | SEGMENTED_RESPONSE

datatype server_timer = T_request | T_srv_seg | T_srv_wait

record server_txn =
  st_invoke_id :: int
  st_source :: bacnet_address
  st_service_choice :: int
  st_state :: server_state
  st_cached_response :: "bytes option"
  st_timeout_handle :: "server_timer option"
  st_segment_receiver :: "segment_receiver option"
  st_segment_sender :: "segment_sender option"
  st_seg_retry_count :: int
  st_client_max_apdu_length :: int
  st_client_max_segments :: "int option"
  st_segmented_response_accepted :: bool

type_synonym ref = nat

record server_tsm =
  sv_retries :: int
  sv_proposed_window_size :: int
  sv_transactions :: "txn_key \<Rightarrow> ref option"
  sv_objects :: "ref \<Rightarrow> server_txn option"
  sv_next_ref :: ref
  sv_sent :: "message list"
  sv_network :: network

type_synonym 'a server_proc = "(server_tsm, 'a) proc"

definition server_init :: "int \<Rightarrow> int \<Rightarrow> server_tsm" where
  "server_init retries window =
     \<lparr>sv_retries = retries, sv_proposed_window_size = window, sv_transactions = Map.empty,
      sv_objects = Map.empty, sv_next_ref = 0, sv_sent = [],
      sv_network = network_up\<rparr>"

section \<open>Access to the state\<close>

definition sv_send :: "bytes \<Rightarrow> bacnet_address \<Rightarrow> bool \<Rightarrow> unit server_proc" where
  "sv_send data dest reply =
     bind_p (read_p sv_network) (\<lambda>network.
     case network data dest of
       Some e \<Rightarrow> raise_p e
     | None \<Rightarrow> write_p (\<lambda>s. s\<lparr>sv_sent := sv_sent s @ [(data, dest, reply)]\<rparr>))"

text \<open>Reading an object; a reference is never dangling, so the KeyError is never raised.\<close>

definition obj :: "ref \<Rightarrow> server_txn server_proc" where
  "obj r = bind_p (read_p (\<lambda>s. sv_objects s r)) (\<lambda>o'.
     case o' of None \<Rightarrow> raise_p KeyError | Some t \<Rightarrow> return_p t)"

definition set_obj :: "ref \<Rightarrow> (server_txn \<Rightarrow> server_txn) \<Rightarrow> unit server_proc" where
  "set_obj r f = write_p (\<lambda>s. s\<lparr>sv_objects := (sv_objects s)(r := map_option f (sv_objects s r))\<rparr>)"

definition new_obj :: "server_txn \<Rightarrow> ref server_proc" where
  "new_obj t s = (Inr (sv_next_ref s),
     s\<lparr>sv_objects := (sv_objects s)(sv_next_ref s \<mapsto> t), sv_next_ref := sv_next_ref s + 1\<rparr>)"

definition put_entry :: "txn_key \<Rightarrow> ref \<Rightarrow> unit server_proc" where
  "put_entry key r = write_p (\<lambda>s. s\<lparr>sv_transactions := (sv_transactions s)(key \<mapsto> r)\<rparr>)"

definition pop_entry :: "txn_key \<Rightarrow> ref option server_proc" where
  "pop_entry key s = (Inr (sv_transactions s key),
     s\<lparr>sv_transactions := (sv_transactions s)(key := None)\<rparr>)"

definition get_entry :: "txn_key \<Rightarrow> ref option server_proc" where
  "get_entry key = read_p (\<lambda>s. sv_transactions s key)"

section \<open>Timers\<close>

definition sv_start_timeout :: "ref \<Rightarrow> unit server_proc" where
  "sv_start_timeout r = set_obj r (\<lambda>t. t\<lparr>st_timeout_handle := Some T_request\<rparr>)"

definition sv_restart_timeout :: "ref \<Rightarrow> unit server_proc" where
  "sv_restart_timeout r = sv_start_timeout r"

definition sv_start_segment_timeout :: "ref \<Rightarrow> unit server_proc" where
  "sv_start_segment_timeout r = set_obj r (\<lambda>t. t\<lparr>st_timeout_handle := Some T_srv_seg\<rparr>)"

definition restart_segment_timeout :: "ref \<Rightarrow> unit server_proc" where
  "restart_segment_timeout r = sv_start_segment_timeout r"

definition start_server_segment_timeout :: "ref \<Rightarrow> unit server_proc" where
  "start_server_segment_timeout r = set_obj r (\<lambda>t. t\<lparr>st_timeout_handle := Some T_srv_wait\<rparr>)"

definition sv_cancel_timeout :: "ref \<Rightarrow> unit server_proc" where
  "sv_cancel_timeout r = set_obj r (\<lambda>t. t\<lparr>st_timeout_handle := None\<rparr>)"

section \<open>Sending\<close>

definition send_server_segment_ack :: "ref \<Rightarrow> int \<Rightarrow> bool \<Rightarrow> unit server_proc" where
  "send_server_segment_ack r seq negative =
     bind_p (obj r) (\<lambda>t.
     bind_p (read_p sv_proposed_window_size) (\<lambda>own.
     let actual_ws = (case st_segment_receiver t of
           Some receiver \<Rightarrow> sr_actual_window_size receiver | None \<Rightarrow> own)
     in bind_p (lift_p (encode_apdu (SegmentAckPDU
           \<lparr>sg_negative_ack = negative, sg_sent_by_server = True, sg_invoke_id = st_invoke_id t,
            sg_sequence_number = seq, sg_actual_window_size = actual_ws\<rparr>)))
          (\<lambda>ack. sv_send ack (st_source t) True)))"

definition abort_server_transaction :: "ref \<Rightarrow> abort_reason \<Rightarrow> unit server_proc" where
  "abort_server_transaction r reason =
     bind_p (obj r) (\<lambda>t.
     bind_p (lift_p (encode_apdu (AbortPDU
       \<lparr>ab_sent_by_server = True, ab_invoke_id = st_invoke_id t, ab_abort_reason = reason\<rparr>)))
       (\<lambda>abort.
     seq_p (sv_send abort (st_source t) False)
    (seq_p (sv_cancel_timeout r)
    (seq_p (set_obj r (\<lambda>t. t\<lparr>st_cached_response := None\<rparr>))
    (seq_p (pop_entry (st_source t, st_invoke_id t)) (return_p ()))))))"

definition response_segment :: "server_txn \<Rightarrow> segment_sender \<Rightarrow> int \<times> bytes \<times> bool \<Rightarrow> apdu" where
  "response_segment t sender seg =
     (case seg of (seq_num, seg_data, more_follows) \<Rightarrow> ComplexAckPDU
       \<lparr>ca_segmented = True, ca_more_follows = more_follows, ca_invoke_id = st_invoke_id t,
        ca_sequence_number = Some seq_num,
        ca_proposed_window_size = Some (ss_proposed_window_size sender),
        ca_service_choice = ss_service_choice sender, ca_service_ack = seg_data\<rparr>)"

definition fill_and_send_response_window :: "ref \<Rightarrow> unit server_proc" where
  "fill_and_send_response_window r =
     bind_p (obj r) (\<lambda>t.
     case st_segment_sender t of
       None \<Rightarrow> return_p ()
     | Some sender \<Rightarrow>
         seq_p (each_p (\<lambda>seg.
             bind_p (lift_p (encode_apdu (response_segment t sender seg)))
               (\<lambda>apdu_bytes. sv_send apdu_bytes (st_source t) True)) (fill_window sender))
           (start_server_segment_timeout r))"

definition full_ack :: "int \<Rightarrow> int \<Rightarrow> bytes \<Rightarrow> apdu" where
  "full_ack iid service_choice data = ComplexAckPDU
     \<lparr>ca_segmented = False, ca_more_follows = False, ca_invoke_id = iid,
      ca_sequence_number = None, ca_proposed_window_size = None,
      ca_service_choice = service_choice, ca_service_ack = data\<rparr>"

definition start_segmented_response :: "ref \<Rightarrow> int \<Rightarrow> bytes \<Rightarrow> unit server_proc" where
  "start_segmented_response r service_choice response_data =
     bind_p (obj r) (\<lambda>t.
     bind_p (read_p sv_proposed_window_size) (\<lambda>window.
     if \<not> st_segmented_response_accepted t
     then abort_server_transaction r SEGMENTATION_NOT_SUPPORTED
     else case create_sender response_data (st_invoke_id t) service_choice
                 (st_client_max_apdu_length t) Seg_complex_ack window (st_client_max_segments t) of
       Inl (SegRaised e) \<Rightarrow> raise_p e
     | Inl (SegmentationError reason) \<Rightarrow> abort_server_transaction r APDU_TOO_LONG
     | Inr sender \<Rightarrow>
         seq_p (set_obj r (\<lambda>t. t\<lparr>st_segment_sender := Some sender, st_state := SEGMENTED_RESPONSE\<rparr>))
        (bind_p (lift_p (encode_apdu (full_ack (st_invoke_id t) service_choice response_data)))
          (\<lambda>ack.
         seq_p (set_obj r (\<lambda>t. t\<lparr>st_cached_response := Some ack\<rparr>))
               (fill_and_send_response_window r)))))"

definition complete_transaction :: "ref \<Rightarrow> bytes \<Rightarrow> unit server_proc" where
  "complete_transaction r response_apdu =
     seq_p (set_obj r (\<lambda>t. t\<lparr>st_cached_response := Some response_apdu, st_state := SV_IDLE\<rparr>))
           (sv_restart_timeout r)"

section \<open>Receiving\<close>

text \<open>The result \<open>(txn, service_data)\<close>, or nothing for a duplicate.\<close>

type_synonym received = "(ref \<times> bytes option) option"

definition handle_request_segment ::
  "confirmed_request \<Rightarrow> bacnet_address \<Rightarrow> received server_proc" where
  "handle_request_segment pdu src =
     bind_p (get_entry (src, cr_invoke_id pdu)) (\<lambda>entry.
     case entry of None \<Rightarrow> return_p None
     | Some r \<Rightarrow>
     bind_p (obj r) (\<lambda>t.
     if st_state t \<noteq> SV_SEGMENTED_REQUEST then return_p None
     else case st_segment_receiver t of None \<Rightarrow> return_p None
     | Some receiver \<Rightarrow>
     (case cr_sequence_number pdu of None \<Rightarrow> return_p None
     | Some seq \<Rightarrow>
     let ((action, ack_seq), receiver') =
           receive_segment receiver seq (cr_service_request pdu) (cr_more_follows pdu)
     in seq_p (set_obj r (\<lambda>t. t\<lparr>st_segment_receiver := Some receiver'\<rparr>))
       (case action of
          COMPLETE \<Rightarrow>
            seq_p (sv_cancel_timeout r)
           (seq_p (send_server_segment_ack r ack_seq False)
           (seq_p (set_obj r (\<lambda>t. t\<lparr>st_state := AWAIT_RESPONSE\<rparr>))
           (bind_p (lift_p (reassemble receiver')) (\<lambda>data. return_p (Some (r, Some data))))))
        | SEND_ACK \<Rightarrow>
            seq_p (send_server_segment_ack r ack_seq False)
           (seq_p (restart_segment_timeout r) (return_p (Some (r, None))))
        | CONTINUE \<Rightarrow> seq_p (restart_segment_timeout r) (return_p (Some (r, None)))
        | RESEND_LAST_ACK \<Rightarrow>
            seq_p (send_server_segment_ack r ack_seq False)
           (seq_p (restart_segment_timeout r) (return_p (Some (r, None))))
        | ABORT \<Rightarrow>
            seq_p (abort_server_transaction r INVALID_APDU_IN_THIS_STATE) (return_p None)))))"

definition receive_confirmed_request ::
  "confirmed_request \<Rightarrow> bacnet_address \<Rightarrow> received server_proc" where
  "receive_confirmed_request pdu src =
     (let key = (src, cr_invoke_id pdu) in
     bind_p (get_entry key) (\<lambda>existing.
     case existing of
       Some r \<Rightarrow>
         bind_p (obj r) (\<lambda>t.
         if st_state t = SV_SEGMENTED_REQUEST then handle_request_segment pdu src
         else case st_cached_response t of
           Some response \<Rightarrow> seq_p (sv_send response src False) (return_p None)
         | None \<Rightarrow> return_p None)
     | None \<Rightarrow>
         bind_p (read_p sv_proposed_window_size) (\<lambda>window.
         bind_p (new_obj
           \<lparr>st_invoke_id = cr_invoke_id pdu, st_source = src,
            st_service_choice = cr_service_choice pdu, st_state = AWAIT_RESPONSE,
            st_cached_response = None, st_timeout_handle = None, st_segment_receiver = None,
            st_segment_sender = None, st_seg_retry_count = 0,
            st_client_max_apdu_length = cr_max_apdu_length pdu,
            st_client_max_segments = cr_max_segments pdu,
            st_segmented_response_accepted = cr_segmented_response_accepted pdu\<rparr>) (\<lambda>r.
         seq_p (put_entry key r)
        (seq_p (sv_start_timeout r)
        (if cr_segmented pdu
         then
           let receiver = create_receiver (cr_service_request pdu) (cr_service_choice pdu)
                 (or_one (cr_proposed_window_size pdu)) (cr_more_follows pdu) window
           in seq_p (set_obj r (\<lambda>t. t\<lparr>st_state := SV_SEGMENTED_REQUEST,
                                      st_segment_receiver := Some receiver\<rparr>))
             (if \<not> cr_more_follows pdu
              then seq_p (set_obj r (\<lambda>t. t\<lparr>st_state := AWAIT_RESPONSE\<rparr>))
                  (seq_p (send_server_segment_ack r 0 False)
                  (bind_p (lift_p (reassemble receiver)) (\<lambda>data. return_p (Some (r, Some data)))))
              else seq_p (send_server_segment_ack r 0 False)
                  (seq_p (sv_start_segment_timeout r) (return_p (Some (r, None)))))
         else return_p (Some (r, Some (cr_service_request pdu)))))))))"

definition handle_segment_ack_for_response :: "bacnet_address \<Rightarrow> segment_ack \<Rightarrow> unit server_proc" where
  "handle_segment_ack_for_response src pdu =
     bind_p (get_entry (src, sg_invoke_id pdu)) (\<lambda>entry.
     case entry of None \<Rightarrow> return_p ()
     | Some r \<Rightarrow>
     bind_p (obj r) (\<lambda>t.
     if st_state t \<noteq> SEGMENTED_RESPONSE then return_p ()
     else case st_segment_sender t of None \<Rightarrow> return_p ()
     | Some sender \<Rightarrow>
     if sg_actual_window_size pdu < 1 \<or> sg_actual_window_size pdu > 127
     then abort_server_transaction r WINDOW_SIZE_OUT_OF_RANGE
     else
       let (complete, sender') = sender_handle_segment_ack sender (sg_sequence_number pdu)
             (sg_actual_window_size pdu) (sg_negative_ack pdu)
       in seq_p (set_obj r (\<lambda>t. t\<lparr>st_segment_sender := Some sender', st_seg_retry_count := 0\<rparr>))
         (if complete
          then seq_p (set_obj r (\<lambda>t. t\<lparr>st_state := SV_IDLE, st_segment_sender := None\<rparr>))
                     (sv_restart_timeout r)
          else fill_and_send_response_window r)))"

section \<open>Timeouts\<close>

definition sv_on_timeout :: "txn_key \<Rightarrow> unit server_proc" where
  "sv_on_timeout key =
     bind_p (pop_entry key) (\<lambda>entry.
     case entry of None \<Rightarrow> return_p ()
     | Some r \<Rightarrow> set_obj r (\<lambda>t. t\<lparr>st_cached_response := None\<rparr>))"

definition on_server_segment_timeout :: "txn_key \<Rightarrow> unit server_proc" where
  "on_server_segment_timeout key =
     bind_p (get_entry key) (\<lambda>entry.
     case entry of None \<Rightarrow> return_p ()
     | Some r \<Rightarrow>
     bind_p (obj r) (\<lambda>t.
     bind_p (read_p sv_retries) (\<lambda>retries.
     if st_state t = SV_SEGMENTED_REQUEST
     then (if st_seg_retry_count t < retries
           then seq_p (set_obj r (\<lambda>t. t\<lparr>st_seg_retry_count := st_seg_retry_count t + 1\<rparr>))
             (case st_segment_receiver t of
                None \<Rightarrow> return_p ()
              | Some receiver \<Rightarrow>
                  seq_p (send_server_segment_ack r (sr_last_ack_seq receiver) True)
                        (sv_start_segment_timeout r))
           else abort_server_transaction r TSM_TIMEOUT)
     else if st_state t = SEGMENTED_RESPONSE
     then (if st_seg_retry_count t < retries
           then seq_p (set_obj r (\<lambda>t. t\<lparr>st_seg_retry_count := st_seg_retry_count t + 1\<rparr>))
                      (fill_and_send_response_window r)
           else abort_server_transaction r TSM_TIMEOUT)
     else return_p ())))"

text \<open>The event loop runs the callback of an object's scheduled timer.\<close>

definition sv_fire_timer :: "ref \<Rightarrow> unit server_proc" where
  "sv_fire_timer r =
     bind_p (obj r) (\<lambda>t.
     seq_p (sv_cancel_timeout r)
       (let key = (st_source t, st_invoke_id t) in
        case st_timeout_handle t of
          None \<Rightarrow> return_p ()
        | Some T_request \<Rightarrow> sv_on_timeout key
        | Some _ \<Rightarrow> on_server_segment_timeout key))"

end
