(* ===== verification/Application.thy ===== *)
theory Application
  imports Server_Tsm "HOL-Library.AList"
begin

text \<open>
  The receive path of \<open>app/application.py\<close>: a received APDU is decoded and given to the client
  or the server machine or to the service handlers, under the communication state that
  DeviceCommunicationControl sets.  The tasks of the event loop are explicit: \<open>ap_ready\<close> are the
  spawned tasks that have not run yet, in the order they run, and \<open>ap_handling\<close> the requests whose
  service handler has been called and has not finished, \<open>ap_dispatching\<close> the unconfirmed ones.  The
  service handlers themselves are not part of this theory: what a handler returns or raises comes with
  the event that ends it.  A temporary listener is a number whose calls are logged, since what it raises
  is suppressed; it is taken not to register or remove listeners while it is called.
\<close>

section \<open>State\<close>

datatype enable_disable = ENABLE | DISABLE | DISABLE_INITIATION

datatype task =
    Task_confirmed confirmed_request bacnet_address
  | Task_dispatch ref int bytes bacnet_address
  | Task_unconfirmed unconfirmed_request bacnet_address

datatype handler_result =
    Returned "bytes option"
  | Raised_bacnet client_error
  | Raised_python py_error

record application =
  ap_client :: client_tsm
  ap_server :: server_tsm
  ap_dcc_state :: enable_disable
  ap_dcc_timer :: "int option"
  ap_ready :: "task list"
  ap_handling :: "(ref \<times> int \<times> bacnet_address) list"
  ap_unconfirmed_handlers :: "int list"
  ap_dispatching :: "(unconfirmed_request \<times> bacnet_address) list"
  ap_listeners :: "(int \<times> nat list) list"
  ap_heard :: "(nat \<times> bytes \<times> bacnet_address) list"
  ap_task_failures :: "handler_result list"

type_synonym 'a app_proc = "(application, 'a) proc"

definition on_client :: "'a client_proc \<Rightarrow> 'a app_proc" where
  "on_client m a = (case m (ap_client a) of (x, s) \<Rightarrow> (x, a\<lparr>ap_client := s\<rparr>))"

definition on_server :: "'a server_proc \<Rightarrow> 'a app_proc" where
  "on_server m a = (case m (ap_server a) of (x, s) \<Rightarrow> (x, a\<lparr>ap_server := s\<rparr>))"

definition spawn_task :: "task \<Rightarrow> unit app_proc" where
  "spawn_task t = write_p (\<lambda>a. a\<lparr>ap_ready := ap_ready a @ [t]\<rparr>)"

section \<open>Communication control\<close>

definition set_dcc_state :: "enable_disable \<Rightarrow> int option \<Rightarrow> unit app_proc" where
  "set_dcc_state st duration =
     write_p (\<lambda>a. a\<lparr>ap_dcc_timer := None, ap_dcc_state := st,
       ap_dcc_timer := (case duration of Some d \<Rightarrow> if st \<noteq> ENABLE then Some (d * 60) else None
                        | None \<Rightarrow> None)\<rparr>)"

definition dcc_timer_expired :: "unit app_proc" where
  "dcc_timer_expired = write_p (\<lambda>a. a\<lparr>ap_dcc_state := ENABLE, ap_dcc_timer := None\<rparr>)"

text \<open>DeviceCommunicationControl (17) and ReinitializeDevice (20).\<close>

definition DCC_ALLOWED_SERVICES :: "int set" where
  "DCC_ALLOWED_SERVICES = {17, 20}"

definition confirmed_allowed :: "enable_disable \<Rightarrow> int \<Rightarrow> bool" where
  "confirmed_allowed dcc service_choice \<longleftrightarrow>
     \<not> (dcc = DISABLE \<and> service_choice \<notin> DCC_ALLOWED_SERVICES)"

text \<open>Who-Is (8) and Who-Has (7) are let through in \<open>DISABLE_INITIATION\<close>.\<close>

definition unconfirmed_allowed :: "enable_disable \<Rightarrow> int \<Rightarrow> bool" where
  "unconfirmed_allowed dcc service_choice \<longleftrightarrow>
     \<not> (dcc = DISABLE) \<and> \<not> (dcc = DISABLE_INITIATION \<and> service_choice \<notin> {8, 7})"

text \<open>Outgoing unconfirmed requests; the network is the server machine's log.\<close>

definition unconfirmed_request :: "bacnet_address \<Rightarrow> int \<Rightarrow> bytes \<Rightarrow> unit app_proc" where
  "unconfirmed_request dest service_choice service_data =
     bind_p (read_p ap_dcc_state) (\<lambda>dcc.
     if dcc = DISABLE_INITIATION then return_p ()
     else if dcc = DISABLE then return_p ()
     else bind_p (lift_p (encode_apdu (UnconfirmedRequestPDU
            \<lparr>ur_service_choice = service_choice, ur_service_request = service_data\<rparr>)))
            (\<lambda>apdu_bytes. on_server (sv_send apdu_bytes dest False)))"

section \<open>Confirmed requests\<close>

text \<open>\<open>_dispatch_request\<close> up to the call of the handler.\<close>

definition begin_dispatch :: "ref \<Rightarrow> int \<Rightarrow> bytes \<Rightarrow> bacnet_address \<Rightarrow> unit app_proc" where
  "begin_dispatch r service_choice service_data src =
     bind_p (read_p ap_dcc_state) (\<lambda>dcc.
     if \<not> confirmed_allowed dcc service_choice then return_p ()
     else write_p (\<lambda>a. a\<lparr>ap_handling := ap_handling a @ [(r, service_choice, src)]\<rparr>))"

definition handle_confirmed_request :: "confirmed_request \<Rightarrow> bacnet_address \<Rightarrow> unit app_proc" where
  "handle_confirmed_request pdu src =
     bind_p (on_server (receive_confirmed_request pdu src)) (\<lambda>res.
     case res of None \<Rightarrow> return_p ()
     | Some (r, None) \<Rightarrow> return_p ()
     | Some (r, Some service_data) \<Rightarrow> begin_dispatch r (cr_service_choice pdu) service_data src)"

definition handle_segmented_request :: "confirmed_request \<Rightarrow> bacnet_address \<Rightarrow> unit app_proc" where
  "handle_segmented_request pdu src =
     bind_p (on_server (receive_confirmed_request pdu src)) (\<lambda>res.
     case res of None \<Rightarrow> return_p ()
     | Some (r, None) \<Rightarrow> return_p ()
     | Some (r, Some service_data) \<Rightarrow>
         spawn_task (Task_dispatch r (cr_service_choice pdu) service_data src))"

definition error_response :: "int \<Rightarrow> int \<Rightarrow> client_error \<Rightarrow> apdu" where
  "error_response iid service_choice e =
     (case e of
        BACnetError c code data \<Rightarrow> ErrorPDU \<lparr>er_invoke_id = iid, er_service_choice = service_choice,
          er_error_class = c, er_error_code = code, er_error_data = data\<rparr>
      | BACnetRejectError reason \<Rightarrow> RejectPDU \<lparr>rj_invoke_id = iid, rj_reject_reason = reason\<rparr>
      | BACnetAbortError reason \<Rightarrow> AbortPDU \<lparr>ab_sent_by_server = True, ab_invoke_id = iid,
          ab_abort_reason = reason\<rparr>
      | BACnetTimeoutError \<Rightarrow> AbortPDU \<lparr>ab_sent_by_server = True, ab_invoke_id = iid,
          ab_abort_reason = ABORT_OTHER\<rparr>)"

text \<open>\<open>except (ValueError, IndexError, struct.error)\<close>; UnicodeError is a ValueError.\<close>

definition python_response :: "int \<Rightarrow> py_error \<Rightarrow> apdu" where
  "python_response iid e =
     (if e \<in> {ValueError, UnicodeError, IndexError, StructError}
      then RejectPDU \<lparr>rj_invoke_id = iid, rj_reject_reason = INVALID_PARAMETER_DATA_TYPE\<rparr>
      else AbortPDU \<lparr>ab_sent_by_server = True, ab_invoke_id = iid, ab_abort_reason = ABORT_OTHER\<rparr>)"

text \<open>The reply at the end of \<open>_dispatch_request\<close>.\<close>

definition reply :: "ref \<Rightarrow> bacnet_address \<Rightarrow> apdu \<Rightarrow> unit server_proc" where
  "reply r src response_pdu =
     bind_p (lift_p (encode_apdu response_pdu)) (\<lambda>response_bytes.
     seq_p (sv_send response_bytes src False)
           (complete_transaction r response_bytes))"

definition finish_dispatch :: "ref \<Rightarrow> int \<Rightarrow> bacnet_address \<Rightarrow> handler_result \<Rightarrow> unit server_proc" where
  "finish_dispatch r service_choice src result =
     bind_p (obj r) (\<lambda>t.
     let iid = st_invoke_id t in
     case result of
       Returned None \<Rightarrow> reply r src
         (SimpleAckPDU \<lparr>sa_invoke_id = iid, sa_service_choice = service_choice\<rparr>)
     | Returned (Some data) \<Rightarrow>
         (if int (length data)
               > compute_max_segment_payload (st_client_max_apdu_length t) Seg_complex_ack
          then catch_p (start_segmented_response r service_choice data)
                 (\<lambda>e. reply r src (python_response iid e))
          else reply r src (full_ack iid service_choice data))
     | Raised_bacnet e \<Rightarrow> reply r src (error_response iid service_choice e)
     | Raised_python e \<Rightarrow> reply r src (python_response iid e))"

section \<open>Unconfirmed requests\<close>

definition register_unconfirmed :: "int \<Rightarrow> unit app_proc" where
  "register_unconfirmed service_choice =
     write_p (\<lambda>a. a\<lparr>ap_unconfirmed_handlers := List.insert service_choice (ap_unconfirmed_handlers a)\<rparr>)"

definition listeners_of :: "int \<Rightarrow> application \<Rightarrow> nat list" where
  "listeners_of service_choice a =
     (case map_of (ap_listeners a) service_choice of None \<Rightarrow> [] | Some hs \<Rightarrow> hs)"

definition register_temporary_handler :: "int \<Rightarrow> nat \<Rightarrow> unit app_proc" where
  "register_temporary_handler service_choice h =
     write_p (\<lambda>a. a\<lparr>ap_listeners :=
       AList.update service_choice (listeners_of service_choice a @ [h]) (ap_listeners a)\<rparr>)"

definition unregister_temporary_handler :: "int \<Rightarrow> nat \<Rightarrow> unit app_proc" where
  "unregister_temporary_handler service_choice h =
     write_p (\<lambda>a. if h \<in> set (listeners_of service_choice a)
       then a\<lparr>ap_listeners :=
         AList.update service_choice (remove1 h (listeners_of service_choice a)) (ap_listeners a)\<rparr>
       else a)"

definition call_listeners :: "unconfirmed_request \<Rightarrow> bacnet_address \<Rightarrow> unit app_proc" where
  "call_listeners pdu src =
     write_p (\<lambda>a. a\<lparr>ap_heard := ap_heard a
       @ map (\<lambda>h. (h, ur_service_request pdu, src)) (listeners_of (ur_service_choice pdu) a)\<rparr>)"

text \<open>Up to the await of the handler, if one is registered; without one to the end.\<close>

definition handle_unconfirmed_request :: "unconfirmed_request \<Rightarrow> bacnet_address \<Rightarrow> unit app_proc" where
  "handle_unconfirmed_request pdu src =
     bind_p (read_p (\<lambda>a. (ap_dcc_state a, ap_unconfirmed_handlers a))) (\<lambda>(dcc, handlers).
     if \<not> unconfirmed_allowed dcc (ur_service_choice pdu) then return_p ()
     else if ur_service_choice pdu \<in> set handlers
     then write_p (\<lambda>a. a\<lparr>ap_dispatching := ap_dispatching a @ [(pdu, src)]\<rparr>)
     else call_listeners pdu src)"

text \<open>After the handler: what it raises ends its task and is logged there, before any listener is called.\<close>

definition finish_unconfirmed :: "unconfirmed_request \<Rightarrow> bacnet_address \<Rightarrow> handler_result \<Rightarrow> unit app_proc" where
  "finish_unconfirmed pdu src result =
     (case result of
        Returned d \<Rightarrow> call_listeners pdu src
      | _ \<Rightarrow> write_p (\<lambda>a. a\<lparr>ap_task_failures := ap_task_failures a @ [result]\<rparr>))"

section \<open>Received APDUs\<close>

definition on_apdu_received :: "bytes \<Rightarrow> bacnet_address \<Rightarrow> unit app_proc" where
  "on_apdu_received data src =
     (case decode_apdu data of
        Inl e \<Rightarrow> if e \<in> {ValueError, UnicodeError, IndexError} then return_p () else raise_p e
      | Inr pdu \<Rightarrow>
          (case pdu of
             ConfirmedRequestPDU p \<Rightarrow>
               if cr_segmented p then handle_segmented_request p src
               else spawn_task (Task_confirmed p src)
           | UnconfirmedRequestPDU p \<Rightarrow> spawn_task (Task_unconfirmed p src)
           | SimpleAckPDU p \<Rightarrow>
               on_client (handle_simple_ack src (sa_invoke_id p) (sa_service_choice p))
           | ComplexAckPDU p \<Rightarrow>
               if ca_segmented p then on_client (handle_segmented_complex_ack src p)
               else on_client (handle_complex_ack src (ca_invoke_id p) (ca_service_choice p)
                                 (ca_service_ack p))
           | ErrorPDU p \<Rightarrow> on_client (handle_error src (er_invoke_id p) (er_error_class p)
                                         (er_error_code p) (er_error_data p))
           | RejectPDU p \<Rightarrow> on_client (handle_reject src (rj_invoke_id p) (rj_reject_reason p))
           | AbortPDU p \<Rightarrow> on_client (handle_abort src (ab_invoke_id p) (ab_abort_reason p))
           | SegmentAckPDU p \<Rightarrow>
               if sg_sent_by_server p then on_client (handle_segment_ack src p)
               else on_server (handle_segment_ack_for_response src p)))"

section \<open>Runs\<close>

definition run_task :: "task \<Rightarrow> unit app_proc" where
  "run_task t =
     (case t of
        Task_confirmed pdu src \<Rightarrow> handle_confirmed_request pdu src
      | Task_dispatch r service_choice data src \<Rightarrow> begin_dispatch r service_choice data src
      | Task_unconfirmed pdu src \<Rightarrow> handle_unconfirmed_request pdu src)"

datatype app_event =
    App_apdu bytes bacnet_address
  | App_run_task
  | App_handler_ends nat handler_result
  | App_unconfirmed_ends nat handler_result
  | App_listen int nat
  | App_unlisten int nat
  | App_register_unconfirmed int
  | App_server_timer ref
  | App_client client_event
  | App_dcc enable_disable "int option"
  | App_dcc_timer

fun app_step :: "app_event \<Rightarrow> unit app_proc" where
  "app_step (App_apdu data src) = on_apdu_received data src"
| "app_step App_run_task = bind_p (read_p ap_ready) (\<lambda>ts.
     case ts of [] \<Rightarrow> return_p ()
     | t # rest \<Rightarrow> seq_p (write_p (\<lambda>a. a\<lparr>ap_ready := rest\<rparr>)) (run_task t))"
| "app_step (App_handler_ends i result) = bind_p (read_p ap_handling) (\<lambda>hs.
     if i < length hs
     then case hs ! i of (r, service_choice, src) \<Rightarrow>
       seq_p (write_p (\<lambda>a. a\<lparr>ap_handling := take i hs @ drop (i + 1) hs\<rparr>))
             (on_server (finish_dispatch r service_choice src result))
     else return_p ())"
| "app_step (App_unconfirmed_ends i result) = bind_p (read_p ap_dispatching) (\<lambda>ds.
     if i < length ds
     then case ds ! i of (pdu, src) \<Rightarrow>
       seq_p (write_p (\<lambda>a. a\<lparr>ap_dispatching := take i ds @ drop (i + 1) ds\<rparr>))
             (finish_unconfirmed pdu src result)
     else return_p ())"
| "app_step (App_listen sc h) = register_temporary_handler sc h"
| "app_step (App_unlisten sc h) = unregister_temporary_handler sc h"
| "app_step (App_register_unconfirmed sc) = register_unconfirmed sc"
| "app_step (App_server_timer r) = on_server (sv_fire_timer r)"
| "app_step (App_client ev) = on_client (client_step ev)"
| "app_step (App_dcc st duration) = set_dcc_state st duration"
| "app_step App_dcc_timer = dcc_timer_expired"

definition app_init :: "int \<Rightarrow> int \<Rightarrow> int option \<Rightarrow> int \<Rightarrow> application" where
  "app_init retries max_apdu max_segments window =
     \<lparr>ap_client = client_init retries max_apdu max_segments window,
      ap_server = server_init retries window, ap_dcc_state = ENABLE, ap_dcc_timer = None,
      ap_ready = [], ap_handling = [], ap_unconfirmed_handlers = [], ap_dispatching = [],
      ap_listeners = [], ap_heard = [], ap_task_failures = []\<rparr>"

end
