(* ===== verification/Apdu_Laws.thy ===== *)
theory Apdu_Laws
  imports Apdu Primitive_Laws
begin

text \<open>
  The laws of \<open>encoding/apdu.py\<close>: which PDUs can be encoded, that decoding gives back the
  view of the PDU the header can carry, that every decoded PDU is its own view, and that
  the decoder raises nothing but ValueError.
\<close>

section \<open>What a header can carry\<close>

definition seg_view :: "bool \<Rightarrow> int option \<Rightarrow> int \<Rightarrow> int option" where
  "seg_view segmented v d = (if segmented then Some (case v of Some x \<Rightarrow> x | None \<Rightarrow> d) else None)"

definition max_segments_view :: "int option \<Rightarrow> int option" where
  "max_segments_view v =
     (case v of Some n \<Rightarrow> if n \<in> {2, 4, 8, 16, 32, 64} then Some n else None | None \<Rightarrow> None)"

definition max_apdu_view :: "int \<Rightarrow> int" where
  "max_apdu_view v = (if v \<in> {50, 128, 206, 480, 1024} then v else 1476)"

fun apdu_view :: "apdu \<Rightarrow> apdu" where
  "apdu_view (ConfirmedRequestPDU p) = ConfirmedRequestPDU
     (p\<lparr>cr_max_segments := max_segments_view (cr_max_segments p),
        cr_max_apdu_length := max_apdu_view (cr_max_apdu_length p),
        cr_sequence_number := seg_view (cr_segmented p) (cr_sequence_number p) 0,
        cr_proposed_window_size := seg_view (cr_segmented p) (cr_proposed_window_size p) 1\<rparr>)"
| "apdu_view (ComplexAckPDU p) = ComplexAckPDU
     (p\<lparr>ca_sequence_number := seg_view (ca_segmented p) (ca_sequence_number p) 0,
        ca_proposed_window_size := seg_view (ca_segmented p) (ca_proposed_window_size p) 1\<rparr>)"
| "apdu_view p = p"

definition opt_octet :: "int option \<Rightarrow> bool" where
  "opt_octet v = (case v of None \<Rightarrow> True | Some x \<Rightarrow> octet x)"

fun apdu_ok :: "apdu \<Rightarrow> bool" where
  "apdu_ok (ConfirmedRequestPDU p) =
     (octet (cr_invoke_id p) \<and> octet (cr_service_choice p)
      \<and> (cr_segmented p \<longrightarrow> opt_octet (cr_sequence_number p) \<and> opt_octet (cr_proposed_window_size p)))"
| "apdu_ok (UnconfirmedRequestPDU p) = octet (ur_service_choice p)"
| "apdu_ok (SimpleAckPDU p) = (octet (sa_invoke_id p) \<and> octet (sa_service_choice p))"
| "apdu_ok (ComplexAckPDU p) =
     (octet (ca_invoke_id p) \<and> octet (ca_service_choice p)
      \<and> (ca_segmented p \<longrightarrow> opt_octet (ca_sequence_number p) \<and> opt_octet (ca_proposed_window_size p)))"
| "apdu_ok (SegmentAckPDU p) =
     (octet (sg_invoke_id p) \<and> octet (sg_sequence_number p) \<and> octet (sg_actual_window_size p))"
| "apdu_ok (ErrorPDU p) =
     (octet (er_invoke_id p) \<and> octet (er_service_choice p)
      \<and> 0 \<le> er_error_code p \<and> er_error_code p \<le> 138 \<and> er_error_code p \<noteq> 33)"
| "apdu_ok (RejectPDU p) = octet (rj_invoke_id p)"
| "apdu_ok (AbortPDU p) = octet (ab_invoke_id p)"

section \<open>Fields\<close>

lemma max_segments_range: "encode_max_segments v \<in> {0, 1, 2, 3, 4, 5, 6, 7}"
  by (auto simp: encode_max_segments_def MAX_SEGMENTS_ENCODE_def split: option.splits if_splits)

lemma max_segments_round: "decode_max_segments (encode_max_segments v) = Inr (max_segments_view v)"
  by (auto simp: encode_max_segments_def MAX_SEGMENTS_ENCODE_def decode_max_segments_def
      max_segments_view_def split: option.splits if_splits)

lemma max_apdu_range: "encode_max_apdu v \<in> {0, 1, 2, 3, 4, 5}"
  by (auto simp: encode_max_apdu_def MAX_APDU_ENCODE_def split: option.splits if_splits)

lemma max_apdu_round: "decode_max_apdu (encode_max_apdu v) = Inr (max_apdu_view v)"
  by (auto simp: encode_max_apdu_def MAX_APDU_ENCODE_def decode_max_apdu_def max_apdu_view_def)

lemma byte1_fields:
  fixes a b :: int
  assumes "a \<in> {0, 1, 2, 3, 4, 5, 6, 7}" "b \<in> {0, 1, 2, 3, 4, 5}"
  shows "0 \<le> push_bit 4 a OR b" "push_bit 4 a OR b < 256"
    "drop_bit 4 (push_bit 4 a OR b) AND 7 = a" "(push_bit 4 a OR b) AND 15 = b"
proof -
  have "push_bit 4 a OR b = a * 16 + b"
    using or_low [of b 4 a] assms by (auto simp: push_bit_eq_mult)
  moreover have "0 \<le> a" "a \<le> 7" "0 \<le> b" "b \<le> 5" using assms by auto
  ultimately show "0 \<le> push_bit 4 a OR b" "push_bit 4 a OR b < 256"
    "drop_bit 4 (push_bit 4 a OR b) AND 7 = a" "(push_bit 4 a OR b) AND 15 = b"
    by (auto simp: bitarith)
qed

lemma abort_round [simp]: "AbortReason (abort_value r) = Inr r"
  by (cases r) (simp_all add: AbortReason_def enum_member_def abort_reasons_def)

lemma reject_round [simp]: "RejectReason (reject_value r) = Inr r"
  by (cases r) (simp_all add: RejectReason_def enum_member_def reject_reasons_def)

lemma error_class_round [simp]: "ErrorClass (error_class_value r) = Inr r"
  by (cases r) (simp_all add: ErrorClass_def enum_member_def error_classes_def)

lemma abort_value_range [simp]: "0 \<le> abort_value r" "abort_value r < 256"
  by (cases r; simp)+

lemma reject_value_range [simp]: "0 \<le> reject_value r" "reject_value r < 256"
  by (cases r; simp)+

lemma error_class_value_range [simp]: "0 \<le> error_class_value c" "error_class_value c < 256"
  by (cases c; simp)+

section \<open>One PDU at a time\<close>

lemmas pdu_bits = flag_def segmentation_fields_def enum_member_def pdu_types_def
  decode_segmentation_fields_eq seg_view_def octet_def opt_octet_def rmap_def Let_def

lemma cr_byte0:
  defines "byte0 s m a \<equiv> flag a 0x02 (flag m 0x04 (flag s 0x08 (push_bit 4 (0 :: int))))"
  shows "0 \<le> byte0 s m a" "byte0 s m a < 256" "drop_bit 4 (byte0 s m a) AND 15 = 0"
    "byte0 s m a AND 8 \<noteq> 0 \<longleftrightarrow> s" "byte0 s m a AND 4 \<noteq> 0 \<longleftrightarrow> m" "byte0 s m a AND 2 \<noteq> 0 \<longleftrightarrow> a"
  by (cases s; cases m; cases a; simp add: byte0_def flag_def)+

lemma confirmed_request_round:
  assumes "apdu_ok (ConfirmedRequestPDU p)"
  shows "\<exists>bs. encode_confirmed_request p = Inr bs
    \<and> decode_apdu bs = Inr (apdu_view (ConfirmedRequestPDU p))"
proof -
  define b0 where "b0 = flag (cr_segmented_response_accepted p) 0x02
    (flag (cr_more_follows p) 0x04 (flag (cr_segmented p) 0x08 (push_bit 4 (0 :: int))))"
  define b1 where "b1 = push_bit 4 (encode_max_segments (cr_max_segments p))
    OR encode_max_apdu (cr_max_apdu_length p)"
  note f1 = byte1_fields [OF max_segments_range [of "cr_max_segments p"]
      max_apdu_range [of "cr_max_apdu_length p"], folded b1_def]
  note f0 = cr_byte0 [where s = "cr_segmented p" and m = "cr_more_follows p"
      and a = "cr_segmented_response_accepted p", folded b0_def]
  have o: "octet b0" "octet b1" "octet (cr_invoke_id p)" "octet (cr_service_choice p)"
    using assms f0 f1 by (simp_all add: octetI)
  let ?seg = "segmentation_fields (cr_segmented p) (cr_sequence_number p) (cr_proposed_window_size p)"
  have os: "list_all octet ?seg"
    using assms by (auto simp: segmentation_fields_def opt_octet_def octet_def split: option.splits)
  let ?bs = "map byte_of ([b0, b1, cr_invoke_id p] @ ?seg @ [cr_service_choice p])
    @ cr_service_request p"
  have "mk_bytes ([b0, b1, cr_invoke_id p] @ ?seg @ [cr_service_choice p]) =
      Inr (map byte_of ([b0, b1, cr_invoke_id p] @ ?seg @ [cr_service_choice p]))"
    by (rule mk_bytes_octets) (use o os in simp)
  then have e: "encode_confirmed_request p = Inr ?bs"
    unfolding encode_confirmed_request_def Let_def b0_def [symmetric] b1_def [symmetric]
    by (simp only: rbind.simps)
  have "decode_confirmed_request ?bs =
      Inr (p\<lparr>cr_max_segments := max_segments_view (cr_max_segments p),
        cr_max_apdu_length := max_apdu_view (cr_max_apdu_length p),
        cr_sequence_number := seg_view (cr_segmented p) (cr_sequence_number p) 0,
        cr_proposed_window_size := seg_view (cr_segmented p) (cr_proposed_window_size p) 1\<rparr>)"
  proof (cases "cr_segmented p")
    case True
    then obtain s w where sw: "?seg = [s, w]" "octet s" "octet w"
      "seg_view (cr_segmented p) (cr_sequence_number p) 0 = Some s"
      "seg_view (cr_segmented p) (cr_proposed_window_size p) 1 = Some w"
      using os by (simp add: segmentation_fields_def seg_view_def)
    show ?thesis
      unfolding sw(1) using o sw(2-) f0 f1 True
      by (simp add: decode_confirmed_request_eq Let_def decode_segmentation_fields_eq
          max_segments_round max_apdu_round)
  next
    case False
    then show ?thesis
      using o f0 f1
      by (simp add: decode_confirmed_request_eq Let_def decode_segmentation_fields_eq
          max_segments_round max_apdu_round segmentation_fields_def seg_view_def)
  qed
  then have "decode_apdu ?bs = Inr (apdu_view (ConfirmedRequestPDU p))"
    using o f0 by (simp add: decode_apdu_eq enum_member_def pdu_types_def rmap_def)
  with e show ?thesis by blast
qed

lemma complex_ack_round:
  assumes "apdu_ok (ComplexAckPDU p)"
  shows "\<exists>bs. encode_complex_ack p = Inr bs
    \<and> decode_apdu bs = Inr (apdu_view (ComplexAckPDU p))"
  using assms
  by (cases "ca_segmented p"; cases "ca_more_follows p")
    (auto simp: encode_complex_ack_def decode_apdu_eq decode_complex_ack_eq
      pdu_bits split: option.splits)

lemma segment_ack_round:
  assumes "apdu_ok (SegmentAckPDU p)"
  shows "\<exists>bs. encode_segment_ack p = Inr bs \<and> decode_apdu bs = Inr (SegmentAckPDU p)"
  using assms
  by (cases "sg_negative_ack p"; cases "sg_sent_by_server p")
    (auto simp: encode_segment_ack_def decode_apdu_eq decode_segment_ack_eq pdu_bits)

lemma short_pdus_round:
  "apdu_ok (UnconfirmedRequestPDU u) \<Longrightarrow>
   \<exists>bs. encode_unconfirmed_request u = Inr bs \<and> decode_apdu bs = Inr (UnconfirmedRequestPDU u)"
  "apdu_ok (SimpleAckPDU s) \<Longrightarrow>
   \<exists>bs. encode_simple_ack s = Inr bs \<and> decode_apdu bs = Inr (SimpleAckPDU s)"
  "apdu_ok (RejectPDU r) \<Longrightarrow>
   \<exists>bs. encode_reject r = Inr bs \<and> decode_apdu bs = Inr (RejectPDU r)"
  "apdu_ok (AbortPDU a) \<Longrightarrow>
   \<exists>bs. encode_abort a = Inr bs \<and> decode_apdu bs = Inr (AbortPDU a)"
  by (auto simp: encode_unconfirmed_request_def decode_unconfirmed_request_eq
      encode_simple_ack_def decode_simple_ack_eq encode_reject_def decode_reject_eq
      encode_abort_def decode_abort_eq decode_apdu_eq pdu_bits)

lemma enumerated_field:
  assumes "0 \<le> v" "v < 2 ^ 32"
  obtains bs where "encode_application_enumerated v = Inr bs" "length bs \<ge> 2"
    "\<And>p s. decode_error_field (p @ bs @ s) (length p) = Inr (v, length p + length bs)"
proof -
  from unsigned_octets [OF assms] obtain c where c: "encode_unsigned v = Inr c"
    "int_from_bytes c = v" "1 \<le> length c" "length c \<le> 4" by blast
  let ?o = "tag_octets 9 APPLICATION (int (length c))"
  have e: "encode_application_enumerated v = Inr (?o @ c)"
    using c by (simp add: encode_application_enumerated_def encode_enumerated_def
        encode_application_tagged_def encode_tag_eq)
  have "decode_error_field (p @ (?o @ c) @ s) (length p) = Inr (v, length p + length (?o @ c))" for p s
    using decode_tag_octets [of 9 "int (length c)" p APPLICATION "c @ s"] c
    by (simp add: decode_error_field_def decode_enumerated_def decode_unsigned_def py_slice_def)
  moreover have "2 \<le> length (?o @ c)" using c by (simp add: tag_octets_def)
  ultimately show ?thesis using that e by blast
qed

lemma error_round:
  assumes "apdu_ok (ErrorPDU p)"
  shows "\<exists>bs. encode_error p = Inr bs \<and> decode_apdu bs = Inr (ErrorPDU p)"
proof -
  let ?h = "[80, byte_of (er_invoke_id p), byte_of (er_service_choice p)] :: bytes"
  have r: "0 \<le> er_invoke_id p" "er_invoke_id p \<le> 255" "0 \<le> er_service_choice p"
    "er_service_choice p \<le> 255" "0 \<le> er_error_code p" "er_error_code p < 2 ^ 32"
    and code: "ErrorCode (er_error_code p) = Inr (er_error_code p)"
    using assms by (auto simp: octet_def ErrorCode_def)
  have rc: "0 \<le> error_class_value (er_error_class p)" "error_class_value (er_error_class p) < 2 ^ 32"
    using order.strict_trans [OF error_class_value_range(2) [of "er_error_class p"], of "2 ^ 32"]
    by simp_all
  obtain c where c: "encode_application_enumerated (error_class_value (er_error_class p)) = Inr c"
      "length c \<ge> 2" and
      dc: "\<And>p' s. decode_error_field (p' @ c @ s) (length p')
        = Inr (error_class_value (er_error_class p), length p' + length c)"
    using enumerated_field [OF rc] by blast
  obtain d where d: "encode_application_enumerated (er_error_code p) = Inr d"
      "length d \<ge> 2" and
      dd: "\<And>p' s. decode_error_field (p' @ d @ s) (length p')
        = Inr (er_error_code p, length p' + length d)"
    using enumerated_field [OF r(5,6)] by metis
  let ?bs = "?h @ c @ d @ er_error_data p"
  have e: "encode_error p = Inr ?bs"
    using c d r by (simp add: encode_error_def)
  have f1: "decode_error_field ?bs 3 = Inr (error_class_value (er_error_class p), 3 + length c)"
    using dc [of ?h "d @ er_error_data p"] by (simp add: numeral_3_eq_3)
  have f2: "decode_error_field ?bs (3 + length c) = Inr (er_error_code p, 3 + length c + length d)"
    using dd [of "?h @ c" "er_error_data p"] by (simp add: numeral_3_eq_3)
  have dr: "drop (3 + length c + length d) ?bs = er_error_data p"
    by (simp add: numeral_3_eq_3)
  have rest: "(if 3 + length c + length d < length ?bs
      then drop (3 + length c + length d) ?bs else []) = er_error_data p"
    unfolding dr by simp
  have hdr: "\<not> length ?bs < 5" "uint (?bs ! 1) = er_invoke_id p" "uint (?bs ! 2) = er_service_choice p"
    using c(2) r by simp_all
  have "decode_error ?bs = Inr \<lparr>er_invoke_id = er_invoke_id p,
      er_service_choice = er_service_choice p, er_error_class = er_error_class p,
      er_error_code = er_error_code p, er_error_data = er_error_data p\<rparr>"
    by (simp only: decode_error_eq f1 f2 hdr if_False rbind.simps prod.case error_class_round
        code rest)
  then have "decode_error ?bs = Inr p" by simp
  then have "decode_apdu ?bs = Inr (ErrorPDU p)"
    by (simp add: decode_apdu_eq enum_member_def pdu_types_def rmap_def)
  with e show ?thesis by blast
qed

lemma apdu_round:
  assumes "apdu_ok pdu"
  shows "\<exists>bs. encode_apdu pdu = Inr bs \<and> decode_apdu bs = Inr (apdu_view pdu)"
  using assms confirmed_request_round complex_ack_round segment_ack_round short_pdus_round error_round
  by (cases pdu) (simp_all add: encode_apdu_def)

section \<open>Every octet string\<close>

lemma decode_max_segments_cases:
  "0 \<le> v \<Longrightarrow> v < 8 \<Longrightarrow> \<exists>x. decode_max_segments v = Inr x \<and> max_segments_view x = x"
proof -
  assume "0 \<le> v" "v < 8"
  then have "v \<in> {0, 1, 2, 3, 4, 5, 6, 7}" by auto
  then show ?thesis by (auto simp: decode_max_segments_def max_segments_view_def)
qed

lemma decode_max_apdu_cases:
  assumes "0 \<le> v"
  shows "\<exists>x. decode_max_apdu v = Inr x \<and> max_apdu_view x = x"
proof -
  have f: "max_apdu_view x = x" if "x \<in> {50, 128, 206, 480, 1024, 1476}" for x
    using that by (auto simp: max_apdu_view_def)
  have "v \<in> {0, 1, 2, 3, 4, 5} \<or> 6 \<le> v" using assms by auto
  then have "\<exists>x\<in>{50, 128, 206, 480, 1024, 1476}. decode_max_apdu v = Inr x"
    by (auto simp: decode_max_apdu_def)
  with f show ?thesis by blast
qed

lemma decode_error_field_raises: "raises_only {ValueError} (decode_error_field data off)"
  by (auto simp: decode_error_field_def intro!: raises_only_rbind decode_tag_raises)

lemma enum_raises [simp]: "raises_only {ValueError} (enum_member ms v)"
  by (simp add: enum_member_def)

lemma decode_apdu_raises: "raises_only {ValueError} (decode_apdu data)"
proof -
  have r: "0 \<le> drop_bit 4 (uint b) AND 7" "drop_bit 4 (uint b) AND 7 < 8" "0 \<le> uint b AND 15"
    for b :: byte by (simp_all add: bitarith)
  have "raises_only {ValueError} (decode_confirmed_request data)"
    using decode_max_segments_cases [OF r(1,2), of "data ! 1"] decode_max_apdu_cases [OF r(3), of "data ! 1"]
    by (auto simp: decode_confirmed_request_eq Let_def decode_segmentation_fields_eq)
  moreover have "raises_only {ValueError} (decode_error data)"
    by (auto simp: decode_error_eq ErrorClass_def ErrorCode_def
        intro!: raises_only_rbind decode_error_field_raises)
  moreover have "raises_only {ValueError} (decode_reject data)"
    "raises_only {ValueError} (decode_abort data)"
    by (auto simp: decode_reject_eq decode_abort_eq RejectReason_def AbortReason_def
        intro!: raises_only_rbind)
  ultimately show ?thesis
    by (auto simp: decode_apdu_eq rmap_def decode_unconfirmed_request_eq decode_simple_ack_eq
        decode_complex_ack_eq decode_segment_ack_eq Let_def decode_segmentation_fields_eq
        intro!: raises_only_rbind split: pdu_type.split)
qed

lemma decode_apdu_canonical:
  assumes "decode_apdu data = Inr pdu"
  shows "apdu_ok pdu \<and> apdu_view pdu = pdu"
proof -
  have r: "0 \<le> drop_bit 4 (uint b) AND 7" "drop_bit 4 (uint b) AND 7 < 8" "0 \<le> uint b AND 15"
    for b :: byte by (simp_all add: bitarith)
  have cr: "apdu_ok (ConfirmedRequestPDU p) \<and> apdu_view (ConfirmedRequestPDU p) = ConfirmedRequestPDU p"
    if "decode_confirmed_request data = Inr p" for p
    using that decode_max_segments_cases [OF r(1,2), of "data ! 1"]
      decode_max_apdu_cases [OF r(3), of "data ! 1"]
    by (auto simp: decode_confirmed_request_eq Let_def decode_segmentation_fields_eq
        seg_view_def octet_def opt_octet_def split: if_splits)
  have er: "apdu_ok (ErrorPDU p)" if "decode_error data = Inr p" for p
    using that by (auto simp: decode_error_eq ErrorCode_def octet_def split: if_splits)
  from assms obtain ty where
    "enum_member pdu_types (drop_bit 4 (uint (data ! 0)) AND 0x0F) = Inr ty"
    by (auto simp: decode_apdu_eq split: if_splits)
  with assms cr er show ?thesis
    by (cases ty)
      (auto simp: decode_apdu_eq rmap_def decode_unconfirmed_request_eq decode_simple_ack_eq
        decode_complex_ack_eq decode_segment_ack_eq decode_reject_eq decode_abort_eq
        Let_def decode_segmentation_fields_eq seg_view_def octet_def opt_octet_def
        split: if_splits)
qed

end
