(* ===== verification/Client_Tsm_Laws.thy ===== *)
theory Client_Tsm_Laws
  imports Client_Tsm Apdu_Laws
begin

text \<open>
  The laws of the client transaction machine: every procedure touches one transaction only,
  an outcome is final, what each procedure does on a well-formed transaction, and the invariant
  of every reachable state.
\<close>

lemmas client_access = net_send_def put_txn_def pop_txn_def set_txn_def the_txn_def
  cancel_timeout_def start_timeout_def start_segment_timeout_def

section \<open>Locality\<close>

definition same_but :: "txn_key \<Rightarrow> client_tsm \<Rightarrow> client_tsm \<Rightarrow> bool" where
  "same_but key s0 s \<longleftrightarrow>
     (\<forall>k. k \<noteq> key \<longrightarrow> cm_transactions s k = cm_transactions s0 k)
     \<and> cm_retries s = cm_retries s0 \<and> cm_max_apdu_length s = cm_max_apdu_length s0
     \<and> cm_max_segments s = cm_max_segments s0
     \<and> cm_proposed_window_size s = cm_proposed_window_size s0
     \<and> cm_next_invoke_id s = cm_next_invoke_id s0 \<and> cm_network s = cm_network s0"

lemma same_but_refl [simp]: "same_but key s s"
  by (simp add: same_but_def)

named_theorems local_ops \<open>procedures touch one transaction\<close>

lemma local_the [local_ops]: "keeps I (the_txn key)"
  unfolding the_txn_def by (intro keeps_intros)

lemma local_access [local_ops]:
  "keeps (same_but key s0) (set_txn key f)" "keeps (same_but key s0) (put_txn key t)"
  "keeps (same_but key s0) (pop_txn key)" "keeps (same_but key s0) (net_send d a b)"
  by (auto simp: client_access same_but_def intro!: keeps_intros)

lemma local_set_future [local_ops]: "keeps (same_but key s0) (set_future key v)"
  unfolding set_future_def by (intro keeps_intros local_ops)

lemma local_timers [local_ops]:
  "keeps (same_but key s0) (cancel_timeout key)" "keeps (same_but key s0) (start_timeout key)"
  "keeps (same_but key s0) (start_segment_timeout key w)"
  unfolding cancel_timeout_def start_timeout_def start_segment_timeout_def
  by (intro keeps_intros local_ops)+

lemma keeps_pending [keeps_intros]:
  "(\<And>t. keeps I (f t)) \<Longrightarrow> keeps I (with_pending key f)"
  unfolding with_pending_def by (intro keeps_intros)

lemma keeps_let [keeps_intros]: "keeps I (f e) \<Longrightarrow> keeps I (let x = e in f x)"
  by simp

lemma local_send [local_ops]:
  "keeps (same_but key s0) (send_confirmed_request key m)"
  "keeps (same_but key s0) (fill_and_send_request_window key)"
  "keeps (same_but key s0) (send_client_segment_ack key seq neg)"
  "keeps (same_but key s0) (abort_transaction key reason)"
  unfolding send_confirmed_request_def fill_and_send_request_window_def
    send_client_segment_ack_def abort_transaction_def
  by (intro keeps_intros local_ops)+

lemma local_segmented [local_ops]: "keeps (same_but key s0) (send_segmented_request key m)"
  unfolding send_segmented_request_def
  by (intro keeps_intros local_ops) (auto split: sum.split seg_error.split intro!: keeps_intros local_ops)

lemma local_transmit [local_ops]: "keeps (same_but key s0) (transmit_request key)"
  unfolding transmit_request_def by (intro keeps_intros local_ops)

lemma local_response [local_ops]:
  "keeps (same_but key s0) (begin_segmented_response key pdu)"
  "keeps (same_but key s0) (continue_segmented_response key r seq pdu)"
  unfolding begin_segmented_response_def continue_segmented_response_def
  by (intro keeps_intros local_ops; auto split: segment_action.split intro!: keeps_intros local_ops)+

lemma local_handlers:
  "keeps (same_but (src, i) s0) (handle_simple_ack src i sc)"
  "keeps (same_but (src, i) s0) (handle_complex_ack src i sc data)"
  "keeps (same_but (src, i) s0) (handle_error src i ec code d)"
  "keeps (same_but (src, i) s0) (handle_reject src i rj)"
  "keeps (same_but (src, i) s0) (handle_abort src i ab)"
  "keeps (same_but (src, sg_invoke_id sg) s0) (handle_segment_ack src sg)"
  "keeps (same_but (src, ca_invoke_id ca) s0) (handle_segmented_complex_ack src ca)"
  unfolding handle_simple_ack_def handle_complex_ack_def handle_error_def handle_reject_def
    handle_abort_def handle_segment_ack_def handle_segmented_complex_ack_def
  by (intro keeps_intros local_ops)+

lemma local_timeouts [local_ops]:
  "keeps (same_but key s0) (on_timeout key)" "keeps (same_but key s0) (on_segment_timeout key)"
  unfolding on_timeout_def on_segment_timeout_def by (intro keeps_intros local_ops)+

lemma local_fire: "keeps (same_but key s0) (fire_timer key)"
  unfolding fire_timer_def by (intro keeps_intros local_ops) (auto split: timer.split intro!: keeps_intros local_ops)

section \<open>An outcome is final\<close>

definition outcome :: "txn_key \<Rightarrow> future \<Rightarrow> client_tsm \<Rightarrow> bool" where
  "outcome key v s \<longleftrightarrow> v \<noteq> Pending \<and> map_option ct_future (cm_transactions s key) = Some v"

lemma outcome_set: "(\<And>t. ct_future (f t) = ct_future t) \<Longrightarrow> keeps (outcome key v) (set_txn k f)"
  by (auto simp: set_txn_def outcome_def option.map_comp comp_def intro!: keeps_write)

lemma outcome_future: "keeps (outcome key v) (set_future k w)"
  by (auto simp: keeps_def set_future_def the_txn_def set_txn_def run outcome_def bind_p_def
      raise_p_def write_p_def read_p_def return_p_def split: option.splits)

lemma outcome_net: "keeps (outcome key v) (net_send d a b)"
  by (auto simp: net_send_def outcome_def intro!: keeps_intros)

lemma outcome_timers:
  "keeps (outcome key v) (cancel_timeout k)" "keeps (outcome key v) (start_timeout k)"
  "keeps (outcome key v) (start_segment_timeout k w)"
  unfolding cancel_timeout_def start_timeout_def start_segment_timeout_def
  by (intro keeps_intros local_the outcome_set outcome_future outcome_net; simp)+

lemma outcome_send:
  "keeps (outcome key v) (send_confirmed_request k m)"
  "keeps (outcome key v) (fill_and_send_request_window k)"
  "keeps (outcome key v) (send_client_segment_ack k seq neg)"
  "keeps (outcome key v) (abort_transaction k reason)"
  unfolding send_confirmed_request_def fill_and_send_request_window_def
    send_client_segment_ack_def abort_transaction_def
  by (intro keeps_intros local_the outcome_set outcome_future outcome_net outcome_timers; simp)+

lemma outcome_segmented: "keeps (outcome key v) (send_segmented_request k m)"
  unfolding send_segmented_request_def
  by (intro keeps_intros local_the)
    (auto split: sum.split seg_error.split intro!: keeps_intros local_the outcome_set outcome_future outcome_net outcome_send)

lemma outcome_transmit: "keeps (outcome key v) (transmit_request k)"
  unfolding transmit_request_def by (intro keeps_intros local_the outcome_set outcome_future outcome_net outcome_send outcome_segmented)

lemma outcome_response:
  "keeps (outcome key v) (begin_segmented_response k pdu)"
  "keeps (outcome key v) (continue_segmented_response k r seq pdu)"
  unfolding begin_segmented_response_def continue_segmented_response_def
  by (intro keeps_intros local_the outcome_set outcome_future outcome_net outcome_timers outcome_send;
      auto split: segment_action.split intro!: keeps_intros local_the outcome_set outcome_future outcome_net outcome_timers outcome_send)+

lemma outcome_handlers:
  "keeps (outcome key v) (handle_simple_ack src i sc)"
  "keeps (outcome key v) (handle_complex_ack src i sc data)"
  "keeps (outcome key v) (handle_error src i ec code d)"
  "keeps (outcome key v) (handle_reject src i rj)"
  "keeps (outcome key v) (handle_abort src i ab)"
  "keeps (outcome key v) (handle_segment_ack src sg)"
  "keeps (outcome key v) (handle_segmented_complex_ack src ca)"
  unfolding handle_simple_ack_def handle_complex_ack_def handle_error_def handle_reject_def
    handle_abort_def handle_segment_ack_def handle_segmented_complex_ack_def
  by (intro keeps_intros local_the outcome_set outcome_future outcome_net outcome_timers outcome_send outcome_response; simp)+

lemma outcome_timeouts:
  "keeps (outcome key v) (on_timeout k)" "keeps (outcome key v) (on_segment_timeout k)"
  unfolding on_timeout_def on_segment_timeout_def
  by (intro keeps_intros local_the outcome_set outcome_future outcome_net outcome_timers outcome_send outcome_transmit; simp)+

lemma outcome_fire: "keeps (outcome key v) (fire_timer k)"
  unfolding fire_timer_def
  by (intro keeps_intros local_the outcome_set outcome_future outcome_net outcome_timers)
    (auto split: timer.split intro!: keeps_intros local_the outcome_set outcome_future outcome_net outcome_timeouts)

lemma outcome_dispatch: "keeps (outcome key v) (client_dispatch src pdu)"
  by (cases pdu) (auto intro!: keeps_intros outcome_handlers)

section \<open>Runs on one transaction\<close>

text \<open>
  \<open>upd key t ms s\<close> is the state \<open>s\<close> with \<open>t\<close> at \<open>key\<close> and \<open>ms\<close> sent, over a network that takes
  everything.  On states of this form the procedures compute.
\<close>

definition upd :: "txn_key \<Rightarrow> client_txn \<Rightarrow> message list \<Rightarrow> client_tsm \<Rightarrow> client_tsm" where
  "upd key t ms s = s\<lparr>cm_transactions := (cm_transactions s)(key \<mapsto> t), cm_sent := cm_sent s @ ms,
     cm_network := network_up\<rparr>"

lemma upd_id: "cm_transactions s key = Some t \<Longrightarrow> cm_network s = network_up \<Longrightarrow> upd key t [] s = s"
  by (simp add: upd_def fun_upd_idem)

lemma upd_fields [simp]:
  "cm_transactions (upd key t ms s) k = (if k = key then Some t else cm_transactions s k)"
  "cm_retries (upd key t ms s) = cm_retries s"
  "cm_max_apdu_length (upd key t ms s) = cm_max_apdu_length s"
  "cm_max_segments (upd key t ms s) = cm_max_segments s"
  "cm_proposed_window_size (upd key t ms s) = cm_proposed_window_size s"
  "cm_next_invoke_id (upd key t ms s) = cm_next_invoke_id s"
  "cm_sent (upd key t ms s) = cm_sent s @ ms"
  "cm_network (upd key t ms s) = network_up"
  "upd key t' ms' (upd key t ms s) = upd key t' (ms @ ms') s"
  by (simp_all add: upd_def)

definition encoded :: "apdu \<Rightarrow> bytes" where
  "encoded pdu = (case encode_apdu pdu of Inr b \<Rightarrow> b | Inl _ \<Rightarrow> [])"

lemma encode_ok: "apdu_ok pdu \<Longrightarrow> encode_apdu pdu = Inr (encoded pdu)"
  using apdu_round [of pdu] by (auto simp: encoded_def)

named_theorems on_txn \<open>procedures on one transaction\<close>

lemma access_on [on_txn]:
  "the_txn key (upd key t ms s) = (Inr t, upd key t ms s)"
  "set_txn key f (upd key t ms s) = (Inr (), upd key (f t) ms s)"
  "net_send d a b (upd key t ms s) = (Inr (), upd key t (ms @ [(d, a, b)]) s)"
  "cancel_timeout key (upd key t ms s) = (Inr (), upd key (t\<lparr>ct_timeout_handle := None\<rparr>) ms s)"
  "start_timeout key (upd key t ms s) = (Inr (), upd key (t\<lparr>ct_timeout_handle := Some T_arr\<rparr>) ms s)"
  "start_segment_timeout key w (upd key t ms s) =
     (Inr (), upd key (t\<lparr>ct_timeout_handle := Some (if w then T_wait_for_seg else T_seg)\<rparr>) ms s)"
  "with_pending key g (upd key t ms s) =
     (if ct_future t \<noteq> Pending then (Inr (), upd key t ms s) else g t (upd key t ms s))"
  by (simp_all add: client_access with_pending_def run upd_def network_up_def)

lemma set_future_on [on_txn]:
  "set_future key v (upd key t ms s) =
     (if ct_future t \<noteq> Pending then (Inl InvalidStateError, upd key t ms s)
      else (Inr (), upd key (t\<lparr>ct_future := v\<rparr>) ms s))"
  by (simp add: set_future_def bind_p_def on_txn run)

lemmas run_on = bind_p_def seq_p_def read_p_def lift_p_def return_p_def raise_p_def

definition plain_request :: "client_tsm \<Rightarrow> client_txn \<Rightarrow> int \<Rightarrow> apdu" where
  "plain_request s t max_apdu = ConfirmedRequestPDU
     \<lparr>cr_segmented = False, cr_more_follows = False, cr_segmented_response_accepted = True,
      cr_max_segments = cm_max_segments s, cr_max_apdu_length = max_apdu,
      cr_invoke_id = ct_invoke_id t, cr_sequence_number = None, cr_proposed_window_size = None,
      cr_service_choice = ct_service_choice t, cr_service_request = ct_request_data t\<rparr>"

lemma send_confirmed_on [on_txn]:
  assumes "octet (ct_invoke_id t)" "octet (ct_service_choice t)"
  shows "send_confirmed_request key m (upd key t ms s) =
    (Inr (), upd key (t\<lparr>ct_state := AWAIT_CONFIRMATION, ct_timeout_handle := Some T_arr\<rparr>)
       (ms @ [(encoded (plain_request s t m), ct_destination t, True)]) s)"
  using assms
  by (simp add: send_confirmed_request_def run_on on_txn encode_ok plain_request_def)

lemma each_net_on:
  assumes "\<forall>x \<in> set xs. apdu_ok (f x)"
  shows "each_p (\<lambda>x. bind_p (lift_p (encode_apdu (f x))) (\<lambda>b. net_send b d w)) xs (upd key t ms s) =
    (Inr (), upd key t (ms @ map (\<lambda>x. (encoded (f x), d, w)) xs) s)"
  using assms
  by (induction xs arbitrary: ms) (simp_all add: run_on on_txn encode_ok)

definition request_segments :: "client_tsm \<Rightarrow> client_txn \<Rightarrow> segment_sender \<Rightarrow> message list" where
  "request_segments s t sender =
     map (\<lambda>seg. (encoded (request_segment t (cm_max_segments s) (ss_proposed_window_size sender) seg),
                 ct_destination t, True)) (fill_window sender)"

lemma fill_window_seq: "(q, d, mf) \<in> set (fill_window sender) \<Longrightarrow> octet q"
  by (auto simp: fill_window_def Let_def and_masks octet_def)

lemma fill_window_on [on_txn]:
  assumes "ct_segment_sender t = Some sender" "octet (ss_proposed_window_size sender)"
    "octet (ct_invoke_id t)" "octet (ct_service_choice t)"
  shows "fill_and_send_request_window key (upd key t ms s) =
    (Inr (), upd key (t\<lparr>ct_timeout_handle := Some T_wait_for_seg\<rparr>)
       (ms @ request_segments s t sender) s)"
proof -
  let ?f = "request_segment t (cm_max_segments s) (ss_proposed_window_size sender)"
  have "\<forall>seg \<in> set (fill_window sender). apdu_ok (?f seg)"
    using assms by (auto simp: request_segment_def opt_octet_def dest: fill_window_seq)
  from each_net_on [OF this] show ?thesis
    using assms(1)
    by (simp add: fill_and_send_request_window_def run_on on_txn request_segments_def)
qed

lemma segment_ack_on [on_txn]:
  assumes "ct_segment_receiver t = Some r" "octet (sr_actual_window_size r)"
    "octet (ct_invoke_id t)" "octet seq"
  shows "send_client_segment_ack key seq neg (upd key t ms s) =
    (Inr (), upd key t (ms @ [(encoded (SegmentAckPDU
           \<lparr>sg_negative_ack = neg, sg_sent_by_server = False, sg_invoke_id = ct_invoke_id t,
            sg_sequence_number = seq, sg_actual_window_size = sr_actual_window_size r\<rparr>),
         ct_destination t, True)]) s)"
  using assms by (simp add: send_client_segment_ack_def run_on on_txn encode_ok)

definition abort_bytes :: "client_txn \<Rightarrow> abort_reason \<Rightarrow> bytes" where
  "abort_bytes t reason = encoded (AbortPDU
     \<lparr>ab_sent_by_server = False, ab_invoke_id = ct_invoke_id t, ab_abort_reason = reason\<rparr>)"

lemma abort_on [on_txn]:
  assumes "octet (ct_invoke_id t)" "ct_future t = Pending"
  shows "abort_transaction key reason (upd key t ms s) =
    (Inr (), upd key (t\<lparr>ct_timeout_handle := None, ct_future := Failed (BACnetAbortError reason)\<rparr>)
       (ms @ [(abort_bytes t reason, ct_destination t, False)]) s)"
  using assms by (simp add: abort_transaction_def run_on on_txn encode_ok abort_bytes_def)

lemma request_segments_fields [simp]:
  "request_segments s (t\<lparr>ct_state := st\<rparr>) sd = request_segments s t sd"
  "request_segments s (t\<lparr>ct_segment_sender := o'\<rparr>) sd = request_segments s t sd"
  "request_segments s (t\<lparr>ct_seg_retry_count := k\<rparr>) sd = request_segments s t sd"
  "request_segments s (t\<lparr>ct_retry_count := k\<rparr>) sd = request_segments s t sd"
  by (simp_all add: request_segments_def request_segment_def)

definition max_payload :: "client_txn \<Rightarrow> int" where
  "max_payload t = compute_max_segment_payload (ct_effective_max_apdu t) Seg_confirmed_request"

lemma create_request_sender:
  assumes "0 < compute_max_segment_payload m Seg_confirmed_request"
  shows "\<exists>sd. create_sender data i sc m Seg_confirmed_request w None = Inr sd
    \<and> ss_proposed_window_size sd = w"
  using assms
  by (auto simp: create_sender_def split_payload_def check_segment_count_def split: sum.split)

text \<open>A request that needs segments and has room for them gets a sender and its first window.\<close>

lemma send_segmented_on:
  assumes "0 < compute_max_segment_payload m Seg_confirmed_request"
    "octet (cm_proposed_window_size s)" "octet (ct_invoke_id t)" "octet (ct_service_choice t)"
  shows "\<exists>sd. ss_proposed_window_size sd = cm_proposed_window_size s \<and>
    send_segmented_request key m (upd key t ms s) =
    (Inr (), upd key (t\<lparr>ct_segment_sender := Some sd, ct_state := CL_SEGMENTED_REQUEST,
                        ct_timeout_handle := Some T_wait_for_seg\<rparr>)
       (ms @ request_segments s t sd) s)"
proof -
  obtain sd where sd: "create_sender (ct_request_data t) (ct_invoke_id t) (ct_service_choice t) m
      Seg_confirmed_request (cm_proposed_window_size s) None = Inr sd"
    and w: "ss_proposed_window_size sd = cm_proposed_window_size s"
    using create_request_sender [OF assms(1)] by blast
  show ?thesis
    using assms(2-) w
    by (intro exI [of _ sd]) (simp add: send_segmented_request_def run_on on_txn sd)
qed

section \<open>The receiver of a segmented response\<close>

definition receiver_wf :: "segment_receiver \<Rightarrow> bool" where
  "receiver_wf r \<longleftrightarrow> {..<sr_expected_idx r} \<subseteq> dom (map_of (sr_segments r))
     \<and> octet (sr_last_ack_seq r) \<and> octet (sr_actual_window_size r)"

lemma receiver_wf_create:
  "octet w \<Longrightarrow> octet p \<Longrightarrow> receiver_wf (create_receiver d sc p mf w)"
  by (auto simp: receiver_wf_def create_receiver_def octet_def)

lemma collect_parts_ok:
  "set ks \<subseteq> dom (map_of segs) \<Longrightarrow> \<exists>d. collect_parts segs ks = Inr d"
  by (induction ks) (auto split: option.splits)

lemma reassemble_ok:
  assumes "receiver_wf r" "receiver_is_complete r"
  shows "\<exists>d. reassemble r = Inr d"
proof -
  from assms(2) obtain f where f: "sr_final_idx r = Some f" "f < sr_expected_idx r"
    by (auto simp: receiver_is_complete_def split: option.splits)
  then have "set [0..<f + 1] \<subseteq> {..<sr_expected_idx r}" by auto
  also have "\<dots> \<subseteq> dom (map_of (sr_segments r))"
    using assms(1) by (simp add: receiver_wf_def)
  finally have "set [0..<f + 1] \<subseteq> dom (map_of (sr_segments r))" .
  then show ?thesis
    using f assms(2) collect_parts_ok [of "[0..<f + 1]"] by (auto simp: reassemble_def)
qed

lemma advance_wf:
  assumes "{..<e} \<subseteq> dom (map_of m)"
  shows "{..<advance m e} \<subseteq> dom (map_of m)"
proof
  fix i assume "i \<in> {..<advance m e}"
  then have "i \<in> {..<e} \<or> i \<in> {e..<advance m e}" by auto
  then show "i \<in> dom (map_of m)"
    using assms advance_spec [of e m] by blast
qed

lemma update_wf: "A \<subseteq> dom (map_of m) \<Longrightarrow> A \<subseteq> dom (map_of (AList.update k v m))"
  by (auto simp: update_conv')

lemma receiver_complete_window:
  "receiver_is_complete (r\<lparr>sr_window_start_idx := w\<rparr>) = receiver_is_complete r"
  by (simp add: receiver_is_complete_def split: option.split)

lemma receive_wf:
  assumes wf: "receiver_wf r" and seq: "octet seq"
    and r: "receive_segment r seq d mf = ((action, ack), r')"
  shows "receiver_wf r'" "action \<noteq> ABORT \<Longrightarrow> octet ack"
    "action = COMPLETE \<Longrightarrow> receiver_is_complete r'"
proof -
  let ?m = "AList.update (seq_to_abs_idx r seq) d (sr_segments r)"
  let ?e = "sr_expected_idx r"
  have m: "{..<?e} \<subseteq> dom (map_of ?m)"
    using wf by (intro update_wf) (simp add: receiver_wf_def)
  note adv = advance_wf [OF m]
  have o: "octet (sr_last_ack_seq r)" "octet (sr_actual_window_size r)"
    "{..<?e} \<subseteq> dom (map_of (sr_segments r))"
    using wf by (simp_all add: receiver_wf_def)
  note d = r [unfolded receive_segment_def Let_def]
  have "r' = r \<or> sr_segments r' = ?m \<and> sr_actual_window_size r' = sr_actual_window_size r
      \<and> (sr_expected_idx r' = ?e \<or> sr_expected_idx r' = advance ?m ?e)
      \<and> (sr_last_ack_seq r' = sr_last_ack_seq r \<or> sr_last_ack_seq r' = seq)"
    using d by (cases mf) (auto split: if_split_asm)
  then show "receiver_wf r'"
    using o seq m adv wf by (elim disjE conjE) (simp_all add: receiver_wf_def)
  show "action \<noteq> ABORT \<Longrightarrow> octet ack"
    using d o seq by (auto split: if_splits)
  show "action = COMPLETE \<Longrightarrow> receiver_is_complete r'"
    using d by (auto simp: receiver_complete_window split: if_splits)
qed

section \<open>The invariant\<close>

text \<open>
  A pending transaction is in one of three stages, each with its own timer running and the
  object it works with; a transaction that is done (and not cancelled) has no timer left.
\<close>

definition stage_ok :: "client_txn \<Rightarrow> bool" where
  "stage_ok t \<longleftrightarrow> (case ct_state t of
     CL_IDLE \<Rightarrow> False
   | CL_SEGMENTED_REQUEST \<Rightarrow> ct_timeout_handle t = Some T_wait_for_seg
       \<and> (\<exists>sd. ct_segment_sender t = Some sd \<and> octet (ss_proposed_window_size sd))
   | AWAIT_CONFIRMATION \<Rightarrow> ct_timeout_handle t = Some T_arr
   | SEGMENTED_CONFIRMATION \<Rightarrow> ct_timeout_handle t = Some T_seg
       \<and> (\<exists>r. ct_segment_receiver t = Some r \<and> receiver_wf r))"

definition txn_inv :: "int \<Rightarrow> txn_key \<Rightarrow> client_txn \<Rightarrow> bool" where
  "txn_inv retries key t \<longleftrightarrow>
     key = (ct_destination t, ct_invoke_id t) \<and> octet (ct_invoke_id t) \<and> octet (ct_service_choice t)
     \<and> 0 \<le> ct_retry_count t \<and> ct_retry_count t \<le> retries
     \<and> 0 \<le> ct_seg_retry_count t \<and> ct_seg_retry_count t \<le> retries
     \<and> (int (length (ct_request_data t)) > max_payload t \<longrightarrow> 0 < max_payload t)
     \<and> (ct_future t = Pending \<longrightarrow> stage_ok t)
     \<and> (ct_future t \<noteq> Pending \<and> ct_future t \<noteq> Cancelled \<longrightarrow> ct_timeout_handle t = None)"

definition client_inv :: "client_tsm \<Rightarrow> bool" where
  "client_inv s \<longleftrightarrow> 0 \<le> cm_retries s \<and> cm_network s = network_up
     \<and> octet (cm_proposed_window_size s) \<and> 1 \<le> cm_proposed_window_size s
     \<and> octet (cm_next_invoke_id s)
     \<and> (\<forall>key t. cm_transactions s key = Some t \<longrightarrow> txn_inv (cm_retries s) key t)"

text \<open>On a state with the transaction \<open>t\<close>, a procedure returns and leaves a good one.\<close>

definition advances :: "txn_key \<Rightarrow> client_txn \<Rightarrow> unit client_proc \<Rightarrow> client_tsm \<Rightarrow> bool" where
  "advances key t m s \<longleftrightarrow>
     (\<exists>t' ms. m (upd key t [] s) = (Inr (), upd key t' ms s) \<and> txn_inv (cm_retries s) key t')"

lemma advances_inv:
  assumes "client_inv s" "cm_transactions s key = Some t" "advances key t m s"
  shows "\<exists>s'. m s = (Inr (), s') \<and> client_inv s'"
  using assms by (auto simp: advances_def client_inv_def upd_id)

lemma advancesI:
  "m (upd key t [] s) = (Inr (), upd key t' ms s) \<Longrightarrow> txn_inv (cm_retries s) key t' \<Longrightarrow>
   advances key t m s"
  by (auto simp: advances_def)

lemma or_one_octet: "opt_octet v \<Longrightarrow> octet (or_one v)"
  by (auto simp: or_one_def opt_octet_def octet_def split: option.splits)

text \<open>The start of a transmission and its retry.\<close>

lemma transmit_on:
  assumes "octet (cm_proposed_window_size s)" "octet (ct_invoke_id t)" "octet (ct_service_choice t)"
    "int (length (ct_request_data t)) > max_payload t \<longrightarrow> 0 < max_payload t"
  shows "\<exists>sd st h ms'. transmit_request key (upd key t ms s) =
      (Inr (), upd key (t\<lparr>ct_segment_sender := sd, ct_state := st, ct_timeout_handle := h\<rparr>) ms' s)
    \<and> stage_ok (t\<lparr>ct_segment_sender := sd, ct_state := st, ct_timeout_handle := h\<rparr>)"
proof (cases "int (length (ct_request_data t)) > max_payload t")
  case True
  with assms obtain sd where sd: "ss_proposed_window_size sd = cm_proposed_window_size s"
    "send_segmented_request key (ct_effective_max_apdu t) (upd key t ms s) =
      (Inr (), upd key (t\<lparr>ct_segment_sender := Some sd, ct_state := CL_SEGMENTED_REQUEST,
                        ct_timeout_handle := Some T_wait_for_seg\<rparr>)
       (ms @ request_segments s t sd) s)"
    using send_segmented_on [of "ct_effective_max_apdu t" s t key ms] by (auto simp: max_payload_def)
  with True assms(1) show ?thesis
    by (intro exI [of _ "Some sd"] exI [of _ CL_SEGMENTED_REQUEST] exI [of _ "Some T_wait_for_seg"])
      (auto simp add: transmit_request_def run_on on_txn max_payload_def stage_ok_def)
next
  case False
  with assms(2,3) show ?thesis
    by (intro exI [of _ "ct_segment_sender t"] exI [of _ AWAIT_CONFIRMATION]
          exI [of _ "Some T_arr"] exI)
      (simp add: transmit_request_def run_on on_txn max_payload_def stage_ok_def)
qed

section \<open>Handlers keep the invariant\<close>

lemma txn_inv_octets:
  "txn_inv n key t \<Longrightarrow> octet (ct_invoke_id t)" "txn_inv n key t \<Longrightarrow> octet (ct_service_choice t)"
  by (simp_all add: txn_inv_def)

lemma txn_inv_done: "txn_inv n key t \<Longrightarrow> v \<noteq> Pending \<Longrightarrow>
    txn_inv n key (t\<lparr>ct_timeout_handle := None, ct_future := v\<rparr>)"
  by (simp add: txn_inv_def max_payload_def)

named_theorems adv \<open>rules for advances\<close>

lemma adv_basic [adv]:
  assumes "txn_inv (cm_retries s) key t"
  shows "advances key t (return_p ()) s"
    and "(ct_future t = Pending \<Longrightarrow> advances key t (f t) s) \<Longrightarrow> advances key t (with_pending key f) s"
    and "ct_future t = Pending \<Longrightarrow> v \<noteq> Pending \<Longrightarrow>
         advances key t (seq_p (cancel_timeout key) (set_future key v)) s"
    and "ct_future t = Pending \<Longrightarrow> advances key t (abort_transaction key reason) s"
  using assms
  by (auto simp: advances_def run_on on_txn txn_inv_octets intro: exI intro!: txn_inv_done)

lemma adv_if [adv]:
  "(c \<Longrightarrow> advances key t m s) \<Longrightarrow> (\<not> c \<Longrightarrow> advances key t n s) \<Longrightarrow>
   advances key t (if c then m else n) s"
  by simp

lemma adv_set [adv]:
  "advances key (f t) m s \<Longrightarrow> advances key t (seq_p (set_txn key f) m) s"
  by (simp add: advances_def run_on on_txn)

lemma adv_read [adv]:
  "(\<And>ms t'. g (upd key t ms s) = g s) \<Longrightarrow> advances key t (f (g s)) s \<Longrightarrow>
   advances key t (bind_p (read_p g) f) s"
  by (simp add: advances_def run_on)

lemma outcome_advances [adv]:
  assumes "txn_inv (cm_retries s) (src, i) t"
  shows "advances (src, i) t (handle_simple_ack src i sc) s"
    and "advances (src, i) t (handle_complex_ack src i sc data) s"
    and "advances (src, i) t (handle_error src i ec code d) s"
    and "advances (src, i) t (handle_reject src i rj) s"
    and "advances (src, i) t (handle_abort src i ab) s"
  using assms
  unfolding handle_simple_ack_def handle_complex_ack_def handle_error_def handle_reject_def
    handle_abort_def Let_def
  by (intro adv; simp)+

lemma txn_inv_pending:
  assumes "txn_inv n key t" "ct_future t = Pending"
  shows "stage_ok t" "0 \<le> n" "octet (ct_invoke_id t)" "octet (ct_service_choice t)"
    "0 \<le> ct_retry_count t" "ct_retry_count t \<le> n" "0 \<le> ct_seg_retry_count t"
    "ct_seg_retry_count t \<le> n"
    "int (length (ct_request_data t)) > max_payload t \<longrightarrow> 0 < max_payload t"
  using assms by (auto simp: txn_inv_def)

lemma sender_ack_window [simp]:
  "ss_proposed_window_size (snd (sender_handle_segment_ack sd q w neg)) = ss_proposed_window_size sd"
  by (simp add: sender_handle_segment_ack_def Let_def)

lemma segment_ack_advances [adv]:
  assumes inv: "txn_inv (cm_retries s) (src, sg_invoke_id p) t"
  shows "advances (src, sg_invoke_id p) t (handle_segment_ack src p) s"
proof (cases "ct_future t = Pending \<and> ct_state t = CL_SEGMENTED_REQUEST
    \<and> 1 \<le> sg_actual_window_size p \<and> sg_actual_window_size p \<le> 127")
  case True
  let ?key = "(src, sg_invoke_id p)"
  note f = txn_inv_pending [OF inv]
  obtain sd where sd: "ct_segment_sender t = Some sd" "octet (ss_proposed_window_size sd)"
    using f(1) True by (auto simp: stage_ok_def)
  obtain c sd' where a: "sender_handle_segment_ack sd (sg_sequence_number p)
      (sg_actual_window_size p) (sg_negative_ack p) = (c, sd')" by fastforce
  with sd(2) have sd': "octet (ss_proposed_window_size sd')"
    using sender_ack_window [of sd "sg_sequence_number p" "sg_actual_window_size p" "sg_negative_ack p"]
    by simp
  let ?t = "if c then t\<lparr>ct_seg_retry_count := 0, ct_state := AWAIT_CONFIRMATION,
      ct_segment_sender := None, ct_timeout_handle := Some T_arr\<rparr>
    else t\<lparr>ct_segment_sender := Some sd', ct_seg_retry_count := 0,
      ct_timeout_handle := Some T_wait_for_seg\<rparr>"
  have "txn_inv (cm_retries s) ?key ?t"
    using f True sd' inv by (auto simp: txn_inv_def stage_ok_def max_payload_def)
  moreover have "\<exists>ms. handle_segment_ack src p (upd ?key t [] s) = (Inr (), upd ?key ?t ms s)"
    using True f(3,4) sd a sd'
    by (cases c) (auto simp: handle_segment_ack_def run_on on_txn Let_def)
  ultimately show ?thesis unfolding advances_def by blast
next
  case False
  then show ?thesis
    using inv unfolding handle_segment_ack_def Let_def
    by (intro adv) (auto split: option.split intro!: adv)
qed

lemma create_complete: "\<not> mf \<Longrightarrow> receiver_is_complete (create_receiver d sc p mf w)"
  by (simp add: receiver_is_complete_def create_receiver_def)

lemma begin_response_advances:
  assumes inv: "txn_inv (cm_retries s) key t" and p: "ct_future t = Pending"
    and w: "octet (cm_proposed_window_size s)" "opt_octet (ca_proposed_window_size pdu)"
  shows "advances key t (begin_segmented_response key pdu) s"
proof -
  let ?r = "create_receiver (ca_service_ack pdu) (ca_service_choice pdu)
    (or_one (ca_proposed_window_size pdu)) (ca_more_follows pdu) (cm_proposed_window_size s)"
  note f = txn_inv_pending [OF inv p]
  have r: "receiver_wf ?r" using w by (intro receiver_wf_create or_one_octet)
  obtain d where d: "\<not> ca_more_follows pdu \<Longrightarrow> reassemble ?r = Inr d"
    using reassemble_ok [OF r] create_complete by blast
  let ?t = "if ca_more_follows pdu then t\<lparr>ct_segment_receiver := Some ?r,
      ct_state := SEGMENTED_CONFIRMATION, ct_timeout_handle := Some T_seg\<rparr>
    else t\<lparr>ct_timeout_handle := None, ct_segment_receiver := Some ?r,
      ct_state := SEGMENTED_CONFIRMATION, ct_future := Result d\<rparr>"
  have "txn_inv (cm_retries s) key ?t"
    using f inv r p by (auto simp: txn_inv_def stage_ok_def max_payload_def)
  moreover have "\<exists>ms. begin_segmented_response key pdu (upd key t [] s) = (Inr (), upd key ?t ms s)"
    using f r d p by (auto simp: begin_segmented_response_def run_on on_txn Let_def
        receiver_wf_def octet_def)
  ultimately show ?thesis unfolding advances_def by blast
qed

lemma continue_response_advances:
  assumes inv: "txn_inv (cm_retries s) key t" and p: "ct_future t = Pending"
    and st: "ct_state t = SEGMENTED_CONFIRMATION" and r: "ct_segment_receiver t = Some r"
    and q: "octet seq"
  shows "advances key t (continue_segmented_response key r seq pdu) s"
proof -
  note f = txn_inv_pending [OF inv p]
  obtain action ack r' where e: "receive_segment r seq (ca_service_ack pdu) (ca_more_follows pdu)
      = ((action, ack), r')" by (metis prod.exhaust)
  have wf: "receiver_wf r" using f(1) st r by (simp add: stage_ok_def)
  note r' = receive_wf [OF wf q e]
  obtain d where d: "action = COMPLETE \<Longrightarrow> reassemble r' = Inr d"
    using reassemble_ok [OF r'(1)] r'(3) by auto
  let ?t0 = "t\<lparr>ct_segment_receiver := Some r'\<rparr>"
  let ?t = "case action of
      COMPLETE \<Rightarrow> ?t0\<lparr>ct_timeout_handle := None, ct_future := Result d\<rparr>
    | ABORT \<Rightarrow> ?t0\<lparr>ct_timeout_handle := None,
                   ct_future := Failed (BACnetAbortError INVALID_APDU_IN_THIS_STATE)\<rparr>
    | _ \<Rightarrow> ?t0\<lparr>ct_timeout_handle := Some T_seg\<rparr>"
  have "txn_inv (cm_retries s) key ?t"
    using f inv r'(1) st
    by (cases action) (auto simp: txn_inv_def stage_ok_def max_payload_def)
  moreover have "\<exists>ms. continue_segmented_response key r seq pdu (upd key t [] s)
      = (Inr (), upd key ?t ms s)"
    using f(3) r'(1,2) d p e
    by (cases action) (auto simp: continue_segmented_response_def run_on on_txn receiver_wf_def)
  ultimately show ?thesis unfolding advances_def by blast
qed

lemma segmented_ack_advances [adv]:
  assumes inv: "txn_inv (cm_retries s) (src, ca_invoke_id pdu) t"
    and w: "octet (cm_proposed_window_size s)" and ok: "apdu_ok (ComplexAckPDU pdu)"
    and seg: "ca_segmented pdu"
  shows "advances (src, ca_invoke_id pdu) t (handle_segmented_complex_ack src pdu) s"
proof (cases "ct_future t = Pending")
  case p: True
  have o: "opt_octet (ca_proposed_window_size pdu)" "opt_octet (ca_sequence_number pdu)"
    using ok seg by simp_all
  show ?thesis
    unfolding handle_segmented_complex_ack_def Let_def
    using inv p w o
    by (intro adv begin_response_advances)
      (auto split: option.split simp: opt_octet_def intro!: adv continue_response_advances)
next
  case False
  with inv show ?thesis
    unfolding handle_segmented_complex_ack_def Let_def by (intro adv) auto
qed

text \<open>A timer that fires: its handle is gone, and the handler starts another or ends the request.\<close>

definition fired :: "client_txn \<Rightarrow> client_txn" where
  "fired t = t\<lparr>ct_timeout_handle := None\<rparr>"

lemma fired_fields [simp]:
  "ct_future (fired t) = ct_future t" "ct_state (fired t) = ct_state t"
  "ct_retry_count (fired t) = ct_retry_count t" "ct_seg_retry_count (fired t) = ct_seg_retry_count t"
  "ct_segment_sender (fired t) = ct_segment_sender t" "ct_invoke_id (fired t) = ct_invoke_id t"
  "ct_segment_receiver (fired t) = ct_segment_receiver t" "ct_timeout_handle (fired t) = None"
  "ct_service_choice (fired t) = ct_service_choice t" "ct_destination (fired t) = ct_destination t"
  "ct_request_data (fired t) = ct_request_data t" "max_payload (fired t) = max_payload t"
  by (simp_all add: fired_def max_payload_def)

text \<open>
  How often the timer of a pending transaction can still fire: every firing but the last uses
  up a retry, either of the request or of its segments.
\<close>

definition firings_left :: "int \<Rightarrow> client_txn \<Rightarrow> nat" where
  "firings_left n t = (if ct_future t \<noteq> Pending then 0
     else Suc (nat ((n - ct_retry_count t) + (n - ct_seg_retry_count t))))"

definition timed_out :: "client_txn \<Rightarrow> bool" where
  "timed_out t \<longleftrightarrow> ct_future t = Failed BACnetTimeoutError \<or> ct_future t = Failed (BACnetAbortError TSM_TIMEOUT)"

definition ages :: "txn_key \<Rightarrow> client_txn \<Rightarrow> unit client_proc \<Rightarrow> client_tsm \<Rightarrow> bool" where
  "ages key t m s \<longleftrightarrow> (\<exists>t' ms. m (upd key (fired t) [] s) = (Inr (), upd key t' ms s)
     \<and> txn_inv (cm_retries s) key t' \<and> (ct_future t' = Pending \<or> timed_out t')
     \<and> firings_left (cm_retries s) t' < firings_left (cm_retries s) t)"

lemma agesI:
  "m (upd key (fired t) [] s) = (Inr (), upd key t' ms s) \<Longrightarrow> txn_inv (cm_retries s) key t' \<Longrightarrow>
   ct_future t' = Pending \<or> timed_out t' \<Longrightarrow> firings_left (cm_retries s) t' < firings_left (cm_retries s) t \<Longrightarrow> ages key t m s"
  by (auto simp: ages_def)

lemma timeout_ages:
  assumes inv: "txn_inv (cm_retries s) key t" and p: "ct_future t = Pending"
    and w: "octet (cm_proposed_window_size s)"
  shows "ages key t (on_timeout key) s"
proof (cases "ct_retry_count t < cm_retries s")
  case True
  note f = txn_inv_pending [OF inv p]
  let ?t = "fired t\<lparr>ct_retry_count := ct_retry_count t + 1\<rparr>"
  have t: "octet (ct_invoke_id ?t)" "octet (ct_service_choice ?t)"
    "int (length (ct_request_data ?t)) > max_payload ?t \<longrightarrow> 0 < max_payload ?t"
    using f by (simp_all add: max_payload_def fired_def)
  obtain sd st h ms' where e: "transmit_request key (upd key ?t [] s) =
      (Inr (), upd key (?t\<lparr>ct_segment_sender := sd, ct_state := st, ct_timeout_handle := h\<rparr>) ms' s)"
    and st: "stage_ok (?t\<lparr>ct_segment_sender := sd, ct_state := st, ct_timeout_handle := h\<rparr>)"
    using transmit_on [OF w t, of key "[]"] by auto
  have "on_timeout key (upd key (fired t) [] s) =
      (Inr (), upd key (?t\<lparr>ct_segment_sender := sd, ct_state := st, ct_timeout_handle := h\<rparr>) ms' s)"
    using True p e by (simp add: on_timeout_def run_on on_txn)
  then show ?thesis
    using inv f True st p by (elim agesI) (auto simp: txn_inv_def max_payload_def fired_def firings_left_def timed_out_def)
next
  case False
  then have "on_timeout key (upd key (fired t) [] s) =
      (Inr (), upd key (fired t\<lparr>ct_future := Failed BACnetTimeoutError\<rparr>) [] s)"
    using p by (simp add: on_timeout_def run_on on_txn)
  then show ?thesis
    using inv by (elim agesI) (simp_all add: txn_inv_def fired_def max_payload_def firings_left_def timed_out_def p)
qed

lemma segment_timeout_ages:
  assumes inv: "txn_inv (cm_retries s) key t" and p: "ct_future t = Pending"
    and st: "ct_state t = CL_SEGMENTED_REQUEST \<or> ct_state t = SEGMENTED_CONFIRMATION"
  shows "ages key t (on_segment_timeout key) s"
proof (cases "ct_seg_retry_count t < cm_retries s")
  case True
  note f = txn_inv_pending [OF inv p]
  show ?thesis
    using f(1) st
  proof (elim disjE)
    assume st: "ct_state t = CL_SEGMENTED_REQUEST" and ok: "stage_ok t"
    then obtain sd where sd: "ct_segment_sender t = Some sd" "octet (ss_proposed_window_size sd)"
      by (auto simp: stage_ok_def)
    have "on_segment_timeout key (upd key (fired t) [] s) = (Inr (), upd key
        (fired t\<lparr>ct_seg_retry_count := ct_seg_retry_count t + 1,
                 ct_timeout_handle := Some T_wait_for_seg\<rparr>)
        (request_segments s (fired t) sd) s)"
      using True p st sd f(3,4) by (simp add: on_segment_timeout_def run_on on_txn)
    then show ?thesis
      using inv f True st sd by (elim agesI) (auto simp: txn_inv_def max_payload_def
          fired_def stage_ok_def firings_left_def timed_out_def p)
  next
    assume st: "ct_state t = SEGMENTED_CONFIRMATION" and ok: "stage_ok t"
    then obtain r where r: "ct_segment_receiver t = Some r" "receiver_wf r"
      by (auto simp: stage_ok_def)
    have "\<exists>ms. on_segment_timeout key (upd key (fired t) [] s) = (Inr (), upd key
        (fired t\<lparr>ct_seg_retry_count := ct_seg_retry_count t + 1, ct_timeout_handle := Some T_seg\<rparr>)
        ms s)"
      using True p st r f(3) by (auto simp: on_segment_timeout_def run_on on_txn receiver_wf_def)
    then show ?thesis
      using inv f True st r by (elim exE agesI) (auto simp: txn_inv_def max_payload_def
          fired_def stage_ok_def firings_left_def timed_out_def p)
  qed
next
  case False
  then have "on_segment_timeout key (upd key (fired t) [] s) = (Inr (), upd key
      (fired t\<lparr>ct_timeout_handle := None, ct_future := Failed (BACnetAbortError TSM_TIMEOUT)\<rparr>)
      [(abort_bytes (fired t) TSM_TIMEOUT, ct_destination t, False)] s)"
    using p st txn_inv_octets [OF inv] by (auto simp: on_segment_timeout_def run_on on_txn)
  then show ?thesis
    using inv by (elim agesI) (simp_all add: txn_inv_def fired_def max_payload_def firings_left_def timed_out_def p)
qed

lemma fire_ages:
  assumes inv: "txn_inv (cm_retries s) key t" and p: "ct_future t = Pending"
    and w: "octet (cm_proposed_window_size s)"
  shows "\<exists>t' ms. fire_timer key (upd key t [] s) = (Inr (), upd key t' ms s)
    \<and> txn_inv (cm_retries s) key t' \<and> (ct_future t' = Pending \<or> timed_out t')
    \<and> firings_left (cm_retries s) t' < firings_left (cm_retries s) t"
proof -
  have e: "fire_timer key (upd key t [] s) =
     (case ct_timeout_handle t of None \<Rightarrow> return_p () | Some T_arr \<Rightarrow> on_timeout key
      | Some _ \<Rightarrow> on_segment_timeout key) (upd key (fired t) [] s)"
    by (simp add: fire_timer_def run_on on_txn fired_def)
  have "stage_ok t" using inv p by (simp add: txn_inv_def)
  then show ?thesis
    using timeout_ages [OF inv p w] segment_timeout_ages [OF inv p]
    by (auto simp: ages_def e stage_ok_def split: client_state.splits)
qed

lemma fire_advances:
  "txn_inv (cm_retries s) key t \<Longrightarrow> ct_future t = Pending \<Longrightarrow> octet (cm_proposed_window_size s) \<Longrightarrow>
   advances key t (fire_timer key) s"
  using fire_ages [of s key t] by (auto simp: advances_def)

section \<open>New requests\<close>

lemma octet_and: "octet (x AND 255)"
  by (simp add: octet_def and_masks)

lemma allocate_state: "\<exists>n. octet n \<and> snd (allocate_invoke_id dest s) = s\<lparr>cm_next_invoke_id := n\<rparr>"
proof (cases "find (\<lambda>k. cm_transactions s (dest, (cm_next_invoke_id s + k) AND 0xFF) = None)
    (map int [0..<256])")
  case None
  then show ?thesis
    by (intro exI [of _ "(cm_next_invoke_id s + 256) AND 255"])
      (simp add: allocate_invoke_id_def octet_and)
next
  case (Some k)
  then show ?thesis
    by (intro exI [of _ "(cm_next_invoke_id s + k + 1) AND 255"])
      (simp add: allocate_invoke_id_def octet_and)
qed

lemma allocate_some:
  assumes "allocate_invoke_id dest s = (Inr iid, s')"
  shows "octet iid" "cm_transactions s (dest, iid) = None"
  using assms
  by (auto simp: allocate_invoke_id_def find_Some_iff octet_and split: option.splits)

lemma allocate_error:
  assumes "allocate_invoke_id dest s = (Inl e, s')"
  shows "e = RuntimeError" "\<forall>iid. octet iid \<longrightarrow> cm_transactions s (dest, iid) \<noteq> None"
proof -
  show "e = RuntimeError"
    using assms by (auto simp: allocate_invoke_id_def split: option.splits)
  have all: "\<forall>k\<in>{0..<256}. cm_transactions s (dest, (cm_next_invoke_id s + int k) AND 255) \<noteq> None"
    using assms by (auto simp: allocate_invoke_id_def find_None_iff split: option.splits)
  show "\<forall>iid. octet iid \<longrightarrow> cm_transactions s (dest, iid) \<noteq> None"
  proof (intro allI impI)
    fix iid assume o: "octet iid"
    let ?k = "nat ((iid - cm_next_invoke_id s) mod 256)"
    have "?k \<in> {0..<256}" by simp
    moreover have "(cm_next_invoke_id s + int ?k) AND 255 = iid"
      using o by (simp add: and_masks octet_def mod_add_right_eq)
    ultimately show "cm_transactions s (dest, iid) \<noteq> None" using all by metis
  qed
qed

lemma encode_bad_choice:
  "\<not> octet (cr_service_choice p) \<Longrightarrow> \<exists>e. encode_apdu (ConfirmedRequestPDU p) = Inl e"
  by (cases "encode_apdu (ConfirmedRequestPDU p)")
    (auto simp: encode_apdu_def encode_confirmed_request_def Let_def mk_bytes_Inr_iff octet_def)

lemma request_window_nonempty:
  assumes "create_sender data i sc m Seg_confirmed_request w None = Inr sd"
    and "0 < compute_max_segment_payload m Seg_confirmed_request" and "1 \<le> w"
  shows "fill_window sd \<noteq> []"
proof -
  obtain segs where "split_payload data (compute_max_segment_payload m Seg_confirmed_request) = Inr segs"
    and ne: "segs \<noteq> []"
    using split_payload_segments [OF assms(2)] by blast
  with assms(1) have "ss_segments sd = segs" "ss_window_start_idx sd = 0"
    "ss_actual_window_size sd = w"
    by (auto simp: create_sender_def check_segment_count_def)
  then show ?thesis using ne assms(3) by (cases segs) (simp_all add: fill_window_def)
qed

text \<open>What \<open>send_request\<close> cannot transmit is refused with an exception.\<close>

lemma transmit_refuses:
  assumes "\<not> (octet (ct_service_choice t)
      \<and> (int (length (ct_request_data t)) > max_payload t \<longrightarrow> 0 < max_payload t))"
    and w: "1 \<le> cm_proposed_window_size s"
  shows "\<exists>e. fst (transmit_request key (upd key t ms s)) = Inl e"
proof (cases "int (length (ct_request_data t)) > max_payload t")
  case False
  with assms(1) have "\<not> octet (ct_service_choice t)" by blast
  then obtain e where "encode_apdu (plain_request s t (ct_effective_max_apdu t)) = Inl e"
    using encode_bad_choice unfolding plain_request_def by fastforce
  with False show ?thesis
    by (simp add: transmit_request_def send_confirmed_request_def max_payload_def run_on on_txn
        plain_request_def)
next
  case True
  show ?thesis
  proof (cases "0 < max_payload t")
    case False
    with True show ?thesis
      by (simp add: transmit_request_def send_segmented_request_def max_payload_def run_on on_txn
          create_sender_def split_payload_def)
  next
    case pos: True
    with assms(1) have sc: "\<not> octet (ct_service_choice t)" by blast
    obtain sd where sd: "create_sender (ct_request_data t) (ct_invoke_id t) (ct_service_choice t)
        (ct_effective_max_apdu t) Seg_confirmed_request (cm_proposed_window_size s) None = Inr sd"
      using create_request_sender pos unfolding max_payload_def by blast
    obtain seg segs where fw: "fill_window sd = seg # segs"
      using request_window_nonempty [OF sd _ w] pos
      by (cases "fill_window sd") (auto simp: max_payload_def)
    let ?t = "t\<lparr>ct_segment_sender := Some sd, ct_state := CL_SEGMENTED_REQUEST\<rparr>"
    have "\<exists>e. encode_apdu (request_segment ?t (cm_max_segments s) (ss_proposed_window_size sd) seg) = Inl e"
      using sc encode_bad_choice by (cases seg) (simp add: request_segment_def)
    then show ?thesis
      using True sd fw
      by (auto simp: transmit_request_def send_segmented_request_def max_payload_def run_on on_txn
          fill_and_send_request_window_def)
  qed
qed

definition new_txn :: "client_tsm \<Rightarrow> int \<Rightarrow> bytes \<Rightarrow> bacnet_address \<Rightarrow> int option \<Rightarrow> int \<Rightarrow> client_txn" where
  "new_txn s sc data dest override iid =
     \<lparr>ct_invoke_id = iid, ct_destination = dest, ct_service_choice = sc,
      ct_request_data = data, ct_future = Pending, ct_retry_count = 0,
      ct_timeout_handle = None, ct_state = CL_IDLE, ct_segment_sender = None,
      ct_segment_receiver = None, ct_seg_retry_count = 0,
      ct_effective_max_apdu = (case override of Some m \<Rightarrow> m | None \<Rightarrow> cm_max_apdu_length s)\<rparr>"

lemma send_request_split:
  "send_request sc data dest override s =
    (case allocate_invoke_id dest s of
       (Inl e, s1) \<Rightarrow> (Inl e, s1)
     | (Inr iid, s1) \<Rightarrow>
         (case transmit_request (dest, iid) (s1\<lparr>cm_transactions := (cm_transactions s1)
             ((dest, iid) \<mapsto> new_txn s sc data dest override iid)\<rparr>) of
            (Inl e, s2) \<Rightarrow> (Inl e, snd (pop_txn (dest, iid) s2))
          | (Inr _, s2) \<Rightarrow> (Inr (dest, iid), s2)))"
  by (simp add: send_request_def run_on put_txn_def write_p_def finally_pop_def new_txn_def
      Let_def split: prod.split sum.split)

lemma send_request_run:
  assumes "cm_network s = network_up"
  shows "send_request sc data dest override s =
    (case allocate_invoke_id dest s of
       (Inl e, s1) \<Rightarrow> (Inl e, s1)
     | (Inr iid, s1) \<Rightarrow>
         (case transmit_request (dest, iid) (upd (dest, iid) (new_txn s sc data dest override iid) [] s1) of
            (Inl e, s2) \<Rightarrow> (Inl e, snd (pop_txn (dest, iid) s2))
          | (Inr _, s2) \<Rightarrow> (Inr (dest, iid), s2)))"
proof -
  obtain x s1 where a: "allocate_invoke_id dest s = (x, s1)" by fastforce
  then have "cm_network s1 = network_up" using allocate_state [of dest s] assms by auto
  then have put: "s1\<lparr>cm_transactions := (cm_transactions s1)(key \<mapsto> t)\<rparr> = upd key t [] s1" for key t
    by (simp add: upd_def)
  show ?thesis unfolding send_request_split a prod.case put ..
qed

lemma client_inv_up: "client_inv s \<Longrightarrow> cm_network s = network_up"
  by (simp add: client_inv_def)

lemma client_inv_next: "client_inv s \<Longrightarrow> octet n \<Longrightarrow> client_inv (s\<lparr>cm_next_invoke_id := n\<rparr>)"
  by (simp add: client_inv_def)

lemma client_inv_pop:
  assumes "client_inv s" "same_but key s s'"
  shows "client_inv (snd (pop_txn key s'))"
  using assms by (auto simp: client_inv_def same_but_def pop_txn_def write_p_def)

lemma client_inv_upd: "client_inv s \<Longrightarrow> txn_inv (cm_retries s) key t \<Longrightarrow> client_inv (upd key t ms s)"
  by (simp add: client_inv_def)

text \<open>A request that is accepted occupies a free key and is pending; a refused one leaves nothing.\<close>

lemma send_request_inv:
  assumes inv: "client_inv s"
  shows "client_inv (snd (send_request sc data dest override s))"
    and "send_request sc data dest override s = (Inr key, s') \<Longrightarrow>
      cm_transactions s key = None \<and> fst key = dest
      \<and> (\<exists>t. cm_transactions s' key = Some t \<and> ct_future t = Pending \<and> ct_request_data t = data
             \<and> ct_service_choice t = sc)"
proof -
  obtain r s1 where a: "allocate_invoke_id dest s = (r, s1)" by fastforce
  obtain n where n: "octet n" "s1 = s\<lparr>cm_next_invoke_id := n\<rparr>"
    using allocate_state [of dest s] a by auto
  then have inv1: "client_inv s1" using inv by (simp add: client_inv_next)
  have "client_inv (snd (send_request sc data dest override s))
    \<and> (send_request sc data dest override s = (Inr key, s') \<longrightarrow>
      cm_transactions s key = None \<and> fst key = dest
      \<and> (\<exists>t. cm_transactions s' key = Some t \<and> ct_future t = Pending \<and> ct_request_data t = data
             \<and> ct_service_choice t = sc))"
  proof (cases r)
    case (Inl e)
    with a inv1 show ?thesis by (simp add: send_request_run [OF client_inv_up [OF inv]])
  next
    case (Inr iid)
    let ?k = "(dest, iid)"
    let ?t = "new_txn s sc data dest override iid"
    let ?ok = "octet (ct_service_choice ?t)
      \<and> (int (length (ct_request_data ?t)) > max_payload ?t \<longrightarrow> 0 < max_payload ?t)"
    have free: "octet iid" "cm_transactions s ?k = None"
      using allocate_some a Inr by simp_all
    have w: "octet (cm_proposed_window_size s1)" "1 \<le> cm_proposed_window_size s1" "0 \<le> cm_retries s1"
      using inv1 by (simp_all add: client_inv_def)
    show ?thesis
    proof (cases ?ok)
      case True
      have t: "octet (ct_invoke_id ?t)" "octet (ct_service_choice ?t)"
        "int (length (ct_request_data ?t)) > max_payload ?t \<longrightarrow> 0 < max_payload ?t"
        using free(1) True by (simp_all add: new_txn_def)
      obtain sd st h ms' where e: "transmit_request ?k (upd ?k ?t [] s1) = (Inr (), upd ?k
          (?t\<lparr>ct_segment_sender := sd, ct_state := st, ct_timeout_handle := h\<rparr>) ms' s1)"
        and st: "stage_ok (?t\<lparr>ct_segment_sender := sd, ct_state := st, ct_timeout_handle := h\<rparr>)"
        using transmit_on [OF w(1) t] by blast
      have "txn_inv (cm_retries s1) ?k
          (?t\<lparr>ct_segment_sender := sd, ct_state := st, ct_timeout_handle := h\<rparr>)"
        using t st w(3) by (auto simp: txn_inv_def max_payload_def new_txn_def)
      from client_inv_upd [OF inv1 this, of ms'] show ?thesis
        using a Inr e free by (auto simp: send_request_run [OF client_inv_up [OF inv]] new_txn_def)
    next
      case False
      obtain e s2 where e: "transmit_request ?k (upd ?k ?t [] s1) = (Inl e, s2)"
        using transmit_refuses [OF False w(2)] by (metis prod.collapse)
      have "same_but ?k s1 (upd ?k ?t [] s1)" using client_inv_up [OF inv1] by (simp add: same_but_def)
      then have "same_but ?k s1 s2"
        using keepsD [OF local_transmit] e by (metis snd_conv)
      from client_inv_pop [OF inv1 this] show ?thesis
        using a Inr e by (simp add: send_request_run [OF client_inv_up [OF inv]])
    qed
  qed
  then show "client_inv (snd (send_request sc data dest override s))"
    "send_request sc data dest override s = (Inr key, s') \<Longrightarrow>
      cm_transactions s key = None \<and> fst key = dest
      \<and> (\<exists>t. cm_transactions s' key = Some t \<and> ct_future t = Pending \<and> ct_request_data t = data
             \<and> ct_service_choice t = sc)"
    by blast+
qed

section \<open>Every step keeps the invariant\<close>

fun event_ok :: "client_tsm \<Rightarrow> client_event \<Rightarrow> bool" where
  "event_ok s (Ev_request sc data dest override) = True"
| "event_ok s (Ev_response src pdu) = apdu_ok pdu"
| "event_ok s (Ev_timer key) = (map_option (\<lambda>t. ct_timeout_handle t \<noteq> None) (cm_transactions s key) = Some True)"
| "event_ok s (Ev_resume key) = (map_option (\<lambda>t. ct_future t \<noteq> Pending) (cm_transactions s key) = Some True)"
| "event_ok s (Ev_cancel key) = True"

lemma client_inv_txn:
  "client_inv s \<Longrightarrow> cm_transactions s key = Some t \<Longrightarrow> txn_inv (cm_retries s) key t"
  by (cases key) (simp add: client_inv_def)

lemma dispatch_inv:
  assumes inv: "client_inv s" and ok: "apdu_ok pdu"
  shows "\<exists>s'. client_dispatch src pdu s = (Inr (), s') \<and> client_inv s'"
proof -
  have none: "cm_transactions s (src, i) = None \<Longrightarrow> with_pending (src, i) f s = (Inr (), s)" for i f
    by (simp add: with_pending_def run)
  have some: "cm_transactions s key = Some t \<Longrightarrow> txn_inv (cm_retries s) key t" for key t
    by (rule client_inv_txn [OF inv])
  have w: "octet (cm_proposed_window_size s)" using inv by (simp add: client_inv_def)
  have step: "\<exists>s'. m s = (Inr (), s') \<and> client_inv s'"
    if "\<And>t. cm_transactions s (src, i) = Some t \<Longrightarrow> advances (src, i) t m s"
      and "cm_transactions s (src, i) = None \<Longrightarrow> m s = (Inr (), s)" for i m
    using that inv by (cases "cm_transactions s (src, i)") (auto intro: advances_inv)
  note handlers = handle_simple_ack_def handle_complex_ack_def handle_error_def handle_reject_def
    handle_abort_def handle_segment_ack_def handle_segmented_complex_ack_def
  show ?thesis
    using ok inv
    by (cases pdu)
      (auto simp del: apdu_ok.simps simp: return_p_def intro!: step adv some w, auto simp: handlers none Let_def)
qed

lemma fire_done:
  assumes "txn_inv (cm_retries s) key t" "ct_future t \<noteq> Pending"
  shows "advances key t (fire_timer key) s"
  using assms
  by (auto simp: advances_def fire_timer_def run_on on_txn on_timeout_def on_segment_timeout_def
      txn_inv_def max_payload_def intro!: exI split: option.split timer.split)

lemma timer_inv:
  assumes inv: "client_inv s" and "cm_transactions s key = Some t"
  shows "\<exists>s'. fire_timer key s = (Inr (), s') \<and> client_inv s'"
proof -
  have "octet (cm_proposed_window_size s)" using inv by (simp add: client_inv_def)
  then have "advances key t (fire_timer key) s"
    using client_inv_txn [OF assms] by (cases "ct_future t = Pending") (auto intro: fire_advances fire_done)
  then show ?thesis using assms advances_inv by blast
qed

lemma cancel_inv:
  assumes inv: "client_inv s"
  shows "\<exists>s'. with_pending key (\<lambda>t. set_future key Cancelled) s = (Inr (), s') \<and> client_inv s'"
proof (cases "cm_transactions s key")
  case None
  then show ?thesis using inv by (simp add: with_pending_def run)
next
  case (Some t)
  then have "advances key t (with_pending key (\<lambda>t. set_future key Cancelled)) s"
    using client_inv_txn [OF inv Some]
    by (auto simp: advances_def on_txn txn_inv_def max_payload_def intro!: exI)
  then show ?thesis using Some inv advances_inv by blast
qed

lemma resume_inv:
  assumes inv: "client_inv s" and "cm_transactions s key = Some t"
  shows "resume_request key s = (Inr (ct_future t), snd (pop_txn key s))"
    and "client_inv (snd (pop_txn key s))"
  using assms client_inv_pop [of s key s]
  by (simp_all add: resume_request_def the_txn_def pop_txn_def run_on write_p_def)

fun is_request :: "client_event \<Rightarrow> bool" where
  "is_request (Ev_request sc data dest override) = True"
| "is_request e = False"

lemma client_step_safe:
  assumes inv: "client_inv s" and ok: "event_ok s ev"
  shows "client_inv (snd (client_step ev s)) \<and> (\<not> is_request ev \<longrightarrow> fst (client_step ev s) = Inr ())"
proof (cases ev)
  case (Ev_request sc data dest override)
  then show ?thesis
    using send_request_inv(1) [OF inv, of sc data dest override]
    by (auto simp: run_on split: prod.split sum.split)
next
  case (Ev_response src pdu)
  then show ?thesis using dispatch_inv [OF inv, of pdu src] ok by auto
next
  case (Ev_timer key)
  then show ?thesis using timer_inv [OF inv, of key] ok by auto
next
  case (Ev_resume key)
  then show ?thesis using resume_inv [OF inv, of key] ok by (auto simp: run_on)
next
  case (Ev_cancel key)
  then show ?thesis using cancel_inv [OF inv, of key] by auto
qed

abbreviation client_reach :: "client_tsm \<Rightarrow> client_tsm \<Rightarrow> bool" where
  "client_reach \<equiv> reachable event_ok client_step"

interpretation client_machine: event_system event_ok client_step client_inv
  by unfold_locales (use client_step_safe in blast)

definition valid_config :: "int \<Rightarrow> int \<Rightarrow> bool" where
  "valid_config retries window \<longleftrightarrow> 0 \<le> retries \<and> 1 \<le> window \<and> window \<le> 127"

lemma init_inv: "valid_config retries window \<Longrightarrow> client_inv (client_init retries ma ms window)"
  by (simp add: client_inv_def client_init_def valid_config_def octet_def)

section \<open>A peer that never answers\<close>

text \<open>The timer of one transaction fires again and again.\<close>

fun fire_times :: "nat \<Rightarrow> txn_key \<Rightarrow> unit client_proc" where
  "fire_times 0 key = return_p ()"
| "fire_times (Suc n) key = seq_p (fire_timer key) (fire_times n key)"

lemma silent_peer:
  assumes "client_inv s" "cm_transactions s key = Some t" "ct_future t = Pending"
  shows "\<exists>n t' s'. n \<le> firings_left (cm_retries s) t \<and> fire_times n key s = (Inr (), s')
    \<and> cm_transactions s' key = Some t' \<and> timed_out t'"
  using assms
proof (induction "firings_left (cm_retries s) t" arbitrary: s t rule: less_induct)
  case less
  note inv = client_inv_txn [OF less.prems(1,2)]
  have w: "octet (cm_proposed_window_size s)" using less.prems(1) by (simp add: client_inv_def)
  obtain t' ms where f: "fire_timer key s = (Inr (), upd key t' ms s)"
    and t': "txn_inv (cm_retries s) key t'"
    and ended: "ct_future t' = Pending \<or> timed_out t'"
    and lt: "firings_left (cm_retries s) t' < firings_left (cm_retries s) t"
    using fire_ages [OF inv less.prems(3) w] less.prems(2) client_inv_up [OF less.prems(1)]
    by (auto simp: upd_id)
  show ?case
  proof (cases "ct_future t' = Pending")
    case False
    with f lt ended show ?thesis
      by (intro exI [of _ 1] exI [of _ t'] exI [of _ "upd key t' ms s"]) (simp add: run_on)
  next
    case True
    let ?s = "upd key t' ms s"
    have "client_inv ?s" by (rule client_inv_upd [OF less.prems(1) t'])
    moreover have "cm_transactions ?s key = Some t'" by simp
    ultimately obtain n u s' where "n \<le> firings_left (cm_retries s) t'"
      "fire_times n key ?s = (Inr (), s')" "cm_transactions s' key = Some u" "timed_out u"
      using less.hyps [of ?s t'] lt True by auto
    with f lt show ?thesis
      by (intro exI [of _ "Suc n"] exI [of _ u] exI [of _ s']) (simp add: run_on)
  qed
qed

section \<open>A new request leaves the others alone\<close>

lemma outcome_request: "keeps (outcome key v) (send_request sc data dest override)"
proof (unfold keeps_def, intro allI impI)
  fix s assume o: "outcome key v s"
  obtain x s1 where a: "allocate_invoke_id dest s = (x, s1)" by fastforce
  then obtain n where s1: "s1 = s\<lparr>cm_next_invoke_id := n\<rparr>" using allocate_state [of dest s] by auto
  then have o1: "outcome key v s1" using o by (simp add: outcome_def)
  show "outcome key v (snd (send_request sc data dest override s))"
  proof (cases x)
    case (Inl e)
    with a o1 show ?thesis by (simp add: send_request_split)
  next
    case (Inr iid)
    let ?k = "(dest, iid)"
    let ?s1 = "s1\<lparr>cm_transactions := (cm_transactions s1)(?k \<mapsto> new_txn s sc data dest override iid)\<rparr>"
    have ne: "key \<noteq> ?k"
      using allocate_some(2) [of dest s iid s1] a Inr o by (auto simp: outcome_def)
    obtain y s2 where t: "transmit_request ?k ?s1 = (y, s2)" by fastforce
    have "same_but ?k s1 ?s1" by (simp add: same_but_def)
    then have "same_but ?k s1 s2" using keepsD [OF local_transmit] t by (metis snd_conv)
    then have "cm_transactions s2 key = cm_transactions s1 key" using ne unfolding same_but_def by blast
    then have "outcome key v s2" using o1 by (simp add: outcome_def)
    then show ?thesis
      using a Inr t ne
      by (cases y) (simp_all add: send_request_split pop_txn_def write_p_def outcome_def)
  qed
qed

lemma outcome_step:
  assumes "outcome key v s" "ev \<noteq> Ev_resume key"
  shows "outcome key v (snd (client_step ev s))"
proof (cases ev)
  case (Ev_request sc data dest override)
  have "keeps (outcome key v) (seq_p (send_request sc data dest override) (return_p ()))"
    by (intro keeps_intros outcome_request)
  with Ev_request assms(1) show ?thesis by (simp add: keepsD)
next
  case (Ev_resume k)
  have "keeps (outcome key v) (pop_txn k)"
    using Ev_resume assms(2) by (auto simp: keeps_def pop_txn_def write_p_def outcome_def)
  then have "keeps (outcome key v) (seq_p (resume_request k) (return_p ()))"
    unfolding resume_request_def by (intro keeps_intros local_the)
  with Ev_resume assms(1) show ?thesis by (simp add: keepsD)
next
  case (Ev_cancel k)
  have "keeps (outcome key v) (with_pending k (\<lambda>t. set_future k Cancelled))"
    by (intro keeps_intros outcome_future)
  with Ev_cancel assms(1) show ?thesis by (simp add: keepsD)
qed (use assms keepsD [OF outcome_dispatch] keepsD [OF outcome_fire] in simp_all)

fun response_id :: "apdu \<Rightarrow> int" where
  "response_id (SimpleAckPDU p) = sa_invoke_id p"
| "response_id (ComplexAckPDU p) = ca_invoke_id p"
| "response_id (SegmentAckPDU p) = sg_invoke_id p"
| "response_id (ErrorPDU p) = er_invoke_id p"
| "response_id (RejectPDU p) = rj_invoke_id p"
| "response_id (AbortPDU p) = ab_invoke_id p"
| "response_id (ConfirmedRequestPDU p) = cr_invoke_id p"
| "response_id (UnconfirmedRequestPDU p) = 0"

lemma dispatch_local: "same_but (src, response_id pdu) s (snd (client_dispatch src pdu s))"
  by (cases pdu) (auto intro!: keepsD [OF local_handlers(1)] keepsD [OF local_handlers(2)]
      keepsD [OF local_handlers(3)] keepsD [OF local_handlers(4)] keepsD [OF local_handlers(5)]
      keepsD [OF local_handlers(6)] keepsD [OF local_handlers(7)] simp: return_p_def)

section \<open>An unsegmented request without an answer\<close>

text \<open>The retry counter goes up, the same APDU is sent again, until the retries are used up.\<close>

lemma plain_transmit:
  assumes "octet (ct_invoke_id t)" "octet (ct_service_choice t)"
    "int (length (ct_request_data t)) \<le> max_payload t"
  shows "transmit_request key (upd key t ms s) =
    (Inr (), upd key (t\<lparr>ct_state := AWAIT_CONFIRMATION, ct_timeout_handle := Some T_arr\<rparr>)
      (ms @ [(encoded (plain_request s t (ct_effective_max_apdu t)), ct_destination t, True)]) s)"
  using assms by (simp add: transmit_request_def run_on on_txn max_payload_def)

lemma plain_retry:
  assumes "octet (ct_invoke_id t)" "octet (ct_service_choice t)"
    and "int (length (ct_request_data t)) \<le> max_payload t" and "ct_future t = Pending"
    and "ct_state t = AWAIT_CONFIRMATION" "ct_timeout_handle t = Some T_arr"
    and "ct_retry_count t < cm_retries s"
  shows "fire_timer key (upd key t ms s) =
    (Inr (), upd key (t\<lparr>ct_retry_count := ct_retry_count t + 1\<rparr>)
      (ms @ [(encoded (plain_request s t (ct_effective_max_apdu t)), ct_destination t, True)]) s)"
proof -
  let ?t = "t\<lparr>ct_timeout_handle := None, ct_retry_count := ct_retry_count t + 1\<rparr>"
  have "transmit_request key (upd key ?t ms s) = (Inr (), upd key
      (?t\<lparr>ct_state := AWAIT_CONFIRMATION, ct_timeout_handle := Some T_arr\<rparr>)
      (ms @ [(encoded (plain_request s ?t (ct_effective_max_apdu ?t)), ct_destination ?t, True)]) s)"
    using assms by (intro plain_transmit) (simp_all add: max_payload_def)
  moreover have "?t\<lparr>ct_state := AWAIT_CONFIRMATION, ct_timeout_handle := Some T_arr\<rparr>
      = t\<lparr>ct_retry_count := ct_retry_count t + 1\<rparr>"
    using assms(5,6) by (intro client_txn.equality) simp_all
  ultimately show ?thesis
    using assms(4-) by (simp add: fire_timer_def on_timeout_def run_on on_txn plain_request_def)
qed

lemma plain_gives_up:
  assumes "ct_future t = Pending" "ct_timeout_handle t = Some T_arr"
    "\<not> ct_retry_count t < cm_retries s"
  shows "fire_timer key (upd key t ms s) =
    (Inr (), upd key (t\<lparr>ct_timeout_handle := None, ct_future := Failed BACnetTimeoutError\<rparr>) ms s)"
  using assms by (simp add: fire_timer_def on_timeout_def run_on on_txn)

lemma plain_silence:
  assumes "octet (ct_invoke_id t)" "octet (ct_service_choice t)"
    and "int (length (ct_request_data t)) \<le> max_payload t" and "ct_future t = Pending"
    and "ct_state t = AWAIT_CONFIRMATION" "ct_timeout_handle t = Some T_arr"
    and "cm_retries s = ct_retry_count t + int n"
  shows "\<exists>t'. fire_times (Suc n) key (upd key t ms s) = (Inr (), upd key t'
      (ms @ replicate n (encoded (plain_request s t (ct_effective_max_apdu t)), ct_destination t, True)) s)
    \<and> ct_future t' = Failed BACnetTimeoutError"
  using assms
proof (induction n arbitrary: t ms)
  case 0
  then show ?case
    by (intro exI [of _ "t\<lparr>ct_timeout_handle := None, ct_future := Failed BACnetTimeoutError\<rparr>"])
      (simp add: run_on plain_gives_up)
next
  case (Suc n)
  let ?m = "(encoded (plain_request s t (ct_effective_max_apdu t)), ct_destination t, True)"
  let ?t = "t\<lparr>ct_retry_count := ct_retry_count t + 1\<rparr>"
  have r: "fire_timer key (upd key t ms s) = (Inr (), upd key ?t (ms @ [?m]) s)"
    using Suc.prems by (intro plain_retry) simp_all
  have m: "(encoded (plain_request s ?t (ct_effective_max_apdu ?t)), ct_destination ?t, True) = ?m"
    by (simp add: plain_request_def)
  obtain t' where "fire_times (Suc n) key (upd key ?t (ms @ [?m]) s) = (Inr (), upd key t'
      ((ms @ [?m]) @ replicate n ?m) s)" "ct_future t' = Failed BACnetTimeoutError"
    using Suc.IH [of ?t "ms @ [?m]"] Suc.prems m by (auto simp: max_payload_def)
  with r show ?case
    by (intro exI [of _ t']) (simp add: run_on)
qed

lemma send_plain:
  assumes inv: "client_inv s" and r: "send_request sc data dest override s = (Inr key, s')"
    and short: "int (length data) \<le> compute_max_segment_payload
      (case override of Some m \<Rightarrow> m | None \<Rightarrow> cm_max_apdu_length s) Seg_confirmed_request"
  shows "\<exists>t n m. s' = upd key t [m] (s\<lparr>cm_next_invoke_id := n\<rparr>)
    \<and> m = (encoded (plain_request s t (ct_effective_max_apdu t)), dest, True)
    \<and> ct_destination t = dest \<and> ct_request_data t = data \<and> ct_retry_count t = 0
    \<and> octet (ct_invoke_id t) \<and> octet (ct_service_choice t) \<and> int (length data) \<le> max_payload t
    \<and> ct_future t = Pending \<and> ct_state t = AWAIT_CONFIRMATION \<and> ct_timeout_handle t = Some T_arr"
proof -
  obtain x s1 where a: "allocate_invoke_id dest s = (x, s1)" by fastforce
  with r obtain iid where x: "x = Inr iid" by (cases x) (simp_all add: send_request_run [OF client_inv_up [OF inv]])
  obtain n where s1: "s1 = s\<lparr>cm_next_invoke_id := n\<rparr>" using allocate_state [of dest s] a by auto
  let ?k = "(dest, iid)" and ?t = "new_txn s sc data dest override iid"
  have w: "1 \<le> cm_proposed_window_size s1" using inv s1 by (simp add: client_inv_def)
  have pl: "int (length (ct_request_data ?t)) \<le> max_payload ?t"
    using short by (simp add: new_txn_def max_payload_def)
  have iid: "octet (ct_invoke_id ?t)"
    using allocate_some(1) [of dest s iid s1] a x by (simp add: new_txn_def)
  have sc: "octet (ct_service_choice ?t)"
  proof (rule ccontr)
    assume "\<not> octet (ct_service_choice ?t)"
    then obtain e where "fst (transmit_request ?k (upd ?k ?t [] s1)) = Inl e"
      using transmit_refuses [of ?t s1 ?k "[]"] w by auto
    then show False
      using r a x by (cases "transmit_request ?k (upd ?k ?t [] s1)") (simp add: send_request_run [OF client_inv_up [OF inv]])
  qed
  note e = plain_transmit [OF iid sc pl, of ?k "[]" s1]
  let ?t' = "?t\<lparr>ct_state := AWAIT_CONFIRMATION, ct_timeout_handle := Some T_arr\<rparr>"
  have k: "key = ?k" "s' = upd ?k ?t' [(encoded (plain_request s1 ?t (ct_effective_max_apdu ?t)), ct_destination ?t, True)] s1"
    using r a x e by (auto simp: send_request_run [OF client_inv_up [OF inv]])
  have p: "plain_request s1 ?t = plain_request s ?t'"
    by (rule ext) (simp add: plain_request_def s1)
  have d: "ct_destination ?t = dest" by (simp add: new_txn_def)
  have k2: "s' = upd ?k ?t' [(encoded (plain_request s ?t' (ct_effective_max_apdu ?t')), dest, True)]
      (s\<lparr>cm_next_invoke_id := n\<rparr>)"
    using k(2) p d by (simp flip: s1)
  let ?m = "(encoded (plain_request s ?t' (ct_effective_max_apdu ?t')), dest, True)"
  have f: "ct_destination ?t' = dest" "ct_request_data ?t' = data" "ct_retry_count ?t' = 0"
    "ct_future ?t' = Pending" "ct_state ?t' = AWAIT_CONFIRMATION" "ct_timeout_handle ?t' = Some T_arr"
    by (simp_all add: new_txn_def)
  have g: "octet (ct_invoke_id ?t')" "octet (ct_service_choice ?t')" "int (length data) \<le> max_payload ?t'"
    using iid sc pl by (simp_all add: new_txn_def max_payload_def)
  from k2 [folded k(1)] f g show ?thesis by blast
qed

end
