(* ===== verification/Server_Tsm_Laws.thy ===== *)
theory Server_Tsm_Laws
  imports Server_Tsm Client_Tsm_Laws
begin

text \<open>
  The laws of the server transaction machine: what its procedures do to one object, and the
  invariant that ties the dictionary, the objects and their timers together.
\<close>

section \<open>Runs on one object\<close>

definition with_obj :: "ref \<Rightarrow> server_txn \<Rightarrow> message list \<Rightarrow> server_tsm \<Rightarrow> server_tsm" where
  "with_obj r t ms s = s\<lparr>sv_objects := (sv_objects s)(r \<mapsto> t), sv_sent := sv_sent s @ ms,
     sv_network := network_up\<rparr>"

definition drop_entry :: "txn_key \<Rightarrow> server_tsm \<Rightarrow> server_tsm" where
  "drop_entry key s = s\<lparr>sv_transactions := (sv_transactions s)(key := None)\<rparr>"

lemma with_obj_id: "sv_objects s r = Some t \<Longrightarrow> sv_network s = network_up \<Longrightarrow> with_obj r t [] s = s"
  by (simp add: with_obj_def fun_upd_idem)

lemma with_obj_fields [simp]:
  "sv_objects (with_obj r t ms s) q = (if q = r then Some t else sv_objects s q)"
  "sv_transactions (with_obj r t ms s) = sv_transactions s"
  "sv_retries (with_obj r t ms s) = sv_retries s"
  "sv_proposed_window_size (with_obj r t ms s) = sv_proposed_window_size s"
  "sv_next_ref (with_obj r t ms s) = sv_next_ref s"
  "sv_sent (with_obj r t ms s) = sv_sent s @ ms"
  "sv_network (with_obj r t ms s) = network_up"
  "with_obj r t' ms' (with_obj r t ms s) = with_obj r t' (ms @ ms') s"
  "drop_entry key (with_obj r t ms s) = with_obj r t ms (drop_entry key s)"
  by (simp_all add: with_obj_def drop_entry_def)

lemma drop_fields [simp]:
  "sv_objects (drop_entry key s) = sv_objects s" "sv_retries (drop_entry key s) = sv_retries s"
  "sv_proposed_window_size (drop_entry key s) = sv_proposed_window_size s"
  "sv_next_ref (drop_entry key s) = sv_next_ref s" "sv_network (drop_entry key s) = sv_network s"
  "sv_transactions (drop_entry key s) = (sv_transactions s)(key := None)"
  by (simp_all add: drop_entry_def)

named_theorems on_obj \<open>procedures on one object\<close>

lemma obj_access [on_obj]:
  "obj r (with_obj r t ms s) = (Inr t, with_obj r t ms s)"
  "set_obj r f (with_obj r t ms s) = (Inr (), with_obj r (f t) ms s)"
  "sv_send d a b (with_obj r t ms s) = (Inr (), with_obj r t (ms @ [(d, a, b)]) s)"
  "pop_entry key (with_obj r t ms s) = (Inr (sv_transactions s key), with_obj r t ms (drop_entry key s))"
  "get_entry key (with_obj r t ms s) = (Inr (sv_transactions s key), with_obj r t ms s)"
  by (simp_all add: obj_def set_obj_def sv_send_def pop_entry_def get_entry_def run with_obj_def
      drop_entry_def network_up_def)

lemma obj_timers [on_obj]:
  "sv_start_timeout r (with_obj r t ms s) = (Inr (), with_obj r (t\<lparr>st_timeout_handle := Some T_request\<rparr>) ms s)"
  "sv_restart_timeout r (with_obj r t ms s) = (Inr (), with_obj r (t\<lparr>st_timeout_handle := Some T_request\<rparr>) ms s)"
  "sv_start_segment_timeout r (with_obj r t ms s) =
     (Inr (), with_obj r (t\<lparr>st_timeout_handle := Some T_srv_seg\<rparr>) ms s)"
  "restart_segment_timeout r (with_obj r t ms s) =
     (Inr (), with_obj r (t\<lparr>st_timeout_handle := Some T_srv_seg\<rparr>) ms s)"
  "start_server_segment_timeout r (with_obj r t ms s) =
     (Inr (), with_obj r (t\<lparr>st_timeout_handle := Some T_srv_wait\<rparr>) ms s)"
  "sv_cancel_timeout r (with_obj r t ms s) = (Inr (), with_obj r (t\<lparr>st_timeout_handle := None\<rparr>) ms s)"
  by (simp_all add: sv_start_timeout_def sv_restart_timeout_def sv_start_segment_timeout_def
      restart_segment_timeout_def start_server_segment_timeout_def sv_cancel_timeout_def on_obj)

definition server_ack :: "server_tsm \<Rightarrow> server_txn \<Rightarrow> int \<Rightarrow> bool \<Rightarrow> bytes" where
  "server_ack s t seq negative = encoded (SegmentAckPDU
     \<lparr>sg_negative_ack = negative, sg_sent_by_server = True, sg_invoke_id = st_invoke_id t,
      sg_sequence_number = seq, sg_actual_window_size = (case st_segment_receiver t of
        Some receiver \<Rightarrow> sr_actual_window_size receiver | None \<Rightarrow> sv_proposed_window_size s)\<rparr>)"

definition obj_ok :: "int \<Rightarrow> server_txn \<Rightarrow> bool" where
  "obj_ok n t \<longleftrightarrow> octet (st_invoke_id t) \<and> 0 \<le> st_seg_retry_count t \<and> st_seg_retry_count t \<le> n
     \<and> (\<forall>rc. st_segment_receiver t = Some rc \<longrightarrow> receiver_wf rc)
     \<and> (\<forall>sd. st_segment_sender t = Some sd \<longrightarrow>
           octet (ss_proposed_window_size sd) \<and> octet (ss_service_choice sd))"

lemma server_ack_on [on_obj]:
  assumes "obj_ok (sv_retries s) t" "octet (sv_proposed_window_size s)" "octet seq"
  shows "send_server_segment_ack r seq neg (with_obj r t ms s) =
    (Inr (), with_obj r t (ms @ [(server_ack s t seq neg, st_source t, True)]) s)"
proof -
  have "octet (case st_segment_receiver t of
      Some receiver \<Rightarrow> sr_actual_window_size receiver | None \<Rightarrow> sv_proposed_window_size s)"
    using assms by (auto simp: obj_ok_def receiver_wf_def split: option.split)
  then show ?thesis
    using assms
    by (cases "st_segment_receiver t")
      (simp_all add: send_server_segment_ack_def run_on on_obj encode_ok obj_ok_def server_ack_def)
qed

definition server_abort :: "server_txn \<Rightarrow> abort_reason \<Rightarrow> bytes" where
  "server_abort t reason = encoded (AbortPDU
     \<lparr>ab_sent_by_server = True, ab_invoke_id = st_invoke_id t, ab_abort_reason = reason\<rparr>)"

lemma server_abort_on [on_obj]:
  assumes "octet (st_invoke_id t)"
  shows "abort_server_transaction r reason (with_obj r t ms s) =
    (Inr (), with_obj r (t\<lparr>st_timeout_handle := None, st_cached_response := None\<rparr>)
       (ms @ [(server_abort t reason, st_source t, False)])
       (drop_entry (st_source t, st_invoke_id t) s))"
  using assms
  by (simp add: abort_server_transaction_def run_on on_obj encode_ok server_abort_def)

lemma each_send_on:
  assumes "\<forall>x \<in> set xs. apdu_ok (f x)"
  shows "each_p (\<lambda>x. bind_p (lift_p (encode_apdu (f x))) (\<lambda>b. sv_send b d w)) xs (with_obj r t ms s) =
    (Inr (), with_obj r t (ms @ map (\<lambda>x. (encoded (f x), d, w)) xs) s)"
  using assms
  by (induction xs arbitrary: ms) (simp_all add: run_on on_obj encode_ok)

definition response_segments :: "server_txn \<Rightarrow> segment_sender \<Rightarrow> message list" where
  "response_segments t sender =
     map (\<lambda>seg. (encoded (response_segment t sender seg), st_source t, True)) (fill_window sender)"

lemma response_window_on [on_obj]:
  assumes "st_segment_sender t = Some sd" "octet (ss_proposed_window_size sd)"
    "octet (ss_service_choice sd)" "octet (st_invoke_id t)"
  shows "fill_and_send_response_window r (with_obj r t ms s) =
    (Inr (), with_obj r (t\<lparr>st_timeout_handle := Some T_srv_wait\<rparr>) (ms @ response_segments t sd) s)"
proof -
  have "\<forall>seg \<in> set (fill_window sd). apdu_ok (response_segment t sd seg)"
    using assms by (auto simp: response_segment_def opt_octet_def dest: fill_window_seq)
  from each_send_on [OF this] show ?thesis
    using assms(1)
    by (simp add: fill_and_send_response_window_def run_on on_obj response_segments_def)
qed

section \<open>The invariant\<close>

text \<open>
  A transaction of the dictionary has the timer its state needs; only one whose segmented
  request has just been completed may have none while its handler runs.
\<close>

definition entry_ok :: "server_txn \<Rightarrow> bool" where
  "entry_ok t \<longleftrightarrow> (case st_state t of
     SV_IDLE \<Rightarrow> st_timeout_handle t = Some T_request
   | SV_SEGMENTED_REQUEST \<Rightarrow> st_timeout_handle t = Some T_srv_seg \<and> st_segment_receiver t \<noteq> None
   | AWAIT_RESPONSE \<Rightarrow> st_timeout_handle t = Some T_request
       \<or> st_timeout_handle t = None \<and> st_segment_receiver t \<noteq> None
   | SEGMENTED_RESPONSE \<Rightarrow> st_timeout_handle t = Some T_srv_wait \<and> st_segment_sender t \<noteq> None)"

definition server_inv :: "server_tsm \<Rightarrow> bool" where
  "server_inv s \<longleftrightarrow> 0 \<le> sv_retries s \<and> sv_network s = network_up
     \<and> octet (sv_proposed_window_size s) \<and> 1 \<le> sv_proposed_window_size s
     \<and> (\<forall>r. sv_next_ref s \<le> r \<longrightarrow> sv_objects s r = None)
     \<and> (\<forall>r t. sv_objects s r = Some t \<longrightarrow> obj_ok (sv_retries s) t)
     \<and> (\<forall>src i r. sv_transactions s (src, i) = Some r \<longrightarrow>
          (\<exists>t. sv_objects s r = Some t \<and> st_source t = src \<and> st_invoke_id t = i \<and> entry_ok t))"

text \<open>
  What a procedure does to the state with object \<open>t\<close> at \<open>r\<close>: it returns, the object stays
  good, and if it is in the dictionary it has its timer or is taken out.
\<close>

definition serves :: "ref \<Rightarrow> server_txn \<Rightarrow> 'a server_proc \<Rightarrow> server_tsm \<Rightarrow> ('a \<Rightarrow> bool) \<Rightarrow> bool" where
  "serves r t m s Q \<longleftrightarrow> (\<exists>x t' ms s'. m (with_obj r t [] s) = (Inr x, with_obj r t' ms s') \<and> Q x
     \<and> obj_ok (sv_retries s) t' \<and> st_source t' = st_source t \<and> st_invoke_id t' = st_invoke_id t
     \<and> (s' = s \<and> entry_ok t' \<or> s' = drop_entry (st_source t, st_invoke_id t) s))"

lemma servesI:
  "m (with_obj r t [] s) = (Inr x, with_obj r t' ms s) \<Longrightarrow> Q x \<Longrightarrow> obj_ok (sv_retries s) t' \<Longrightarrow>
   st_source t' = st_source t \<Longrightarrow> st_invoke_id t' = st_invoke_id t \<Longrightarrow> entry_ok t' \<Longrightarrow>
   serves r t m s Q"
  "m (with_obj r t [] s) = (Inr x, with_obj r t' ms (drop_entry (st_source t, st_invoke_id t) s)) \<Longrightarrow> Q x \<Longrightarrow>
   obj_ok (sv_retries s) t' \<Longrightarrow> st_source t' = st_source t \<Longrightarrow> st_invoke_id t' = st_invoke_id t \<Longrightarrow>
   serves r t m s Q"
  unfolding serves_def by blast+

lemma server_inv_objD: "server_inv s \<Longrightarrow> sv_objects s r = Some t \<Longrightarrow> obj_ok (sv_retries s) t"
  by (simp add: server_inv_def)

lemma server_inv_entryD:
  "server_inv s \<Longrightarrow> sv_transactions s (src, i) = Some r \<Longrightarrow>
   \<exists>t. sv_objects s r = Some t \<and> st_source t = src \<and> st_invoke_id t = i \<and> entry_ok t"
  by (simp add: server_inv_def)

lemma server_inv_drop: "server_inv s \<Longrightarrow> server_inv (drop_entry key s)"
  by (auto simp: server_inv_def)

lemma server_inv_with_obj:
  assumes "server_inv s" "obj_ok (sv_retries s) t'" "r < sv_next_ref s"
    and "\<And>src i. sv_transactions s (src, i) = Some r \<Longrightarrow>
      st_source t' = src \<and> st_invoke_id t' = i \<and> entry_ok t'"
  shows "server_inv (with_obj r t' ms s)"
  using assms by (auto simp: server_inv_def)

lemma server_inv_ref: "server_inv s \<Longrightarrow> sv_objects s r = Some t \<Longrightarrow> r < sv_next_ref s"
  by (auto simp: server_inv_def intro: leI)

lemma serves_inv_at:
  assumes inv: "server_inv s" and t: "sv_objects s r = Some t"
    and t0: "st_source t0 = st_source t" "st_invoke_id t0 = st_invoke_id t"
    and m: "serves r t0 m s Q"
  shows "\<exists>x s'. m (with_obj r t0 [] s) = (Inr x, s') \<and> Q x \<and> server_inv s'
    \<and> (\<forall>q. sv_objects s q \<noteq> None \<longrightarrow> sv_objects s' q \<noteq> None)"
proof -
  obtain x t' ms s' where e: "m (with_obj r t0 [] s) = (Inr x, with_obj r t' ms s')" "Q x"
    and t': "obj_ok (sv_retries s) t'" "st_source t' = st_source t" "st_invoke_id t' = st_invoke_id t"
    and s': "s' = s \<and> entry_ok t' \<or> s' = drop_entry (st_source t, st_invoke_id t) s"
    using m t0 unfolding serves_def by auto
  note r = server_inv_ref [OF inv t]
  have own: "st_source t = src \<and> st_invoke_id t = i" if "sv_transactions s (src, i) = Some r" for src i
    using server_inv_entryD [OF inv that] t by auto
  from s' have "server_inv (with_obj r t' ms s')"
  proof
    assume "s' = s \<and> entry_ok t'"
    then show ?thesis using inv t' r own by (auto intro!: server_inv_with_obj)
  next
    assume d: "s' = drop_entry (st_source t, st_invoke_id t) s"
    show ?thesis
      using inv t' r own
      by (auto simp: d intro!: server_inv_with_obj server_inv_drop split: if_splits)
  qed
  moreover have "\<forall>q. sv_objects s q \<noteq> None \<longrightarrow> sv_objects (with_obj r t' ms s') q \<noteq> None"
    using s' by auto
  ultimately show ?thesis using e by auto
qed

lemma serves_inv:
  assumes "server_inv s" "sv_objects s r = Some t" "serves r t m s Q"
  shows "\<exists>x s'. m s = (Inr x, s') \<and> Q x \<and> server_inv s'
    \<and> (\<forall>q. sv_objects s q \<noteq> None \<longrightarrow> sv_objects s' q \<noteq> None)"
proof -
  have "sv_network s = network_up" using assms(1) by (simp add: server_inv_def)
  with serves_inv_at [OF assms(1,2) refl refl assms(3)] show ?thesis by (simp add: with_obj_id [OF assms(2)])
qed

section \<open>Operations keep the invariant\<close>

text \<open>Reception of a segment by the transaction that collects them.\<close>

lemma request_segment_serves:
  assumes inv: "server_inv s" and r: "sv_transactions s (src, cr_invoke_id pdu) = Some r"
    and t: "obj_ok (sv_retries s) t" "st_source t = src" "st_invoke_id t = cr_invoke_id pdu"
    and st: "st_state t = SV_SEGMENTED_REQUEST" "entry_ok t"
    and q: "opt_octet (cr_sequence_number pdu)"
  shows "serves r t (handle_request_segment pdu src) s (\<lambda>res. \<forall>p. res = Some p \<longrightarrow> fst p = r)"
proof -
  obtain rc where rc: "st_segment_receiver t = Some rc"
    using st by (auto simp: entry_ok_def)
  have wf: "receiver_wf rc" and iid: "octet (st_invoke_id t)" using t(1) rc by (auto simp: obj_ok_def)
  have w: "octet (sv_proposed_window_size s)" using inv by (simp add: server_inv_def)
  show ?thesis
  proof (cases "cr_sequence_number pdu")
    case None
    with r st t rc show ?thesis
      by (intro servesI(1), simp add: handle_request_segment_def run_on on_obj, simp_all)
  next
    case (Some seq)
    with q have q: "octet seq" by (simp add: opt_octet_def)
    obtain action ack rc' where e: "receive_segment rc seq (cr_service_request pdu)
        (cr_more_follows pdu) = ((action, ack), rc')" by (metis prod.exhaust)
    note rc' = receive_wf [OF wf q e]
    obtain d where d: "action = COMPLETE \<Longrightarrow> reassemble rc' = Inr d"
      using reassemble_ok [OF rc'(1)] rc'(3) by auto
    let ?t = "t\<lparr>st_segment_receiver := Some rc'\<rparr>"
    have ok: "obj_ok (sv_retries s) ?t"
      using t(1) rc'(1) by (simp add: obj_ok_def)
    have ok0: "obj_ok (sv_retries s) (?t\<lparr>st_timeout_handle := None\<rparr>)"
      using ok by (simp add: obj_ok_def)
    note run = handle_request_segment_def run_on on_obj r st(1) rc Some e
    show ?thesis
    proof (cases action)
      case COMPLETE
      then show ?thesis
        using ok ok0 w rc'(2) d
        by (intro servesI(1), simp add: run, simp_all add: obj_ok_def entry_ok_def)
    next
      case ABORT
      then show ?thesis
        using ok iid t(2,3) by (intro servesI(2), simp add: run, simp_all add: obj_ok_def)
    next
      case SEND_ACK
      then show ?thesis
        using ok w rc'(2) by (intro servesI(1), simp add: run, simp_all add: obj_ok_def entry_ok_def st)
    next
      case RESEND_LAST_ACK
      then show ?thesis
        using ok w rc'(2) by (intro servesI(1), simp add: run, simp_all add: obj_ok_def entry_ok_def st)
    next
      case CONTINUE
      then show ?thesis
        using ok w by (intro servesI(1), simp add: run, simp_all add: obj_ok_def entry_ok_def st)
    qed
  qed
qed

lemma segment_ack_serves:
  assumes inv: "server_inv s" and r: "sv_transactions s (src, sg_invoke_id p) = Some r"
    and t: "obj_ok (sv_retries s) t" "st_source t = src" "st_invoke_id t = sg_invoke_id p" "entry_ok t"
  shows "serves r t (handle_segment_ack_for_response src p) s (\<lambda>_. True)"
proof (cases "st_state t = SEGMENTED_RESPONSE")
  case False
  with r t show ?thesis
    by (intro servesI(1)) (simp_all add: handle_segment_ack_for_response_def run_on on_obj)
next
  case st: True
  then obtain sd where sd: "st_segment_sender t = Some sd" using t(4) by (auto simp: entry_ok_def)
  have ok: "octet (ss_proposed_window_size sd)" "octet (ss_service_choice sd)" "octet (st_invoke_id t)"
    using t(1) sd by (auto simp: obj_ok_def)
  have n: "0 \<le> sv_retries s" using inv by (simp add: server_inv_def)
  obtain c sd' where a: "sender_handle_segment_ack sd (sg_sequence_number p)
      (sg_actual_window_size p) (sg_negative_ack p) = (c, sd')" by fastforce
  then have sd': "ss_proposed_window_size sd' = ss_proposed_window_size sd"
    "ss_service_choice sd' = ss_service_choice sd"
    by (auto simp: sender_handle_segment_ack_def Let_def)
  note run = handle_segment_ack_for_response_def run_on on_obj r st sd a
  consider "sg_actual_window_size p < 1 \<or> 127 < sg_actual_window_size p"
    | "1 \<le> sg_actual_window_size p" "sg_actual_window_size p \<le> 127" c
    | "1 \<le> sg_actual_window_size p" "sg_actual_window_size p \<le> 127" "\<not> c" by linarith
  then show ?thesis
  proof cases
    case 1
    then show ?thesis
      using t ok by (elim disjE; intro servesI(2), simp add: run, simp_all add: obj_ok_def)
  next
    case 2
    then show ?thesis
      using t n by (intro servesI(1), simp add: run, simp_all add: obj_ok_def entry_ok_def)
  next
    case 3
    then show ?thesis
      using t ok n sd'
      by (intro servesI(1), simp add: run, simp_all add: obj_ok_def entry_ok_def st)
  qed
qed

lemma segmented_response_run:
  assumes inv: "server_inv s" and t: "obj_ok (sv_retries s) t" and sc: "octet sc"
  shows "serves r t (start_segmented_response r sc data) s (\<lambda>_. True)
    \<or> (\<exists>e. start_segmented_response r sc data (with_obj r t [] s) = (Inl e, with_obj r t [] s))"
proof -
  have w: "octet (sv_proposed_window_size s)" using inv by (simp add: server_inv_def)
  have iid: "octet (st_invoke_id t)" using t by (simp add: obj_ok_def)
  let ?create = "create_sender data (st_invoke_id t) sc (st_client_max_apdu_length t) Seg_complex_ack
    (sv_proposed_window_size s) (st_client_max_segments t)"
  note run = start_segmented_response_def run_on on_obj
  consider "\<not> st_segmented_response_accepted t"
    | e where "st_segmented_response_accepted t" "?create = Inl (SegRaised e)"
    | a where "st_segmented_response_accepted t" "?create = Inl (SegmentationError a)"
    | sd where "st_segmented_response_accepted t" "?create = Inr sd"
    by (metis seg_error.exhaust sumE)
  then show ?thesis
  proof cases
    case 1
    then show ?thesis
      using t iid by (intro disjI1, intro servesI(2), simp add: run, simp_all add: obj_ok_def)
  next
    case (2 e)
    then show ?thesis by (simp add: run)
  next
    case (3 a)
    then show ?thesis
      using t iid by (intro disjI1, intro servesI(2), simp add: run, simp_all add: obj_ok_def)
  next
    case (4 sd)
    then have "ss_proposed_window_size sd = sv_proposed_window_size s" "ss_service_choice sd = sc"
      by (auto simp: create_sender_def split: sum.splits if_splits)
    moreover have "encode_apdu (full_ack (st_invoke_id t) sc data)
        = Inr (encoded (full_ack (st_invoke_id t) sc data))"
      using iid sc by (intro encode_ok) (simp add: full_ack_def)
    ultimately show ?thesis
      using 4 t iid w sc
      by (intro disjI1, intro servesI(1), simp add: run, simp_all add: obj_ok_def entry_ok_def)
  qed
qed

lemma complete_serves:
  assumes "obj_ok (sv_retries s) t"
  shows "serves r t (complete_transaction r bs) s (\<lambda>_. True)"
  using assms
  by (intro servesI(1), simp add: complete_transaction_def run_on on_obj,
      simp_all add: obj_ok_def entry_ok_def)

text \<open>A segment timer that finds the transaction at its key, whose own handle may be gone.\<close>

lemma segment_timeout_serves:
  assumes inv: "server_inv s" and r: "sv_transactions s (src, i) = Some r"
    and t: "obj_ok (sv_retries s) t" "st_source t = src" "st_invoke_id t = i"
    and st: "st_state t = SV_SEGMENTED_REQUEST \<and> st_segment_receiver t \<noteq> None
      \<or> st_state t = SEGMENTED_RESPONSE \<and> st_segment_sender t \<noteq> None
      \<or> st_state t \<noteq> SV_SEGMENTED_REQUEST \<and> st_state t \<noteq> SEGMENTED_RESPONSE \<and> entry_ok t"
  shows "serves r t (on_server_segment_timeout (src, i)) s (\<lambda>_. True)"
proof -
  have w: "octet (sv_proposed_window_size s)" using inv by (simp add: server_inv_def)
  have iid: "octet (st_invoke_id t)" using t(1) by (simp add: obj_ok_def)
  note run = on_server_segment_timeout_def run_on on_obj r
  consider "st_state t = SV_SEGMENTED_REQUEST" "st_segment_receiver t \<noteq> None"
      "st_seg_retry_count t < sv_retries s"
    | "st_state t = SEGMENTED_RESPONSE" "st_segment_sender t \<noteq> None"
      "st_seg_retry_count t < sv_retries s"
    | "st_state t = SV_SEGMENTED_REQUEST \<or> st_state t = SEGMENTED_RESPONSE"
      "\<not> st_seg_retry_count t < sv_retries s"
    | "st_state t \<noteq> SV_SEGMENTED_REQUEST" "st_state t \<noteq> SEGMENTED_RESPONSE" "entry_ok t"
    using st by blast
  then show ?thesis
  proof cases
    case 1
    then obtain rc where rc: "st_segment_receiver t = Some rc" by auto
    let ?t = "t\<lparr>st_seg_retry_count := st_seg_retry_count t + 1\<rparr>"
    have "obj_ok (sv_retries s) ?t" "octet (sr_last_ack_seq rc)"
      using t(1) 1 rc by (auto simp: obj_ok_def receiver_wf_def)
    then show ?thesis
      using 1 rc t w
      by (intro servesI(1), simp add: run, simp_all add: obj_ok_def entry_ok_def)
  next
    case 2
    then obtain sd where sd: "st_segment_sender t = Some sd" by auto
    then have "octet (ss_proposed_window_size sd)" "octet (ss_service_choice sd)"
      using t(1) by (auto simp: obj_ok_def)
    then show ?thesis
      using 2 sd t iid
      by (intro servesI(1), simp add: run, simp_all add: obj_ok_def entry_ok_def)
  next
    case 3
    then show ?thesis
      using t iid by (elim disjE; intro servesI(2), simp add: run, simp_all add: obj_ok_def)
  next
    case 4
    then show ?thesis using t by (intro servesI(1), simp add: run, simp_all)
  qed
qed

section \<open>Requests and timers in any state\<close>

text \<open>A procedure that returns, keeps the invariant and drops no object.\<close>

definition sound :: "'a server_proc \<Rightarrow> server_tsm \<Rightarrow> ('a \<Rightarrow> server_tsm \<Rightarrow> bool) \<Rightarrow> bool" where
  "sound m s Q \<longleftrightarrow> (\<exists>x s'. m s = (Inr x, s') \<and> Q x s' \<and> server_inv s'
     \<and> (\<forall>q. sv_objects s q \<noteq> None \<longrightarrow> sv_objects s' q \<noteq> None))"

lemma soundI:
  "m s = (Inr x, s') \<Longrightarrow> Q x s' \<Longrightarrow> server_inv s' \<Longrightarrow>
   (\<And>q. sv_objects s q \<noteq> None \<Longrightarrow> sv_objects s' q \<noteq> None) \<Longrightarrow> sound m s Q"
  by (auto simp: sound_def)

lemma serves_sound:
  assumes "server_inv s" "sv_objects s r = Some t" "serves r t m s P"
    and "\<And>x s'. P x \<Longrightarrow> server_inv s' \<Longrightarrow> sv_objects s' r \<noteq> None \<Longrightarrow> Q x s'"
  shows "sound m s Q"
proof -
  obtain x s' where "m s = (Inr x, s')" "P x" "server_inv s'"
    "\<forall>q. sv_objects s q \<noteq> None \<longrightarrow> sv_objects s' q \<noteq> None"
    using serves_inv [OF assms(1-3)] by blast
  with assms(2,4) show ?thesis unfolding sound_def by blast
qed

definition valid_received :: "received \<Rightarrow> server_tsm \<Rightarrow> bool" where
  "valid_received res s \<longleftrightarrow> (\<forall>p. res = Some p \<longrightarrow> sv_objects s (fst p) \<noteq> None)"

text \<open>The dictionary and the store with a new object.\<close>

lemma server_inv_new:
  assumes inv: "server_inv s" and r: "r = sv_next_ref s"
    and t: "obj_ok (sv_retries s) t" "entry_ok t" "key = (st_source t, st_invoke_id t)"
  shows "server_inv (with_obj r t ms
    (s\<lparr>sv_next_ref := r + 1, sv_transactions := (sv_transactions s)(key \<mapsto> r)\<rparr>))"
proof -
  have "sv_transactions s (src, i) \<noteq> Some r" for src i
    using inv r unfolding server_inv_def by (metis option.distinct(1) order_refl)
  then show ?thesis
    using inv t by (auto simp: server_inv_def r)
qed

definition new_server_txn :: "confirmed_request \<Rightarrow> bacnet_address \<Rightarrow> server_txn" where
  "new_server_txn pdu src =
     \<lparr>st_invoke_id = cr_invoke_id pdu, st_source = src,
      st_service_choice = cr_service_choice pdu, st_state = AWAIT_RESPONSE,
      st_cached_response = None, st_timeout_handle = Some T_request, st_segment_receiver = None,
      st_segment_sender = None, st_seg_retry_count = 0,
      st_client_max_apdu_length = cr_max_apdu_length pdu,
      st_client_max_segments = cr_max_segments pdu,
      st_segmented_response_accepted = cr_segmented_response_accepted pdu\<rparr>"

lemma server_inv_up: "server_inv s \<Longrightarrow> network_up = sv_network s"
  by (simp add: server_inv_def)

lemma receive_new_request:
  assumes inv: "server_inv s" and new: "sv_transactions s (src, cr_invoke_id pdu) = None"
    and ok: "apdu_ok (ConfirmedRequestPDU pdu)"
  shows "sound (receive_confirmed_request pdu src) s valid_received"
proof -
  let ?r = "sv_next_ref s" and ?key = "(src, cr_invoke_id pdu)"
  let ?t = "new_server_txn pdu src"
  let ?s = "s\<lparr>sv_next_ref := ?r + 1, sv_transactions := (sv_transactions s)(?key \<mapsto> ?r)\<rparr>"
  let ?rc = "create_receiver (cr_service_request pdu) (cr_service_choice pdu)
    (or_one (cr_proposed_window_size pdu)) (cr_more_follows pdu) (sv_proposed_window_size s)"
  have n: "0 \<le> sv_retries s" and w: "octet (sv_proposed_window_size ?s)"
    using inv by (simp_all add: server_inv_def)
  have iid: "octet (cr_invoke_id pdu)" using ok by simp
  have t: "obj_ok (sv_retries ?s) ?t" "entry_ok ?t" "?key = (st_source ?t, st_invoke_id ?t)"
    using n iid by (simp_all add: obj_ok_def entry_ok_def new_server_txn_def)
  have start: "receive_confirmed_request pdu src s =
    (if cr_segmented pdu
     then seq_p (set_obj ?r (\<lambda>t. t\<lparr>st_state := SV_SEGMENTED_REQUEST, st_segment_receiver := Some ?rc\<rparr>))
             (if \<not> cr_more_follows pdu
              then seq_p (set_obj ?r (\<lambda>t. t\<lparr>st_state := AWAIT_RESPONSE\<rparr>))
                  (seq_p (send_server_segment_ack ?r 0 False)
                  (bind_p (lift_p (reassemble ?rc)) (\<lambda>data. return_p (Some (?r, Some data)))))
              else seq_p (send_server_segment_ack ?r 0 False)
                  (seq_p (sv_start_segment_timeout ?r) (return_p (Some (?r, None)))))
     else return_p (Some (?r, Some (cr_service_request pdu)))) (with_obj ?r ?t [] ?s)"
    using new
    by (simp add: receive_confirmed_request_def run_on get_entry_def Let_def new_obj_def put_entry_def
        write_p_def sv_start_timeout_def set_obj_def with_obj_def new_server_txn_def server_inv_up [OF inv])
  show ?thesis
  proof (cases "cr_segmented pdu")
    case False
    then have "receive_confirmed_request pdu src s =
        (Inr (Some (?r, Some (cr_service_request pdu))), with_obj ?r ?t [] ?s)"
      by (simp add: start run_on)
    moreover have "server_inv (with_obj ?r ?t [] ?s)"
      using t by (intro server_inv_new inv) simp_all
    ultimately show ?thesis by (auto simp: sound_def valid_received_def)
  next
    case seg: True
    have rc: "receiver_wf ?rc"
      using w ok seg by (intro receiver_wf_create or_one_octet) simp_all
    obtain d where d: "\<not> cr_more_follows pdu \<Longrightarrow> reassemble ?rc = Inr d"
      using reassemble_ok [OF rc] create_complete by blast
    let ?t' = "if cr_more_follows pdu
      then ?t\<lparr>st_state := SV_SEGMENTED_REQUEST, st_segment_receiver := Some ?rc,
              st_timeout_handle := Some T_srv_seg\<rparr>
      else ?t\<lparr>st_segment_receiver := Some ?rc, st_state := AWAIT_RESPONSE\<rparr>"
    have "obj_ok (sv_retries s) ?t'"
      using n rc iid by (cases "cr_more_follows pdu") (simp_all add: obj_ok_def new_server_txn_def)
    moreover have "entry_ok ?t'"
      by (cases "cr_more_follows pdu") (simp_all add: entry_ok_def new_server_txn_def)
    moreover have "?key = (st_source ?t', st_invoke_id ?t')"
      by (simp add: new_server_txn_def)
    ultimately have new: "server_inv (with_obj ?r ?t' ms ?s)" for ms
      by (intro server_inv_new inv refl)
    have o: "obj_ok (sv_retries ?s) (?t\<lparr>st_state := SV_SEGMENTED_REQUEST, st_segment_receiver := Some ?rc\<rparr>)"
      "obj_ok (sv_retries ?s) (?t\<lparr>st_segment_receiver := Some ?rc, st_state := AWAIT_RESPONSE\<rparr>)"
      using t(1) rc by (simp_all add: obj_ok_def)
    have z: "octet 0" by (simp add: octet_def)
    have "\<exists>ms x. receive_confirmed_request pdu src s = (Inr x, with_obj ?r ?t' ms ?s) \<and> (\<exists>y. x = Some (?r, y))"
      using o w z d seg
      by (cases "cr_more_follows pdu") (auto simp: start run_on on_obj)
    then obtain ms x where e: "receive_confirmed_request pdu src s = (Inr x, with_obj ?r ?t' ms ?s)"
      "\<exists>y. x = Some (?r, y)" by blast
    from new [of ms] e show ?thesis
      by (auto simp: sound_def valid_received_def)
  qed
qed

lemma receive_sound:
  assumes inv: "server_inv s" and ok: "apdu_ok (ConfirmedRequestPDU pdu)" 
    and seg: "\<not> cr_segmented pdu \<Longrightarrow> cr_sequence_number pdu = None"
  shows "sound (receive_confirmed_request pdu src) s valid_received"
proof (cases "sv_transactions s (src, cr_invoke_id pdu)")
  case None
  then show ?thesis by (rule receive_new_request [OF inv _ ok])
next
  case (Some r)
  obtain t where t: "sv_objects s r = Some t" "st_source t = src" "st_invoke_id t = cr_invoke_id pdu"
    "entry_ok t" using server_inv_entryD [OF inv Some] by blast
  note run = receive_confirmed_request_def run_on get_entry_def obj_def Let_def Some t(1)
  show ?thesis
  proof (cases "st_state t = SV_SEGMENTED_REQUEST")
    case True
    have e: "receive_confirmed_request pdu src s = handle_request_segment pdu src s"
      using True by (simp add: run)
    have "opt_octet (cr_sequence_number pdu)"
      using ok seg by (cases "cr_segmented pdu") (simp_all add: opt_octet_def)
    note m = request_segment_serves [OF inv Some server_inv_objD [OF inv t(1)] t(2,3) True t(4) this]
    have "sound (handle_request_segment pdu src) s valid_received"
      by (rule serves_sound [OF inv t(1) m]) (auto simp: valid_received_def)
    then show ?thesis by (simp add: sound_def e)
  next
    case False
    then show ?thesis
      using inv by (cases "st_cached_response t")
        (auto intro!: soundI simp: run sv_send_def write_p_def valid_received_def server_inv_def network_up_def)
  qed
qed

text \<open>The callback of a timer, which may find another transaction at the key.\<close>

lemma on_timeout_sound:
  assumes inv: "server_inv s"
  shows "sound (sv_on_timeout key) s (\<lambda>_ _. True)"
proof (cases "sv_transactions s key")
  case None
  with server_inv_drop [OF inv, of key] show ?thesis
    by (simp add: sound_def sv_on_timeout_def run_on pop_entry_def drop_entry_def)
next
  case (Some r)
  obtain src i where key: "key = (src, i)" by (cases key)
  obtain t where t: "sv_objects s r = Some t" "st_source t = src" "st_invoke_id t = i"
    using server_inv_entryD [OF inv] Some key by blast
  let ?s = "with_obj r (t\<lparr>st_cached_response := None\<rparr>) [] (drop_entry key s)"
  have "sv_on_timeout key s = (Inr (), ?s)"
    using Some t(1)
    by (simp add: sv_on_timeout_def run_on pop_entry_def drop_entry_def set_obj_def write_p_def
        with_obj_def server_inv_up [OF inv])
  moreover have "server_inv ?s"
    using server_inv_objD [OF inv t(1)] server_inv_ref [OF inv t(1)] server_inv_entryD [OF inv] t key
    by (intro server_inv_with_obj server_inv_drop inv) (fastforce simp: obj_ok_def split: if_splits)+
  ultimately show ?thesis by (simp add: sound_def)
qed

lemma fire_sound:
  assumes inv: "server_inv s" and t: "sv_objects s r = Some t"
  shows "sound (sv_fire_timer r) s (\<lambda>_ _. True)"
proof -
  let ?t = "t\<lparr>st_timeout_handle := None\<rparr>"
  let ?s = "with_obj r ?t [] s"
  let ?key = "(st_source t, st_invoke_id t)"
  have ok: "obj_ok (sv_retries s) ?t" using server_inv_objD [OF inv t] by (simp add: obj_ok_def)
  note lt = server_inv_ref [OF inv t]
  have fire: "sv_fire_timer r s =
    (case st_timeout_handle t of None \<Rightarrow> return_p ()
     | Some T_request \<Rightarrow> sv_on_timeout ?key
     | Some _ \<Rightarrow> on_server_segment_timeout ?key) ?s"
    using t
    by (simp add: sv_fire_timer_def run_on obj_def sv_cancel_timeout_def set_obj_def write_p_def
        with_obj_def Let_def server_inv_up [OF inv])
  have own: "st_source t = src \<and> st_invoke_id t = i" if "sv_transactions s (src, i) = Some r" for src i
    using server_inv_entryD [OF inv that] t by auto
  have detached: "server_inv ?s" if "sv_transactions s ?key \<noteq> Some r"
    using that own ok lt by (intro server_inv_with_obj inv) auto
  have lift: "sound (sv_fire_timer r) s (\<lambda>_ _. True)"
    if "sound m ?s (\<lambda>_ _. True)" "sv_fire_timer r s = m ?s" for m
    using that t unfolding sound_def by (auto split: if_splits)
  consider "st_timeout_handle t = None"
    | "st_timeout_handle t = Some T_request" "sv_transactions s ?key = Some r"
    | "st_timeout_handle t = Some T_request" "sv_transactions s ?key \<noteq> Some r"
    | "st_timeout_handle t = Some T_srv_seg \<or> st_timeout_handle t = Some T_srv_wait"
      "sv_transactions s ?key = Some r"
    | "st_timeout_handle t = Some T_srv_seg \<or> st_timeout_handle t = Some T_srv_wait"
      "sv_transactions s ?key \<noteq> Some r"
    by (metis option.exhaust server_timer.exhaust)
  then show ?thesis
  proof cases
    case 1
    then have "?t = t" by simp
    with 1 inv t show ?thesis by (simp add: sound_def fire run_on with_obj_id server_inv_up [OF inv])
  next
    case 2
    let ?t' = "?t\<lparr>st_cached_response := None\<rparr>"
    have "server_inv (with_obj r ?t' [] (drop_entry ?key s))"
      using ok own lt by (intro server_inv_with_obj server_inv_drop inv)
        (auto simp: obj_ok_def split: if_splits)
    moreover have "sv_fire_timer r s = (Inr (), with_obj r ?t' [] (drop_entry ?key s))"
      using 2 by (simp add: fire sv_on_timeout_def run_on on_obj)
    ultimately show ?thesis by (simp add: sound_def)
  next
    case 3
    with fire show ?thesis by (intro lift [OF on_timeout_sound [OF detached]]) simp_all
  next
    case 4
    have "entry_ok t" using server_inv_entryD [OF inv 4(2)] t by simp
    then have "serves r ?t (on_server_segment_timeout ?key) s (\<lambda>_. True)"
      using 4 ok by (intro segment_timeout_serves [OF inv 4(2)])
        (auto simp: entry_ok_def split: server_state.splits)
    from serves_inv_at [OF inv t _ _ this] show ?thesis
      using 4(1) by (auto simp: sound_def fire)
  next
    case 5
    have "sound (on_server_segment_timeout ?key) ?s (\<lambda>_ _. True)"
    proof (cases "sv_transactions s ?key")
      case None
      then show ?thesis
        using detached by (simp add: sound_def on_server_segment_timeout_def run_on get_entry_def)
    next
      case (Some q)
      note inv' = detached [OF 5(2)]
      have q: "sv_transactions ?s ?key = Some q" using Some by simp
      obtain u where u: "sv_objects ?s q = Some u" "st_source u = st_source t"
        "st_invoke_id u = st_invoke_id t" "entry_ok u"
        using server_inv_entryD [OF inv' q] by auto
      have "serves q u (on_server_segment_timeout ?key) ?s (\<lambda>_. True)"
        using server_inv_objD [OF inv' u(1)] u(2-)
        by (intro segment_timeout_serves [OF inv' q])
          (auto simp: entry_ok_def split: server_state.splits)
      then show ?thesis by (rule serves_sound [OF inv' u(1)]) simp
    qed
    with 5(1) fire show ?thesis by (intro lift) auto
  qed
qed

end
