(* ===== verification/Application_Laws.thy ===== *)
theory Application_Laws
  imports Application Server_Tsm_Laws
begin

text \<open>
  The laws of the receive path: whatever octets arrive, in whatever order tasks, timers and
  handlers run, no step raises an exception and both transaction machines keep their invariants.
\<close>

section \<open>Invariant\<close>

fun task_ok :: "server_tsm \<Rightarrow> task \<Rightarrow> bool" where
  "task_ok s (Task_confirmed pdu src) =
     (apdu_ok (ConfirmedRequestPDU pdu) \<and> \<not> cr_segmented pdu \<and> cr_sequence_number pdu = None)"
| "task_ok s (Task_dispatch r sc data src) = (sv_objects s r \<noteq> None \<and> octet sc)"
| "task_ok s (Task_unconfirmed pdu src) = True"

definition handling_ok :: "server_tsm \<Rightarrow> ref \<times> int \<times> bacnet_address \<Rightarrow> bool" where
  "handling_ok s h \<longleftrightarrow> sv_objects s (fst h) \<noteq> None \<and> octet (fst (snd h))"

definition app_inv :: "application \<Rightarrow> bool" where
  "app_inv a \<longleftrightarrow> client_inv (ap_client a) \<and> server_inv (ap_server a)
     \<and> (\<forall>t \<in> set (ap_ready a). task_ok (ap_server a) t)
     \<and> (\<forall>h \<in> set (ap_handling a). handling_ok (ap_server a) h)"

text \<open>A handler raises an error that an Error PDU can carry.\<close>

fun result_ok :: "handler_result \<Rightarrow> bool" where
  "result_ok (Raised_bacnet (BACnetError c code data)) = (0 \<le> code \<and> code \<le> 138 \<and> code \<noteq> 33)"
| "result_ok r = True"

fun app_event_ok :: "application \<Rightarrow> app_event \<Rightarrow> bool" where
  "app_event_ok a (App_handler_ends i result) = result_ok result"
| "app_event_ok a (App_server_timer r) = (sv_objects (ap_server a) r \<noteq> None)"
| "app_event_ok a (App_client ev) = event_ok (ap_client a) ev"
| "app_event_ok a ev = True"

fun app_request :: "app_event \<Rightarrow> bool" where
  "app_request (App_client ev) = is_request ev"
| "app_request ev = False"

text \<open>A step is fine when it returns into the invariant.\<close>

definition fine :: "unit app_proc \<Rightarrow> application \<Rightarrow> bool" where
  "fine m a \<longleftrightarrow> (\<exists>a'. m a = (Inr (), a') \<and> app_inv a')"

lemma task_ok_mono:
  "task_ok s t \<Longrightarrow> (\<And>q. sv_objects s q \<noteq> None \<Longrightarrow> sv_objects s' q \<noteq> None) \<Longrightarrow> task_ok s' t"
  by (cases t) auto

lemma app_inv_server:
  assumes "app_inv a" "server_inv s'"
    and "\<And>q. sv_objects (ap_server a) q \<noteq> None \<Longrightarrow> sv_objects s' q \<noteq> None"
  shows "app_inv (a\<lparr>ap_server := s'\<rparr>)"
  using assms task_ok_mono [of "ap_server a" _ s']
  by (auto simp: app_inv_def handling_ok_def)

lemma app_inv_client: "app_inv a \<Longrightarrow> client_inv c \<Longrightarrow> app_inv (a\<lparr>ap_client := c\<rparr>)"
  by (simp add: app_inv_def)

lemma fine_server:
  assumes "app_inv a" "sound m (ap_server a) (\<lambda>_ _. True)"
  shows "fine (on_server m) a"
  using assms(2) app_inv_server [OF assms(1)] by (auto simp: sound_def fine_def on_server_def)

lemma fine_client:
  assumes "app_inv a" "\<exists>s'. m (ap_client a) = (Inr (), s') \<and> client_inv s'"
  shows "fine (on_client m) a"
  using assms(2) app_inv_client [OF assms(1)] by (auto simp: fine_def on_client_def)

lemma fine_simple:
  "app_inv a \<Longrightarrow> fine (return_p ()) a"
  "app_inv a \<Longrightarrow> task_ok (ap_server a) t \<Longrightarrow> fine (spawn_task t) a"
  by (auto simp: fine_def spawn_task_def run app_inv_def)

section \<open>Received APDUs\<close>

lemma decoded_segmentation:
  assumes "apdu_view (ConfirmedRequestPDU p) = ConfirmedRequestPDU p" "\<not> cr_segmented p"
  shows "cr_sequence_number p = None"
proof -
  from assms(1) have "p\<lparr>cr_max_segments := max_segments_view (cr_max_segments p),
      cr_max_apdu_length := max_apdu_view (cr_max_apdu_length p),
      cr_sequence_number := seg_view (cr_segmented p) (cr_sequence_number p) 0,
      cr_proposed_window_size := seg_view (cr_segmented p) (cr_proposed_window_size p) 1\<rparr> = p"
    by simp
  then have "seg_view (cr_segmented p) (cr_sequence_number p) 0 = cr_sequence_number p"
    by (drule_tac f = cr_sequence_number in arg_cong) simp
  with assms(2) show ?thesis by (simp add: seg_view_def)
qed

lemma receive_then:
  assumes inv: "app_inv a" and ok: "apdu_ok (ConfirmedRequestPDU pdu)"
    and seg: "\<not> cr_segmented pdu \<Longrightarrow> cr_sequence_number pdu = None"
    and k: "\<And>r d a'. app_inv a' \<Longrightarrow> sv_objects (ap_server a') r \<noteq> None \<Longrightarrow> fine (k r d) a'"
  shows "fine (bind_p (on_server (receive_confirmed_request pdu src)) (\<lambda>res.
     case res of None \<Rightarrow> return_p () | Some (r, None) \<Rightarrow> return_p () | Some (r, Some d) \<Rightarrow> k r d)) a"
proof -
  have "server_inv (ap_server a)" using inv by (simp add: app_inv_def)
  from receive_sound [OF this ok seg, of src] obtain x s' where
    r: "receive_confirmed_request pdu src (ap_server a) = (Inr x, s')" "valid_received x s'"
    and s': "server_inv s'" "\<And>q. sv_objects (ap_server a) q \<noteq> None \<Longrightarrow> sv_objects s' q \<noteq> None"
    by (auto simp: sound_def)
  have inv': "app_inv (a\<lparr>ap_server := s'\<rparr>)" by (rule app_inv_server [OF inv s'])
  show ?thesis
    using r fine_simple(1) [OF inv'] k [OF inv']
    by (auto simp: fine_def run_on on_server_def valid_received_def split: option.split)
qed

lemma begin_dispatch_fine:
  "app_inv a \<Longrightarrow> sv_objects (ap_server a) r \<noteq> None \<Longrightarrow> octet sc \<Longrightarrow> fine (begin_dispatch r sc d src) a"
  by (auto simp: fine_def begin_dispatch_def run app_inv_def handling_ok_def)

lemma segment_ack_sound:
  assumes si: "server_inv s"
  shows "sound (handle_segment_ack_for_response src p) s (\<lambda>_ _. True)"
proof (cases "sv_transactions s (src, sg_invoke_id p)")
  case None
  then show ?thesis
    using si by (simp add: sound_def handle_segment_ack_for_response_def run_on get_entry_def)
next
  case (Some r)
  obtain t where t: "sv_objects s r = Some t" "st_source t = src"
    "st_invoke_id t = sg_invoke_id p" "entry_ok t" using server_inv_entryD [OF si Some] by blast
  show ?thesis
    by (rule serves_sound [OF si t(1) segment_ack_serves [OF si Some server_inv_objD [OF si t(1)] t(2-)]])
      simp
qed

lemma confirmed_fine:
  assumes inv: "app_inv a" and ok: "apdu_ok (ConfirmedRequestPDU p)"
    and seg: "\<not> cr_segmented p \<Longrightarrow> cr_sequence_number p = None"
  shows "fine (handle_segmented_request p src) a" "fine (handle_confirmed_request p src) a"
proof -
  have sc: "octet (cr_service_choice p)" using ok by simp
  show "fine (handle_segmented_request p src) a"
    unfolding handle_segmented_request_def
    by (rule receive_then [OF inv ok seg]) (simp_all add: fine_simple sc)
  show "fine (handle_confirmed_request p src) a"
    unfolding handle_confirmed_request_def
    by (rule receive_then [OF inv ok seg]) (simp_all add: begin_dispatch_fine sc)
qed

lemma received_fine:
  assumes inv: "app_inv a"
  shows "fine (on_apdu_received data src) a"
proof (cases "decode_apdu data")
  case (Inl e)
  then have "e = ValueError" using decode_apdu_raises [of data] by (simp add: raises_only_def)
  with Inl inv show ?thesis by (simp add: on_apdu_received_def fine_def return_p_def)
next
  case (Inr pdu)
  have ok: "apdu_ok pdu" and view: "apdu_view pdu = pdu" using decode_apdu_canonical [OF Inr] by auto
  have ci: "client_inv (ap_client a)" and si: "server_inv (ap_server a)"
    using inv by (simp_all add: app_inv_def)
  have d: "fine (on_client (client_dispatch src pdu)) a"
    by (rule fine_client [where m = "client_dispatch src pdu", OF inv dispatch_inv [OF ci ok]])
  have seg: "\<And>p. pdu = ConfirmedRequestPDU p \<Longrightarrow> \<not> cr_segmented p \<Longrightarrow> cr_sequence_number p = None"
    using decoded_segmentation view by blast
  show ?thesis
  proof (cases pdu)
    case (ConfirmedRequestPDU p)
    then have okp: "apdu_ok (ConfirmedRequestPDU p)" using ok by simp
    show ?thesis
      using Inr ConfirmedRequestPDU confirmed_fine(1) [OF inv okp seg] okp seg inv
      by (simp add: on_apdu_received_def fine_simple)
  next
    case (UnconfirmedRequestPDU p)
    then show ?thesis using inv Inr by (simp add: on_apdu_received_def fine_simple)
  next
    case (SegmentAckPDU p)
    with d fine_server [OF inv segment_ack_sound [OF si]] show ?thesis
      using Inr by (cases "sg_sent_by_server p") (simp_all add: on_apdu_received_def)
  next
    case (ComplexAckPDU p)
    with d show ?thesis
      using Inr by (cases "ca_segmented p") (simp_all add: on_apdu_received_def)
  qed (use Inr d in \<open>simp_all add: on_apdu_received_def\<close>)
qed

section \<open>Handlers and steps\<close>

lemma reply_serves:
  assumes "obj_ok (sv_retries s) t" "apdu_ok pdu"
  shows "serves r t (reply r src pdu) s (\<lambda>_. True)"
  using assms
  by (intro servesI(1), simp add: reply_def complete_transaction_def run_on on_obj encode_ok,
      simp_all add: obj_ok_def entry_ok_def)

lemma serves_cong:
  "serves r t m s Q \<Longrightarrow> n (with_obj r t [] s) = m (with_obj r t [] s) \<Longrightarrow> serves r t n s Q"
  by (simp add: serves_def)

lemma finish_serves:
  assumes inv: "server_inv s" and t: "obj_ok (sv_retries s) t" and sc: "octet sc"
    and ok: "result_ok result"
  shows "serves r t (finish_dispatch r sc src result) s (\<lambda>_. True)"
proof -
  have iid: "octet (st_invoke_id t)" using t by (simp add: obj_ok_def)
  have run: "finish_dispatch r sc src result' (with_obj r t [] s) =
    (case result' of
       Returned None \<Rightarrow> reply r src
         (SimpleAckPDU \<lparr>sa_invoke_id = st_invoke_id t, sa_service_choice = sc\<rparr>)
     | Returned (Some data) \<Rightarrow>
         (if int (length data)
               > compute_max_segment_payload (st_client_max_apdu_length t) Seg_complex_ack
          then catch_p (start_segmented_response r sc data)
                 (\<lambda>e. reply r src (python_response (st_invoke_id t) e))
          else reply r src (full_ack (st_invoke_id t) sc data))
     | Raised_bacnet e \<Rightarrow> reply r src (error_response (st_invoke_id t) sc e)
     | Raised_python e \<Rightarrow> reply r src (python_response (st_invoke_id t) e)) (with_obj r t [] s)" for result'
    by (simp add: finish_dispatch_def run_on on_obj Let_def)
  have py: "apdu_ok (python_response (st_invoke_id t) e)" for e
    using iid by (simp add: python_response_def)
  show ?thesis
  proof (cases result)
    case (Returned res)
    show ?thesis
    proof (cases res)
      case None
      have "apdu_ok (SimpleAckPDU \<lparr>sa_invoke_id = st_invoke_id t, sa_service_choice = sc\<rparr>)"
        using iid sc by simp
      from reply_serves [OF t this, of r src] show ?thesis
        by (rule serves_cong) (simp add: run Returned None)
    next
      case (Some data)
      show ?thesis
      proof (cases "int (length data)
          > compute_max_segment_payload (st_client_max_apdu_length t) Seg_complex_ack")
        case long: True
        from segmented_response_run [OF inv t sc, of r data] show ?thesis
        proof
          assume sv: "serves r t (start_segmented_response r sc data) s (\<lambda>_. True)"
          then obtain s' where "start_segmented_response r sc data (with_obj r t [] s) = (Inr (), s')"
            unfolding serves_def by auto
          then show ?thesis
            using long by (intro serves_cong [OF sv]) (simp add: run Returned Some catch_p_def)
        next
          assume "\<exists>e. start_segmented_response r sc data (with_obj r t [] s) = (Inl e, with_obj r t [] s)"
          then obtain e where "start_segmented_response r sc data (with_obj r t [] s) = (Inl e, with_obj r t [] s)" ..
          then show ?thesis
            using long by (intro serves_cong [OF reply_serves [OF t py, of r src]])
              (simp add: run Returned Some catch_p_def)
        qed
      next
        case False
        have "apdu_ok (full_ack (st_invoke_id t) sc data)" using iid sc by (simp add: full_ack_def)
        from reply_serves [OF t this, of r src] show ?thesis
          by (rule serves_cong) (use False in \<open>simp add: run Returned Some\<close>)
      qed
    qed
  next
    case (Raised_bacnet e)
    have "apdu_ok (error_response (st_invoke_id t) sc e)"
      using iid sc ok Raised_bacnet by (cases e) (simp_all add: error_response_def)
    from reply_serves [OF t this, of r src] show ?thesis
      by (rule serves_cong) (simp add: run Raised_bacnet)
  next
    case (Raised_python e)
    from reply_serves [OF t py, of r src] show ?thesis
      by (rule serves_cong) (simp add: run Raised_python)
  qed
qed

lemma fine_seq:
  "m a = (Inr (), a') \<Longrightarrow> fine n a' \<Longrightarrow> fine (seq_p m n) a"
  by (simp add: fine_def run_on)

lemma run_task_fine:
  assumes "app_inv a" "task_ok (ap_server a) t"
  shows "fine (run_task t) a"
proof (cases t)
  case (Task_confirmed pdu src)
  then show ?thesis using assms confirmed_fine(2) [OF assms(1)] by (simp add: run_task_def)
next
  case (Task_dispatch r sc d src)
  then show ?thesis using assms begin_dispatch_fine by (simp add: run_task_def)
next
  case (Task_unconfirmed pdu src)
  then show ?thesis
    using assms
    by (auto simp: run_task_def handle_unconfirmed_request_def call_listeners_def fine_def run app_inv_def)
qed

lemma handler_fine:
  assumes inv: "app_inv a" and ok: "result_ok result" and i: "i < length (ap_handling a)"
  shows "fine (app_step (App_handler_ends i result)) a"
proof -
  obtain r sc src where h: "ap_handling a ! i = (r, sc, src)" by (metis prod_cases3)
  let ?a = "a\<lparr>ap_handling := take i (ap_handling a) @ drop (i + 1) (ap_handling a)\<rparr>"
  have si: "server_inv (ap_server a)" using inv by (simp add: app_inv_def)
  have "handling_ok (ap_server a) (r, sc, src)"
    using inv i h nth_mem [OF i] by (simp add: app_inv_def)
  then obtain t where t: "sv_objects (ap_server a) r = Some t" and sc: "octet sc"
    by (auto simp: handling_ok_def)
  have "app_inv ?a"
    using inv by (auto simp: app_inv_def dest: in_set_takeD in_set_dropD)
  moreover have "sound (finish_dispatch r sc src result) (ap_server ?a) (\<lambda>_ _. True)"
    by (rule serves_sound [OF _ _ finish_serves]) (use si t sc ok server_inv_objD [OF si t] in simp_all)
  ultimately have "fine (on_server (finish_dispatch r sc src result)) ?a" by (rule fine_server)
  then show ?thesis using i h by (simp add: run_on fine_def write_p_def)
qed

lemma app_step_fine:
  assumes inv: "app_inv a" and ok: "app_event_ok a ev" and req: "\<not> app_request ev"
  shows "fine (app_step ev) a"
proof (cases ev)
  case (App_apdu data src)
  then show ?thesis using received_fine [OF inv] by simp
next
  case App_run_task
  show ?thesis
  proof (cases "ap_ready a")
    case Nil
    then show ?thesis using inv App_run_task by (simp add: fine_def run_on)
  next
    case (Cons t rest)
    have "app_inv (a\<lparr>ap_ready := rest\<rparr>)" "task_ok (ap_server (a\<lparr>ap_ready := rest\<rparr>)) t"
      using inv Cons by (simp_all add: app_inv_def)
    from run_task_fine [OF this] show ?thesis
      using App_run_task Cons by (simp add: fine_def run_on write_p_def)
  qed
next
  case (App_handler_ends i result)
  then show ?thesis
    using handler_fine [OF inv, of result i] ok inv
    by (cases "i < length (ap_handling a)") (auto simp: fine_def run_on)
next
  case (App_unconfirmed_ends i result)
  then show ?thesis
    using inv
    by (cases "i < length (ap_dispatching a)"; cases result)
      (auto simp: finish_unconfirmed_def call_listeners_def fine_def run app_inv_def split: prod.split)
next
  case (App_server_timer r)
  then obtain t where t: "sv_objects (ap_server a) r = Some t" using ok by auto
  have "sound (sv_fire_timer r) (ap_server a) (\<lambda>_ _. True)"
    using inv t by (intro fire_sound) (simp_all add: app_inv_def)
  then show ?thesis using App_server_timer fine_server [OF inv] by simp
next
  case (App_client cev)
  have "client_inv (ap_client a)" using inv by (simp add: app_inv_def)
  from client_step_safe [OF this, of cev] have
    "\<exists>s'. client_step cev (ap_client a) = (Inr (), s') \<and> client_inv s'"
    using ok req App_client by (cases "client_step cev (ap_client a)") auto
  then show ?thesis using App_client fine_client [OF inv] by simp
next
  case (App_dcc st duration)
  then show ?thesis using inv by (simp add: fine_def set_dcc_state_def run app_inv_def)
next
  case App_dcc_timer
  then show ?thesis using inv by (simp add: fine_def dcc_timer_expired_def run app_inv_def)
qed (use inv in \<open>auto simp: fine_def run app_inv_def register_temporary_handler_def
    unregister_temporary_handler_def register_unconfirmed_def\<close>)

lemma app_step_inv:
  assumes inv: "app_inv a" and ok: "app_event_ok a ev"
  shows "app_inv (snd (app_step ev a))"
proof (cases "app_request ev")
  case False
  with app_step_fine [OF inv ok] show ?thesis by (auto simp: fine_def)
next
  case True
  then obtain cev where ev: "ev = App_client cev" by (cases ev) auto
  have "client_inv (ap_client a)" using inv by (simp add: app_inv_def)
  from client_step_safe [OF this, of cev] show ?thesis
    using ok inv app_inv_client
    by (cases "client_step cev (ap_client a)") (auto simp: ev on_client_def)
qed

abbreviation app_reach :: "application \<Rightarrow> application \<Rightarrow> bool" where
  "app_reach \<equiv> reachable app_event_ok app_step"

interpretation app_machine: event_system app_event_ok app_step app_inv
  by unfold_locales (rule app_step_inv)

lemma app_init_inv: "valid_config retries window \<Longrightarrow> app_inv (app_init retries ma ms window)"
  using init_inv [of retries window ma ms]
  by (simp add: app_inv_def app_init_def server_inv_def server_init_def valid_config_def octet_def)

section \<open>Repeated requests\<close>

lemma repeated_request:
  assumes "sv_transactions s (src, cr_invoke_id pdu) = Some r" "sv_objects s r = Some t"
    "st_state t \<noteq> SV_SEGMENTED_REQUEST"
  shows "receive_confirmed_request pdu src s =
    (case st_cached_response t of None \<Rightarrow> (Inr None, s)
     | Some b \<Rightarrow> (case sv_network s b src of
          None \<Rightarrow> (Inr None, s\<lparr>sv_sent := sv_sent s @ [(b, src, False)]\<rparr>)
        | Some e \<Rightarrow> (Inl e, s)))"
  using assms
  by (simp add: receive_confirmed_request_def run_on get_entry_def obj_def Let_def sv_send_def write_p_def
      split: option.split)

section \<open>What the model shows of the code\<close>

text \<open>
  An Abort PDU is given to the client machine whoever sent it.  A peer that, as a client,
  aborts its own request to this device makes this device's request to that peer with the same
  invoke id fail.
\<close>

lemma peer_client_abort_fails_own_request:
  assumes "decode_apdu data = Inr (AbortPDU p)" "\<not> ab_sent_by_server p"
    and "cm_transactions (ap_client a) (src, ab_invoke_id p) = Some t" "ct_future t = Pending"
    and "cm_network (ap_client a) = network_up"
  shows "\<exists>a' t'. on_apdu_received data src a = (Inr (), a')
    \<and> cm_transactions (ap_client a') (src, ab_invoke_id p) = Some t'
    \<and> ct_future t' = Failed (BACnetAbortError (ab_abort_reason p))"
proof -
  let ?key = "(src, ab_invoke_id p)"
  let ?t = "t\<lparr>ct_timeout_handle := None, ct_future := Failed (BACnetAbortError (ab_abort_reason p))\<rparr>"
  have "handle_abort src (ab_invoke_id p) (ab_abort_reason p) (upd ?key t [] (ap_client a))
      = (Inr (), upd ?key ?t [] (ap_client a))"
    using assms(4) by (simp add: handle_abort_def run_on on_txn Let_def)
  then have "on_apdu_received data src a = (Inr (), a\<lparr>ap_client := upd ?key ?t [] (ap_client a)\<rparr>)"
    using assms(1) by (simp add: on_apdu_received_def on_client_def upd_id [OF assms(3,5)])
  then show ?thesis by auto
qed

text \<open>
  A request whose segments are complete has no timer while its handler runs.  If the dispatch
  is dropped because communication is disabled, nothing ends the transaction: it keeps its
  invoke id, and every later request of the peer with that id is ignored.
\<close>

lemma completed_request_has_no_timer:
  assumes "handle_request_segment pdu src s = (Inr (Some (r, Some d)), s')"
    and "sv_transactions s (src, cr_invoke_id pdu) = Some r" "sv_objects s r = Some t"
    and "sv_network s = network_up"
  shows "\<exists>t'. sv_objects s' r = Some t' \<and> st_timeout_handle t' = None \<and> st_state t' = AWAIT_RESPONSE
    \<and> sv_transactions s' = sv_transactions s \<and> st_cached_response t' = st_cached_response t"
proof -
  have s: "s = with_obj r t [] s" using with_obj_id [OF assms(3,4)] by simp
  note run = handle_request_segment_def run_on on_obj assms(2)
  have run0: "handle_request_segment pdu src (with_obj r t [] s) = (Inr (Some (r, Some d)), s')"
    using assms(1) s by simp
  obtain rc seq where st: "st_state t = SV_SEGMENTED_REQUEST" and rc: "st_segment_receiver t = Some rc"
    and q: "cr_sequence_number pdu = Some seq"
    using run0 by (auto simp: run split: if_splits option.splits)
  obtain action ack rc' where e: "receive_segment rc seq (cr_service_request pdu)
      (cr_more_follows pdu) = ((action, ack), rc')" by (metis prod.exhaust)
  have "action = COMPLETE"
    using run0 st rc q e
    by (cases action) (auto simp: run abort_server_transaction_def send_server_segment_ack_def
        split: sum.splits prod.splits)
  then show ?thesis
    using run0 st rc q e
    by (auto simp: run send_server_segment_ack_def Let_def split: sum.splits)
qed

lemma dropped_request_blocks_its_invoke_id:
  assumes "ap_dcc_state a = DISABLE" "sc \<notin> DCC_ALLOWED_SERVICES"
    and "sv_transactions (ap_server a) (src, i) = Some r" "sv_objects (ap_server a) r = Some t"
    and "st_state t = AWAIT_RESPONSE" "st_timeout_handle t = None" "st_cached_response t = None"
    and "cr_invoke_id pdu = i" "sv_network (ap_server a) = network_up"
  shows "begin_dispatch r sc d src a = (Inr (), a)"
    and "receive_confirmed_request pdu src (ap_server a) = (Inr None, ap_server a)"
    and "sv_fire_timer r (ap_server a) = (Inr (), ap_server a)"
proof -
  show "begin_dispatch r sc d src a = (Inr (), a)"
    using assms(1,2) by (simp add: begin_dispatch_def run confirmed_allowed_def)
  show "receive_confirmed_request pdu src (ap_server a) = (Inr None, ap_server a)"
    using repeated_request [of "ap_server a" src pdu r t] assms by simp
  have "t\<lparr>st_timeout_handle := None\<rparr> = t" using assms(6) by (intro server_txn.equality) simp_all
  then have "with_obj r (t\<lparr>st_timeout_handle := None\<rparr>) [] (ap_server a) = with_obj r t [] (ap_server a)"
    by (rule arg_cong)
  then have "sv_fire_timer r (with_obj r t [] (ap_server a)) = (Inr (), with_obj r t [] (ap_server a))"
    using assms(6)
    by (simp add: sv_fire_timer_def run_on on_obj)
  then show "sv_fire_timer r (ap_server a) = (Inr (), ap_server a)"
    by (simp add: with_obj_id [OF assms(4,9)])
qed

text \<open>
  A handler that outlives its transaction still completes it: the cleanup timer it starts is
  keyed by address and invoke id, and ends whatever transaction has that key by then.
\<close>

lemma late_completion_ends_newer_transaction:
  assumes "sv_objects s r = Some t" "sv_objects s q = Some u" "q \<noteq> r"
    and "sv_transactions s (st_source t, st_invoke_id t) = Some q" "sv_network s = network_up"
  shows "\<exists>s1 s2. complete_transaction r bs s = (Inr (), s1) \<and> sv_fire_timer r s1 = (Inr (), s2)
    \<and> sv_transactions s2 (st_source t, st_invoke_id t) = None"
proof -
  let ?t = "t\<lparr>st_cached_response := Some bs, st_state := SV_IDLE, st_timeout_handle := Some T_request\<rparr>"
  have "complete_transaction r bs (with_obj r t [] s) = (Inr (), with_obj r ?t [] s)"
    by (simp add: complete_transaction_def run_on on_obj)
  moreover have "\<exists>s2. sv_fire_timer r (with_obj r ?t [] s) = (Inr (), s2)
      \<and> sv_transactions s2 (st_source t, st_invoke_id t) = None"
    using assms(2-)
    by (simp add: sv_fire_timer_def run_on on_obj sv_on_timeout_def Let_def set_obj_def write_p_def)
  ultimately show ?thesis by (simp add: with_obj_id [OF assms(1,5)])
qed

text \<open>
  An unsegmented ComplexACK has a header of three octets, but a response is called too long
  from the payload a segment has room for, with its five octets on.  A response of the two
  lengths in between fits one APDU, and is refused to a client that takes no segments.
\<close>

lemma full_ack_octets:
  assumes "octet iid" "octet sc"
  shows "length (encoded (full_ack iid sc data)) = length data + 3"
proof -
  have "apdu_ok (full_ack iid sc data)" using assms by (simp add: full_ack_def)
  from encode_ok [OF this] show ?thesis
    by (auto simp: full_ack_def encode_apdu_def encode_complex_ack_def segmentation_fields_def
        mk_bytes_Inr_iff Let_def simp del: mk_bytes.simps, drule_tac f = length in arg_cong, simp)
qed

lemma fitting_response_is_aborted:
  assumes t: "sv_objects s r = Some t" "octet (st_invoke_id t)" and up: "sv_network s = network_up" and sc: "octet sc"
    and na: "\<not> st_segmented_response_accepted t"
    and len: "int (length data) = st_client_max_apdu_length t - 3"
  shows "int (length (encoded (full_ack (st_invoke_id t) sc data))) = st_client_max_apdu_length t"
    and "\<exists>s'. finish_dispatch r sc src (Returned (Some data)) s = (Inr (), s')
      \<and> sv_sent s' = sv_sent s @ [(server_abort t SEGMENTATION_NOT_SUPPORTED, st_source t, False)]"
proof -
  show "int (length (encoded (full_ack (st_invoke_id t) sc data))) = st_client_max_apdu_length t"
    using full_ack_octets [OF t(2) sc] len by simp
  have "\<exists>s'. finish_dispatch r sc src (Returned (Some data)) (with_obj r t [] s) = (Inr (), s')
      \<and> sv_sent s' = sv_sent s @ [(server_abort t SEGMENTATION_NOT_SUPPORTED, st_source t, False)]"
    using len na t(2)
    by (simp add: drop_entry_def finish_dispatch_def run_on on_obj compute_max_segment_payload_def catch_p_def
        start_segmented_response_def Let_def)
  then show "\<exists>s'. finish_dispatch r sc src (Returned (Some data)) s = (Inr (), s')
      \<and> sv_sent s' = sv_sent s @ [(server_abort t SEGMENTATION_NOT_SUPPORTED, st_source t, False)]"
    by (simp add: with_obj_id [OF t(1) up])
qed

text \<open>
  The response kept for a repeated request is the whole ComplexACK even when it was sent in
  segments, so that the answer to the repetition can be longer than the client takes.
\<close>

lemma cached_segmented_response:
  assumes inv: "server_inv s" and t: "sv_objects s r = Some t" and sc: "octet sc"
    and acc: "st_segmented_response_accepted t"
    and mk: "create_sender data (st_invoke_id t) sc (st_client_max_apdu_length t) Seg_complex_ack
      (sv_proposed_window_size s) (st_client_max_segments t) = Inr sd"
    and long: "int (length data) > st_client_max_apdu_length t - 3"
  shows "\<exists>s' t' b. start_segmented_response r sc data s = (Inr (), s') \<and> sv_objects s' r = Some t'
    \<and> st_cached_response t' = Some b \<and> int (length b) > st_client_max_apdu_length t"
proof -
  have ok: "obj_ok (sv_retries s) t" by (rule server_inv_objD [OF inv t])
  then have iid: "octet (st_invoke_id t)" by (simp add: obj_ok_def)
  have w: "octet (sv_proposed_window_size s)" using inv by (simp add: server_inv_def)
  have sd: "ss_proposed_window_size sd = sv_proposed_window_size s" "ss_service_choice sd = sc"
    using mk by (auto simp: create_sender_def split: sum.splits if_splits)
  have "encode_apdu (full_ack (st_invoke_id t) sc data)
      = Inr (encoded (full_ack (st_invoke_id t) sc data))"
    using iid sc by (intro encode_ok) (simp add: full_ack_def)
  then have "\<exists>s' t' b. start_segmented_response r sc data (with_obj r t [] s) = (Inr (), s')
    \<and> sv_objects s' r = Some t' \<and> st_cached_response t' = Some b
    \<and> int (length b) > st_client_max_apdu_length t"
    using acc mk sd iid sc w long full_ack_octets [OF iid sc, of data]
    by (simp add: start_segmented_response_def run_on on_obj)
  moreover have "sv_network s = network_up" using inv by (simp add: server_inv_def)
  ultimately show ?thesis by (simp add: with_obj_id [OF t])
qed

end
