(* ===== verification/Network_Faults.thy ===== *)
theory Network_Faults
  imports Application_Laws
begin

text \<open>
  The receive path on a network whose \<open>send\<close> raises.  A run with such a network is compared with the
  run of the same procedure on the network that takes everything: up to the first failing send
  the two do the same, so what the run raises is what that send raised.
\<close>

section \<open>Runs compared\<close>

text \<open>
  \<open>f\<close> replaces the network in a state, \<open>D\<close> says that the network of a state takes everything, and
  \<open>E\<close> are the errors that the other network raises.
\<close>

definition blames :: "('s \<Rightarrow> 's) \<Rightarrow> ('s \<Rightarrow> bool) \<Rightarrow> 'e set \<Rightarrow> ('s, 'e, 'a) eproc \<Rightarrow> bool" where
  "blames f D E m \<longleftrightarrow> (\<forall>s. D s \<longrightarrow> D (snd (m s))
     \<and> (m (f s) = apsnd f (m s) \<or> (\<exists>e \<in> E. \<exists>s2. m (f s) = (Inl e, f s2))))"

named_theorems blames_intros \<open>rules that compare the runs of a procedure\<close>

lemma blames_basic [blames_intros]:
  "blames f D E (return_p x)" "blames f D E (raise_p e)" "blames f D E (lift_p r)"
  by (simp_all add: blames_def run)

lemma blames_read [blames_intros]:
  "(\<And>s. g (f s) = g s) \<Longrightarrow> blames f D E (read_p g)"
  by (simp add: blames_def run)

lemma blames_write [blames_intros]:
  "(\<And>s. D s \<Longrightarrow> g (f s) = f (g s) \<and> D (g s)) \<Longrightarrow> blames f D E (write_p g)"
  by (simp add: blames_def run)

lemma blames_bind [blames_intros]:
  assumes m: "blames f D E m" and k: "\<And>x. blames f D E (k x)"
  shows "blames f D E (bind_p m k)"
  unfolding blames_def
proof (intro allI impI)
  fix s assume D: "D s"
  obtain r s1 where r: "m s = (r, s1)" by fastforce
  have D1: "D s1" using m D r by (metis blames_def snd_conv)
  consider "m (f s) = (r, f s1)" | e s2 where "e \<in> E" "m (f s) = (Inl e, f s2)"
    using m D r unfolding blames_def by (metis apsnd_conv)
  then show "D (snd (bind_p m k s)) \<and> (bind_p m k (f s) = apsnd f (bind_p m k s)
      \<or> (\<exists>e \<in> E. \<exists>s2. bind_p m k (f s) = (Inl e, f s2)))"
  proof cases
    case 1
    then show ?thesis using r D1 k by (cases r) (auto simp: bind_p_def blames_def)
  next
    case 2
    then have "\<exists>e \<in> E. \<exists>s2. bind_p m k (f s) = (Inl e, f s2)" by (auto simp: bind_p_def)
    moreover have "D (snd (bind_p m k s))"
      using r D1 k by (cases r) (auto simp: bind_p_def blames_def)
    ultimately show ?thesis by blast
  qed
qed

lemma blames_seq [blames_intros]:
  "blames f D E m \<Longrightarrow> blames f D E n \<Longrightarrow> blames f D E (seq_p m n)"
  unfolding seq_p_def by (rule blames_bind)

lemma blames_each [blames_intros]:
  "(\<And>x. blames f D E (g x)) \<Longrightarrow> blames f D E (each_p g xs)"
  by (induction xs) (auto intro: blames_intros)

lemma blames_cases [blames_intros]:
  "(c \<Longrightarrow> blames f D E a) \<Longrightarrow> (\<not> c \<Longrightarrow> blames f D E b) \<Longrightarrow> blames f D E (if c then a else b)"
  "blames f D E a \<Longrightarrow> (\<And>x. blames f D E (g x)) \<Longrightarrow>
    blames f D E (case o' of None \<Rightarrow> a | Some x \<Rightarrow> g x)"
  "(\<And>x y. blames f D E (h x y)) \<Longrightarrow> blames f D E (case p of (x, y) \<Rightarrow> h x y)"
  "(\<And>e. blames f D E (u e)) \<Longrightarrow> (\<And>x. blames f D E (v x)) \<Longrightarrow>
    blames f D E (case r of Inl e \<Rightarrow> u e | Inr x \<Rightarrow> v x)"
  by (simp_all split: option.split prod.split sum.split)

lemma blames_actions [blames_intros]:
  "blames f D E a \<Longrightarrow> blames f D E b \<Longrightarrow> blames f D E c \<Longrightarrow> blames f D E d \<Longrightarrow> blames f D E e \<Longrightarrow>
    blames f D E (case act of SEND_ACK \<Rightarrow> a | CONTINUE \<Rightarrow> b | COMPLETE \<Rightarrow> c | RESEND_LAST_ACK \<Rightarrow> d
      | ABORT \<Rightarrow> e)"
  "(\<And>x. blames f D E (g x)) \<Longrightarrow> (\<And>x. blames f D E (h x)) \<Longrightarrow>
    blames f D E (case err of SegRaised x \<Rightarrow> g x | SegmentationError x \<Rightarrow> h x)"
  by (cases act; simp) (cases err; simp)

lemma blames_timers [blames_intros]:
  "blames f D E a \<Longrightarrow> blames f D E b \<Longrightarrow> blames f D E c \<Longrightarrow>
    blames f D E (case h of T_arr \<Rightarrow> a | T_seg \<Rightarrow> b | T_wait_for_seg \<Rightarrow> c)"
  "blames f D E a \<Longrightarrow> blames f D E b \<Longrightarrow> blames f D E c \<Longrightarrow>
    blames f D E (case g of T_request \<Rightarrow> a | T_srv_seg \<Rightarrow> b | T_srv_wait \<Rightarrow> c)"
  "blames f D E a \<Longrightarrow> (\<And>x xs. blames f D E (k x xs)) \<Longrightarrow>
    blames f D E (case zs of [] \<Rightarrow> a | x # xs \<Rightarrow> k x xs)"
  by (simp_all split: timer.split server_timer.split list.split)

lemma blames_let [blames_intros]: "(\<And>x. blames f D E (g x)) \<Longrightarrow> blames f D E (Let x g)"
  by (simp add: Let_def)

lemma blamesD:
  assumes "blames f D E m" "D s" "m s = (Inr x, s')"
  shows "m (f s) = (Inr x, f s') \<or> (\<exists>e \<in> E. \<exists>s2. m (f s) = (Inl e, f s2))"
  using assms unfolding blames_def by (metis apsnd_conv)

lemma blames_ends:
  assumes "blames f D E m" "D s"
  obtains s' where "snd (m (f s)) = f s'"
proof -
  have "m (f s) = apsnd f (m s) \<or> (\<exists>e \<in> E. \<exists>s2. m (f s) = (Inl e, f s2))"
    using assms by (simp add: blames_def)
  then show thesis by (elim disjE bexE exE) (auto intro: that)
qed

text \<open>The errors of a network.\<close>

definition network_errors :: "network \<Rightarrow> py_error set" where
  "network_errors net = {e. \<exists>data dest. net data dest = Some e}"

section \<open>The client machine\<close>

abbreviation client_blames :: "network \<Rightarrow> 'a client_proc \<Rightarrow> bool" where
  "client_blames net \<equiv> blames (\<lambda>s. s\<lparr>cm_network := net\<rparr>) (\<lambda>s. cm_network s = network_up)
     (network_errors net)"

lemma net_send_blames [blames_intros]: "client_blames net (net_send data dest r)"
  by (auto simp: blames_def net_send_def run_on write_p_def network_up_def network_errors_def
      intro!: exI [of _ "_ :: client_tsm"] split: option.split)

lemma client_access_blames [blames_intros]:
  "client_blames net (put_txn key t)" "client_blames net (pop_txn key)"
  "client_blames net (set_txn key g)" "client_blames net (the_txn key)"
  by (auto simp: put_txn_def pop_txn_def set_txn_def the_txn_def intro!: blames_intros)

lemma client_future_blames [blames_intros]:
  "client_blames net (set_future key v)" "client_blames net (cancel_timeout key)"
  "client_blames net (start_timeout key)" "client_blames net (start_segment_timeout key w)"
  by (auto simp: set_future_def cancel_timeout_def start_timeout_def start_segment_timeout_def
      intro!: blames_intros)

lemma with_pending_blames [blames_intros]:
  "(\<And>t. client_blames net (k t)) \<Longrightarrow> client_blames net (with_pending key k)"
  by (auto simp: with_pending_def intro!: blames_intros)

lemma client_sending_blames [blames_intros]:
  "client_blames net (send_confirmed_request key m)"
  "client_blames net (fill_and_send_request_window key)"
  "client_blames net (send_client_segment_ack key seq neg)"
  "client_blames net (abort_transaction key reason)"
  by (auto simp: send_confirmed_request_def fill_and_send_request_window_def
      send_client_segment_ack_def abort_transaction_def intro!: blames_intros)

lemma transmit_blames [blames_intros]:
  "client_blames net (send_segmented_request key m)" "client_blames net (transmit_request key)"
  by (auto simp: send_segmented_request_def transmit_request_def intro!: blames_intros)

lemma client_handler_blames [blames_intros]:
  "client_blames net (handle_simple_ack src i sc)" "client_blames net (handle_complex_ack src i sc d)"
  "client_blames net (handle_error src i c code ed)" "client_blames net (handle_reject src i rj)"
  "client_blames net (handle_abort src i ab)" "client_blames net (handle_segment_ack src sg)"
  "client_blames net (begin_segmented_response key ca)"
  "client_blames net (continue_segmented_response key rc seq ca)"
  "client_blames net (handle_segmented_complex_ack src ca)"
  "client_blames net (on_timeout key)" "client_blames net (on_segment_timeout key)"
  by (auto simp: handle_simple_ack_def handle_complex_ack_def handle_error_def handle_reject_def
      handle_abort_def handle_segment_ack_def begin_segmented_response_def
      continue_segmented_response_def handle_segmented_complex_ack_def on_timeout_def
      on_segment_timeout_def intro!: blames_intros)

lemma client_step_blames:
  "\<not> is_request ev \<Longrightarrow> client_blames net (client_step ev)"
proof (cases ev)
  case (Ev_response src pdu)
  then show ?thesis by (cases pdu) (auto intro!: blames_intros)
qed (auto simp: fire_timer_def resume_request_def intro!: blames_intros)

section \<open>The server machine\<close>

abbreviation server_blames :: "network \<Rightarrow> 'a server_proc \<Rightarrow> bool" where
  "server_blames net \<equiv> blames (\<lambda>s. s\<lparr>sv_network := net\<rparr>) (\<lambda>s. sv_network s = network_up)
     (network_errors net)"

lemma sv_send_blames [blames_intros]: "server_blames net (sv_send data dest r)"
  by (auto simp: blames_def sv_send_def run_on write_p_def network_up_def network_errors_def
      intro!: exI [of _ "_ :: server_tsm"] split: option.split)

lemma server_access_blames [blames_intros]:
  "server_blames net (obj r)" "server_blames net (set_obj r g)" "server_blames net (new_obj t)"
  "server_blames net (put_entry key r)" "server_blames net (pop_entry key)"
  "server_blames net (get_entry key)"
proof -
  show "server_blames net (new_obj t)" "server_blames net (pop_entry key)"
    by (simp_all add: blames_def new_obj_def pop_entry_def)
qed (auto simp: obj_def set_obj_def put_entry_def get_entry_def intro!: blames_intros)

lemma server_timer_blames [blames_intros]:
  "server_blames net (sv_start_timeout r)" "server_blames net (sv_restart_timeout r)"
  "server_blames net (sv_start_segment_timeout r)" "server_blames net (restart_segment_timeout r)"
  "server_blames net (start_server_segment_timeout r)" "server_blames net (sv_cancel_timeout r)"
  by (auto simp: sv_start_timeout_def sv_restart_timeout_def sv_start_segment_timeout_def
      restart_segment_timeout_def start_server_segment_timeout_def sv_cancel_timeout_def
      intro!: blames_intros)

lemma server_sending_blames [blames_intros]:
  "server_blames net (send_server_segment_ack r seq neg)"
  "server_blames net (abort_server_transaction r reason)"
  "server_blames net (fill_and_send_response_window r)"
  "server_blames net (start_segmented_response r sc d)"
  "server_blames net (complete_transaction r b)" "server_blames net (reply r src pdu)"
  by (auto simp: send_server_segment_ack_def abort_server_transaction_def complete_transaction_def
      fill_and_send_response_window_def start_segmented_response_def reply_def intro!: blames_intros)

lemma server_handler_blames [blames_intros]:
  "server_blames net (handle_request_segment cr src)"
  "server_blames net (receive_confirmed_request cr src)"
  "server_blames net (handle_segment_ack_for_response src sg)"
  "server_blames net (sv_on_timeout key)" "server_blames net (on_server_segment_timeout key)"
  by (auto simp: handle_request_segment_def receive_confirmed_request_def sv_on_timeout_def
      handle_segment_ack_for_response_def on_server_segment_timeout_def intro!: blames_intros)

lemma fire_blames [blames_intros]: "server_blames net (sv_fire_timer r)"
  by (auto simp: sv_fire_timer_def intro!: blames_intros)

section \<open>The receive path\<close>

definition with_network :: "network \<Rightarrow> application \<Rightarrow> application" where
  "with_network net a = a\<lparr>ap_client := (ap_client a)\<lparr>cm_network := net\<rparr>,
     ap_server := (ap_server a)\<lparr>sv_network := net\<rparr>\<rparr>"

definition networks_up :: "application \<Rightarrow> bool" where
  "networks_up a \<longleftrightarrow> cm_network (ap_client a) = network_up \<and> sv_network (ap_server a) = network_up"

abbreviation app_blames :: "network \<Rightarrow> 'a app_proc \<Rightarrow> bool" where
  "app_blames net \<equiv> blames (with_network net) networks_up (network_errors net)"

lemma on_client_blames [blames_intros]: 
  assumes "client_blames net m"
  shows "app_blames net (on_client m)"
  unfolding blames_def
proof (intro allI impI)
  fix a assume a: "networks_up a"
  obtain r c where r: "m (ap_client a) = (r, c)" by fastforce
  with a assms have c: "cm_network c = network_up" unfolding blames_def networks_up_def by fastforce
  have "m ((ap_client a)\<lparr>cm_network := net\<rparr>) = (r, c\<lparr>cm_network := net\<rparr>)
      \<or> (\<exists>e \<in> network_errors net. \<exists>s2. m ((ap_client a)\<lparr>cm_network := net\<rparr>) = (Inl e, s2\<lparr>cm_network := net\<rparr>))"
    using assms a r unfolding blames_def networks_up_def by (metis apsnd_conv)
  then show "networks_up (snd (on_client m a)) \<and> (on_client m (with_network net a)
      = apsnd (with_network net) (on_client m a) \<or> (\<exists>e \<in> network_errors net. \<exists>s2.
        on_client m (with_network net a) = (Inl e, with_network net s2)))"
  proof (elim disjE bexE exE)
    fix e s2 assume e: "e \<in> network_errors net"
      and m: "m ((ap_client a)\<lparr>cm_network := net\<rparr>) = (Inl e, s2\<lparr>cm_network := net\<rparr>)"
    have "on_client m (with_network net a) = (Inl e, with_network net (a\<lparr>ap_client := s2\<rparr>))"
      using m by (simp add: on_client_def with_network_def)
    then show ?thesis using e r a c by (auto simp: on_client_def networks_up_def)
  qed (use r a c in \<open>simp add: on_client_def with_network_def networks_up_def\<close>)
qed

lemma on_server_blames [blames_intros]: 
  assumes "server_blames net m"
  shows "app_blames net (on_server m)"
  unfolding blames_def
proof (intro allI impI)
  fix a assume a: "networks_up a"
  obtain r c where r: "m (ap_server a) = (r, c)" by fastforce
  with a assms have c: "sv_network c = network_up" unfolding blames_def networks_up_def by fastforce
  have "m ((ap_server a)\<lparr>sv_network := net\<rparr>) = (r, c\<lparr>sv_network := net\<rparr>)
      \<or> (\<exists>e \<in> network_errors net. \<exists>s2. m ((ap_server a)\<lparr>sv_network := net\<rparr>) = (Inl e, s2\<lparr>sv_network := net\<rparr>))"
    using assms a r unfolding blames_def networks_up_def by (metis apsnd_conv)
  then show "networks_up (snd (on_server m a)) \<and> (on_server m (with_network net a)
      = apsnd (with_network net) (on_server m a) \<or> (\<exists>e \<in> network_errors net. \<exists>s2.
        on_server m (with_network net a) = (Inl e, with_network net s2)))"
  proof (elim disjE bexE exE)
    fix e s2 assume e: "e \<in> network_errors net"
      and m: "m ((ap_server a)\<lparr>sv_network := net\<rparr>) = (Inl e, s2\<lparr>sv_network := net\<rparr>)"
    have "on_server m (with_network net a) = (Inl e, with_network net (a\<lparr>ap_server := s2\<rparr>))"
      using m by (simp add: on_server_def with_network_def)
    then show ?thesis using e r a c by (auto simp: on_server_def networks_up_def)
  qed (use r a c in \<open>simp add: on_server_def with_network_def networks_up_def\<close>)
qed

lemma dispatched_blames [blames_intros]:
  "app_blames net (spawn_task t)" "app_blames net (begin_dispatch r sc d src)"
  "app_blames net (handle_unconfirmed_request ur src)" "app_blames net (finish_unconfirmed ur src result)"
  "app_blames net (set_dcc_state st duration)" "app_blames net dcc_timer_expired"
  "app_blames net (register_unconfirmed c)" "app_blames net (register_temporary_handler c h)"
  "app_blames net (unregister_temporary_handler c h)"
  by (auto simp: spawn_task_def begin_dispatch_def handle_unconfirmed_request_def call_listeners_def
      finish_unconfirmed_def set_dcc_state_def dcc_timer_expired_def register_unconfirmed_def
      register_temporary_handler_def unregister_temporary_handler_def with_network_def networks_up_def
      listeners_of_def intro!: blames_intros split: handler_result.split)

lemma confirmed_blames [blames_intros]:
  "app_blames net (handle_confirmed_request cr src)" "app_blames net (handle_segmented_request cr src)"
  "app_blames net (run_task t)"
  by (auto simp: handle_confirmed_request_def handle_segmented_request_def run_task_def
      intro!: blames_intros split: task.split)

lemma received_blames [blames_intros]: "app_blames net (on_apdu_received data src)"
proof (cases "decode_apdu data")
  case (Inr pdu)
  then show ?thesis by (cases pdu) (auto simp: on_apdu_received_def intro!: blames_intros)
qed (auto simp: on_apdu_received_def intro!: blames_intros)

lemma app_step_blames:
  assumes "\<not> app_request ev" "\<And>i result. ev \<noteq> App_handler_ends i result"
  shows "app_blames net (app_step ev)"
proof (cases ev)
  case (App_client cev)
  then show ?thesis using assms by (auto intro!: blames_intros client_step_blames)
qed (use assms in \<open>auto simp: with_network_def networks_up_def intro!: blames_intros\<close>)

text \<open>What a run ends in: it returns, or raises an error of the network.\<close>

definition blameless :: "network \<Rightarrow> py_error + 'a \<Rightarrow> bool" where
  "blameless net r \<longleftrightarrow> (\<forall>e. r = Inl e \<longrightarrow> e \<in> network_errors net)"

lemma reply_blameless:
  assumes "encode_apdu pdu = Inr b" "sv_network s = net"
  shows "blameless net (fst (reply r src pdu s))"
  using assms
  by (auto simp: reply_def run_on sv_send_def seq_p_def bind_p_def raise_p_def write_p_def blameless_def
      complete_transaction_def sv_restart_timeout_def sv_start_timeout_def set_obj_def network_errors_def
      split: option.split)

lemma finish_blameless:
  assumes t: "sv_objects s r = Some t" "octet (st_invoke_id t)" and sc: "octet sc" and ok: "result_ok result"
    and net: "sv_network s = network_up"
  shows "blameless net (fst (finish_dispatch r sc src result (s\<lparr>sv_network := net\<rparr>)))"
proof -
  let ?s = "s\<lparr>sv_network := net\<rparr>"
  have reply: "blameless net (fst (reply r src pdu s'))" if "apdu_ok pdu" "sv_network s' = net" for pdu s'
    by (rule reply_blameless [OF encode_ok [OF that(1)] that(2)])
  have py: "apdu_ok (python_response (st_invoke_id t) e)" for e
    using t(2) by (simp add: python_response_def)
  have err: "apdu_ok (error_response (st_invoke_id t) sc e)" if "result = Raised_bacnet e" for e
    using t(2) sc ok that by (cases e) (simp_all add: error_response_def)
  have up: "sv_network (snd (start_segmented_response r sc d ?s)) = net" for d
    using blames_ends [OF server_sending_blames(4) [of net r sc d] net] by (metis server_tsm.select_convs(7)
        server_tsm.surjective server_tsm.update_convs(7))
  have "blameless net (fst (catch_p (start_segmented_response r sc d)
      (\<lambda>e. reply r src (python_response (st_invoke_id t) e)) ?s))" for d
    using up [of d] reply [OF py]
    by (auto simp: catch_p_def blameless_def split: prod.splits sum.splits)
  then show ?thesis
    using t sc reply py err
    by (auto simp: finish_dispatch_def obj_def run_on Let_def full_ack_def
        split: handler_result.split option.split)
qed

lemma app_step_blameless:
  assumes inv: "app_inv a" and ok: "app_event_ok a ev" and req: "\<not> app_request ev"
  shows "blameless net (fst (app_step ev (with_network net a)))"
proof (cases "\<exists>i result. ev = App_handler_ends i result")
  case False
  obtain a' where "app_step ev a = (Inr (), a')" using app_step_fine [OF inv ok req] by (auto simp: fine_def)
  moreover have "networks_up a"
    using inv client_inv_up [of "ap_client a"] server_inv_up [of "ap_server a"]
    by (simp add: app_inv_def networks_up_def)
  ultimately show ?thesis
    using blamesD [OF app_step_blames [OF req, where net = net]] False by (fastforce simp: blameless_def)
next
  case True
  then obtain i result where ev: "ev = App_handler_ends i result" by blast
  show ?thesis
  proof (cases "i < length (ap_handling a)")
    case i: True
    obtain r sc src where h: "ap_handling a ! i = (r, sc, src)" by (metis prod_cases3)
    have si: "server_inv (ap_server a)" using inv by (simp add: app_inv_def)
    have "handling_ok (ap_server a) (r, sc, src)"
      using inv h nth_mem [OF i] by (simp add: app_inv_def)
    then obtain t where t: "sv_objects (ap_server a) r = Some t" and sc: "octet sc"
      by (auto simp: handling_ok_def)
    have iid: "octet (st_invoke_id t)" using server_inv_objD [OF si t] by (simp add: obj_ok_def)
    have "blameless net (fst (finish_dispatch r sc src result ((ap_server a)\<lparr>sv_network := net\<rparr>)))"
      using ok ev by (intro finish_blameless [OF t iid sc]) (simp_all add: server_inv_up [OF si])
    then show ?thesis
      using i h ev
      by (cases "finish_dispatch r sc src result ((ap_server a)\<lparr>sv_network := net\<rparr>)")
        (simp add: run_on with_network_def on_server_def write_p_def)
  qed (simp add: ev run_on blameless_def with_network_def)
qed

end
