(* ===== verification/Net_Messages.thy ===== *)
theory Net_Messages
  imports Npdu
begin

text \<open>
  \<open>network/messages.py\<close>: the data of the network layer messages of Clause 6.4 that routers
  exchange, their encoders and decoders.  The message type octet itself belongs to the NPDU.
\<close>

section \<open>Messages\<close>

datatype reject_message_reason =
    RM_OTHER | NOT_DIRECTLY_CONNECTED | ROUTER_BUSY | UNKNOWN_MESSAGE_TYPE | MESSAGE_TOO_LONG
  | RM_SECURITY_ERROR | ADDRESSING_ERROR

fun reject_message_value :: "reject_message_reason \<Rightarrow> int" where
  "reject_message_value RM_OTHER = 0"
| "reject_message_value NOT_DIRECTLY_CONNECTED = 1"
| "reject_message_value ROUTER_BUSY = 2"
| "reject_message_value UNKNOWN_MESSAGE_TYPE = 3"
| "reject_message_value MESSAGE_TOO_LONG = 4"
| "reject_message_value RM_SECURITY_ERROR = 5"
| "reject_message_value ADDRESSING_ERROR = 6"

definition RejectMessageReason :: "int \<Rightarrow> py_error + reject_message_reason" where
  "RejectMessageReason v =
     (if 0 \<le> v \<and> v < 7
      then Inr ([RM_OTHER, NOT_DIRECTLY_CONNECTED, ROUTER_BUSY, UNKNOWN_MESSAGE_TYPE,
             MESSAGE_TOO_LONG, RM_SECURITY_ERROR, ADDRESSING_ERROR] ! nat v)
      else Inl ValueError)"

record routing_table_port =
  rp_network :: int
  rp_port_id :: int
  rp_port_info :: bytes

datatype network_message =
    WhoIsRouterToNetwork "int option"
  | IAmRouterToNetwork "int list"
  | ICouldBeRouterToNetwork int int
  | RejectMessageToNetwork reject_message_reason int
  | RouterBusyToNetwork "int list"
  | RouterAvailableToNetwork "int list"
  | InitializeRoutingTable "routing_table_port list"
  | InitializeRoutingTableAck "routing_table_port list"
  | EstablishConnectionToNetwork int int
  | DisconnectConnectionToNetwork int
  | WhatIsNetworkNumber
  | NetworkNumberIs int bool

text \<open>\<open>_MSG_TYPE_MAP\<close>, with the values of \<open>NetworkMessageType\<close>.\<close>

fun message_type_for :: "network_message \<Rightarrow> int" where
  "message_type_for (WhoIsRouterToNetwork n) = 0x00"
| "message_type_for (IAmRouterToNetwork ns) = 0x01"
| "message_type_for (ICouldBeRouterToNetwork n i) = 0x02"
| "message_type_for (RejectMessageToNetwork r n) = 0x03"
| "message_type_for (RouterBusyToNetwork ns) = 0x04"
| "message_type_for (RouterAvailableToNetwork ns) = 0x05"
| "message_type_for (InitializeRoutingTable ps) = 0x06"
| "message_type_for (InitializeRoutingTableAck ps) = 0x07"
| "message_type_for (EstablishConnectionToNetwork n t) = 0x08"
| "message_type_for (DisconnectConnectionToNetwork n) = 0x09"
| "message_type_for WhatIsNetworkNumber = 0x12"
| "message_type_for (NetworkNumberIs n c) = 0x13"

definition MAX_NETWORK_LIST :: nat where
  "MAX_NETWORK_LIST = 512"

section \<open>Encoding\<close>

fun encode_network_list :: "int list \<Rightarrow> py_error + bytes" where
  "encode_network_list [] = Inr []"
| "encode_network_list (n # ns) =
     rbind (int_to_bytes n 2) (\<lambda>b. rbind (encode_network_list ns) (\<lambda>bs. Inr (b @ bs)))"

text \<open>Two octets of network number and one more octet, kept modulo 256.\<close>

definition encode_net_octet :: "int \<Rightarrow> int \<Rightarrow> py_error + bytes" where
  "encode_net_octet n v = rbind (int_to_bytes n 2) (\<lambda>b. Inr (b @ [byte_of (v AND 0xFF)]))"

definition encode_reject_message :: "reject_message_reason \<Rightarrow> int \<Rightarrow> py_error + bytes" where
  "encode_reject_message r n =
     rbind (int_to_bytes n 2) (\<lambda>b. Inr (byte_of (reject_message_value r AND 0xFF) # b))"

fun encode_port_entries :: "routing_table_port list \<Rightarrow> py_error + bytes" where
  "encode_port_entries [] = Inr []"
| "encode_port_entries (p # ps) =
     rbind (int_to_bytes (rp_network p) 2) (\<lambda>b.
     rbind (encode_port_entries ps) (\<lambda>bs.
       Inr (b @ [byte_of (rp_port_id p AND 0xFF), byte_of (int (length (rp_port_info p)) AND 0xFF)]
              @ rp_port_info p @ bs)))"

definition encode_routing_table :: "routing_table_port list \<Rightarrow> py_error + bytes" where
  "encode_routing_table ports =
     rbind (mk_bytes [int (length ports)]) (\<lambda>c.
     rbind (encode_port_entries ports) (\<lambda>bs. Inr (c @ bs)))"

definition encode_network_number_is :: "int \<Rightarrow> bool \<Rightarrow> py_error + bytes" where
  "encode_network_number_is n configured =
     rbind (int_to_bytes n 2) (\<lambda>b. Inr (b @ [if configured then 1 else 0]))"

fun encode_network_message :: "network_message \<Rightarrow> py_error + bytes" where
  "encode_network_message (WhoIsRouterToNetwork n) =
     (case n of None \<Rightarrow> Inr [] | Some k \<Rightarrow> int_to_bytes k 2)"
| "encode_network_message (IAmRouterToNetwork ns) = encode_network_list ns"
| "encode_network_message (ICouldBeRouterToNetwork n i) = encode_net_octet n i"
| "encode_network_message (RejectMessageToNetwork r n) = encode_reject_message r n"
| "encode_network_message (RouterBusyToNetwork ns) = encode_network_list ns"
| "encode_network_message (RouterAvailableToNetwork ns) = encode_network_list ns"
| "encode_network_message (InitializeRoutingTable ps) = encode_routing_table ps"
| "encode_network_message (InitializeRoutingTableAck ps) = encode_routing_table ps"
| "encode_network_message (EstablishConnectionToNetwork n t) = encode_net_octet n t"
| "encode_network_message (DisconnectConnectionToNetwork n) = int_to_bytes n 2"
| "encode_network_message WhatIsNetworkNumber = Inr []"
| "encode_network_message (NetworkNumberIs n c) = encode_network_number_is n c"

section \<open>Decoding\<close>

text \<open>The network number in the first two octets.\<close>

definition net_at :: "bytes \<Rightarrow> nat \<Rightarrow> int" where
  "net_at data offset = int_from_bytes (py_slice data offset (offset + 2))"

definition decode_who_is_router :: "bytes \<Rightarrow> py_error + network_message" where
  "decode_who_is_router data =
     (if length data = 0 then Inr (WhoIsRouterToNetwork None)
      else if length data < 2 then Inl ValueError
      else Inr (WhoIsRouterToNetwork (Some (net_at data 0))))"

definition decode_network_list :: "bytes \<Rightarrow> py_error + int list" where
  "decode_network_list data =
     (if length data mod 2 \<noteq> 0 then Inl ValueError
      else if length data div 2 > MAX_NETWORK_LIST then Inl ValueError
      else Inr (map (\<lambda>k. net_at data (2 * k)) [0..<length data div 2]))"

definition decode_i_could_be_router :: "bytes \<Rightarrow> py_error + network_message" where
  "decode_i_could_be_router data =
     (if length data < 3 then Inl ValueError
      else rbind (octet_at data 2) (\<lambda>i. Inr (ICouldBeRouterToNetwork (net_at data 0) i)))"

definition decode_reject_message :: "bytes \<Rightarrow> py_error + network_message" where
  "decode_reject_message data =
     (if length data < 3 then Inl ValueError
      else rbind (octet_at data 0) (\<lambda>v. rbind (RejectMessageReason v) (\<lambda>r.
             Inr (RejectMessageToNetwork r (net_at data 1)))))"

fun decode_port_entries :: "bytes \<Rightarrow> nat \<Rightarrow> nat \<Rightarrow> py_error + routing_table_port list" where
  "decode_port_entries data offset 0 = Inr []"
| "decode_port_entries data offset (Suc n) =
     (if offset + 4 > length data then Inl ValueError
      else
        rbind (octet_at data (offset + 2)) (\<lambda>pid.
        rbind (octet_at data (offset + 3)) (\<lambda>len.
        let info_end = offset + 4 + nat len
        in if info_end > length data then Inl ValueError
           else rbind (decode_port_entries data info_end n) (\<lambda>ps.
             Inr (\<lparr>rp_network = net_at data offset, rp_port_id = pid,
                   rp_port_info = py_slice data (offset + 4) info_end\<rparr> # ps)))))"

definition decode_routing_table :: "bytes \<Rightarrow> py_error + routing_table_port list" where
  "decode_routing_table data =
     (if length data < 1 then Inl ValueError
      else rbind (octet_at data 0) (\<lambda>n. decode_port_entries data 1 (nat n)))"

definition decode_establish_connection :: "bytes \<Rightarrow> py_error + network_message" where
  "decode_establish_connection data =
     (if length data < 3 then Inl ValueError
      else rbind (octet_at data 2) (\<lambda>t. Inr (EstablishConnectionToNetwork (net_at data 0) t)))"

definition decode_disconnect_connection :: "bytes \<Rightarrow> py_error + network_message" where
  "decode_disconnect_connection data =
     (if length data < 2 then Inl ValueError
      else Inr (DisconnectConnectionToNetwork (net_at data 0)))"

definition decode_network_number_is :: "bytes \<Rightarrow> py_error + network_message" where
  "decode_network_number_is data =
     (if length data < 3 then Inl ValueError
      else rbind (octet_at data 2) (\<lambda>c. Inr (NetworkNumberIs (net_at data 0) (c \<noteq> 0))))"

definition decode_network_message :: "int \<Rightarrow> bytes \<Rightarrow> py_error + network_message" where
  "decode_network_message mt data =
     (if mt = 0x00 then decode_who_is_router data
      else if mt = 0x01 then rbind (decode_network_list data) (\<lambda>ns. Inr (IAmRouterToNetwork ns))
      else if mt = 0x02 then decode_i_could_be_router data
      else if mt = 0x03 then decode_reject_message data
      else if mt = 0x04 then rbind (decode_network_list data) (\<lambda>ns. Inr (RouterBusyToNetwork ns))
      else if mt = 0x05
        then rbind (decode_network_list data) (\<lambda>ns. Inr (RouterAvailableToNetwork ns))
      else if mt = 0x06 then rbind (decode_routing_table data) (\<lambda>ps. Inr (InitializeRoutingTable ps))
      else if mt = 0x07
        then rbind (decode_routing_table data) (\<lambda>ps. Inr (InitializeRoutingTableAck ps))
      else if mt = 0x08 then decode_establish_connection data
      else if mt = 0x09 then decode_disconnect_connection data
      else if mt = 0x12 then Inr WhatIsNetworkNumber
      else if mt = 0x13 then decode_network_number_is data
      else Inl ValueError)"

end
