(* ===== verification/Router.thy ===== *)
theory Router
  imports Procs Net_Messages "HOL-Library.AList"
begin

text \<open>
  \<open>network/router.py\<close>: the routing table of Clause 6.6.1 and the router that forwards NPDUs
  between its ports and answers the network layer messages.  The two dictionaries are
  association lists in insertion order, which is the order the code lists networks and ports in.
  The transports are the log \<open>ro_sent\<close> of what is sent on which port (to a station, or broadcast),
  the application callback is the log \<open>ro_delivered\<close>.  A busy timer is the network number its
  callback will mark available, present while the timer is scheduled.
\<close>

section \<open>The routing table\<close>

record router_port =
  po_port_id :: int
  po_network_number :: int
  po_mac_address :: bytes
  po_max_npdu_length :: int
  po_network_number_configured :: bool

datatype reachability = REACHABLE | BUSY | UNREACHABLE

record routing_entry =
  re_network_number :: int
  re_port_id :: int
  re_next_router_mac :: "bytes option"
  re_reachability :: reachability
  re_busy_timer :: "int option"

type_synonym 'a dict = "(int \<times> 'a) list"

record router =
  ro_ports :: "router_port dict"
  ro_entries :: "routing_entry dict"
  ro_application_port_id :: "int option"
  ro_has_application :: bool
  ro_sent :: "(int \<times> bytes \<times> bytes option) list"
  ro_delivered :: "(bytes \<times> bacnet_address) list"

type_synonym 'a router_proc = "(router, 'a) proc"

definition MAX_ENTRIES :: nat where
  "MAX_ENTRIES = 2048"

definition set_entries :: "(routing_entry dict \<Rightarrow> routing_entry dict) \<Rightarrow> unit router_proc" where
  "set_entries f = write_p (\<lambda>s. s\<lparr>ro_entries := f (ro_entries s)\<rparr>)"

definition entry_of :: "int \<Rightarrow> routing_entry option router_proc" where
  "entry_of dnet = read_p (\<lambda>s. map_of (ro_entries s) dnet)"

definition get_port :: "int \<Rightarrow> router_port option router_proc" where
  "get_port pid = read_p (\<lambda>s. map_of (ro_ports s) pid)"

definition direct_entry :: "int \<Rightarrow> int \<Rightarrow> routing_entry" where
  "direct_entry dnet pid = \<lparr>re_network_number = dnet, re_port_id = pid, re_next_router_mac = None,
     re_reachability = REACHABLE, re_busy_timer = None\<rparr>"

definition add_port :: "router_port \<Rightarrow> unit router_proc" where
  "add_port port =
     bind_p (get_port (po_port_id port)) (\<lambda>known.
     bind_p (entry_of (po_network_number port)) (\<lambda>routed.
     if known \<noteq> None then raise_p ValueError
     else if routed \<noteq> None then raise_p ValueError
     else seq_p (write_p (\<lambda>s. s\<lparr>ro_ports := AList.update (po_port_id port) port (ro_ports s)\<rparr>))
                (set_entries (AList.update (po_network_number port)
                   (direct_entry (po_network_number port) (po_port_id port))))))"

definition get_port_for_network :: "int \<Rightarrow> (router_port \<times> routing_entry) option router_proc" where
  "get_port_for_network dnet =
     bind_p (entry_of dnet) (\<lambda>e.
     case e of None \<Rightarrow> return_p None
     | Some entry \<Rightarrow>
         bind_p (get_port (re_port_id entry)) (\<lambda>p.
         case p of None \<Rightarrow> return_p None | Some port \<Rightarrow> return_p (Some (port, entry))))"

definition port_for_directly_connected :: "int \<Rightarrow> router_port option router_proc" where
  "port_for_directly_connected dnet =
     bind_p (entry_of dnet) (\<lambda>e.
     case e of None \<Rightarrow> return_p None
     | Some entry \<Rightarrow>
         if re_next_router_mac entry \<noteq> None then return_p None else get_port (re_port_id entry))"

definition reachable_networks :: "int option \<Rightarrow> bool \<Rightarrow> routing_entry dict \<Rightarrow> int list" where
  "reachable_networks exclude_port include_busy es =
     map re_network_number (filter (\<lambda>e.
       re_reachability e \<noteq> UNREACHABLE
       \<and> \<not> (re_reachability e = BUSY \<and> \<not> include_busy)
       \<and> \<not> (exclude_port = Some (re_port_id e))) (map snd es))"

definition get_reachable_networks :: "int option \<Rightarrow> bool \<Rightarrow> int list router_proc" where
  "get_reachable_networks exclude_port include_busy =
     read_p (\<lambda>s. reachable_networks exclude_port include_busy (ro_entries s))"

definition update_route :: "int \<Rightarrow> int \<Rightarrow> bytes option \<Rightarrow> unit router_proc" where
  "update_route dnet pid next_router_mac =
     bind_p (get_port pid) (\<lambda>p.
     if p = None then raise_p ValueError
     else bind_p (entry_of dnet) (\<lambda>existing.
       case existing of
         Some e \<Rightarrow> set_entries (AList.update dnet
           (e\<lparr>re_busy_timer := None, re_port_id := pid, re_next_router_mac := next_router_mac,
              re_reachability := REACHABLE\<rparr>))
       | None \<Rightarrow>
           bind_p (read_p (\<lambda>s. length (ro_entries s))) (\<lambda>n.
           if n \<ge> MAX_ENTRIES then return_p ()
           else set_entries (AList.update dnet
             \<lparr>re_network_number = dnet, re_port_id = pid, re_next_router_mac = next_router_mac,
              re_reachability = REACHABLE, re_busy_timer = None\<rparr>))))"

definition remove_entry :: "int \<Rightarrow> unit router_proc" where
  "remove_entry dnet = set_entries (AList.delete dnet)"

definition update_port_network_number :: "int \<Rightarrow> int \<Rightarrow> unit router_proc" where
  "update_port_network_number pid new_network =
     bind_p (get_port pid) (\<lambda>p.
     case p of None \<Rightarrow> return_p ()
     | Some port \<Rightarrow>
         let old_network = po_network_number port in
         if old_network = new_network then return_p ()
         else bind_p (entry_of new_network) (\<lambda>taken.
           if taken \<noteq> None then raise_p ValueError
           else bind_p (entry_of old_network) (\<lambda>old_entry.
             seq_p (set_entries (AList.delete old_network))
            (seq_p (write_p (\<lambda>s. s\<lparr>ro_ports := AList.update pid
                      (port\<lparr>po_network_number := new_network\<rparr>) (ro_ports s)\<rparr>))
              (set_entries (AList.update new_network
                 (case old_entry of Some e \<Rightarrow> e\<lparr>re_network_number := new_network\<rparr>
                  | None \<Rightarrow> direct_entry new_network pid)))))))"

definition change_entry :: "int \<Rightarrow> (routing_entry \<Rightarrow> routing_entry) \<Rightarrow> unit router_proc" where
  "change_entry dnet f =
     bind_p (entry_of dnet) (\<lambda>e.
     case e of None \<Rightarrow> return_p () | Some entry \<Rightarrow> set_entries (AList.update dnet (f entry)))"

text \<open>The callback of every caller of \<open>mark_busy\<close> is \<open>mark_available\<close> of the same network.\<close>

definition mark_busy :: "int \<Rightarrow> unit router_proc" where
  "mark_busy dnet = change_entry dnet (\<lambda>e. e\<lparr>re_reachability := BUSY, re_busy_timer := Some dnet\<rparr>)"

definition mark_available :: "int \<Rightarrow> unit router_proc" where
  "mark_available dnet =
     change_entry dnet (\<lambda>e. e\<lparr>re_busy_timer := None, re_reachability := REACHABLE\<rparr>)"

definition mark_unreachable :: "int \<Rightarrow> unit router_proc" where
  "mark_unreachable dnet =
     change_entry dnet (\<lambda>e. e\<lparr>re_busy_timer := None, re_reachability := UNREACHABLE\<rparr>)"

text \<open>The event loop runs the busy timer of an entry.\<close>

definition busy_timer_fires :: "int \<Rightarrow> unit router_proc" where
  "busy_timer_fires dnet =
     bind_p (entry_of dnet) (\<lambda>e.
     case e of None \<Rightarrow> return_p ()
     | Some entry \<Rightarrow>
         (case re_busy_timer entry of None \<Rightarrow> return_p ()
          | Some k \<Rightarrow> seq_p (change_entry dnet (\<lambda>e. e\<lparr>re_busy_timer := None\<rparr>)) (mark_available k)))"

section \<open>Sending\<close>

definition send_on :: "router_port \<Rightarrow> bytes \<Rightarrow> bytes option \<Rightarrow> unit router_proc" where
  "send_on port data dest =
     write_p (\<lambda>s. s\<lparr>ro_sent := ro_sent s @ [(po_port_id port, data, dest)]\<rparr>)"

definition all_ports :: "router_port list router_proc" where
  "all_ports = read_p (\<lambda>s. map snd (ro_ports s))"

text \<open>A loop over all ports but one.\<close>

definition ports_except :: "int \<Rightarrow> (router_port \<Rightarrow> unit router_proc) \<Rightarrow> unit router_proc" where
  "ports_except pid f =
     bind_p all_ports (\<lambda>ps. each_p (\<lambda>p. if po_port_id p = pid then return_p () else f p) ps)"

definition message_npdu :: "network_message \<Rightarrow> bytes \<Rightarrow> npdu" where
  "message_npdu msg data =
     \<lparr>version = 1, is_network_message = True, expecting_reply = False, priority = NORMAL,
      destination = None, npdu_source = None, hop_count = 255,
      message_type = Some (message_type_for msg), vendor_id = None, apdu_data = [],
      network_message_data = data\<rparr>"

text \<open>\<open>dest\<close>: broadcast, or the station of a unicast.\<close>

definition send_network_message_on_port ::
  "int \<Rightarrow> network_message \<Rightarrow> bytes option \<Rightarrow> unit router_proc" where
  "send_network_message_on_port pid msg dest =
     bind_p (get_port pid) (\<lambda>p.
     case p of None \<Rightarrow> return_p ()
     | Some port \<Rightarrow>
         bind_p (lift_p (encode_network_message msg)) (\<lambda>data.
         bind_p (lift_p (encode_npdu (message_npdu msg data))) (\<lambda>encoded.
         send_on port encoded dest)))"

definition broadcast_network_message_all_except :: "int \<Rightarrow> network_message \<Rightarrow> unit router_proc" where
  "broadcast_network_message_all_except exclude msg =
     ports_except exclude (\<lambda>p. send_network_message_on_port (po_port_id p) msg None)"

definition send_reject ::
  "int \<Rightarrow> bytes \<Rightarrow> reject_message_reason \<Rightarrow> int \<Rightarrow> unit router_proc" where
  "send_reject pid dest_mac reason dnet =
     send_network_message_on_port pid (RejectMessageToNetwork reason dnet) (Some dest_mac)"

definition send_reject_toward_source ::
  "int \<Rightarrow> npdu \<Rightarrow> bytes \<Rightarrow> reject_message_reason \<Rightarrow> int \<Rightarrow> unit router_proc" where
  "send_reject_toward_source arrival n source_mac reason dnet =
     (case npdu_source n of
        None \<Rightarrow> send_reject arrival source_mac reason dnet
      | Some src \<Rightarrow>
          let msg = RejectMessageToNetwork reason dnet in
          bind_p (lift_p (encode_network_message msg)) (\<lambda>data.
          bind_p (lift_p (encode_npdu ((message_npdu msg data)\<lparr>destination := Some src\<rparr>))) (\<lambda>encoded.
          case network src of
            None \<Rightarrow> send_reject arrival source_mac reason dnet
          | Some snet \<Rightarrow>
              bind_p (get_port_for_network snet) (\<lambda>res.
              case res of
                None \<Rightarrow> send_reject arrival source_mac reason dnet
              | Some (out_port, entry) \<Rightarrow>
                  (case re_next_router_mac entry of
                     Some hop \<Rightarrow> send_on out_port encoded (Some hop)
                   | None \<Rightarrow>
                       if length (mac_address src) > 0
                       then send_on out_port encoded (Some (mac_address src))
                       else send_on out_port encoded None)))))"

section \<open>Forwarding\<close>

definition deliver_to_application :: "int \<Rightarrow> npdu \<Rightarrow> bytes \<Rightarrow> unit router_proc" where
  "deliver_to_application pid n source_mac =
     bind_p (read_p ro_has_application) (\<lambda>has.
     if \<not> has then return_p ()
     else
       bind_p (case npdu_source n of
                 Some src \<Rightarrow> return_p src
               | None \<Rightarrow>
                   bind_p (get_port pid) (\<lambda>p.
                   lift_p (BACnetAddress (case p of Some port \<Rightarrow> Some (po_network_number port)
                                          | None \<Rightarrow> None) source_mac))) (\<lambda>src.
       write_p (\<lambda>s. s\<lparr>ro_delivered := ro_delivered s @ [(apdu_data n, src)]\<rparr>)))"

definition inject_source :: "int \<Rightarrow> npdu \<Rightarrow> bytes \<Rightarrow> bacnet_address option router_proc" where
  "inject_source arrival n source_mac =
     (case npdu_source n of
        Some src \<Rightarrow> return_p (Some src)
      | None \<Rightarrow>
          bind_p (get_port arrival) (\<lambda>p.
          case p of None \<Rightarrow> return_p None
          | Some port \<Rightarrow> bind_p (lift_p (BACnetAddress (Some (po_network_number port)) source_mac))
                           (\<lambda>a. return_p (Some a))))"

definition prepare_forwarded_npdu :: "int \<Rightarrow> npdu \<Rightarrow> bytes \<Rightarrow> npdu option router_proc" where
  "prepare_forwarded_npdu arrival n source_mac =
     (let new_hop_count = hop_count n - 1
      in if new_hop_count \<le> 0 then return_p None
         else bind_p (inject_source arrival n source_mac) (\<lambda>src.
           return_p (Some (n\<lparr>version := 1, npdu_source := src, hop_count := new_hop_count\<rparr>))))"

definition forward_global_broadcast :: "int \<Rightarrow> npdu \<Rightarrow> bytes \<Rightarrow> unit router_proc" where
  "forward_global_broadcast arrival n source_mac =
     bind_p (prepare_forwarded_npdu arrival n source_mac) (\<lambda>f.
     case f of None \<Rightarrow> return_p ()
     | Some forwarded \<Rightarrow>
         bind_p (lift_p (encode_npdu forwarded)) (\<lambda>encoded.
         ports_except arrival (\<lambda>p. send_on p encoded None)))"

definition routed_source :: "npdu \<Rightarrow> (int \<times> bytes) option" where
  "routed_source n =
     (case npdu_source n of None \<Rightarrow> None
      | Some src \<Rightarrow>
          (case network src of None \<Rightarrow> None | Some snet \<Rightarrow> Some (snet, mac_address src)))"

definition deliver_to_directly_connected ::
  "int \<Rightarrow> npdu \<Rightarrow> bytes \<Rightarrow> router_port \<Rightarrow> unit router_proc" where
  "deliver_to_directly_connected arrival n source_mac dest_port =
     (case destination n of None \<Rightarrow> return_p ()
      | Some d \<Rightarrow>
          bind_p (case routed_source n of
                    Some (snet, smac) \<Rightarrow> lift_p (encode_npdu_local_delivery n snet smac)
                  | None \<Rightarrow>
                      bind_p (get_port arrival) (\<lambda>p.
                      case p of
                        Some port \<Rightarrow>
                          lift_p (encode_npdu_local_delivery n (po_network_number port) source_mac)
                      | None \<Rightarrow>
                          lift_p (encode_npdu (n\<lparr>version := 1, destination := None,
                            npdu_source := None, hop_count := 255\<rparr>)))) (\<lambda>encoded.
          if length (mac_address d) = 0 then send_on dest_port encoded None
          else send_on dest_port encoded (Some (mac_address d))))"

definition forward_via_next_hop ::
  "int \<Rightarrow> npdu \<Rightarrow> bytes \<Rightarrow> router_port \<Rightarrow> routing_entry \<Rightarrow> unit router_proc" where
  "forward_via_next_hop arrival n source_mac dest_port entry =
     bind_p (prepare_forwarded_npdu arrival n source_mac) (\<lambda>f.
     case f of None \<Rightarrow> return_p ()
     | Some forwarded \<Rightarrow>
         (case re_next_router_mac entry of None \<Rightarrow> return_p ()
          | Some hop \<Rightarrow> bind_p (lift_p (encode_npdu forwarded))
                          (\<lambda>encoded. send_on dest_port encoded (Some hop))))"

definition forward_to_network :: "int \<Rightarrow> npdu \<Rightarrow> bytes \<Rightarrow> int \<Rightarrow> unit router_proc" where
  "forward_to_network arrival n source_mac dnet =
     bind_p (get_port_for_network dnet) (\<lambda>res.
     case res of
       None \<Rightarrow> send_reject_toward_source arrival n source_mac NOT_DIRECTLY_CONNECTED dnet
     | Some (dest_port, entry) \<Rightarrow>
         (case re_reachability entry of
            UNREACHABLE \<Rightarrow> send_reject_toward_source arrival n source_mac NOT_DIRECTLY_CONNECTED dnet
          | BUSY \<Rightarrow> send_reject_toward_source arrival n source_mac ROUTER_BUSY dnet
          | REACHABLE \<Rightarrow>
              if re_next_router_mac entry = None
              then deliver_to_directly_connected arrival n source_mac dest_port
              else forward_via_next_hop arrival n source_mac dest_port entry))"

section \<open>Network messages\<close>

definition reply_if_any :: "int \<Rightarrow> int list \<Rightarrow> unit router_proc" where
  "reply_if_any pid nets =
     (if nets \<noteq> [] then send_network_message_on_port pid (IAmRouterToNetwork nets) None
      else return_p ())"

definition handle_who_is_router :: "int \<Rightarrow> int option \<Rightarrow> npdu \<Rightarrow> bytes \<Rightarrow> unit router_proc" where
  "handle_who_is_router pid net n source_mac =
     (case net of
        Some dnet \<Rightarrow>
          bind_p (get_port_for_network dnet) (\<lambda>res.
          case res of
            Some (port, entry) \<Rightarrow>
              if re_port_id entry \<noteq> pid
              then send_network_message_on_port pid (IAmRouterToNetwork [dnet]) None
              else return_p ()
          | None \<Rightarrow> forward_global_broadcast pid n source_mac)
      | None \<Rightarrow>
          bind_p (get_reachable_networks (Some pid) True) (\<lambda>nets. reply_if_any pid nets))"

definition handle_i_am_router :: "int \<Rightarrow> int list \<Rightarrow> bytes \<Rightarrow> unit router_proc" where
  "handle_i_am_router pid nets source_mac =
     seq_p (each_p (\<lambda>dnet. update_route dnet pid (Some source_mac)) nets)
       (broadcast_network_message_all_except pid (IAmRouterToNetwork nets))"

definition handle_reject_message ::
  "int \<Rightarrow> reject_message_reason \<Rightarrow> int \<Rightarrow> npdu \<Rightarrow> bytes \<Rightarrow> unit router_proc" where
  "handle_reject_message pid reason net n source_mac =
     seq_p (if reason = NOT_DIRECTLY_CONNECTED then mark_unreachable net
            else if reason = ROUTER_BUSY then mark_busy net
            else return_p ())
       (case destination n of None \<Rightarrow> return_p ()
        | Some d \<Rightarrow>
            let dnet = (case network d of Some k \<Rightarrow> k | None \<Rightarrow> 0xFFFF)
            in if dnet = 0xFFFF then forward_global_broadcast pid n source_mac
               else forward_to_network pid n source_mac dnet)"

definition handle_router_busy :: "int \<Rightarrow> int list \<Rightarrow> bytes \<Rightarrow> unit router_proc" where
  "handle_router_busy pid nets source_mac =
     bind_p (if nets = []
             then read_p (\<lambda>s. map re_network_number (filter (\<lambda>e. re_port_id e = pid
                    \<and> re_next_router_mac e = Some source_mac) (map snd (ro_entries s))))
             else return_p nets) (\<lambda>dnets.
     seq_p (each_p mark_busy dnets)
       (broadcast_network_message_all_except pid (RouterBusyToNetwork nets)))"

definition handle_router_available :: "int \<Rightarrow> int list \<Rightarrow> unit router_proc" where
  "handle_router_available pid nets =
     bind_p (if nets = []
             then read_p (\<lambda>s. map re_network_number (filter (\<lambda>e. re_reachability e = BUSY
                    \<and> re_port_id e = pid) (map snd (ro_entries s))))
             else return_p nets) (\<lambda>dnets.
     seq_p (each_p mark_available dnets)
       (broadcast_network_message_all_except pid (RouterAvailableToNetwork nets)))"

definition route_report :: "routing_entry dict \<Rightarrow> routing_table_port list" where
  "route_report es = map (\<lambda>e. \<lparr>rp_network = re_network_number e, rp_port_id = re_port_id e,
     rp_port_info = []\<rparr>) (map snd es)"

definition apply_port_entry :: "routing_table_port \<Rightarrow> unit router_proc" where
  "apply_port_entry p =
     (if rp_port_id p = 0 then remove_entry (rp_network p)
      else bind_p (get_port (rp_port_id p)) (\<lambda>port.
        if port \<noteq> None then update_route (rp_network p) (rp_port_id p) None else return_p ()))"

definition handle_init_routing_table ::
  "int \<Rightarrow> routing_table_port list \<Rightarrow> bytes \<Rightarrow> unit router_proc" where
  "handle_init_routing_table pid ports source_mac =
     (if length ports = 0
      then bind_p (read_p (\<lambda>s. route_report (ro_entries s))) (\<lambda>report.
        send_network_message_on_port pid (InitializeRoutingTableAck report) (Some source_mac))
      else seq_p (each_p apply_port_entry ports)
        (send_network_message_on_port pid (InitializeRoutingTableAck []) (Some source_mac)))"

definition handle_what_is_network_number :: "int \<Rightarrow> npdu \<Rightarrow> unit router_proc" where
  "handle_what_is_network_number pid n =
     (if npdu_source n \<noteq> None \<or> destination n \<noteq> None then return_p ()
      else bind_p (get_port pid) (\<lambda>p.
        case p of None \<Rightarrow> return_p ()
        | Some port \<Rightarrow>
            if po_network_number_configured port
            then send_network_message_on_port pid
                   (NetworkNumberIs (po_network_number port) True) None
            else return_p ()))"

definition handle_network_number_is :: "int \<Rightarrow> int \<Rightarrow> bool \<Rightarrow> npdu \<Rightarrow> unit router_proc" where
  "handle_network_number_is pid net configured n =
     (if npdu_source n \<noteq> None \<or> destination n \<noteq> None then return_p ()
      else bind_p (get_port pid) (\<lambda>p.
        case p of None \<Rightarrow> return_p ()
        | Some port \<Rightarrow>
            if \<not> po_network_number_configured port \<and> configured
            then update_port_network_number pid net
            else return_p ()))"

definition dispatch_message ::
  "int \<Rightarrow> network_message \<Rightarrow> npdu \<Rightarrow> bytes \<Rightarrow> unit router_proc" where
  "dispatch_message pid msg n source_mac =
     (case msg of
        WhoIsRouterToNetwork net \<Rightarrow> handle_who_is_router pid net n source_mac
      | IAmRouterToNetwork nets \<Rightarrow> handle_i_am_router pid nets source_mac
      | RejectMessageToNetwork reason net \<Rightarrow> handle_reject_message pid reason net n source_mac
      | RouterBusyToNetwork nets \<Rightarrow> handle_router_busy pid nets source_mac
      | RouterAvailableToNetwork nets \<Rightarrow> handle_router_available pid nets
      | InitializeRoutingTable ports \<Rightarrow> handle_init_routing_table pid ports source_mac
      | InitializeRoutingTableAck ports \<Rightarrow> return_p ()
      | WhatIsNetworkNumber \<Rightarrow> handle_what_is_network_number pid n
      | NetworkNumberIs net configured \<Rightarrow> handle_network_number_is pid net configured n
      | ICouldBeRouterToNetwork net perf \<Rightarrow> return_p ()
      | EstablishConnectionToNetwork net termination_time \<Rightarrow> send_reject pid source_mac RM_OTHER net
      | DisconnectConnectionToNetwork net \<Rightarrow> send_reject pid source_mac RM_OTHER net)"

definition handle_network_message :: "int \<Rightarrow> npdu \<Rightarrow> bytes \<Rightarrow> unit router_proc" where
  "handle_network_message pid n source_mac =
     (case message_type n of None \<Rightarrow> return_p ()
      | Some mt \<Rightarrow>
          (case decode_network_message mt (network_message_data n) of
             Inl e \<Rightarrow> if e = ValueError then return_p () else raise_p e
           | Inr msg \<Rightarrow> dispatch_message pid msg n source_mac))"

section \<open>The receive path\<close>

definition process_npdu :: "int \<Rightarrow> npdu \<Rightarrow> bytes \<Rightarrow> unit router_proc" where
  "process_npdu pid n source_mac =
     (if is_network_message n then handle_network_message pid n source_mac
      else case destination n of
        None \<Rightarrow> deliver_to_application pid n source_mac
      | Some d \<Rightarrow>
          let dnet = (case network d of Some k \<Rightarrow> k | None \<Rightarrow> 0xFFFF)
          in if dnet = 0xFFFF
             then seq_p (deliver_to_application pid n source_mac)
                        (forward_global_broadcast pid n source_mac)
             else forward_to_network pid n source_mac dnet)"

definition on_port_receive :: "int \<Rightarrow> bytes \<Rightarrow> bytes \<Rightarrow> unit router_proc" where
  "on_port_receive pid data source_mac =
     (case decode_npdu data of
        Inl e \<Rightarrow> if e = ValueError \<or> e = IndexError then return_p () else raise_p e
      | Inr n \<Rightarrow> catch_p (process_npdu pid n source_mac) (\<lambda>e. return_p ()))"

section \<open>Starting, stopping and sending\<close>

definition init_router :: "router_port list \<Rightarrow> int option \<Rightarrow> bool \<Rightarrow> py_error + router" where
  "init_router ports app_port has_callback =
     (case each_p add_port ports
             \<lparr>ro_ports = [], ro_entries = [], ro_application_port_id = app_port,
              ro_has_application = has_callback, ro_sent = [], ro_delivered = []\<rparr> of
        (Inl e, s) \<Rightarrow> Inl e
      | (Inr u, s) \<Rightarrow> Inr s)"

definition announce :: "router_port \<Rightarrow> unit router_proc" where
  "announce port =
     seq_p (if po_network_number_configured port
            then send_network_message_on_port (po_port_id port)
                   (NetworkNumberIs (po_network_number port) True) None
            else return_p ())
       (bind_p (get_reachable_networks (Some (po_port_id port)) False)
         (\<lambda>nets. reply_if_any (po_port_id port) nets))"

definition start_router :: "unit router_proc" where
  "start_router = bind_p all_ports (\<lambda>ps. each_p announce ps)"

definition stop_router :: "unit router_proc" where
  "stop_router = set_entries (map (\<lambda>(k, e). (k, e\<lparr>re_busy_timer := None\<rparr>)))"

definition application_npdu ::
  "bytes \<Rightarrow> bacnet_address option \<Rightarrow> bacnet_address option \<Rightarrow> bool \<Rightarrow> network_priority \<Rightarrow> npdu" where
  "application_npdu apdu dest src reply prio =
     \<lparr>version = 1, is_network_message = False, expecting_reply = reply, priority = prio,
      destination = dest, npdu_source = src, hop_count = 255, message_type = None,
      vendor_id = None, apdu_data = apdu, network_message_data = []\<rparr>"

definition router_send ::
  "bytes \<Rightarrow> bacnet_address \<Rightarrow> bool \<Rightarrow> network_priority \<Rightarrow> unit router_proc" where
  "router_send apdu dest reply prio =
     bind_p (read_p ro_application_port_id) (\<lambda>app.
     case app of None \<Rightarrow> raise_p RuntimeError
     | Some app_id \<Rightarrow>
     bind_p (get_port app_id) (\<lambda>p.
     case p of None \<Rightarrow> raise_p RuntimeError
     | Some app_port \<Rightarrow>
       if is_local dest
       then bind_p (lift_p (encode_npdu (application_npdu apdu None None reply prio))) (\<lambda>encoded.
            if is_broadcast dest then send_on app_port encoded None
            else send_on app_port encoded (Some (mac_address dest)))
       else if is_global_broadcast dest
       then bind_p (lift_p (BACnetAddress (Some (po_network_number app_port))
                             (po_mac_address app_port))) (\<lambda>src.
            bind_p (lift_p (encode_npdu (application_npdu apdu (Some dest) (Some src) reply prio)))
              (\<lambda>encoded. bind_p all_ports (\<lambda>ps. each_p (\<lambda>port. send_on port encoded None) ps)))
       else case network dest of None \<Rightarrow> return_p ()
       | Some dnet \<Rightarrow>
         bind_p (get_port_for_network dnet) (\<lambda>res.
         case res of None \<Rightarrow> return_p ()
         | Some (dest_port, entry) \<Rightarrow>
           bind_p (lift_p (BACnetAddress (Some (po_network_number app_port))
                            (po_mac_address app_port))) (\<lambda>src.
           bind_p (lift_p (encode_npdu (application_npdu apdu (Some dest) (Some src) reply prio)))
             (\<lambda>encoded.
             case re_next_router_mac entry of
               Some hop \<Rightarrow> send_on dest_port encoded (Some hop)
             | None \<Rightarrow>
                 if length (mac_address dest) = 0 then send_on dest_port encoded None
                 else send_on dest_port encoded (Some (mac_address dest)))))))"

section \<open>The router as a transition system\<close>

datatype router_event =
    Frame_Arrives int bytes bytes
  | Busy_Timer_Fires int
  | Application_Sends bytes bacnet_address bool network_priority
  | Router_Starts
  | Router_Stops

fun router_event_proc :: "router_event \<Rightarrow> unit router_proc" where
  "router_event_proc (Frame_Arrives pid data source_mac) = on_port_receive pid data source_mac"
| "router_event_proc (Busy_Timer_Fires dnet) = busy_timer_fires dnet"
| "router_event_proc (Application_Sends apdu dest reply prio) = router_send apdu dest reply prio"
| "router_event_proc Router_Starts = start_router"
| "router_event_proc Router_Stops = stop_router"

end
