(* ===== verification/Net_Message_Laws.thy ===== *)
theory Net_Message_Laws
  imports Net_Messages Npdu_Laws
begin

text \<open>
  The laws of the network layer messages: which can be encoded, that decoding gives them back,
  and that the decoder raises nothing but ValueError.
\<close>

definition net_ok :: "int \<Rightarrow> bool" where
  "net_ok n \<longleftrightarrow> 0 \<le> n \<and> n \<le> 0xFFFF"

definition octet_ok :: "int \<Rightarrow> bool" where
  "octet_ok v \<longleftrightarrow> 0 \<le> v \<and> v \<le> 255"

definition port_entry_ok :: "routing_table_port \<Rightarrow> bool" where
  "port_entry_ok p \<longleftrightarrow> net_ok (rp_network p) \<and> octet_ok (rp_port_id p) \<and> length (rp_port_info p) \<le> 255"

fun message_data_ok :: "network_message \<Rightarrow> bool" where
  "message_data_ok (WhoIsRouterToNetwork n) = (case n of None \<Rightarrow> True | Some k \<Rightarrow> net_ok k)"
| "message_data_ok (IAmRouterToNetwork ns) = (list_all net_ok ns \<and> length ns \<le> MAX_NETWORK_LIST)"
| "message_data_ok (RouterBusyToNetwork ns) = (list_all net_ok ns \<and> length ns \<le> MAX_NETWORK_LIST)"
| "message_data_ok (RouterAvailableToNetwork ns) =
     (list_all net_ok ns \<and> length ns \<le> MAX_NETWORK_LIST)"
| "message_data_ok (ICouldBeRouterToNetwork n i) = (net_ok n \<and> octet_ok i)"
| "message_data_ok (RejectMessageToNetwork r n) = net_ok n"
| "message_data_ok (InitializeRoutingTable ps) = (list_all port_entry_ok ps \<and> length ps \<le> 255)"
| "message_data_ok (InitializeRoutingTableAck ps) = (list_all port_entry_ok ps \<and> length ps \<le> 255)"
| "message_data_ok (EstablishConnectionToNetwork n t) = (net_ok n \<and> octet_ok t)"
| "message_data_ok (DisconnectConnectionToNetwork n) = net_ok n"
| "message_data_ok WhatIsNetworkNumber = True"
| "message_data_ok (NetworkNumberIs n c) = net_ok n"

lemma net_bytes: "net_ok n \<Longrightarrow> int_to_bytes n 2 = Inr (be_bytes 2 n)"
  by (simp add: net_ok_def int_to_bytes_def)

lemma net_at_be [simp]: "net_ok n \<Longrightarrow> length p = k \<Longrightarrow> net_at (p @ be_bytes 2 n @ s) k = n"
  using py_slice_append [of p k "be_bytes 2 n" s] by (simp add: net_at_def int_from_be_2 net_ok_def)

lemma net_at_0 [simp]: "net_ok n \<Longrightarrow> net_at (be_bytes 2 n @ s) 0 = n"
  using net_at_be [of n "[]" 0 s] by simp

lemma octet_and_mask [simp]: "octet_ok v \<Longrightarrow> v AND 255 = v"
  by (simp add: octet_ok_def and_masks)

lemma be_2_nonempty [simp]: "be_bytes 2 n \<noteq> []"
  by (simp flip: length_0_conv)

lemma octet_masks [simp]: "octet_ok v \<Longrightarrow> uint (byte_of v) = v"
  by (simp add: octet_ok_def)

section \<open>Lists of networks\<close>

lemma encode_network_list_ok:
  "list_all net_ok ns \<Longrightarrow> encode_network_list ns = Inr (concat (map (be_bytes 2) ns))"
  by (induction ns) (simp_all add: net_bytes)

lemma length_nets [simp]: "length (concat (map (be_bytes 2) ns)) = 2 * length ns"
  by (induction ns) simp_all

lemma net_at_list:
  "list_all net_ok ns \<Longrightarrow> k < length ns \<Longrightarrow> net_at (concat (map (be_bytes 2) ns)) (2 * k) = ns ! k"
proof (induction ns arbitrary: k)
  case (Cons n ns)
  show ?case
  proof (cases k)
    case 0
    with Cons.prems show ?thesis by simp
  next
    case (Suc j)
    have "net_at (be_bytes 2 n @ concat (map (be_bytes 2) ns)) (2 * Suc j)
        = net_at (concat (map (be_bytes 2) ns)) (2 * j)"
      by (simp add: net_at_def py_slice_def)
    with Suc Cons show ?thesis by simp
  qed
qed simp

lemma network_list_round:
  assumes "list_all net_ok ns" "length ns \<le> MAX_NETWORK_LIST"
  shows "\<exists>bs. encode_network_list ns = Inr bs \<and> decode_network_list bs = Inr ns"
proof -
  have "map (\<lambda>k. net_at (concat (map (be_bytes 2) ns)) (2 * k)) [0..<length ns] = ns"
    using assms(1) by (intro nth_equalityI) (simp_all add: net_at_list)
  then show ?thesis
    using assms by (simp add: encode_network_list_ok decode_network_list_def)
qed

section \<open>Routing table entries\<close>

definition port_octets :: "routing_table_port \<Rightarrow> bytes" where
  "port_octets p = be_bytes 2 (rp_network p)
     @ [byte_of (rp_port_id p AND 0xFF), byte_of (int (length (rp_port_info p)) AND 0xFF)]
     @ rp_port_info p"

lemma encode_entries_ok:
  "list_all port_entry_ok ps \<Longrightarrow> encode_port_entries ps = Inr (concat (map port_octets ps))"
  by (induction ps) (simp_all add: port_entry_ok_def net_bytes port_octets_def)

lemma decode_entries_at:
  assumes "list_all port_entry_ok ps"
  shows "decode_port_entries (pre @ concat (map port_octets ps)) (length pre) (length ps) = Inr ps"
  using assms
proof (induction ps arbitrary: pre)
  case (Cons p ps)
  let ?rest = "concat (map port_octets ps)"
  let ?data = "pre @ port_octets p @ ?rest"
  have p: "net_ok (rp_network p)" "octet_ok (rp_port_id p)" "octet_ok (int (length (rp_port_info p)))"
    using Cons.prems by (auto simp: port_entry_ok_def octet_ok_def)
  have n: "net_at ?data (length pre) = rp_network p"
    using p(1) by (simp add: port_octets_def)
  have o: "octet_at ?data (length pre + 2) = Inr (rp_port_id p)"
    "octet_at ?data (length pre + 3) = Inr (int (length (rp_port_info p)))"
    using p by (simp_all add: octet_at_def port_octets_def nth_append)
  have s: "py_slice ?data (length pre + 4) (length pre + 4 + length (rp_port_info p)) = rp_port_info p"
    using py_slice_append [of "pre @ be_bytes 2 (rp_network p)
        @ [byte_of (rp_port_id p AND 0xFF), byte_of (int (length (rp_port_info p)) AND 0xFF)]"
      "length pre + 4" "rp_port_info p" ?rest]
    by (simp add: port_octets_def)
  have l: "length (port_octets p) = 4 + length (rp_port_info p)" by (simp add: port_octets_def)
  have r: "decode_port_entries ?data (length pre + 4 + length (rp_port_info p)) (length ps) = Inr ps"
    using Cons.IH [of "pre @ port_octets p"] Cons.prems l by (simp add: add.assoc)
  show ?case
    using n o s r l by (simp add: Let_def)
qed simp

lemma routing_table_round:
  assumes "list_all port_entry_ok ps" "length ps \<le> 255"
  shows "\<exists>bs. encode_routing_table ps = Inr bs \<and> decode_routing_table bs = Inr ps"
  using assms decode_entries_at [OF assms(1), of "[byte_of (int (length ps))]"]
  by (simp add: encode_routing_table_def encode_entries_ok mk_bytes_ok decode_routing_table_def)

section \<open>Messages\<close>

lemma reject_reason_round: "RejectMessageReason (reject_message_value r) = Inr r"
  by (cases r) (simp_all add: RejectMessageReason_def)

lemma reject_value_octet: "octet_ok (reject_message_value r)"
  by (cases r) (simp_all add: octet_ok_def)

lemma net_octet_round:
  assumes "net_ok n" "octet_ok v"
  shows "encode_net_octet n v = Inr (be_bytes 2 n @ [byte_of (v AND 255)])"
    "octet_at (be_bytes 2 n @ [byte_of (v AND 255)]) 2 = Inr v"
  using assms by (simp_all add: encode_net_octet_def net_bytes octet_at_def nth_append)

lemma network_message_round:
  assumes "message_data_ok m"
  shows "\<exists>bs. encode_network_message m = Inr bs \<and> decode_network_message (message_type_for m) bs = Inr m"
proof (cases m)
  case (WhoIsRouterToNetwork n)
  with assms show ?thesis
    using net_at_0 [of _ "[]"]
    by (cases n) (simp_all add: net_bytes decode_network_message_def decode_who_is_router_def)
next
  case (RejectMessageToNetwork r n)
  with assms show ?thesis
    using net_at_be [of n "[byte_of (reject_message_value r AND 255)]" 1 "[]"] reject_value_octet [of r]
    by (simp add: net_bytes encode_reject_message_def decode_network_message_def
        decode_reject_message_def reject_reason_round octet_at_def)
next
  case (NetworkNumberIs n c)
  with assms show ?thesis
    by (simp add: net_bytes encode_network_number_is_def decode_network_message_def
        decode_network_number_is_def octet_at_def nth_append)
next
  case (DisconnectConnectionToNetwork n)
  with assms show ?thesis
    using net_at_0 [of n "[]"]
    by (simp add: net_bytes decode_network_message_def decode_disconnect_connection_def)
qed (use assms network_list_round routing_table_round net_octet_round in
  \<open>(fastforce simp: decode_network_message_def decode_i_could_be_router_def
      decode_establish_connection_def)+\<close>)

section \<open>Errors\<close>

lemma decode_entries_raises: "raises_only {ValueError} (decode_port_entries data off n)"
proof (induction data off n rule: decode_port_entries.induct)
  case (2 data off n)
  show ?case
  proof (cases "off + 4 > length data")
    case False
    let ?e = "off + 4 + nat (uint (data ! (off + 3)))"
    have "raises_only {ValueError} (decode_port_entries data ?e n)" if "\<not> ?e > length data"
      using 2 [OF False, of "uint (data ! (off + 2))" "uint (data ! (off + 3))"] False that by simp
    then show ?thesis using False by (auto simp: Let_def simp del: nat_uint_eq intro!: raises_only_rbind)
  qed simp
qed simp

lemma decode_message_raises: "raises_only {ValueError} (decode_network_message mt data)"
proof -
  have "raises_only {ValueError} (decode_routing_table data)"
    by (auto simp: decode_routing_table_def intro!: decode_entries_raises raises_only_rbind)
  moreover have "raises_only {ValueError} (decode_network_list data)"
    by (simp add: decode_network_list_def)
  moreover have "raises_only {ValueError} (decode_reject_message data)"
    by (auto simp: decode_reject_message_def RejectMessageReason_def intro!: raises_only_rbind)
  ultimately show ?thesis
    by (auto simp: decode_network_message_def decode_who_is_router_def decode_i_could_be_router_def
        decode_establish_connection_def decode_disconnect_connection_def
        decode_network_number_is_def intro!: raises_only_rbind)
qed

section \<open>Decoded messages\<close>

text \<open>What the decoder accepts can be encoded again, so it can be re-broadcast.\<close>

lemma net_at_ok: "net_ok (net_at data k)"
proof -
  have "length (py_slice data k (k + 2)) \<le> 2" by (simp add: py_slice_def)
  then have "int_from_bytes (py_slice data k (k + 2)) < 256 ^ 2"
    using int_from_bytes_range [of "py_slice data k (k + 2)"]
      power_increasing [of "length (py_slice data k (k + 2))" 2 "256 :: int"] by simp
  then show ?thesis by (simp add: net_ok_def net_at_def int_from_bytes_nonneg)
qed

lemma decoded_list_ok:
  "decode_network_list data = Inr ns \<Longrightarrow> list_all net_ok ns \<and> length ns \<le> MAX_NETWORK_LIST"
  by (auto simp: decode_network_list_def list_all_iff net_at_ok split: if_splits)

lemma decoded_route_list:
  assumes "decode_network_message mt data = Inr msg"
    and "msg = IAmRouterToNetwork ns \<or> msg = RouterBusyToNetwork ns \<or> msg = RouterAvailableToNetwork ns"
  shows "message_data_ok msg"
  using assms decoded_list_ok [of data ns]
  by (auto simp: decode_network_message_def decode_who_is_router_def decode_i_could_be_router_def
      decode_reject_message_def decode_establish_connection_def decode_disconnect_connection_def
      decode_network_number_is_def split: if_splits)

end
