(* ===== verification/Router_Laws.thy ===== *)
theory Router_Laws
  imports Router Net_Message_Laws
begin

text \<open>
  The laws of the router: the invariant of its two tables and that every event keeps it, the
  shape of what it sends, how routes are learned, and where each kind of NPDU goes.
\<close>

section \<open>The invariant of the tables\<close>

definition entry_fits :: "router \<Rightarrow> int \<Rightarrow> routing_entry \<Rightarrow> bool" where
  "entry_fits s dnet e \<longleftrightarrow>
     re_network_number e = dnet \<and> map_of (ro_ports s) (re_port_id e) \<noteq> None
     \<and> (re_busy_timer e \<noteq> None \<longrightarrow> re_reachability e = BUSY)"

definition port_numbers :: "router \<Rightarrow> int set" where
  "port_numbers s = po_network_number ` ran (map_of (ro_ports s))"

text \<open>The networks in the table that are not the number of a port.\<close>

definition remote_networks :: "router \<Rightarrow> int set" where
  "remote_networks s = dom (map_of (ro_entries s)) - port_numbers s"

definition router_inv :: "router \<Rightarrow> bool" where
  "router_inv s \<longleftrightarrow>
     distinct (map fst (ro_ports s)) \<and> distinct (map fst (ro_entries s))
     \<and> (\<forall>pid port. map_of (ro_ports s) pid = Some port \<longrightarrow> po_port_id port = pid)
     \<and> (\<forall>dnet e. map_of (ro_entries s) dnet = Some e \<longrightarrow> entry_fits s dnet e)
     \<and> card (remote_networks s) \<le> MAX_ENTRIES"

lemma router_invD:
  assumes "router_inv s"
  shows "distinct (map fst (ro_ports s))" "distinct (map fst (ro_entries s))"
    "map_of (ro_ports s) pid = Some port \<Longrightarrow> po_port_id port = pid"
    "map_of (ro_entries s) dnet = Some e \<Longrightarrow> entry_fits s dnet e"
    "card (remote_networks s) \<le> MAX_ENTRIES"
  using assms by (auto simp: router_inv_def)

lemma finite_remote [simp]: "finite (remote_networks s)"
  by (simp add: remote_networks_def finite_dom_map_of)

text \<open>What is sent and delivered is no part of the invariant.\<close>

lemma inv_logs [simp]:
  "router_inv (s\<lparr>ro_sent := x\<rparr>) = router_inv s" "router_inv (s\<lparr>ro_delivered := y\<rparr>) = router_inv s"
  by (simp_all add: router_inv_def entry_fits_def remote_networks_def port_numbers_def)

lemma inv_update_entry:
  assumes inv: "router_inv s" and e: "entry_fits s dnet e"
    and room: "dnet \<in> dom (map_of (ro_entries s)) \<or> length (ro_entries s) < MAX_ENTRIES"
  shows "router_inv (s\<lparr>ro_entries := AList.update dnet e (ro_entries s)\<rparr>)"
proof -
  let ?s = "s\<lparr>ro_entries := AList.update dnet e (ro_entries s)\<rparr>"
  note i = router_invD [OF inv]
  have m: "map_of (ro_entries ?s) = (map_of (ro_entries s))(dnet \<mapsto> e)" by (simp add: update_conv')
  have p: "port_numbers ?s = port_numbers s" by (simp add: port_numbers_def)
  have "card (remote_networks ?s) \<le> MAX_ENTRIES"
  proof (cases "dnet \<in> dom (map_of (ro_entries s))")
    case True
    then have "remote_networks ?s = remote_networks s"
      unfolding remote_networks_def m p by auto
    then show ?thesis using i(5) by simp
  next
    case False
    have "remote_networks ?s \<subseteq> insert dnet (set (map fst (ro_entries s)))"
      unfolding remote_networks_def m by (auto simp: dom_map_of_conv_image_fst)
    then have "card (remote_networks ?s) \<le> card (insert dnet (set (map fst (ro_entries s))))"
      by (rule card_mono [rotated]) simp
    also have "\<dots> \<le> Suc (card (set (map fst (ro_entries s))))" by (rule card_insert_le_m1) simp_all
    also have "\<dots> \<le> Suc (length (ro_entries s))" using card_length [of "map fst (ro_entries s)"] by simp
    also have "\<dots> \<le> MAX_ENTRIES" using room False by auto
    finally show ?thesis .
  qed
  moreover have "entry_fits ?s = entry_fits s" by (intro ext) (simp add: entry_fits_def)
  ultimately show ?thesis
    using i(1-4) e by (simp add: router_inv_def update_conv' distinct_update)
qed

lemma inv_delete_entry:
  assumes inv: "router_inv s"
  shows "router_inv (s\<lparr>ro_entries := AList.delete dnet (ro_entries s)\<rparr>)"
proof -
  let ?s = "s\<lparr>ro_entries := AList.delete dnet (ro_entries s)\<rparr>"
  note i = router_invD [OF inv]
  have "remote_networks ?s \<subseteq> remote_networks s"
    by (auto simp: remote_networks_def port_numbers_def delete_conv')
  then have "card (remote_networks ?s) \<le> card (remote_networks s)" by (rule card_mono [rotated]) simp
  moreover have "entry_fits ?s = entry_fits s" by (intro ext) (simp add: entry_fits_def)
  ultimately show ?thesis
    using i by (auto simp: router_inv_def delete_conv' distinct_delete split: if_splits)
qed

text \<open>Learning a route: the entry it leaves, and when there is room for it.\<close>

definition learned_route :: "int \<Rightarrow> int \<Rightarrow> bytes option \<Rightarrow> routing_entry" where
  "learned_route dnet pid next_hop =
     \<lparr>re_network_number = dnet, re_port_id = pid, re_next_router_mac = next_hop,
      re_reachability = REACHABLE, re_busy_timer = None\<rparr>"

definition has_room :: "router \<Rightarrow> int \<Rightarrow> bool" where
  "has_room s dnet \<longleftrightarrow> dnet \<in> dom (map_of (ro_entries s)) \<or> length (ro_entries s) < MAX_ENTRIES"

lemma update_route_runs:
  assumes inv: "router_inv s" and port: "map_of (ro_ports s) pid \<noteq> None"
  shows "update_route dnet pid next_hop s =
    (Inr (), if has_room s dnet
       then s\<lparr>ro_entries := AList.update dnet (learned_route dnet pid next_hop) (ro_entries s)\<rparr> else s)"
proof (cases "map_of (ro_entries s) dnet")
  case None
  then show ?thesis using port
    by (auto simp: update_route_def get_port_def entry_of_def set_entries_def run has_room_def
        learned_route_def domIff)
next
  case (Some e)
  then have "e\<lparr>re_busy_timer := None, re_port_id := pid, re_next_router_mac := next_hop,
      re_reachability := REACHABLE\<rparr> = learned_route dnet pid next_hop"
    using router_invD(4) [OF inv Some] by (cases e) (simp add: entry_fits_def learned_route_def)
  then show ?thesis using port Some
    by (auto simp: update_route_def get_port_def entry_of_def set_entries_def run has_room_def)
qed

lemma update_route_unknown_port:
  "map_of (ro_ports s) pid = None \<Longrightarrow> update_route dnet pid next_hop s = (Inl ValueError, s)"
  by (simp add: update_route_def get_port_def run)

lemma keeps_update_route [keeps_intros]: "keeps router_inv (update_route dnet pid next_hop)"
  unfolding keeps_def
proof (intro allI impI)
  fix s assume inv: "router_inv s"
  show "router_inv (snd (update_route dnet pid next_hop s))"
  proof (cases "map_of (ro_ports s) pid")
    case None
    then show ?thesis using inv by (simp add: update_route_unknown_port)
  next
    case (Some port)
    then have "entry_fits s dnet (learned_route dnet pid next_hop)"
      by (simp add: entry_fits_def learned_route_def)
    with Some show ?thesis
      using inv_update_entry [OF inv, of dnet] inv by (simp add: update_route_runs has_room_def)
  qed
qed

lemma keeps_change_entry:
  assumes "\<And>e. re_network_number (f e) = re_network_number e" "\<And>e. re_port_id (f e) = re_port_id e"
    and "\<And>e. re_busy_timer (f e) \<noteq> None \<Longrightarrow> re_reachability (f e) = BUSY"
  shows "keeps router_inv (change_entry dnet f)"
  unfolding keeps_def
proof (intro allI impI)
  fix s assume inv: "router_inv s"
  show "router_inv (snd (change_entry dnet f s))"
  proof (cases "map_of (ro_entries s) dnet")
    case None
    then show ?thesis using inv by (simp add: change_entry_def entry_of_def run)
  next
    case (Some e)
    with router_invD(4) [OF inv Some] assms have "entry_fits s dnet (f e)" by (simp add: entry_fits_def)
    then show ?thesis
      using inv_update_entry [OF inv, of dnet "f e"] Some
      by (auto simp: change_entry_def entry_of_def set_entries_def run)
  qed
qed

lemma keeps_marks [keeps_intros]:
  "keeps router_inv (mark_busy dnet)" "keeps router_inv (mark_available dnet)"
  "keeps router_inv (mark_unreachable dnet)"
  unfolding mark_busy_def mark_available_def mark_unreachable_def
  by (rule keeps_change_entry; simp)+

lemma keeps_remove_entry [keeps_intros]: "keeps router_inv (remove_entry dnet)"
  by (auto simp: remove_entry_def set_entries_def keeps_def run inv_delete_entry)

lemma keeps_send_on [keeps_intros]: "keeps router_inv (send_on port data dest)"
  by (simp add: send_on_def keeps_def run)

lemma keeps_reads [keeps_intros]:
  "keeps router_inv (entry_of dnet)" "keeps router_inv (get_port pid)" "keeps router_inv all_ports"
  "keeps router_inv (get_port_for_network dnet)"
  "keeps router_inv (get_reachable_networks excl busy)"
  by (auto simp: keeps_def entry_of_def get_port_def all_ports_def get_port_for_network_def
      get_reachable_networks_def run split: option.split)

text \<open>Learning the number of a port re-keys its entry.\<close>

lemma inv_renumber:
  assumes inv: "router_inv s" and port: "map_of (ro_ports s) pid = Some port"
    and fresh: "map_of (ro_entries s) new = None"
    and e: "re_network_number e = new" "map_of (ro_ports s) (re_port_id e) \<noteq> None"
      "re_busy_timer e \<noteq> None \<Longrightarrow> re_reachability e = BUSY"
  shows "router_inv (s\<lparr>ro_ports := AList.update pid (port\<lparr>po_network_number := new\<rparr>) (ro_ports s),
    ro_entries := AList.update new e (AList.delete (po_network_number port) (ro_entries s))\<rparr>)"
    (is "router_inv ?s")
proof -
  note i = router_invD [OF inv]
  have ports: "map_of (ro_ports ?s) = (map_of (ro_ports s))(pid \<mapsto> port\<lparr>po_network_number := new\<rparr>)"
    by (simp add: update_conv')
  have entries: "map_of (ro_entries ?s) = ((map_of (ro_entries s))(po_network_number port := None))(new \<mapsto> e)"
    by (simp add: update_conv' delete_conv')
  have "remote_networks ?s \<subseteq> remote_networks s"
  proof
    fix d assume d: "d \<in> remote_networks ?s"
    have "new \<in> port_numbers ?s" unfolding port_numbers_def ports by (force simp: ran_def)
    then have "d \<noteq> new" using d by (auto simp: remote_networks_def)
    moreover from this d have "d \<noteq> po_network_number port" "d \<in> dom (map_of (ro_entries s))"
      unfolding remote_networks_def entries by (auto split: if_splits)
    moreover have "d \<notin> port_numbers s"
    proof
      assume "d \<in> port_numbers s"
      then obtain k p where p: "map_of (ro_ports s) k = Some p" "d = po_network_number p"
        by (auto simp: port_numbers_def ran_def)
      with \<open>d \<noteq> po_network_number port\<close> port have "k \<noteq> pid" by auto
      with p have "d \<in> port_numbers ?s" unfolding port_numbers_def ports by (force simp: ran_def)
      with d show False by (simp add: remote_networks_def)
    qed
    ultimately show "d \<in> remote_networks s" by (simp add: remote_networks_def)
  qed
  then have "card (remote_networks ?s) \<le> MAX_ENTRIES"
    using i(5) card_mono [of "remote_networks s"] by (meson finite_remote le_trans)
  moreover have "entry_fits ?s d x" if "entry_fits s d x \<or> (d = new \<and> x = e)" for d x
    using that e unfolding entry_fits_def ports by auto
  ultimately show ?thesis
    unfolding router_inv_def ports entries
    using i(1-4) port by (auto simp: distinct_update distinct_delete split: if_splits)
qed

lemma keeps_renumber [keeps_intros]: "keeps router_inv (update_port_network_number pid new)"
  unfolding keeps_def
proof (intro allI impI)
  fix s assume inv: "router_inv s"
  show "router_inv (snd (update_port_network_number pid new s))"
  proof (cases "map_of (ro_ports s) pid")
    case None
    then show ?thesis using inv by (simp add: update_port_network_number_def get_port_def run)
  next
    case (Some port)
    note i = inv_renumber [OF inv Some, of new]
    show ?thesis
    proof (cases "map_of (ro_entries s) (po_network_number port)")
      case None
      with i [of "direct_entry new pid"] Some inv show ?thesis
        by (simp add: update_port_network_number_def get_port_def entry_of_def set_entries_def run
            Let_def direct_entry_def)
    next
      case (Some e)
      with i [of "e\<lparr>re_network_number := new\<rparr>"] router_invD(4) [OF inv Some] inv
        \<open>map_of (ro_ports s) pid = Some port\<close> show ?thesis
        by (simp add: update_port_network_number_def get_port_def entry_of_def set_entries_def run
            Let_def entry_fits_def)
    qed
  qed
qed

section \<open>Every event keeps the invariant\<close>

lemma keeps_ports_except [keeps_intros]:
  "(\<And>p. keeps I (f p)) \<Longrightarrow> (keeps I all_ports) \<Longrightarrow> keeps I (ports_except pid f)"
  unfolding ports_except_def by (intro keeps_intros)

lemma keeps_message [keeps_intros]:
  "keeps router_inv (send_network_message_on_port pid msg dest)"
  "keeps router_inv (broadcast_network_message_all_except pid msg)"
  "keeps router_inv (send_reject pid mac reason dnet)"
  unfolding broadcast_network_message_all_except_def send_reject_def send_network_message_on_port_def
  by (intro keeps_intros)+

lemma keeps_toward_source [keeps_intros]:
  "keeps router_inv (send_reject_toward_source arrival n mac reason dnet)"
  unfolding send_reject_toward_source_def Let_def by (intro keeps_intros)

lemma keeps_deliver [keeps_intros]: "keeps router_inv (deliver_to_application pid n mac)"
  unfolding deliver_to_application_def by (intro keeps_intros) simp

lemma keeps_forward [keeps_intros]:
  "keeps router_inv (forward_global_broadcast arrival n mac)"
  "keeps router_inv (forward_to_network arrival n mac dnet)"
proof -
  have prep: "keeps router_inv (prepare_forwarded_npdu arrival n mac)"
    unfolding prepare_forwarded_npdu_def inject_source_def Let_def by (intro keeps_intros)
  then show "keeps router_inv (forward_global_broadcast arrival n mac)"
    unfolding forward_global_broadcast_def by (intro keeps_intros)
  have "keeps router_inv (deliver_to_directly_connected arrival n mac port)" for port
    unfolding deliver_to_directly_connected_def by (intro keeps_intros)
  moreover have "keeps router_inv (forward_via_next_hop arrival n mac port entry)" for port entry
    unfolding forward_via_next_hop_def by (intro keeps_intros prep)
  ultimately show "keeps router_inv (forward_to_network arrival n mac dnet)"
    unfolding forward_to_network_def
    by (intro keeps_intros) (auto split: reachability.split intro: keeps_intros)
qed

lemma keeps_dispatch [keeps_intros]: "keeps router_inv (dispatch_message pid msg n mac)"
proof -
  have "keeps router_inv (apply_port_entry p)" for p
    unfolding apply_port_entry_def by (intro keeps_intros)
  then have "keeps router_inv (handle_init_routing_table pid ports mac)" for ports
    unfolding handle_init_routing_table_def by (intro keeps_intros)
  moreover have "keeps router_inv (handle_who_is_router pid net n mac)" for net
    unfolding handle_who_is_router_def reply_if_any_def by (intro keeps_intros)
  moreover have "keeps router_inv (handle_i_am_router pid nets mac)"
    "keeps router_inv (handle_router_busy pid nets mac)"
    "keeps router_inv (handle_router_available pid nets)" for nets
    unfolding handle_i_am_router_def handle_router_busy_def handle_router_available_def
    by (intro keeps_intros)+
  moreover have "keeps router_inv (handle_reject_message pid reason net n mac)" for reason net
    unfolding handle_reject_message_def Let_def by (intro keeps_intros)
  moreover have "keeps router_inv (handle_what_is_network_number pid n)"
    "keeps router_inv (handle_network_number_is pid net configured n)" for net configured
    unfolding handle_what_is_network_number_def handle_network_number_is_def
    by (intro keeps_intros)+
  ultimately show ?thesis
    by (cases msg) (simp_all add: dispatch_message_def keeps_intros)
qed

lemma keeps_receive [keeps_intros]: "keeps router_inv (on_port_receive pid data mac)"
  unfolding on_port_receive_def process_npdu_def handle_network_message_def Let_def
  by (intro keeps_intros)

lemma keeps_start: "keeps router_inv start_router"
  unfolding start_router_def announce_def reply_if_any_def by (intro keeps_intros)

lemma keeps_router_send: "keeps router_inv (router_send apdu dest reply prio)"
  unfolding router_send_def by (intro keeps_intros)

lemma keeps_timer: "keeps router_inv (busy_timer_fires dnet)"
  unfolding busy_timer_fires_def
  by (intro keeps_intros keeps_change_entry) simp_all

lemma keeps_stop: "keeps router_inv stop_router"
  unfolding keeps_def
proof (intro allI impI)
  fix s assume inv: "router_inv s"
  let ?es = "map (\<lambda>(k, e). (k, e\<lparr>re_busy_timer := None\<rparr>)) (ro_entries s)"
  have m: "map_of ?es = map_option (\<lambda>e. e\<lparr>re_busy_timer := None\<rparr>) \<circ> map_of (ro_entries s)"
    by (rule map_of_map)
  have k: "map fst ?es = map fst (ro_entries s)" by (simp add: case_prod_beta')
  have "router_inv (s\<lparr>ro_entries := ?es\<rparr>)"
    using inv unfolding router_inv_def remote_networks_def
    by (auto simp: k m entry_fits_def port_numbers_def dom_def simp del: map_map)
  then show "router_inv (snd (stop_router s))" by (simp add: stop_router_def set_entries_def run)
qed

abbreviation router_reach :: "router \<Rightarrow> router \<Rightarrow> bool" where
  "router_reach \<equiv> reachable (\<lambda>s ev. True) router_event_proc"

interpretation router_machine: event_system "\<lambda>s ev. True" router_event_proc router_inv
proof unfold_locales
  fix s ev assume "router_inv s"
  then show "router_inv (snd (router_event_proc ev s))"
    by (cases ev) (auto intro: keepsD keeps_receive keeps_timer keeps_router_send keeps_start keeps_stop)
qed

section \<open>The initial state\<close>

lemma keeps_add_port: "keeps router_inv (add_port port)"
  unfolding keeps_def
proof (intro allI impI)
  fix s assume inv: "router_inv s"
  note i = router_invD [OF inv]
  let ?s = "s\<lparr>ro_ports := AList.update (po_port_id port) port (ro_ports s),
    ro_entries := AList.update (po_network_number port)
      (direct_entry (po_network_number port) (po_port_id port)) (ro_entries s)\<rparr>"
  show "router_inv (snd (add_port port s))"
  proof (cases "map_of (ro_ports s) (po_port_id port) = None
      \<and> map_of (ro_entries s) (po_network_number port) = None")
    case False
    then show ?thesis using inv by (auto simp: add_port_def get_port_def entry_of_def run)
  next
    case True
    have ports: "map_of (ro_ports ?s) = (map_of (ro_ports s))(po_port_id port \<mapsto> port)"
      by (simp add: update_conv')
    have entries: "map_of (ro_entries ?s) = (map_of (ro_entries s))(po_network_number port
        \<mapsto> direct_entry (po_network_number port) (po_port_id port))"
      by (simp add: update_conv')
    have "port_numbers s \<union> {po_network_number port} \<subseteq> port_numbers ?s"
      unfolding port_numbers_def ports using True by (simp add: ran_map_upd)
    then have "remote_networks ?s \<subseteq> remote_networks s"
      unfolding remote_networks_def entries by auto
    then have "card (remote_networks ?s) \<le> MAX_ENTRIES"
      using i(5) card_mono [of "remote_networks s"] by (meson finite_remote le_trans)
    then have "router_inv ?s"
      unfolding router_inv_def ports entries entry_fits_def
      using i(1-4) True by (auto simp: distinct_update direct_entry_def entry_fits_def)
    then show ?thesis
      using True by (simp add: add_port_def get_port_def entry_of_def set_entries_def run)
  qed
qed

lemma init_router_inv:
  assumes "init_router ports app cb = Inr s"
  shows "router_inv s"
proof -
  let ?z = "\<lparr>ro_ports = [], ro_entries = [], ro_application_port_id = app,
    ro_has_application = cb, ro_sent = [], ro_delivered = []\<rparr>"
  have "router_inv ?z" by (simp add: router_inv_def remote_networks_def)
  then have "router_inv (snd (each_p add_port ports ?z))"
    by (rule keepsD [OF keeps_each [OF keeps_add_port]])
  then show ?thesis using assms
    by (auto simp: init_router_def split: prod.splits sum.splits)
qed

section \<open>Sending\<close>

text \<open>A network message that fits is one frame, which decodes to it.\<close>

lemma message_npdu_ok: "npdu_ok (message_npdu msg data)"
  by (cases msg) (simp_all add: npdu_ok_def message_npdu_def message_ok_def octet_def)

lemma message_frame:
  assumes "message_data_ok msg"
  obtains data frame where "encode_network_message msg = Inr data"
    "decode_network_message (message_type_for msg) data = Inr msg"
    "encode_npdu (message_npdu msg data) = Inr frame"
    "decode_npdu frame = Inr (message_npdu msg data)"
proof -
  obtain data where d: "encode_network_message msg = Inr data"
    "decode_network_message (message_type_for msg) data = Inr msg"
    using network_message_round [OF assms] by blast
  have "npdu_view (message_npdu msg data) = message_npdu msg data"
    by (cases msg) (simp_all add: npdu_view_def message_npdu_def)
  with d show thesis
    using that [OF d, of "npdu_octets (message_npdu msg data)"]
      encode_npdu_ok [OF message_npdu_ok] npdu_round [OF message_npdu_ok] by simp
qed

definition carries_message :: "bytes \<Rightarrow> network_message \<Rightarrow> bool" where
  "carries_message frame msg \<longleftrightarrow>
     (\<exists>n mt. decode_npdu frame = Inr n \<and> is_network_message n \<and> message_type n = Some mt
       \<and> decode_network_message mt (network_message_data n) = Inr msg)"

lemma send_message_runs:
  assumes "message_data_ok msg" "map_of (ro_ports s) pid = Some port"
  obtains frame where "carries_message frame msg"
    "send_network_message_on_port pid msg dest s
      = (Inr (), s\<lparr>ro_sent := ro_sent s @ [(po_port_id port, frame, dest)]\<rparr>)"
proof -
  obtain data frame where f: "encode_network_message msg = Inr data"
    "decode_network_message (message_type_for msg) data = Inr msg"
    "encode_npdu (message_npdu msg data) = Inr frame"
    "decode_npdu frame = Inr (message_npdu msg data)"
    by (rule message_frame [OF assms(1)])
  then have "carries_message frame msg" by (simp add: carries_message_def message_npdu_def)
  with f assms(2) show thesis
    using that [of frame]
    by (simp add: send_network_message_on_port_def get_port_def send_on_def run)
qed

end
