(* ===== verification/Router_Forwarding.thy ===== *)
theory Router_Forwarding
  imports Router_Laws
begin

text \<open>
  Where the router sends an NPDU it receives: what a forwarded frame decodes to, flooding,
  routing to a next hop or a station, and the rejects for networks it cannot reach.  The last
  section bounds forwarding by the hop count, in any state of any number of routers.
\<close>

section \<open>Forwarded frames\<close>

text \<open>The port a frame arrives on has a valid number, and its sender a MAC that fits SLEN.\<close>

definition attached :: "router \<Rightarrow> int \<Rightarrow> bytes \<Rightarrow> bool" where
  "attached s arrival mac \<longleftrightarrow>
     (case map_of (ro_ports s) arrival of None \<Rightarrow> False
      | Some port \<Rightarrow> 1 \<le> po_network_number port \<and> po_network_number port \<le> 65534)
     \<and> mac \<noteq> [] \<and> length mac \<le> 255"

text \<open>The source a routed NPDU has or is given.\<close>

definition source_of :: "router \<Rightarrow> int \<Rightarrow> npdu \<Rightarrow> bytes \<Rightarrow> bacnet_address" where
  "source_of s arrival n mac =
     (case npdu_source n of Some src \<Rightarrow> src
      | None \<Rightarrow> \<lparr>network = map_option po_network_number (map_of (ro_ports s) arrival),
                 mac_address = mac\<rparr>)"

definition forwarded :: "npdu \<Rightarrow> bacnet_address \<Rightarrow> npdu" where
  "forwarded n src = n\<lparr>npdu_source := Some src, hop_count := hop_count n - 1\<rparr>"

definition delivered :: "npdu \<Rightarrow> bacnet_address \<Rightarrow> npdu" where
  "delivered n src = n\<lparr>destination := None, npdu_source := Some src, hop_count := 255\<rparr>"

lemma attachedE:
  assumes "attached s arrival mac"
  obtains port where "map_of (ro_ports s) arrival = Some port"
    "1 \<le> po_network_number port" "po_network_number port \<le> 65534" "mac \<noteq> []" "length mac \<le> 255"
  using assms by (auto simp: attached_def split: option.splits)

lemma source_of_ok: "npdu_ok n \<Longrightarrow> attached s arrival mac \<Longrightarrow> source_ok (source_of s arrival n mac)"
  by (auto simp: source_of_def npdu_ok_def attached_def source_ok_def dest_ok_def split: option.splits)

lemma view_fields:
  assumes "npdu_view n = n"
  shows "version n = 1" "n\<lparr>version := 1\<rparr> = n" "destination n = None \<Longrightarrow> hop_count n = 255"
proof -
  have "version (npdu_view n) = 1" "destination n = None \<Longrightarrow> hop_count (npdu_view n) = 255"
    by (simp_all add: npdu_view_def)
  then show "version n = 1" "destination n = None \<Longrightarrow> hop_count n = 255" by (simp_all add: assms)
  then show "n\<lparr>version := 1\<rparr> = n" by simp
qed

lemma inject_runs:
  "attached s arrival mac \<Longrightarrow>
   inject_source arrival n mac s = (Inr (Some (source_of s arrival n mac)), s)"
  by (erule attachedE)
    (simp add: inject_source_def source_of_def get_port_def BACnetAddress_def run split: option.split)

lemma prepare_runs:
  assumes "npdu_view n = n" "attached s arrival mac"
  shows "prepare_forwarded_npdu arrival n mac s =
    (Inr (if hop_count n \<le> 1 then None else Some (forwarded n (source_of s arrival n mac))), s)"
  using view_fields(2) [OF assms(1)]
  by (simp add: prepare_forwarded_npdu_def inject_runs [OF assms(2)] forwarded_def run run_bind Let_def)

lemma forwarded_frame:
  assumes "npdu_ok n" "npdu_view n = n" "1 < hop_count n" "destination n \<noteq> None" "source_ok src"
  obtains frame where "encode_npdu (forwarded n src) = Inr frame" "decode_npdu frame = Inr (forwarded n src)"
proof -
  have ok: "npdu_ok (forwarded n src)"
    using assms by (auto simp: npdu_ok_def forwarded_def octet_def message_ok_def split: option.splits)
  have "npdu_view (forwarded n src) = (npdu_view n)\<lparr>npdu_source := Some src, hop_count := hop_count n - 1\<rparr>"
    using assms(4) by (cases n) (auto simp add: npdu_view_def forwarded_def split: option.split)
  then have "npdu_view (forwarded n src) = forwarded n src" by (simp add: assms(2) forwarded_def)
  then show thesis using that encode_npdu_ok [OF ok] npdu_round [OF ok] by simp
qed

lemma delivered_frame:
  assumes "npdu_ok n" "npdu_view n = n" "source_ok src" "network src = Some snet"
  obtains frame where "encode_npdu_local_delivery n snet (mac_address src) = Inr frame"
    "decode_npdu frame = Inr (delivered n src)"
proof -
  have src: "src = \<lparr>network = Some snet, mac_address = mac_address src\<rparr>" using assms(4) by simp
  have ok: "npdu_ok (relayed n snet (mac_address src))"
    using assms(1) assms(3) src
    by (auto simp: npdu_ok_def relayed_def message_ok_def split: option.splits)
  have "encode_npdu_local_delivery n snet (mac_address src) = encode_npdu (relayed n snet (mac_address src))"
    using assms by (intro local_delivery_agrees)
      (auto simp: source_ok_def dest_ok_def npdu_ok_def message_ok_def split: option.splits)
  moreover have "npdu_view (relayed n snet (mac_address src)) = delivered (npdu_view n) src"
    using src by (cases n) (simp add: npdu_view_def relayed_def delivered_def split: option.split)
  ultimately show thesis
    using that encode_npdu_ok [OF ok] npdu_round [OF ok] assms(2) by simp
qed

section \<open>Loops over the ports\<close>

definition other_ports :: "router \<Rightarrow> int \<Rightarrow> int list" where
  "other_ports s pid = filter (\<lambda>k. k \<noteq> pid) (map (po_port_id \<circ> snd) (ro_ports s))"

lemma other_ports_not [simp]: "pid \<notin> set (other_ports s pid)"
  by (simp add: other_ports_def)

lemma ports_except_send:
  "ports_except pid (\<lambda>p. send_on p frame None) s =
    (Inr (), s\<lparr>ro_sent := ro_sent s @ map (\<lambda>k. (k, frame, None)) (other_ports s pid)\<rparr>)"
proof -
  have "each_p (\<lambda>p. if po_port_id p = pid then return_p () else send_on p frame None) ps s =
      (Inr (), s\<lparr>ro_sent := ro_sent s
        @ map (\<lambda>k. (k, frame, None)) (filter (\<lambda>k. k \<noteq> pid) (map po_port_id ps))\<rparr>)" for ps s
    by (induction ps arbitrary: s) (simp_all add: run send_on_def)
  then show ?thesis by (simp add: ports_except_def all_ports_def run other_ports_def)
qed

lemma broadcast_message_runs:
  assumes inv: "router_inv s" and msg: "message_data_ok msg"
  obtains frame where "carries_message frame msg"
    "broadcast_network_message_all_except pid msg s =
      (Inr (), s\<lparr>ro_sent := ro_sent s @ map (\<lambda>k. (k, frame, None)) (other_ports s pid)\<rparr>)"
proof -
  obtain data frame where f: "encode_network_message msg = Inr data"
    "decode_network_message (message_type_for msg) data = Inr msg"
    "encode_npdu (message_npdu msg data) = Inr frame"
    "decode_npdu frame = Inr (message_npdu msg data)"
    by (rule message_frame [OF msg])
  have send: "send_network_message_on_port (po_port_id p) msg None s'
      = send_on p frame None s'"
    if "(k, p) \<in> set (ro_ports s)" "ro_ports s' = ro_ports s" for k p s'
  proof -
    have m: "map_of (ro_ports s) k = Some p" using that router_invD(1) [OF inv] by simp
    moreover from this have "po_port_id p = k" by (rule router_invD(3) [OF inv])
    ultimately show ?thesis
      using f that by (simp add: send_network_message_on_port_def get_port_def run)
  qed
  have each: "each_p (\<lambda>p. if po_port_id p = pid then return_p ()
        else send_network_message_on_port (po_port_id p) msg None) ps s' =
      each_p (\<lambda>p. if po_port_id p = pid then return_p () else send_on p frame None) ps s'"
    if "set ps \<subseteq> snd ` set (ro_ports s)" "ro_ports s' = ro_ports s" for ps s'
    using that
  proof (induction ps arbitrary: s')
    case (Cons p ps)
    then obtain k where k: "(k, p) \<in> set (ro_ports s)" by auto
    show ?case
      using Cons send [OF k Cons.prems(2)] by (simp add: run send_on_def seq_p_def bind_p_def)
  qed simp
  have "broadcast_network_message_all_except pid msg s = ports_except pid (\<lambda>p. send_on p frame None) s"
    using each [of "map snd (ro_ports s)" s]
    by (simp add: broadcast_network_message_all_except_def ports_except_def all_ports_def run)
  moreover have "carries_message frame msg" using f by (simp add: carries_message_def message_npdu_def)
  ultimately show thesis using that by (simp add: ports_except_send)
qed

section \<open>Where an NPDU goes\<close>

lemma receive_runs:
  assumes "decode_npdu data = Inr n" "process_npdu pid n mac s = (Inr (), s')"
  shows "on_port_receive pid data mac s = (Inr (), s')"
  using assms by (simp add: on_port_receive_def catch_p_def)

definition local_copy :: "router \<Rightarrow> int \<Rightarrow> npdu \<Rightarrow> bytes \<Rightarrow> (bytes \<times> bacnet_address) list" where
  "local_copy s arrival n mac =
     (if ro_has_application s then [(apdu_data n, source_of s arrival n mac)] else [])"

lemma deliver_runs:
  assumes "attached s arrival mac"
  shows "deliver_to_application arrival n mac s =
    (Inr (), s\<lparr>ro_delivered := ro_delivered s @ local_copy s arrival n mac\<rparr>)"
  using assms
  by (auto elim!: attachedE simp: deliver_to_application_def local_copy_def source_of_def
      get_port_def BACnetAddress_def run run_bind split: option.split)

lemma source_of_logs [simp]:
  "source_of (s\<lparr>ro_delivered := x\<rparr>) = source_of s" "attached (s\<lparr>ro_delivered := x\<rparr>) = attached s"
  "other_ports (s\<lparr>ro_delivered := x\<rparr>) = other_ports s"
  by (intro ext; simp add: source_of_def attached_def other_ports_def cong: option.case_cong)+

definition flooded :: "router \<Rightarrow> int \<Rightarrow> bytes \<Rightarrow> router" where
  "flooded s arrival frame =
     s\<lparr>ro_sent := ro_sent s @ map (\<lambda>k. (k, frame, None)) (other_ports s arrival)\<rparr>"

lemma flood_runs:
  assumes "npdu_ok n" "npdu_view n = n" "destination n \<noteq> None" "attached s arrival mac"
    "1 < hop_count n"
  obtains frame where "decode_npdu frame = Inr (forwarded n (source_of s arrival n mac))"
    "forward_global_broadcast arrival n mac s = (Inr (), flooded s arrival frame)"
proof -
  obtain frame where f: "encode_npdu (forwarded n (source_of s arrival n mac)) = Inr frame"
    "decode_npdu frame = Inr (forwarded n (source_of s arrival n mac))"
    by (rule forwarded_frame [OF assms(1,2) assms(5) assms(3) source_of_ok [OF assms(1,4)]])
  then show thesis using assms(5) that [OF f(2)]
    by (simp add: forward_global_broadcast_def run_bind prepare_runs [OF assms(2,4)] run
        ports_except_send flooded_def)
qed

lemma flood_stops:
  "npdu_view n = n \<Longrightarrow> attached s arrival mac \<Longrightarrow> hop_count n \<le> 1 \<Longrightarrow>
   forward_global_broadcast arrival n mac s = (Inr (), s)"
  by (simp add: forward_global_broadcast_def run_bind prepare_runs run)

text \<open>The station or next hop a routed NPDU is sent to, \<open>None\<close> for a broadcast on that port.\<close>

definition hop_of :: "routing_entry \<Rightarrow> bytes \<Rightarrow> bytes option" where
  "hop_of e dadr =
     (case re_next_router_mac e of Some hop \<Rightarrow> Some hop | None \<Rightarrow> if dadr = [] then None else Some dadr)"

definition rerouted :: "routing_entry \<Rightarrow> npdu \<Rightarrow> bacnet_address \<Rightarrow> npdu" where
  "rerouted e n src = (if re_next_router_mac e = None then delivered n src else forwarded n src)"

definition usable_route :: "router \<Rightarrow> int \<Rightarrow> routing_entry \<Rightarrow> bool" where
  "usable_route s dnet e \<longleftrightarrow> map_of (ro_entries s) dnet = Some e \<and> re_reachability e = REACHABLE"

lemma route_port:
  assumes "router_inv s" "map_of (ro_entries s) dnet = Some e"
  obtains port where "map_of (ro_ports s) (re_port_id e) = Some port" "po_port_id port = re_port_id e"
    "get_port_for_network dnet s = (Inr (Some (port, e)), s)"
proof -
  obtain port where p: "map_of (ro_ports s) (re_port_id e) = Some port"
    using router_invD(4) [OF assms] by (auto simp: entry_fits_def)
  moreover have "get_port_for_network dnet s = (Inr (Some (port, e)), s)"
    using p assms(2) by (simp add: get_port_for_network_def entry_of_def get_port_def run)
  ultimately show thesis using that router_invD(3) [OF assms(1)] by blast
qed

lemma no_route: "map_of (ro_entries s) dnet = None \<Longrightarrow> get_port_for_network dnet s = (Inr None, s)"
  by (simp add: get_port_for_network_def entry_of_def run)

lemma routed_source_source_of:
  assumes "npdu_ok n" "attached s arrival mac"
  shows "case routed_source n of
      Some (snet, smac) \<Rightarrow> source_of s arrival n mac = \<lparr>network = Some snet, mac_address = smac\<rparr>
    | None \<Rightarrow> npdu_source n = None"
  using assms
  by (auto simp: routed_source_def source_of_def npdu_ok_def source_ok_def dest_ok_def split: option.splits)

lemma direct_runs:
  assumes ok: "npdu_ok n" "npdu_view n = n" and d: "destination n = Some d"
    and att: "attached s arrival mac"
  obtains frame where "decode_npdu frame = Inr (delivered n (source_of s arrival n mac))"
    "deliver_to_directly_connected arrival n mac port s = (Inr (), s\<lparr>ro_sent := ro_sent s
       @ [(po_port_id port, frame, if mac_address d = [] then None else Some (mac_address d))]\<rparr>)"
proof -
  let ?src = "source_of s arrival n mac"
  note src = source_of_ok [OF ok(1) att]
  then obtain snet where net: "network ?src = Some snet"
    by (auto simp: source_ok_def dest_ok_def split: option.splits)
  obtain frame where f: "encode_npdu_local_delivery n snet (mac_address ?src) = Inr frame"
    "decode_npdu frame = Inr (delivered n ?src)"
    by (rule delivered_frame [OF ok src net])
  obtain ap where ap: "map_of (ro_ports s) arrival = Some ap" using att by (rule attachedE)
  have "(case routed_source n of
        Some (snet, smac) \<Rightarrow> lift_p (encode_npdu_local_delivery n snet smac)
      | None \<Rightarrow> bind_p (get_port arrival) (\<lambda>p. case p of
          Some port \<Rightarrow> lift_p (encode_npdu_local_delivery n (po_network_number port) mac)
        | None \<Rightarrow> lift_p (encode_npdu (n\<lparr>version := 1, destination := None,
            npdu_source := None, hop_count := 255\<rparr>)))) s = (Inr frame, s)"
    using routed_source_source_of [OF ok(1) att] f(1) net ap
    by (auto simp: run get_port_def source_of_def split: option.splits)
  then show thesis using that [OF f(2)]
    by (simp add: deliver_to_directly_connected_def d run_bind send_on_def run)
qed

lemma routed_runs:
  assumes inv: "router_inv s" and ok: "npdu_ok n" "npdu_view n = n" and d: "destination n = Some d"
    and att: "attached s arrival mac" and route: "usable_route s dnet e"
    and hops: "re_next_router_mac e = None \<or> 1 < hop_count n"
  obtains frame where "decode_npdu frame = Inr (rerouted e n (source_of s arrival n mac))"
    "forward_to_network arrival n mac dnet s =
      (Inr (), s\<lparr>ro_sent := ro_sent s @ [(re_port_id e, frame, hop_of e (mac_address d))]\<rparr>)"
proof -
  have e: "map_of (ro_entries s) dnet = Some e" "re_reachability e = REACHABLE"
    using route by (simp_all add: usable_route_def)
  obtain port where p: "map_of (ro_ports s) (re_port_id e) = Some port" "po_port_id port = re_port_id e"
    "get_port_for_network dnet s = (Inr (Some (port, e)), s)"
    by (rule route_port [OF inv e(1)])
  show thesis
  proof (cases "re_next_router_mac e")
    case None
    obtain frame where f: "decode_npdu frame = Inr (delivered n (source_of s arrival n mac))"
      "deliver_to_directly_connected arrival n mac port s = (Inr (), s\<lparr>ro_sent := ro_sent s
        @ [(po_port_id port, frame, if mac_address d = [] then None else Some (mac_address d))]\<rparr>)"
      by (rule direct_runs [OF ok d att])
    with None p e show thesis
      using that [of frame]
      by (simp add: forward_to_network_def run_bind rerouted_def hop_of_def)
  next
    case (Some hop)
    with hops have h: "1 < hop_count n" by simp
    obtain frame where f: "encode_npdu (forwarded n (source_of s arrival n mac)) = Inr frame"
      "decode_npdu frame = Inr (forwarded n (source_of s arrival n mac))"
      by (rule forwarded_frame [OF ok h _ source_of_ok [OF ok(1) att]]) (simp add: d)
    with Some p e h show thesis
      using that [of frame]
      by (simp add: forward_to_network_def forward_via_next_hop_def run_bind run
          prepare_runs [OF ok(2) att] rerouted_def hop_of_def send_on_def)
  qed
qed

lemma routed_stops:
  assumes inv: "router_inv s" and ok: "npdu_view n = n" and att: "attached s arrival mac"
    and route: "usable_route s dnet e" and hop: "re_next_router_mac e \<noteq> None" "hop_count n \<le> 1"
  shows "forward_to_network arrival n mac dnet s = (Inr (), s)"
proof -
  have e: "map_of (ro_entries s) dnet = Some e" "re_reachability e = REACHABLE"
    using route by (simp_all add: usable_route_def)
  obtain port where "get_port_for_network dnet s = (Inr (Some (port, e)), s)" by (rule route_port [OF inv e(1)])
  then show ?thesis
    using hop e(2)
    by (auto simp: forward_to_network_def forward_via_next_hop_def run_bind run prepare_runs [OF ok att])
qed

section \<open>Rejects\<close>

text \<open>Where a reject goes: back along the route to the source, or to the sender of the frame.\<close>

definition reject_route :: "router \<Rightarrow> int \<Rightarrow> npdu \<Rightarrow> bytes \<Rightarrow> int \<times> bytes option" where
  "reject_route s arrival n mac =
     (case routed_source n of None \<Rightarrow> (arrival, Some mac)
      | Some (snet, smac) \<Rightarrow>
          (case map_of (ro_entries s) snet of None \<Rightarrow> (arrival, Some mac)
           | Some e \<Rightarrow> (re_port_id e, hop_of e smac)))"

lemma routed_message_frame:
  assumes "message_data_ok msg" "dest_ok d"
  obtains data frame where "encode_network_message msg = Inr data"
    "encode_npdu ((message_npdu msg data)\<lparr>destination := Some d\<rparr>) = Inr frame"
    "carries_message frame msg"
proof -
  obtain data where e: "encode_network_message msg = Inr data"
    "decode_network_message (message_type_for msg) data = Inr msg"
    using network_message_round [OF assms(1)] by blast
  let ?n = "(message_npdu msg data)\<lparr>destination := Some d\<rparr>"
  have ok: "npdu_ok ?n"
    using message_npdu_ok [of msg data] assms(2)
    by (auto simp: npdu_ok_def message_ok_def message_npdu_def octet_def)
  have "npdu_view ?n = ?n" by (cases msg) (simp_all add: npdu_view_def message_npdu_def)
  then have "carries_message (npdu_octets ?n) msg"
    using npdu_round [OF ok] e(2) by (simp add: carries_message_def message_npdu_def)
  with e(1) encode_npdu_ok [OF ok] show thesis by (rule that)
qed

lemma reject_runs:
  assumes inv: "router_inv s" and ok: "npdu_ok n" and att: "attached s arrival mac" and net: "net_ok dnet"
  obtains frame where "carries_message frame (RejectMessageToNetwork reason dnet)"
    "send_reject_toward_source arrival n mac reason dnet s = (Inr (), s\<lparr>ro_sent := ro_sent s
      @ [(fst (reject_route s arrival n mac), frame, snd (reject_route s arrival n mac))]\<rparr>)"
proof -
  let ?msg = "RejectMessageToNetwork reason dnet"
  have msg: "message_data_ok ?msg" using net by simp
  obtain ap where ap: "map_of (ro_ports s) arrival = Some ap" using att by (rule attachedE)
  obtain local where l: "carries_message local ?msg"
    "send_network_message_on_port arrival ?msg (Some mac) s
      = (Inr (), s\<lparr>ro_sent := ro_sent s @ [(arrival, local, Some mac)]\<rparr>)"
    using send_message_runs [OF msg ap, of "Some mac"] router_invD(3) [OF inv ap] by metis
  show thesis
  proof (cases "npdu_source n")
    case None
    with l that show thesis
      by (simp add: send_reject_toward_source_def send_reject_def reject_route_def routed_source_def)
  next
    case (Some src)
    then have src: "source_ok src" using ok by (simp add: npdu_ok_def)
    then obtain snet where snet: "network src = Some snet" and mac: "mac_address src \<noteq> []"
      by (auto simp: source_ok_def dest_ok_def split: option.splits)
    have rs: "routed_source n = Some (snet, mac_address src)" using Some snet by (simp add: routed_source_def)
    obtain data frame where f: "encode_network_message ?msg = Inr data"
      "encode_npdu ((message_npdu ?msg data)\<lparr>destination := Some src\<rparr>) = Inr frame"
      "carries_message frame ?msg"
      by (rule routed_message_frame [OF msg, of src]) (use src in \<open>simp add: source_ok_def\<close>)
    show thesis
    proof (cases "map_of (ro_entries s) snet")
      case None
      with l that Some snet rs f show thesis
        by (simp add: send_reject_toward_source_def send_reject_def reject_route_def
            run no_route run_bind Let_def del: encode_network_message.simps)
    next
      case (Some e)
      obtain port where p: "po_port_id port = re_port_id e"
        "get_port_for_network snet s = (Inr (Some (port, e)), s)"
        by (rule route_port [OF inv Some])
      with that Some \<open>npdu_source n = Some src\<close> snet rs f mac show thesis
        by (simp add: send_reject_toward_source_def reject_route_def hop_of_def run run_bind
            send_on_def Let_def del: encode_network_message.simps split: option.splits)
    qed
  qed
qed

text \<open>The reject reason of a network the router cannot send to.\<close>

definition refusal :: "router \<Rightarrow> int \<Rightarrow> reject_message_reason option" where
  "refusal s dnet =
     (case map_of (ro_entries s) dnet of None \<Rightarrow> Some NOT_DIRECTLY_CONNECTED
      | Some e \<Rightarrow> (case re_reachability e of UNREACHABLE \<Rightarrow> Some NOT_DIRECTLY_CONNECTED
                 | BUSY \<Rightarrow> Some ROUTER_BUSY | REACHABLE \<Rightarrow> None))"

lemma refused_runs:
  assumes inv: "router_inv s" and refused: "refusal s dnet = Some reason"
  shows "forward_to_network arrival n mac dnet s = send_reject_toward_source arrival n mac reason dnet s"
proof (cases "map_of (ro_entries s) dnet")
  case None
  with refused show ?thesis by (simp add: forward_to_network_def no_route run_bind refusal_def)
next
  case (Some e)
  obtain port where "get_port_for_network dnet s = (Inr (Some (port, e)), s)"
    by (rule route_port [OF inv Some])
  with Some refused show ?thesis
    by (auto simp: forward_to_network_def run_bind refusal_def split: reachability.splits)
qed

section \<open>Learning routes\<close>

lemma learn_runs:
  assumes "router_inv s" "map_of (ro_ports s) pid \<noteq> None"
    and "length (ro_entries s) + length nets \<le> MAX_ENTRIES"
  obtains s' where "each_p (\<lambda>d. update_route d pid hop) nets s = (Inr (), s')"
    "router_inv s'" "ro_ports s' = ro_ports s" "ro_sent s' = ro_sent s"
    "\<And>d. map_of (ro_entries s') d
      = (if d \<in> set nets then Some (learned_route d pid hop) else map_of (ro_entries s) d)"
  using assms
proof (induction nets arbitrary: s thesis)
  case Nil
  show ?case by (rule Nil(1) [of s]) (use Nil in \<open>simp_all add: run\<close>)
next
  case (Cons d ds)
  let ?s = "s\<lparr>ro_entries := AList.update d (learned_route d pid hop) (ro_entries s)\<rparr>"
  have step: "update_route d pid hop s = (Inr (), ?s)"
    using update_route_runs [OF Cons.prems(2,3)] Cons.prems(4) by (simp add: has_room_def)
  have inv: "router_inv ?s"
    using keepsD [OF keeps_update_route Cons.prems(2), of d pid hop] step by simp
  have len: "length (AList.update d e es) \<le> Suc (length es)" for e and es :: "routing_entry dict"
    by (induction es) auto
  obtain s' where s': "each_p (\<lambda>d. update_route d pid hop) ds ?s = (Inr (), s')"
    "router_inv s'" "ro_ports s' = ro_ports ?s" "ro_sent s' = ro_sent ?s"
    "\<And>x. map_of (ro_entries s') x
      = (if x \<in> set ds then Some (learned_route x pid hop) else map_of (ro_entries ?s) x)"
    by (rule Cons.IH [of ?s]) (use Cons.prems inv len [of "learned_route d pid hop" "ro_entries s"] in auto)
  show ?case
    by (rule Cons.prems(1) [of s'])
      (use s' step in \<open>auto simp: seq_p_def bind_p_def update_conv'\<close>)
qed

section \<open>The hop count bounds forwarding\<close>

text \<open>
  In any state whatever: each frame a procedure sends satisfies \<open>P\<close>.  The frames an application
  NPDU causes are network messages, local deliveries, or have a smaller hop count.
\<close>

definition sends :: "(bytes \<Rightarrow> bool) \<Rightarrow> 'a router_proc \<Rightarrow> bool" where
  "sends P m \<longleftrightarrow> (\<forall>s. \<exists>new. ro_sent (snd (m s)) = ro_sent s @ new \<and> (\<forall>x \<in> set new. P (fst (snd x))))"

named_theorems sends_intros \<open>what the combinators send\<close>

lemma sends_basic [sends_intros]:
  "sends P (return_p x)" "sends P (raise_p e)" "sends P (read_p f)" "sends P (lift_p r)"
  "sends P (entry_of d)" "sends P (get_port pid)" "sends P all_ports"
  by (simp_all add: sends_def run entry_of_def get_port_def all_ports_def)

lemma sends_deliver [sends_intros]: "sends P (write_p (\<lambda>s. s\<lparr>ro_delivered := f s\<rparr>))"
  by (simp add: sends_def run)

lemma sends_send_on [sends_intros]: "P frame \<Longrightarrow> sends P (send_on port frame dest)"
  by (simp add: sends_def send_on_def run)

lemma sends_bind:
  assumes "sends P m" "\<And>x s s'. m s = (Inr x, s') \<Longrightarrow> sends P (f x)"
  shows "sends P (bind_p m f)"
  unfolding sends_def
proof
  fix s
  obtain new where new: "ro_sent (snd (m s)) = ro_sent s @ new" "\<forall>x \<in> set new. P (fst (snd x))"
    using assms(1) by (auto simp: sends_def)
  show "\<exists>new. ro_sent (snd (bind_p m f s)) = ro_sent s @ new \<and> (\<forall>x \<in> set new. P (fst (snd x)))"
  proof (cases "m s")
    case (Pair r s')
    show ?thesis
    proof (cases r)
      case (Inl e)
      with Pair new show ?thesis by (simp add: bind_p_def)
    next
      case (Inr x)
      have "sends P (f x)" using assms(2) Pair Inr by blast
      then obtain more' where "ro_sent (snd (f x s')) = ro_sent s' @ more'"
        "\<forall>y \<in> set more'. P (fst (snd y))"
        unfolding sends_def by blast
      with Pair Inr new show ?thesis by (auto simp: bind_p_def intro!: exI [of _ "new @ more'"])
    qed
  qed
qed

lemma sends_bind_any [sends_intros]:
  "sends P m \<Longrightarrow> (\<And>x. sends P (f x)) \<Longrightarrow> sends P (bind_p m f)"
  by (rule sends_bind)

lemma sends_lift: "(\<And>x. r = Inr x \<Longrightarrow> sends P (f x)) \<Longrightarrow> sends P (bind_p (lift_p r) f)"
  by (rule sends_bind) (auto simp: run intro: sends_intros)

lemma sends_seq [sends_intros]: "sends P m \<Longrightarrow> sends P k \<Longrightarrow> sends P (seq_p m k)"
  unfolding seq_p_def by (rule sends_bind_any)

lemma sends_each [sends_intros]: "(\<And>x. sends P (f x)) \<Longrightarrow> sends P (each_p f xs)"
  by (induction xs) (auto intro: sends_intros)

lemma sends_cases [sends_intros]:
  "(c \<Longrightarrow> sends P a) \<Longrightarrow> (\<not> c \<Longrightarrow> sends P b) \<Longrightarrow> sends P (if c then a else b)"
  "(opt = None \<Longrightarrow> sends P a) \<Longrightarrow> (\<And>x. opt = Some x \<Longrightarrow> sends P (f x)) \<Longrightarrow>
   sends P (case opt of None \<Rightarrow> a | Some x \<Rightarrow> f x)"
  "(\<And>x y. pr = (x, y) \<Longrightarrow> sends P (g x y)) \<Longrightarrow> sends P (case pr of (x, y) \<Rightarrow> g x y)"
  by (auto split: option.split prod.split)

lemma sends_catch [sends_intros]:
  "sends P m \<Longrightarrow> sends P (catch_p m (\<lambda>e. return_p ()))"
proof -
  have "snd (catch_p m (\<lambda>e. return_p ()) s) = snd (m s)" for s
    by (simp add: catch_p_def run split: prod.split sum.split)
  then show "sends P m \<Longrightarrow> sends P (catch_p m (\<lambda>e. return_p ()))" by (simp add: sends_def)
qed

text \<open>What the octets of an encoded NPDU decode to.\<close>

lemma encoded_flags:
  assumes "encode_npdu f = Inr frame" "decode_npdu frame = Inr n"
  shows "is_network_message n = is_network_message f" "destination n \<noteq> None \<longleftrightarrow> destination f \<noteq> None"
proof -
  have "uint (frame ! 1) = control_octet (priority f) (is_network_message f) (destination f \<noteq> None)
      (npdu_source f \<noteq> None) (expecting_reply f)"
    using assms(1) control_octet_fields(1) [of "priority f" "is_network_message f" "destination f \<noteq> None"
        "npdu_source f \<noteq> None" "expecting_reply f"]
    by (auto simp: encode_npdu_def octet_def split: if_splits)
  then show "is_network_message n = is_network_message f"
      "destination n \<noteq> None \<longleftrightarrow> destination f \<noteq> None"
    using decode_npdu_shape(7,9) [OF assms(2)] by (simp_all add: control_octet_fields)
qed

lemma encoded_ok:
  assumes "encode_npdu f = Inr frame" "\<And>d. destination f = Some d \<Longrightarrow> dest_ok d"
    and "is_network_message f \<Longrightarrow> message_ok f"
  shows "npdu_ok f"
  using assms
  by (auto simp: npdu_ok_def encode_npdu_def npdu_rejected_def source_ok_def dest_ok_def
      encode_address_field_def pack_HB_def mk_bytes_Inr_iff octet_def split: option.splits if_splits)

lemma local_delivery_flags:
  assumes "encode_npdu_local_delivery f snet smac = Inr frame" "decode_npdu frame = Inr n"
  shows "destination n = None"
proof -
  have "uint (frame ! 1) = control_octet (priority f) (is_network_message f) False True (expecting_reply f)"
    using assms(1) control_octet_fields(1) [of "priority f" "is_network_message f" False True "expecting_reply f"]
    by (auto simp: encode_npdu_local_delivery_def control_octet_def octet_def Let_def split: if_splits option.splits)
  then show ?thesis
    using decode_npdu_shape(9) [OF assms(2)] by (simp add: control_octet_fields)
qed

text \<open>A frame that can still be forwarded has a smaller hop count.\<close>

definition spent :: "npdu \<Rightarrow> bytes \<Rightarrow> bool" where
  "spent n frame \<longleftrightarrow> (\<forall>n'. decode_npdu frame = Inr n' \<longrightarrow> \<not> is_network_message n' \<longrightarrow>
     destination n' \<noteq> None \<longrightarrow> hop_count n' < hop_count n)"

lemma spent_message: "encode_npdu f = Inr frame \<Longrightarrow> is_network_message f \<Longrightarrow> spent n frame"
  by (auto simp: spent_def dest: encoded_flags)

lemma spent_forwarded:
  assumes ok: "npdu_ok n" and app: "\<not> is_network_message n" and d: "destination n \<noteq> None"
    and f: "encode_npdu (n\<lparr>version := v, npdu_source := src, hop_count := hop_count n - 1\<rparr>) = Inr frame"
      (is "encode_npdu ?f = _")
  shows "spent n frame"
proof -
  have "npdu_ok ?f"
    by (rule encoded_ok [OF f]) (use ok app in \<open>auto simp: npdu_ok_def\<close>)
  then have "decode_npdu frame = Inr (npdu_view ?f)"
    using f encode_npdu_ok npdu_round by force
  moreover have "hop_count (npdu_view ?f) = hop_count n - 1" using d by (auto simp: npdu_view_def)
  ultimately show ?thesis by (simp add: spent_def)
qed

lemma spent_local:
  "encode_npdu_local_delivery f snet smac = Inr frame \<Longrightarrow> spent n frame"
  "encode_npdu f = Inr frame \<Longrightarrow> destination f = None \<Longrightarrow> spent n frame"
  using local_delivery_flags encoded_flags by (fastforce simp: spent_def)+

lemma sends_prepare:
  assumes "\<And>src. sends P (f (Some (n\<lparr>version := 1, npdu_source := src, hop_count := hop_count n - 1\<rparr>)))"
    and "sends P (f None)"
  shows "sends P (bind_p (prepare_forwarded_npdu arrival n mac) f)"
proof (rule sends_bind)
  show "sends P (prepare_forwarded_npdu arrival n mac)"
    unfolding prepare_forwarded_npdu_def inject_source_def Let_def by (intro sends_intros)
  fix x s s' assume "prepare_forwarded_npdu arrival n mac s = (Inr x, s')"
  then have "x = None \<or> (\<exists>src. x = Some (n\<lparr>version := 1, npdu_source := src, hop_count := hop_count n - 1\<rparr>))"
    by (auto simp: prepare_forwarded_npdu_def bind_p_def run Let_def split: if_splits prod.splits sum.splits)
  then show "sends P (f x)" using assms by auto
qed

lemma sends_message:
  assumes "\<And>data frame. encode_npdu (message_npdu msg data) = Inr frame \<Longrightarrow> P frame"
  shows "sends P (send_network_message_on_port pid msg dest)"
  unfolding send_network_message_on_port_def
  by (intro sends_intros sends_lift) (rule assms)

lemma sends_get_port_for [sends_intros]: "sends P (get_port_for_network d)"
  unfolding get_port_for_network_def by (intro sends_intros)

lemma spent_reject: "sends (spent n) (send_reject_toward_source arrival m mac reason dnet)"
proof -
  have msg: "sends (spent n) (send_reject arrival mac reason dnet)"
    unfolding send_reject_def
    by (rule sends_message) (erule spent_message, simp add: message_npdu_def)
  have "spent n frame" if "encode_npdu ((message_npdu k data)\<lparr>destination := d\<rparr>) = Inr frame" for k data d frame
    using that by (rule spent_message) (simp add: message_npdu_def)
  then show ?thesis
    unfolding send_reject_toward_source_def Let_def by (intro sends_intros sends_lift msg)
qed

lemma spent_process:
  assumes ok: "npdu_ok n" and app: "\<not> is_network_message n"
  shows "sends (spent n) (process_npdu pid n mac)"
proof -
  have deliver: "sends (spent n) (deliver_to_application pid n mac)"
    unfolding deliver_to_application_def by (intro sends_intros)
  have flood: "sends (spent n) (forward_global_broadcast pid n mac)" if "destination n \<noteq> None"
    unfolding forward_global_broadcast_def ports_except_def option.case
    by (rule sends_prepare; unfold option.case; intro sends_intros sends_lift)
      (erule spent_forwarded [OF ok app that])
  have direct: "sends (spent n) (deliver_to_directly_connected pid n mac port)" for port
  proof -
    define encoder where "encoder = (case routed_source n of
        Some (snet, smac) \<Rightarrow> lift_p (encode_npdu_local_delivery n snet smac)
      | None \<Rightarrow> bind_p (get_port pid) (\<lambda>p. case p of
          Some port \<Rightarrow> lift_p (encode_npdu_local_delivery n (po_network_number port) mac)
        | None \<Rightarrow> lift_p (encode_npdu (n\<lparr>version := 1, destination := None,
            npdu_source := None, hop_count := 255\<rparr>))))"
    have "spent n frame" if "encoder s = (Inr frame, s')" for s frame s'
      using that by (auto simp: encoder_def run get_port_def split: option.splits prod.splits
          intro: spent_local)
    moreover have "sends (spent n) encoder" unfolding encoder_def by (intro sends_intros)
    ultimately show ?thesis
      unfolding deliver_to_directly_connected_def encoder_def [symmetric]
      by (intro sends_intros sends_bind [of _ encoder]) auto
  qed
  have via: "sends (spent n) (forward_via_next_hop pid n mac port e)" if "destination n \<noteq> None" for port e
    unfolding forward_via_next_hop_def
    by (rule sends_prepare; unfold option.case; intro sends_intros sends_lift)
      (erule spent_forwarded [OF ok app that])
  have "sends (spent n) (forward_to_network pid n mac d)" if "destination n \<noteq> None" for d
    unfolding forward_to_network_def
    by (intro sends_intros)
      (auto split: reachability.split intro: sends_intros spent_reject direct via [OF that])
  with app deliver flood show ?thesis
    unfolding process_npdu_def Let_def by (auto intro!: sends_intros split: option.split)
qed

lemma spent_receive:
  assumes "decode_npdu data = Inr n" "\<not> is_network_message n"
  shows "sends (spent n) (on_port_receive pid data mac)"
  unfolding on_port_receive_def assms sum.case
  by (intro sends_intros spent_process decode_npdu_shape(1) [OF assms(1)] assms(2))

text \<open>\<open>relays data data'\<close>: some router, in some state, sends the application NPDU \<open>data'\<close> because
  it received \<open>data\<close>.\<close>

definition application_frame :: "bytes \<Rightarrow> bool" where
  "application_frame data \<longleftrightarrow>
     (case decode_npdu data of Inl e \<Rightarrow> False | Inr n \<Rightarrow> \<not> is_network_message n)"

definition relays :: "bytes \<Rightarrow> bytes \<Rightarrow> bool" where
  "relays data data' \<longleftrightarrow> application_frame data' \<and>
     (\<exists>s pid mac new. ro_sent (snd (on_port_receive pid data mac s)) = ro_sent s @ new
       \<and> data' \<in> (fst \<circ> snd) ` set new)"

definition relays_left :: "npdu \<Rightarrow> nat" where
  "relays_left n = (if destination n = None then 0 else Suc (nat (hop_count n)))"

lemma relays_decreases:
  assumes n: "decode_npdu data = Inr n" "\<not> is_network_message n" and r: "relays data data'"
  obtains n' where "decode_npdu data' = Inr n'" "\<not> is_network_message n'" "relays_left n' < relays_left n"
proof -
  obtain n' where n': "decode_npdu data' = Inr n'" "\<not> is_network_message n'"
    using r by (auto simp: relays_def application_frame_def split: sum.splits)
  obtain s pid mac new where s: "ro_sent (snd (on_port_receive pid data mac s)) = ro_sent s @ new"
    "data' \<in> (fst \<circ> snd) ` set new"
    using r unfolding relays_def by blast
  have sent: "P data'" if "sends P (on_port_receive pid data mac)" for P
    using that s by (auto simp: sends_def dest!: spec [of _ s])
  have "destination n \<noteq> None"
  proof
    assume "destination n = None"
    with n have "on_port_receive pid data mac
        = catch_p (deliver_to_application pid n mac) (\<lambda>e. return_p ())"
      by (simp add: on_port_receive_def process_npdu_def)
    moreover have "sends (\<lambda>x. False) (deliver_to_application pid n mac)"
      unfolding deliver_to_application_def by (intro sends_intros)
    ultimately have "sends (\<lambda>x. False) (on_port_receive pid data mac)" by (simp add: sends_catch)
    from sent [OF this] show False .
  qed
  moreover have "spent n data'" by (rule sent [OF spent_receive [OF n]])
  moreover have "0 \<le> hop_count n" "destination n' \<noteq> None \<Longrightarrow> 0 \<le> hop_count n'"
    using decode_npdu_shape(1) [OF n(1)] decode_npdu_shape(1) [OF n'(1)] calculation(1)
    by (auto simp: npdu_ok_def octet_def)
  ultimately have "relays_left n' < relays_left n"
    using n' by (auto simp: relays_left_def spent_def)
  with n' show thesis by (rule that)
qed

lemma relay_chain:
  "decode_npdu data = Inr n \<Longrightarrow> \<not> is_network_message n \<Longrightarrow> (relays ^^ k) data data' \<Longrightarrow> k \<le> relays_left n"
proof (induction k arbitrary: data n)
  case (Suc k)
  from Suc.prems(3) obtain mid where mid: "relays data mid" "(relays ^^ k) mid data'"
    by (blast dest: relpowp_Suc_D2)
  obtain n' where n': "decode_npdu mid = Inr n'" "\<not> is_network_message n'" "relays_left n' < relays_left n"
    by (rule relays_decreases [OF Suc.prems(1,2) mid(1)])
  from Suc.IH [OF n'(1,2) mid(2)] n'(3) show ?case by simp
qed simp

section \<open>Congestion\<close>

lemma change_entry_runs:
  obtains es where "change_entry d f s = (Inr (), s\<lparr>ro_entries := es\<rparr>)"
    "map_of es = (map_of (ro_entries s))(d := map_option f (map_of (ro_entries s) d))"
proof (cases "map_of (ro_entries s) d")
  case None
  then have "change_entry d f s = (Inr (), s\<lparr>ro_entries := ro_entries s\<rparr>)"
    by (simp add: change_entry_def entry_of_def run)
  then show thesis by (rule that) (use None in auto)
next
  case (Some e)
  then have "change_entry d f s = (Inr (), s\<lparr>ro_entries := AList.update d (f e) (ro_entries s)\<rparr>)"
    by (simp add: change_entry_def entry_of_def set_entries_def run)
  then show thesis by (rule that) (use Some in \<open>auto simp: update_conv'\<close>)
qed

definition busy_entry :: "int \<Rightarrow> routing_entry \<Rightarrow> routing_entry" where
  "busy_entry d e = e\<lparr>re_reachability := BUSY, re_busy_timer := Some d\<rparr>"

lemma busy_runs:
  obtains es where "each_p mark_busy nets s = (Inr (), s\<lparr>ro_entries := es\<rparr>)"
    "\<And>d. map_of es d = (if d \<in> set nets then map_option (busy_entry d) (map_of (ro_entries s) d)
       else map_of (ro_entries s) d)"
proof (induction nets arbitrary: s thesis)
  case Nil
  show ?case by (rule Nil [of "ro_entries s"]) (simp_all add: run)
next
  case (Cons n nets)
  obtain es where es: "mark_busy n s = (Inr (), s\<lparr>ro_entries := es\<rparr>)"
    "map_of es = (map_of (ro_entries s))(n := map_option (busy_entry n) (map_of (ro_entries s) n))"
    unfolding mark_busy_def busy_entry_def [abs_def] by (rule change_entry_runs)
  obtain es' where es': "each_p mark_busy nets (s\<lparr>ro_entries := es\<rparr>)
      = (Inr (), s\<lparr>ro_entries := es\<rparr>\<lparr>ro_entries := es'\<rparr>)"
    "\<And>d. map_of es' d = (if d \<in> set nets then map_option (busy_entry d) (map_of es d) else map_of es d)"
    by (rule Cons.IH [of "s\<lparr>ro_entries := es\<rparr>"]) simp
  show ?case
    by (rule Cons.prems [of es'])
      (use es es' in \<open>auto simp: seq_p_def run_bind busy_entry_def [abs_def] option.map_comp comp_def\<close>)
qed

lemma timer_runs:
  assumes e: "map_of (ro_entries s) d = Some e" "re_busy_timer e = Some d"
  obtains es where "busy_timer_fires d s = (Inr (), s\<lparr>ro_entries := es\<rparr>)"
    "map_of es d = Some (e\<lparr>re_busy_timer := None, re_reachability := REACHABLE\<rparr>)"
proof -
  obtain es1 where es1: "change_entry d (\<lambda>e. e\<lparr>re_busy_timer := None\<rparr>) s = (Inr (), s\<lparr>ro_entries := es1\<rparr>)"
    "map_of es1 = (map_of (ro_entries s))
       (d := map_option (\<lambda>e. e\<lparr>re_busy_timer := None\<rparr>) (map_of (ro_entries s) d))"
    by (rule change_entry_runs)
  let ?s1 = "s\<lparr>ro_entries := es1\<rparr>"
  obtain es2 where es2: "mark_available d ?s1 = (Inr (), ?s1\<lparr>ro_entries := es2\<rparr>)"
    "map_of es2 = (map_of (ro_entries ?s1)) (d := map_option
       (\<lambda>e. e\<lparr>re_busy_timer := None, re_reachability := REACHABLE\<rparr>) (map_of (ro_entries ?s1) d))"
    unfolding mark_available_def by (rule change_entry_runs)
  show thesis
    by (rule that [of es2])
      (use e es1 es2 in \<open>simp_all add: busy_timer_fires_def entry_of_def run seq_p_def run_bind\<close>)
qed

lemma busy_frame_runs:
  assumes inv: "router_inv s" and m: "decode_npdu frame = Inr m" "is_network_message m"
    "message_type m = Some mt" "decode_network_message mt (network_message_data m) = Inr (RouterBusyToNetwork nets)"
    and d: "dnet \<in> set nets" "map_of (ro_entries s) dnet = Some e"
  obtains s' where "on_port_receive pid frame mac s = (Inr (), s')"
    "map_of (ro_entries s') dnet = Some (busy_entry dnet e)"
proof -
  obtain es where es: "each_p mark_busy nets s = (Inr (), s\<lparr>ro_entries := es\<rparr>)"
    "\<And>d. map_of es d = (if d \<in> set nets then map_option (busy_entry d) (map_of (ro_entries s) d)
       else map_of (ro_entries s) d)"
    by (rule busy_runs [where nets = nets and s = s]) blast
  have inv': "router_inv (s\<lparr>ro_entries := es\<rparr>)"
    using keepsD [OF keeps_each [where f = mark_busy and xs = nets, OF keeps_marks(1)] inv] es(1) by simp
  have "message_data_ok (RouterBusyToNetwork nets)" using decoded_route_list m(4) by blast
  then obtain out where out: "broadcast_network_message_all_except pid (RouterBusyToNetwork nets) (s\<lparr>ro_entries := es\<rparr>)
      = (Inr (), s\<lparr>ro_entries := es\<rparr>\<lparr>ro_sent := ro_sent (s\<lparr>ro_entries := es\<rparr>)
          @ map (\<lambda>k. (k, out, None)) (other_ports (s\<lparr>ro_entries := es\<rparr>) pid)\<rparr>)"
    by (rule broadcast_message_runs [OF inv'])
  have "nets \<noteq> []" using d by auto
  then have "process_npdu pid m mac s
      = broadcast_network_message_all_except pid (RouterBusyToNetwork nets) (s\<lparr>ro_entries := es\<rparr>)"
    using m es(1) by (simp add: process_npdu_def handle_network_message_def dispatch_message_def
        handle_router_busy_def run run_bind seq_p_def)
  with out show thesis
    by (intro that [OF receive_runs [OF m(1)]]) (auto simp: es(2) d)
qed

section \<open>An example\<close>

text \<open>A router between networks 10 and 20, the number of the second port not configured, and an
  NPDU with a destination and no source.\<close>

definition two_networks :: router where
  "two_networks = \<lparr>ro_ports = [(1, \<lparr>po_port_id = 1, po_network_number = 10, po_mac_address = [1],
       po_max_npdu_length = 1497, po_network_number_configured = True\<rparr>),
     (2, \<lparr>po_port_id = 2, po_network_number = 20, po_mac_address = [2],
       po_max_npdu_length = 501, po_network_number_configured = False\<rparr>)],
   ro_entries = [(10, direct_entry 10 1), (20, direct_entry 20 2)],
   ro_application_port_id = None, ro_has_application = True, ro_sent = [], ro_delivered = []\<rparr>"

definition npdu_to :: "bacnet_address \<Rightarrow> bytes \<Rightarrow> npdu" where
  "npdu_to d apdu = \<lparr>version = 1, is_network_message = False, expecting_reply = False,
     priority = NORMAL, destination = Some d, npdu_source = None, hop_count = 255,
     message_type = None, vendor_id = None, apdu_data = apdu, network_message_data = []\<rparr>"

lemma two_networks_init: "init_router (map snd (ro_ports two_networks)) None True = Inr two_networks"
  by code_simp

lemma two_networks_attached: "attached two_networks 1 [5]"
  by (simp add: attached_def two_networks_def)

lemma npdu_to_fields [simp]:
  "\<not> is_network_message (npdu_to d apdu)" "destination (npdu_to d apdu) = Some d"
  "hop_count (npdu_to d apdu) = 255"
  by (simp_all add: npdu_to_def)

end
