(* ===== verification/Codec.thy ===== *)
theory Codec
  imports Prelude
begin

text \<open>
  What an encoder and its decoder promise each other, as locales: a codec gives values back, and a
  fixed-width codec can be used for tables of entries on the wire.
\<close>

section \<open>Codecs\<close>

locale codec =
  fixes ok :: "'a \<Rightarrow> bool" and enc :: "'a \<Rightarrow> 'e + bytes" and dec :: "bytes \<Rightarrow> 'e + 'a"
  assumes gives_back: "ok x \<Longrightarrow> \<exists>w. enc x = Inr w \<and> dec w = Inr x"
begin

lemma dec_enc: "ok x \<Longrightarrow> enc x = Inr w \<Longrightarrow> dec w = Inr x"
  using gives_back by force

lemma enc_total: "ok x \<Longrightarrow> \<exists>w. enc x = Inr w"
  using gives_back by blast

lemma roundtrip: "ok x \<Longrightarrow> rbind (enc x) dec = Inr x"
  using gives_back by auto

lemma enc_inject: "ok x \<Longrightarrow> ok y \<Longrightarrow> enc x = enc y \<Longrightarrow> x = y"
  using gives_back by (metis sum.inject(2))

end

section \<open>Tables of fixed-width entries\<close>

text \<open>\<open>b"".join(entry.encode() for entry in entries)\<close>\<close>

fun encode_table :: "('a \<Rightarrow> py_error + bytes) \<Rightarrow> 'a list \<Rightarrow> py_error + bytes" where
  "encode_table enc [] = Inr []"
| "encode_table enc (x # xs) = rbind (enc x) (\<lambda>b. rbind (encode_table enc xs) (\<lambda>bs. Inr (b @ bs)))"

text \<open>\<open>for i in range(0, len(data), size): decode(data[i : i + size])\<close>\<close>

function decode_table :: "(bytes \<Rightarrow> py_error + 'a) \<Rightarrow> nat \<Rightarrow> bytes \<Rightarrow> py_error + 'a list" where
  "decode_table dec k data =
     (if k = 0 \<or> data = [] then Inr []
      else rbind (dec (take k data)) (\<lambda>x.
           rbind (decode_table dec k (drop k data)) (\<lambda>xs. Inr (x # xs))))"
  by pat_completeness auto
termination by (relation "measure (\<lambda>(dec, k, data). length data)") auto

declare decode_table.simps [simp del]

locale fixed_codec =
  fixes ok :: "'a \<Rightarrow> bool" and enc :: "'a \<Rightarrow> py_error + bytes" and dec :: "bytes \<Rightarrow> py_error + 'a"
    and width :: nat
  assumes round: "ok x \<Longrightarrow> \<exists>w. enc x = Inr w \<and> length w = width \<and> dec w = Inr x"
    and width: "0 < width"

sublocale fixed_codec \<subseteq> codec ok enc dec
  by unfold_locales (use round in blast)

context fixed_codec
begin

lemma width_of: "ok x \<Longrightarrow> enc x = Inr w \<Longrightarrow> length w = width"
  using round by force

lemma table_encodes: "list_all ok xs \<Longrightarrow> \<exists>w. encode_table enc xs = Inr w \<and> length w = width * length xs"
proof (induction xs)
  case (Cons x xs)
  then obtain w v where "encode_table enc xs = Inr w" "length w = width * length xs"
    "enc x = Inr v" "length v = width"
    using round by fastforce
  then show ?case by simp
qed simp

lemma table_roundtrip:
  "list_all ok xs \<Longrightarrow> encode_table enc xs = Inr w \<Longrightarrow> decode_table dec width w = Inr xs"
proof (induction xs arbitrary: w)
  case Nil
  then show ?case by (simp add: decode_table.simps)
next
  case (Cons x xs)
  then obtain v u where v: "enc x = Inr v" "encode_table enc xs = Inr u" "w = v @ u" by auto
  moreover have "length v = width" "dec v = Inr x" using Cons.prems v width_of dec_enc by auto
  moreover have "decode_table dec width u = Inr xs" using Cons v by simp
  moreover have "v @ u \<noteq> []" using \<open>length v = width\<close> width by auto
  ultimately show ?case using width by (subst decode_table.simps) simp
qed

end

end
