(* ===== verification/Bvll.thy ===== *)
theory Bvll
  imports Prelude
begin

text \<open>
  \<open>transport/bvll.py\<close> and the B/IP address of \<open>network/address.py\<close>: the BACnet virtual link layer
  frame of Annex J.  A host is its string, as in the code; of the forms \<open>inet_aton\<close> accepts the
  model has the dotted quad, the only one the code builds, and raises for every other string.
\<close>

section \<open>Dotted quads\<close>

definition digit_char :: "nat \<Rightarrow> char" where
  "digit_char k = char_of (48 + k)"

fun decimal :: "nat \<Rightarrow> string" where
  "decimal n = (if n < 10 then [digit_char n] else decimal (n div 10) @ [digit_char (n mod 10)])"

declare decimal.simps [simp del]

fun split_dots :: "string \<Rightarrow> string list" where
  "split_dots [] = [[]]"
| "split_dots (c # cs) =
     (if c = CHR ''.'' then [] # split_dots cs
      else case split_dots cs of [] \<Rightarrow> [[c]] | w # ws \<Rightarrow> (c # w) # ws)"

fun join_dots :: "string list \<Rightarrow> string" where
  "join_dots [] = []"
| "join_dots [w] = w"
| "join_dots (w # ws) = w @ CHR ''.'' # join_dots ws"

definition is_digit :: "char \<Rightarrow> bool" where
  "is_digit c \<longleftrightarrow> 48 \<le> (of_char c :: nat) \<and> (of_char c :: nat) < 58"

definition parse_octet :: "string \<Rightarrow> int option" where
  "parse_octet w =
     (if w \<noteq> [] \<and> list_all is_digit w
      then let v = foldl (\<lambda>v c. 10 * v + (int (of_char c) - 48)) 0 w
           in if v < 256 then Some v else None
      else None)"

fun parse_octets :: "string list \<Rightarrow> bytes option" where
  "parse_octets [] = Some []"
| "parse_octets (w # ws) =
     (case parse_octet w of None \<Rightarrow> None
      | Some v \<Rightarrow> (case parse_octets ws of None \<Rightarrow> None | Some vs \<Rightarrow> Some (byte_of v # vs)))"

definition quad_octets :: "string \<Rightarrow> bytes option" where
  "quad_octets host =
     (case parse_octets (split_dots host) of None \<Rightarrow> None
      | Some vs \<Rightarrow> if length vs = 4 then Some vs else None)"

text \<open>\<open>f"{a}.{b}.{c}.{d}"\<close>\<close>

definition dotted :: "bytes \<Rightarrow> string" where
  "dotted bs = join_dots (map (\<lambda>b. decimal (nat (uint b))) bs)"

definition inet_aton :: "string \<Rightarrow> py_error + bytes" where
  "inet_aton host = (case quad_octets host of None \<Rightarrow> Inl OSError | Some bs \<Rightarrow> Inr bs)"

section \<open>B/IP addresses\<close>

record bip_address =
  host :: string
  port :: int

definition encode_bip_address :: "bip_address \<Rightarrow> py_error + bytes" where
  "encode_bip_address a =
     rbind (inet_aton (host a)) (\<lambda>ip.
       if 0 \<le> port a \<and> port a < 65536 then Inr (ip @ be_bytes 2 (port a)) else Inl StructError)"

definition decode_bip_address :: "bytes \<Rightarrow> py_error + bip_address" where
  "decode_bip_address data =
     (if length data < 6 then Inl ValueError
      else Inr \<lparr>host = dotted (py_slice data 0 4), port = int_from_bytes (py_slice data 4 6)\<rparr>)"

section \<open>Frames\<close>

datatype bvlc_function =
    BVLC_RESULT | WRITE_BDT | READ_BDT | READ_BDT_ACK | FORWARDED_NPDU | REGISTER_FOREIGN_DEVICE
  | READ_FDT | READ_FDT_ACK | DELETE_FDT_ENTRY | DISTRIBUTE_BROADCAST_TO_NETWORK
  | ORIGINAL_UNICAST_NPDU | ORIGINAL_BROADCAST_NPDU | SECURE_BVLL

definition bvlc_functions :: "bvlc_function list" where
  "bvlc_functions = [BVLC_RESULT, WRITE_BDT, READ_BDT, READ_BDT_ACK, FORWARDED_NPDU,
     REGISTER_FOREIGN_DEVICE, READ_FDT, READ_FDT_ACK, DELETE_FDT_ENTRY,
     DISTRIBUTE_BROADCAST_TO_NETWORK, ORIGINAL_UNICAST_NPDU, ORIGINAL_BROADCAST_NPDU, SECURE_BVLL]"

fun bvlc_value :: "bvlc_function \<Rightarrow> int" where
  "bvlc_value BVLC_RESULT = 0x00"
| "bvlc_value WRITE_BDT = 0x01"
| "bvlc_value READ_BDT = 0x02"
| "bvlc_value READ_BDT_ACK = 0x03"
| "bvlc_value FORWARDED_NPDU = 0x04"
| "bvlc_value REGISTER_FOREIGN_DEVICE = 0x05"
| "bvlc_value READ_FDT = 0x06"
| "bvlc_value READ_FDT_ACK = 0x07"
| "bvlc_value DELETE_FDT_ENTRY = 0x08"
| "bvlc_value DISTRIBUTE_BROADCAST_TO_NETWORK = 0x09"
| "bvlc_value ORIGINAL_UNICAST_NPDU = 0x0A"
| "bvlc_value ORIGINAL_BROADCAST_NPDU = 0x0B"
| "bvlc_value SECURE_BVLL = 0x0C"

text \<open>\<open>_BVLC_FUNCTIONS\<close>: \<open>None\<close> for the octets that are no function.\<close>

definition BVLC_FUNCTIONS :: "bvlc_function option list" where
  "BVLC_FUNCTIONS = map Some bvlc_functions @ replicate 243 None"

record bvll_message =
  bv_function :: bvlc_function
  bv_data :: bytes
  bv_originating_address :: "bip_address option"

definition pack_length :: "nat \<Rightarrow> py_error + bytes" where
  "pack_length n = (if n < 65536 then Inr (be_bytes 2 (int n)) else Inl StructError)"

definition encode_bvll ::
  "bvlc_function \<Rightarrow> bytes \<Rightarrow> bip_address option \<Rightarrow> py_error + bytes" where
  "encode_bvll f payload orig =
     (if f = FORWARDED_NPDU
      then case orig of None \<Rightarrow> Inl ValueError
           | Some a \<Rightarrow>
               rbind (pack_length (4 + 6 + length payload)) (\<lambda>l.
               rbind (encode_bip_address a) (\<lambda>addr.
                 Inr ([0x81, byte_of (bvlc_value f)] @ l @ addr @ payload)))
      else rbind (pack_length (4 + length payload)) (\<lambda>l.
             Inr ([0x81, byte_of (bvlc_value f)] @ l @ payload)))"

definition decode_bvll :: "bytes \<Rightarrow> py_error + bvll_message" where
  "decode_bvll data =
     (if length data < 4 then Inl ValueError
      else
        rbind (octet_at data 0) (\<lambda>ty.
        if ty \<noteq> 0x81 then Inl ValueError
        else
        rbind (octet_at data 1) (\<lambda>code.
        rbind (py_index BVLC_FUNCTIONS code) (\<lambda>fo.
        case fo of None \<Rightarrow> Inl ValueError
        | Some f \<Rightarrow>
          rbind (octet_at data 2) (\<lambda>hi. rbind (octet_at data 3) (\<lambda>lo.
          let len = nat (push_bit 8 hi OR lo)
          in if len < 4 \<or> len > length data then Inl ValueError
             else if f = FORWARDED_NPDU
             then if len < 4 + 6 then Inl ValueError
                  else rbind (decode_bip_address (py_slice data 4 10)) (\<lambda>a.
                    Inr \<lparr>bv_function = f, bv_data = py_slice data 10 len,
                         bv_originating_address = Some a\<rparr>)
             else Inr \<lparr>bv_function = f, bv_data = py_slice data 4 len,
                       bv_originating_address = None\<rparr>))))))"

section \<open>Result codes\<close>

datatype bvlc_result_code =
    SUCCESSFUL_COMPLETION | WRITE_BDT_NAK | READ_BDT_NAK | REGISTER_FOREIGN_DEVICE_NAK
  | READ_FDT_NAK | DELETE_FDT_ENTRY_NAK | DISTRIBUTE_BROADCAST_NAK

fun result_value :: "bvlc_result_code \<Rightarrow> int" where
  "result_value SUCCESSFUL_COMPLETION = 0x0000"
| "result_value WRITE_BDT_NAK = 0x0010"
| "result_value READ_BDT_NAK = 0x0020"
| "result_value REGISTER_FOREIGN_DEVICE_NAK = 0x0030"
| "result_value READ_FDT_NAK = 0x0040"
| "result_value DELETE_FDT_ENTRY_NAK = 0x0050"
| "result_value DISTRIBUTE_BROADCAST_NAK = 0x0060"

definition BvlcResultCode :: "int \<Rightarrow> py_error + bvlc_result_code" where
  "BvlcResultCode v =
     (case find (\<lambda>c. result_value c = v) [SUCCESSFUL_COMPLETION, WRITE_BDT_NAK, READ_BDT_NAK,
        REGISTER_FOREIGN_DEVICE_NAK, READ_FDT_NAK, DELETE_FDT_ENTRY_NAK, DISTRIBUTE_BROADCAST_NAK] of
        None \<Rightarrow> Inl ValueError | Some c \<Rightarrow> Inr c)"

definition encode_bvlc_result :: "bvlc_result_code \<Rightarrow> py_error + bytes" where
  "encode_bvlc_result c = rbind (int_to_bytes (result_value c) 2) (\<lambda>p. encode_bvll BVLC_RESULT p None)"

end
