(* ===== verification/Numbers.thy ===== *)
theory Numbers
  imports Float_Bits
begin

text \<open>
  Python's numbers: comparison and arithmetic of floats on their IEEE-754 patterns, with
  rounding to nearest, ties to even, and of ints mixed with floats.  A float is compared and
  added as an exact integer in units of \<open>2\<^sup>-\<^sup>1\<^sup>0\<^sup>7\<^sup>4\<close>, the smallest subnormal.
\<close>

section \<open>Floats\<close>

definition f_sign :: "py_float \<Rightarrow> int" where
  "f_sign x = (case f64_parts x of (s, e, m) \<Rightarrow> s)"

definition f_nan :: "py_float \<Rightarrow> bool" where
  "f_nan x = (case f64_parts x of (s, e, m) \<Rightarrow> e = 2047 \<and> m \<noteq> 0)"

definition f_inf :: "py_float \<Rightarrow> bool" where
  "f_inf x = (case f64_parts x of (s, e, m) \<Rightarrow> e = 2047 \<and> m = 0)"

definition f_scaled :: "py_float \<Rightarrow> int" where
  "f_scaled x = (case f64_parts x of (s, e, m) \<Rightarrow>
     (if s = 0 then 1 else - 1) * (if e = 0 then m else (2 ^ 52 + m) * 2 ^ nat (e - 1)))"

definition f_infinity :: "py_float" where
  "f_infinity = f64_make 0 2047 0"

definition f_minus_infinity :: "py_float" where
  "f_minus_infinity = f64_make 1 2047 0"

definition f_negate :: "py_float \<Rightarrow> py_float" where
  "f_negate x = (case f64_parts x of (s, e, m) \<Rightarrow> f64_make (1 - s) e m)"

definition f_abs :: "py_float \<Rightarrow> py_float" where
  "f_abs x = (case f64_parts x of (s, e, m) \<Rightarrow> f64_make 0 e m)"

text \<open>The float nearest to \<open>n \<cdot> 2\<^sup>-\<^sup>1\<^sup>0\<^sup>7\<^sup>4\<close>; infinity when it is too large.\<close>

definition f_round :: "int \<Rightarrow> py_float" where
  "f_round n =
     (let a = \<bar>n\<bar>; k = bit_length a - 53; p = int k * 2 ^ 52 + round_half_even a k
      in word_of_int ((if n < 0 then 2 ^ 63 else 0) + min p (2047 * 2 ^ 52)))"

definition f_add :: "py_float \<Rightarrow> py_float \<Rightarrow> py_float" where
  "f_add x y =
     (if f_nan x then x else if f_nan y then y
      else if f_inf x then (if f_inf y \<and> f_sign x \<noteq> f_sign y then f64_make 0 2047 1 else x)
      else if f_inf y then y
      else let n = f_scaled x + f_scaled y
           in if n = 0 then (if f_sign x = 1 \<and> f_sign y = 1 then f64_make 1 0 0 else f64_make 0 0 0)
              else f_round n)"

definition f_sub :: "py_float \<Rightarrow> py_float \<Rightarrow> py_float" where
  "f_sub x y = f_add x (f_negate y)"

section \<open>Numbers\<close>

datatype py_number = I int | F py_float

definition num_nan :: "py_number \<Rightarrow> bool" where
  "num_nan a = (case a of I n \<Rightarrow> False | F x \<Rightarrow> f_nan x)"

text \<open>
  Numbers other than NaN are compared exactly, an int with a float as well: minus infinity, the
  finite numbers by their value, infinity.
\<close>

definition num_key :: "py_number \<Rightarrow> int \<times> int" where
  "num_key a = (case a of I n \<Rightarrow> (0, n * 2 ^ 1074)
     | F x \<Rightarrow> if f_inf x then (if f_sign x = 0 then 1 else - 1, 0) else (0, f_scaled x))"

instantiation py_number :: ord
begin

definition less_py_number :: "py_number \<Rightarrow> py_number \<Rightarrow> bool" where
  "a < b \<longleftrightarrow> \<not> num_nan a \<and> \<not> num_nan b \<and>
     (fst (num_key a) < fst (num_key b)
      \<or> fst (num_key a) = fst (num_key b) \<and> snd (num_key a) < snd (num_key b))"

definition less_eq_py_number :: "py_number \<Rightarrow> py_number \<Rightarrow> bool" where
  "a \<le> b \<longleftrightarrow> \<not> num_nan a \<and> \<not> num_nan b \<and>
     (fst (num_key a) < fst (num_key b)
      \<or> fst (num_key a) = fst (num_key b) \<and> snd (num_key a) \<le> snd (num_key b))"

instance ..

end

definition num_eq :: "py_number \<Rightarrow> py_number \<Rightarrow> bool" where
  "num_eq a b \<longleftrightarrow> \<not> num_nan a \<and> \<not> num_nan b \<and> num_key a = num_key b"

text \<open>\<open>float(a)\<close>, \<open>int(a)\<close>, \<open>a + b\<close>, \<open>a - b\<close> and \<open>abs(a)\<close>.\<close>

definition float_of :: "py_number \<Rightarrow> py_error + py_float" where
  "float_of a = (case a of F x \<Rightarrow> Inr x
     | I n \<Rightarrow> let x = f_round (n * 2 ^ 1074) in if f_inf x then Inl OverflowError else Inr x)"

definition int_of :: "py_number \<Rightarrow> py_error + int" where
  "int_of a = (case a of I n \<Rightarrow> Inr n
     | F x \<Rightarrow> if f_nan x then Inl ValueError else if f_inf x then Inl OverflowError
             else Inr (sgn (f_scaled x) * (\<bar>f_scaled x\<bar> div 2 ^ 1074)))"

definition num_lift :: "(int \<Rightarrow> int \<Rightarrow> int) \<Rightarrow> (py_float \<Rightarrow> py_float \<Rightarrow> py_float)
    \<Rightarrow> py_number \<Rightarrow> py_number \<Rightarrow> py_error + py_number" where
  "num_lift f g a b = (case (a, b) of (I m, I n) \<Rightarrow> Inr (I (f m n))
     | _ \<Rightarrow> rbind (float_of a) (\<lambda>x. rbind (float_of b) (\<lambda>y. Inr (F (g x y)))))"

definition num_add :: "py_number \<Rightarrow> py_number \<Rightarrow> py_error + py_number" where
  "num_add = num_lift (+) f_add"

definition num_sub :: "py_number \<Rightarrow> py_number \<Rightarrow> py_error + py_number" where
  "num_sub = num_lift (-) f_sub"

definition num_abs :: "py_number \<Rightarrow> py_number" where
  "num_abs a = (case a of I n \<Rightarrow> I \<bar>n\<bar> | F x \<Rightarrow> F (f_abs x))"

section \<open>Order laws\<close>

lemmas num_order = less_py_number_def less_eq_py_number_def num_eq_def

lemma num_less_irrefl [simp]: "\<not> a < (a :: py_number)"
  by (simp add: num_order)

lemma num_le_refl [simp]: "a \<le> (a :: py_number) \<longleftrightarrow> \<not> num_nan a"
  by (simp add: num_order)

lemma num_less_imp_le: "a < b \<Longrightarrow> a \<le> (b :: py_number)"
  by (auto simp: num_order)

lemma num_less_trans: "a < b \<Longrightarrow> b < c \<Longrightarrow> a < (c :: py_number)"
  and num_less_le_trans: "a < b \<Longrightarrow> b \<le> c \<Longrightarrow> a < c"
  and num_le_less_trans: "a \<le> b \<Longrightarrow> b < c \<Longrightarrow> a < c"
  and num_le_trans: "a \<le> b \<Longrightarrow> b \<le> c \<Longrightarrow> a \<le> c"
  by (auto simp: num_order)

lemma num_less_asym: "a < b \<Longrightarrow> \<not> b < (a :: py_number)"
  by (auto simp: num_order)

lemma num_not_less: "\<not> num_nan a \<Longrightarrow> \<not> num_nan b \<Longrightarrow> \<not> a < b \<longleftrightarrow> b \<le> (a :: py_number)"
  and num_not_le: "\<not> num_nan a \<Longrightarrow> \<not> num_nan b \<Longrightarrow> \<not> a \<le> b \<longleftrightarrow> b < (a :: py_number)"
  by (auto simp: num_order)

lemma num_le_iff: "a \<le> b \<longleftrightarrow> a < b \<or> num_eq a b"
  by (auto simp: num_order prod_eq_iff)

lemma num_eq_refl [simp]: "num_eq a a \<longleftrightarrow> \<not> num_nan a"
  by (simp add: num_order)

lemma num_eq_sym: "num_eq a b \<Longrightarrow> num_eq b a"
  and num_eq_trans: "num_eq a b \<Longrightarrow> num_eq b c \<Longrightarrow> num_eq a c"
  by (auto simp: num_order)

lemma num_ints [simp]:
  "I m < I n \<longleftrightarrow> m < n" "I m \<le> I n \<longleftrightarrow> m \<le> n" "num_eq (I m) (I n) \<longleftrightarrow> m = n" "\<not> num_nan (I n)"
  by (simp_all add: num_order num_nan_def num_key_def)

lemma num_lift_ints [simp]:
  "num_add (I m) (I n) = Inr (I (m + n))" "num_sub (I m) (I n) = Inr (I (m - n))"
  "num_abs (I n) = I \<bar>n\<bar>" "int_of (I n) = Inr n" "float_of (F x) = Inr x"
  by (simp_all add: num_add_def num_sub_def num_lift_def num_abs_def int_of_def float_of_def)

lemma num_floats [simp]:
  "num_add (F x) (F y) = Inr (F (f_add x y))" "num_sub (F x) (F y) = Inr (F (f_sub x y))"
  "num_abs (F x) = F (f_abs x)" "num_nan (F x) = f_nan x"
  by (simp_all add: num_add_def num_sub_def num_lift_def num_abs_def num_nan_def)

lemma bit_length_unique: "2 ^ k \<le> a \<Longrightarrow> a < 2 ^ Suc k \<Longrightarrow> 0 \<le> a \<Longrightarrow> bit_length a = Suc k"
  using bit_length_le_iff [of a "Suc k"] less_bit_length_iff [of a k] by linarith

text \<open>Nothing is above infinity or below minus infinity.\<close>

lemma infinity_parts:
  "f_inf f_infinity" "\<not> f_nan f_infinity" "f_sign f_infinity = 0"
  "f_inf f_minus_infinity" "\<not> f_nan f_minus_infinity" "f_sign f_minus_infinity = 1"
  by (simp_all add: f_infinity_def f_minus_infinity_def f_inf_def f_nan_def f_sign_def f64_parts_make)

lemma f_sign_01: "f_sign x = 0 \<or> f_sign x = 1"
proof -
  have "uint x < 2 * 2 ^ 63" using uint_lt2p [of x] by simp
  then have "0 \<le> uint x div 2 ^ 63" "uint x div 2 ^ 63 < 2"
    by (simp_all add: pos_imp_zdiv_nonneg_iff)
  then show ?thesis by (auto simp: f_sign_def f64_parts_def Let_def)
qed

lemma not_above_infinity [simp]: "\<not> F f_infinity < a"
  by (cases a) (auto simp: num_order num_key_def infinity_parts)

lemma not_below_minus_infinity [simp]: "\<not> a < F f_minus_infinity"
  by (cases a) (auto simp: num_order num_key_def infinity_parts)

end
