(* ===== verification/Bbmd.thy ===== *)
theory Bbmd
  imports Procs Codec Bvll Numbers "HOL-Library.AList"
begin

text \<open>
  \<open>transport/bbmd.py\<close>: the BACnet/IP broadcast management device of Annex J.4 and J.5.  Its two
  tables are lists in insertion order; \<open>_send\<close> and \<open>_local_broadcast\<close> are the logs \<open>bm_sent\<close> and
  \<open>bm_delivered\<close>; \<open>bm_clock\<close> is what \<open>time.monotonic()\<close> returns next, a float of seconds.  The backup file is its
  entries, absent until it is written; reading and writing it never fail in the model, and a
  failure in the code is logged and changes no table.
\<close>

section \<open>The tables\<close>

record bdt_entry =
  bd_address :: bip_address
  bd_mask :: bytes

record fdt_entry =
  fd_address :: bip_address
  fd_ttl :: int
  fd_expiry :: py_float

record bbmd =
  bm_local_address :: bip_address
  bm_has_local_broadcast :: bool
  bm_broadcast_address :: "bip_address option"
  bm_max_fdt_entries :: int
  bm_max_bdt_entries :: int
  bm_accept_fd_registrations :: bool
  bm_allow_write_bdt :: bool
  bm_global_address :: "bip_address option"
  bm_has_backup_path :: bool
  bm_backup_file :: "bdt_entry list option"
  bm_bdt :: "bdt_entry list"
  bm_forward_cache :: "bip_address list"
  bm_unicast_mask :: "(bip_address \<times> bool) list"
  bm_peers :: "(bdt_entry \<times> bip_address) list"
  bm_fdt :: "(bip_address \<times> fdt_entry) list"
  bm_clock :: py_float
  bm_sent :: "(bytes \<times> bip_address) list"
  bm_delivered :: "(bytes \<times> bip_address) list"

type_synonym 'a bbmd_proc = "(bbmd, 'a) proc"

definition FDT_GRACE_PERIOD_SECONDS :: int where
  "FDT_GRACE_PERIOD_SECONDS = 30"

definition BDT_ENTRY_SIZE :: nat where
  "BDT_ENTRY_SIZE = 10"

definition ALL_ONES_MASK :: bytes where
  "ALL_ONES_MASK = [0xFF, 0xFF, 0xFF, 0xFF]"

definition encode_bdt_entry :: "bdt_entry \<Rightarrow> py_error + bytes" where
  "encode_bdt_entry e = rbind (encode_bip_address (bd_address e)) (\<lambda>a. Inr (a @ bd_mask e))"

definition decode_bdt_entry :: "bytes \<Rightarrow> py_error + bdt_entry" where
  "decode_bdt_entry data =
     rbind (decode_bip_address (py_slice data 0 6)) (\<lambda>a.
       Inr \<lparr>bd_address = a, bd_mask = py_slice data 6 10\<rparr>)"

text \<open>\<open>time.monotonic() + ttl + FDT_GRACE_PERIOD_SECONDS\<close>: the ints become floats, and both sums round.\<close>

definition float_of_int :: "int \<Rightarrow> py_float" where
  "float_of_int n = f_round (n * 2 ^ 1074)"

definition expiry_at :: "py_float \<Rightarrow> int \<Rightarrow> py_float" where
  "expiry_at now ttl =
     f_add (f_add now (float_of_int ttl)) (float_of_int FDT_GRACE_PERIOD_SECONDS)"

definition remaining :: "py_float \<Rightarrow> fdt_entry \<Rightarrow> py_error + int" where
  "remaining now fd =
     rbind (int_of (F (f_sub (fd_expiry fd) now))) (\<lambda>n. Inr (min 65535 (max 0 n)))"

definition encode_fdt_entry :: "py_float \<Rightarrow> fdt_entry \<Rightarrow> py_error + bytes" where
  "encode_fdt_entry now fd =
     rbind (encode_bip_address (fd_address fd)) (\<lambda>a.
     rbind (int_to_bytes (fd_ttl fd) 2) (\<lambda>t.
     rbind (remaining now fd) (\<lambda>n.
     rbind (int_to_bytes n 2) (\<lambda>r. Inr (a @ t @ r)))))"

definition compute_forward_address :: "bdt_entry \<Rightarrow> py_error + bip_address" where
  "compute_forward_address e =
     (case parse_octets (split_dots (host (bd_address e))) of
        None \<Rightarrow> Inl ValueError
      | Some ip \<Rightarrow>
          if length ip \<noteq> length (bd_mask e) then Inl ValueError
          else Inr \<lparr>host = dotted (map2 (\<lambda>a m. a OR NOT m) ip (bd_mask e)),
                    port = port (bd_address e)\<rparr>)"

fun forward_addresses :: "bdt_entry list \<Rightarrow> py_error + bip_address list" where
  "forward_addresses [] = Inr []"
| "forward_addresses (e # es) =
     rbind (compute_forward_address e) (\<lambda>a. rbind (forward_addresses es) (\<lambda>as. Inr (a # as)))"

definition unicast_masks :: "bdt_entry list \<Rightarrow> (bip_address \<times> bool) list" where
  "unicast_masks es =
     foldl (\<lambda>d e. AList.update (bd_address e) (bd_mask e = ALL_ONES_MASK) d) [] es"

definition rebuild_forward_cache :: "unit bbmd_proc" where
  "rebuild_forward_cache =
     bind_p (read_p bm_bdt) (\<lambda>bdt.
     bind_p (lift_p (forward_addresses bdt)) (\<lambda>fwd.
     write_p (\<lambda>s. s\<lparr>bm_forward_cache := fwd, bm_unicast_mask := unicast_masks bdt,
       bm_peers := filter (\<lambda>(e, dest). bd_address e \<noteq> bm_local_address s) (zip bdt fwd)\<rparr>)))"

definition save_bdt_backup :: "unit bbmd_proc" where
  "save_bdt_backup =
     write_p (\<lambda>s. if bm_has_backup_path s then s\<lparr>bm_backup_file := Some (bm_bdt s)\<rparr> else s)"

definition set_bdt :: "bdt_entry list \<Rightarrow> unit bbmd_proc" where
  "set_bdt entries =
     seq_p (write_p (\<lambda>s. s\<lparr>bm_bdt := entries\<rparr>)) (seq_p rebuild_forward_cache save_bdt_backup)"

text \<open>Restoring the table at start; the exception of an unusable entry is caught and logged.\<close>

definition load_bdt_backup :: "unit bbmd_proc" where
  "load_bdt_backup =
     bind_p (read_p (\<lambda>s. (bm_has_backup_path s, bm_bdt s, bm_backup_file s))) (\<lambda>(path, bdt, file).
     if \<not> path then return_p ()
     else if bdt \<noteq> [] then return_p ()
     else case file of None \<Rightarrow> return_p ()
       | Some entries \<Rightarrow>
           catch_p (seq_p (write_p (\<lambda>s. s\<lparr>bm_bdt := entries\<rparr>)) rebuild_forward_cache)
             (\<lambda>e. return_p ()))"

definition is_unicast_bdt_mask :: "bip_address \<Rightarrow> bool bbmd_proc" where
  "is_unicast_bdt_mask a =
     read_p (\<lambda>s. case map_of (bm_unicast_mask s) a of None \<Rightarrow> True | Some b \<Rightarrow> b)"

section \<open>Sending\<close>

definition bm_send :: "bytes \<Rightarrow> bip_address \<Rightarrow> unit bbmd_proc" where
  "bm_send data dest = write_p (\<lambda>s. s\<lparr>bm_sent := bm_sent s @ [(data, dest)]\<rparr>)"

definition bm_local_broadcast :: "bytes \<Rightarrow> bip_address \<Rightarrow> unit bbmd_proc" where
  "bm_local_broadcast npdu src =
     write_p (\<lambda>s. if bm_has_local_broadcast s
                  then s\<lparr>bm_delivered := bm_delivered s @ [(npdu, src)]\<rparr> else s)"

definition send_result :: "bvlc_result_code \<Rightarrow> bip_address \<Rightarrow> unit bbmd_proc" where
  "send_result code dest = bind_p (lift_p (encode_bvlc_result code)) (\<lambda>b. bm_send b dest)"

section \<open>Broadcast forwarding\<close>

definition forward_to_peers_and_fds ::
  "bytes \<Rightarrow> bip_address \<Rightarrow> bip_address option \<Rightarrow> unit bbmd_proc" where
  "forward_to_peers_and_fds npdu orig exclude_fd =
     bind_p (read_p bm_global_address) (\<lambda>glob.
     bind_p (lift_p (encode_bvll FORWARDED_NPDU npdu
                       (Some (case glob of Some g \<Rightarrow> g | None \<Rightarrow> orig)))) (\<lambda>forwarded.
     bind_p (read_p bm_peers) (\<lambda>peers.
     seq_p (each_p (\<lambda>(e, dest).
              if dest = orig then return_p ()
              else if glob = Some dest then return_p ()
              else bm_send forwarded dest) peers)
       (bind_p (read_p (\<lambda>s. map snd (bm_fdt s))) (\<lambda>fds.
        each_p (\<lambda>fd. if exclude_fd = Some (fd_address fd) then return_p ()
                     else bm_send forwarded (fd_address fd)) fds)))))"

definition handle_original_broadcast :: "bytes \<Rightarrow> bip_address \<Rightarrow> unit bbmd_proc" where
  "handle_original_broadcast npdu src = forward_to_peers_and_fds npdu src None"

definition handle_forwarded_npdu :: "bytes \<Rightarrow> bip_address \<Rightarrow> bip_address \<Rightarrow> unit bbmd_proc" where
  "handle_forwarded_npdu npdu orig udp_source =
     bind_p (lift_p (encode_bvll FORWARDED_NPDU npdu (Some orig))) (\<lambda>forwarded.
     bind_p (read_p (\<lambda>s. map snd (bm_fdt s))) (\<lambda>fds.
     seq_p (each_p (\<lambda>fd. if fd_address fd = orig then return_p ()
                         else bm_send forwarded (fd_address fd)) fds)
    (seq_p (bind_p (read_p bm_broadcast_address) (\<lambda>b.
            case b of None \<Rightarrow> return_p ()
            | Some bcast \<Rightarrow>
                bind_p (is_unicast_bdt_mask udp_source) (\<lambda>unicast.
                  if unicast then bm_send forwarded bcast else return_p ())))
       (bm_local_broadcast npdu orig))))"

definition handle_distribute_broadcast :: "bytes \<Rightarrow> bip_address \<Rightarrow> unit bbmd_proc" where
  "handle_distribute_broadcast npdu src =
     bind_p (read_p (\<lambda>s. map_of (bm_fdt s) src)) (\<lambda>fd.
     if fd = None then send_result DISTRIBUTE_BROADCAST_NAK src
     else seq_p (forward_to_peers_and_fds npdu src (Some src)) (bm_local_broadcast npdu src))"

section \<open>Foreign device registration\<close>

definition handle_register_foreign_device :: "bytes \<Rightarrow> bip_address \<Rightarrow> unit bbmd_proc" where
  "handle_register_foreign_device data src =
     bind_p (read_p id) (\<lambda>s.
     if \<not> bm_accept_fd_registrations s then send_result REGISTER_FOREIGN_DEVICE_NAK src
     else if length data < 2 then send_result REGISTER_FOREIGN_DEVICE_NAK src
     else
       let ttl = int_from_bytes (py_slice data 0 2)
       in if ttl < 1 then send_result REGISTER_FOREIGN_DEVICE_NAK src
          else
            let ttl = min ttl 3600
            in if map_of (bm_fdt s) src = None \<and> int (length (bm_fdt s)) \<ge> bm_max_fdt_entries s
               then send_result REGISTER_FOREIGN_DEVICE_NAK src
               else
                 seq_p (write_p (\<lambda>s. s\<lparr>bm_fdt := AList.update src
                     \<lparr>fd_address = src, fd_ttl = ttl,
                      fd_expiry = expiry_at (bm_clock s) ttl\<rparr>
                     (bm_fdt s)\<rparr>))
                   (send_result SUCCESSFUL_COMPLETION src))"

section \<open>Table management\<close>

definition handle_read_bdt :: "bip_address \<Rightarrow> unit bbmd_proc" where
  "handle_read_bdt src =
     bind_p (read_p bm_bdt) (\<lambda>bdt.
     bind_p (lift_p (encode_table encode_bdt_entry bdt)) (\<lambda>payload.
     bind_p (lift_p (encode_bvll READ_BDT_ACK payload None)) (\<lambda>ack. bm_send ack src)))"

definition handle_write_bdt :: "bytes \<Rightarrow> bip_address \<Rightarrow> unit bbmd_proc" where
  "handle_write_bdt data src =
     bind_p (read_p id) (\<lambda>s.
     if \<not> bm_allow_write_bdt s then send_result WRITE_BDT_NAK src
     else if length data mod BDT_ENTRY_SIZE \<noteq> 0 then send_result WRITE_BDT_NAK src
     else if int (length data div BDT_ENTRY_SIZE) > bm_max_bdt_entries s
     then send_result WRITE_BDT_NAK src
     else
       bind_p (lift_p (decode_table decode_bdt_entry BDT_ENTRY_SIZE data)) (\<lambda>entries.
       seq_p (set_bdt entries) (send_result SUCCESSFUL_COMPLETION src)))"

definition handle_read_fdt :: "bip_address \<Rightarrow> unit bbmd_proc" where
  "handle_read_fdt src =
     bind_p (read_p (\<lambda>s. encode_table (encode_fdt_entry (bm_clock s)) (map snd (bm_fdt s)))) (\<lambda>r.
     bind_p (lift_p r) (\<lambda>payload.
     bind_p (lift_p (encode_bvll READ_FDT_ACK payload None)) (\<lambda>ack. bm_send ack src)))"

definition handle_delete_fdt_entry :: "bytes \<Rightarrow> bip_address \<Rightarrow> unit bbmd_proc" where
  "handle_delete_fdt_entry data src =
     (if length data < 6 then send_result DELETE_FDT_ENTRY_NAK src
      else
        bind_p (lift_p (decode_bip_address (py_slice data 0 6))) (\<lambda>a.
        bind_p (read_p (\<lambda>s. map_of (bm_fdt s) a)) (\<lambda>fd.
        if fd \<noteq> None
        then seq_p (write_p (\<lambda>s. s\<lparr>bm_fdt := AList.delete a (bm_fdt s)\<rparr>))
                   (send_result SUCCESSFUL_COMPLETION src)
        else send_result DELETE_FDT_ENTRY_NAK src)))"

definition purge_expired_fdt_entries :: "unit bbmd_proc" where
  "purge_expired_fdt_entries =
     write_p (\<lambda>s. s\<lparr>bm_fdt := filter (\<lambda>(a, fd). \<not> F (fd_expiry fd) \<le> F (bm_clock s)) (bm_fdt s)\<rparr>)"

section \<open>Dispatch\<close>

text \<open>The result says whether the message is used up or has to be delivered locally as well.\<close>

definition handle_bvlc ::
  "bvlc_function \<Rightarrow> bytes \<Rightarrow> bip_address \<Rightarrow> bip_address option \<Rightarrow> bool bbmd_proc" where
  "handle_bvlc f data src udp_source =
     bind_p (read_p (\<lambda>s. (bm_local_address s, bm_global_address s))) (\<lambda>(loc, glob).
     if f = FORWARDED_NPDU \<and> (src = loc \<or> glob = Some src) then return_p True
     else case f of
       ORIGINAL_BROADCAST_NPDU \<Rightarrow> seq_p (handle_original_broadcast data src) (return_p False)
     | FORWARDED_NPDU \<Rightarrow>
         seq_p (handle_forwarded_npdu data src (case udp_source of Some u \<Rightarrow> u | None \<Rightarrow> src))
           (return_p False)
     | REGISTER_FOREIGN_DEVICE \<Rightarrow> seq_p (handle_register_foreign_device data src) (return_p True)
     | READ_BDT \<Rightarrow> seq_p (handle_read_bdt src) (return_p True)
     | WRITE_BDT \<Rightarrow> seq_p (handle_write_bdt data src) (return_p True)
     | READ_FDT \<Rightarrow> seq_p (handle_read_fdt src) (return_p True)
     | DELETE_FDT_ENTRY \<Rightarrow> seq_p (handle_delete_fdt_entry data src) (return_p True)
     | DISTRIBUTE_BROADCAST_TO_NETWORK \<Rightarrow>
         seq_p (handle_distribute_broadcast data src) (return_p True)
     | _ \<Rightarrow> return_p False)"

definition set_accept_fd_registrations :: "bool \<Rightarrow> unit bbmd_proc" where
  "set_accept_fd_registrations value = write_p (\<lambda>s. s\<lparr>bm_accept_fd_registrations := value\<rparr>)"

definition set_global_address :: "bip_address option \<Rightarrow> unit bbmd_proc" where
  "set_global_address value = write_p (\<lambda>s. s\<lparr>bm_global_address := value\<rparr>)"

section \<open>The BBMD as an event system\<close>

datatype bbmd_event =
    Bvlc_Arrives bvlc_function bytes bip_address bip_address
  | Purge_Runs
  | Clock_Reads py_float
  | Bdt_Set "bdt_entry list"
  | Bbmd_Starts
  | Accept_Set bool
  | Global_Set "bip_address option"

fun bbmd_event_proc :: "bbmd_event \<Rightarrow> unit bbmd_proc" where
  "bbmd_event_proc (Bvlc_Arrives f data src udp) =
     seq_p (handle_bvlc f data src (Some udp)) (return_p ())"
| "bbmd_event_proc Purge_Runs = purge_expired_fdt_entries"
| "bbmd_event_proc (Clock_Reads t) = write_p (\<lambda>s. s\<lparr>bm_clock := t\<rparr>)"
| "bbmd_event_proc (Bdt_Set entries) = set_bdt entries"
| "bbmd_event_proc Bbmd_Starts = load_bdt_backup"
| "bbmd_event_proc (Accept_Set value) = set_accept_fd_registrations value"
| "bbmd_event_proc (Global_Set value) = set_global_address value"

definition init_bbmd ::
  "bip_address \<Rightarrow> bool \<Rightarrow> bip_address option \<Rightarrow> int \<Rightarrow> int \<Rightarrow> bool \<Rightarrow> bool \<Rightarrow> bip_address option
   \<Rightarrow> bdt_entry list option \<Rightarrow> bool \<Rightarrow> py_float \<Rightarrow> bbmd" where
  "init_bbmd loc has_cb bcast max_fdt max_bdt accept allow glob file has_path now =
     \<lparr>bm_local_address = loc, bm_has_local_broadcast = has_cb, bm_broadcast_address = bcast,
      bm_max_fdt_entries = max_fdt, bm_max_bdt_entries = max_bdt,
      bm_accept_fd_registrations = accept, bm_allow_write_bdt = allow, bm_global_address = glob,
      bm_has_backup_path = has_path, bm_backup_file = file, bm_bdt = [], bm_forward_cache = [],
      bm_unicast_mask = [], bm_peers = [], bm_fdt = [], bm_clock = now, bm_sent = [],
      bm_delivered = []\<rparr>"

end
