(* ===== verification/Bvll_Laws.thy ===== *)
theory Bvll_Laws
  imports Bvll Codec
begin

text \<open>
  The laws of the virtual link layer: a dotted quad reads back as its octets, B/IP addresses are
  a fixed-width codec, and a frame decodes to the message it was made of.
\<close>

section \<open>Dotted quads\<close>

lemma digit_char_value: "k < 10 \<Longrightarrow> (of_char (digit_char k) :: nat) = 48 + k"
  by (simp add: digit_char_def)

lemma digit_char_digit: "k < 10 \<Longrightarrow> is_digit (digit_char k)"
  by (simp add: is_digit_def digit_char_value)

lemma no_dot: "list_all is_digit w \<Longrightarrow> CHR ''.'' \<notin> set w"
  by (auto simp: list_all_iff is_digit_def)

lemma decimal_step:
  "decimal n = (if n < 10 then [] else decimal (n div 10)) @ [digit_char (n mod 10)]"
  by (subst decimal.simps) simp

lemma decimal_digits:
  "list_all is_digit (decimal n) \<and> foldl (\<lambda>v c. 10 * v + (int (of_char c) - 48)) 0 (decimal n) = int n"
proof (induction n rule: less_induct)
  case (less n)
  show ?case
  proof (cases "n < 10")
    case True
    then show ?thesis by (simp add: decimal_step [of n] digit_char_value digit_char_digit)
  next
    case False
    then have "n div 10 < n" by simp
    from less [OF this] False show ?thesis
      by (subst (1 2) decimal_step)
        (simp add: digit_char_value digit_char_digit zdiv_int zmod_int)
  qed
qed

lemma decimal_nonempty: "decimal n \<noteq> []"
  by (subst decimal_step) simp

lemma decimal_octet:
  assumes "k < 256"
  shows "parse_octet (decimal k) = Some (int k)" "CHR ''.'' \<notin> set (decimal k)"
  using assms decimal_digits [of k] decimal_nonempty [of k] no_dot [of "decimal k"]
  by (simp_all add: parse_octet_def)

lemma split_word: "CHR ''.'' \<notin> set w \<Longrightarrow> split_dots w = [w]"
  by (induction w) auto

lemma split_append:
  "CHR ''.'' \<notin> set w \<Longrightarrow> split_dots (w @ CHR ''.'' # cs) = w # split_dots cs"
  by (induction w) auto

lemma split_join:
  "ws \<noteq> [] \<Longrightarrow> list_all (\<lambda>w. CHR ''.'' \<notin> set w) ws \<Longrightarrow> split_dots (join_dots ws) = ws"
  by (induction ws rule: join_dots.induct) (simp_all add: split_word split_append)

lemma parse_decimals: "parse_octets (map (\<lambda>b. decimal (nat (uint b))) bs) = Some bs"
proof (induction bs)
  case (Cons b bs)
  have "nat (uint b) < 256" using byte_bounds(2) [of b] by linarith
  with Cons show ?case by (simp add: decimal_octet)
qed simp

lemma quad_dotted:
  assumes "length q = 4"
  shows "quad_octets (dotted q) = Some q"
proof -
  have "nat (uint b) < 256" for b :: byte using byte_bounds(2) [of b] by linarith
  then have "split_dots (dotted q) = map (\<lambda>b. decimal (nat (uint b))) q"
    unfolding dotted_def using assms
    by (intro split_join) (auto simp: list_all_iff decimal_octet)
  then show ?thesis using assms by (simp add: quad_octets_def parse_decimals del: nat_uint_eq)
qed

section \<open>B/IP addresses\<close>

definition bip_ok :: "bip_address \<Rightarrow> bool" where
  "bip_ok a \<longleftrightarrow> (\<exists>q. length q = 4 \<and> host a = dotted q) \<and> 0 \<le> port a \<and> port a < 65536"

interpretation bip: fixed_codec bip_ok encode_bip_address decode_bip_address 6
proof unfold_locales
  fix a assume "bip_ok a"
  then obtain q where q: "length q = 4" "host a = dotted q" "0 \<le> port a" "port a < 65536"
    by (auto simp: bip_ok_def)
  then have "encode_bip_address a = Inr (q @ be_bytes 2 (port a))"
    by (simp add: encode_bip_address_def inet_aton_def quad_dotted)
  moreover have "decode_bip_address (q @ be_bytes 2 (port a)) = Inr a"
    using q py_slice_append [of q 4 "be_bytes 2 (port a)" "[]"]
    by (simp add: decode_bip_address_def py_slice_def int_from_be_bytes)
  ultimately show "\<exists>w. encode_bip_address a = Inr w \<and> length w = 6 \<and> decode_bip_address w = Inr a"
    using q(1) by simp
qed simp_all

lemma decoded_bip_ok: "decode_bip_address data = Inr a \<Longrightarrow> bip_ok a"
  using int_from_bytes_range [of "py_slice data 4 6"]
  by (auto simp: decode_bip_address_def bip_ok_def intro!: exI [of _ "py_slice data 0 4"])

section \<open>Frames\<close>

lemma bvlc_lookup: "py_index BVLC_FUNCTIONS (bvlc_value f) = Inr (Some f)"
  by (cases f) (simp_all add: BVLC_FUNCTIONS_def bvlc_functions_def py_index_def nth_append)

lemma bvlc_octet: "0 \<le> bvlc_value f \<and> bvlc_value f < 256"
  by (cases f) simp_all

text \<open>The messages a frame can carry: an originating address with a Forwarded-NPDU only.\<close>

definition bvll_ok :: "bvll_message \<Rightarrow> bool" where
  "bvll_ok m \<longleftrightarrow>
     (if bv_function m = FORWARDED_NPDU
      then (case bv_originating_address m of None \<Rightarrow> False | Some a \<Rightarrow> bip_ok a)
        \<and> length (bv_data m) + 10 < 65536
      else bv_originating_address m = None \<and> length (bv_data m) + 4 < 65536)"

lemma be_bytes_two:
  assumes "n < 65536"
  obtains hi lo where "be_bytes 2 (int n) = [hi, lo]" "nat (push_bit 8 (uint hi) OR uint lo) = n"
proof -
  obtain hi lo where b: "be_bytes 2 (int n) = [hi, lo]"
    using length_be_bytes [of 2 "int n"]
    by (cases "be_bytes 2 (int n)"; cases "tl (be_bytes 2 (int n))") auto
  have "uint hi * 256 + uint lo = int n"
    using int_from_be_bytes [of 2 "int n"] assms b int_from_bytes_snoc [of "[hi]" lo] by simp
  then have "push_bit 8 (uint hi) OR uint lo = int n"
    using or_low [of "uint lo" 8 "uint hi"] byte_bounds [of lo]
    by (simp add: push_bit_eq_mult)
  then have "nat (push_bit 8 (uint hi) OR uint lo) = n" by (simp only: nat_int)
  with b show thesis by (rule that)
qed

lemma decode_bvll_header:
  "decode_bvll (0x81 # byte_of (bvlc_value f) # hi # lo # rest) =
     (let len = nat (push_bit 8 (uint hi) OR uint lo)
      in if len < 4 \<or> len > 4 + length rest then Inl ValueError
         else if f = FORWARDED_NPDU
         then if len < 10 then Inl ValueError
              else rbind (decode_bip_address (take 6 rest)) (\<lambda>a.
                Inr \<lparr>bv_function = f, bv_data = take (len - 10) (drop 6 rest),
                     bv_originating_address = Some a\<rparr>)
         else Inr \<lparr>bv_function = f, bv_data = take (len - 4) rest, bv_originating_address = None\<rparr>)"
proof -
  let ?data = "0x81 # byte_of (bvlc_value f) # hi # lo # rest"
  have octets: "octet_at ?data 0 = Inr 0x81" "octet_at ?data 1 = Inr (bvlc_value f)"
    "octet_at ?data 2 = Inr (uint hi)" "octet_at ?data 3 = Inr (uint lo)"
    using bvlc_octet [of f] by (simp_all add: octet_at_def)
  have slices: "py_slice ?data 4 10 = take 6 rest"
    "\<And>n. py_slice ?data 10 n = take (n - 10) (drop 6 rest)" "\<And>n. py_slice ?data 4 n = take (n - 4) rest"
    by (simp_all add: py_slice_def)
  have len: "length ?data = 4 + length rest" by simp
  show ?thesis
    unfolding decode_bvll_def octets rbind.simps bvlc_lookup option.case slices len
    by (simp add: Let_def)
qed

lemma header_decodes:
  assumes "n = 4 + length body" "n < 65536"
  shows "decode_bvll (([0x81, byte_of (bvlc_value f)] @ be_bytes 2 (int n) @ body) @ junk) =
    (if f = FORWARDED_NPDU
     then if n < 10 then Inl ValueError
          else rbind (decode_bip_address (take 6 body)) (\<lambda>a.
            Inr \<lparr>bv_function = f, bv_data = drop 6 body, bv_originating_address = Some a\<rparr>)
     else Inr \<lparr>bv_function = f, bv_data = body, bv_originating_address = None\<rparr>)"
proof -
  obtain hi lo where b: "be_bytes 2 (int n) = [hi, lo]" "nat (push_bit 8 (uint hi) OR uint lo) = n"
    by (rule be_bytes_two [OF assms(2)])
  have frame: "([0x81, byte_of (bvlc_value f)] @ be_bytes 2 (int n) @ body) @ junk
      = 0x81 # byte_of (bvlc_value f) # hi # lo # body @ junk"
    by (simp add: b(1))
  show ?thesis
    unfolding frame decode_bvll_header b(2) Let_def
    using assms(1) by auto
qed

lemma bvll_round:
  assumes "bvll_ok m"
  obtains frame where "encode_bvll (bv_function m) (bv_data m) (bv_originating_address m) = Inr frame"
    "\<And>junk. decode_bvll (frame @ junk) = Inr m"
proof (cases "bv_function m = FORWARDED_NPDU")
  case True
  then obtain a where a: "bv_originating_address m = Some a" "bip_ok a" "length (bv_data m) + 10 < 65536"
    using assms by (auto simp: bvll_ok_def split: option.splits)
  obtain w where w: "encode_bip_address a = Inr w" "length w = 6" "decode_bip_address w = Inr a"
    using bip.round [OF a(2)] by blast
  let ?n = "10 + length (bv_data m)"
  let ?frame = "[0x81, byte_of (bvlc_value FORWARDED_NPDU)] @ be_bytes 2 (int ?n) @ w @ bv_data m"
  have "encode_bvll (bv_function m) (bv_data m) (bv_originating_address m) = Inr ?frame"
    using True a w by (simp add: encode_bvll_def pack_length_def add.commute)
  moreover have "decode_bvll (?frame @ junk) = Inr m" for junk
    using header_decodes [of ?n "w @ bv_data m" FORWARDED_NPDU junk] True a w by simp
  ultimately show thesis by (rule that)
next
  case False
  then have a: "bv_originating_address m = None" "length (bv_data m) + 4 < 65536"
    using assms by (auto simp: bvll_ok_def)
  let ?n = "4 + length (bv_data m)"
  let ?frame = "[0x81, byte_of (bvlc_value (bv_function m))] @ be_bytes 2 (int ?n) @ bv_data m"
  have "encode_bvll (bv_function m) (bv_data m) (bv_originating_address m) = Inr ?frame"
    using False a by (simp add: encode_bvll_def pack_length_def add.commute)
  moreover have "decode_bvll (?frame @ junk) = Inr m" for junk
    using header_decodes [of ?n "bv_data m" "bv_function m" junk] False a by simp
  ultimately show thesis by (rule that)
qed

definition bvll_body :: "bytes \<Rightarrow> nat \<Rightarrow> bvlc_function \<Rightarrow> py_error + bvll_message" where
  "bvll_body data len f =
     (if f = FORWARDED_NPDU
      then if len < 10 then Inl ValueError
           else rbind (decode_bip_address (py_slice data 4 10)) (\<lambda>a.
             Inr \<lparr>bv_function = f, bv_data = py_slice data 10 len, bv_originating_address = Some a\<rparr>)
      else Inr \<lparr>bv_function = f, bv_data = py_slice data 4 len, bv_originating_address = None\<rparr>)"

lemma decode_bvll_cases:
  "decode_bvll data = Inl ValueError \<or> (\<exists>len f. decode_bvll data = bvll_body data len f)"
proof (cases "length data < 4")
  case False
  have o: "octet_at data 0 = Inr (uint (data ! 0))" "octet_at data 1 = Inr (uint (data ! 1))"
    "octet_at data 2 = Inr (uint (data ! 2))" "octet_at data 3 = Inr (uint (data ! 3))"
    using False by simp_all
  have l: "py_index BVLC_FUNCTIONS (uint (data ! 1)) = Inr (BVLC_FUNCTIONS ! nat (uint (data ! 1)))"
    using byte_bounds [of "data ! 1"]
    by (intro py_index_ok) (simp_all add: BVLC_FUNCTIONS_def bvlc_functions_def)
  define len where "len = nat (push_bit 8 (uint (data ! 2)) OR uint (data ! 3))"
  have ten: "(4 :: nat) + 6 = 10" by simp
  show ?thesis
    unfolding decode_bvll_def o rbind.simps l Let_def len_def [symmetric] ten bvll_body_def [symmetric]
    by (auto split: option.split)
qed (simp add: decode_bvll_def)

lemma decode_bvll_raises: "raises_only {ValueError} (decode_bvll data)"
proof -
  have "raises_only {ValueError} (decode_bip_address x)" for x by (simp add: decode_bip_address_def)
  then have "raises_only {ValueError} (bvll_body data len f)" for len f
    by (auto simp: bvll_body_def)
  with decode_bvll_cases [of data] show ?thesis by auto
qed

lemma decoded_origin:
  assumes "decode_bvll data = Inr m"
  shows "case bv_originating_address m of None \<Rightarrow> bv_function m \<noteq> FORWARDED_NPDU
    | Some a \<Rightarrow> bv_function m = FORWARDED_NPDU \<and> bip_ok a"
proof -
  from assms decode_bvll_cases [of data] obtain len f where "bvll_body data len f = Inr m" by auto
  then show ?thesis by (auto simp: bvll_body_def decoded_bip_ok split: if_splits)
qed

section \<open>Results\<close>

lemma result_code_round: "BvlcResultCode (result_value c) = Inr c"
  by (cases c) (simp_all add: BvlcResultCode_def)

end
