(* ===== verification/Bbmd_Laws.thy ===== *)
theory Bbmd_Laws
  imports Bbmd Bvll_Laws
begin

text \<open>
  The laws of the BBMD: the invariant of its tables and caches and that every event keeps it, the
  exact datagrams each kind of broadcast causes, how long a registration lives, and how two
  BBMDs that hold the same table serve each other's subnets.
\<close>

section \<open>Entries\<close>

definition bdt_ok :: "bdt_entry \<Rightarrow> bool" where
  "bdt_ok e \<longleftrightarrow> bip_ok (bd_address e) \<and> length (bd_mask e) = 4"

interpretation bdt: fixed_codec bdt_ok encode_bdt_entry decode_bdt_entry 10
proof unfold_locales
  fix e assume "bdt_ok e"
  then obtain w where w: "encode_bip_address (bd_address e) = Inr w" "length w = 6"
    "decode_bip_address w = Inr (bd_address e)" "length (bd_mask e) = 4"
    using bip.round by (auto simp: bdt_ok_def)
  then show "\<exists>w. encode_bdt_entry e = Inr w \<and> length w = 10 \<and> decode_bdt_entry w = Inr e"
    by (auto simp: encode_bdt_entry_def decode_bdt_entry_def py_slice_def)
qed simp_all

lemma decoded_bdt_ok: "length data = 10 \<Longrightarrow> decode_bdt_entry data = Inr e \<Longrightarrow> bdt_ok e"
  by (auto simp: decode_bdt_entry_def bdt_ok_def decoded_bip_ok)

lemma decoded_table_ok:
  "length data mod 10 = 0 \<Longrightarrow> \<exists>es. decode_table decode_bdt_entry 10 data = Inr es
     \<and> list_all bdt_ok es \<and> length es = length data div 10"
proof (induction data rule: length_induct)
  case (1 data)
  show ?case
  proof (cases "data = []")
    case True
    then show ?thesis by (simp add: decode_table.simps)
  next
    case False
    with 1(2) have len: "10 \<le> length data" by (cases "length data < 10") auto
    then have "length (drop 10 data) < length data" "length (drop 10 data) mod 10 = 0"
      using 1(2) by (auto simp: le_mod_geq)
    then obtain es where es: "decode_table decode_bdt_entry 10 (drop 10 data) = Inr es"
      "list_all bdt_ok es" "length es = (length data - 10) div 10"
      using 1(1) by (metis length_drop)
    obtain e where e: "decode_bdt_entry (take 10 data) = Inr e"
      using len by (simp add: decode_bdt_entry_def decode_bip_address_def)
    moreover have "bdt_ok e" by (rule decoded_bdt_ok [OF _ e]) (use len in simp)
    moreover have "Suc ((length data - 10) div 10) = length data div 10"
      using len by (simp add: le_div_geq)
    ultimately show ?thesis
      using False es by (subst decode_table.simps) simp
  qed
qed

definition forward_address :: "bdt_entry \<Rightarrow> bip_address" where
  "forward_address e = (case compute_forward_address e of Inl x \<Rightarrow> bd_address e | Inr a \<Rightarrow> a)"

lemma forward_address_ok:
  assumes "bdt_ok e"
  shows "compute_forward_address e = Inr (forward_address e)" "bip_ok (forward_address e)"
proof -
  obtain q where q: "length q = 4" "host (bd_address e) = dotted q" "0 \<le> port (bd_address e)"
    "port (bd_address e) < 65536" "length (bd_mask e) = 4"
    using assms by (auto simp: bdt_ok_def bip_ok_def)
  then have "parse_octets (split_dots (dotted q)) = Some q"
    using quad_dotted [OF q(1)] by (auto simp: quad_octets_def split: option.splits if_splits)
  with q show "compute_forward_address e = Inr (forward_address e)" "bip_ok (forward_address e)"
    by (auto simp: forward_address_def compute_forward_address_def bip_ok_def
        intro!: exI [of _ "map2 (\<lambda>a m. a OR NOT m) q (bd_mask e)"])
qed

lemma forward_addresses_ok:
  "list_all bdt_ok es \<Longrightarrow> forward_addresses es = Inr (map forward_address es)"
  by (induction es) (simp_all add: forward_address_ok)

text \<open>With a mask of all ones the frame goes to the peer itself.\<close>

lemma forward_unicast:
  assumes "bdt_ok e" "bd_mask e = ALL_ONES_MASK"
  shows "forward_address e = bd_address e"
proof -
  have ones: "(0xFF :: byte) = - 1" by simp
  obtain q where q: "length q = 4" "host (bd_address e) = dotted q"
    using assms by (auto simp: bdt_ok_def bip_ok_def)
  then have "parse_octets (split_dots (dotted q)) = Some q"
    using quad_dotted [OF q(1)] by (auto simp: quad_octets_def split: option.splits if_splits)
  moreover have "NOT (0xFF :: byte) = 0" by (simp only: ones) simp
  then have z: "x OR NOT (0xFF :: byte) = x" for x by (simp only: or.right_neutral)
  obtain a b c d where abcd: "q = [a, b, c, d]"
    using q(1) by (auto simp: length_Suc_conv numeral_eq_Suc)
  have "map2 (\<lambda>a m. a OR NOT m) q ALL_ONES_MASK = q"
    by (simp only: abcd ALL_ONES_MASK_def zip_Cons_Cons zip_Nil list.map prod.case z)
  ultimately show ?thesis using assms q
    by (simp add: forward_address_def compute_forward_address_def ALL_ONES_MASK_def)
qed

section \<open>The invariant\<close>

definition fdt_entry_ok :: "bbmd \<Rightarrow> bip_address \<Rightarrow> fdt_entry \<Rightarrow> bool" where
  "fdt_entry_ok s a fd \<longleftrightarrow> fd_address fd = a \<and> 1 \<le> fd_ttl fd \<and> fd_ttl fd \<le> 3600
     \<and> (\<exists>t. (t = bm_clock s \<or> F t \<le> F (bm_clock s)) \<and> fd_expiry fd = expiry_at t (fd_ttl fd))"

definition caches_ok :: "bbmd \<Rightarrow> bool" where
  "caches_ok s \<longleftrightarrow>
     bm_forward_cache s = map forward_address (bm_bdt s)
     \<and> bm_unicast_mask s = unicast_masks (bm_bdt s)
     \<and> bm_peers s = map (\<lambda>e. (e, forward_address e))
         (filter (\<lambda>e. bd_address e \<noteq> bm_local_address s) (bm_bdt s))"

definition bbmd_inv :: "bbmd \<Rightarrow> bool" where
  "bbmd_inv s \<longleftrightarrow>
     list_all bdt_ok (bm_bdt s) \<and> (\<forall>es. bm_backup_file s = Some es \<longrightarrow> list_all bdt_ok es)
     \<and> caches_ok s \<and> distinct (map fst (bm_fdt s))
     \<and> (\<forall>(a, fd) \<in> set (bm_fdt s). fdt_entry_ok s a fd)
     \<and> int (length (bm_fdt s)) \<le> max 0 (bm_max_fdt_entries s)"

lemma inv_bbmd_logs [simp]:
  "bbmd_inv (s\<lparr>bm_sent := x\<rparr>) = bbmd_inv s" "bbmd_inv (s\<lparr>bm_delivered := y\<rparr>) = bbmd_inv s"
  by (simp_all add: bbmd_inv_def caches_ok_def fdt_entry_ok_def)

lemma bbmd_invD:
  assumes "bbmd_inv s"
  shows "list_all bdt_ok (bm_bdt s)" "caches_ok s" "distinct (map fst (bm_fdt s))"
    "map_of (bm_fdt s) a = Some fd \<Longrightarrow> fdt_entry_ok s a fd"
    "(a, fd) \<in> set (bm_fdt s) \<Longrightarrow> fd_address fd = a"
    "bm_backup_file s = Some es \<Longrightarrow> list_all bdt_ok es"
  using assms by (auto simp: bbmd_inv_def fdt_entry_ok_def dest!: map_of_SomeD)

section \<open>Every event keeps the invariant\<close>

lemma keeps_sends [keeps_intros]:
  "keeps bbmd_inv (bm_send data dest)" "keeps bbmd_inv (bm_local_broadcast npdu src)"
  by (auto simp: keeps_def run bm_send_def bm_local_broadcast_def)

lemma keeps_result [keeps_intros]: "keeps bbmd_inv (send_result code dest)"
  unfolding send_result_def by (intro keeps_intros)

lemma keeps_forwarding [keeps_intros]:
  "keeps bbmd_inv (forward_to_peers_and_fds npdu orig excl)"
  "keeps bbmd_inv (handle_forwarded_npdu npdu orig udp)"
  unfolding forward_to_peers_and_fds_def handle_forwarded_npdu_def is_unicast_bdt_mask_def
  by (intro keeps_intros)+

lemma peers_zip:
  "filter (\<lambda>(e, dest). P e) (zip es (map f es)) = map (\<lambda>e. (e, f e)) (filter P es)"
  by (induction es) simp_all

lemma rebuild_runs:
  assumes "list_all bdt_ok (bm_bdt s)"
  shows "rebuild_forward_cache s = (Inr (), s\<lparr>bm_forward_cache := map forward_address (bm_bdt s),
    bm_unicast_mask := unicast_masks (bm_bdt s),
    bm_peers := map (\<lambda>e. (e, forward_address e))
      (filter (\<lambda>e. bd_address e \<noteq> bm_local_address s) (bm_bdt s))\<rparr>)"
  using assms by (simp add: rebuild_forward_cache_def run forward_addresses_ok peers_zip)

lemma set_bdt_inv:
  assumes "bbmd_inv s" "list_all bdt_ok es"
  shows "bbmd_inv (snd (set_bdt es s))" "fst (set_bdt es s) = Inr ()"
  using assms
  by (auto simp: set_bdt_def run seq_p_def run_bind rebuild_runs save_bdt_backup_def bbmd_inv_def
      caches_ok_def fdt_entry_ok_def)

lemma keeps_write_bdt: "keeps bbmd_inv (handle_write_bdt data src)"
proof -
  have "keeps bbmd_inv (bind_p (lift_p (decode_table decode_bdt_entry BDT_ENTRY_SIZE data)) (\<lambda>es.
      seq_p (set_bdt es) (send_result SUCCESSFUL_COMPLETION src)))"
    if len: "length data mod BDT_ENTRY_SIZE = 0"
  proof -
    obtain es where es: "decode_table decode_bdt_entry BDT_ENTRY_SIZE data = Inr es" "list_all bdt_ok es"
      using decoded_table_ok [of data] len by (auto simp: BDT_ENTRY_SIZE_def)
    have "keeps bbmd_inv (set_bdt es)" using set_bdt_inv(1) [OF _ es(2)] by (simp add: keeps_def)
    then have "keeps bbmd_inv (seq_p (set_bdt es) (send_result SUCCESSFUL_COMPLETION src))"
      by (intro keeps_intros)
    then show ?thesis by (simp add: es(1) keeps_def run)
  qed
  then show ?thesis
    unfolding handle_write_bdt_def
    by (intro keeps_bind [OF keeps_basic(3)] keeps_if keeps_result) auto
qed

lemma length_dict_update:
  "length (AList.update k v d) = (if map_of d k = None then Suc (length d) else length d)"
  by (induction d) auto

lemma inv_register:
  assumes inv: "bbmd_inv s" and ttl: "1 \<le> ttl" "ttl \<le> 3600"
    and room: "map_of (bm_fdt s) src \<noteq> None \<or> int (length (bm_fdt s)) < bm_max_fdt_entries s"
  shows "bbmd_inv (s\<lparr>bm_fdt := AList.update src \<lparr>fd_address = src, fd_ttl = ttl,
    fd_expiry = expiry_at (bm_clock s) ttl\<rparr> (bm_fdt s)\<rparr>)"
    (is "bbmd_inv (s\<lparr>bm_fdt := AList.update src ?fd (bm_fdt s)\<rparr>)")
proof -
  let ?t = "AList.update src ?fd (bm_fdt s)"
  have d: "distinct (map fst ?t)" using inv by (simp add: bbmd_inv_def distinct_update)
  have entry: "fdt_entry_ok (s\<lparr>bm_fdt := ?t\<rparr>) a fd" if "(a, fd) \<in> set ?t" for a fd
  proof -
    have "map_of ?t a = Some fd" using d that by simp
    then show ?thesis
      using bbmd_invD(4) [OF inv, of a fd] ttl
      by (auto simp: update_conv' fdt_entry_ok_def split: if_splits)
  qed
  have "length ?t = (if map_of (bm_fdt s) src = None then Suc (length (bm_fdt s)) else length (bm_fdt s))"
    by (rule length_dict_update)
  then have "int (length ?t) \<le> max 0 (bm_max_fdt_entries s)"
    using inv room by (auto simp: bbmd_inv_def)
  with d entry inv show ?thesis by (auto simp: bbmd_inv_def caches_ok_def)
qed

lemma keeps_register: "keeps bbmd_inv (handle_register_foreign_device data src)"
  unfolding keeps_def
proof (intro allI impI)
  fix s assume inv: "bbmd_inv s"
  have send: "bbmd_inv (snd (send_result code src s'))" if "bbmd_inv s'" for code s'
    using keeps_result that by (rule keepsD)
  show "bbmd_inv (snd (handle_register_foreign_device data src s))"
    using inv send
    by (auto simp: handle_register_foreign_device_def run Let_def not_le intro!: send inv_register)
qed

lemma inv_fdt_filter:
  assumes "bbmd_inv s"
  shows "bbmd_inv (s\<lparr>bm_fdt := filter P (bm_fdt s)\<rparr>)"
proof -
  have "distinct (map fst (filter P (bm_fdt s)))" using assms by (simp add: bbmd_inv_def distinct_map_filter)
  moreover have "int (length (filter P (bm_fdt s))) \<le> max 0 (bm_max_fdt_entries s)"
    by (rule order_trans [of _ "int (length (bm_fdt s))"])
      (use assms in \<open>simp_all add: bbmd_inv_def\<close>)
  ultimately show ?thesis using assms by (auto simp: bbmd_inv_def caches_ok_def fdt_entry_ok_def)
qed

lemma keeps_purge: "keeps bbmd_inv purge_expired_fdt_entries"
  by (simp add: keeps_def purge_expired_fdt_entries_def run inv_fdt_filter)

lemma keeps_delete: "keeps bbmd_inv (handle_delete_fdt_entry data src)"
proof -
  have "bbmd_inv s \<Longrightarrow> bbmd_inv (s\<lparr>bm_fdt := AList.delete a (bm_fdt s)\<rparr>)" for s a
    by (simp add: AList.delete_eq inv_fdt_filter)
  then show ?thesis unfolding handle_delete_fdt_entry_def by (intro keeps_intros)
qed

lemma keeps_bvlc [keeps_intros]: "keeps bbmd_inv (handle_bvlc f data src udp)"
proof -
  have "keeps bbmd_inv (handle_read_bdt src)" "keeps bbmd_inv (handle_read_fdt src)"
    "keeps bbmd_inv (handle_distribute_broadcast data src)"
    "keeps bbmd_inv (handle_original_broadcast data src)"
    unfolding handle_read_bdt_def handle_read_fdt_def handle_distribute_broadcast_def
      handle_original_broadcast_def
    by (intro keeps_intros)+
  then show ?thesis
    unfolding handle_bvlc_def
    by (cases f) (auto intro!: keeps_intros keeps_register keeps_write_bdt keeps_delete)
qed

text \<open>The clock is monotonic, and tables set by the program hold well-formed entries.\<close>

fun bbmd_event_ok :: "bbmd \<Rightarrow> bbmd_event \<Rightarrow> bool" where
  "bbmd_event_ok s (Clock_Reads t) = (F (bm_clock s) \<le> F t)"
| "bbmd_event_ok s (Bdt_Set es) = list_all bdt_ok es"
| "bbmd_event_ok s _ = True"

lemma load_inv:
  assumes "bbmd_inv s"
  shows "bbmd_inv (snd (load_bdt_backup s))"
proof (cases "bm_backup_file s")
  case None
  then show ?thesis using assms by (simp add: load_bdt_backup_def run)
next
  case (Some es)
  then have "list_all bdt_ok es" using bbmd_invD(6) [OF assms] by blast
  then show ?thesis using assms Some
    by (auto simp: load_bdt_backup_def run catch_p_def rebuild_runs bbmd_inv_def caches_ok_def
        fdt_entry_ok_def)
qed

abbreviation bbmd_reach :: "bbmd \<Rightarrow> bbmd \<Rightarrow> bool" where
  "bbmd_reach \<equiv> reachable bbmd_event_ok bbmd_event_proc"

interpretation bbmd_machine: event_system bbmd_event_ok bbmd_event_proc bbmd_inv
proof unfold_locales
  fix s ev assume "bbmd_inv s" "bbmd_event_ok s ev"
  then show "bbmd_inv (snd (bbmd_event_proc ev s))"
  proof (cases ev)
    case (Bvlc_Arrives f data src udp)
    with \<open>bbmd_inv s\<close> show ?thesis
      by (auto intro!: keepsD [where m = "seq_p x y" for x y] keeps_intros)
  next
    case (Clock_Reads t)
    with \<open>bbmd_event_ok s ev\<close> have "fdt_entry_ok s a fd \<Longrightarrow> fdt_entry_ok (s\<lparr>bm_clock := t\<rparr>) a fd" for a fd
      by (auto simp: fdt_entry_ok_def intro: num_le_trans)
    with Clock_Reads \<open>bbmd_inv s\<close> show ?thesis
      by (auto simp: run bbmd_inv_def caches_ok_def)
  next
    case (Accept_Set v)
    with \<open>bbmd_inv s\<close> show ?thesis
      by (auto simp: run set_accept_fd_registrations_def bbmd_inv_def caches_ok_def fdt_entry_ok_def)
  next
    case (Global_Set v)
    with \<open>bbmd_inv s\<close> show ?thesis
      by (auto simp: run set_global_address_def bbmd_inv_def caches_ok_def fdt_entry_ok_def)
  qed (use load_inv set_bdt_inv keepsD [OF keeps_purge] in auto)
qed

lemma init_bbmd_inv:
  "(\<And>es. file = Some es \<Longrightarrow> list_all bdt_ok es) \<Longrightarrow>
   bbmd_inv (init_bbmd loc has_cb bcast max_fdt max_bdt accept allow glob file has_path now)"
  by (simp add: bbmd_inv_def init_bbmd_def caches_ok_def unicast_masks_def)

end
