(* ===== verification/Bbmd_Forwarding.thy ===== *)
theory Bbmd_Forwarding
  imports Bbmd_Laws
begin

text \<open>
  Which datagrams the BBMD sends for each kind of broadcast, the life of a foreign device
  registration, and two BBMDs with the same table.
\<close>

section \<open>Broadcasts\<close>

definition carries_npdu :: "bytes \<Rightarrow> bytes \<Rightarrow> bip_address \<Rightarrow> bool" where
  "carries_npdu frame npdu orig \<longleftrightarrow> decode_bvll frame = Inr \<lparr>bv_function = FORWARDED_NPDU,
     bv_data = npdu, bv_originating_address = Some orig\<rparr>"

lemma forwarded_npdu_frame:
  assumes "bip_ok orig" "length npdu + 10 < 65536"
  obtains frame where "encode_bvll FORWARDED_NPDU npdu (Some orig) = Inr frame" "carries_npdu frame npdu orig"
proof -
  let ?m = "\<lparr>bv_function = FORWARDED_NPDU, bv_data = npdu, bv_originating_address = Some orig\<rparr>"
  obtain frame where "encode_bvll (bv_function ?m) (bv_data ?m) (bv_originating_address ?m) = Inr frame"
    "\<And>junk. decode_bvll (frame @ junk) = Inr ?m"
    by (rule bvll_round [of ?m]) (use assms in \<open>auto simp: bvll_ok_def\<close>)
  then show thesis using that [of frame] by (metis append_Nil2 bvll_message.select_convs carries_npdu_def)
qed

text \<open>A loop that sends one frame to the elements that are not skipped.\<close>

lemma each_send:
  "each_p (\<lambda>x. if skip x then return_p () else bm_send frame (dest x)) xs s =
     (Inr (), s\<lparr>bm_sent := bm_sent s @ map (\<lambda>x. (frame, dest x)) (filter (\<lambda>x. \<not> skip x) xs)\<rparr>)"
  by (induction xs arbitrary: s) (simp_all add: run bm_send_def)

definition peer_targets :: "bbmd \<Rightarrow> bip_address \<Rightarrow> bip_address list" where
  "peer_targets s orig =
     filter (\<lambda>d. d \<noteq> orig \<and> bm_global_address s \<noteq> Some d)
       (map forward_address (filter (\<lambda>e. bd_address e \<noteq> bm_local_address s) (bm_bdt s)))"

definition device_targets :: "bbmd \<Rightarrow> bip_address option \<Rightarrow> bip_address list" where
  "device_targets s excluded = filter (\<lambda>a. excluded \<noteq> Some a) (map fst (bm_fdt s))"

definition sends_to :: "bbmd \<Rightarrow> bytes \<Rightarrow> bip_address list \<Rightarrow> bbmd" where
  "sends_to s frame dests = s\<lparr>bm_sent := bm_sent s @ map (\<lambda>d. (frame, d)) dests\<rparr>"

lemma fdt_addresses:
  assumes "bbmd_inv s"
  shows "map (fd_address \<circ> snd) (bm_fdt s) = map fst (bm_fdt s)"
  using bbmd_invD(5) [OF assms] by (auto intro!: map_cong)

lemma device_loop:
  assumes "bbmd_inv s"
  shows "filter (\<lambda>a. P a) (map fst (bm_fdt s)) = map fd_address (filter (\<lambda>fd. P (fd_address fd)) (map snd (bm_fdt s)))"
proof -
  have "filter P (map (fd_address \<circ> snd) (bm_fdt s))
      = map fd_address (filter (\<lambda>fd. P (fd_address fd)) (map snd (bm_fdt s)))"
    by (simp add: filter_map comp_def)
  then show ?thesis by (simp only: fdt_addresses [OF assms])
qed

definition announced_source :: "bbmd \<Rightarrow> bip_address \<Rightarrow> bip_address" where
  "announced_source s orig = (case bm_global_address s of Some g \<Rightarrow> g | None \<Rightarrow> orig)"

lemma device_frames:
  assumes "bbmd_inv s"
  shows "map (\<lambda>fd. (frame, fd_address fd)) (filter (\<lambda>fd. excl \<noteq> Some (fd_address fd)) (map snd (bm_fdt s)))
    = map (Pair frame) (device_targets s excl)"
  unfolding device_targets_def device_loop [OF assms] by (simp add: comp_def)

lemma peer_frames:
  assumes "bbmd_inv s"
  shows "map (\<lambda>p. (frame, snd p)) (filter (\<lambda>p. snd p \<noteq> orig \<and> bm_global_address s \<noteq> Some (snd p)) (bm_peers s))
    = map (Pair frame) (peer_targets s orig)"
proof -
  have "bm_peers s = map (\<lambda>e. (e, forward_address e))
      (filter (\<lambda>e. bd_address e \<noteq> bm_local_address s) (bm_bdt s))"
    using bbmd_invD(2) [OF assms] by (simp add: caches_ok_def)
  then show ?thesis by (simp add: peer_targets_def filter_map comp_def)
qed

lemma forward_runs:
  assumes inv: "bbmd_inv s" and frame: "encode_bvll FORWARDED_NPDU npdu (Some (announced_source s orig)) = Inr frame"
  shows "forward_to_peers_and_fds npdu orig excl s
    = (Inr (), sends_to s frame (peer_targets s orig @ device_targets s excl))"
proof -
  have loop: "(\<lambda>(e :: bdt_entry, dest). if dest = orig then return_p ()
        else if bm_global_address s = Some dest then return_p () else bm_send frame dest) =
      (\<lambda>p. if snd p = orig \<or> bm_global_address s = Some (snd p) then return_p () else bm_send frame (snd p))"
    by (auto simp: fun_eq_iff)
  show ?thesis
    using frame peer_frames [OF inv, of frame orig] device_frames [OF inv, of frame excl]
    by (simp add: forward_to_peers_and_fds_def run seq_p_def bind_assoc loop run_bind each_send
        announced_source_def sends_to_def)
qed

definition wire_targets :: "bbmd \<Rightarrow> bip_address \<Rightarrow> bip_address list" where
  "wire_targets s udp_source =
     (case bm_broadcast_address s of None \<Rightarrow> []
      | Some b \<Rightarrow> if map_of (bm_unicast_mask s) udp_source = Some False then [] else [b])"

definition hands_up :: "bbmd \<Rightarrow> bytes \<Rightarrow> bip_address \<Rightarrow> bbmd" where
  "hands_up s npdu orig =
     (if bm_has_local_broadcast s then s\<lparr>bm_delivered := bm_delivered s @ [(npdu, orig)]\<rparr> else s)"

lemma forwarded_runs:
  assumes inv: "bbmd_inv s" and frame: "encode_bvll FORWARDED_NPDU npdu (Some orig) = Inr frame"
  shows "handle_forwarded_npdu npdu orig udp s =
    (Inr (), hands_up (sends_to s frame (device_targets s (Some orig) @ wire_targets s udp)) npdu orig)"
proof -
  let ?s = "sends_to s frame (device_targets s (Some orig))"
  have "map (\<lambda>fd. (frame, fd_address fd)) (filter (\<lambda>fd. fd_address fd \<noteq> orig) (map snd (bm_fdt s)))
      = map (Pair frame) (device_targets s (Some orig))"
    using device_frames [OF inv, of frame "Some orig"] by (simp add: eq_commute)
  then have fds: "each_p (\<lambda>fd. if fd_address fd = orig then return_p ()
        else bm_send frame (fd_address fd)) (map snd (bm_fdt s)) s = (Inr (), ?s)"
    by (simp add: each_send sends_to_def)
  have wire: "bind_p (read_p bm_broadcast_address) (\<lambda>b. case b of None \<Rightarrow> return_p ()
      | Some bcast \<Rightarrow> bind_p (is_unicast_bdt_mask udp) (\<lambda>unicast.
          if unicast then bm_send frame bcast else return_p ())) ?s
      = (Inr (), sends_to s frame (device_targets s (Some orig) @ wire_targets s udp))"
    by (cases "bm_broadcast_address s"; cases "map_of (bm_unicast_mask s) udp")
      (auto simp: run is_unicast_bdt_mask_def sends_to_def wire_targets_def bm_send_def)
  have up: "bm_local_broadcast npdu orig t = (Inr (), hands_up t npdu orig)" for t
    by (simp add: bm_local_broadcast_def run hands_up_def)
  show ?thesis
    unfolding handle_forwarded_npdu_def frame seq_p_def
    by (subst run_bind(1), rule run_basic(5), subst run_bind(1), rule run_basic(3),
        subst run_bind(1), rule fds, subst run_bind(1), rule wire, rule up)
qed

lemma global_ok_source:
  "bip_ok orig \<Longrightarrow> (\<And>g. bm_global_address s = Some g \<Longrightarrow> bip_ok g) \<Longrightarrow> bip_ok (announced_source s orig)"
  by (auto simp: announced_source_def split: option.split)

section \<open>Two BBMDs\<close>

lemma unicast_masks_lookup:
  assumes "distinct (map bd_address es)" "e \<in> set es"
  shows "map_of (unicast_masks es) (bd_address e) = Some (bd_mask e = ALL_ONES_MASK)"
proof -
  let ?add = "\<lambda>d e. AList.update (bd_address e) (bd_mask e = ALL_ONES_MASK) d"
  have other: "a \<notin> bd_address ` set es \<Longrightarrow> map_of (foldl ?add d0 es) a = map_of d0 a" for a d0 es
    by (induction es arbitrary: d0) (simp_all add: update_conv')
  have "map_of (foldl ?add d0 es) (bd_address e) = Some (bd_mask e = ALL_ONES_MASK)" for d0
    using assms
  proof (induction es arbitrary: d0)
    case (Cons x es)
    then show ?case
      using other [of "bd_address x" es] by (cases "e = x") (auto simp: update_conv')
  qed simp
  then show ?thesis by (simp add: unicast_masks_def)
qed

text \<open>
  A broadcast on the subnet of the first BBMD: the frame the second one gets, and whether the
  second puts it on its own wire.  That depends on the mask in the entry of the first BBMD,
  although the frame was sent with the mask in the entry of the second.
\<close>

lemma second_hop:
  assumes inv: "bbmd_inv b" and tables: "distinct (map bd_address (bm_bdt b))" "ea \<in> set (bm_bdt b)"
    and npdu: "bip_ok orig" "length npdu + 10 < 65536"
    and other: "orig \<noteq> bm_local_address b" "bm_global_address b = None"
    and wire: "bm_broadcast_address b = Some bcast"
  obtains out where "carries_npdu out npdu orig"
    "handle_bvlc FORWARDED_NPDU npdu orig (Some (bd_address ea)) b =
      (Inr False, hands_up (sends_to b out (device_targets b (Some orig)
         @ (if bd_mask ea = ALL_ONES_MASK then [bcast] else []))) npdu orig)"
proof -
  obtain out where out: "encode_bvll FORWARDED_NPDU npdu (Some orig) = Inr out" "carries_npdu out npdu orig"
    by (rule forwarded_npdu_frame [OF npdu])
  have "wire_targets b (bd_address ea) = (if bd_mask ea = ALL_ONES_MASK then [bcast] else [])"
    using bbmd_invD(2) [OF inv] unicast_masks_lookup [OF tables] wire
    by (simp add: wire_targets_def caches_ok_def)
  with forwarded_runs [OF inv out(1), of "bd_address ea"] out(2) other show thesis
    by (intro that [OF out(2)]) (simp add: handle_bvlc_def run seq_p_def run_bind)
qed

section \<open>The life of a registration\<close>

text \<open>The datagrams that touch the entry of a device: its own registrations, and deletions of it.\<close>

fun touches :: "bip_address \<Rightarrow> bbmd_event \<Rightarrow> bool" where
  "touches a (Bvlc_Arrives f data src udp) =
     (f = REGISTER_FOREIGN_DEVICE \<and> src = a
      \<or> f = DELETE_FDT_ENTRY \<and> decode_bip_address (py_slice data 0 6) = Inr a)"
| "touches a ev = False"

definition fdt_at :: "bip_address \<Rightarrow> fdt_entry option \<Rightarrow> bbmd \<Rightarrow> bool" where
  "fdt_at a x s \<longleftrightarrow> map_of (bm_fdt s) a = x"

lemma keeps_fdt_at [keeps_intros]:
  "keeps (fdt_at a x) (bm_send data dest)" "keeps (fdt_at a x) (bm_local_broadcast npdu src)"
  "keeps (fdt_at a x) rebuild_forward_cache" "keeps (fdt_at a x) save_bdt_backup"
  by (auto simp: keeps_def run bm_send_def bm_local_broadcast_def fdt_at_def save_bdt_backup_def
      rebuild_forward_cache_def bind_p_def split: sum.split prod.split)

lemma keeps_fdt_at_set [keeps_intros]: "keeps (fdt_at a x) (set_bdt es)"
  unfolding set_bdt_def by (intro keeps_intros) (simp add: fdt_at_def)

lemma keeps_fdt_at_result [keeps_intros]: "keeps (fdt_at a x) (send_result code dest)"
  unfolding send_result_def by (intro keeps_intros)

lemma keeps_fdt_at_forwarding [keeps_intros]:
  "keeps (fdt_at a x) (forward_to_peers_and_fds npdu orig excl)"
  "keeps (fdt_at a x) (handle_forwarded_npdu npdu orig udp)"
  unfolding forward_to_peers_and_fds_def handle_forwarded_npdu_def is_unicast_bdt_mask_def
  by (intro keeps_intros)+

lemma keeps_fdt_at_register:
  "src \<noteq> a \<Longrightarrow> keeps (fdt_at a x) (handle_register_foreign_device data src)"
  unfolding handle_register_foreign_device_def Let_def
  by (intro keeps_intros) (simp add: fdt_at_def update_conv')

lemma keeps_fdt_at_delete:
  assumes "decode_bip_address (py_slice data 0 6) \<noteq> Inr a"
  shows "keeps (fdt_at a x) (handle_delete_fdt_entry data src)"
proof (cases "decode_bip_address (py_slice data 0 6)")
  case (Inl e)
  then show ?thesis
    unfolding handle_delete_fdt_entry_def Inl by (auto simp: keeps_def run intro!: keepsD [OF keeps_fdt_at_result])
next
  case (Inr b)
  with assms have "b \<noteq> a" by simp
  then have "keeps (fdt_at a x) (bind_p (read_p (\<lambda>s. map_of (bm_fdt s) b)) (\<lambda>y.
      if y \<noteq> None then seq_p (write_p (\<lambda>s. s\<lparr>bm_fdt := AList.delete b (bm_fdt s)\<rparr>))
        (send_result SUCCESSFUL_COMPLETION src) else send_result DELETE_FDT_ENTRY_NAK src))"
    by (intro keeps_intros) (simp add: fdt_at_def delete_conv')
  then have "keeps (fdt_at a x) (bind_p (lift_p (Inr b)) (\<lambda>b. bind_p (read_p (\<lambda>s. map_of (bm_fdt s) b)) (\<lambda>y.
      if y \<noteq> None then seq_p (write_p (\<lambda>s. s\<lparr>bm_fdt := AList.delete b (bm_fdt s)\<rparr>))
        (send_result SUCCESSFUL_COMPLETION src) else send_result DELETE_FDT_ENTRY_NAK src)))"
    by (simp add: keeps_def run)
  then show ?thesis unfolding handle_delete_fdt_entry_def Inr by (intro keeps_if keeps_fdt_at_result)
qed

lemma keeps_fdt_at_bvlc:
  assumes "\<not> touches a (Bvlc_Arrives f data src udp)"
  shows "keeps (fdt_at a x) (handle_bvlc f data src udp')"
proof -
  have "keeps (fdt_at a x) (handle_read_bdt src)" "keeps (fdt_at a x) (handle_read_fdt src)"
    "keeps (fdt_at a x) (handle_distribute_broadcast data src)"
    "keeps (fdt_at a x) (handle_original_broadcast data src)"
    "keeps (fdt_at a x) (handle_write_bdt data src)"
    unfolding handle_read_bdt_def handle_read_fdt_def handle_distribute_broadcast_def
      handle_original_broadcast_def handle_write_bdt_def
    by (intro keeps_intros)+
  then show ?thesis
    unfolding handle_bvlc_def using assms
    by (cases f) (auto intro!: keeps_intros keeps_fdt_at_register keeps_fdt_at_delete)
qed

lemma purge_keeps_unexpired:
  assumes "bbmd_inv s" "fdt_at a (Some fd) s" "\<not> F (fd_expiry fd) \<le> F (bm_clock s)"
  shows "fdt_at a (Some fd) (snd (purge_expired_fdt_entries s))"
proof -
  have "(a, fd) \<in> set (filter (\<lambda>(a, fd). \<not> F (fd_expiry fd) \<le> F (bm_clock s)) (bm_fdt s))"
    using assms(2,3) by (auto simp: fdt_at_def dest: map_of_SomeD)
  moreover have "distinct (map fst (filter (\<lambda>(a, fd). \<not> F (fd_expiry fd) \<le> F (bm_clock s)) (bm_fdt s)))"
    using bbmd_invD(3) [OF assms(1)] by (simp add: distinct_map_filter)
  ultimately show ?thesis by (simp add: fdt_at_def purge_expired_fdt_entries_def run)
qed

lemma purge_removes_expired:
  assumes "bbmd_inv s" "fdt_at a (Some fd) s" "F (fd_expiry fd) \<le> F (bm_clock s)"
  shows "map_of (bm_fdt (snd (purge_expired_fdt_entries s))) a = None"
proof -
  have "fd' = fd" if "(a, fd') \<in> set (bm_fdt s)" for fd'
    using that assms(2) bbmd_invD(3) [OF assms(1)] by (simp add: fdt_at_def)
  then show ?thesis
    using assms(3) by (auto simp: purge_expired_fdt_entries_def run map_of_eq_None_iff)
qed

lemma clock_monotone:
  "bbmd_event_ok s ev \<Longrightarrow> bm_clock (snd (bbmd_event_proc ev s)) = bm_clock s
     \<or> F (bm_clock s) \<le> F (bm_clock (snd (bbmd_event_proc ev s)))"
proof -
  have "keeps (\<lambda>s. bm_clock s = t) (handle_bvlc f data src udp)" for t f data src udp
  proof -
    have send: "keeps (\<lambda>s. bm_clock s = t) (bm_send data dest)"
      "keeps (\<lambda>s. bm_clock s = t) (bm_local_broadcast npdu src)" for data dest npdu src
      by (auto simp: keeps_def run bm_send_def bm_local_broadcast_def)
    have res: "keeps (\<lambda>s. bm_clock s = t) (send_result code dest)" for code dest
      unfolding send_result_def by (intro keeps_intros send)
    have fwd: "keeps (\<lambda>s. bm_clock s = t) (forward_to_peers_and_fds npdu orig excl)"
      "keeps (\<lambda>s. bm_clock s = t) (handle_forwarded_npdu npdu orig udp)" for npdu orig excl udp
      unfolding forward_to_peers_and_fds_def handle_forwarded_npdu_def is_unicast_bdt_mask_def
      by (intro keeps_intros send)+
    have set: "keeps (\<lambda>s. bm_clock s = t) (set_bdt es)" for es
      unfolding set_bdt_def rebuild_forward_cache_def save_bdt_backup_def
      by (intro keeps_intros) auto
    have "keeps (\<lambda>s. bm_clock s = t) (handle_read_bdt src)" "keeps (\<lambda>s. bm_clock s = t) (handle_read_fdt src)"
      "keeps (\<lambda>s. bm_clock s = t) (handle_distribute_broadcast data src)"
      "keeps (\<lambda>s. bm_clock s = t) (handle_original_broadcast data src)"
      "keeps (\<lambda>s. bm_clock s = t) (handle_write_bdt data src)"
      "keeps (\<lambda>s. bm_clock s = t) (handle_register_foreign_device data src)"
      "keeps (\<lambda>s. bm_clock s = t) (handle_delete_fdt_entry data src)"
      unfolding handle_read_bdt_def handle_read_fdt_def handle_distribute_broadcast_def
        handle_original_broadcast_def handle_write_bdt_def handle_register_foreign_device_def
        handle_delete_fdt_entry_def Let_def
      by (intro keeps_intros send res fwd set; simp)+
    then show ?thesis unfolding handle_bvlc_def by (cases f) (auto intro!: keeps_intros fwd)
  qed
  then have bvlc: "bm_clock (snd (handle_bvlc f data src udp s)) = bm_clock s" for f data src udp
    by (simp add: keeps_def)
  assume "bbmd_event_ok s ev"
  then show ?thesis
  proof (cases ev)
    case (Bvlc_Arrives f data src udp)
    then show ?thesis using bvlc [of f data src "Some udp"]
      by (auto simp: seq_p_def bind_p_def run split: prod.split sum.split)
  qed (auto simp: run purge_expired_fdt_entries_def set_bdt_def seq_p_def bind_p_def
      rebuild_forward_cache_def save_bdt_backup_def load_bdt_backup_def catch_p_def
      set_accept_fd_registrations_def set_global_address_def
      split: prod.split sum.split option.split)
qed

lemma keeps_fdt_at_load: "keeps (fdt_at a x) load_bdt_backup"
  unfolding load_bdt_backup_def by (intro keeps_intros) (simp add: fdt_at_def)

text \<open>Until its time is up a registration stays; afterwards it stays or has been purged.\<close>

definition living :: "bip_address \<Rightarrow> fdt_entry \<Rightarrow> bbmd \<Rightarrow> bool" where
  "living a fd s \<longleftrightarrow>
     fdt_at a (Some fd) s \<or> (F (fd_expiry fd) \<le> F (bm_clock s) \<and> fdt_at a None s)"

fun untouched_event :: "bip_address \<Rightarrow> bbmd \<Rightarrow> bbmd_event \<Rightarrow> bool" where
  "untouched_event a s ev = (bbmd_event_ok s ev \<and> \<not> touches a ev)"

lemma living_step:
  assumes inv: "bbmd_inv s" and live: "living a fd s" and ev: "untouched_event a s ev"
  shows "living a fd (snd (bbmd_event_proc ev s))"
proof (cases "ev = Purge_Runs")
  case False
  have "keeps (fdt_at a x) (bbmd_event_proc ev)" for x
  proof (cases ev)
    case (Bvlc_Arrives f data src udp)
    then show ?thesis using ev by (auto intro!: keeps_intros keeps_fdt_at_bvlc)
  next
    case (Clock_Reads t)
    then show ?thesis by (simp add: keeps_def run fdt_at_def)
  next
    case (Accept_Set v)
    then show ?thesis by (simp add: keeps_def run fdt_at_def set_accept_fd_registrations_def)
  next
    case (Global_Set v)
    then show ?thesis by (simp add: keeps_def run fdt_at_def set_global_address_def)
  qed (use False keeps_fdt_at_load keeps_fdt_at_set in simp_all)
  then show ?thesis
    using live clock_monotone [of s ev] ev
    by (auto simp: living_def dest: keepsD intro: num_le_trans)
next
  case True
  then show ?thesis
    using live purge_keeps_unexpired [OF inv, of a fd] purge_removes_expired [OF inv, of a fd]
    by (fastforce simp: living_def purge_expired_fdt_entries_def run fdt_at_def map_of_eq_None_iff)
qed

interpretation living_machine: event_system "untouched_event a" bbmd_event_proc
  "\<lambda>s. bbmd_inv s \<and> living a fd s" for a fd
  by unfold_locales (use living_step bbmd_machine.step_keeps in auto)

text \<open>The registration itself.\<close>

definition granted :: "bbmd \<Rightarrow> bytes \<Rightarrow> bip_address \<Rightarrow> bool" where
  "granted s data src \<longleftrightarrow>
     bm_accept_fd_registrations s \<and> 2 \<le> length data \<and> 1 \<le> int_from_bytes (take 2 data)
     \<and> (map_of (bm_fdt s) src \<noteq> None \<or> int (length (bm_fdt s)) < bm_max_fdt_entries s)"

definition granted_entry :: "bbmd \<Rightarrow> bytes \<Rightarrow> bip_address \<Rightarrow> fdt_entry" where
  "granted_entry s data src =
     (let ttl = min (int_from_bytes (take 2 data)) 3600
      in \<lparr>fd_address = src, fd_ttl = ttl, fd_expiry = expiry_at (bm_clock s) ttl\<rparr>)"

definition result_frame :: "bvlc_result_code \<Rightarrow> bytes" where
  "result_frame c = (case encode_bvlc_result c of Inl e \<Rightarrow> [] | Inr b \<Rightarrow> b)"

lemma result_runs: "send_result c dest s = (Inr (), s\<lparr>bm_sent := bm_sent s @ [(result_frame c, dest)]\<rparr>)"
proof -
  have "encode_bvlc_result c = Inr (result_frame c)"
    by (cases c) (simp_all add: result_frame_def encode_bvlc_result_def encode_bvll_def pack_length_def
        int_to_bytes_def)
  then show ?thesis by (simp add: send_result_def run bm_send_def)
qed

lemma register_runs:
  assumes "granted s data src"
  shows "handle_bvlc REGISTER_FOREIGN_DEVICE data src udp s = (Inr True,
    s\<lparr>bm_fdt := AList.update src (granted_entry s data src) (bm_fdt s),
      bm_sent := bm_sent s @ [(result_frame SUCCESSFUL_COMPLETION, src)]\<rparr>)"
  using assms
  by (auto simp: handle_bvlc_def handle_register_foreign_device_def granted_def granted_entry_def
      run seq_p_def run_bind result_runs Let_def py_slice_def)

lemma register_refused:
  assumes "\<not> granted s data src"
  shows "handle_bvlc REGISTER_FOREIGN_DEVICE data src udp s =
    (Inr True, s\<lparr>bm_sent := bm_sent s @ [(result_frame REGISTER_FOREIGN_DEVICE_NAK, src)]\<rparr>)"
proof -
  have "handle_register_foreign_device data src s =
      (Inr (), s\<lparr>bm_sent := bm_sent s @ [(result_frame REGISTER_FOREIGN_DEVICE_NAK, src)]\<rparr>)"
    using assms
    by (simp add: handle_register_foreign_device_def granted_def run result_runs Let_def py_slice_def
        not_le not_less) auto
  then show ?thesis by (simp add: handle_bvlc_def run seq_p_def run_bind)
qed

section \<open>A concrete BBMD\<close>

text \<open>The hosts 10.0.x.y, a BBMD on one of them, and a table of two BBMDs.\<close>

abbreviation host_at :: "8 word \<Rightarrow> 8 word \<Rightarrow> bip_address" where
  "host_at x y \<equiv> \<lparr>host = dotted [10, 0, x, y], port = 47808\<rparr>"

abbreviation bbmd_at :: "8 word \<Rightarrow> bbmd" where
  "bbmd_at x \<equiv> init_bbmd (host_at x 1) True (Some (host_at x 255)) 5 5 True False None None False 0"

abbreviation entry_at :: "8 word \<Rightarrow> bdt_entry" where
  "entry_at x \<equiv> \<lparr>bd_address = host_at x 1, bd_mask = ALL_ONES_MASK\<rparr>"

lemma host_ok: "bip_ok (host_at x y)"
  by (auto simp: bip_ok_def intro!: exI [of _ "[10, 0, x, y]"])

lemma host_distinct: "host_at x y = host_at x' y' \<longleftrightarrow> x = x' \<and> y = y'"
proof -
  have "quad_octets (dotted [10, 0, u, v]) = Some [10, 0, u, v]" for u v :: "8 word"
    by (rule quad_dotted) simp
  then show ?thesis by (metis bip_address.ext_inject list.inject option.inject)
qed

lemma configured_bbmd:
  fixes x y z :: "8 word"
  defines "s \<equiv> snd (bbmd_event_proc (Bdt_Set [entry_at x, entry_at y]) (bbmd_at z))"
  shows "bbmd_reach (bbmd_at z) s" "bm_bdt s = [entry_at x, entry_at y]" "bm_local_address s = host_at z 1"
    "bm_global_address s = None" "bm_broadcast_address s = Some (host_at z 255)" "bm_fdt s = []"
proof -
  let ?es = "[entry_at x, entry_at y]" and ?s = "bbmd_at z"
  have ok: "list_all bdt_ok ?es"
    using host_ok [of x 1] host_ok [of y 1] by (simp add: bdt_ok_def ALL_ONES_MASK_def)
  show "bbmd_reach ?s s"
    unfolding s_def by (rule reach_event [OF reach_start]) (use ok in simp)
  have rb: "rebuild_forward_cache (?s\<lparr>bm_bdt := ?es\<rparr>) = (Inr (), ?s\<lparr>bm_bdt := ?es,
      bm_forward_cache := map forward_address ?es, bm_unicast_mask := unicast_masks ?es,
      bm_peers := map (\<lambda>e. (e, forward_address e)) (filter (\<lambda>e. bd_address e \<noteq> bm_local_address ?s) ?es)\<rparr>)"
    by (subst rebuild_runs) (use ok in simp_all)
  have path: "bm_has_backup_path ?s = False" by (simp add: init_bbmd_def)
  have "s = snd (rebuild_forward_cache (?s\<lparr>bm_bdt := ?es\<rparr>))"
    unfolding s_def rb bbmd_event_proc.simps set_bdt_def save_bdt_backup_def seq_p_def
    by (simp add: run run_bind rb path del: map_map list.map)
  then show "bm_bdt s = ?es" "bm_local_address s = host_at z 1"
    "bm_global_address s = None" "bm_broadcast_address s = Some (host_at z 255)" "bm_fdt s = []"
    unfolding rb by (simp_all add: init_bbmd_def)
qed

section \<open>A time to live of a minute\<close>

lemma minute_rounded:
  "f_round (60 * 2 ^ 1074) = 0x404E000000000000" "f_round (30 * 2 ^ 1074) = 0x403E000000000000"
  "f_round (90 * 2 ^ 1074) = 0x4056800000000000"
proof -
  have "bit_length (60 * 2 ^ 1074) = Suc 1079" "bit_length (30 * 2 ^ 1074) = Suc 1078"
    "bit_length (90 * 2 ^ 1074) = Suc 1080"
    by (rule bit_length_unique; simp)+
  moreover have "round_half_even (60 * 2 ^ 1074) 1027 = 60 * 2 ^ 47" "round_half_even (30 * 2 ^ 1074) 1026 = 30 * 2 ^ 48"
    "round_half_even (90 * 2 ^ 1074) 1028 = 90 * 2 ^ 46"
    by (simp_all add: round_half_even_def Let_def)
  ultimately show "f_round (60 * 2 ^ 1074) = 0x404E000000000000" "f_round (30 * 2 ^ 1074) = 0x403E000000000000"
    "f_round (90 * 2 ^ 1074) = 0x4056800000000000"
    by (simp_all add: f_round_def)
qed

lemma minute_floats:
  "f_scaled 0x404E000000000000 = 60 * 2 ^ 1074" "f_scaled 0x403E000000000000 = 30 * 2 ^ 1074"
  "f_scaled 0x4056800000000000 = 90 * 2 ^ 1074" "f_scaled 0x4056400000000000 = 89 * 2 ^ 1074" "f_scaled 0 = 0"
  "\<not> f_nan 0x404E000000000000" "\<not> f_nan 0x403E000000000000" "\<not> f_nan 0x4056800000000000"
  "\<not> f_nan 0x4056400000000000" "\<not> f_nan 0" "\<not> f_inf 0x404E000000000000" "\<not> f_inf 0x403E000000000000"
  "\<not> f_inf 0x4056800000000000" "\<not> f_inf 0x4056400000000000" "\<not> f_inf 0"
  by (simp_all add: f_nan_def f_inf_def f64_parts_def f_scaled_def)

lemma minute_expires: "expiry_at 0 60 = 0x4056800000000000"
proof -
  have "f_add 0 0x404E000000000000 = 0x404E000000000000"
    unfolding f_add_def by (simp add: minute_rounded minute_floats Let_def del: power_numeral)
  moreover have "f_add 0x404E000000000000 0x403E000000000000 = f_round (60 * 2 ^ 1074 + 30 * 2 ^ 1074)"
    unfolding f_add_def by (simp add: minute_floats Let_def del: power_numeral)
  moreover have "(60 * 2 ^ 1074 + 30 * 2 ^ 1074 :: int) = 90 * 2 ^ 1074" by (simp only: distrib_right [symmetric]) simp
  ultimately show ?thesis
    unfolding expiry_at_def float_of_int_def FDT_GRACE_PERIOD_SECONDS_def
    by (simp only: minute_rounded)
qed

lemma minute_order:
  "F 0 \<le> F 0x4056400000000000" "F 0x4056400000000000 \<le> F 0x4056800000000000"
  "\<not> F 0x4056800000000000 \<le> F 0x4056400000000000" "F 0x4056800000000000 \<le> F 0x4056800000000000"
  by (simp_all add: num_order num_key_def num_nan_def minute_floats)

end
