(* ===== verification/Enums.thy ===== *)
theory Enums
  imports Prelude
begin

text \<open>
  The enumerations of \<open>types/enums.py\<close> as far as the object model needs them: an \<open>IntEnum\<close> class is
  known by the integers that have a member, as ranges.  \<open>ObjectType\<close> and \<open>PropertyIdentifier\<close> have a
  \<open>_missing_\<close> hook that makes a member for every other number of their range.  The members that
  the code names are abbreviations of their numbers.
\<close>

section \<open>Members\<close>

type_synonym enum_class = string

definition enum_table :: "(enum_class \<times> (int \<times> int) list) list" where
  "enum_table =
    [(''ObjectType'', [(0, 1023)]),
     (''PropertyIdentifier'', [(0, 4194303)]),
     (''ErrorClass'', [(0, 7)]),
     (''ErrorCode'', [(0, 32), (34, 138)]),
     (''Segmentation'', [(0, 3)]),
     (''AbortReason'', [(0, 11)]),
     (''RejectReason'', [(0, 9)]),
     (''PduType'', [(0, 7)]),
     (''ConfirmedServiceChoice'', [(0, 12), (14, 23), (26, 33)]),
     (''UnconfirmedServiceChoice'', [(0, 14)]),
     (''NetworkPriority'', [(0, 3)]),
     (''NetworkMessageType'', [(0, 19)]),
     (''BvlcFunction'', [(0, 12)]),
     (''BvlcResultCode'', [(0, 0), (16, 16), (32, 32), (48, 48), (64, 64), (80, 80), (96, 96)]),
     (''Bvlc6Function'', [(0, 12)]),
     (''Bvlc6ResultCode'', [(0, 0), (48, 48), (64, 64), (80, 80), (96, 96), (112, 112)]),
     (''EventState'', [(0, 5)]),
     (''BinaryPV'', [(0, 1)]),
     (''Polarity'', [(0, 1)]),
     (''Reliability'', [(0, 10), (12, 24)]),
     (''EngineeringUnits'', [(0, 254), (47808, 47812), (47814, 47822)]),
     (''EnableDisable'', [(0, 2)]),
     (''ReinitializedState'', [(0, 7)]),
     (''FileAccessMethod'', [(0, 1)]),
     (''ProgramState'', [(0, 5)]),
     (''ProgramChange'', [(0, 5)]),
     (''Action'', [(0, 1)]),
     (''DeviceStatus'', [(0, 5)]),
     (''BackupAndRestoreState'', [(0, 4)]),
     (''EventType'', [(0, 5), (8, 11), (13, 22)]),
     (''LoggingType'', [(0, 2)]),
     (''NotifyType'', [(0, 2)]),
     (''RejectMessageReason'', [(0, 6)]),
     (''NetworkReachability'', [(0, 2)]),
     (''NetworkType'', [(0, 10)]),
     (''IPMode'', [(0, 2)]),
     (''NetworkPortCommand'', [(0, 7)]),
     (''NetworkNumberQuality'', [(0, 3)]),
     (''ProtocolLevel'', [(0, 3)]),
     (''WriteStatus'', [(0, 3)]),
     (''LifeSafetyState'', [(0, 23)]),
     (''LifeSafetyMode'', [(0, 14)]),
     (''LifeSafetyOperation'', [(0, 11)]),
     (''SilencedState'', [(0, 3)]),
     (''AcknowledgmentFilter'', [(0, 2)]),
     (''EventTransitionBits'', [(0, 2)]),
     (''TimerState'', [(0, 2)]),
     (''TimerTransition'', [(0, 7)]),
     (''MessagePriority'', [(0, 1)]),
     (''VTClass'', [(0, 6)]),
     (''NodeType'', [(0, 21)]),
     (''ShedState'', [(0, 3)]),
     (''DoorAlarmState'', [(0, 8)]),
     (''DoorStatus'', [(0, 2)]),
     (''LockStatus'', [(0, 4)]),
     (''DoorSecuredStatus'', [(0, 2)]),
     (''LightingOperation'', [(0, 10)]),
     (''LightingInProgress'', [(0, 4)]),
     (''AccessEvent'', [(0, 16), (128, 164)]),
     (''AccessCredentialDisable'', [(0, 3)]),
     (''AccessCredentialDisableReason'', [(0, 9)]),
     (''AccessUserType'', [(0, 2)]),
     (''AuthorizationMode'', [(0, 5)]),
     (''AccessPassbackMode'', [(0, 2)]),
     (''EscalatorMode'', [(0, 5)]),
     (''EscalatorFault'', [(0, 8)]),
     (''LiftCarDirection'', [(0, 5)]),
     (''LiftGroupMode'', [(0, 6)]),
     (''LiftCarDoorStatus'', [(0, 7)]),
     (''LiftCarDoorCommand'', [(0, 2)]),
     (''LiftCarDriveStatus'', [(0, 9)]),
     (''LiftCarMode'', [(0, 13)]),
     (''LiftFault'', [(0, 16)]),
     (''StagingState'', [(0, 6)]),
     (''AuditLevel'', [(0, 3)]),
     (''AuditOperation'', [(0, 15)]),
     (''BACnetSuccessFilter'', [(0, 2)])]"

definition enum_has :: "enum_class \<Rightarrow> int \<Rightarrow> bool" where
  "enum_has c v =
     (case map_of enum_table c of None \<Rightarrow> False
      | Some ranges \<Rightarrow> list_ex (\<lambda>(lo, hi). lo \<le> v \<and> v \<le> hi) ranges)"

text \<open>\<open>EnumClass(v)\<close>\<close>

definition enum_of :: "enum_class \<Rightarrow> int \<Rightarrow> py_error + int" where
  "enum_of c v = (if enum_has c v then Inr v else Inl ValueError)"

section \<open>Members named by the code\<close>

text \<open>\<open>PropertyIdentifier\<close>\<close>

abbreviation (input) P_ABSENTEE_LIMIT :: int where "P_ABSENTEE_LIMIT \<equiv> 244"
abbreviation (input) P_ACCEPTED_MODES :: int where "P_ACCEPTED_MODES \<equiv> 175"
abbreviation (input) P_ACCESS_ALARM_EVENTS :: int where "P_ACCESS_ALARM_EVENTS \<equiv> 245"
abbreviation (input) P_ACCESS_DOORS :: int where "P_ACCESS_DOORS \<equiv> 246"
abbreviation (input) P_ACCESS_EVENT :: int where "P_ACCESS_EVENT \<equiv> 247"
abbreviation (input) P_ACCESS_EVENT_AUTHENTICATION_FACTOR :: int where "P_ACCESS_EVENT_AUTHENTICATION_FACTOR \<equiv> 248"
abbreviation (input) P_ACCESS_EVENT_CREDENTIAL :: int where "P_ACCESS_EVENT_CREDENTIAL \<equiv> 249"
abbreviation (input) P_ACCESS_EVENT_TAG :: int where "P_ACCESS_EVENT_TAG \<equiv> 322"
abbreviation (input) P_ACCESS_EVENT_TIME :: int where "P_ACCESS_EVENT_TIME \<equiv> 250"
abbreviation (input) P_ACCESS_TRANSACTION_EVENTS :: int where "P_ACCESS_TRANSACTION_EVENTS \<equiv> 251"
abbreviation (input) P_ACCOMPANIMENT :: int where "P_ACCOMPANIMENT \<equiv> 252"
abbreviation (input) P_ACKED_TRANSITIONS :: int where "P_ACKED_TRANSITIONS \<equiv> 0"
abbreviation (input) P_ACK_REQUIRED :: int where "P_ACK_REQUIRED \<equiv> 1"
abbreviation (input) P_ACTION :: int where "P_ACTION \<equiv> 2"
abbreviation (input) P_ACTION_TEXT :: int where "P_ACTION_TEXT \<equiv> 3"
abbreviation (input) P_ACTIVATION_TIME :: int where "P_ACTIVATION_TIME \<equiv> 254"
abbreviation (input) P_ACTIVE_AUTHENTICATION_POLICY :: int where "P_ACTIVE_AUTHENTICATION_POLICY \<equiv> 255"
abbreviation (input) P_ACTIVE_COV_SUBSCRIPTIONS :: int where "P_ACTIVE_COV_SUBSCRIPTIONS \<equiv> 152"
abbreviation (input) P_ACTIVE_TEXT :: int where "P_ACTIVE_TEXT \<equiv> 4"
abbreviation (input) P_ACTUAL_SHED_LEVEL :: int where "P_ACTUAL_SHED_LEVEL \<equiv> 212"
abbreviation (input) P_ADJUST_VALUE :: int where "P_ADJUST_VALUE \<equiv> 176"
abbreviation (input) P_ALARM_VALUE :: int where "P_ALARM_VALUE \<equiv> 6"
abbreviation (input) P_ALARM_VALUES :: int where "P_ALARM_VALUES \<equiv> 7"
abbreviation (input) P_ALIGN_INTERVALS :: int where "P_ALIGN_INTERVALS \<equiv> 193"
abbreviation (input) P_ALL :: int where "P_ALL \<equiv> 8"
abbreviation (input) P_ALLOW_GROUP_DELAY_INHIBIT :: int where "P_ALLOW_GROUP_DELAY_INHIBIT \<equiv> 365"
abbreviation (input) P_ALL_WRITES_SUCCESSFUL :: int where "P_ALL_WRITES_SUCCESSFUL \<equiv> 9"
abbreviation (input) P_APDU_LENGTH :: int where "P_APDU_LENGTH \<equiv> 399"
abbreviation (input) P_APDU_SEGMENT_TIMEOUT :: int where "P_APDU_SEGMENT_TIMEOUT \<equiv> 10"
abbreviation (input) P_APDU_TIMEOUT :: int where "P_APDU_TIMEOUT \<equiv> 11"
abbreviation (input) P_APPLICATION_SOFTWARE_VERSION :: int where "P_APPLICATION_SOFTWARE_VERSION \<equiv> 12"
abbreviation (input) P_ARCHIVE :: int where "P_ARCHIVE \<equiv> 13"
abbreviation (input) P_ASSIGNED_ACCESS_RIGHTS :: int where "P_ASSIGNED_ACCESS_RIGHTS \<equiv> 256"
abbreviation (input) P_ATTEMPTED_SAMPLES :: int where "P_ATTEMPTED_SAMPLES \<equiv> 124"
abbreviation (input) P_AUDITABLE_OPERATIONS :: int where "P_AUDITABLE_OPERATIONS \<equiv> 501"
abbreviation (input) P_AUDIT_LEVEL :: int where "P_AUDIT_LEVEL \<equiv> 498"
abbreviation (input) P_AUDIT_NOTIFICATION_RECIPIENT :: int where "P_AUDIT_NOTIFICATION_RECIPIENT \<equiv> 499"
abbreviation (input) P_AUDIT_PRIORITY_FILTER :: int where "P_AUDIT_PRIORITY_FILTER \<equiv> 500"
abbreviation (input) P_AUDIT_SOURCE_REPORTER :: int where "P_AUDIT_SOURCE_REPORTER \<equiv> 497"
abbreviation (input) P_AUTHENTICATION_FACTORS :: int where "P_AUTHENTICATION_FACTORS \<equiv> 257"
abbreviation (input) P_AUTHENTICATION_POLICY_LIST :: int where "P_AUTHENTICATION_POLICY_LIST \<equiv> 258"
abbreviation (input) P_AUTHENTICATION_POLICY_NAMES :: int where "P_AUTHENTICATION_POLICY_NAMES \<equiv> 259"
abbreviation (input) P_AUTHORIZATION_EXEMPTIONS :: int where "P_AUTHORIZATION_EXEMPTIONS \<equiv> 364"
abbreviation (input) P_AUTHORIZATION_MODE :: int where "P_AUTHORIZATION_MODE \<equiv> 261"
abbreviation (input) P_AVERAGE_VALUE :: int where "P_AVERAGE_VALUE \<equiv> 125"
abbreviation (input) P_BACKUP_AND_RESTORE_STATE :: int where "P_BACKUP_AND_RESTORE_STATE \<equiv> 338"
abbreviation (input) P_BACKUP_FAILURE_TIMEOUT :: int where "P_BACKUP_FAILURE_TIMEOUT \<equiv> 153"
abbreviation (input) P_BACKUP_PREPARATION_TIME :: int where "P_BACKUP_PREPARATION_TIME \<equiv> 339"
abbreviation (input) P_BACNET_IPV6_MODE :: int where "P_BACNET_IPV6_MODE \<equiv> 435"
abbreviation (input) P_BACNET_IPV6_MULTICAST_ADDRESS :: int where "P_BACNET_IPV6_MULTICAST_ADDRESS \<equiv> 440"
abbreviation (input) P_BACNET_IPV6_UDP_PORT :: int where "P_BACNET_IPV6_UDP_PORT \<equiv> 438"
abbreviation (input) P_BACNET_IP_GLOBAL_ADDRESS :: int where "P_BACNET_IP_GLOBAL_ADDRESS \<equiv> 407"
abbreviation (input) P_BACNET_IP_MODE :: int where "P_BACNET_IP_MODE \<equiv> 408"
abbreviation (input) P_BACNET_IP_NAT_TRAVERSAL :: int where "P_BACNET_IP_NAT_TRAVERSAL \<equiv> 410"
abbreviation (input) P_BACNET_IP_UDP_PORT :: int where "P_BACNET_IP_UDP_PORT \<equiv> 412"
abbreviation (input) P_BBMD_ACCEPT_FD_REGISTRATIONS :: int where "P_BBMD_ACCEPT_FD_REGISTRATIONS \<equiv> 413"
abbreviation (input) P_BBMD_BROADCAST_DISTRIBUTION_TABLE :: int where "P_BBMD_BROADCAST_DISTRIBUTION_TABLE \<equiv> 414"
abbreviation (input) P_BELONGS_TO :: int where "P_BELONGS_TO \<equiv> 262"
abbreviation (input) P_BIAS :: int where "P_BIAS \<equiv> 14"
abbreviation (input) P_BIT_MASK :: int where "P_BIT_MASK \<equiv> 342"
abbreviation (input) P_BIT_TEXT :: int where "P_BIT_TEXT \<equiv> 343"
abbreviation (input) P_BLINK_WARN_ENABLE :: int where "P_BLINK_WARN_ENABLE \<equiv> 373"
abbreviation (input) P_BUFFER_SIZE :: int where "P_BUFFER_SIZE \<equiv> 126"
abbreviation (input) P_CAR_ASSIGNED_DIRECTION :: int where "P_CAR_ASSIGNED_DIRECTION \<equiv> 448"
abbreviation (input) P_CAR_DOOR_COMMAND :: int where "P_CAR_DOOR_COMMAND \<equiv> 449"
abbreviation (input) P_CAR_DOOR_STATUS :: int where "P_CAR_DOOR_STATUS \<equiv> 450"
abbreviation (input) P_CAR_DOOR_TEXT :: int where "P_CAR_DOOR_TEXT \<equiv> 451"
abbreviation (input) P_CAR_DOOR_ZONE :: int where "P_CAR_DOOR_ZONE \<equiv> 452"
abbreviation (input) P_CAR_DRIVE_STATUS :: int where "P_CAR_DRIVE_STATUS \<equiv> 453"
abbreviation (input) P_CAR_LOAD :: int where "P_CAR_LOAD \<equiv> 454"
abbreviation (input) P_CAR_LOAD_UNITS :: int where "P_CAR_LOAD_UNITS \<equiv> 455"
abbreviation (input) P_CAR_MODE :: int where "P_CAR_MODE \<equiv> 456"
abbreviation (input) P_CAR_MOVING_DIRECTION :: int where "P_CAR_MOVING_DIRECTION \<equiv> 457"
abbreviation (input) P_CAR_POSITION :: int where "P_CAR_POSITION \<equiv> 458"
abbreviation (input) P_CHANGES_PENDING :: int where "P_CHANGES_PENDING \<equiv> 416"
abbreviation (input) P_CHANNEL_NUMBER :: int where "P_CHANNEL_NUMBER \<equiv> 366"
abbreviation (input) P_COMMAND :: int where "P_COMMAND \<equiv> 417"
abbreviation (input) P_COMMAND_TIME_ARRAY :: int where "P_COMMAND_TIME_ARRAY \<equiv> 430"
abbreviation (input) P_CONFIGURATION_FILES :: int where "P_CONFIGURATION_FILES \<equiv> 154"
abbreviation (input) P_CONTROLLED_VARIABLE_REFERENCE :: int where "P_CONTROLLED_VARIABLE_REFERENCE \<equiv> 19"
abbreviation (input) P_CONTROLLED_VARIABLE_UNITS :: int where "P_CONTROLLED_VARIABLE_UNITS \<equiv> 20"
abbreviation (input) P_CONTROLLED_VARIABLE_VALUE :: int where "P_CONTROLLED_VARIABLE_VALUE \<equiv> 21"
abbreviation (input) P_CONTROL_GROUPS :: int where "P_CONTROL_GROUPS \<equiv> 367"
abbreviation (input) P_COUNT :: int where "P_COUNT \<equiv> 177"
abbreviation (input) P_COUNT_BEFORE_CHANGE :: int where "P_COUNT_BEFORE_CHANGE \<equiv> 178"
abbreviation (input) P_COUNT_CHANGE_TIME :: int where "P_COUNT_CHANGE_TIME \<equiv> 179"
abbreviation (input) P_COVU_PERIOD :: int where "P_COVU_PERIOD \<equiv> 349"
abbreviation (input) P_COVU_RECIPIENTS :: int where "P_COVU_RECIPIENTS \<equiv> 350"
abbreviation (input) P_COV_INCREMENT :: int where "P_COV_INCREMENT \<equiv> 22"
abbreviation (input) P_COV_PERIOD :: int where "P_COV_PERIOD \<equiv> 180"
abbreviation (input) P_CREDENTIALS :: int where "P_CREDENTIALS \<equiv> 265"
abbreviation (input) P_CREDENTIALS_IN_ZONE :: int where "P_CREDENTIALS_IN_ZONE \<equiv> 266"
abbreviation (input) P_CREDENTIAL_DISABLE :: int where "P_CREDENTIAL_DISABLE \<equiv> 263"
abbreviation (input) P_CREDENTIAL_STATUS :: int where "P_CREDENTIAL_STATUS \<equiv> 264"
abbreviation (input) P_CURRENT_COMMAND_PRIORITY :: int where "P_CURRENT_COMMAND_PRIORITY \<equiv> 431"
abbreviation (input) P_DATABASE_REVISION :: int where "P_DATABASE_REVISION \<equiv> 155"
abbreviation (input) P_DATE_LIST :: int where "P_DATE_LIST \<equiv> 23"
abbreviation (input) P_DAYS_REMAINING :: int where "P_DAYS_REMAINING \<equiv> 267"
abbreviation (input) P_DEADBAND :: int where "P_DEADBAND \<equiv> 25"
abbreviation (input) P_DEFAULT_FADE_TIME :: int where "P_DEFAULT_FADE_TIME \<equiv> 374"
abbreviation (input) P_DEFAULT_RAMP_RATE :: int where "P_DEFAULT_RAMP_RATE \<equiv> 375"
abbreviation (input) P_DEFAULT_STEP_INCREMENT :: int where "P_DEFAULT_STEP_INCREMENT \<equiv> 376"
abbreviation (input) P_DEFAULT_TIMEOUT :: int where "P_DEFAULT_TIMEOUT \<equiv> 393"
abbreviation (input) P_DERIVATIVE_CONSTANT :: int where "P_DERIVATIVE_CONSTANT \<equiv> 26"
abbreviation (input) P_DERIVATIVE_CONSTANT_UNITS :: int where "P_DERIVATIVE_CONSTANT_UNITS \<equiv> 27"
abbreviation (input) P_DESCRIPTION :: int where "P_DESCRIPTION \<equiv> 28"
abbreviation (input) P_DESCRIPTION_OF_HALT :: int where "P_DESCRIPTION_OF_HALT \<equiv> 29"
abbreviation (input) P_DEVICE_ADDRESS_BINDING :: int where "P_DEVICE_ADDRESS_BINDING \<equiv> 30"
abbreviation (input) P_DEVICE_TYPE :: int where "P_DEVICE_TYPE \<equiv> 31"
abbreviation (input) P_DIRECT_READING :: int where "P_DIRECT_READING \<equiv> 156"
abbreviation (input) P_DOOR_ALARM_STATE :: int where "P_DOOR_ALARM_STATE \<equiv> 226"
abbreviation (input) P_DOOR_EXTENDED_PULSE_TIME :: int where "P_DOOR_EXTENDED_PULSE_TIME \<equiv> 227"
abbreviation (input) P_DOOR_MEMBERS :: int where "P_DOOR_MEMBERS \<equiv> 228"
abbreviation (input) P_DOOR_OPEN_TOO_LONG_TIME :: int where "P_DOOR_OPEN_TOO_LONG_TIME \<equiv> 229"
abbreviation (input) P_DOOR_PULSE_TIME :: int where "P_DOOR_PULSE_TIME \<equiv> 230"
abbreviation (input) P_DOOR_STATUS :: int where "P_DOOR_STATUS \<equiv> 231"
abbreviation (input) P_DOOR_UNLOCK_DELAY_TIME :: int where "P_DOOR_UNLOCK_DELAY_TIME \<equiv> 232"
abbreviation (input) P_DUTY_WINDOW :: int where "P_DUTY_WINDOW \<equiv> 213"
abbreviation (input) P_EFFECTIVE_PERIOD :: int where "P_EFFECTIVE_PERIOD \<equiv> 32"
abbreviation (input) P_EGRESS_ACTIVE :: int where "P_EGRESS_ACTIVE \<equiv> 386"
abbreviation (input) P_EGRESS_TIME :: int where "P_EGRESS_TIME \<equiv> 377"
abbreviation (input) P_ELEVATOR_GROUP :: int where "P_ELEVATOR_GROUP \<equiv> 459"
abbreviation (input) P_ENERGY_METER :: int where "P_ENERGY_METER \<equiv> 460"
abbreviation (input) P_ENERGY_METER_REF :: int where "P_ENERGY_METER_REF \<equiv> 461"
abbreviation (input) P_ENTRY_POINTS :: int where "P_ENTRY_POINTS \<equiv> 268"
abbreviation (input) P_ERROR_LIMIT :: int where "P_ERROR_LIMIT \<equiv> 34"
abbreviation (input) P_ESCALATOR_MODE :: int where "P_ESCALATOR_MODE \<equiv> 462"
abbreviation (input) P_EVENT_ALGORITHM_INHIBIT :: int where "P_EVENT_ALGORITHM_INHIBIT \<equiv> 354"
abbreviation (input) P_EVENT_DETECTION_ENABLE :: int where "P_EVENT_DETECTION_ENABLE \<equiv> 353"
abbreviation (input) P_EVENT_ENABLE :: int where "P_EVENT_ENABLE \<equiv> 35"
abbreviation (input) P_EVENT_MESSAGE_TEXTS :: int where "P_EVENT_MESSAGE_TEXTS \<equiv> 351"
abbreviation (input) P_EVENT_MESSAGE_TEXTS_CONFIG :: int where "P_EVENT_MESSAGE_TEXTS_CONFIG \<equiv> 352"
abbreviation (input) P_EVENT_PARAMETERS :: int where "P_EVENT_PARAMETERS \<equiv> 83"
abbreviation (input) P_EVENT_STATE :: int where "P_EVENT_STATE \<equiv> 36"
abbreviation (input) P_EVENT_TIME_STAMPS :: int where "P_EVENT_TIME_STAMPS \<equiv> 130"
abbreviation (input) P_EVENT_TYPE :: int where "P_EVENT_TYPE \<equiv> 37"
abbreviation (input) P_EXCEPTION_SCHEDULE :: int where "P_EXCEPTION_SCHEDULE \<equiv> 38"
abbreviation (input) P_EXECUTION_DELAY :: int where "P_EXECUTION_DELAY \<equiv> 368"
abbreviation (input) P_EXIT_POINTS :: int where "P_EXIT_POINTS \<equiv> 269"
abbreviation (input) P_EXPECTED_SHED_LEVEL :: int where "P_EXPECTED_SHED_LEVEL \<equiv> 214"
abbreviation (input) P_EXPIRATION_TIME :: int where "P_EXPIRATION_TIME \<equiv> 270"
abbreviation (input) P_FAULT_SIGNALS :: int where "P_FAULT_SIGNALS \<equiv> 463"
abbreviation (input) P_FAULT_VALUES :: int where "P_FAULT_VALUES \<equiv> 39"
abbreviation (input) P_FD_BBMD_ADDRESS :: int where "P_FD_BBMD_ADDRESS \<equiv> 418"
abbreviation (input) P_FEEDBACK_VALUE :: int where "P_FEEDBACK_VALUE \<equiv> 40"
abbreviation (input) P_FILE_ACCESS_METHOD :: int where "P_FILE_ACCESS_METHOD \<equiv> 41"
abbreviation (input) P_FILE_SIZE :: int where "P_FILE_SIZE \<equiv> 42"
abbreviation (input) P_FILE_TYPE :: int where "P_FILE_TYPE \<equiv> 43"
abbreviation (input) P_FIRMWARE_REVISION :: int where "P_FIRMWARE_REVISION \<equiv> 44"
abbreviation (input) P_FLOOR_TEXT :: int where "P_FLOOR_TEXT \<equiv> 464"
abbreviation (input) P_FULL_DUTY_BASELINE :: int where "P_FULL_DUTY_BASELINE \<equiv> 215"
abbreviation (input) P_GLOBAL_IDENTIFIER :: int where "P_GLOBAL_IDENTIFIER \<equiv> 323"
abbreviation (input) P_GROUP_ID :: int where "P_GROUP_ID \<equiv> 465"
abbreviation (input) P_GROUP_MEMBERS :: int where "P_GROUP_MEMBERS \<equiv> 345"
abbreviation (input) P_GROUP_MEMBER_NAMES :: int where "P_GROUP_MEMBER_NAMES \<equiv> 346"
abbreviation (input) P_GROUP_MODE :: int where "P_GROUP_MODE \<equiv> 467"
abbreviation (input) P_HIGHER_DECK :: int where "P_HIGHER_DECK \<equiv> 468"
abbreviation (input) P_HIGH_LIMIT :: int where "P_HIGH_LIMIT \<equiv> 45"
abbreviation (input) P_INACTIVE_TEXT :: int where "P_INACTIVE_TEXT \<equiv> 46"
abbreviation (input) P_INITIAL_TIMEOUT :: int where "P_INITIAL_TIMEOUT \<equiv> 394"
abbreviation (input) P_INPUT_REFERENCE :: int where "P_INPUT_REFERENCE \<equiv> 181"
abbreviation (input) P_INSTALLATION_ID :: int where "P_INSTALLATION_ID \<equiv> 469"
abbreviation (input) P_INSTANCE_OF :: int where "P_INSTANCE_OF \<equiv> 48"
abbreviation (input) P_INSTANTANEOUS_POWER :: int where "P_INSTANTANEOUS_POWER \<equiv> 379"
abbreviation (input) P_INTEGRAL_CONSTANT :: int where "P_INTEGRAL_CONSTANT \<equiv> 49"
abbreviation (input) P_INTEGRAL_CONSTANT_UNITS :: int where "P_INTEGRAL_CONSTANT_UNITS \<equiv> 50"
abbreviation (input) P_INTERVAL_OFFSET :: int where "P_INTERVAL_OFFSET \<equiv> 195"
abbreviation (input) P_IN_PROCESS :: int where "P_IN_PROCESS \<equiv> 47"
abbreviation (input) P_IN_PROGRESS :: int where "P_IN_PROGRESS \<equiv> 378"
abbreviation (input) P_IPV6_ADDRESS :: int where "P_IPV6_ADDRESS \<equiv> 436"
abbreviation (input) P_IPV6_AUTO_ADDRESSING_ENABLE :: int where "P_IPV6_AUTO_ADDRESSING_ENABLE \<equiv> 442"
abbreviation (input) P_IPV6_DEFAULT_GATEWAY :: int where "P_IPV6_DEFAULT_GATEWAY \<equiv> 439"
abbreviation (input) P_IPV6_DNS_SERVER :: int where "P_IPV6_DNS_SERVER \<equiv> 441"
abbreviation (input) P_IPV6_PREFIX_LENGTH :: int where "P_IPV6_PREFIX_LENGTH \<equiv> 437"
abbreviation (input) P_IP_ADDRESS :: int where "P_IP_ADDRESS \<equiv> 400"
abbreviation (input) P_IP_DEFAULT_GATEWAY :: int where "P_IP_DEFAULT_GATEWAY \<equiv> 401"
abbreviation (input) P_IP_DHCP_ENABLE :: int where "P_IP_DHCP_ENABLE \<equiv> 402"
abbreviation (input) P_IP_DNS_SERVER :: int where "P_IP_DNS_SERVER \<equiv> 406"
abbreviation (input) P_IP_SUBNET_MASK :: int where "P_IP_SUBNET_MASK \<equiv> 411"
abbreviation (input) P_IS_UTC :: int where "P_IS_UTC \<equiv> 344"
abbreviation (input) P_LANDING_CALLS :: int where "P_LANDING_CALLS \<equiv> 470"
abbreviation (input) P_LANDING_CALL_CONTROL :: int where "P_LANDING_CALL_CONTROL \<equiv> 471"
abbreviation (input) P_LANDING_DOOR_STATUS :: int where "P_LANDING_DOOR_STATUS \<equiv> 472"
abbreviation (input) P_LAST_ACCESS_EVENT :: int where "P_LAST_ACCESS_EVENT \<equiv> 275"
abbreviation (input) P_LAST_ACCESS_POINT :: int where "P_LAST_ACCESS_POINT \<equiv> 276"
abbreviation (input) P_LAST_COMMAND_TIME :: int where "P_LAST_COMMAND_TIME \<equiv> 432"
abbreviation (input) P_LAST_CREDENTIAL_ADDED :: int where "P_LAST_CREDENTIAL_ADDED \<equiv> 277"
abbreviation (input) P_LAST_CREDENTIAL_ADDED_TIME :: int where "P_LAST_CREDENTIAL_ADDED_TIME \<equiv> 278"
abbreviation (input) P_LAST_CREDENTIAL_REMOVED :: int where "P_LAST_CREDENTIAL_REMOVED \<equiv> 279"
abbreviation (input) P_LAST_CREDENTIAL_REMOVED_TIME :: int where "P_LAST_CREDENTIAL_REMOVED_TIME \<equiv> 280"
abbreviation (input) P_LAST_NOTIFY_RECORD :: int where "P_LAST_NOTIFY_RECORD \<equiv> 173"
abbreviation (input) P_LAST_PRIORITY :: int where "P_LAST_PRIORITY \<equiv> 369"
abbreviation (input) P_LAST_RESTORE_TIME :: int where "P_LAST_RESTORE_TIME \<equiv> 157"
abbreviation (input) P_LAST_STATE_CHANGE :: int where "P_LAST_STATE_CHANGE \<equiv> 395"
abbreviation (input) P_LAST_USE_TIME :: int where "P_LAST_USE_TIME \<equiv> 281"
abbreviation (input) P_LIFE_SAFETY_ALARM_VALUES :: int where "P_LIFE_SAFETY_ALARM_VALUES \<equiv> 166"
abbreviation (input) P_LIGHTING_COMMAND :: int where "P_LIGHTING_COMMAND \<equiv> 380"
abbreviation (input) P_LIGHTING_COMMAND_DEFAULT_PRIORITY :: int where "P_LIGHTING_COMMAND_DEFAULT_PRIORITY \<equiv> 381"
abbreviation (input) P_LIMIT_ENABLE :: int where "P_LIMIT_ENABLE \<equiv> 52"
abbreviation (input) P_LIMIT_MONITORING_INTERVAL :: int where "P_LIMIT_MONITORING_INTERVAL \<equiv> 182"
abbreviation (input) P_LINK_SPEED :: int where "P_LINK_SPEED \<equiv> 420"
abbreviation (input) P_LIST_OF_GROUP_MEMBERS :: int where "P_LIST_OF_GROUP_MEMBERS \<equiv> 53"
abbreviation (input) P_LIST_OF_OBJECT_PROPERTY_REFERENCES :: int where "P_LIST_OF_OBJECT_PROPERTY_REFERENCES \<equiv> 54"
abbreviation (input) P_LOCAL_FORWARDING_ONLY :: int where "P_LOCAL_FORWARDING_ONLY \<equiv> 360"
abbreviation (input) P_LOCK_STATUS :: int where "P_LOCK_STATUS \<equiv> 233"
abbreviation (input) P_LOGGING_TYPE :: int where "P_LOGGING_TYPE \<equiv> 197"
abbreviation (input) P_LOG_BUFFER :: int where "P_LOG_BUFFER \<equiv> 131"
abbreviation (input) P_LOG_DEVICE_OBJECT_PROPERTY :: int where "P_LOG_DEVICE_OBJECT_PROPERTY \<equiv> 132"
abbreviation (input) P_LOG_ENABLE :: int where "P_LOG_ENABLE \<equiv> 133"
abbreviation (input) P_LOG_INTERVAL :: int where "P_LOG_INTERVAL \<equiv> 134"
abbreviation (input) P_LOWER_DECK :: int where "P_LOWER_DECK \<equiv> 473"
abbreviation (input) P_LOW_LIMIT :: int where "P_LOW_LIMIT \<equiv> 59"
abbreviation (input) P_MACHINE_ROOM_ID :: int where "P_MACHINE_ROOM_ID \<equiv> 474"
abbreviation (input) P_MAC_ADDRESS :: int where "P_MAC_ADDRESS \<equiv> 423"
abbreviation (input) P_MAINTENANCE_REQUIRED :: int where "P_MAINTENANCE_REQUIRED \<equiv> 158"
abbreviation (input) P_MAKING_CAR_CALL :: int where "P_MAKING_CAR_CALL \<equiv> 475"
abbreviation (input) P_MANIPULATED_VARIABLE_REFERENCE :: int where "P_MANIPULATED_VARIABLE_REFERENCE \<equiv> 60"
abbreviation (input) P_MASKED_ALARM_VALUES :: int where "P_MASKED_ALARM_VALUES \<equiv> 234"
abbreviation (input) P_MAXIMUM_OUTPUT :: int where "P_MAXIMUM_OUTPUT \<equiv> 61"
abbreviation (input) P_MAXIMUM_SEND_DELAY :: int where "P_MAXIMUM_SEND_DELAY \<equiv> 503"
abbreviation (input) P_MAXIMUM_VALUE :: int where "P_MAXIMUM_VALUE \<equiv> 135"
abbreviation (input) P_MAXIMUM_VALUE_TIMESTAMP :: int where "P_MAXIMUM_VALUE_TIMESTAMP \<equiv> 149"
abbreviation (input) P_MAX_ACTUAL_VALUE :: int where "P_MAX_ACTUAL_VALUE \<equiv> 382"
abbreviation (input) P_MAX_APDU_LENGTH_ACCEPTED :: int where "P_MAX_APDU_LENGTH_ACCEPTED \<equiv> 62"
abbreviation (input) P_MAX_INFO_FRAMES :: int where "P_MAX_INFO_FRAMES \<equiv> 63"
abbreviation (input) P_MAX_MASTER :: int where "P_MAX_MASTER \<equiv> 64"
abbreviation (input) P_MAX_PRES_VALUE :: int where "P_MAX_PRES_VALUE \<equiv> 65"
abbreviation (input) P_MAX_SEGMENTS_ACCEPTED :: int where "P_MAX_SEGMENTS_ACCEPTED \<equiv> 167"
abbreviation (input) P_MEMBERS :: int where "P_MEMBERS \<equiv> 286"
abbreviation (input) P_MEMBER_OF :: int where "P_MEMBER_OF \<equiv> 159"
abbreviation (input) P_MEMBER_STATUS_FLAGS :: int where "P_MEMBER_STATUS_FLAGS \<equiv> 347"
abbreviation (input) P_MINIMUM_OFF_TIME :: int where "P_MINIMUM_OFF_TIME \<equiv> 66"
abbreviation (input) P_MINIMUM_ON_TIME :: int where "P_MINIMUM_ON_TIME \<equiv> 67"
abbreviation (input) P_MINIMUM_OUTPUT :: int where "P_MINIMUM_OUTPUT \<equiv> 68"
abbreviation (input) P_MINIMUM_VALUE :: int where "P_MINIMUM_VALUE \<equiv> 136"
abbreviation (input) P_MINIMUM_VALUE_TIMESTAMP :: int where "P_MINIMUM_VALUE_TIMESTAMP \<equiv> 150"
abbreviation (input) P_MIN_ACTUAL_VALUE :: int where "P_MIN_ACTUAL_VALUE \<equiv> 383"
abbreviation (input) P_MIN_PRES_VALUE :: int where "P_MIN_PRES_VALUE \<equiv> 69"
abbreviation (input) P_MODE :: int where "P_MODE \<equiv> 160"
abbreviation (input) P_MODEL_NAME :: int where "P_MODEL_NAME \<equiv> 70"
abbreviation (input) P_MODIFICATION_DATE :: int where "P_MODIFICATION_DATE \<equiv> 71"
abbreviation (input) P_MONITORED_OBJECTS :: int where "P_MONITORED_OBJECTS \<equiv> 504"
abbreviation (input) P_NEGATIVE_ACCESS_RULES :: int where "P_NEGATIVE_ACCESS_RULES \<equiv> 288"
abbreviation (input) P_NETWORK_NUMBER :: int where "P_NETWORK_NUMBER \<equiv> 425"
abbreviation (input) P_NETWORK_NUMBER_QUALITY :: int where "P_NETWORK_NUMBER_QUALITY \<equiv> 426"
abbreviation (input) P_NETWORK_TYPE :: int where "P_NETWORK_TYPE \<equiv> 427"
abbreviation (input) P_NEXT_STOPPING_FLOOR :: int where "P_NEXT_STOPPING_FLOOR \<equiv> 476"
abbreviation (input) P_NODE_SUBTYPE :: int where "P_NODE_SUBTYPE \<equiv> 207"
abbreviation (input) P_NODE_TYPE :: int where "P_NODE_TYPE \<equiv> 208"
abbreviation (input) P_NOTIFICATION_CLASS :: int where "P_NOTIFICATION_CLASS \<equiv> 17"
abbreviation (input) P_NOTIFICATION_THRESHOLD :: int where "P_NOTIFICATION_THRESHOLD \<equiv> 137"
abbreviation (input) P_NOTIFY_TYPE :: int where "P_NOTIFY_TYPE \<equiv> 72"
abbreviation (input) P_NUMBER_OF_APDU_RETRIES :: int where "P_NUMBER_OF_APDU_RETRIES \<equiv> 73"
abbreviation (input) P_NUMBER_OF_STATES :: int where "P_NUMBER_OF_STATES \<equiv> 74"
abbreviation (input) P_OBJECT_IDENTIFIER :: int where "P_OBJECT_IDENTIFIER \<equiv> 75"
abbreviation (input) P_OBJECT_LIST :: int where "P_OBJECT_LIST \<equiv> 76"
abbreviation (input) P_OBJECT_NAME :: int where "P_OBJECT_NAME \<equiv> 77"
abbreviation (input) P_OBJECT_PROPERTY_REFERENCE :: int where "P_OBJECT_PROPERTY_REFERENCE \<equiv> 78"
abbreviation (input) P_OBJECT_TYPE :: int where "P_OBJECT_TYPE \<equiv> 79"
abbreviation (input) P_OCCUPANCY_COUNT :: int where "P_OCCUPANCY_COUNT \<equiv> 290"
abbreviation (input) P_OCCUPANCY_COUNT_ADJUST :: int where "P_OCCUPANCY_COUNT_ADJUST \<equiv> 291"
abbreviation (input) P_OCCUPANCY_COUNT_ENABLE :: int where "P_OCCUPANCY_COUNT_ENABLE \<equiv> 292"
abbreviation (input) P_OCCUPANCY_LOWER_LIMIT :: int where "P_OCCUPANCY_LOWER_LIMIT \<equiv> 294"
abbreviation (input) P_OCCUPANCY_LOWER_LIMIT_ENFORCED :: int where "P_OCCUPANCY_LOWER_LIMIT_ENFORCED \<equiv> 295"
abbreviation (input) P_OCCUPANCY_STATE :: int where "P_OCCUPANCY_STATE \<equiv> 296"
abbreviation (input) P_OCCUPANCY_UPPER_LIMIT :: int where "P_OCCUPANCY_UPPER_LIMIT \<equiv> 297"
abbreviation (input) P_OCCUPANCY_UPPER_LIMIT_ENFORCED :: int where "P_OCCUPANCY_UPPER_LIMIT_ENFORCED \<equiv> 298"
abbreviation (input) P_OPERATION_DIRECTION :: int where "P_OPERATION_DIRECTION \<equiv> 477"
abbreviation (input) P_OPERATION_EXPECTED :: int where "P_OPERATION_EXPECTED \<equiv> 161"
abbreviation (input) P_OPTIONAL :: int where "P_OPTIONAL \<equiv> 80"
abbreviation (input) P_OUTPUT_UNITS :: int where "P_OUTPUT_UNITS \<equiv> 82"
abbreviation (input) P_OUT_OF_SERVICE :: int where "P_OUT_OF_SERVICE \<equiv> 81"
abbreviation (input) P_PASSBACK_MODE :: int where "P_PASSBACK_MODE \<equiv> 300"
abbreviation (input) P_PASSBACK_TIMEOUT :: int where "P_PASSBACK_TIMEOUT \<equiv> 301"
abbreviation (input) P_PASSENGER_ALARM :: int where "P_PASSENGER_ALARM \<equiv> 478"
abbreviation (input) P_POLARITY :: int where "P_POLARITY \<equiv> 84"
abbreviation (input) P_PORT_FILTER :: int where "P_PORT_FILTER \<equiv> 363"
abbreviation (input) P_POSITIVE_ACCESS_RULES :: int where "P_POSITIVE_ACCESS_RULES \<equiv> 302"
abbreviation (input) P_POWER :: int where "P_POWER \<equiv> 384"
abbreviation (input) P_POWER_MODE :: int where "P_POWER_MODE \<equiv> 479"
abbreviation (input) P_PRESCALE :: int where "P_PRESCALE \<equiv> 185"
abbreviation (input) P_PRESENT_STAGE :: int where "P_PRESENT_STAGE \<equiv> 493"
abbreviation (input) P_PRESENT_VALUE :: int where "P_PRESENT_VALUE \<equiv> 85"
abbreviation (input) P_PRIORITY :: int where "P_PRIORITY \<equiv> 86"
abbreviation (input) P_PRIORITY_ARRAY :: int where "P_PRIORITY_ARRAY \<equiv> 87"
abbreviation (input) P_PRIORITY_FOR_WRITING :: int where "P_PRIORITY_FOR_WRITING \<equiv> 88"
abbreviation (input) P_PROCESS_IDENTIFIER_FILTER :: int where "P_PROCESS_IDENTIFIER_FILTER \<equiv> 361"
abbreviation (input) P_PROFILE_LOCATION :: int where "P_PROFILE_LOCATION \<equiv> 485"
abbreviation (input) P_PROFILE_NAME :: int where "P_PROFILE_NAME \<equiv> 168"
abbreviation (input) P_PROGRAM_CHANGE :: int where "P_PROGRAM_CHANGE \<equiv> 90"
abbreviation (input) P_PROGRAM_LOCATION :: int where "P_PROGRAM_LOCATION \<equiv> 91"
abbreviation (input) P_PROGRAM_STATE :: int where "P_PROGRAM_STATE \<equiv> 92"
abbreviation (input) P_PROPERTY_LIST :: int where "P_PROPERTY_LIST \<equiv> 371"
abbreviation (input) P_PROPORTIONAL_CONSTANT :: int where "P_PROPORTIONAL_CONSTANT \<equiv> 93"
abbreviation (input) P_PROPORTIONAL_CONSTANT_UNITS :: int where "P_PROPORTIONAL_CONSTANT_UNITS \<equiv> 94"
abbreviation (input) P_PROTOCOL_LEVEL :: int where "P_PROTOCOL_LEVEL \<equiv> 482"
abbreviation (input) P_PROTOCOL_OBJECT_TYPES_SUPPORTED :: int where "P_PROTOCOL_OBJECT_TYPES_SUPPORTED \<equiv> 96"
abbreviation (input) P_PROTOCOL_REVISION :: int where "P_PROTOCOL_REVISION \<equiv> 139"
abbreviation (input) P_PROTOCOL_SERVICES_SUPPORTED :: int where "P_PROTOCOL_SERVICES_SUPPORTED \<equiv> 97"
abbreviation (input) P_PROTOCOL_VERSION :: int where "P_PROTOCOL_VERSION \<equiv> 98"
abbreviation (input) P_PULSE_RATE :: int where "P_PULSE_RATE \<equiv> 186"
abbreviation (input) P_READ_ONLY :: int where "P_READ_ONLY \<equiv> 99"
abbreviation (input) P_REASON_FOR_HALT :: int where "P_REASON_FOR_HALT \<equiv> 100"
abbreviation (input) P_RECIPIENT_LIST :: int where "P_RECIPIENT_LIST \<equiv> 102"
abbreviation (input) P_RECORDS_SINCE_NOTIFICATION :: int where "P_RECORDS_SINCE_NOTIFICATION \<equiv> 140"
abbreviation (input) P_RECORD_COUNT :: int where "P_RECORD_COUNT \<equiv> 141"
abbreviation (input) P_REGISTERED_CAR_CALL :: int where "P_REGISTERED_CAR_CALL \<equiv> 480"
abbreviation (input) P_RELIABILITY :: int where "P_RELIABILITY \<equiv> 103"
abbreviation (input) P_RELIABILITY_EVALUATION_INHIBIT :: int where "P_RELIABILITY_EVALUATION_INHIBIT \<equiv> 357"
abbreviation (input) P_RELINQUISH_DEFAULT :: int where "P_RELINQUISH_DEFAULT \<equiv> 104"
abbreviation (input) P_REQUESTED_SHED_LEVEL :: int where "P_REQUESTED_SHED_LEVEL \<equiv> 218"
abbreviation (input) P_REQUESTED_UPDATE_INTERVAL :: int where "P_REQUESTED_UPDATE_INTERVAL \<equiv> 348"
abbreviation (input) P_REQUIRED :: int where "P_REQUIRED \<equiv> 105"
abbreviation (input) P_RESOLUTION :: int where "P_RESOLUTION \<equiv> 106"
abbreviation (input) P_RESTORE_COMPLETION_TIME :: int where "P_RESTORE_COMPLETION_TIME \<equiv> 340"
abbreviation (input) P_RESTORE_PREPARATION_TIME :: int where "P_RESTORE_PREPARATION_TIME \<equiv> 341"
abbreviation (input) P_SCALE :: int where "P_SCALE \<equiv> 187"
abbreviation (input) P_SCALE_FACTOR :: int where "P_SCALE_FACTOR \<equiv> 188"
abbreviation (input) P_SCHEDULE_DEFAULT :: int where "P_SCHEDULE_DEFAULT \<equiv> 174"
abbreviation (input) P_SECURED_STATUS :: int where "P_SECURED_STATUS \<equiv> 235"
abbreviation (input) P_SEGMENTATION_SUPPORTED :: int where "P_SEGMENTATION_SUPPORTED \<equiv> 107"
abbreviation (input) P_SETPOINT :: int where "P_SETPOINT \<equiv> 108"
abbreviation (input) P_SETPOINT_REFERENCE :: int where "P_SETPOINT_REFERENCE \<equiv> 109"
abbreviation (input) P_SETTING :: int where "P_SETTING \<equiv> 162"
abbreviation (input) P_SHED_DURATION :: int where "P_SHED_DURATION \<equiv> 219"
abbreviation (input) P_SHED_LEVELS :: int where "P_SHED_LEVELS \<equiv> 221"
abbreviation (input) P_SHED_LEVEL_DESCRIPTIONS :: int where "P_SHED_LEVEL_DESCRIPTIONS \<equiv> 220"
abbreviation (input) P_SILENCED :: int where "P_SILENCED \<equiv> 163"
abbreviation (input) P_STAGES :: int where "P_STAGES \<equiv> 494"
abbreviation (input) P_STAGE_NAMES :: int where "P_STAGE_NAMES \<equiv> 495"
abbreviation (input) P_START_TIME :: int where "P_START_TIME \<equiv> 142"
abbreviation (input) P_STATE_CHANGE_VALUES :: int where "P_STATE_CHANGE_VALUES \<equiv> 396"
abbreviation (input) P_STATE_DESCRIPTION :: int where "P_STATE_DESCRIPTION \<equiv> 222"
abbreviation (input) P_STATE_TEXT :: int where "P_STATE_TEXT \<equiv> 110"
abbreviation (input) P_STATUS_FLAGS :: int where "P_STATUS_FLAGS \<equiv> 111"
abbreviation (input) P_STOP_TIME :: int where "P_STOP_TIME \<equiv> 143"
abbreviation (input) P_STOP_WHEN_FULL :: int where "P_STOP_WHEN_FULL \<equiv> 144"
abbreviation (input) P_SUBORDINATE_ANNOTATIONS :: int where "P_SUBORDINATE_ANNOTATIONS \<equiv> 210"
abbreviation (input) P_SUBORDINATE_LIST :: int where "P_SUBORDINATE_LIST \<equiv> 211"
abbreviation (input) P_SUBSCRIBED_RECIPIENTS :: int where "P_SUBSCRIBED_RECIPIENTS \<equiv> 362"
abbreviation (input) P_SUPPORTED_FORMATS :: int where "P_SUPPORTED_FORMATS \<equiv> 304"
abbreviation (input) P_SUPPORTED_FORMAT_CLASSES :: int where "P_SUPPORTED_FORMAT_CLASSES \<equiv> 305"
abbreviation (input) P_SYSTEM_STATUS :: int where "P_SYSTEM_STATUS \<equiv> 112"
abbreviation (input) P_TAGS :: int where "P_TAGS \<equiv> 486"
abbreviation (input) P_TARGET_REFERENCES :: int where "P_TARGET_REFERENCES \<equiv> 496"
abbreviation (input) P_TIMER_RUNNING :: int where "P_TIMER_RUNNING \<equiv> 397"
abbreviation (input) P_TIMER_STATE :: int where "P_TIMER_STATE \<equiv> 398"
abbreviation (input) P_TIME_DELAY :: int where "P_TIME_DELAY \<equiv> 113"
abbreviation (input) P_TIME_DELAY_NORMAL :: int where "P_TIME_DELAY_NORMAL \<equiv> 356"
abbreviation (input) P_TOTAL_RECORD_COUNT :: int where "P_TOTAL_RECORD_COUNT \<equiv> 145"
abbreviation (input) P_TRACKING_VALUE :: int where "P_TRACKING_VALUE \<equiv> 164"
abbreviation (input) P_TRANSACTION_NOTIFICATION_CLASS :: int where "P_TRANSACTION_NOTIFICATION_CLASS \<equiv> 309"
abbreviation (input) P_TRANSITION :: int where "P_TRANSITION \<equiv> 385"
abbreviation (input) P_TRIGGER :: int where "P_TRIGGER \<equiv> 205"
abbreviation (input) P_UNITS :: int where "P_UNITS \<equiv> 117"
abbreviation (input) P_UPDATE_INTERVAL :: int where "P_UPDATE_INTERVAL \<equiv> 118"
abbreviation (input) P_UPDATE_TIME :: int where "P_UPDATE_TIME \<equiv> 189"
abbreviation (input) P_USER_EXTERNAL_IDENTIFIER :: int where "P_USER_EXTERNAL_IDENTIFIER \<equiv> 310"
abbreviation (input) P_USER_INFORMATION_REFERENCE :: int where "P_USER_INFORMATION_REFERENCE \<equiv> 311"
abbreviation (input) P_USER_NAME :: int where "P_USER_NAME \<equiv> 317"
abbreviation (input) P_USER_TYPE :: int where "P_USER_TYPE \<equiv> 318"
abbreviation (input) P_USES_REMAINING :: int where "P_USES_REMAINING \<equiv> 319"
abbreviation (input) P_VALID_SAMPLES :: int where "P_VALID_SAMPLES \<equiv> 146"
abbreviation (input) P_VALUE_BEFORE_CHANGE :: int where "P_VALUE_BEFORE_CHANGE \<equiv> 190"
abbreviation (input) P_VALUE_CHANGE_TIME :: int where "P_VALUE_CHANGE_TIME \<equiv> 192"
abbreviation (input) P_VALUE_SET :: int where "P_VALUE_SET \<equiv> 191"
abbreviation (input) P_VALUE_SOURCE :: int where "P_VALUE_SOURCE \<equiv> 433"
abbreviation (input) P_VALUE_SOURCE_ARRAY :: int where "P_VALUE_SOURCE_ARRAY \<equiv> 434"
abbreviation (input) P_VARIANCE_VALUE :: int where "P_VARIANCE_VALUE \<equiv> 151"
abbreviation (input) P_VENDOR_IDENTIFIER :: int where "P_VENDOR_IDENTIFIER \<equiv> 120"
abbreviation (input) P_VENDOR_NAME :: int where "P_VENDOR_NAME \<equiv> 121"
abbreviation (input) P_VERIFICATION_TIME :: int where "P_VERIFICATION_TIME \<equiv> 326"
abbreviation (input) P_VIRTUAL_MAC_ADDRESS_TABLE :: int where "P_VIRTUAL_MAC_ADDRESS_TABLE \<equiv> 429"
abbreviation (input) P_VT_CLASSES_SUPPORTED :: int where "P_VT_CLASSES_SUPPORTED \<equiv> 122"
abbreviation (input) P_WEEKLY_SCHEDULE :: int where "P_WEEKLY_SCHEDULE \<equiv> 123"
abbreviation (input) P_WINDOW_INTERVAL :: int where "P_WINDOW_INTERVAL \<equiv> 147"
abbreviation (input) P_WINDOW_SAMPLES :: int where "P_WINDOW_SAMPLES \<equiv> 148"
abbreviation (input) P_WRITE_STATUS :: int where "P_WRITE_STATUS \<equiv> 370"
abbreviation (input) P_ZONE_MEMBERS :: int where "P_ZONE_MEMBERS \<equiv> 165"

text \<open>\<open>ObjectType\<close>\<close>

abbreviation (input) OT_ANALOG_INPUT :: int where "OT_ANALOG_INPUT \<equiv> 0"
abbreviation (input) OT_ANALOG_OUTPUT :: int where "OT_ANALOG_OUTPUT \<equiv> 1"
abbreviation (input) OT_ANALOG_VALUE :: int where "OT_ANALOG_VALUE \<equiv> 2"
abbreviation (input) OT_BINARY_INPUT :: int where "OT_BINARY_INPUT \<equiv> 3"
abbreviation (input) OT_BINARY_OUTPUT :: int where "OT_BINARY_OUTPUT \<equiv> 4"
abbreviation (input) OT_BINARY_VALUE :: int where "OT_BINARY_VALUE \<equiv> 5"
abbreviation (input) OT_CALENDAR :: int where "OT_CALENDAR \<equiv> 6"
abbreviation (input) OT_COMMAND :: int where "OT_COMMAND \<equiv> 7"
abbreviation (input) OT_DEVICE :: int where "OT_DEVICE \<equiv> 8"
abbreviation (input) OT_EVENT_ENROLLMENT :: int where "OT_EVENT_ENROLLMENT \<equiv> 9"
abbreviation (input) OT_FILE :: int where "OT_FILE \<equiv> 10"
abbreviation (input) OT_GROUP :: int where "OT_GROUP \<equiv> 11"
abbreviation (input) OT_LOOP :: int where "OT_LOOP \<equiv> 12"
abbreviation (input) OT_MULTI_STATE_INPUT :: int where "OT_MULTI_STATE_INPUT \<equiv> 13"
abbreviation (input) OT_MULTI_STATE_OUTPUT :: int where "OT_MULTI_STATE_OUTPUT \<equiv> 14"
abbreviation (input) OT_NOTIFICATION_CLASS :: int where "OT_NOTIFICATION_CLASS \<equiv> 15"
abbreviation (input) OT_PROGRAM :: int where "OT_PROGRAM \<equiv> 16"
abbreviation (input) OT_SCHEDULE :: int where "OT_SCHEDULE \<equiv> 17"
abbreviation (input) OT_AVERAGING :: int where "OT_AVERAGING \<equiv> 18"
abbreviation (input) OT_MULTI_STATE_VALUE :: int where "OT_MULTI_STATE_VALUE \<equiv> 19"
abbreviation (input) OT_TREND_LOG :: int where "OT_TREND_LOG \<equiv> 20"
abbreviation (input) OT_LIFE_SAFETY_POINT :: int where "OT_LIFE_SAFETY_POINT \<equiv> 21"
abbreviation (input) OT_LIFE_SAFETY_ZONE :: int where "OT_LIFE_SAFETY_ZONE \<equiv> 22"
abbreviation (input) OT_ACCUMULATOR :: int where "OT_ACCUMULATOR \<equiv> 23"
abbreviation (input) OT_PULSE_CONVERTER :: int where "OT_PULSE_CONVERTER \<equiv> 24"
abbreviation (input) OT_EVENT_LOG :: int where "OT_EVENT_LOG \<equiv> 25"
abbreviation (input) OT_GLOBAL_GROUP :: int where "OT_GLOBAL_GROUP \<equiv> 26"
abbreviation (input) OT_TREND_LOG_MULTIPLE :: int where "OT_TREND_LOG_MULTIPLE \<equiv> 27"
abbreviation (input) OT_LOAD_CONTROL :: int where "OT_LOAD_CONTROL \<equiv> 28"
abbreviation (input) OT_STRUCTURED_VIEW :: int where "OT_STRUCTURED_VIEW \<equiv> 29"
abbreviation (input) OT_ACCESS_DOOR :: int where "OT_ACCESS_DOOR \<equiv> 30"
abbreviation (input) OT_TIMER :: int where "OT_TIMER \<equiv> 31"
abbreviation (input) OT_ACCESS_CREDENTIAL :: int where "OT_ACCESS_CREDENTIAL \<equiv> 32"
abbreviation (input) OT_ACCESS_POINT :: int where "OT_ACCESS_POINT \<equiv> 33"
abbreviation (input) OT_ACCESS_RIGHTS :: int where "OT_ACCESS_RIGHTS \<equiv> 34"
abbreviation (input) OT_ACCESS_USER :: int where "OT_ACCESS_USER \<equiv> 35"
abbreviation (input) OT_ACCESS_ZONE :: int where "OT_ACCESS_ZONE \<equiv> 36"
abbreviation (input) OT_CREDENTIAL_DATA_INPUT :: int where "OT_CREDENTIAL_DATA_INPUT \<equiv> 37"
abbreviation (input) OT_NETWORK_SECURITY :: int where "OT_NETWORK_SECURITY \<equiv> 38"
abbreviation (input) OT_BITSTRING_VALUE :: int where "OT_BITSTRING_VALUE \<equiv> 39"
abbreviation (input) OT_CHARACTERSTRING_VALUE :: int where "OT_CHARACTERSTRING_VALUE \<equiv> 40"
abbreviation (input) OT_DATEPATTERN_VALUE :: int where "OT_DATEPATTERN_VALUE \<equiv> 41"
abbreviation (input) OT_DATE_VALUE :: int where "OT_DATE_VALUE \<equiv> 42"
abbreviation (input) OT_DATETIMEPATTERN_VALUE :: int where "OT_DATETIMEPATTERN_VALUE \<equiv> 43"
abbreviation (input) OT_DATETIME_VALUE :: int where "OT_DATETIME_VALUE \<equiv> 44"
abbreviation (input) OT_INTEGER_VALUE :: int where "OT_INTEGER_VALUE \<equiv> 45"
abbreviation (input) OT_LARGE_ANALOG_VALUE :: int where "OT_LARGE_ANALOG_VALUE \<equiv> 46"
abbreviation (input) OT_OCTETSTRING_VALUE :: int where "OT_OCTETSTRING_VALUE \<equiv> 47"
abbreviation (input) OT_POSITIVE_INTEGER_VALUE :: int where "OT_POSITIVE_INTEGER_VALUE \<equiv> 48"
abbreviation (input) OT_TIMEPATTERN_VALUE :: int where "OT_TIMEPATTERN_VALUE \<equiv> 49"
abbreviation (input) OT_TIME_VALUE :: int where "OT_TIME_VALUE \<equiv> 50"
abbreviation (input) OT_NOTIFICATION_FORWARDER :: int where "OT_NOTIFICATION_FORWARDER \<equiv> 51"
abbreviation (input) OT_ALERT_ENROLLMENT :: int where "OT_ALERT_ENROLLMENT \<equiv> 52"
abbreviation (input) OT_CHANNEL :: int where "OT_CHANNEL \<equiv> 53"
abbreviation (input) OT_LIGHTING_OUTPUT :: int where "OT_LIGHTING_OUTPUT \<equiv> 54"
abbreviation (input) OT_BINARY_LIGHTING_OUTPUT :: int where "OT_BINARY_LIGHTING_OUTPUT \<equiv> 55"
abbreviation (input) OT_NETWORK_PORT :: int where "OT_NETWORK_PORT \<equiv> 56"
abbreviation (input) OT_ELEVATOR_GROUP :: int where "OT_ELEVATOR_GROUP \<equiv> 57"
abbreviation (input) OT_ESCALATOR :: int where "OT_ESCALATOR \<equiv> 58"
abbreviation (input) OT_LIFT :: int where "OT_LIFT \<equiv> 59"
abbreviation (input) OT_STAGING :: int where "OT_STAGING \<equiv> 60"
abbreviation (input) OT_AUDIT_REPORTER :: int where "OT_AUDIT_REPORTER \<equiv> 61"
abbreviation (input) OT_AUDIT_LOG :: int where "OT_AUDIT_LOG \<equiv> 62"

text \<open>\<open>EventState\<close>\<close>

abbreviation (input) EV_NORMAL :: int where "EV_NORMAL \<equiv> 0"
abbreviation (input) EV_FAULT :: int where "EV_FAULT \<equiv> 1"
abbreviation (input) EV_OFFNORMAL :: int where "EV_OFFNORMAL \<equiv> 2"
abbreviation (input) EV_HIGH_LIMIT :: int where "EV_HIGH_LIMIT \<equiv> 3"
abbreviation (input) EV_LOW_LIMIT :: int where "EV_LOW_LIMIT \<equiv> 4"
abbreviation (input) EV_LIFE_SAFETY_ALARM :: int where "EV_LIFE_SAFETY_ALARM \<equiv> 5"

text \<open>\<open>EventType\<close>\<close>

abbreviation (input) ET_CHANGE_OF_BITSTRING :: int where "ET_CHANGE_OF_BITSTRING \<equiv> 0"
abbreviation (input) ET_CHANGE_OF_STATE :: int where "ET_CHANGE_OF_STATE \<equiv> 1"
abbreviation (input) ET_CHANGE_OF_VALUE :: int where "ET_CHANGE_OF_VALUE \<equiv> 2"
abbreviation (input) ET_COMMAND_FAILURE :: int where "ET_COMMAND_FAILURE \<equiv> 3"
abbreviation (input) ET_FLOATING_LIMIT :: int where "ET_FLOATING_LIMIT \<equiv> 4"
abbreviation (input) ET_OUT_OF_RANGE :: int where "ET_OUT_OF_RANGE \<equiv> 5"
abbreviation (input) ET_CHANGE_OF_LIFE_SAFETY :: int where "ET_CHANGE_OF_LIFE_SAFETY \<equiv> 8"
abbreviation (input) ET_EXTENDED :: int where "ET_EXTENDED \<equiv> 9"
abbreviation (input) ET_BUFFER_READY :: int where "ET_BUFFER_READY \<equiv> 10"
abbreviation (input) ET_UNSIGNED_RANGE :: int where "ET_UNSIGNED_RANGE \<equiv> 11"
abbreviation (input) ET_ACCESS_EVENT :: int where "ET_ACCESS_EVENT \<equiv> 13"
abbreviation (input) ET_DOUBLE_OUT_OF_RANGE :: int where "ET_DOUBLE_OUT_OF_RANGE \<equiv> 14"
abbreviation (input) ET_SIGNED_OUT_OF_RANGE :: int where "ET_SIGNED_OUT_OF_RANGE \<equiv> 15"
abbreviation (input) ET_UNSIGNED_OUT_OF_RANGE :: int where "ET_UNSIGNED_OUT_OF_RANGE \<equiv> 16"
abbreviation (input) ET_CHANGE_OF_CHARACTERSTRING :: int where "ET_CHANGE_OF_CHARACTERSTRING \<equiv> 17"
abbreviation (input) ET_CHANGE_OF_STATUS_FLAGS :: int where "ET_CHANGE_OF_STATUS_FLAGS \<equiv> 18"
abbreviation (input) ET_CHANGE_OF_RELIABILITY :: int where "ET_CHANGE_OF_RELIABILITY \<equiv> 19"
abbreviation (input) ET_NONE :: int where "ET_NONE \<equiv> 20"
abbreviation (input) ET_CHANGE_OF_DISCRETE_VALUE :: int where "ET_CHANGE_OF_DISCRETE_VALUE \<equiv> 21"
abbreviation (input) ET_CHANGE_OF_TIMER :: int where "ET_CHANGE_OF_TIMER \<equiv> 22"

text \<open>\<open>Reliability\<close>\<close>

abbreviation (input) REL_NO_FAULT_DETECTED :: int where "REL_NO_FAULT_DETECTED \<equiv> 0"
abbreviation (input) REL_NO_SENSOR :: int where "REL_NO_SENSOR \<equiv> 1"
abbreviation (input) REL_OVER_RANGE :: int where "REL_OVER_RANGE \<equiv> 2"
abbreviation (input) REL_UNDER_RANGE :: int where "REL_UNDER_RANGE \<equiv> 3"
abbreviation (input) REL_OPEN_LOOP :: int where "REL_OPEN_LOOP \<equiv> 4"
abbreviation (input) REL_SHORTED_LOOP :: int where "REL_SHORTED_LOOP \<equiv> 5"
abbreviation (input) REL_NO_OUTPUT :: int where "REL_NO_OUTPUT \<equiv> 6"
abbreviation (input) REL_UNRELIABLE_OTHER :: int where "REL_UNRELIABLE_OTHER \<equiv> 7"
abbreviation (input) REL_PROCESS_ERROR :: int where "REL_PROCESS_ERROR \<equiv> 8"
abbreviation (input) REL_MULTI_STATE_FAULT :: int where "REL_MULTI_STATE_FAULT \<equiv> 9"
abbreviation (input) REL_CONFIGURATION_ERROR :: int where "REL_CONFIGURATION_ERROR \<equiv> 10"
abbreviation (input) REL_COMMUNICATION_FAILURE :: int where "REL_COMMUNICATION_FAILURE \<equiv> 12"
abbreviation (input) REL_MEMBER_FAULT :: int where "REL_MEMBER_FAULT \<equiv> 13"
abbreviation (input) REL_MONITORED_OBJECT_FAULT :: int where "REL_MONITORED_OBJECT_FAULT \<equiv> 14"
abbreviation (input) REL_TRIPPED :: int where "REL_TRIPPED \<equiv> 15"
abbreviation (input) REL_LAMP_FAILURE :: int where "REL_LAMP_FAILURE \<equiv> 16"
abbreviation (input) REL_ACTIVATION_FAILURE :: int where "REL_ACTIVATION_FAILURE \<equiv> 17"
abbreviation (input) REL_RENEW_DHCP_FAILURE :: int where "REL_RENEW_DHCP_FAILURE \<equiv> 18"
abbreviation (input) REL_RENEW_FD_REGISTRATION_FAILURE :: int where "REL_RENEW_FD_REGISTRATION_FAILURE \<equiv> 19"
abbreviation (input) REL_RESTART_AUTO_NEGOTIATION_FAILURE :: int where "REL_RESTART_AUTO_NEGOTIATION_FAILURE \<equiv> 20"
abbreviation (input) REL_RESTART_FAILURE :: int where "REL_RESTART_FAILURE \<equiv> 21"
abbreviation (input) REL_PROPRIETARY_COMMAND_FAILURE :: int where "REL_PROPRIETARY_COMMAND_FAILURE \<equiv> 22"
abbreviation (input) REL_FAULTS_LISTED :: int where "REL_FAULTS_LISTED \<equiv> 23"
abbreviation (input) REL_REFERENCED_OBJECT_FAULT :: int where "REL_REFERENCED_OBJECT_FAULT \<equiv> 24"

text \<open>\<open>ErrorCode\<close>\<close>

abbreviation (input) CODE_DUPLICATE_NAME :: int where "CODE_DUPLICATE_NAME \<equiv> 48"
abbreviation (input) CODE_FILE_ACCESS_DENIED :: int where "CODE_FILE_ACCESS_DENIED \<equiv> 5"
abbreviation (input) CODE_INCONSISTENT_OBJECT_TYPE :: int where "CODE_INCONSISTENT_OBJECT_TYPE \<equiv> 130"
abbreviation (input) CODE_INVALID_ARRAY_INDEX :: int where "CODE_INVALID_ARRAY_INDEX \<equiv> 42"
abbreviation (input) CODE_INVALID_DATA_TYPE :: int where "CODE_INVALID_DATA_TYPE \<equiv> 9"
abbreviation (input) CODE_INVALID_FILE_ACCESS_METHOD :: int where "CODE_INVALID_FILE_ACCESS_METHOD \<equiv> 10"
abbreviation (input) CODE_MISSING_REQUIRED_PARAMETER :: int where "CODE_MISSING_REQUIRED_PARAMETER \<equiv> 16"
abbreviation (input) CODE_NO_SPACE_TO_ADD_LIST_ELEMENT :: int where "CODE_NO_SPACE_TO_ADD_LIST_ELEMENT \<equiv> 19"
abbreviation (input) CODE_NO_VT_SESSIONS_AVAILABLE :: int where "CODE_NO_VT_SESSIONS_AVAILABLE \<equiv> 21"
abbreviation (input) CODE_OBJECT_DELETION_NOT_PERMITTED :: int where "CODE_OBJECT_DELETION_NOT_PERMITTED \<equiv> 23"
abbreviation (input) CODE_OBJECT_IDENTIFIER_ALREADY_EXISTS :: int where "CODE_OBJECT_IDENTIFIER_ALREADY_EXISTS \<equiv> 24"
abbreviation (input) CODE_OTHER :: int where "CODE_OTHER \<equiv> 0"
abbreviation (input) CODE_PARAMETER_OUT_OF_RANGE :: int where "CODE_PARAMETER_OUT_OF_RANGE \<equiv> 80"
abbreviation (input) CODE_PASSWORD_FAILURE :: int where "CODE_PASSWORD_FAILURE \<equiv> 26"
abbreviation (input) CODE_PROPERTY_IS_NOT_AN_ARRAY :: int where "CODE_PROPERTY_IS_NOT_AN_ARRAY \<equiv> 50"
abbreviation (input) CODE_PROPERTY_IS_NOT_A_LIST :: int where "CODE_PROPERTY_IS_NOT_A_LIST \<equiv> 22"
abbreviation (input) CODE_SERVICE_REQUEST_DENIED :: int where "CODE_SERVICE_REQUEST_DENIED \<equiv> 29"
abbreviation (input) CODE_UNKNOWN_OBJECT :: int where "CODE_UNKNOWN_OBJECT \<equiv> 31"
abbreviation (input) CODE_UNKNOWN_PROPERTY :: int where "CODE_UNKNOWN_PROPERTY \<equiv> 32"
abbreviation (input) CODE_UNKNOWN_VT_CLASS :: int where "CODE_UNKNOWN_VT_CLASS \<equiv> 34"
abbreviation (input) CODE_UNKNOWN_VT_SESSION :: int where "CODE_UNKNOWN_VT_SESSION \<equiv> 35"
abbreviation (input) CODE_UNSUPPORTED_OBJECT_TYPE :: int where "CODE_UNSUPPORTED_OBJECT_TYPE \<equiv> 36"
abbreviation (input) CODE_VALUE_NOT_INITIALIZED :: int where "CODE_VALUE_NOT_INITIALIZED \<equiv> 72"
abbreviation (input) CODE_VALUE_OUT_OF_RANGE :: int where "CODE_VALUE_OUT_OF_RANGE \<equiv> 37"
abbreviation (input) CODE_WRITE_ACCESS_DENIED :: int where "CODE_WRITE_ACCESS_DENIED \<equiv> 40"

end
