(* ===== verification/Values.thy ===== *)
theory Values
  imports Numbers Enums Errors Bacnet_Types
begin

text \<open>
  The Python values that properties hold and services carry: \<open>None\<close>, numbers, members of an
  \<open>IntEnum\<close>, strings, octets, the primitive BACnet types, lists and tuples, and the dataclasses of
  \<open>types/constructed.py\<close> that the engines look into; a dict has string keys.  \<open>py_eq\<close> is \<open>==\<close>, \<open>truthy\<close> is \<open>bool()\<close>,
  \<open>as_number\<close> is \<open>isinstance(v, (int, float))\<close> with the number.
\<close>

section \<open>Values\<close>

record status_flags =
  in_alarm :: bool
  fault :: bool
  overridden :: bool
  out_of_service :: bool

definition NORMAL_STATUS_FLAGS :: status_flags where
  "NORMAL_STATUS_FLAGS =
     \<lparr>in_alarm = False, fault = False, overridden = False, out_of_service = False\<rparr>"

text \<open>
  \<open>BACnetDestination\<close> with its recipient, a device or an address: the \<open>BACnetAddress\<close> of
  \<open>network/address.py\<close>, which can be sent to, or that of \<open>types/constructed.py\<close>, which can be encoded.
\<close>

datatype address_value = Network_address "int option" bytes | Recipient_address int bytes

record destination =
  valid_days :: bit_string
  from_time :: bacnet_time
  to_time :: bacnet_time
  recipient_device :: "object_identifier option"
  recipient_address :: "address_value option"
  dest_process :: int
  issue_confirmed_notifications :: bool
  dest_transitions :: bit_string

datatype py_obj =
    ONone | OBool bool | OInt int | OEnum enum_class int | OFloat py_float | ODouble py_float
  | OStr "int list" | OBytes bytes | OBits bit_string | ODate bacnet_date | OTime bacnet_time
  | OOid object_identifier | OFlags status_flags | OList "py_obj list" | OTuple "py_obj list"
  | ODateTime bacnet_date bacnet_time | ODateRange bacnet_date bacnet_date
  | OWeekNDay int int int | OCalendarEntry py_obj | OTimeValue bacnet_time py_obj
  | OSpecialEvent py_obj "py_obj list" int | OPropertyRef object_identifier int "int option"
  | ODevicePropertyRef object_identifier int "int option" "object_identifier option"
  | OScale "py_float option" "int option" | OValueSource int py_obj | OTimeStamp int py_obj
  | ODict "(string \<times> py_obj) list" | ODestination destination

text \<open>\<open>BACnetValueSource.none_source()\<close>\<close>

definition none_source :: py_obj where
  "none_source = OValueSource 0 ONone"

definition to_bit_string :: "status_flags \<Rightarrow> bit_string" where
  "to_bit_string f =
     \<lparr>bs_data = [byte_of (push_bit 4 (push_bit 3 (of_bool (in_alarm f)) OR push_bit 2 (of_bool (fault f))
         OR push_bit 1 (of_bool (overridden f)) OR of_bool (out_of_service f)))],
      unused_bits = 4\<rparr>"

section \<open>Tests on values\<close>

fun as_number :: "py_obj \<Rightarrow> py_number option" where
  "as_number (OBool b) = Some (I (of_bool b))"
| "as_number (OInt n) = Some (I n)"
| "as_number (OEnum c n) = Some (I n)"
| "as_number (OFloat x) = Some (F x)"
| "as_number (ODouble x) = Some (F x)"
| "as_number v = None"

fun as_int :: "py_obj \<Rightarrow> int option" where
  "as_int (OBool b) = Some (of_bool b)"
| "as_int (OInt n) = Some n"
| "as_int (OEnum c n) = Some n"
| "as_int v = None"

fun as_list :: "py_obj \<Rightarrow> py_obj list option" where
  "as_list (OList xs) = Some xs"
| "as_list v = None"

text \<open>\<open>isinstance(v, (list, tuple))\<close>\<close>

fun as_sequence :: "py_obj \<Rightarrow> py_obj list option" where
  "as_sequence (OList xs) = Some xs"
| "as_sequence (OTuple xs) = Some xs"
| "as_sequence v = None"

definition num_zero :: "py_number \<Rightarrow> bool" where
  "num_zero a = num_eq a (I 0)"

fun truthy :: "py_obj \<Rightarrow> bool" where
  "truthy ONone = False"
| "truthy (OStr s) = (s \<noteq> [])"
| "truthy (OBytes b) = (b \<noteq> [])"
| "truthy (OBits b) = (bs_len b \<noteq> 0)"
| "truthy (OList xs) = (xs \<noteq> [])"
| "truthy (OTuple xs) = (xs \<noteq> [])"
| "truthy (ODict xs) = (xs \<noteq> [])"
| "truthy v = (case as_number v of None \<Rightarrow> True | Some a \<Rightarrow> \<not> num_zero a)"

fun py_eq :: "py_obj \<Rightarrow> py_obj \<Rightarrow> bool"
  and py_eqs :: "py_obj list \<Rightarrow> py_obj list \<Rightarrow> bool"
  and py_eqd :: "(string \<times> py_obj) list \<Rightarrow> (string \<times> py_obj) list \<Rightarrow> bool" where
  "py_eq (OList xs) w = (case w of OList ys \<Rightarrow> py_eqs xs ys | _ \<Rightarrow> False)"
| "py_eq (OTuple xs) w = (case w of OTuple ys \<Rightarrow> py_eqs xs ys | _ \<Rightarrow> False)"
| "py_eq (OCalendarEntry v) w = (case w of OCalendarEntry v' \<Rightarrow> py_eq v v' | _ \<Rightarrow> False)"
| "py_eq (OTimeValue t v) w = (case w of OTimeValue t' v' \<Rightarrow> t = t' \<and> py_eq v v' | _ \<Rightarrow> False)"
| "py_eq (OSpecialEvent v xs p) w =
     (case w of OSpecialEvent v' ys q \<Rightarrow> py_eq v v' \<and> py_eqs xs ys \<and> p = q | _ \<Rightarrow> False)"
| "py_eq (OValueSource c v) w = (case w of OValueSource c' v' \<Rightarrow> c = c' \<and> py_eq v v' | _ \<Rightarrow> False)"
| "py_eq (OTimeStamp c v) w = (case w of OTimeStamp c' v' \<Rightarrow> c = c' \<and> py_eq v v' | _ \<Rightarrow> False)"
| "py_eq (ODict xs) w = (case w of ODict ys \<Rightarrow> length xs = length ys \<and> py_eqd xs ys | _ \<Rightarrow> False)"
| "py_eq v w =
     (case as_number v of Some a \<Rightarrow> (case as_number w of Some b \<Rightarrow> num_eq a b | None \<Rightarrow> False)
      | None \<Rightarrow> v = w)"
| "py_eqs [] ys = (ys = [])"
| "py_eqs (x # xs) ys = (case ys of [] \<Rightarrow> False | y # ys \<Rightarrow> py_eq x y \<and> py_eqs xs ys)"
| "py_eqd [] ys = True"
| "py_eqd ((k, x) # xs) ys = (case map_of ys k of None \<Rightarrow> False | Some y \<Rightarrow> py_eq x y \<and> py_eqd xs ys)"

section \<open>Comparisons that can raise\<close>

text \<open>\<open>v < w\<close> and \<open>v > w\<close> where \<open>w\<close> is a number: TypeError unless \<open>v\<close> is a number.\<close>

definition obj_less :: "py_obj \<Rightarrow> py_obj \<Rightarrow> py_error + bool" where
  "obj_less v w = (case (as_number v, as_number w) of
     (Some a, Some b) \<Rightarrow> Inr (a < b) | _ \<Rightarrow> Inl TypeError)"

text \<open>\<open>float(v)\<close> and \<open>int(v)\<close>; strings are left out and raise, as text that is no number does.\<close>

definition float_obj :: "py_obj \<Rightarrow> py_error + py_float" where
  "float_obj v = (case v of OStr s \<Rightarrow> Inl ValueError
     | _ \<Rightarrow> (case as_number v of Some a \<Rightarrow> float_of a | None \<Rightarrow> Inl TypeError))"

definition int_obj :: "py_obj \<Rightarrow> py_error + int" where
  "int_obj v = (case v of OStr s \<Rightarrow> Inl ValueError
     | _ \<Rightarrow> (case as_number v of Some a \<Rightarrow> int_of a | None \<Rightarrow> Inl TypeError))"

section \<open>Laws\<close>

lemma as_int_number: "as_int v = Some n \<Longrightarrow> as_number v = Some (I n)"
  by (cases v) auto

lemma as_sequence_list: "as_list v = Some xs \<Longrightarrow> as_sequence v = Some xs"
  by (cases v) auto

text \<open>A value that contains no NaN equals itself.\<close>

fun nan_free :: "py_obj \<Rightarrow> bool" where
  "nan_free (OFloat x) = (\<not> f_nan x)"
| "nan_free (ODouble x) = (\<not> f_nan x)"
| "nan_free (OList xs) = list_all nan_free xs"
| "nan_free (OTuple xs) = list_all nan_free xs"
| "nan_free (OCalendarEntry v) = nan_free v"
| "nan_free (OTimeValue t v) = nan_free v"
| "nan_free (OSpecialEvent v xs p) = (nan_free v \<and> list_all nan_free xs)"
| "nan_free (OValueSource c v) = nan_free v"
| "nan_free (OTimeStamp c v) = nan_free v"
| "nan_free (ODict xs) = (distinct (map fst xs) \<and> list_all (\<lambda>(k, v). nan_free v) xs)"
| "nan_free v = True"

lemma py_eqs_refl: "(\<And>x. x \<in> set xs \<Longrightarrow> py_eq x x) \<Longrightarrow> py_eqs xs xs"
  by (induction xs) auto

lemma py_eqd_refl:
  "(\<And>k x. (k, x) \<in> set xs \<Longrightarrow> map_of ys k = Some x \<and> py_eq x x) \<Longrightarrow> py_eqd xs ys"
proof (induction xs)
  case (Cons a xs)
  obtain k x where a: "a = (k, x)" by force
  have "map_of ys k = Some x \<and> py_eq x x" by (rule Cons.prems) (simp add: a)
  moreover have "py_eqd xs ys" by (rule Cons.IH) (rule Cons.prems, simp)
  ultimately show ?case by (simp add: a)
qed simp

lemma py_eq_refl: "nan_free v \<Longrightarrow> py_eq v v"
  by (induction v) (auto simp: list_all_iff intro!: py_eqs_refl py_eqd_refl)

end
