(* ===== verification/Objects.thy ===== *)
theory Objects
  imports Values "HOL-Library.AList"
begin

text \<open>
  \<open>objects/base.py\<close>: property definitions, objects, property access and command priorities, with
  what the analog, multi-state and binary classes add (\<open>objects/analog.py\<close>,
  \<open>objects/multistate.py\<close>, \<open>objects/binary.py\<close>).  An object is a record; \<open>_properties\<close> is an
  association list in insertion order.  Lists are values: the list that \<open>_priority_array\<close> shares with
  the property is updated in both places.  \<open>now\<close> is what \<open>time.monotonic()\<close> returns.
\<close>

section \<open>Property definitions\<close>

datatype access = READ_ONLY | READ_WRITE

datatype py_type =
    T_int | T_float | T_double | T_bool | T_str | T_list | T_bytes | T_object
  | T_enum enum_class | T_class string

record prop_def =
  pd_datatype :: py_type
  pd_access :: access
  pd_required :: bool
  pd_default :: py_obj

type_synonym definitions = "(int \<times> prop_def) list"

definition pdef :: "int \<Rightarrow> py_type \<Rightarrow> access \<Rightarrow> bool \<Rightarrow> py_obj \<Rightarrow> int \<times> prop_def" where
  "pdef pid ty acc req dflt = (pid, \<lparr>pd_datatype = ty, pd_access = acc, pd_required = req, pd_default = dflt\<rparr>)"

text \<open>The dict display \<open>{**a, **b, k: v}\<close>.\<close>

definition merge_definitions :: "definitions list \<Rightarrow> definitions" where
  "merge_definitions ds = foldl (\<lambda>d (pid, x). AList.update pid x d) [] (concat ds)"

definition standard_properties :: definitions where
  "standard_properties =
     [pdef P_OBJECT_IDENTIFIER (T_class ''ObjectIdentifier'') READ_ONLY True ONone,
      pdef P_OBJECT_NAME T_str READ_WRITE True ONone,
      pdef P_OBJECT_TYPE (T_enum ''ObjectType'') READ_ONLY True ONone,
      pdef P_DESCRIPTION T_str READ_WRITE False ONone,
      pdef P_PROPERTY_LIST T_list READ_ONLY True ONone]"

definition status_properties :: "bool \<Rightarrow> bool \<Rightarrow> py_obj \<Rightarrow> bool \<Rightarrow> definitions" where
  "status_properties event_state_required reliability_required reliability_default include_out_of_service =
     [pdef P_STATUS_FLAGS (T_class ''StatusFlags'') READ_ONLY True ONone,
      pdef P_EVENT_STATE (T_enum ''EventState'') READ_ONLY event_state_required (OEnum ''EventState'' EV_NORMAL),
      pdef P_RELIABILITY (T_enum ''Reliability'') READ_ONLY reliability_required reliability_default]
     @ (if include_out_of_service
        then [pdef P_OUT_OF_SERVICE T_bool READ_WRITE True (OBool False)] else [])"

definition commandable_properties :: "py_type \<Rightarrow> py_obj \<Rightarrow> bool \<Rightarrow> definitions" where
  "commandable_properties value_type dflt req =
     [pdef P_PRIORITY_ARRAY T_list READ_ONLY req ONone,
      pdef P_RELINQUISH_DEFAULT value_type READ_WRITE req (if req then dflt else ONone),
      pdef P_CURRENT_COMMAND_PRIORITY T_int READ_ONLY req ONone,
      pdef P_VALUE_SOURCE (T_class ''BACnetValueSource'') READ_ONLY False ONone,
      pdef P_VALUE_SOURCE_ARRAY T_list READ_ONLY False ONone,
      pdef P_LAST_COMMAND_TIME T_object READ_ONLY False ONone,
      pdef P_COMMAND_TIME_ARRAY T_list READ_ONLY False ONone]"

definition intrinsic_reporting_properties :: "bool \<Rightarrow> definitions" where
  "intrinsic_reporting_properties include_limit =
     [pdef P_TIME_DELAY T_int READ_WRITE False ONone,
      pdef P_NOTIFICATION_CLASS T_int READ_WRITE False ONone,
      pdef P_EVENT_ENABLE (T_class ''BitString'') READ_WRITE False ONone,
      pdef P_ACKED_TRANSITIONS (T_class ''BitString'') READ_ONLY False ONone,
      pdef P_NOTIFY_TYPE (T_enum ''NotifyType'') READ_WRITE False ONone,
      pdef P_EVENT_TIME_STAMPS T_list READ_ONLY False ONone,
      pdef P_EVENT_DETECTION_ENABLE T_bool READ_WRITE False ONone,
      pdef P_EVENT_MESSAGE_TEXTS T_list READ_ONLY False ONone,
      pdef P_EVENT_MESSAGE_TEXTS_CONFIG T_list READ_WRITE False ONone]
     @ (if include_limit
        then [pdef P_HIGH_LIMIT T_float READ_WRITE False ONone,
              pdef P_LOW_LIMIT T_float READ_WRITE False ONone,
              pdef P_DEADBAND T_float READ_WRITE False ONone,
              pdef P_LIMIT_ENABLE (T_class ''BitString'') READ_WRITE False ONone]
        else [])"

section \<open>Classes and objects\<close>

text \<open>
  What a class adds to the base: \<open>_AnalogBase\<close> and \<open>_MultiStateBase\<close> guard writes,
  \<open>_BinaryPolarityMixin\<close> inverts what is read, \<open>_MinOnOffTimeMixin\<close> holds Present_Value.
\<close>

datatype write_guard = No_guard | Analog_guard | Multistate_guard

record object_class =
  oc_type :: int
  oc_definitions :: definitions
  oc_algorithm :: "int option"
  oc_guard :: write_guard
  oc_polarity :: bool
  oc_min_time :: bool

record bac_object =
  ob_id :: object_identifier
  ob_class :: object_class
  ob_properties :: "(int \<times> py_obj) list"
  ob_priority_array :: "py_obj list option"
  ob_sources :: "(py_obj list \<times> py_obj list) option"
  ob_lock_until :: "py_number option"
  ob_locked_value :: py_obj
  ob_in_db :: bool
  ob_notifies :: bool

type_synonym 'a object_proc = "(bac_object, exc, 'a) eproc"

definition get_prop :: "int \<Rightarrow> bac_object \<Rightarrow> py_obj" where
  "get_prop pid ob = (case map_of (ob_properties ob) pid of None \<Rightarrow> ONone | Some v \<Rightarrow> v)"

definition set_prop :: "int \<Rightarrow> py_obj \<Rightarrow> bac_object \<Rightarrow> bac_object" where
  "set_prop pid v ob = ob\<lparr>ob_properties := AList.update pid v (ob_properties ob)\<rparr>"

definition set_default :: "int \<Rightarrow> py_obj \<Rightarrow> bac_object \<Rightarrow> bac_object" where
  "set_default pid v ob = (if map_of (ob_properties ob) pid = None then set_prop pid v ob else ob)"

definition new_object :: "object_class \<Rightarrow> int \<Rightarrow> (int \<times> py_obj) list \<Rightarrow> py_error + bac_object" where
  "new_object kind inst initial =
     rbind (ObjectIdentifier (oc_type kind) inst) (\<lambda>i.
       let defaults = [(pid, pd_default d). (pid, d) \<leftarrow> oc_definitions kind, pd_default d \<noteq> ONone];
           own = [(P_OBJECT_IDENTIFIER, OOid i), (P_OBJECT_TYPE, OEnum ''ObjectType'' (oc_type kind))]
       in Inr \<lparr>ob_id = i, ob_class = kind,
            ob_properties = foldl (\<lambda>d (pid, v). AList.update pid v d) [] (defaults @ own @ initial),
            ob_priority_array = None, ob_sources = None, ob_lock_until = None, ob_locked_value = ONone,
            ob_in_db = False, ob_notifies = False\<rparr>)"

definition init_status_flags :: "bac_object \<Rightarrow> bac_object" where
  "init_status_flags = set_default P_STATUS_FLAGS (OFlags NORMAL_STATUS_FLAGS)"

definition init_commandable :: "py_obj \<Rightarrow> bac_object \<Rightarrow> bac_object" where
  "init_commandable relinquish_default ob =
     (let pa = replicate 16 ONone; srcs = replicate 16 none_source; stamps = replicate 16 ONone
      in set_prop P_COMMAND_TIME_ARRAY (OList stamps)
        (set_prop P_LAST_COMMAND_TIME ONone
        (set_prop P_VALUE_SOURCE_ARRAY (OList srcs)
        (set_prop P_VALUE_SOURCE none_source
        (set_default P_RELINQUISH_DEFAULT relinquish_default
        (set_prop P_PRIORITY_ARRAY (OList pa)
           (ob\<lparr>ob_priority_array := Some pa, ob_sources := Some (srcs, stamps)\<rparr>)))))))"

section \<open>Reading\<close>

definition unknown_property :: exc where
  "unknown_property = bacnet_error EC_PROPERTY CODE_UNKNOWN_PROPERTY"

definition PROPERTY_LIST_EXCLUSIONS :: "int list" where
  "PROPERTY_LIST_EXCLUSIONS = [P_OBJECT_IDENTIFIER, P_OBJECT_NAME, P_OBJECT_TYPE, P_PROPERTY_LIST]"

definition get_property_list :: "bac_object \<Rightarrow> int list" where
  "get_property_list ob =
     (let defs = oc_definitions (ob_class ob);
          result = [pid. (pid, d) \<leftarrow> defs, pid \<notin> set PROPERTY_LIST_EXCLUSIONS
                       \<and> (map_of (ob_properties ob) pid \<noteq> None \<or> pd_required d)]
      in if ob_priority_array ob \<noteq> None \<and> map_of defs P_CURRENT_COMMAND_PRIORITY \<noteq> None
            \<and> P_CURRENT_COMMAND_PRIORITY \<notin> set result
         then result @ [P_CURRENT_COMMAND_PRIORITY] else result)"

fun first_command :: "py_obj list \<Rightarrow> int \<Rightarrow> int option" where
  "first_command [] i = None"
| "first_command (slot # slots) i = (if slot \<noteq> ONone then Some i else first_command slots (i + 1))"

definition get_current_command_priority :: "bac_object \<Rightarrow> exc + py_obj" where
  "get_current_command_priority ob =
     (case ob_priority_array ob of None \<Rightarrow> Inl unknown_property
      | Some pa \<Rightarrow> Inr (case first_command pa 1 of None \<Rightarrow> ONone | Some i \<Rightarrow> OInt i))"

definition get_status_flags :: "bac_object \<Rightarrow> exc + py_obj" where
  "get_status_flags ob =
     (if map_of (oc_definitions (ob_class ob)) P_STATUS_FLAGS = None then Inl unknown_property
      else
        let event_state = get_prop P_EVENT_STATE ob;
            alarm = (event_state \<noteq> ONone \<and> \<not> py_eq event_state (OEnum ''EventState'' EV_NORMAL));
            reliability = get_prop P_RELIABILITY ob;
            faulty = (reliability \<noteq> ONone
              \<and> \<not> py_eq reliability (OEnum ''Reliability'' REL_NO_FAULT_DETECTED));
            oos = truthy (get_prop P_OUT_OF_SERVICE ob);
            over = (case get_prop P_STATUS_FLAGS ob of OFlags f \<Rightarrow> overridden f | _ \<Rightarrow> False)
        in Inr (OFlags \<lparr>in_alarm = alarm, fault = faulty, overridden = over, out_of_service = oos\<rparr>))"

definition index_value :: "py_obj \<Rightarrow> int option \<Rightarrow> exc + py_obj" where
  "index_value v array_index =
     (case array_index of None \<Rightarrow> Inr v
      | Some i \<Rightarrow>
          (case as_sequence v of
             None \<Rightarrow> Inl (bacnet_error EC_PROPERTY CODE_PROPERTY_IS_NOT_AN_ARRAY)
           | Some xs \<Rightarrow>
               if i = 0 then Inr (OInt (int (length xs)))
               else if 1 \<le> i \<and> i \<le> int (length xs) then Inr (xs ! nat (i - 1))
               else Inl (bacnet_error EC_PROPERTY CODE_INVALID_ARRAY_INDEX)))"

definition base_read_property :: "bac_object \<Rightarrow> int \<Rightarrow> int option \<Rightarrow> exc + py_obj" where
  "base_read_property ob pid array_index =
     (if pid = P_PROPERTY_LIST
      then Inr (OList (map (OEnum ''PropertyIdentifier'') (get_property_list ob)))
      else if pid = P_CURRENT_COMMAND_PRIORITY then get_current_command_priority ob
      else if pid = P_STATUS_FLAGS then get_status_flags ob
      else case map_of (oc_definitions (ob_class ob)) pid of
        None \<Rightarrow> Inl unknown_property
      | Some d \<Rightarrow>
          let v = get_prop pid ob
          in if v = ONone \<and> pd_required d
             then Inl (bacnet_error EC_PROPERTY CODE_VALUE_NOT_INITIALIZED)
             else index_value v array_index)"

definition read_property :: "bac_object \<Rightarrow> int \<Rightarrow> int option \<Rightarrow> exc + py_obj" where
  "read_property ob pid array_index =
     rbind (base_read_property ob pid array_index) (\<lambda>v.
     if oc_polarity (ob_class ob) \<and> pid = P_PRESENT_VALUE
        \<and> py_eq (get_prop P_POLARITY ob) (OEnum ''Polarity'' 1)
     then Inr (if py_eq v (OEnum ''BinaryPV'' 0) then OEnum ''BinaryPV'' 1 else OEnum ''BinaryPV'' 0)
     else Inr v)"

section \<open>Writing: guards, access and coercion\<close>

definition out_of_range_if :: "bool \<Rightarrow> exc + unit" where
  "out_of_range_if b = (if b then Inl (bacnet_error EC_PROPERTY CODE_VALUE_OUT_OF_RANGE) else Inr ())"

text \<open>\<open>limit is not None and value < limit\<close>, and with \<open>>\<close>.\<close>

definition below :: "py_obj \<Rightarrow> py_obj \<Rightarrow> exc + unit" where
  "below v limit = (if limit = ONone then Inr () else rbind (py (obj_less v limit)) out_of_range_if)"

definition above :: "py_obj \<Rightarrow> py_obj \<Rightarrow> exc + unit" where
  "above v limit = (if limit = ONone then Inr () else rbind (py (obj_less limit v)) out_of_range_if)"

definition class_guard :: "bac_object \<Rightarrow> int \<Rightarrow> py_obj \<Rightarrow> exc + unit" where
  "class_guard ob pid v =
     (case oc_guard (ob_class ob) of
        No_guard \<Rightarrow> Inr ()
      | Analog_guard \<Rightarrow>
          rbind (if pid = P_PRESENT_VALUE \<and> as_number v \<noteq> None
                 then rbind (below v (get_prop P_MIN_PRES_VALUE ob)) (\<lambda>u.
                        above v (get_prop P_MAX_PRES_VALUE ob))
                 else Inr ()) (\<lambda>u.
          if pid = P_COV_INCREMENT \<and> as_number v \<noteq> None
          then rbind (py (obj_less v (OInt 0))) out_of_range_if else Inr ())
      | Multistate_guard \<Rightarrow>
          rbind (if pid = P_PRESENT_VALUE \<and> as_int v \<noteq> None
                    \<and> get_prop P_NUMBER_OF_STATES ob \<noteq> ONone
                 then rbind (py (obj_less v (OInt 1))) (\<lambda>lo.
                      if lo then out_of_range_if True
                      else rbind (py (obj_less (get_prop P_NUMBER_OF_STATES ob) v)) out_of_range_if)
                 else Inr ()) (\<lambda>u.
          if pid = P_NUMBER_OF_STATES \<and> as_int v \<noteq> None
          then rbind (py (obj_less v (OInt 1))) out_of_range_if else Inr ()))"

definition write_access :: "bac_object \<Rightarrow> int \<Rightarrow> exc + prop_def" where
  "write_access ob pid =
     (case map_of (oc_definitions (ob_class ob)) pid of
        None \<Rightarrow> Inl unknown_property
      | Some d \<Rightarrow>
          if pd_access d = READ_ONLY
             \<and> \<not> (pid = P_PRESENT_VALUE \<and> get_prop P_OUT_OF_SERVICE ob = OBool True)
          then Inl (bacnet_error EC_PROPERTY CODE_WRITE_ACCESS_DENIED) else Inr d)"

fun coerce_value :: "py_type \<Rightarrow> py_obj \<Rightarrow> py_obj" where
  "coerce_value (T_enum c) (OInt n) = (if enum_has c n then OEnum c n else OInt n)"
| "coerce_value T_double (OFloat x) = ODouble x"
| "coerce_value ty v = v"

section \<open>Writing: command priorities\<close>

fun winning_command :: "py_obj list \<Rightarrow> nat \<Rightarrow> (nat \<times> py_obj) option" where
  "winning_command [] i = None"
| "winning_command (slot # slots) i =
     (if slot \<noteq> ONone then Some (i, slot) else winning_command slots (Suc i))"

definition is_commandable :: "bac_object \<Rightarrow> int \<Rightarrow> bool" where
  "is_commandable ob pid \<longleftrightarrow> pid = P_PRESENT_VALUE \<and> ob_priority_array ob \<noteq> None"

definition set_slot :: "nat \<Rightarrow> py_obj \<Rightarrow> bac_object \<Rightarrow> bac_object" where
  "set_slot idx v ob =
     (case ob_priority_array ob of
        None \<Rightarrow> ob\<lparr>ob_priority_array := Some ((replicate 16 ONone)[idx := v])\<rparr>
      | Some pa \<Rightarrow> set_prop P_PRIORITY_ARRAY (OList (pa[idx := v]))
                   (ob\<lparr>ob_priority_array := Some (pa[idx := v])\<rparr>))"

definition set_source :: "nat \<Rightarrow> py_obj \<Rightarrow> py_obj option \<Rightarrow> bac_object \<Rightarrow> bac_object" where
  "set_source idx v value_source ob =
     (case ob_sources ob of None \<Rightarrow> ob
      | Some (srcs, stamps) \<Rightarrow>
          let src = (if v = ONone then none_source
                     else case value_source of None \<Rightarrow> none_source | Some w \<Rightarrow> w);
              srcs = srcs[idx := src]; stamps = stamps[idx := ONone]
          in set_prop P_COMMAND_TIME_ARRAY (OList stamps) (set_prop P_VALUE_SOURCE_ARRAY (OList srcs)
               (ob\<lparr>ob_sources := Some (srcs, stamps)\<rparr>)))"

definition apply_winner :: "int \<Rightarrow> bac_object \<Rightarrow> bac_object" where
  "apply_winner pid ob =
     (let winner = (case ob_priority_array ob of None \<Rightarrow> None | Some pa \<Rightarrow> winning_command pa 0);
          ob = set_prop pid (case winner of Some (i, v) \<Rightarrow> v | None \<Rightarrow> get_prop P_RELINQUISH_DEFAULT ob) ob
      in case ob_sources ob of None \<Rightarrow> ob
         | Some (srcs, stamps) \<Rightarrow>
             (case winner of
                Some (i, v) \<Rightarrow> set_prop P_LAST_COMMAND_TIME (stamps ! i)
                                 (set_prop P_VALUE_SOURCE (srcs ! i) ob)
              | None \<Rightarrow> set_prop P_LAST_COMMAND_TIME ONone (set_prop P_VALUE_SOURCE none_source ob)))"

definition base_write_with_priority ::
  "int \<Rightarrow> py_obj \<Rightarrow> int \<Rightarrow> py_obj option \<Rightarrow> unit object_proc" where
  "base_write_with_priority pid v priority value_source =
     bind_p (read_p (\<lambda>ob. oc_definitions (ob_class ob))) (\<lambda>defs.
     if priority < 1 \<or> priority > 16
     then raise_p (bacnet_error EC_SERVICES CODE_PARAMETER_OUT_OF_RANGE)
     else if priority = 6 \<and> (map_of defs P_MINIMUM_ON_TIME \<noteq> None \<or> map_of defs P_MINIMUM_OFF_TIME \<noteq> None)
     then raise_p (bacnet_error EC_PROPERTY CODE_WRITE_ACCESS_DENIED)
     else let idx = nat (priority - 1)
          in write_p (apply_winner pid \<circ> set_source idx v value_source \<circ> set_slot idx v))"

section \<open>Writing: minimum on and off times\<close>

text \<open>\<open>if min_on and min_on > 0: lock_until = now + min_on\<close>\<close>

definition lock_for :: "py_float \<Rightarrow> py_obj \<Rightarrow> py_obj \<Rightarrow> unit object_proc" where
  "lock_for now pv duration =
     (if \<not> truthy duration then return_p ()
      else bind_p (lift_p (py (obj_less (OInt 0) duration))) (\<lambda>positive.
           if \<not> positive then return_p ()
           else case as_number duration of None \<Rightarrow> return_p ()
             | Some d \<Rightarrow> bind_p (lift_p (py (num_add (F now) d))) (\<lambda>until.
                 write_p (\<lambda>ob. ob\<lparr>ob_lock_until := Some until, ob_locked_value := pv\<rparr>))))"

definition start_lock_if_needed :: "py_float \<Rightarrow> py_obj \<Rightarrow> unit object_proc" where
  "start_lock_if_needed now pv =
     bind_p (read_p (\<lambda>ob. (get_prop P_MINIMUM_ON_TIME ob, get_prop P_MINIMUM_OFF_TIME ob))) (\<lambda>(on, off).
     if py_eq pv (OEnum ''BinaryPV'' 1) then lock_for now pv on
     else if py_eq pv (OEnum ''BinaryPV'' 0) then lock_for now pv off
     else return_p ())"

definition min_time_write_with_priority ::
  "py_float \<Rightarrow> int \<Rightarrow> py_obj \<Rightarrow> int \<Rightarrow> py_obj option \<Rightarrow> unit object_proc" where
  "min_time_write_with_priority now pid v priority value_source =
     bind_p (read_p (get_prop P_PRESENT_VALUE)) (\<lambda>old_pv.
     seq_p (base_write_with_priority pid v priority value_source)
     (bind_p (read_p (\<lambda>ob. case ob_lock_until ob of None \<Rightarrow> False | Some u \<Rightarrow> F now < u)) (\<lambda>locked.
      if locked then write_p (\<lambda>ob. set_prop pid (ob_locked_value ob) ob)
      else
        seq_p (write_p (\<lambda>ob. if ob_lock_until ob \<noteq> None
                 then ob\<lparr>ob_lock_until := None, ob_locked_value := ONone\<rparr> else ob))
        (bind_p (read_p (get_prop P_PRESENT_VALUE)) (\<lambda>new_pv.
         if \<not> py_eq new_pv old_pv \<and> old_pv \<noteq> ONone then start_lock_if_needed now new_pv
         else return_p ())))))"

definition write_with_priority :: "py_float \<Rightarrow> int \<Rightarrow> py_obj \<Rightarrow> int \<Rightarrow> unit object_proc" where
  "write_with_priority now pid v priority =
     bind_p (read_p (\<lambda>ob. oc_min_time (ob_class ob))) (\<lambda>min_time.
     if min_time then min_time_write_with_priority now pid v priority None
     else base_write_with_priority pid v priority None)"

definition check_min_time_expiry :: "py_float \<Rightarrow> bool object_proc" where
  "check_min_time_expiry now =
     bind_p (read_p id) (\<lambda>ob.
     case ob_lock_until ob of None \<Rightarrow> return_p False
     | Some u \<Rightarrow>
         if F now < u then return_p False
         else
           seq_p (write_p (\<lambda>ob. ob\<lparr>ob_lock_until := None, ob_locked_value := ONone\<rparr>))
           (case ob_priority_array ob of None \<Rightarrow> return_p True
            | Some pa \<Rightarrow>
                let new_pv = (case winning_command pa 0 of Some (i, v) \<Rightarrow> v
                              | None \<Rightarrow> get_prop P_RELINQUISH_DEFAULT ob)
                in seq_p (write_p (set_prop P_PRESENT_VALUE new_pv))
                   (seq_p (if \<not> py_eq new_pv (ob_locked_value ob) \<and> new_pv \<noteq> ONone
                           then start_lock_if_needed now new_pv else return_p ())
                          (return_p True))))"

section \<open>Writing\<close>

definition write_array_element :: "int \<Rightarrow> py_obj \<Rightarrow> int \<Rightarrow> unit object_proc" where
  "write_array_element pid v array_index =
     bind_p (read_p (get_prop pid)) (\<lambda>current.
     case as_list current of
       None \<Rightarrow> raise_p (bacnet_error EC_PROPERTY CODE_PROPERTY_IS_NOT_AN_ARRAY)
     | Some xs \<Rightarrow>
         if array_index < 1 \<or> array_index > int (length xs)
         then raise_p (bacnet_error EC_PROPERTY CODE_INVALID_ARRAY_INDEX)
         else write_p (set_prop pid (OList (xs[nat (array_index - 1) := v]))))"

text \<open>
  The end of \<open>write_property\<close>: the value is stored, and the result says whether the property compares
  unequal to what it was.  A list that is changed in place is the same object before and after.
\<close>

definition store_property ::
  "py_float \<Rightarrow> prop_def \<Rightarrow> int \<Rightarrow> py_obj \<Rightarrow> int option \<Rightarrow> int option \<Rightarrow> (py_obj \<times> py_obj) option object_proc" where
  "store_property now d pid v priority array_index =
     (let v = coerce_value (pd_datatype d) v
      in bind_p (read_p (\<lambda>ob. (get_prop pid ob, is_commandable ob pid))) (\<lambda>(old, commandable).
         seq_p (if commandable
                then write_with_priority now pid v (case priority of Some p \<Rightarrow> p | None \<Rightarrow> 16)
                else case array_index of
                  Some i \<Rightarrow> write_array_element pid v i
                | None \<Rightarrow> write_p (set_prop pid v))
         (bind_p (read_p (get_prop pid)) (\<lambda>new.
          return_p (if \<not> commandable \<and> array_index \<noteq> None \<or> py_eq old new then None
                    else Some (old, new))))))"

text \<open>Writing an object that is in no database.\<close>

definition write_property ::
  "py_float \<Rightarrow> int \<Rightarrow> py_obj \<Rightarrow> int option \<Rightarrow> int option \<Rightarrow> (py_obj \<times> py_obj) option object_proc" where
  "write_property now pid v priority array_index =
     bind_p (read_p (\<lambda>ob. rbind (class_guard ob pid v) (\<lambda>u. write_access ob pid))) (\<lambda>r.
     bind_p (lift_p r) (\<lambda>d. store_property now d pid v priority array_index))"

end
