(* ===== verification/Object_Types.thy ===== *)
theory Object_Types
  imports Objects
begin

text \<open>
  The object classes of \<open>objects/*.py\<close>: their property tables, what their mixins add, and their
  constructors.  \<open>OBJECT_REGISTRY\<close> is what the decorator \<open>register_object_type\<close> builds.  The file and
  audit log classes keep data of their own and are not here.
\<close>

section \<open>\<open>objects/access_control.py\<close>\<close>

definition AccessDoorObject :: object_class where
  "AccessDoorObject =
     \<lparr>oc_type = OT_ACCESS_DOOR,
      oc_definitions = merge_definitions
       [standard_properties,
        [pdef P_PRESENT_VALUE (T_enum ''DoorStatus'') READ_WRITE True (OEnum ''DoorStatus'' 0)],
        status_properties True False ONone True,
        [pdef P_DOOR_STATUS (T_enum ''DoorStatus'') READ_ONLY True (OEnum ''DoorStatus'' 0),
         pdef P_LOCK_STATUS (T_enum ''LockStatus'') READ_ONLY True (OEnum ''LockStatus'' 0),
         pdef P_SECURED_STATUS (T_enum ''DoorSecuredStatus'') READ_ONLY True (OEnum ''DoorSecuredStatus'' 0),
         pdef P_DOOR_ALARM_STATE (T_enum ''DoorAlarmState'') READ_ONLY True (OEnum ''DoorAlarmState'' 0),
         pdef P_DOOR_MEMBERS T_list READ_WRITE False ONone,
         pdef P_DOOR_PULSE_TIME T_int READ_WRITE True (OInt 3),
         pdef P_DOOR_EXTENDED_PULSE_TIME T_int READ_WRITE True (OInt 10),
         pdef P_DOOR_UNLOCK_DELAY_TIME T_int READ_WRITE False ONone,
         pdef P_DOOR_OPEN_TOO_LONG_TIME T_int READ_WRITE False ONone,
         pdef P_MASKED_ALARM_VALUES T_list READ_WRITE False ONone,
         pdef P_MAINTENANCE_REQUIRED T_bool READ_ONLY False ONone]],
      oc_algorithm = Some 13, oc_guard = No_guard, oc_polarity = False, oc_min_time = False\<rparr>"

definition new_AccessDoorObject :: "int \<Rightarrow> (int \<times> py_obj) list \<Rightarrow> py_error + bac_object" where
  "new_AccessDoorObject inst initial =
     rbind (new_object AccessDoorObject inst initial) (\<lambda>ob.
       Inr (init_status_flags ob))"

definition AccessPointObject :: object_class where
  "AccessPointObject =
     \<lparr>oc_type = OT_ACCESS_POINT,
      oc_definitions = merge_definitions
       [standard_properties,
        status_properties True False ONone True,
        [pdef P_ACCESS_EVENT (T_enum ''AccessEvent'') READ_ONLY True (OEnum ''AccessEvent'' 0),
         pdef P_ACCESS_EVENT_TIME T_object READ_ONLY True ONone,
         pdef P_ACCESS_EVENT_CREDENTIAL T_object READ_ONLY True ONone,
         pdef P_ACCESS_DOORS T_list READ_WRITE True (OList []),
         pdef P_AUTHORIZATION_MODE (T_enum ''AuthorizationMode'') READ_WRITE True (OEnum ''AuthorizationMode'' 0),
         pdef P_AUTHENTICATION_POLICY_LIST T_list READ_WRITE False ONone,
         pdef P_AUTHENTICATION_POLICY_NAMES T_list READ_WRITE False ONone,
         pdef P_ACTIVE_AUTHENTICATION_POLICY T_int READ_WRITE False ONone,
         pdef P_AUTHORIZATION_EXEMPTIONS T_list READ_WRITE False ONone,
         pdef P_VERIFICATION_TIME T_int READ_WRITE False ONone,
         pdef P_ACCESS_EVENT_TAG T_int READ_ONLY True (OInt 0),
         pdef P_ACCESS_EVENT_AUTHENTICATION_FACTOR T_object READ_ONLY False ONone,
         pdef P_ACCESS_TRANSACTION_EVENTS T_list READ_WRITE False ONone,
         pdef P_ACCESS_ALARM_EVENTS T_list READ_WRITE False ONone,
         pdef P_NOTIFICATION_CLASS T_int READ_WRITE False ONone,
         pdef P_TRANSACTION_NOTIFICATION_CLASS T_int READ_WRITE False ONone]],
      oc_algorithm = None, oc_guard = No_guard, oc_polarity = False, oc_min_time = False\<rparr>"

definition new_AccessPointObject :: "int \<Rightarrow> (int \<times> py_obj) list \<Rightarrow> py_error + bac_object" where
  "new_AccessPointObject inst initial =
     rbind (new_object AccessPointObject inst initial) (\<lambda>ob.
       Inr (init_status_flags ob))"

definition AccessZoneObject :: object_class where
  "AccessZoneObject =
     \<lparr>oc_type = OT_ACCESS_ZONE,
      oc_definitions = merge_definitions
       [standard_properties,
        status_properties True False ONone True,
        [pdef P_GLOBAL_IDENTIFIER T_int READ_WRITE True (OInt 0),
         pdef P_OCCUPANCY_STATE T_int READ_ONLY True (OInt 0),
         pdef P_OCCUPANCY_COUNT T_int READ_ONLY True (OInt 0),
         pdef P_OCCUPANCY_COUNT_ENABLE T_bool READ_WRITE False (OBool False),
         pdef P_OCCUPANCY_COUNT_ADJUST T_bool READ_WRITE False ONone,
         pdef P_OCCUPANCY_UPPER_LIMIT T_int READ_WRITE False ONone,
         pdef P_OCCUPANCY_LOWER_LIMIT T_int READ_WRITE False ONone,
         pdef P_OCCUPANCY_UPPER_LIMIT_ENFORCED T_bool READ_WRITE False ONone,
         pdef P_OCCUPANCY_LOWER_LIMIT_ENFORCED T_bool READ_WRITE False ONone,
         pdef P_ENTRY_POINTS T_list READ_WRITE True (OList []),
         pdef P_EXIT_POINTS T_list READ_WRITE True (OList []),
         pdef P_PASSBACK_MODE (T_enum ''AccessPassbackMode'') READ_WRITE False (OEnum ''AccessPassbackMode'' 0),
         pdef P_PASSBACK_TIMEOUT T_int READ_WRITE False ONone,
         pdef P_CREDENTIALS_IN_ZONE T_list READ_ONLY False ONone,
         pdef P_LAST_CREDENTIAL_ADDED T_object READ_ONLY False ONone,
         pdef P_LAST_CREDENTIAL_ADDED_TIME T_object READ_ONLY False ONone,
         pdef P_LAST_CREDENTIAL_REMOVED T_object READ_ONLY False ONone,
         pdef P_LAST_CREDENTIAL_REMOVED_TIME T_object READ_ONLY False ONone]],
      oc_algorithm = None, oc_guard = No_guard, oc_polarity = False, oc_min_time = False\<rparr>"

definition new_AccessZoneObject :: "int \<Rightarrow> (int \<times> py_obj) list \<Rightarrow> py_error + bac_object" where
  "new_AccessZoneObject inst initial =
     rbind (new_object AccessZoneObject inst initial) (\<lambda>ob.
       Inr (init_status_flags ob))"

definition AccessUserObject :: object_class where
  "AccessUserObject =
     \<lparr>oc_type = OT_ACCESS_USER,
      oc_definitions = merge_definitions
       [standard_properties,
        status_properties True False ONone False,
        [pdef P_GLOBAL_IDENTIFIER T_int READ_WRITE True (OInt 0),
         pdef P_USER_TYPE (T_enum ''AccessUserType'') READ_WRITE True (OEnum ''AccessUserType'' 2),
         pdef P_USER_NAME T_str READ_WRITE False ONone,
         pdef P_USER_EXTERNAL_IDENTIFIER T_str READ_WRITE False ONone,
         pdef P_USER_INFORMATION_REFERENCE T_str READ_WRITE False ONone,
         pdef P_CREDENTIALS T_list READ_WRITE True (OList []),
         pdef P_MEMBERS T_list READ_WRITE False ONone,
         pdef P_MEMBER_OF T_list READ_ONLY False ONone]],
      oc_algorithm = None, oc_guard = No_guard, oc_polarity = False, oc_min_time = False\<rparr>"

definition new_AccessUserObject :: "int \<Rightarrow> (int \<times> py_obj) list \<Rightarrow> py_error + bac_object" where
  "new_AccessUserObject inst initial =
     rbind (new_object AccessUserObject inst initial) (\<lambda>ob.
       Inr (init_status_flags ob))"

definition AccessRightsObject :: object_class where
  "AccessRightsObject =
     \<lparr>oc_type = OT_ACCESS_RIGHTS,
      oc_definitions = merge_definitions
       [standard_properties,
        status_properties True False ONone False,
        [pdef P_GLOBAL_IDENTIFIER T_int READ_WRITE True (OInt 0),
         pdef P_POSITIVE_ACCESS_RULES T_list READ_WRITE True (OList []),
         pdef P_NEGATIVE_ACCESS_RULES T_list READ_WRITE True (OList []),
         pdef P_ACCOMPANIMENT T_object READ_WRITE False ONone]],
      oc_algorithm = None, oc_guard = No_guard, oc_polarity = False, oc_min_time = False\<rparr>"

definition new_AccessRightsObject :: "int \<Rightarrow> (int \<times> py_obj) list \<Rightarrow> py_error + bac_object" where
  "new_AccessRightsObject inst initial =
     rbind (new_object AccessRightsObject inst initial) (\<lambda>ob.
       Inr (init_status_flags ob))"

definition AccessCredentialObject :: object_class where
  "AccessCredentialObject =
     \<lparr>oc_type = OT_ACCESS_CREDENTIAL,
      oc_definitions = merge_definitions
       [standard_properties,
        status_properties True False ONone False,
        [pdef P_GLOBAL_IDENTIFIER T_int READ_WRITE True (OInt 0),
         pdef P_CREDENTIAL_STATUS T_int READ_WRITE True (OInt 0),
         pdef P_CREDENTIAL_DISABLE (T_enum ''AccessCredentialDisable'') READ_WRITE True (OEnum ''AccessCredentialDisable'' 0),
         pdef P_AUTHENTICATION_FACTORS T_list READ_WRITE True (OList []),
         pdef P_ACTIVATION_TIME T_object READ_WRITE True ONone,
         pdef P_EXPIRATION_TIME T_object READ_WRITE True ONone,
         pdef P_ASSIGNED_ACCESS_RIGHTS T_list READ_WRITE True (OList []),
         pdef P_DAYS_REMAINING T_int READ_ONLY False ONone,
         pdef P_USES_REMAINING T_int READ_WRITE False ONone,
         pdef P_ABSENTEE_LIMIT T_int READ_WRITE False ONone,
         pdef P_BELONGS_TO T_object READ_ONLY False ONone,
         pdef P_LAST_ACCESS_POINT T_object READ_ONLY False ONone,
         pdef P_LAST_ACCESS_EVENT (T_enum ''AccessEvent'') READ_ONLY False ONone,
         pdef P_LAST_USE_TIME T_object READ_ONLY False ONone]],
      oc_algorithm = None, oc_guard = No_guard, oc_polarity = False, oc_min_time = False\<rparr>"

definition new_AccessCredentialObject :: "int \<Rightarrow> (int \<times> py_obj) list \<Rightarrow> py_error + bac_object" where
  "new_AccessCredentialObject inst initial =
     rbind (new_object AccessCredentialObject inst initial) (\<lambda>ob.
       Inr (init_status_flags ob))"

definition CredentialDataInputObject :: object_class where
  "CredentialDataInputObject =
     \<lparr>oc_type = OT_CREDENTIAL_DATA_INPUT,
      oc_definitions = merge_definitions
       [standard_properties,
        [pdef P_PRESENT_VALUE T_object READ_ONLY True ONone],
        status_properties True False ONone True,
        [pdef P_SUPPORTED_FORMATS T_list READ_ONLY True (OList []),
         pdef P_SUPPORTED_FORMAT_CLASSES T_list READ_ONLY True (OList []),
         pdef P_UPDATE_TIME T_object READ_ONLY True ONone]],
      oc_algorithm = None, oc_guard = No_guard, oc_polarity = False, oc_min_time = False\<rparr>"

definition new_CredentialDataInputObject :: "int \<Rightarrow> (int \<times> py_obj) list \<Rightarrow> py_error + bac_object" where
  "new_CredentialDataInputObject inst initial =
     rbind (new_object CredentialDataInputObject inst initial) (\<lambda>ob.
       Inr (init_status_flags ob))"

section \<open>\<open>objects/accumulator.py\<close>\<close>

definition AccumulatorObject :: object_class where
  "AccumulatorObject =
     \<lparr>oc_type = OT_ACCUMULATOR,
      oc_definitions = merge_definitions
       [standard_properties,
        [pdef P_PRESENT_VALUE T_int READ_ONLY True (OInt 0)],
        status_properties True False ONone True,
        [pdef P_UNITS (T_enum ''EngineeringUnits'') READ_WRITE True (OEnum ''EngineeringUnits'' 95),
         pdef P_SCALE (T_class ''BACnetScale'') READ_WRITE True ONone,
         pdef P_PRESCALE (T_class ''BACnetPrescale'') READ_WRITE False ONone,
         pdef P_MAX_PRES_VALUE T_int READ_WRITE True (OInt 4294967295),
         pdef P_PULSE_RATE T_int READ_ONLY False ONone,
         pdef P_COV_INCREMENT T_int READ_WRITE False ONone,
         pdef P_VALUE_BEFORE_CHANGE T_int READ_ONLY False ONone,
         pdef P_VALUE_SET T_int READ_ONLY False ONone,
         pdef P_VALUE_CHANGE_TIME (T_class ''BACnetDateTime'') READ_ONLY False ONone,
         pdef P_NOTIFICATION_CLASS T_int READ_WRITE False ONone,
         pdef P_EVENT_ENABLE T_list READ_WRITE False ONone,
         pdef P_HIGH_LIMIT T_int READ_WRITE False ONone,
         pdef P_LOW_LIMIT T_int READ_WRITE False ONone,
         pdef P_TIME_DELAY T_int READ_WRITE False ONone]],
      oc_algorithm = Some 11, oc_guard = No_guard, oc_polarity = False, oc_min_time = False\<rparr>"

definition new_AccumulatorObject :: "int \<Rightarrow> (int \<times> py_obj) list \<Rightarrow> py_error + bac_object" where
  "new_AccumulatorObject inst initial =
     rbind (new_object AccumulatorObject inst initial) (\<lambda>ob.
       Inr (set_default P_SCALE (OScale (Some 0x3FF0000000000000) None) (init_status_flags ob)))"

section \<open>\<open>objects/alert_enrollment.py\<close>\<close>

definition AlertEnrollmentObject :: object_class where
  "AlertEnrollmentObject =
     \<lparr>oc_type = OT_ALERT_ENROLLMENT,
      oc_definitions = merge_definitions
       [standard_properties,
        [pdef P_PRESENT_VALUE T_object READ_ONLY True ONone],
        status_properties True False ONone False,
        [pdef P_NOTIFICATION_CLASS T_int READ_WRITE True ONone,
         pdef P_EVENT_ENABLE T_list READ_WRITE True ONone,
         pdef P_EVENT_DETECTION_ENABLE T_bool READ_WRITE False (OBool True)]],
      oc_algorithm = None, oc_guard = No_guard, oc_polarity = False, oc_min_time = False\<rparr>"

definition new_AlertEnrollmentObject :: "int \<Rightarrow> (int \<times> py_obj) list \<Rightarrow> py_error + bac_object" where
  "new_AlertEnrollmentObject inst initial =
     rbind (new_object AlertEnrollmentObject inst initial) (\<lambda>ob.
       Inr (init_status_flags ob))"

section \<open>\<open>objects/analog.py\<close>\<close>

definition AnalogInputObject :: object_class where
  "AnalogInputObject =
     \<lparr>oc_type = OT_ANALOG_INPUT,
      oc_definitions = merge_definitions
       [standard_properties,
        status_properties True False ONone True,
        [pdef P_PRESENT_VALUE T_float READ_ONLY True (OFloat 0),
         pdef P_DEVICE_TYPE T_str READ_WRITE False ONone,
         pdef P_UNITS (T_enum ''EngineeringUnits'') READ_WRITE True (OEnum ''EngineeringUnits'' 95),
         pdef P_MIN_PRES_VALUE T_float READ_ONLY False ONone,
         pdef P_MAX_PRES_VALUE T_float READ_ONLY False ONone,
         pdef P_RESOLUTION T_float READ_ONLY False ONone,
         pdef P_COV_INCREMENT T_float READ_WRITE False ONone,
         pdef P_UPDATE_INTERVAL T_int READ_WRITE False ONone],
        intrinsic_reporting_properties True],
      oc_algorithm = Some 5, oc_guard = Analog_guard, oc_polarity = False, oc_min_time = False\<rparr>"

definition new_AnalogInputObject :: "int \<Rightarrow> (int \<times> py_obj) list \<Rightarrow> py_error + bac_object" where
  "new_AnalogInputObject inst initial =
     rbind (new_object AnalogInputObject inst initial) (\<lambda>ob.
       Inr (init_status_flags ob))"

definition AnalogOutputObject :: object_class where
  "AnalogOutputObject =
     \<lparr>oc_type = OT_ANALOG_OUTPUT,
      oc_definitions = merge_definitions
       [standard_properties,
        status_properties True False ONone True,
        commandable_properties T_float (OFloat 0) True,
        [pdef P_PRESENT_VALUE T_float READ_WRITE True (OFloat 0),
         pdef P_DEVICE_TYPE T_str READ_WRITE False ONone,
         pdef P_UNITS (T_enum ''EngineeringUnits'') READ_WRITE True (OEnum ''EngineeringUnits'' 95),
         pdef P_MIN_PRES_VALUE T_float READ_ONLY False ONone,
         pdef P_MAX_PRES_VALUE T_float READ_ONLY False ONone,
         pdef P_RESOLUTION T_float READ_ONLY False ONone,
         pdef P_COV_INCREMENT T_float READ_WRITE False ONone],
        intrinsic_reporting_properties True],
      oc_algorithm = Some 5, oc_guard = Analog_guard, oc_polarity = False, oc_min_time = False\<rparr>"

definition new_AnalogOutputObject :: "int \<Rightarrow> (int \<times> py_obj) list \<Rightarrow> py_error + bac_object" where
  "new_AnalogOutputObject inst initial =
     rbind (new_object AnalogOutputObject inst initial) (\<lambda>ob.
       Inr (init_status_flags (init_commandable (OFloat 0) ob)))"

definition AnalogValueObject :: object_class where
  "AnalogValueObject =
     \<lparr>oc_type = OT_ANALOG_VALUE,
      oc_definitions = merge_definitions
       [standard_properties,
        status_properties True False ONone True,
        commandable_properties T_float (OFloat 0) False,
        [pdef P_PRESENT_VALUE T_float READ_WRITE True (OFloat 0),
         pdef P_UNITS (T_enum ''EngineeringUnits'') READ_WRITE True (OEnum ''EngineeringUnits'' 95),
         pdef P_COV_INCREMENT T_float READ_WRITE False ONone,
         pdef P_MIN_PRES_VALUE T_float READ_ONLY False ONone,
         pdef P_MAX_PRES_VALUE T_float READ_ONLY False ONone,
         pdef P_RESOLUTION T_float READ_ONLY False ONone],
        intrinsic_reporting_properties True],
      oc_algorithm = Some 5, oc_guard = Analog_guard, oc_polarity = False, oc_min_time = False\<rparr>"

definition new_AnalogValueObject :: "bool \<Rightarrow> int \<Rightarrow> (int \<times> py_obj) list \<Rightarrow> py_error + bac_object" where
  "new_AnalogValueObject commandable inst initial =
     rbind (new_object AnalogValueObject inst initial) (\<lambda>ob.
       Inr (init_status_flags ((if commandable then init_commandable (OFloat 0) else id) ob)))"

section \<open>\<open>objects/audit_reporter.py\<close>\<close>

definition AuditReporterObject :: object_class where
  "AuditReporterObject =
     \<lparr>oc_type = OT_AUDIT_REPORTER,
      oc_definitions = merge_definitions
       [standard_properties,
        status_properties True False ONone False,
        [pdef P_AUDIT_LEVEL T_int READ_WRITE True (OEnum ''AuditLevel'' 3),
         pdef P_AUDITABLE_OPERATIONS (T_class ''BitString'') READ_WRITE True ONone,
         pdef P_AUDIT_NOTIFICATION_RECIPIENT T_object READ_WRITE True ONone,
         pdef P_MONITORED_OBJECTS T_list READ_WRITE True (OList []),
         pdef P_AUDIT_PRIORITY_FILTER T_int READ_WRITE False (OInt 0),
         pdef P_AUDIT_SOURCE_REPORTER T_object READ_ONLY False ONone,
         pdef P_MAXIMUM_SEND_DELAY T_int READ_WRITE False (OInt 0)]],
      oc_algorithm = None, oc_guard = No_guard, oc_polarity = False, oc_min_time = False\<rparr>"

definition new_AuditReporterObject :: "int \<Rightarrow> (int \<times> py_obj) list \<Rightarrow> py_error + bac_object" where
  "new_AuditReporterObject inst initial =
     rbind (new_object AuditReporterObject inst initial) (\<lambda>ob.
       Inr (init_status_flags ob))"

section \<open>\<open>objects/averaging.py\<close>\<close>

definition AveragingObject :: object_class where
  "AveragingObject =
     \<lparr>oc_type = OT_AVERAGING,
      oc_definitions = merge_definitions
       [standard_properties,
        [pdef P_MINIMUM_VALUE T_float READ_ONLY True (OFloat 0),
         pdef P_AVERAGE_VALUE T_float READ_ONLY True (OFloat 0),
         pdef P_MAXIMUM_VALUE T_float READ_ONLY True (OFloat 0),
         pdef P_MINIMUM_VALUE_TIMESTAMP (T_class ''BACnetDateTime'') READ_ONLY False ONone,
         pdef P_MAXIMUM_VALUE_TIMESTAMP (T_class ''BACnetDateTime'') READ_ONLY False ONone,
         pdef P_VARIANCE_VALUE T_float READ_ONLY False ONone],
        status_properties True False ONone False,
        [pdef P_OBJECT_PROPERTY_REFERENCE (T_class ''BACnetDeviceObjectPropertyReference'') READ_WRITE True ONone,
         pdef P_WINDOW_INTERVAL T_int READ_WRITE True (OInt 60),
         pdef P_WINDOW_SAMPLES T_int READ_WRITE True (OInt 10),
         pdef P_ATTEMPTED_SAMPLES T_int READ_ONLY True (OInt 0),
         pdef P_VALID_SAMPLES T_int READ_ONLY True (OInt 0),
         pdef P_UNITS (T_enum ''EngineeringUnits'') READ_WRITE True (OEnum ''EngineeringUnits'' 95)]],
      oc_algorithm = None, oc_guard = No_guard, oc_polarity = False, oc_min_time = False\<rparr>"

definition new_AveragingObject :: "int \<Rightarrow> (int \<times> py_obj) list \<Rightarrow> py_error + bac_object" where
  "new_AveragingObject inst initial =
     rbind (new_object AveragingObject inst initial) (\<lambda>ob.
       Inr (init_status_flags ob))"

section \<open>\<open>objects/binary.py\<close>\<close>

definition BinaryInputObject :: object_class where
  "BinaryInputObject =
     \<lparr>oc_type = OT_BINARY_INPUT,
      oc_definitions = merge_definitions
       [standard_properties,
        [pdef P_PRESENT_VALUE (T_enum ''BinaryPV'') READ_ONLY True (OEnum ''BinaryPV'' 0),
         pdef P_DEVICE_TYPE T_str READ_WRITE False ONone],
        status_properties True False ONone True,
        [pdef P_POLARITY (T_enum ''Polarity'') READ_ONLY True (OEnum ''Polarity'' 0),
         pdef P_INACTIVE_TEXT T_str READ_WRITE False ONone,
         pdef P_ACTIVE_TEXT T_str READ_WRITE False ONone,
         pdef P_ALARM_VALUE (T_enum ''BinaryPV'') READ_WRITE False ONone],
        intrinsic_reporting_properties False],
      oc_algorithm = Some 1, oc_guard = No_guard, oc_polarity = True, oc_min_time = False\<rparr>"

definition new_BinaryInputObject :: "int \<Rightarrow> (int \<times> py_obj) list \<Rightarrow> py_error + bac_object" where
  "new_BinaryInputObject inst initial =
     rbind (new_object BinaryInputObject inst initial) (\<lambda>ob.
       Inr (init_status_flags ob))"

definition BinaryOutputObject :: object_class where
  "BinaryOutputObject =
     \<lparr>oc_type = OT_BINARY_OUTPUT,
      oc_definitions = merge_definitions
       [standard_properties,
        [pdef P_PRESENT_VALUE (T_enum ''BinaryPV'') READ_WRITE True (OEnum ''BinaryPV'' 0),
         pdef P_DEVICE_TYPE T_str READ_WRITE False ONone],
        status_properties True False ONone True,
        [pdef P_POLARITY (T_enum ''Polarity'') READ_ONLY True (OEnum ''Polarity'' 0),
         pdef P_INACTIVE_TEXT T_str READ_WRITE False ONone,
         pdef P_ACTIVE_TEXT T_str READ_WRITE False ONone,
         pdef P_MINIMUM_OFF_TIME T_int READ_WRITE False ONone,
         pdef P_MINIMUM_ON_TIME T_int READ_WRITE False ONone],
        commandable_properties (T_enum ''BinaryPV'') (OEnum ''BinaryPV'' 0) True,
        [pdef P_FEEDBACK_VALUE (T_enum ''BinaryPV'') READ_ONLY False ONone],
        intrinsic_reporting_properties False],
      oc_algorithm = Some 1, oc_guard = No_guard, oc_polarity = True, oc_min_time = True\<rparr>"

definition new_BinaryOutputObject :: "int \<Rightarrow> (int \<times> py_obj) list \<Rightarrow> py_error + bac_object" where
  "new_BinaryOutputObject inst initial =
     rbind (new_object BinaryOutputObject inst initial) (\<lambda>ob.
       Inr (init_status_flags (init_commandable (OEnum ''BinaryPV'' 0) ob)))"

definition BinaryValueObject :: object_class where
  "BinaryValueObject =
     \<lparr>oc_type = OT_BINARY_VALUE,
      oc_definitions = merge_definitions
       [standard_properties,
        [pdef P_PRESENT_VALUE (T_enum ''BinaryPV'') READ_WRITE True (OEnum ''BinaryPV'' 0)],
        status_properties True False ONone True,
        [pdef P_INACTIVE_TEXT T_str READ_WRITE False ONone,
         pdef P_ACTIVE_TEXT T_str READ_WRITE False ONone,
         pdef P_MINIMUM_OFF_TIME T_int READ_WRITE False ONone,
         pdef P_MINIMUM_ON_TIME T_int READ_WRITE False ONone],
        commandable_properties (T_enum ''BinaryPV'') (OEnum ''BinaryPV'' 0) False,
        [pdef P_ALARM_VALUE (T_enum ''BinaryPV'') READ_WRITE False ONone],
        intrinsic_reporting_properties False],
      oc_algorithm = Some 1, oc_guard = No_guard, oc_polarity = False, oc_min_time = True\<rparr>"

definition new_BinaryValueObject :: "bool \<Rightarrow> int \<Rightarrow> (int \<times> py_obj) list \<Rightarrow> py_error + bac_object" where
  "new_BinaryValueObject commandable inst initial =
     rbind (new_object BinaryValueObject inst initial) (\<lambda>ob.
       Inr (init_status_flags ((if commandable then init_commandable (OEnum ''BinaryPV'' 0) else id) ob)))"

section \<open>\<open>objects/calendar.py\<close>\<close>

definition CalendarObject :: object_class where
  "CalendarObject =
     \<lparr>oc_type = OT_CALENDAR,
      oc_definitions = merge_definitions
       [standard_properties,
        [pdef P_PRESENT_VALUE T_bool READ_ONLY True (OBool False),
         pdef P_DATE_LIST T_list READ_WRITE True ONone]],
      oc_algorithm = None, oc_guard = No_guard, oc_polarity = False, oc_min_time = False\<rparr>"

definition new_CalendarObject :: "int \<Rightarrow> (int \<times> py_obj) list \<Rightarrow> py_error + bac_object" where
  "new_CalendarObject inst initial =
     rbind (new_object CalendarObject inst initial) (\<lambda>ob.
       Inr (set_default P_DATE_LIST (OList []) ob))"

section \<open>\<open>objects/channel.py\<close>\<close>

definition ChannelObject :: object_class where
  "ChannelObject =
     \<lparr>oc_type = OT_CHANNEL,
      oc_definitions = merge_definitions
       [standard_properties,
        [pdef P_PRESENT_VALUE T_object READ_WRITE True ONone],
        status_properties True False ONone True,
        [pdef P_LAST_PRIORITY T_int READ_ONLY True ONone,
         pdef P_WRITE_STATUS (T_enum ''WriteStatus'') READ_ONLY True (OEnum ''WriteStatus'' 0),
         pdef P_LIST_OF_OBJECT_PROPERTY_REFERENCES T_list READ_WRITE True (OList []),
         pdef P_CHANNEL_NUMBER T_int READ_WRITE True ONone,
         pdef P_CONTROL_GROUPS T_list READ_WRITE True (OList []),
         pdef P_EXECUTION_DELAY T_list READ_WRITE False ONone,
         pdef P_ALLOW_GROUP_DELAY_INHIBIT T_bool READ_WRITE False ONone]],
      oc_algorithm = None, oc_guard = No_guard, oc_polarity = False, oc_min_time = False\<rparr>"

definition new_ChannelObject :: "int \<Rightarrow> int \<Rightarrow> (int \<times> py_obj) list \<Rightarrow> py_error + bac_object" where
  "new_ChannelObject channel_number inst initial =
     rbind (new_object ChannelObject inst initial) (\<lambda>ob.
       Inr (init_status_flags (set_default P_CHANNEL_NUMBER (OInt channel_number) ob)))"

section \<open>\<open>objects/command.py\<close>\<close>

definition CommandObject :: object_class where
  "CommandObject =
     \<lparr>oc_type = OT_COMMAND,
      oc_definitions = merge_definitions
       [standard_properties,
        [pdef P_PRESENT_VALUE T_int READ_WRITE True (OInt 0),
         pdef P_IN_PROCESS T_bool READ_ONLY True (OBool False),
         pdef P_ALL_WRITES_SUCCESSFUL T_bool READ_ONLY True (OBool True),
         pdef P_ACTION T_list READ_WRITE True (OList []),
         pdef P_ACTION_TEXT T_list READ_WRITE False ONone],
        status_properties True False ONone False],
      oc_algorithm = None, oc_guard = No_guard, oc_polarity = False, oc_min_time = False\<rparr>"

definition new_CommandObject :: "int \<Rightarrow> (int \<times> py_obj) list \<Rightarrow> py_error + bac_object" where
  "new_CommandObject inst initial =
     rbind (new_object CommandObject inst initial) (\<lambda>ob.
       Inr (init_status_flags ob))"

section \<open>\<open>objects/device.py\<close>\<close>

definition DeviceObject :: object_class where
  "DeviceObject =
     \<lparr>oc_type = OT_DEVICE,
      oc_definitions = merge_definitions
       [standard_properties,
        [pdef P_SYSTEM_STATUS (T_enum ''DeviceStatus'') READ_ONLY True (OEnum ''DeviceStatus'' 0),
         pdef P_VENDOR_NAME T_str READ_ONLY True ONone,
         pdef P_VENDOR_IDENTIFIER T_int READ_ONLY True ONone,
         pdef P_MODEL_NAME T_str READ_ONLY True ONone,
         pdef P_FIRMWARE_REVISION T_str READ_ONLY True ONone,
         pdef P_APPLICATION_SOFTWARE_VERSION T_str READ_ONLY True ONone,
         pdef P_PROTOCOL_VERSION T_int READ_ONLY True (OInt 1),
         pdef P_PROTOCOL_REVISION T_int READ_ONLY True (OInt 22),
         pdef P_PROTOCOL_SERVICES_SUPPORTED (T_class ''BitString'') READ_ONLY True ONone,
         pdef P_PROTOCOL_OBJECT_TYPES_SUPPORTED (T_class ''BitString'') READ_ONLY True ONone,
         pdef P_OBJECT_LIST T_list READ_ONLY True ONone,
         pdef P_MAX_APDU_LENGTH_ACCEPTED T_int READ_ONLY True (OInt 1476),
         pdef P_SEGMENTATION_SUPPORTED (T_enum ''Segmentation'') READ_ONLY True (OEnum ''Segmentation'' 0),
         pdef P_MAX_SEGMENTS_ACCEPTED T_int READ_ONLY True (OInt 64),
         pdef P_APDU_TIMEOUT T_int READ_WRITE True (OInt 6000),
         pdef P_NUMBER_OF_APDU_RETRIES T_int READ_WRITE True (OInt 3),
         pdef P_APDU_SEGMENT_TIMEOUT T_int READ_WRITE True (OInt 2000),
         pdef P_DEVICE_ADDRESS_BINDING T_list READ_ONLY True (OList []),
         pdef P_DATABASE_REVISION T_int READ_ONLY True (OInt 0),
         pdef P_ACTIVE_COV_SUBSCRIPTIONS T_list READ_ONLY False ONone,
         pdef P_BACKUP_AND_RESTORE_STATE (T_enum ''BackupAndRestoreState'') READ_ONLY False (OEnum ''BackupAndRestoreState'' 0),
         pdef P_CONFIGURATION_FILES T_list READ_ONLY False ONone,
         pdef P_LAST_RESTORE_TIME T_object READ_ONLY False ONone,
         pdef P_BACKUP_FAILURE_TIMEOUT T_int READ_WRITE False (OInt 300),
         pdef P_BACKUP_PREPARATION_TIME T_int READ_ONLY False ONone,
         pdef P_RESTORE_PREPARATION_TIME T_int READ_ONLY False ONone,
         pdef P_RESTORE_COMPLETION_TIME T_int READ_ONLY False ONone,
         pdef P_PROFILE_NAME T_str READ_WRITE False ONone,
         pdef P_PROFILE_LOCATION T_str READ_WRITE False ONone,
         pdef P_TAGS T_list READ_WRITE False ONone]],
      oc_algorithm = None, oc_guard = No_guard, oc_polarity = False, oc_min_time = False\<rparr>"

definition new_DeviceObject :: "int \<Rightarrow> (int \<times> py_obj) list \<Rightarrow> py_error + bac_object" where
  "new_DeviceObject inst initial =
     rbind (new_object DeviceObject inst initial) (\<lambda>ob.
       Inr (set_default P_OBJECT_LIST (OList []) (set_default P_PROTOCOL_OBJECT_TYPES_SUPPORTED (OBits \<lparr>bs_data = [0, 0, 0, 0, 0, 0, 0, 0], unused_bits = 0\<rparr>) (set_default P_PROTOCOL_SERVICES_SUPPORTED (OBits \<lparr>bs_data = [0, 0, 0, 0, 0], unused_bits = 0\<rparr>) ob))))"

section \<open>\<open>objects/event_enrollment.py\<close>\<close>

definition EventEnrollmentObject :: object_class where
  "EventEnrollmentObject =
     \<lparr>oc_type = OT_EVENT_ENROLLMENT,
      oc_definitions = merge_definitions
       [standard_properties,
        [pdef P_EVENT_TYPE (T_enum ''EventType'') READ_ONLY True ONone,
         pdef P_EVENT_PARAMETERS T_object READ_WRITE True ONone,
         pdef P_OBJECT_PROPERTY_REFERENCE (T_class ''BACnetDeviceObjectPropertyReference'') READ_WRITE True ONone],
        status_properties True True (OEnum ''Reliability'' 0) False,
        [pdef P_EVENT_ENABLE T_list READ_WRITE True ONone,
         pdef P_ACKED_TRANSITIONS T_list READ_ONLY True ONone,
         pdef P_NOTIFY_TYPE (T_enum ''NotifyType'') READ_WRITE True (OEnum ''NotifyType'' 0),
         pdef P_EVENT_TIME_STAMPS T_list READ_ONLY True ONone,
         pdef P_NOTIFICATION_CLASS T_int READ_WRITE True ONone,
         pdef P_EVENT_DETECTION_ENABLE T_bool READ_WRITE True (OBool True)]],
      oc_algorithm = None, oc_guard = No_guard, oc_polarity = False, oc_min_time = False\<rparr>"

definition new_EventEnrollmentObject :: "int \<Rightarrow> (int \<times> py_obj) list \<Rightarrow> py_error + bac_object" where
  "new_EventEnrollmentObject inst initial =
     rbind (new_object EventEnrollmentObject inst initial) (\<lambda>ob.
       Inr (init_status_flags (set_default P_NOTIFICATION_CLASS (OInt 0) (set_default P_EVENT_TIME_STAMPS (OList [ONone, ONone, ONone]) (set_default P_ACKED_TRANSITIONS (OList [OBool True, OBool True, OBool True]) (set_default P_EVENT_ENABLE (OList [OBool True, OBool True, OBool True]) (set_default P_OBJECT_PROPERTY_REFERENCE ONone (set_default P_EVENT_PARAMETERS ONone (set_default P_EVENT_TYPE (OEnum ''EventType'' 0) ob)))))))))"

section \<open>\<open>objects/event_log.py\<close>\<close>

definition EventLogObject :: object_class where
  "EventLogObject =
     \<lparr>oc_type = OT_EVENT_LOG,
      oc_definitions = merge_definitions
       [standard_properties,
        status_properties True False ONone False,
        [pdef P_LOG_ENABLE T_bool READ_WRITE True (OBool False),
         pdef P_STOP_WHEN_FULL T_bool READ_WRITE True (OBool False),
         pdef P_BUFFER_SIZE T_int READ_WRITE True (OInt 0),
         pdef P_LOG_BUFFER T_list READ_ONLY True ONone,
         pdef P_RECORD_COUNT T_int READ_WRITE True (OInt 0),
         pdef P_TOTAL_RECORD_COUNT T_int READ_ONLY True (OInt 0),
         pdef P_NOTIFICATION_CLASS T_int READ_WRITE False ONone,
         pdef P_START_TIME (T_class ''BACnetDateTime'') READ_WRITE False ONone,
         pdef P_STOP_TIME (T_class ''BACnetDateTime'') READ_WRITE False ONone,
         pdef P_LOGGING_TYPE (T_enum ''LoggingType'') READ_ONLY True (OEnum ''LoggingType'' 2),
         pdef P_NOTIFICATION_THRESHOLD T_int READ_WRITE False ONone,
         pdef P_RECORDS_SINCE_NOTIFICATION T_int READ_ONLY False (OInt 0),
         pdef P_LAST_NOTIFY_RECORD T_int READ_ONLY False (OInt 0)]],
      oc_algorithm = None, oc_guard = No_guard, oc_polarity = False, oc_min_time = False\<rparr>"

definition new_EventLogObject :: "int \<Rightarrow> (int \<times> py_obj) list \<Rightarrow> py_error + bac_object" where
  "new_EventLogObject inst initial =
     rbind (new_object EventLogObject inst initial) (\<lambda>ob.
       Inr (set_default P_LOG_BUFFER (OList []) (init_status_flags ob)))"

section \<open>\<open>objects/global_group.py\<close>\<close>

definition GlobalGroupObject :: object_class where
  "GlobalGroupObject =
     \<lparr>oc_type = OT_GLOBAL_GROUP,
      oc_definitions = merge_definitions
       [standard_properties,
        [pdef P_GROUP_MEMBERS T_list READ_WRITE True (OList []),
         pdef P_GROUP_MEMBER_NAMES T_list READ_WRITE False ONone,
         pdef P_PRESENT_VALUE T_list READ_ONLY True (OList [])],
        status_properties True False ONone False,
        [pdef P_MEMBER_STATUS_FLAGS T_list READ_ONLY False ONone,
         pdef P_REQUESTED_UPDATE_INTERVAL T_int READ_WRITE False ONone,
         pdef P_COVU_PERIOD T_int READ_WRITE False ONone,
         pdef P_COVU_RECIPIENTS T_list READ_WRITE False ONone]],
      oc_algorithm = None, oc_guard = No_guard, oc_polarity = False, oc_min_time = False\<rparr>"

definition new_GlobalGroupObject :: "int \<Rightarrow> (int \<times> py_obj) list \<Rightarrow> py_error + bac_object" where
  "new_GlobalGroupObject inst initial =
     rbind (new_object GlobalGroupObject inst initial) (\<lambda>ob.
       Inr (init_status_flags ob))"

section \<open>\<open>objects/group.py\<close>\<close>

definition GroupObject :: object_class where
  "GroupObject =
     \<lparr>oc_type = OT_GROUP,
      oc_definitions = merge_definitions
       [standard_properties,
        [pdef P_LIST_OF_GROUP_MEMBERS T_list READ_WRITE True (OList []),
         pdef P_PRESENT_VALUE T_list READ_ONLY True (OList [])]],
      oc_algorithm = None, oc_guard = No_guard, oc_polarity = False, oc_min_time = False\<rparr>"

definition new_GroupObject :: "int \<Rightarrow> (int \<times> py_obj) list \<Rightarrow> py_error + bac_object" where
  "new_GroupObject inst initial =
     new_object GroupObject inst initial"

section \<open>\<open>objects/life_safety.py\<close>\<close>

definition LifeSafetyPointObject :: object_class where
  "LifeSafetyPointObject =
     \<lparr>oc_type = OT_LIFE_SAFETY_POINT,
      oc_definitions = merge_definitions
       [standard_properties,
        [pdef P_PRESENT_VALUE (T_enum ''LifeSafetyState'') READ_ONLY True (OEnum ''LifeSafetyState'' 0),
         pdef P_TRACKING_VALUE (T_enum ''LifeSafetyState'') READ_ONLY True (OEnum ''LifeSafetyState'' 0)],
        status_properties True True (OEnum ''Reliability'' 0) True,
        [pdef P_MODE (T_enum ''LifeSafetyMode'') READ_WRITE True (OEnum ''LifeSafetyMode'' 1),
         pdef P_ACCEPTED_MODES T_list READ_ONLY True ONone,
         pdef P_SILENCED (T_enum ''SilencedState'') READ_ONLY True (OEnum ''SilencedState'' 0),
         pdef P_OPERATION_EXPECTED (T_enum ''LifeSafetyOperation'') READ_ONLY True (OEnum ''LifeSafetyOperation'' 0),
         pdef P_SETTING T_int READ_WRITE False ONone,
         pdef P_DIRECT_READING T_float READ_ONLY False ONone,
         pdef P_UNITS T_int READ_ONLY False ONone,
         pdef P_MEMBER_OF T_list READ_ONLY False ONone,
         pdef P_ALARM_VALUES T_list READ_WRITE False ONone,
         pdef P_FAULT_VALUES T_list READ_WRITE False ONone,
         pdef P_LIFE_SAFETY_ALARM_VALUES T_list READ_WRITE False ONone,
         pdef P_NOTIFICATION_CLASS T_int READ_WRITE False ONone,
         pdef P_EVENT_ENABLE T_list READ_WRITE False ONone,
         pdef P_TIME_DELAY T_int READ_WRITE False ONone]],
      oc_algorithm = Some 8, oc_guard = No_guard, oc_polarity = False, oc_min_time = False\<rparr>"

definition new_LifeSafetyPointObject :: "int \<Rightarrow> (int \<times> py_obj) list \<Rightarrow> py_error + bac_object" where
  "new_LifeSafetyPointObject inst initial =
     rbind (new_object LifeSafetyPointObject inst initial) (\<lambda>ob.
       Inr (init_status_flags ob))"

definition LifeSafetyZoneObject :: object_class where
  "LifeSafetyZoneObject =
     \<lparr>oc_type = OT_LIFE_SAFETY_ZONE,
      oc_definitions = merge_definitions
       [standard_properties,
        [pdef P_PRESENT_VALUE (T_enum ''LifeSafetyState'') READ_ONLY True (OEnum ''LifeSafetyState'' 0),
         pdef P_TRACKING_VALUE (T_enum ''LifeSafetyState'') READ_ONLY True (OEnum ''LifeSafetyState'' 0)],
        status_properties True True (OEnum ''Reliability'' 0) True,
        [pdef P_MODE (T_enum ''LifeSafetyMode'') READ_WRITE True (OEnum ''LifeSafetyMode'' 1),
         pdef P_ACCEPTED_MODES T_list READ_ONLY True ONone,
         pdef P_SILENCED (T_enum ''SilencedState'') READ_ONLY True (OEnum ''SilencedState'' 0),
         pdef P_OPERATION_EXPECTED (T_enum ''LifeSafetyOperation'') READ_ONLY True (OEnum ''LifeSafetyOperation'' 0),
         pdef P_ZONE_MEMBERS T_list READ_ONLY True (OList []),
         pdef P_MEMBER_OF T_list READ_ONLY False ONone,
         pdef P_ALARM_VALUES T_list READ_WRITE False ONone,
         pdef P_FAULT_VALUES T_list READ_WRITE False ONone,
         pdef P_LIFE_SAFETY_ALARM_VALUES T_list READ_WRITE False ONone,
         pdef P_NOTIFICATION_CLASS T_int READ_WRITE False ONone,
         pdef P_EVENT_ENABLE T_list READ_WRITE False ONone,
         pdef P_TIME_DELAY T_int READ_WRITE False ONone]],
      oc_algorithm = Some 8, oc_guard = No_guard, oc_polarity = False, oc_min_time = False\<rparr>"

definition new_LifeSafetyZoneObject :: "int \<Rightarrow> (int \<times> py_obj) list \<Rightarrow> py_error + bac_object" where
  "new_LifeSafetyZoneObject inst initial =
     rbind (new_object LifeSafetyZoneObject inst initial) (\<lambda>ob.
       Inr (init_status_flags ob))"

section \<open>\<open>objects/lighting.py\<close>\<close>

definition LightingOutputObject :: object_class where
  "LightingOutputObject =
     \<lparr>oc_type = OT_LIGHTING_OUTPUT,
      oc_definitions = merge_definitions
       [standard_properties,
        [pdef P_PRESENT_VALUE T_float READ_WRITE True (OFloat 0),
         pdef P_TRACKING_VALUE T_float READ_ONLY True (OFloat 0),
         pdef P_LIGHTING_COMMAND (T_class ''BACnetLightingCommand'') READ_WRITE True ONone,
         pdef P_IN_PROGRESS (T_enum ''LightingInProgress'') READ_ONLY True (OEnum ''LightingInProgress'' 0)],
        status_properties True False ONone True,
        commandable_properties T_float (OFloat 0) True,
        [pdef P_LIGHTING_COMMAND_DEFAULT_PRIORITY T_int READ_WRITE True (OInt 16),
         pdef P_COV_INCREMENT T_float READ_WRITE False ONone,
         pdef P_BLINK_WARN_ENABLE T_bool READ_WRITE False (OBool False),
         pdef P_EGRESS_TIME T_int READ_WRITE False ONone,
         pdef P_EGRESS_ACTIVE T_bool READ_ONLY False (OBool False),
         pdef P_DEFAULT_FADE_TIME T_int READ_WRITE True (OInt 0),
         pdef P_DEFAULT_RAMP_RATE T_float READ_WRITE True (OFloat 0x4059000000000000),
         pdef P_DEFAULT_STEP_INCREMENT T_float READ_WRITE True (OFloat 0x3FF0000000000000),
         pdef P_TRANSITION (T_enum ''LightingOperation'') READ_ONLY False ONone,
         pdef P_INSTANTANEOUS_POWER T_float READ_ONLY False ONone,
         pdef P_MIN_ACTUAL_VALUE T_float READ_WRITE False ONone,
         pdef P_MAX_ACTUAL_VALUE T_float READ_WRITE False ONone,
         pdef P_POWER T_float READ_ONLY False ONone],
        intrinsic_reporting_properties True],
      oc_algorithm = Some 5, oc_guard = No_guard, oc_polarity = False, oc_min_time = False\<rparr>"

definition new_LightingOutputObject :: "int \<Rightarrow> (int \<times> py_obj) list \<Rightarrow> py_error + bac_object" where
  "new_LightingOutputObject inst initial =
     rbind (new_object LightingOutputObject inst initial) (\<lambda>ob.
       Inr (init_status_flags (init_commandable (OFloat 0) ob)))"

definition BinaryLightingOutputObject :: object_class where
  "BinaryLightingOutputObject =
     \<lparr>oc_type = OT_BINARY_LIGHTING_OUTPUT,
      oc_definitions = merge_definitions
       [standard_properties,
        [pdef P_PRESENT_VALUE (T_enum ''BinaryPV'') READ_WRITE True (OEnum ''BinaryPV'' 0)],
        status_properties True False ONone True,
        commandable_properties (T_enum ''BinaryPV'') (OEnum ''BinaryPV'' 0) True,
        [pdef P_LIGHTING_COMMAND (T_class ''BACnetLightingCommand'') READ_WRITE True ONone,
         pdef P_LIGHTING_COMMAND_DEFAULT_PRIORITY T_int READ_WRITE True (OInt 16),
         pdef P_BLINK_WARN_ENABLE T_bool READ_WRITE False (OBool False),
         pdef P_EGRESS_TIME T_int READ_WRITE False ONone,
         pdef P_EGRESS_ACTIVE T_bool READ_ONLY False (OBool False),
         pdef P_POWER T_float READ_ONLY False ONone,
         pdef P_INSTANTANEOUS_POWER T_float READ_ONLY False ONone,
         pdef P_FEEDBACK_VALUE (T_enum ''BinaryPV'') READ_ONLY False ONone],
        intrinsic_reporting_properties False],
      oc_algorithm = Some 1, oc_guard = No_guard, oc_polarity = False, oc_min_time = False\<rparr>"

definition new_BinaryLightingOutputObject :: "int \<Rightarrow> (int \<times> py_obj) list \<Rightarrow> py_error + bac_object" where
  "new_BinaryLightingOutputObject inst initial =
     rbind (new_object BinaryLightingOutputObject inst initial) (\<lambda>ob.
       Inr (init_status_flags (init_commandable (OEnum ''BinaryPV'' 0) ob)))"

section \<open>\<open>objects/load_control.py\<close>\<close>

definition LoadControlObject :: object_class where
  "LoadControlObject =
     \<lparr>oc_type = OT_LOAD_CONTROL,
      oc_definitions = merge_definitions
       [standard_properties,
        [pdef P_PRESENT_VALUE (T_enum ''ShedState'') READ_ONLY True (OEnum ''ShedState'' 0)],
        status_properties True False ONone True,
        [pdef P_STATE_DESCRIPTION T_str READ_ONLY False ONone,
         pdef P_REQUESTED_SHED_LEVEL (T_class ''BACnetShedLevel'') READ_WRITE True ONone,
         pdef P_EXPECTED_SHED_LEVEL (T_class ''BACnetShedLevel'') READ_ONLY True ONone,
         pdef P_ACTUAL_SHED_LEVEL (T_class ''BACnetShedLevel'') READ_ONLY True ONone,
         pdef P_SHED_DURATION T_int READ_WRITE True (OInt 0),
         pdef P_DUTY_WINDOW T_int READ_WRITE True (OInt 0),
         pdef P_FULL_DUTY_BASELINE T_float READ_WRITE False ONone,
         pdef P_SHED_LEVELS T_list READ_WRITE True (OList []),
         pdef P_SHED_LEVEL_DESCRIPTIONS T_list READ_WRITE True (OList []),
         pdef P_START_TIME (T_class ''BACnetDateTime'') READ_ONLY True ONone,
         pdef P_NOTIFICATION_CLASS T_int READ_WRITE False ONone]],
      oc_algorithm = None, oc_guard = No_guard, oc_polarity = False, oc_min_time = False\<rparr>"

definition new_LoadControlObject :: "int \<Rightarrow> (int \<times> py_obj) list \<Rightarrow> py_error + bac_object" where
  "new_LoadControlObject inst initial =
     rbind (new_object LoadControlObject inst initial) (\<lambda>ob.
       Inr (init_status_flags ob))"

section \<open>\<open>objects/loop.py\<close>\<close>

definition LoopObject :: object_class where
  "LoopObject =
     \<lparr>oc_type = OT_LOOP,
      oc_definitions = merge_definitions
       [standard_properties,
        [pdef P_PRESENT_VALUE T_float READ_WRITE True (OFloat 0)],
        status_properties True False ONone True,
        [pdef P_CONTROLLED_VARIABLE_REFERENCE (T_class ''BACnetObjectPropertyReference'') READ_WRITE True ONone,
         pdef P_CONTROLLED_VARIABLE_VALUE T_float READ_ONLY True (OFloat 0),
         pdef P_CONTROLLED_VARIABLE_UNITS (T_enum ''EngineeringUnits'') READ_ONLY True (OEnum ''EngineeringUnits'' 95),
         pdef P_MANIPULATED_VARIABLE_REFERENCE (T_class ''BACnetObjectPropertyReference'') READ_WRITE True ONone,
         pdef P_SETPOINT_REFERENCE (T_class ''BACnetObjectPropertyReference'') READ_WRITE True ONone,
         pdef P_SETPOINT T_float READ_WRITE True (OFloat 0),
         pdef P_ACTION (T_enum ''Action'') READ_WRITE True (OEnum ''Action'' 0),
         pdef P_PROPORTIONAL_CONSTANT T_float READ_WRITE False (OFloat 0),
         pdef P_PROPORTIONAL_CONSTANT_UNITS (T_enum ''EngineeringUnits'') READ_ONLY False (OEnum ''EngineeringUnits'' 95),
         pdef P_INTEGRAL_CONSTANT T_float READ_WRITE False (OFloat 0),
         pdef P_INTEGRAL_CONSTANT_UNITS (T_enum ''EngineeringUnits'') READ_ONLY False (OEnum ''EngineeringUnits'' 95),
         pdef P_DERIVATIVE_CONSTANT T_float READ_WRITE False (OFloat 0),
         pdef P_DERIVATIVE_CONSTANT_UNITS (T_enum ''EngineeringUnits'') READ_ONLY False (OEnum ''EngineeringUnits'' 95),
         pdef P_MAXIMUM_OUTPUT T_float READ_WRITE False (OFloat 0x4059000000000000),
         pdef P_MINIMUM_OUTPUT T_float READ_WRITE False (OFloat 0),
         pdef P_PRIORITY_FOR_WRITING T_int READ_WRITE True (OInt 16),
         pdef P_UPDATE_INTERVAL T_int READ_WRITE False (OInt 100),
         pdef P_OUTPUT_UNITS (T_enum ''EngineeringUnits'') READ_WRITE True (OEnum ''EngineeringUnits'' 95),
         pdef P_BIAS T_float READ_WRITE False ONone,
         pdef P_COV_INCREMENT T_float READ_WRITE False ONone,
         pdef P_ERROR_LIMIT T_float READ_WRITE False ONone,
         pdef P_DEADBAND T_float READ_WRITE False ONone,
         pdef P_NOTIFICATION_CLASS T_int READ_WRITE False ONone,
         pdef P_EVENT_ENABLE T_list READ_WRITE False ONone,
         pdef P_TIME_DELAY T_int READ_WRITE False ONone]],
      oc_algorithm = Some 4, oc_guard = No_guard, oc_polarity = False, oc_min_time = False\<rparr>"

definition new_LoopObject :: "int \<Rightarrow> (int \<times> py_obj) list \<Rightarrow> py_error + bac_object" where
  "new_LoopObject inst initial =
     rbind (new_object LoopObject inst initial) (\<lambda>ob.
       Inr (set_default P_SETPOINT_REFERENCE ONone (set_default P_MANIPULATED_VARIABLE_REFERENCE ONone (set_default P_CONTROLLED_VARIABLE_REFERENCE ONone (init_status_flags ob)))))"

section \<open>\<open>objects/multistate.py\<close>\<close>

definition MultiStateInputObject :: object_class where
  "MultiStateInputObject =
     \<lparr>oc_type = OT_MULTI_STATE_INPUT,
      oc_definitions = merge_definitions
       [standard_properties,
        status_properties True False ONone True,
        [pdef P_PRESENT_VALUE T_int READ_ONLY True (OInt 1),
         pdef P_DEVICE_TYPE T_str READ_WRITE False ONone,
         pdef P_NUMBER_OF_STATES T_int READ_ONLY True ONone,
         pdef P_STATE_TEXT T_list READ_WRITE False ONone,
         pdef P_FAULT_VALUES T_list READ_WRITE False ONone,
         pdef P_ALARM_VALUES T_list READ_WRITE False ONone],
        intrinsic_reporting_properties False],
      oc_algorithm = Some 1, oc_guard = Multistate_guard, oc_polarity = False, oc_min_time = False\<rparr>"

definition new_MultiStateInputObject :: "int \<Rightarrow> int \<Rightarrow> (int \<times> py_obj) list \<Rightarrow> py_error + bac_object" where
  "new_MultiStateInputObject number_of_states inst initial =
     rbind (new_object MultiStateInputObject inst initial) (\<lambda>ob.
       Inr (init_status_flags (set_default P_NUMBER_OF_STATES (OInt number_of_states) ob)))"

definition MultiStateOutputObject :: object_class where
  "MultiStateOutputObject =
     \<lparr>oc_type = OT_MULTI_STATE_OUTPUT,
      oc_definitions = merge_definitions
       [standard_properties,
        status_properties True False ONone True,
        [pdef P_PRESENT_VALUE T_int READ_WRITE True (OInt 1),
         pdef P_DEVICE_TYPE T_str READ_WRITE False ONone,
         pdef P_NUMBER_OF_STATES T_int READ_ONLY True ONone,
         pdef P_STATE_TEXT T_list READ_WRITE False ONone],
        commandable_properties T_int (OInt 1) True,
        intrinsic_reporting_properties False],
      oc_algorithm = Some 1, oc_guard = Multistate_guard, oc_polarity = False, oc_min_time = False\<rparr>"

definition new_MultiStateOutputObject :: "int \<Rightarrow> int \<Rightarrow> (int \<times> py_obj) list \<Rightarrow> py_error + bac_object" where
  "new_MultiStateOutputObject number_of_states inst initial =
     rbind (new_object MultiStateOutputObject inst initial) (\<lambda>ob.
       Inr (init_status_flags (init_commandable (OInt 1) (set_default P_NUMBER_OF_STATES (OInt number_of_states) ob))))"

definition MultiStateValueObject :: object_class where
  "MultiStateValueObject =
     \<lparr>oc_type = OT_MULTI_STATE_VALUE,
      oc_definitions = merge_definitions
       [standard_properties,
        status_properties True False ONone True,
        [pdef P_PRESENT_VALUE T_int READ_WRITE True (OInt 1),
         pdef P_NUMBER_OF_STATES T_int READ_ONLY True ONone,
         pdef P_STATE_TEXT T_list READ_WRITE False ONone],
        commandable_properties T_int (OInt 1) False,
        [pdef P_FAULT_VALUES T_list READ_WRITE False ONone,
         pdef P_ALARM_VALUES T_list READ_WRITE False ONone],
        intrinsic_reporting_properties False],
      oc_algorithm = Some 1, oc_guard = Multistate_guard, oc_polarity = False, oc_min_time = False\<rparr>"

definition new_MultiStateValueObject :: "bool \<Rightarrow> int \<Rightarrow> int \<Rightarrow> (int \<times> py_obj) list \<Rightarrow> py_error + bac_object" where
  "new_MultiStateValueObject commandable number_of_states inst initial =
     rbind (new_object MultiStateValueObject inst initial) (\<lambda>ob.
       Inr (init_status_flags ((if commandable then init_commandable (OInt 1) else id) (set_default P_NUMBER_OF_STATES (OInt number_of_states) ob))))"

section \<open>\<open>objects/network_port.py\<close>\<close>

definition NetworkPortObject :: object_class where
  "NetworkPortObject =
     \<lparr>oc_type = OT_NETWORK_PORT,
      oc_definitions = merge_definitions
       [standard_properties,
        status_properties True True (OEnum ''Reliability'' 0) True,
        [pdef P_NETWORK_TYPE (T_enum ''NetworkType'') READ_ONLY True ONone,
         pdef P_PROTOCOL_LEVEL (T_enum ''ProtocolLevel'') READ_ONLY True (OEnum ''ProtocolLevel'' 2),
         pdef P_NETWORK_NUMBER T_int READ_WRITE True (OInt 0),
         pdef P_NETWORK_NUMBER_QUALITY (T_enum ''NetworkNumberQuality'') READ_ONLY True (OEnum ''NetworkNumberQuality'' 0),
         pdef P_CHANGES_PENDING T_bool READ_ONLY True (OBool False),
         pdef P_COMMAND (T_enum ''NetworkPortCommand'') READ_WRITE True (OEnum ''NetworkPortCommand'' 0),
         pdef P_MAC_ADDRESS T_bytes READ_ONLY True ONone,
         pdef P_APDU_LENGTH T_int READ_ONLY True (OInt 1476),
         pdef P_LINK_SPEED T_float READ_ONLY True (OFloat 0),
         pdef P_BACNET_IP_MODE (T_enum ''IPMode'') READ_WRITE False ONone,
         pdef P_IP_ADDRESS T_bytes READ_WRITE False ONone,
         pdef P_BACNET_IP_UDP_PORT T_int READ_WRITE False ONone,
         pdef P_IP_SUBNET_MASK T_bytes READ_WRITE False ONone,
         pdef P_IP_DEFAULT_GATEWAY T_bytes READ_WRITE False ONone,
         pdef P_IP_DHCP_ENABLE T_bool READ_WRITE False ONone,
         pdef P_IP_DNS_SERVER T_list READ_WRITE False ONone,
         pdef P_BBMD_ACCEPT_FD_REGISTRATIONS T_bool READ_WRITE False ONone,
         pdef P_BBMD_BROADCAST_DISTRIBUTION_TABLE T_list READ_WRITE False ONone,
         pdef P_FD_BBMD_ADDRESS T_bytes READ_WRITE False ONone,
         pdef P_BACNET_IP_NAT_TRAVERSAL T_bool READ_WRITE False ONone,
         pdef P_BACNET_IP_GLOBAL_ADDRESS T_bytes READ_WRITE False ONone,
         pdef P_BACNET_IPV6_MODE (T_enum ''IPMode'') READ_WRITE False ONone,
         pdef P_BACNET_IPV6_UDP_PORT T_int READ_WRITE False ONone,
         pdef P_BACNET_IPV6_MULTICAST_ADDRESS T_bytes READ_WRITE False ONone,
         pdef P_IPV6_ADDRESS T_bytes READ_WRITE False ONone,
         pdef P_IPV6_PREFIX_LENGTH T_int READ_WRITE False ONone,
         pdef P_IPV6_DEFAULT_GATEWAY T_bytes READ_WRITE False ONone,
         pdef P_IPV6_DNS_SERVER T_list READ_WRITE False ONone,
         pdef P_IPV6_AUTO_ADDRESSING_ENABLE T_bool READ_WRITE False ONone,
         pdef P_VIRTUAL_MAC_ADDRESS_TABLE T_list READ_ONLY False ONone,
         pdef P_MAX_MASTER T_int READ_WRITE False ONone,
         pdef P_MAX_INFO_FRAMES T_int READ_WRITE False ONone]],
      oc_algorithm = None, oc_guard = No_guard, oc_polarity = False, oc_min_time = False\<rparr>"

definition new_NetworkPortObject :: "int \<Rightarrow> int \<Rightarrow> (int \<times> py_obj) list \<Rightarrow> py_error + bac_object" where
  "new_NetworkPortObject network_type inst initial =
     rbind (new_object NetworkPortObject inst initial) (\<lambda>ob.
       Inr (init_status_flags (set_default P_NETWORK_TYPE (OEnum ''NetworkType'' network_type) ob)))"

section \<open>\<open>objects/notification.py\<close>\<close>

definition NotificationClassObject :: object_class where
  "NotificationClassObject =
     \<lparr>oc_type = OT_NOTIFICATION_CLASS,
      oc_definitions = merge_definitions
       [standard_properties,
        [pdef P_NOTIFICATION_CLASS T_int READ_ONLY True ONone,
         pdef P_PRIORITY T_list READ_WRITE True ONone,
         pdef P_ACK_REQUIRED T_list READ_WRITE True ONone,
         pdef P_RECIPIENT_LIST T_list READ_WRITE True ONone]],
      oc_algorithm = None, oc_guard = No_guard, oc_polarity = False, oc_min_time = False\<rparr>"

definition new_NotificationClassObject :: "int \<Rightarrow> (int \<times> py_obj) list \<Rightarrow> py_error + bac_object" where
  "new_NotificationClassObject inst initial =
     rbind (new_object NotificationClassObject inst initial) (\<lambda>ob.
       Inr (set_default P_RECIPIENT_LIST (OList []) (set_default P_ACK_REQUIRED (OList [OBool False, OBool False, OBool False]) (set_default P_PRIORITY (OList [OInt 0, OInt 0, OInt 0]) (set_default P_NOTIFICATION_CLASS (OInt inst) ob)))))"

section \<open>\<open>objects/notification_forwarder.py\<close>\<close>

definition NotificationForwarderObject :: object_class where
  "NotificationForwarderObject =
     \<lparr>oc_type = OT_NOTIFICATION_FORWARDER,
      oc_definitions = merge_definitions
       [standard_properties,
        status_properties True False ONone False,
        [pdef P_PROCESS_IDENTIFIER_FILTER T_object READ_WRITE True ONone,
         pdef P_SUBSCRIBED_RECIPIENTS T_list READ_WRITE True (OList []),
         pdef P_PORT_FILTER T_list READ_WRITE False ONone,
         pdef P_LOCAL_FORWARDING_ONLY T_bool READ_WRITE True (OBool True)]],
      oc_algorithm = None, oc_guard = No_guard, oc_polarity = False, oc_min_time = False\<rparr>"

definition new_NotificationForwarderObject :: "int \<Rightarrow> (int \<times> py_obj) list \<Rightarrow> py_error + bac_object" where
  "new_NotificationForwarderObject inst initial =
     rbind (new_object NotificationForwarderObject inst initial) (\<lambda>ob.
       Inr (init_status_flags ob))"

section \<open>\<open>objects/program.py\<close>\<close>

definition ProgramObject :: object_class where
  "ProgramObject =
     \<lparr>oc_type = OT_PROGRAM,
      oc_definitions = merge_definitions
       [standard_properties,
        [pdef P_PROGRAM_STATE (T_enum ''ProgramState'') READ_ONLY True (OEnum ''ProgramState'' 0),
         pdef P_PROGRAM_CHANGE (T_enum ''ProgramChange'') READ_WRITE True (OEnum ''ProgramChange'' 0)],
        status_properties False False ONone True,
        [pdef P_REASON_FOR_HALT T_int READ_ONLY False ONone,
         pdef P_DESCRIPTION_OF_HALT T_str READ_ONLY False ONone,
         pdef P_PROGRAM_LOCATION T_str READ_ONLY False ONone,
         pdef P_INSTANCE_OF T_str READ_ONLY False ONone]],
      oc_algorithm = None, oc_guard = No_guard, oc_polarity = False, oc_min_time = False\<rparr>"

definition new_ProgramObject :: "int \<Rightarrow> (int \<times> py_obj) list \<Rightarrow> py_error + bac_object" where
  "new_ProgramObject inst initial =
     rbind (new_object ProgramObject inst initial) (\<lambda>ob.
       Inr (init_status_flags ob))"

section \<open>\<open>objects/pulse_converter.py\<close>\<close>

definition PulseConverterObject :: object_class where
  "PulseConverterObject =
     \<lparr>oc_type = OT_PULSE_CONVERTER,
      oc_definitions = merge_definitions
       [standard_properties,
        [pdef P_PRESENT_VALUE T_float READ_WRITE True (OFloat 0)],
        status_properties True False ONone True,
        [pdef P_UNITS (T_enum ''EngineeringUnits'') READ_WRITE True (OEnum ''EngineeringUnits'' 95),
         pdef P_SCALE_FACTOR T_float READ_WRITE True (OFloat 0x3FF0000000000000),
         pdef P_INPUT_REFERENCE T_object READ_WRITE True ONone,
         pdef P_COUNT T_int READ_WRITE True (OInt 0),
         pdef P_COUNT_BEFORE_CHANGE T_int READ_ONLY True (OInt 0),
         pdef P_COUNT_CHANGE_TIME T_object READ_ONLY True ONone,
         pdef P_UPDATE_TIME T_object READ_ONLY True ONone,
         pdef P_COV_INCREMENT T_float READ_WRITE False ONone,
         pdef P_COV_PERIOD T_int READ_WRITE False ONone,
         pdef P_ADJUST_VALUE T_float READ_WRITE False ONone,
         pdef P_LIMIT_MONITORING_INTERVAL T_int READ_WRITE False ONone],
        commandable_properties T_float (OFloat 0) False,
        intrinsic_reporting_properties True],
      oc_algorithm = Some 5, oc_guard = No_guard, oc_polarity = False, oc_min_time = False\<rparr>"

definition new_PulseConverterObject :: "bool \<Rightarrow> int \<Rightarrow> (int \<times> py_obj) list \<Rightarrow> py_error + bac_object" where
  "new_PulseConverterObject commandable inst initial =
     rbind (new_object PulseConverterObject inst initial) (\<lambda>ob.
       Inr (init_status_flags ((if commandable then init_commandable (OFloat 0) else id) ob)))"

section \<open>\<open>objects/schedule.py\<close>\<close>

definition ScheduleObject :: object_class where
  "ScheduleObject =
     \<lparr>oc_type = OT_SCHEDULE,
      oc_definitions = merge_definitions
       [standard_properties,
        [pdef P_PRESENT_VALUE T_object READ_ONLY True ONone,
         pdef P_EFFECTIVE_PERIOD (T_class ''BACnetDateRange'') READ_WRITE True ONone,
         pdef P_WEEKLY_SCHEDULE T_list READ_WRITE False ONone,
         pdef P_EXCEPTION_SCHEDULE T_list READ_WRITE False ONone,
         pdef P_SCHEDULE_DEFAULT T_object READ_WRITE True ONone,
         pdef P_LIST_OF_OBJECT_PROPERTY_REFERENCES T_list READ_WRITE True ONone,
         pdef P_PRIORITY_FOR_WRITING T_int READ_WRITE True (OInt 16)],
        status_properties False True (OEnum ''Reliability'' 0) True],
      oc_algorithm = None, oc_guard = No_guard, oc_polarity = False, oc_min_time = False\<rparr>"

definition new_ScheduleObject :: "int \<Rightarrow> (int \<times> py_obj) list \<Rightarrow> py_error + bac_object" where
  "new_ScheduleObject inst initial =
     rbind (new_object ScheduleObject inst initial) (\<lambda>ob.
       Inr (set_default P_SCHEDULE_DEFAULT ONone (set_default P_PRIORITY_FOR_WRITING (OInt 16) (set_default P_LIST_OF_OBJECT_PROPERTY_REFERENCES (OList []) (set_default P_EFFECTIVE_PERIOD (ODateRange \<lparr>year = 1900, month = 1, day = 1, day_of_week = 255\<rparr> \<lparr>year = 2155, month = 12, day = 31, day_of_week = 255\<rparr>) (init_status_flags ob))))))"

section \<open>\<open>objects/staging.py\<close>\<close>

definition StagingObject :: object_class where
  "StagingObject =
     \<lparr>oc_type = OT_STAGING,
      oc_definitions = merge_definitions
       [standard_properties,
        [pdef P_PRESENT_VALUE T_object READ_WRITE True ONone],
        status_properties True False ONone True,
        [pdef P_PRESENT_STAGE (T_enum ''StagingState'') READ_ONLY True (OEnum ''StagingState'' 0),
         pdef P_STAGES T_list READ_WRITE True ONone,
         pdef P_STAGE_NAMES T_list READ_WRITE False ONone,
         pdef P_TARGET_REFERENCES T_list READ_WRITE True ONone]],
      oc_algorithm = None, oc_guard = No_guard, oc_polarity = False, oc_min_time = False\<rparr>"

definition new_StagingObject :: "int \<Rightarrow> (int \<times> py_obj) list \<Rightarrow> py_error + bac_object" where
  "new_StagingObject inst initial =
     rbind (new_object StagingObject inst initial) (\<lambda>ob.
       Inr (init_status_flags ob))"

section \<open>\<open>objects/structured_view.py\<close>\<close>

definition StructuredViewObject :: object_class where
  "StructuredViewObject =
     \<lparr>oc_type = OT_STRUCTURED_VIEW,
      oc_definitions = merge_definitions
       [standard_properties,
        [pdef P_NODE_TYPE (T_enum ''NodeType'') READ_WRITE True (OEnum ''NodeType'' 0),
         pdef P_NODE_SUBTYPE T_str READ_WRITE False ONone,
         pdef P_SUBORDINATE_LIST T_list READ_WRITE True (OList []),
         pdef P_SUBORDINATE_ANNOTATIONS T_list READ_WRITE False ONone]],
      oc_algorithm = None, oc_guard = No_guard, oc_polarity = False, oc_min_time = False\<rparr>"

definition new_StructuredViewObject :: "int \<Rightarrow> (int \<times> py_obj) list \<Rightarrow> py_error + bac_object" where
  "new_StructuredViewObject inst initial =
     new_object StructuredViewObject inst initial"

section \<open>\<open>objects/timer.py\<close>\<close>

definition TimerObject :: object_class where
  "TimerObject =
     \<lparr>oc_type = OT_TIMER,
      oc_definitions = merge_definitions
       [standard_properties,
        [pdef P_PRESENT_VALUE T_int READ_WRITE True (OInt 0)],
        status_properties True False ONone True,
        [pdef P_TIMER_STATE (T_enum ''TimerState'') READ_ONLY True (OEnum ''TimerState'' 0),
         pdef P_TIMER_RUNNING T_bool READ_WRITE True (OBool False),
         pdef P_UPDATE_TIME (T_class ''BACnetDateTime'') READ_ONLY False ONone,
         pdef P_LAST_STATE_CHANGE (T_enum ''TimerTransition'') READ_ONLY True (OEnum ''TimerTransition'' 0),
         pdef P_EXPIRATION_TIME (T_class ''BACnetDateTime'') READ_ONLY False ONone,
         pdef P_INITIAL_TIMEOUT T_int READ_WRITE True (OInt 0),
         pdef P_DEFAULT_TIMEOUT T_int READ_WRITE False ONone,
         pdef P_MIN_PRES_VALUE T_int READ_WRITE False ONone,
         pdef P_MAX_PRES_VALUE T_int READ_WRITE False ONone,
         pdef P_RESOLUTION T_int READ_ONLY False ONone,
         pdef P_STATE_CHANGE_VALUES T_list READ_WRITE False ONone,
         pdef P_LIST_OF_OBJECT_PROPERTY_REFERENCES T_list READ_WRITE False ONone,
         pdef P_PRIORITY_FOR_WRITING T_int READ_WRITE False ONone,
         pdef P_ALARM_VALUES T_list READ_WRITE False ONone],
        intrinsic_reporting_properties False],
      oc_algorithm = Some 22, oc_guard = No_guard, oc_polarity = False, oc_min_time = False\<rparr>"

definition new_TimerObject :: "int \<Rightarrow> (int \<times> py_obj) list \<Rightarrow> py_error + bac_object" where
  "new_TimerObject inst initial =
     rbind (new_object TimerObject inst initial) (\<lambda>ob.
       Inr (init_status_flags ob))"

section \<open>\<open>objects/transportation.py\<close>\<close>

definition ElevatorGroupObject :: object_class where
  "ElevatorGroupObject =
     \<lparr>oc_type = OT_ELEVATOR_GROUP,
      oc_definitions = merge_definitions
       [standard_properties,
        [pdef P_GROUP_ID T_int READ_ONLY True (OInt 0),
         pdef P_GROUP_MEMBERS T_list READ_ONLY True (OList []),
         pdef P_GROUP_MODE (T_enum ''LiftGroupMode'') READ_ONLY True (OEnum ''LiftGroupMode'' 0),
         pdef P_LANDING_CALLS T_list READ_ONLY True (OList []),
         pdef P_LANDING_CALL_CONTROL T_object READ_WRITE True ONone,
         pdef P_MACHINE_ROOM_ID T_object READ_ONLY False ONone]],
      oc_algorithm = None, oc_guard = No_guard, oc_polarity = False, oc_min_time = False\<rparr>"

definition new_ElevatorGroupObject :: "int \<Rightarrow> (int \<times> py_obj) list \<Rightarrow> py_error + bac_object" where
  "new_ElevatorGroupObject inst initial =
     new_object ElevatorGroupObject inst initial"

definition LiftObject :: object_class where
  "LiftObject =
     \<lparr>oc_type = OT_LIFT,
      oc_definitions = merge_definitions
       [standard_properties,
        status_properties True False ONone True,
        [pdef P_TRACKING_VALUE T_int READ_ONLY True (OInt 0),
         pdef P_CAR_ASSIGNED_DIRECTION (T_enum ''LiftCarDirection'') READ_ONLY True (OEnum ''LiftCarDirection'' 0),
         pdef P_CAR_MOVING_DIRECTION (T_enum ''LiftCarDirection'') READ_ONLY True (OEnum ''LiftCarDirection'' 0),
         pdef P_CAR_POSITION T_int READ_ONLY True (OInt 0),
         pdef P_CAR_DOOR_STATUS T_list READ_ONLY True (OList []),
         pdef P_CAR_DOOR_TEXT T_list READ_WRITE False ONone,
         pdef P_CAR_DOOR_ZONE T_bool READ_ONLY True (OBool False),
         pdef P_CAR_DRIVE_STATUS T_int READ_ONLY True (OInt 0),
         pdef P_CAR_LOAD T_float READ_ONLY False ONone,
         pdef P_CAR_LOAD_UNITS T_int READ_ONLY False ONone,
         pdef P_CAR_MODE T_int READ_ONLY True (OInt 0),
         pdef P_ELEVATOR_GROUP T_object READ_ONLY True ONone,
         pdef P_ENERGY_METER T_float READ_ONLY False ONone,
         pdef P_ENERGY_METER_REF T_object READ_ONLY False ONone,
         pdef P_FAULT_SIGNALS T_list READ_ONLY True (OList []),
         pdef P_FLOOR_TEXT T_list READ_WRITE True (OList []),
         pdef P_HIGHER_DECK T_object READ_ONLY False ONone,
         pdef P_LOWER_DECK T_object READ_ONLY False ONone,
         pdef P_LANDING_DOOR_STATUS T_list READ_ONLY False ONone,
         pdef P_MAKING_CAR_CALL T_list READ_ONLY True (OList []),
         pdef P_NEXT_STOPPING_FLOOR T_int READ_ONLY True (OInt 0),
         pdef P_PASSENGER_ALARM T_bool READ_ONLY True (OBool False),
         pdef P_REGISTERED_CAR_CALL T_list READ_ONLY True (OList []),
         pdef P_CAR_DOOR_COMMAND T_int READ_WRITE True (OInt 0)]],
      oc_algorithm = None, oc_guard = No_guard, oc_polarity = False, oc_min_time = False\<rparr>"

definition new_LiftObject :: "int \<Rightarrow> (int \<times> py_obj) list \<Rightarrow> py_error + bac_object" where
  "new_LiftObject inst initial =
     rbind (new_object LiftObject inst initial) (\<lambda>ob.
       Inr (init_status_flags ob))"

definition EscalatorObject :: object_class where
  "EscalatorObject =
     \<lparr>oc_type = OT_ESCALATOR,
      oc_definitions = merge_definitions
       [standard_properties,
        status_properties True False ONone True,
        [pdef P_ESCALATOR_MODE (T_enum ''EscalatorMode'') READ_ONLY True (OEnum ''EscalatorMode'' 0),
         pdef P_FAULT_SIGNALS T_list READ_ONLY True (OList []),
         pdef P_ENERGY_METER T_float READ_ONLY False ONone,
         pdef P_ENERGY_METER_REF T_object READ_ONLY False ONone,
         pdef P_INSTALLATION_ID T_int READ_ONLY False ONone,
         pdef P_POWER_MODE T_bool READ_ONLY False ONone,
         pdef P_OPERATION_DIRECTION T_int READ_ONLY True (OInt 0),
         pdef P_PASSENGER_ALARM T_bool READ_ONLY True (OBool False)]],
      oc_algorithm = None, oc_guard = No_guard, oc_polarity = False, oc_min_time = False\<rparr>"

definition new_EscalatorObject :: "int \<Rightarrow> (int \<times> py_obj) list \<Rightarrow> py_error + bac_object" where
  "new_EscalatorObject inst initial =
     rbind (new_object EscalatorObject inst initial) (\<lambda>ob.
       Inr (init_status_flags ob))"

section \<open>\<open>objects/trendlog.py\<close>\<close>

definition TrendLogObject :: object_class where
  "TrendLogObject =
     \<lparr>oc_type = OT_TREND_LOG,
      oc_definitions = merge_definitions
       [standard_properties,
        status_properties True False ONone False,
        [pdef P_LOG_ENABLE T_bool READ_WRITE True (OBool False),
         pdef P_STOP_WHEN_FULL T_bool READ_WRITE True (OBool False),
         pdef P_BUFFER_SIZE T_int READ_WRITE True (OInt 0),
         pdef P_LOG_BUFFER T_list READ_ONLY True ONone,
         pdef P_RECORD_COUNT T_int READ_WRITE True (OInt 0),
         pdef P_TOTAL_RECORD_COUNT T_int READ_ONLY True (OInt 0),
         pdef P_LOGGING_TYPE (T_enum ''LoggingType'') READ_WRITE True (OEnum ''LoggingType'' 0),
         pdef P_LOG_INTERVAL T_int READ_WRITE False ONone,
         pdef P_START_TIME (T_class ''BACnetDateTime'') READ_WRITE False ONone,
         pdef P_STOP_TIME (T_class ''BACnetDateTime'') READ_WRITE False ONone,
         pdef P_LOG_DEVICE_OBJECT_PROPERTY (T_class ''BACnetDeviceObjectPropertyReference'') READ_WRITE False ONone,
         pdef P_NOTIFICATION_CLASS T_int READ_WRITE False ONone,
         pdef P_ALIGN_INTERVALS T_bool READ_WRITE False ONone,
         pdef P_INTERVAL_OFFSET T_int READ_WRITE False ONone,
         pdef P_TRIGGER T_bool READ_WRITE False ONone]],
      oc_algorithm = None, oc_guard = No_guard, oc_polarity = False, oc_min_time = False\<rparr>"

definition new_TrendLogObject :: "int \<Rightarrow> (int \<times> py_obj) list \<Rightarrow> py_error + bac_object" where
  "new_TrendLogObject inst initial =
     rbind (new_object TrendLogObject inst initial) (\<lambda>ob.
       Inr (set_default P_LOGGING_TYPE (OEnum ''LoggingType'' 0) (set_default P_LOG_BUFFER (OList []) (init_status_flags ob))))"

section \<open>\<open>objects/trendlog_multiple.py\<close>\<close>

definition TrendLogMultipleObject :: object_class where
  "TrendLogMultipleObject =
     \<lparr>oc_type = OT_TREND_LOG_MULTIPLE,
      oc_definitions = merge_definitions
       [standard_properties,
        status_properties True False ONone False,
        [pdef P_LOG_ENABLE T_bool READ_WRITE True (OBool False),
         pdef P_STOP_WHEN_FULL T_bool READ_WRITE True (OBool False),
         pdef P_BUFFER_SIZE T_int READ_WRITE True (OInt 0),
         pdef P_LOG_BUFFER T_list READ_ONLY True ONone,
         pdef P_RECORD_COUNT T_int READ_WRITE True (OInt 0),
         pdef P_TOTAL_RECORD_COUNT T_int READ_ONLY True (OInt 0),
         pdef P_LOGGING_TYPE (T_enum ''LoggingType'') READ_WRITE True (OEnum ''LoggingType'' 0),
         pdef P_LOG_INTERVAL T_int READ_WRITE False ONone,
         pdef P_START_TIME (T_class ''BACnetDateTime'') READ_WRITE False ONone,
         pdef P_STOP_TIME (T_class ''BACnetDateTime'') READ_WRITE False ONone,
         pdef P_LOG_DEVICE_OBJECT_PROPERTY T_list READ_WRITE True (OList []),
         pdef P_NOTIFICATION_CLASS T_int READ_WRITE False ONone,
         pdef P_ALIGN_INTERVALS T_bool READ_WRITE False ONone,
         pdef P_INTERVAL_OFFSET T_int READ_WRITE False ONone,
         pdef P_TRIGGER T_bool READ_WRITE False ONone]],
      oc_algorithm = None, oc_guard = No_guard, oc_polarity = False, oc_min_time = False\<rparr>"

definition new_TrendLogMultipleObject :: "int \<Rightarrow> (int \<times> py_obj) list \<Rightarrow> py_error + bac_object" where
  "new_TrendLogMultipleObject inst initial =
     rbind (new_object TrendLogMultipleObject inst initial) (\<lambda>ob.
       Inr (set_default P_LOG_BUFFER (OList []) (init_status_flags ob)))"

section \<open>\<open>objects/value_types.py\<close>\<close>

definition IntegerValueObject :: object_class where
  "IntegerValueObject =
     \<lparr>oc_type = OT_INTEGER_VALUE,
      oc_definitions = merge_definitions
       [standard_properties,
        [pdef P_PRESENT_VALUE T_int READ_WRITE True (OInt 0)],
        status_properties True False ONone True,
        [pdef P_UNITS (T_enum ''EngineeringUnits'') READ_WRITE True (OEnum ''EngineeringUnits'' 95),
         pdef P_MIN_PRES_VALUE T_int READ_ONLY False ONone,
         pdef P_MAX_PRES_VALUE T_int READ_ONLY False ONone,
         pdef P_RESOLUTION T_int READ_ONLY False ONone,
         pdef P_COV_INCREMENT T_int READ_WRITE False ONone],
        commandable_properties T_int (OInt 0) False],
      oc_algorithm = None, oc_guard = No_guard, oc_polarity = False, oc_min_time = False\<rparr>"

definition new_IntegerValueObject :: "bool \<Rightarrow> int \<Rightarrow> (int \<times> py_obj) list \<Rightarrow> py_error + bac_object" where
  "new_IntegerValueObject commandable inst initial =
     rbind (new_object IntegerValueObject inst initial) (\<lambda>ob.
       Inr (init_status_flags ((if commandable then init_commandable (OInt 0) else id) ob)))"

definition PositiveIntegerValueObject :: object_class where
  "PositiveIntegerValueObject =
     \<lparr>oc_type = OT_POSITIVE_INTEGER_VALUE,
      oc_definitions = merge_definitions
       [standard_properties,
        [pdef P_PRESENT_VALUE T_int READ_WRITE True (OInt 0)],
        status_properties True False ONone True,
        [pdef P_UNITS (T_enum ''EngineeringUnits'') READ_WRITE True (OEnum ''EngineeringUnits'' 95),
         pdef P_MIN_PRES_VALUE T_int READ_ONLY False ONone,
         pdef P_MAX_PRES_VALUE T_int READ_ONLY False ONone,
         pdef P_RESOLUTION T_int READ_ONLY False ONone,
         pdef P_COV_INCREMENT T_int READ_WRITE False ONone],
        commandable_properties T_int (OInt 0) False],
      oc_algorithm = None, oc_guard = No_guard, oc_polarity = False, oc_min_time = False\<rparr>"

definition new_PositiveIntegerValueObject :: "bool \<Rightarrow> int \<Rightarrow> (int \<times> py_obj) list \<Rightarrow> py_error + bac_object" where
  "new_PositiveIntegerValueObject commandable inst initial =
     rbind (new_object PositiveIntegerValueObject inst initial) (\<lambda>ob.
       Inr (init_status_flags ((if commandable then init_commandable (OInt 0) else id) ob)))"

definition LargeAnalogValueObject :: object_class where
  "LargeAnalogValueObject =
     \<lparr>oc_type = OT_LARGE_ANALOG_VALUE,
      oc_definitions = merge_definitions
       [standard_properties,
        [pdef P_PRESENT_VALUE T_double READ_WRITE True (ODouble 0)],
        status_properties True False ONone True,
        [pdef P_UNITS (T_enum ''EngineeringUnits'') READ_WRITE True (OEnum ''EngineeringUnits'' 95),
         pdef P_MIN_PRES_VALUE T_double READ_ONLY False ONone,
         pdef P_MAX_PRES_VALUE T_double READ_ONLY False ONone,
         pdef P_RESOLUTION T_double READ_ONLY False ONone,
         pdef P_COV_INCREMENT T_double READ_WRITE False ONone],
        commandable_properties T_double (ODouble 0) False],
      oc_algorithm = None, oc_guard = No_guard, oc_polarity = False, oc_min_time = False\<rparr>"

definition new_LargeAnalogValueObject :: "bool \<Rightarrow> int \<Rightarrow> (int \<times> py_obj) list \<Rightarrow> py_error + bac_object" where
  "new_LargeAnalogValueObject commandable inst initial =
     rbind (new_object LargeAnalogValueObject inst initial) (\<lambda>ob.
       Inr (init_status_flags ((if commandable then init_commandable (ODouble 0) else id) ob)))"

definition CharacterStringValueObject :: object_class where
  "CharacterStringValueObject =
     \<lparr>oc_type = OT_CHARACTERSTRING_VALUE,
      oc_definitions = merge_definitions
       [standard_properties,
        [pdef P_PRESENT_VALUE T_str READ_WRITE True (OStr [])],
        status_properties True False ONone True,
        commandable_properties T_str (OStr []) False],
      oc_algorithm = None, oc_guard = No_guard, oc_polarity = False, oc_min_time = False\<rparr>"

definition new_CharacterStringValueObject :: "bool \<Rightarrow> int \<Rightarrow> (int \<times> py_obj) list \<Rightarrow> py_error + bac_object" where
  "new_CharacterStringValueObject commandable inst initial =
     rbind (new_object CharacterStringValueObject inst initial) (\<lambda>ob.
       Inr (init_status_flags ((if commandable then init_commandable (OStr []) else id) ob)))"

definition DateTimeValueObject :: object_class where
  "DateTimeValueObject =
     \<lparr>oc_type = OT_DATETIME_VALUE,
      oc_definitions = merge_definitions
       [standard_properties,
        [pdef P_PRESENT_VALUE (T_class ''BACnetDateTime'') READ_WRITE True ONone],
        status_properties True False ONone True,
        commandable_properties (T_class ''BACnetDateTime'') ONone False,
        [pdef P_IS_UTC T_bool READ_ONLY False ONone]],
      oc_algorithm = None, oc_guard = No_guard, oc_polarity = False, oc_min_time = False\<rparr>"

definition new_DateTimeValueObject :: "bool \<Rightarrow> int \<Rightarrow> (int \<times> py_obj) list \<Rightarrow> py_error + bac_object" where
  "new_DateTimeValueObject commandable inst initial =
     rbind (new_object DateTimeValueObject inst initial) (\<lambda>ob.
       Inr (init_status_flags ((if commandable then init_commandable ONone else id) ob)))"

definition BitStringValueObject :: object_class where
  "BitStringValueObject =
     \<lparr>oc_type = OT_BITSTRING_VALUE,
      oc_definitions = merge_definitions
       [standard_properties,
        [pdef P_PRESENT_VALUE T_list READ_WRITE True ONone],
        status_properties True False ONone True,
        [pdef P_BIT_TEXT T_list READ_WRITE False ONone,
         pdef P_BIT_MASK T_list READ_ONLY False ONone],
        commandable_properties T_list ONone False],
      oc_algorithm = None, oc_guard = No_guard, oc_polarity = False, oc_min_time = False\<rparr>"

definition new_BitStringValueObject :: "bool \<Rightarrow> int \<Rightarrow> (int \<times> py_obj) list \<Rightarrow> py_error + bac_object" where
  "new_BitStringValueObject commandable inst initial =
     rbind (new_object BitStringValueObject inst initial) (\<lambda>ob.
       Inr (init_status_flags ((if commandable then init_commandable ONone else id) ob)))"

definition OctetStringValueObject :: object_class where
  "OctetStringValueObject =
     \<lparr>oc_type = OT_OCTETSTRING_VALUE,
      oc_definitions = merge_definitions
       [standard_properties,
        [pdef P_PRESENT_VALUE T_bytes READ_WRITE True (OBytes [])],
        status_properties True False ONone True,
        commandable_properties T_bytes (OBytes []) False],
      oc_algorithm = None, oc_guard = No_guard, oc_polarity = False, oc_min_time = False\<rparr>"

definition new_OctetStringValueObject :: "bool \<Rightarrow> int \<Rightarrow> (int \<times> py_obj) list \<Rightarrow> py_error + bac_object" where
  "new_OctetStringValueObject commandable inst initial =
     rbind (new_object OctetStringValueObject inst initial) (\<lambda>ob.
       Inr (init_status_flags ((if commandable then init_commandable (OBytes []) else id) ob)))"

definition DateValueObject :: object_class where
  "DateValueObject =
     \<lparr>oc_type = OT_DATE_VALUE,
      oc_definitions = merge_definitions
       [standard_properties,
        [pdef P_PRESENT_VALUE (T_class ''BACnetDate'') READ_WRITE True ONone],
        status_properties True False ONone True,
        commandable_properties (T_class ''BACnetDate'') ONone False,
        [pdef P_IS_UTC T_bool READ_ONLY False ONone]],
      oc_algorithm = None, oc_guard = No_guard, oc_polarity = False, oc_min_time = False\<rparr>"

definition new_DateValueObject :: "bool \<Rightarrow> int \<Rightarrow> (int \<times> py_obj) list \<Rightarrow> py_error + bac_object" where
  "new_DateValueObject commandable inst initial =
     rbind (new_object DateValueObject inst initial) (\<lambda>ob.
       Inr (init_status_flags ((if commandable then init_commandable ONone else id) ob)))"

definition DatePatternValueObject :: object_class where
  "DatePatternValueObject =
     \<lparr>oc_type = OT_DATEPATTERN_VALUE,
      oc_definitions = merge_definitions
       [standard_properties,
        [pdef P_PRESENT_VALUE (T_class ''BACnetDate'') READ_WRITE True ONone],
        status_properties True False ONone True],
      oc_algorithm = None, oc_guard = No_guard, oc_polarity = False, oc_min_time = False\<rparr>"

definition new_DatePatternValueObject :: "int \<Rightarrow> (int \<times> py_obj) list \<Rightarrow> py_error + bac_object" where
  "new_DatePatternValueObject inst initial =
     rbind (new_object DatePatternValueObject inst initial) (\<lambda>ob.
       Inr (init_status_flags ob))"

definition TimeValueObject :: object_class where
  "TimeValueObject =
     \<lparr>oc_type = OT_TIME_VALUE,
      oc_definitions = merge_definitions
       [standard_properties,
        [pdef P_PRESENT_VALUE (T_class ''BACnetTime'') READ_WRITE True ONone],
        status_properties True False ONone True,
        commandable_properties (T_class ''BACnetTime'') ONone False,
        [pdef P_IS_UTC T_bool READ_ONLY False ONone]],
      oc_algorithm = None, oc_guard = No_guard, oc_polarity = False, oc_min_time = False\<rparr>"

definition new_TimeValueObject :: "bool \<Rightarrow> int \<Rightarrow> (int \<times> py_obj) list \<Rightarrow> py_error + bac_object" where
  "new_TimeValueObject commandable inst initial =
     rbind (new_object TimeValueObject inst initial) (\<lambda>ob.
       Inr (init_status_flags ((if commandable then init_commandable ONone else id) ob)))"

definition TimePatternValueObject :: object_class where
  "TimePatternValueObject =
     \<lparr>oc_type = OT_TIMEPATTERN_VALUE,
      oc_definitions = merge_definitions
       [standard_properties,
        [pdef P_PRESENT_VALUE (T_class ''BACnetTime'') READ_WRITE True ONone],
        status_properties True False ONone True],
      oc_algorithm = None, oc_guard = No_guard, oc_polarity = False, oc_min_time = False\<rparr>"

definition new_TimePatternValueObject :: "int \<Rightarrow> (int \<times> py_obj) list \<Rightarrow> py_error + bac_object" where
  "new_TimePatternValueObject inst initial =
     rbind (new_object TimePatternValueObject inst initial) (\<lambda>ob.
       Inr (init_status_flags ob))"

definition DateTimePatternValueObject :: object_class where
  "DateTimePatternValueObject =
     \<lparr>oc_type = OT_DATETIMEPATTERN_VALUE,
      oc_definitions = merge_definitions
       [standard_properties,
        [pdef P_PRESENT_VALUE (T_class ''BACnetDateTime'') READ_WRITE True ONone],
        status_properties True False ONone True,
        [pdef P_IS_UTC T_bool READ_ONLY False ONone]],
      oc_algorithm = None, oc_guard = No_guard, oc_polarity = False, oc_min_time = False\<rparr>"

definition new_DateTimePatternValueObject :: "int \<Rightarrow> (int \<times> py_obj) list \<Rightarrow> py_error + bac_object" where
  "new_DateTimePatternValueObject inst initial =
     rbind (new_object DateTimePatternValueObject inst initial) (\<lambda>ob.
       Inr (init_status_flags ob))"

section \<open>Registry\<close>

definition OBJECT_REGISTRY :: "(int \<times> (int \<Rightarrow> (int \<times> py_obj) list \<Rightarrow> py_error + bac_object)) list" where
  "OBJECT_REGISTRY =
     [(OT_ACCESS_DOOR, new_AccessDoorObject),
      (OT_ACCESS_POINT, new_AccessPointObject),
      (OT_ACCESS_ZONE, new_AccessZoneObject),
      (OT_ACCESS_USER, new_AccessUserObject),
      (OT_ACCESS_RIGHTS, new_AccessRightsObject),
      (OT_ACCESS_CREDENTIAL, new_AccessCredentialObject),
      (OT_CREDENTIAL_DATA_INPUT, new_CredentialDataInputObject),
      (OT_ACCUMULATOR, new_AccumulatorObject),
      (OT_ALERT_ENROLLMENT, new_AlertEnrollmentObject),
      (OT_ANALOG_INPUT, new_AnalogInputObject),
      (OT_ANALOG_OUTPUT, new_AnalogOutputObject),
      (OT_ANALOG_VALUE, new_AnalogValueObject False),
      (OT_AUDIT_REPORTER, new_AuditReporterObject),
      (OT_AVERAGING, new_AveragingObject),
      (OT_BINARY_INPUT, new_BinaryInputObject),
      (OT_BINARY_OUTPUT, new_BinaryOutputObject),
      (OT_BINARY_VALUE, new_BinaryValueObject False),
      (OT_CALENDAR, new_CalendarObject),
      (OT_CHANNEL, new_ChannelObject 0),
      (OT_COMMAND, new_CommandObject),
      (OT_DEVICE, new_DeviceObject),
      (OT_EVENT_ENROLLMENT, new_EventEnrollmentObject),
      (OT_EVENT_LOG, new_EventLogObject),
      (OT_GLOBAL_GROUP, new_GlobalGroupObject),
      (OT_GROUP, new_GroupObject),
      (OT_LIFE_SAFETY_POINT, new_LifeSafetyPointObject),
      (OT_LIFE_SAFETY_ZONE, new_LifeSafetyZoneObject),
      (OT_LIGHTING_OUTPUT, new_LightingOutputObject),
      (OT_BINARY_LIGHTING_OUTPUT, new_BinaryLightingOutputObject),
      (OT_LOAD_CONTROL, new_LoadControlObject),
      (OT_LOOP, new_LoopObject),
      (OT_MULTI_STATE_INPUT, new_MultiStateInputObject 2),
      (OT_MULTI_STATE_OUTPUT, new_MultiStateOutputObject 2),
      (OT_MULTI_STATE_VALUE, new_MultiStateValueObject False 2),
      (OT_NETWORK_PORT, new_NetworkPortObject 5),
      (OT_NOTIFICATION_CLASS, new_NotificationClassObject),
      (OT_NOTIFICATION_FORWARDER, new_NotificationForwarderObject),
      (OT_PROGRAM, new_ProgramObject),
      (OT_PULSE_CONVERTER, new_PulseConverterObject False),
      (OT_SCHEDULE, new_ScheduleObject),
      (OT_STAGING, new_StagingObject),
      (OT_STRUCTURED_VIEW, new_StructuredViewObject),
      (OT_TIMER, new_TimerObject),
      (OT_ELEVATOR_GROUP, new_ElevatorGroupObject),
      (OT_LIFT, new_LiftObject),
      (OT_ESCALATOR, new_EscalatorObject),
      (OT_TREND_LOG, new_TrendLogObject),
      (OT_TREND_LOG_MULTIPLE, new_TrendLogMultipleObject),
      (OT_INTEGER_VALUE, new_IntegerValueObject False),
      (OT_POSITIVE_INTEGER_VALUE, new_PositiveIntegerValueObject False),
      (OT_LARGE_ANALOG_VALUE, new_LargeAnalogValueObject False),
      (OT_CHARACTERSTRING_VALUE, new_CharacterStringValueObject False),
      (OT_DATETIME_VALUE, new_DateTimeValueObject False),
      (OT_BITSTRING_VALUE, new_BitStringValueObject False),
      (OT_OCTETSTRING_VALUE, new_OctetStringValueObject False),
      (OT_DATE_VALUE, new_DateValueObject False),
      (OT_DATEPATTERN_VALUE, new_DatePatternValueObject),
      (OT_TIME_VALUE, new_TimeValueObject False),
      (OT_TIMEPATTERN_VALUE, new_TimePatternValueObject),
      (OT_DATETIMEPATTERN_VALUE, new_DateTimePatternValueObject)]"

definition classes_1 :: "object_class list" where
  "classes_1 =
     [AccessDoorObject,
      AccessPointObject,
      AccessZoneObject,
      AccessUserObject,
      AccessRightsObject,
      AccessCredentialObject,
      CredentialDataInputObject,
      AccumulatorObject,
      AlertEnrollmentObject,
      AnalogInputObject,
      AnalogOutputObject,
      AnalogValueObject,
      AuditReporterObject,
      AveragingObject,
      BinaryInputObject]"

definition classes_2 :: "object_class list" where
  "classes_2 =
     [BinaryOutputObject,
      BinaryValueObject,
      CalendarObject,
      ChannelObject,
      CommandObject,
      DeviceObject,
      EventEnrollmentObject,
      EventLogObject,
      GlobalGroupObject,
      GroupObject,
      LifeSafetyPointObject,
      LifeSafetyZoneObject,
      LightingOutputObject,
      BinaryLightingOutputObject,
      LoadControlObject]"

definition classes_3 :: "object_class list" where
  "classes_3 =
     [LoopObject,
      MultiStateInputObject,
      MultiStateOutputObject,
      MultiStateValueObject,
      NetworkPortObject,
      NotificationClassObject,
      NotificationForwarderObject,
      ProgramObject,
      PulseConverterObject,
      ScheduleObject,
      StagingObject,
      StructuredViewObject,
      TimerObject,
      ElevatorGroupObject,
      LiftObject]"

definition classes_4 :: "object_class list" where
  "classes_4 =
     [EscalatorObject,
      TrendLogObject,
      TrendLogMultipleObject,
      IntegerValueObject,
      PositiveIntegerValueObject,
      LargeAnalogValueObject,
      CharacterStringValueObject,
      DateTimeValueObject,
      BitStringValueObject,
      OctetStringValueObject,
      DateValueObject,
      DatePatternValueObject,
      TimeValueObject,
      TimePatternValueObject,
      DateTimePatternValueObject]"

definition all_classes :: "object_class list" where
  "all_classes = classes_1 @ classes_2 @ classes_3 @ classes_4"

text \<open>
  \<open>create_object\<close>; the keyword-only arguments have their defaults, and \<open>properties\<close> are known names.
\<close>

definition create_object :: "int \<Rightarrow> int \<Rightarrow> (int \<times> py_obj) list \<Rightarrow> exc + bac_object" where
  "create_object ty inst initial =
     (case map_of OBJECT_REGISTRY ty of
        None \<Rightarrow> Inl (bacnet_error EC_OBJECT CODE_UNSUPPORTED_OBJECT_TYPE)
      | Some build \<Rightarrow> py (build inst initial))"

lemmas class_defs =
  AccessDoorObject_def AccessPointObject_def AccessZoneObject_def AccessUserObject_def
  AccessRightsObject_def AccessCredentialObject_def CredentialDataInputObject_def AccumulatorObject_def
  AlertEnrollmentObject_def AnalogInputObject_def AnalogOutputObject_def AnalogValueObject_def
  AuditReporterObject_def AveragingObject_def BinaryInputObject_def BinaryOutputObject_def
  BinaryValueObject_def CalendarObject_def ChannelObject_def CommandObject_def
  DeviceObject_def EventEnrollmentObject_def EventLogObject_def GlobalGroupObject_def
  GroupObject_def LifeSafetyPointObject_def LifeSafetyZoneObject_def LightingOutputObject_def
  BinaryLightingOutputObject_def LoadControlObject_def LoopObject_def MultiStateInputObject_def
  MultiStateOutputObject_def MultiStateValueObject_def NetworkPortObject_def NotificationClassObject_def
  NotificationForwarderObject_def ProgramObject_def PulseConverterObject_def ScheduleObject_def
  StagingObject_def StructuredViewObject_def TimerObject_def ElevatorGroupObject_def
  LiftObject_def EscalatorObject_def TrendLogObject_def TrendLogMultipleObject_def
  IntegerValueObject_def PositiveIntegerValueObject_def LargeAnalogValueObject_def CharacterStringValueObject_def
  DateTimeValueObject_def BitStringValueObject_def OctetStringValueObject_def DateValueObject_def
  DatePatternValueObject_def TimeValueObject_def TimePatternValueObject_def DateTimePatternValueObject_def

end
