(* ===== verification/Object_Laws.thy ===== *)
theory Object_Laws
  imports Object_Types
begin

text \<open>
  What the object model guarantees: the tables of all classes are well formed; the priority array
  keeps its sixteen slots and is what the property shows, and Present_Value is its most urgent
  command.  The command table is an interface (\<open>command_table\<close>), a map from priorities to commands,
  that the commandable objects implement.
\<close>

section \<open>Properties of objects\<close>

lemma get_set [simp]: "get_prop p (set_prop q v ob) = (if p = q then v else get_prop p ob)"
  by (simp add: get_prop_def set_prop_def update_conv')

lemma set_prop_fields [simp]:
  "ob_id (set_prop p v ob) = ob_id ob" "ob_class (set_prop p v ob) = ob_class ob"
  "ob_priority_array (set_prop p v ob) = ob_priority_array ob" "ob_sources (set_prop p v ob) = ob_sources ob"
  "ob_lock_until (set_prop p v ob) = ob_lock_until ob" "ob_locked_value (set_prop p v ob) = ob_locked_value ob"
  "ob_in_db (set_prop p v ob) = ob_in_db ob" "ob_notifies (set_prop p v ob) = ob_notifies ob"
  by (simp_all add: set_prop_def)

lemma get_prop_fields [simp]:
  "get_prop p (ob\<lparr>ob_priority_array := a\<rparr>) = get_prop p ob" "get_prop p (ob\<lparr>ob_sources := s\<rparr>) = get_prop p ob"
  "get_prop p (ob\<lparr>ob_lock_until := l\<rparr>) = get_prop p ob" "get_prop p (ob\<lparr>ob_locked_value := w\<rparr>) = get_prop p ob"
  "get_prop p (ob\<lparr>ob_in_db := b\<rparr>) = get_prop p ob" "get_prop p (ob\<lparr>ob_notifies := b\<rparr>) = get_prop p ob"
  by (simp_all add: get_prop_def)

section \<open>Well-formed classes\<close>

text \<open>
  The class of a value that is an instance of one of the classes of \<open>types/primitives.py\<close> and
  \<open>types/constructed.py\<close> that property definitions name.  Three named classes have no values in
  \<open>Values\<close> (\<open>BACnetLightingCommand\<close>, \<open>BACnetPrescale\<close>, \<open>BACnetShedLevel\<close>), so nothing has those types.
\<close>

fun class_name :: "py_obj \<Rightarrow> string option" where
  "class_name (OOid i) = Some ''ObjectIdentifier''"
| "class_name (OFlags f) = Some ''StatusFlags''"
| "class_name (OBits b) = Some ''BitString''"
| "class_name (ODate d) = Some ''BACnetDate''"
| "class_name (OTime t) = Some ''BACnetTime''"
| "class_name (ODateTime d t) = Some ''BACnetDateTime''"
| "class_name (ODateRange d e) = Some ''BACnetDateRange''"
| "class_name (OPropertyRef i p idx) = Some ''BACnetObjectPropertyReference''"
| "class_name (ODevicePropertyRef i p idx dev) = Some ''BACnetDeviceObjectPropertyReference''"
| "class_name (OScale f i) = Some ''BACnetScale''"
| "class_name (OValueSource c v) = Some ''BACnetValueSource''"
| "class_name v = None"

fun has_type :: "py_type \<Rightarrow> py_obj \<Rightarrow> bool" where
  "has_type T_int v = (as_int v \<noteq> None)"
| "has_type T_float v = (case v of OFloat x \<Rightarrow> True | ODouble x \<Rightarrow> True | _ \<Rightarrow> False)"
| "has_type T_double v = (case v of ODouble x \<Rightarrow> True | _ \<Rightarrow> False)"
| "has_type T_bool v = (case v of OBool b \<Rightarrow> True | _ \<Rightarrow> False)"
| "has_type T_str v = (case v of OStr s \<Rightarrow> True | _ \<Rightarrow> False)"
| "has_type T_list v = (case v of OList xs \<Rightarrow> True | _ \<Rightarrow> False)"
| "has_type T_bytes v = (case v of OBytes b \<Rightarrow> True | _ \<Rightarrow> False)"
| "has_type T_object v = True"
| "has_type (T_enum c) v = (case v of OEnum d n \<Rightarrow> d = c \<and> enum_has c n | _ \<Rightarrow> False)"
| "has_type (T_class s) v = (class_name v = Some s)"

text \<open>What the commands keep in an object, with the types the tables give it.\<close>

definition command_data :: "(int \<times> py_type) list" where
  "command_data =
     [(P_PRIORITY_ARRAY, T_list), (P_VALUE_SOURCE, T_class ''BACnetValueSource''), (P_VALUE_SOURCE_ARRAY, T_list),
      (P_LAST_COMMAND_TIME, T_object), (P_COMMAND_TIME_ARRAY, T_list), (P_CURRENT_COMMAND_PRIORITY, T_int),
      (P_STATUS_FLAGS, T_class ''StatusFlags'')]"

definition definitions_ok :: "definitions \<Rightarrow> bool" where
  "definitions_ok defs \<longleftrightarrow>
     distinct (map fst defs)
     \<and> list_all (\<lambda>(pid, d). pd_default d = ONone \<or> has_type (pd_datatype d) (pd_default d)) defs
     \<and> list_all (\<lambda>(pid, d). map_of defs pid = Some d) standard_properties
     \<and> list_all (\<lambda>(pid, ty). case map_of defs pid of None \<Rightarrow> True
          | Some d \<Rightarrow> pd_access d = READ_ONLY \<and> pd_datatype d = ty) command_data
     \<and> (case map_of defs P_RELINQUISH_DEFAULT of None \<Rightarrow> True
        | Some r \<Rightarrow> (case map_of defs P_PRESENT_VALUE of None \<Rightarrow> False
            | Some p \<Rightarrow> pd_access p = READ_WRITE \<and> pd_datatype p = pd_datatype r))"

definition class_ok :: "object_class \<Rightarrow> bool" where
  "class_ok c \<longleftrightarrow> definitions_ok (oc_definitions c)"

text \<open>A merged table is checked on its rows: the last row of a property counts.\<close>

lemma map_of_merge: "map_of (merge_definitions ds) pid = map_of (rev (concat ds)) pid"
proof -
  have *: "map_of (foldl (\<lambda>d (pid, x). AList.update pid x d) d rows) pid =
      (case map_of (rev rows) pid of Some x \<Rightarrow> Some x | None \<Rightarrow> map_of d pid)" for d rows
    by (induction rows arbitrary: d) (auto simp: update_conv' map_add_def split: option.split)
  show ?thesis unfolding merge_definitions_def * by (simp split: option.split)
qed

lemma merge_distinct: "distinct (map fst (merge_definitions ds))"
proof -
  have *: "distinct (map fst d) \<Longrightarrow> distinct (map fst (foldl (\<lambda>d (pid, x). AList.update pid x d) d rows))" for d rows
    by (induction rows arbitrary: d) (auto simp: distinct_update)
  show ?thesis unfolding merge_definitions_def by (rule *) simp
qed

lemma merge_rows: "set (merge_definitions ds) \<subseteq> set (concat ds)"
proof
  fix r assume "r \<in> set (merge_definitions ds)"
  then have "map_of (merge_definitions ds) (fst r) = Some (snd r)"
    using merge_distinct [of ds] by (metis map_of_eq_Some_iff prod.collapse)
  then have "map_of (rev (concat ds)) (fst r) = Some (snd r)" by (simp only: map_of_merge)
  then have "(fst r, snd r) \<in> set (rev (concat ds))" by (rule map_of_SomeD)
  then show "r \<in> set (concat ds)" by simp
qed

definition rows_ok :: "definitions \<Rightarrow> bool" where
  "rows_ok rows \<longleftrightarrow>
     list_all (\<lambda>(pid, d). pd_default d = ONone \<or> has_type (pd_datatype d) (pd_default d)) rows
     \<and> list_all (\<lambda>(pid, d). map_of rows pid = Some d) standard_properties
     \<and> list_all (\<lambda>(pid, ty). case map_of rows pid of None \<Rightarrow> True
          | Some d \<Rightarrow> pd_access d = READ_ONLY \<and> pd_datatype d = ty) command_data
     \<and> (case map_of rows P_RELINQUISH_DEFAULT of None \<Rightarrow> True
        | Some r \<Rightarrow> (case map_of rows P_PRESENT_VALUE of None \<Rightarrow> False
            | Some p \<Rightarrow> pd_access p = READ_WRITE \<and> pd_datatype p = pd_datatype r))"

lemma class_okI:
  assumes "oc_definitions c = merge_definitions ds" "rows_ok (rev (concat ds))"
  shows "class_ok c"
proof -
  have "list_all P (merge_definitions ds)" if "list_all P (rev (concat ds))" for P
    using that merge_rows [of ds] unfolding list_all_iff set_rev by blast
  then show ?thesis
    using assms(2) unfolding class_ok_def assms(1) definitions_ok_def rows_ok_def map_of_merge
    by (simp only: merge_distinct)
qed

lemma classes_1_ok: "list_all class_ok classes_1"
  unfolding classes_1_def list.pred_inject
  apply (intro conjI TrueI)
  apply (rule class_okI, unfold class_defs object_class.select_convs, rule refl, code_simp)+
  apply simp
  done

lemma classes_2_ok: "list_all class_ok classes_2"
  unfolding classes_2_def list.pred_inject
  apply (intro conjI TrueI)
  apply (rule class_okI, unfold class_defs object_class.select_convs, rule refl, code_simp)+
  apply simp
  done

lemma classes_3_ok: "list_all class_ok classes_3"
  unfolding classes_3_def list.pred_inject
  apply (intro conjI TrueI)
  apply (rule class_okI, unfold class_defs object_class.select_convs, rule refl, code_simp)+
  apply simp
  done

lemma classes_4_ok: "list_all class_ok classes_4"
  unfolding classes_4_def list.pred_inject
  apply (intro conjI TrueI)
  apply (rule class_okI, unfold class_defs object_class.select_convs, rule refl, code_simp)+
  apply simp
  done

lemma all_classes_ok: "list_all class_ok all_classes"
  by (simp add: all_classes_def classes_1_ok classes_2_ok classes_3_ok classes_4_ok)

section \<open>The invariant\<close>

definition slots_ok :: "bac_object \<Rightarrow> bool" where
  "slots_ok ob \<longleftrightarrow>
     (case ob_priority_array ob of None \<Rightarrow> True
      | Some pa \<Rightarrow> length pa = 16 \<and> get_prop P_PRIORITY_ARRAY ob = OList pa)
     \<and> (case ob_sources ob of None \<Rightarrow> True
        | Some (srcs, stamps) \<Rightarrow> length srcs = 16 \<and> length stamps = 16)"

definition winner_shown :: "bac_object \<Rightarrow> bool" where
  "winner_shown ob \<longleftrightarrow>
     (case ob_priority_array ob of None \<Rightarrow> True
      | Some pa \<Rightarrow> (case winning_command pa 0 of None \<Rightarrow> True
          | Some (i, v) \<Rightarrow> get_prop P_PRESENT_VALUE ob = v))"

definition lock_shown :: "bac_object \<Rightarrow> bool" where
  "lock_shown ob \<longleftrightarrow> (ob_lock_until ob \<noteq> None \<longrightarrow>
     oc_min_time (ob_class ob) \<and> ob_priority_array ob \<noteq> None
     \<and> get_prop P_PRESENT_VALUE ob = ob_locked_value ob)"

definition object_inv :: "bac_object \<Rightarrow> bool" where
  "object_inv ob \<longleftrightarrow> class_ok (ob_class ob) \<and> distinct (map fst (ob_properties ob)) \<and> slots_ok ob
     \<and> lock_shown ob \<and> (ob_lock_until ob = None \<longrightarrow> winner_shown ob)"

lemma set_prop_distinct [simp]:
  "distinct (map fst (ob_properties ob)) \<Longrightarrow> distinct (map fst (ob_properties (set_prop p v ob)))"
  by (simp add: set_prop_def distinct_update)

text \<open>One frame rule for the changes that leave the priority array and Present_Value alone.\<close>

lemma object_inv_frame:
  assumes "object_inv ob" "ob_class ob' = ob_class ob" "distinct (map fst (ob_properties ob'))"
    "ob_priority_array ob' = ob_priority_array ob" "ob_sources ob' = ob_sources ob"
    "ob_lock_until ob' = ob_lock_until ob" "ob_locked_value ob' = ob_locked_value ob"
    "get_prop P_PRIORITY_ARRAY ob' = get_prop P_PRIORITY_ARRAY ob"
    "get_prop P_PRESENT_VALUE ob' = get_prop P_PRESENT_VALUE ob"
  shows "object_inv ob'"
  using assms by (auto simp: object_inv_def slots_ok_def lock_shown_def winner_shown_def split: option.splits)

section \<open>Commands\<close>

lemma winning_upd:
  "winning_command pa i = (case find (\<lambda>j. pa ! j \<noteq> ONone) [0..<length pa] of None \<Rightarrow> None
     | Some j \<Rightarrow> Some (i + j, pa ! j))"
proof (induction pa arbitrary: i)
  case (Cons x pa)
  have "[0..<length (x # pa)] = 0 # map Suc [0..<length pa]"
    by (simp add: upt_conv_Cons map_Suc_upt del: upt_Suc)
  moreover have "find P (map Suc js) = map_option Suc (find (P \<circ> Suc) js)" for P js
    by (induction js) auto
  ultimately show ?case by (auto simp: Cons comp_def split: option.split)
qed simp

lemma winning_command_Some:
  "winning_command pa i = Some (j, v) \<Longrightarrow> i \<le> j \<and> j < i + length pa \<and> v = pa ! (j - i) \<and> v \<noteq> ONone"
proof (induction pa arbitrary: i)
  case (Cons x pa)
  then show ?case by (cases "x = ONone") (force simp: nth_Cons' dest: Cons.IH)+
qed simp

lemma winning_command_None: "winning_command pa i = None \<longleftrightarrow> (\<forall>v \<in> set pa. v = ONone)"
  by (induction pa arbitrary: i) auto

text \<open>What one command does.\<close>

definition untouched :: "int \<Rightarrow> bool" where
  "untouched p \<longleftrightarrow> p \<notin> {P_PRESENT_VALUE, P_PRIORITY_ARRAY, P_VALUE_SOURCE, P_VALUE_SOURCE_ARRAY,
     P_LAST_COMMAND_TIME, P_COMMAND_TIME_ARRAY}"

definition commanded :: "nat \<Rightarrow> py_obj \<Rightarrow> bac_object \<Rightarrow> bac_object" where
  "commanded idx v ob = apply_winner P_PRESENT_VALUE (set_source idx v None (set_slot idx v ob))"

lemma commanded_facts:
  fixes v :: py_obj
  assumes pa: "ob_priority_array ob = Some pa" and inv: "object_inv ob" and idx: "idx < 16"
  defines "ob' \<equiv> commanded idx v ob"
  shows "ob_priority_array ob' = Some (pa[idx := v])"
    and "get_prop P_PRESENT_VALUE ob' = (case winning_command (pa[idx := v]) 0 of Some (i, w) \<Rightarrow> w
          | None \<Rightarrow> get_prop P_RELINQUISH_DEFAULT ob)"
    and "untouched p \<Longrightarrow> get_prop p ob' = get_prop p ob"
    and "ob_class ob' = ob_class ob" "ob_lock_until ob' = ob_lock_until ob"
      "ob_locked_value ob' = ob_locked_value ob" "ob_id ob' = ob_id ob"
    and "slots_ok ob'" "distinct (map fst (ob_properties ob'))"
  using assms(1,2)
  by (auto simp: ob'_def commanded_def apply_winner_def set_source_def set_slot_def Let_def untouched_def
      slots_ok_def object_inv_def split: option.split prod.split)

lemma base_write_runs:
  "base_write_with_priority P_PRESENT_VALUE v p None ob =
     (if p < 1 \<or> p > 16 then (Inl (bacnet_error EC_SERVICES CODE_PARAMETER_OUT_OF_RANGE), ob)
      else if p = 6 \<and> (map_of (oc_definitions (ob_class ob)) P_MINIMUM_ON_TIME \<noteq> None
              \<or> map_of (oc_definitions (ob_class ob)) P_MINIMUM_OFF_TIME \<noteq> None)
      then (Inl (bacnet_error EC_PROPERTY CODE_WRITE_ACCESS_DENIED), ob)
      else (Inr (), commanded (nat (p - 1)) v ob))"
  by (simp add: base_write_with_priority_def run commanded_def Let_def)

lemma commanded_inv:
  assumes "ob_priority_array ob = Some pa" "object_inv ob" "idx < 16" "\<not> oc_min_time (ob_class ob)"
  shows "object_inv (commanded idx v ob)"
  using assms(2,4) commanded_facts [OF assms(1-3)]
  by (auto simp: object_inv_def lock_shown_def winner_shown_def split: option.split)

text \<open>A minimum time lock: setting and clearing it, and the value it holds.\<close>

lemma keeps_lock_for:
  "keeps (\<lambda>ob. object_inv ob \<and> oc_min_time (ob_class ob) \<and> ob_priority_array ob \<noteq> None
      \<and> get_prop P_PRESENT_VALUE ob = pv) (lock_for now pv duration)"
  unfolding lock_for_def
  by (intro keeps_intros) (auto simp: object_inv_def lock_shown_def slots_ok_def)

lemma keeps_start_lock:
  "keeps (\<lambda>ob. object_inv ob \<and> oc_min_time (ob_class ob) \<and> ob_priority_array ob \<noteq> None
      \<and> get_prop P_PRESENT_VALUE ob = pv) (start_lock_if_needed now pv)"
  unfolding start_lock_if_needed_def by (intro keeps_intros keeps_lock_for)

lemma min_time_write_inv:
  assumes inv: "object_inv ob" and pa: "ob_priority_array ob = Some pa" and mt: "oc_min_time (ob_class ob)"
  shows "object_inv (snd (min_time_write_with_priority now P_PRESENT_VALUE v p None ob))"
proof (cases "fst (base_write_with_priority P_PRESENT_VALUE v p None ob)")
  case (Inl e)
  then have "base_write_with_priority P_PRESENT_VALUE v p None ob = (Inl e, ob)"
    by (auto simp: base_write_runs split: if_splits)
  then show ?thesis using inv by (simp add: min_time_write_with_priority_def run seq_p_def run_bind)
next
  case (Inr u)
  then have w: "base_write_with_priority P_PRESENT_VALUE v p None ob = (Inr (), commanded (nat (p - 1)) v ob)"
    and idx: "nat (p - 1) < 16"
    by (auto simp: base_write_runs split: if_splits)
  let ?ob = "commanded (nat (p - 1)) v ob" and ?c = "\<lambda>ob. ob\<lparr>ob_lock_until := None, ob_locked_value := ONone\<rparr>"
  note f = commanded_facts [OF pa inv idx, where v = v]
  have "winner_shown (?c ?ob)" "ob_lock_until ?ob = None \<Longrightarrow> winner_shown ?ob"
    using f(1,2) by (auto simp: winner_shown_def split: option.split)
  then have cleared: "object_inv (if ob_lock_until ?ob \<noteq> None then ?c ?ob else ?ob)"
    using inv mt f by (auto simp: object_inv_def lock_shown_def slots_ok_def)
  have "keeps (\<lambda>ob. object_inv ob \<and> oc_min_time (ob_class ob) \<and> ob_priority_array ob \<noteq> None)
    (bind_p (read_p (get_prop P_PRESENT_VALUE)) (\<lambda>new_pv.
         if \<not> py_eq new_pv old_pv \<and> old_pv \<noteq> ONone then start_lock_if_needed now new_pv
         else return_p ()))" for old_pv
    using keeps_start_lock by (auto simp: keeps_def run)
  then have rest: "object_inv (snd (bind_p (read_p (get_prop P_PRESENT_VALUE)) (\<lambda>new_pv.
         if \<not> py_eq new_pv old_pv \<and> old_pv \<noteq> ONone then start_lock_if_needed now new_pv
         else return_p ()) ob'))"
    if "object_inv ob'" "oc_min_time (ob_class ob')" "ob_priority_array ob' \<noteq> None" for old_pv ob'
    using that by (auto dest: keepsD)
  have held: "object_inv (set_prop P_PRESENT_VALUE (ob_locked_value ?ob) ?ob)" if "ob_lock_until ob \<noteq> None"
    using inv mt f that by (auto simp: object_inv_def lock_shown_def slots_ok_def split: option.splits)
  show ?thesis
    using held rest [OF cleared] f mt pa
    by (auto simp: min_time_write_with_priority_def run seq_p_def run_bind w split: option.split)
qed

lemma check_expiry_inv:
  assumes inv: "object_inv ob"
  shows "object_inv (snd (check_min_time_expiry now ob))"
proof (cases "ob_lock_until ob")
  case None
  then show ?thesis using inv by (simp add: check_min_time_expiry_def run)
next
  case (Some u)
  then obtain pa where pa: "ob_priority_array ob = Some pa" and mt: "oc_min_time (ob_class ob)"
    using inv by (auto simp: object_inv_def lock_shown_def)
  let ?ob = "\<lambda>v. set_prop P_PRESENT_VALUE v (ob\<lparr>ob_lock_until := None, ob_locked_value := ONone\<rparr>)"
  have "object_inv (?ob v) \<and> oc_min_time (ob_class (?ob v)) \<and> ob_priority_array (?ob v) \<noteq> None
      \<and> get_prop P_PRESENT_VALUE (?ob v) = v" if "\<And>i w. winning_command pa 0 = Some (i, w) \<Longrightarrow> v = w" for v
    using inv pa mt that
    by (auto simp: object_inv_def lock_shown_def slots_ok_def winner_shown_def split: option.splits)
  then have "object_inv (snd (start_lock_if_needed now v (?ob v)))" "object_inv (?ob v)"
    if "\<And>i w. winning_command pa 0 = Some (i, w) \<Longrightarrow> v = w" for v
    using keepsD [OF keeps_start_lock, of "?ob v" v now] that by auto
  then have "object_inv (snd (seq_p (if c then start_lock_if_needed now v else return_p ()) (return_p True) (?ob v)))"
    if "\<And>i w. winning_command pa 0 = Some (i, w) \<Longrightarrow> v = w" for v c
    using that by (auto simp: seq_p_def run bind_p_def split: prod.split sum.split) (metis snd_conv)+
  then show ?thesis
    using inv Some pa by (simp add: check_min_time_expiry_def run Let_def split: option.split)
qed

section \<open>Writes\<close>

lemma writable_cases:
  assumes "class_ok (ob_class ob)" "write_access ob pid = Inr d"
  shows "map_of (oc_definitions (ob_class ob)) pid = Some d"
    "pid \<notin> {P_PRIORITY_ARRAY, P_VALUE_SOURCE, P_VALUE_SOURCE_ARRAY, P_LAST_COMMAND_TIME,
       P_COMMAND_TIME_ARRAY, P_CURRENT_COMMAND_PRIORITY, P_STATUS_FLAGS}"
proof -
  show d: "map_of (oc_definitions (ob_class ob)) pid = Some d"
    using assms(2) by (simp add: write_access_def split: option.splits if_splits)
  have "list_all (\<lambda>(pid, ty). case map_of (oc_definitions (ob_class ob)) pid of None \<Rightarrow> True
      | Some d \<Rightarrow> pd_access d = READ_ONLY \<and> pd_datatype d = ty) command_data"
    using assms(1) unfolding class_ok_def definitions_ok_def by (elim conjE)
  moreover have "pd_access d \<noteq> READ_ONLY \<or> pid = P_PRESENT_VALUE"
    using assms(2) d by (simp add: write_access_def split: if_splits)
  ultimately show "pid \<notin> {P_PRIORITY_ARRAY, P_VALUE_SOURCE, P_VALUE_SOURCE_ARRAY, P_LAST_COMMAND_TIME,
       P_COMMAND_TIME_ARRAY, P_CURRENT_COMMAND_PRIORITY, P_STATUS_FLAGS}"
    using d by (auto simp: command_data_def)
qed

lemma store_property_inv:
  assumes inv: "object_inv ob" and pid: "pid \<notin> fst ` set command_data"
  shows "object_inv (snd (store_property now d pid v priority idx ob))"
proof -
  let ?w = "if is_commandable ob pid
     then write_with_priority now pid (coerce_value (pd_datatype d) v) (case priority of Some p \<Rightarrow> p | None \<Rightarrow> 16)
     else case idx of Some i \<Rightarrow> write_array_element pid (coerce_value (pd_datatype d) v) i
       | None \<Rightarrow> write_p (set_prop pid (coerce_value (pd_datatype d) v))"
  have "object_inv (snd (?w ob))"
  proof (cases "is_commandable ob pid")
    case True
    then obtain pa where pv: "pid = P_PRESENT_VALUE" "ob_priority_array ob = Some pa"
      by (auto simp: is_commandable_def)
    then show ?thesis
      using inv True min_time_write_inv [OF inv pv(2)] commanded_inv [OF pv(2) inv]
      by (auto simp: write_with_priority_def run base_write_runs)
  next
    case False
    have set: "object_inv (set_prop pid w ob)" for w
      using inv False pid [unfolded command_data_def]
      by (cases "pid = P_PRESENT_VALUE")
        (auto simp: object_inv_def slots_ok_def lock_shown_def winner_shown_def is_commandable_def
          split: option.splits)
    then show ?thesis
      using False inv by (auto simp: write_array_element_def run Let_def split: option.split)
  qed
  then show ?thesis
    by (auto simp: store_property_def Let_def run seq_p_def bind_p_def split: prod.split sum.split)
qed

lemma write_property_inv:
  assumes "object_inv ob"
  shows "object_inv (snd (write_property now pid v priority idx ob))"
proof (cases "rbind (class_guard ob pid v) (\<lambda>u. write_access ob pid)")
  case (Inl e)
  then show ?thesis using assms by (simp add: write_property_def run)
next
  case (Inr d)
  then have d: "write_access ob pid = Inr d" by auto
  have "class_ok (ob_class ob)" using assms by (simp add: object_inv_def)
  from writable_cases(2) [OF this d] show ?thesis
    using assms Inr store_property_inv by (simp add: write_property_def run command_data_def)
qed

end
