(* ===== verification/Object_Commands.thy ===== *)
theory Object_Commands
  imports Object_Laws
begin

text \<open>
  Command priorities as an interface, and the object model as its implementation: whatever commands
  were written to Present_Value, it shows the most urgent one that was not relinquished.  Then the
  objects as event systems: the invariant in all reachable states, and the value that a minimum
  on or off time holds.
\<close>

section \<open>Command tables\<close>

text \<open>Sixteen slots; a slot that holds \<open>null\<close> is relinquished.\<close>

definition most_urgent :: "'v \<Rightarrow> (nat \<Rightarrow> 'v) \<Rightarrow> nat option" where
  "most_urgent null m = find (\<lambda>p. m p \<noteq> null) [1..<17]"

definition winner :: "'v \<Rightarrow> (nat \<Rightarrow> 'v) \<Rightarrow> 'v \<Rightarrow> 'v" where
  "winner null m d = (case most_urgent null m of None \<Rightarrow> d | Some p \<Rightarrow> m p)"

text \<open>The last command at a priority, in a list of commands in the order they were given.\<close>

definition last_command :: "(nat \<times> 'v) list \<Rightarrow> 'v \<Rightarrow> nat \<Rightarrow> 'v" where
  "last_command cs old p = (case find (\<lambda>c. fst c = p) (rev cs) of None \<Rightarrow> old | Some (q, v) \<Rightarrow> v)"

lemma last_command_snoc: "last_command (cs @ [(q, v)]) old p = (if q = p then v else last_command cs old p)"
  by (simp add: last_command_def)

lemma most_urgent_Some:
  "most_urgent null m = Some p \<longleftrightarrow> 1 \<le> p \<and> p \<le> 16 \<and> m p \<noteq> null \<and> (\<forall>q. 1 \<le> q \<and> q < p \<longrightarrow> m q = null)"
    (is "?lhs \<longleftrightarrow> ?rhs")
proof
  assume ?lhs
  then obtain i where "i < 16" "m (Suc i) \<noteq> null" "p = Suc i" and first: "\<forall>j<i. m (Suc j) = null"
    by (auto simp: most_urgent_def find_Some_iff)
  moreover have "m q = null" if "1 \<le> q" "q < p" for q
    using first \<open>p = Suc i\<close> that by (cases q) auto
  ultimately show ?rhs by simp
next
  assume r: ?rhs
  then show ?lhs
    unfolding most_urgent_def find_Some_iff by (intro exI [of _ "p - 1"]) auto
qed

lemma most_urgent_cong:
  "(\<And>p. 1 \<le> p \<Longrightarrow> p \<le> 16 \<Longrightarrow> m p = m' p) \<Longrightarrow> most_urgent null m = most_urgent null m'"
  unfolding most_urgent_def by (rule find_cong) auto

lemma winner_cong:
  assumes "\<And>p. 1 \<le> p \<Longrightarrow> p \<le> 16 \<Longrightarrow> m p = m' p"
  shows "winner null m d = winner null m' d"
proof -
  have eq: "most_urgent null m = most_urgent null m'" by (rule most_urgent_cong [OF assms])
  show ?thesis
  proof (cases "most_urgent null m'")
    case (Some p)
    then have "m p = m' p" using assms by (simp add: most_urgent_Some)
    with Some eq show ?thesis by (simp add: winner_def)
  qed (simp add: winner_def eq)
qed

lemma most_urgent_None: "most_urgent null m = None \<longleftrightarrow> (\<forall>p. 1 \<le> p \<and> p \<le> 16 \<longrightarrow> m p = null)"
  by (auto simp: most_urgent_def find_None_iff)

locale command_table =
  fixes inv :: "'s \<Rightarrow> bool" and null :: 'v and slot :: "'s \<Rightarrow> nat \<Rightarrow> 'v"
    and command :: "nat \<Rightarrow> 'v \<Rightarrow> 's \<Rightarrow> 's" and shown :: "'s \<Rightarrow> 'v" and relinquished :: "'s \<Rightarrow> 'v"
  assumes command_inv: "inv s \<Longrightarrow> 1 \<le> p \<Longrightarrow> p \<le> 16 \<Longrightarrow> inv (command p v s)"
    and command_slot: "inv s \<Longrightarrow> 1 \<le> p \<Longrightarrow> p \<le> 16 \<Longrightarrow> 1 \<le> q \<Longrightarrow> q \<le> 16
      \<Longrightarrow> slot (command p v s) q = (if q = p then v else slot s q)"
    and command_shown: "inv s \<Longrightarrow> 1 \<le> p \<Longrightarrow> p \<le> 16
      \<Longrightarrow> shown (command p v s) = winner null (slot (command p v s)) (relinquished s)"
    and command_relinquished: "inv s \<Longrightarrow> 1 \<le> p \<Longrightarrow> p \<le> 16 \<Longrightarrow> relinquished (command p v s) = relinquished s"
begin

definition run_commands :: "(nat \<times> 'v) list \<Rightarrow> 's \<Rightarrow> 's" where
  "run_commands cs s = foldl (\<lambda>s (p, v). command p v s) s cs"

definition valid :: "(nat \<times> 'v) list \<Rightarrow> bool" where
  "valid cs = list_all (\<lambda>(p, v). 1 \<le> p \<and> p \<le> 16) cs"

lemma run_facts:
  assumes "inv s" "valid cs"
  shows "inv (run_commands cs s)" "relinquished (run_commands cs s) = relinquished s"
    "1 \<le> p \<Longrightarrow> p \<le> 16 \<Longrightarrow> slot (run_commands cs s) p = last_command cs (slot s p) p"
  using assms(2)
proof (induction cs arbitrary: p rule: rev_induct)
  case Nil
  { case 1 show ?case using assms by (simp add: run_commands_def) }
  { case 2 show ?case by (simp add: run_commands_def) }
  { case 3 show ?case by (simp add: run_commands_def last_command_def) }
next
  case (snoc c cs)
  obtain q v where c: "c = (q, v)" by force
  have run: "run_commands (cs @ [c]) s = command q v (run_commands cs s)" by (simp add: run_commands_def c)
  { case 1 then show ?case using snoc.IH command_inv unfolding run by (simp add: valid_def c) }
  { case 2 then show ?case using snoc.IH command_relinquished unfolding run by (simp add: valid_def c) }
  { case 3 then show ?case using snoc.IH command_slot unfolding run
      by (auto simp: valid_def c last_command_snoc) }
qed

text \<open>After any commands, what is shown is the most urgent of the last commands per priority.\<close>

theorem shown_history:
  assumes "inv s" "valid cs" "cs \<noteq> []"
  shows "shown (run_commands cs s) = winner null (\<lambda>p. last_command cs (slot s p) p) (relinquished s)"
proof -
  obtain cs' q v where cs: "cs = cs' @ [(q, v)]" using assms(3) by (metis rev_exhaust surj_pair)
  with assms(2) have v: "valid cs'" "1 \<le> q" "q \<le> 16" by (auto simp: valid_def)
  let ?s = "run_commands cs' s"
  have run: "run_commands cs s = command q v ?s" by (simp add: run_commands_def cs)
  note facts = run_facts(1,2) [OF assms(1) v(1)]
  have "shown (run_commands cs s) = winner null (slot (run_commands cs s)) (relinquished s)"
    unfolding run using command_shown [OF facts(1) v(2,3)] facts(2) by simp
  also have "\<dots> = winner null (\<lambda>p. last_command cs (slot s p) p) (relinquished s)"
    using run_facts(3) [OF assms(1,2)] by (rule winner_cong)
  finally show ?thesis .
qed

lemma most_urgent_command:
  assumes "inv s" "1 \<le> p" "p \<le> 16" "v \<noteq> null" "\<And>q. 1 \<le> q \<Longrightarrow> q < p \<Longrightarrow> slot s q = null"
  shows "shown (command p v s) = v"
proof -
  have "most_urgent null (slot (command p v s)) = Some p"
    using assms by (auto simp: most_urgent_Some command_slot)
  then show ?thesis using assms by (simp add: command_shown winner_def command_slot)
qed

end

section \<open>The priority array of an object\<close>

definition slot_of :: "bac_object \<Rightarrow> nat \<Rightarrow> py_obj" where
  "slot_of ob p = (case ob_priority_array ob of None \<Rightarrow> ONone | Some pa \<Rightarrow> pa ! (p - 1))"

definition command_at :: "nat \<Rightarrow> py_obj \<Rightarrow> bac_object \<Rightarrow> bac_object" where
  "command_at p v ob = commanded (p - 1) v ob"

definition commandable :: "bac_object \<Rightarrow> bool" where
  "commandable ob \<longleftrightarrow> object_inv ob \<and> ob_priority_array ob \<noteq> None \<and> \<not> oc_min_time (ob_class ob)"

lemma most_urgent_winning:
  assumes "length pa = 16"
  shows "most_urgent ONone (\<lambda>p. pa ! (p - 1)) = map_option (\<lambda>(j, v). Suc j) (winning_command pa 0)"
proof (cases "winning_command pa 0")
  case None
  then have "most_urgent ONone (\<lambda>p. pa ! (p - 1)) = None"
    using assms by (auto simp: winning_command_None most_urgent_None)
  with None show ?thesis by simp
next
  case (Some c)
  obtain j v where c: "c = (j, v)" by force
  have "find (\<lambda>j. pa ! j \<noteq> ONone) [0..<length pa] = Some j"
    using Some c by (auto simp: winning_upd split: option.splits)
  then have first: "pa ! k = ONone" if "k < j" for k using that by (auto simp: find_Some_iff)
  have "j < 16" "v = pa ! j" "v \<noteq> ONone" using winning_command_Some [OF Some [unfolded c]] assms by auto
  then have "most_urgent ONone (\<lambda>p. pa ! (p - 1)) = Some (Suc j)"
    using first by (auto simp: most_urgent_Some)
  with Some c show ?thesis by simp
qed

lemma winning_most_urgent:
  assumes "length pa = 16"
  shows "(case winning_command pa 0 of Some (i, v) \<Rightarrow> v | None \<Rightarrow> d) = winner ONone (\<lambda>p. pa ! (p - 1)) d"
  using winning_command_Some [of pa 0] unfolding winner_def most_urgent_winning [OF assms]
  by (auto split: option.split)

lemma first_command_winning: "first_command pa (int i + 1) = map_option (\<lambda>(j, v). int j + 1) (winning_command pa i)"
  by (induction pa arbitrary: i) (simp_all add: algebra_simps flip: of_nat_Suc)

lemma commanded_shown:
  assumes "commandable ob" "1 \<le> p" "p \<le> 16"
  shows "get_prop P_PRESENT_VALUE (commanded (p - 1) v ob)
    = winner ONone (slot_of (commanded (p - 1) v ob)) (get_prop P_RELINQUISH_DEFAULT ob)"
proof -
  obtain pa where pa: "ob_priority_array ob = Some pa" "object_inv ob" "p - 1 < 16" "length pa = 16"
    using assms by (auto simp: commandable_def object_inv_def slots_ok_def)
  have "slot_of (commanded (p - 1) v ob) = (\<lambda>q. pa[p - 1 := v] ! (q - 1))"
    unfolding slot_of_def commanded_facts(1) [OF pa(1-3)] by simp
  then show ?thesis
    using commanded_facts(2) [OF pa(1-3), of v] winning_most_urgent [of "pa[p - 1 := v]"] pa(4) by simp
qed

interpretation commands: command_table commandable ONone slot_of command_at
  "get_prop P_PRESENT_VALUE" "get_prop P_RELINQUISH_DEFAULT"
proof
  fix ob v and p q :: nat
  assume ob: "commandable ob" "1 \<le> p" "p \<le> 16"
  then obtain pa where pa: "ob_priority_array ob = Some pa" "object_inv ob" "p - 1 < 16" "length pa = 16"
    "\<not> oc_min_time (ob_class ob)"
    by (auto simp: commandable_def object_inv_def slots_ok_def)
  note f = commanded_facts [OF pa(1-3), where v = v]
  show "commandable (command_at p v ob)"
    using f(1,4) pa(5) commanded_inv [OF pa(1-3,5), of v] by (simp add: commandable_def command_at_def)
  show "get_prop P_PRESENT_VALUE (command_at p v ob)
      = winner ONone (slot_of (command_at p v ob)) (get_prop P_RELINQUISH_DEFAULT ob)"
    unfolding command_at_def by (rule commanded_shown [OF ob])
  show "get_prop P_RELINQUISH_DEFAULT (command_at p v ob) = get_prop P_RELINQUISH_DEFAULT ob"
    unfolding command_at_def by (rule f(3)) (simp add: untouched_def)
  assume "1 \<le> q" "q \<le> 16"
  then show "slot_of (command_at p v ob) q = (if q = p then v else slot_of ob q)"
    using pa(3,4) ob(2) f(1) pa(1) by (auto simp: slot_of_def command_at_def nth_list_update)
qed

section \<open>Writing Present_Value\<close>

text \<open>A write to Present_Value of a commandable object whose class checks let it through.\<close>

definition accepts :: "bac_object \<Rightarrow> nat \<times> py_obj \<Rightarrow> bool" where
  "accepts ob c \<longleftrightarrow> (case c of (p, v) \<Rightarrow> 1 \<le> p \<and> p \<le> 16 \<and> class_guard ob P_PRESENT_VALUE v = Inr ()
     \<and> \<not> (p = 6 \<and> (map_of (oc_definitions (ob_class ob)) P_MINIMUM_ON_TIME \<noteq> None
              \<or> map_of (oc_definitions (ob_class ob)) P_MINIMUM_OFF_TIME \<noteq> None)))"

definition pv_type :: "bac_object \<Rightarrow> py_type" where
  "pv_type ob = (case map_of (oc_definitions (ob_class ob)) P_PRESENT_VALUE of
     Some d \<Rightarrow> pd_datatype d | None \<Rightarrow> T_object)"

definition pv_writable :: "bac_object \<Rightarrow> bool" where
  "pv_writable ob \<longleftrightarrow> (\<exists>d. map_of (oc_definitions (ob_class ob)) P_PRESENT_VALUE = Some d \<and> pd_access d = READ_WRITE)"

definition write_pv :: "py_float \<Rightarrow> nat \<times> py_obj \<Rightarrow> unit object_proc" where
  "write_pv now c = (case c of (p, v) \<Rightarrow>
     seq_p (write_property now P_PRESENT_VALUE v (Some (int p)) None) (return_p ()))"

lemma write_pv_runs:
  assumes ob: "commandable ob" "pv_writable ob" and c: "accepts ob (p, v)"
  shows "write_pv now (p, v) ob = (Inr (), command_at p (coerce_value (pv_type ob) v) ob)"
proof -
  obtain d where d: "map_of (oc_definitions (ob_class ob)) P_PRESENT_VALUE = Some d" "pd_access d = READ_WRITE"
    using ob(2) by (auto simp: pv_writable_def)
  have "write_access ob P_PRESENT_VALUE = Inr d" using d by (simp add: write_access_def)
  moreover have "is_commandable ob P_PRESENT_VALUE" "\<not> oc_min_time (ob_class ob)"
    using ob by (auto simp: is_commandable_def commandable_def)
  moreover have "nat (int p - 1) = p - 1" by simp
  ultimately show ?thesis
    using c d
    by (auto simp: write_pv_def write_property_def store_property_def run seq_p_def bind_assoc accepts_def
        Let_def write_with_priority_def pv_type_def run_bind base_write_runs command_at_def)
qed

lemma accepts_commanded:
  assumes "commandable ob" "i < 16"
  shows "accepts (commanded i v ob) = accepts ob" "pv_writable (commanded i v ob) = pv_writable ob"
    "pv_type (commanded i v ob) = pv_type ob" "oc_polarity (ob_class (commanded i v ob)) = oc_polarity (ob_class ob)"
proof -
  obtain pa where pa: "ob_priority_array ob = Some pa" "object_inv ob" using assms by (auto simp: commandable_def)
  note f = commanded_facts [OF pa assms(2), where v = v]
  have "get_prop P_MIN_PRES_VALUE (commanded i v ob) = get_prop P_MIN_PRES_VALUE ob"
    "get_prop P_MAX_PRES_VALUE (commanded i v ob) = get_prop P_MAX_PRES_VALUE ob"
    "get_prop P_NUMBER_OF_STATES (commanded i v ob) = get_prop P_NUMBER_OF_STATES ob"
    by (rule f(3), simp add: untouched_def)+
  then have "class_guard (commanded i v ob) P_PRESENT_VALUE w = class_guard ob P_PRESENT_VALUE w" for w
    unfolding class_guard_def f(4) by (simp only:)
  then show "accepts (commanded i v ob) = accepts ob" by (simp add: accepts_def fun_eq_iff f(4))
  show "pv_writable (commanded i v ob) = pv_writable ob" "pv_type (commanded i v ob) = pv_type ob"
    "oc_polarity (ob_class (commanded i v ob)) = oc_polarity (ob_class ob)"
    by (simp_all add: pv_writable_def pv_type_def f(4))
qed

lemma write_pvs_run:
  assumes "commandable ob" "pv_writable ob" "list_all (accepts ob) cs"
  shows "each_p (write_pv now) cs ob
    = (Inr (), commands.run_commands (map (\<lambda>(p, v). (p, coerce_value (pv_type ob) v)) cs) ob)"
  using assms
proof (induction cs arbitrary: ob)
  case Nil
  then show ?case by (simp add: run commands.run_commands_def)
next
  case (Cons c cs)
  obtain p v where c: "c = (p, v)" by force
  let ?ob = "command_at p (coerce_value (pv_type ob) v) ob"
  have p: "p - 1 < 16" "1 \<le> p" "p \<le> 16" using Cons.prems(3) by (auto simp: c accepts_def)
  note same = accepts_commanded [OF Cons.prems(1) p(1), of "coerce_value (pv_type ob) v", folded command_at_def]
  have "commandable ?ob" by (rule commands.command_inv [OF Cons.prems(1) p(2,3)])
  then have "each_p (write_pv now) cs ?ob
      = (Inr (), commands.run_commands (map (\<lambda>(p, v). (p, coerce_value (pv_type ob) v)) cs) ?ob)"
    using Cons.IH [of ?ob] Cons.prems same by simp
  then show ?case
    using Cons.prems write_pv_runs [of ob p v now]
    by (simp add: c seq_p_def run_bind commands.run_commands_def)
qed

lemma slot_winner:
  assumes "ob_priority_array ob = Some pa" "length pa = 16" "most_urgent ONone (slot_of ob) = Some p"
  shows "winning_command pa 0 = Some (p - 1, slot_of ob p)"
proof -
  have slots: "slot_of ob = (\<lambda>p. pa ! (p - 1))" using assms(1) by (simp add: slot_of_def fun_eq_iff)
  show ?thesis
    using assms(3) winning_command_Some [of pa 0] unfolding slots most_urgent_winning [OF assms(2)] by auto
qed

lemma read_command_priority:
  assumes "commandable ob"
  shows "read_property ob P_CURRENT_COMMAND_PRIORITY None =
    Inr (case most_urgent ONone (slot_of ob) of None \<Rightarrow> ONone | Some p \<Rightarrow> OInt (int p))"
proof -
  obtain pa where pa: "ob_priority_array ob = Some pa" "length pa = 16"
    using assms by (auto simp: commandable_def object_inv_def slots_ok_def)
  have slots: "slot_of ob = (\<lambda>p. pa ! (p - 1))" using pa(1) by (simp add: slot_of_def fun_eq_iff)
  show ?thesis
    using first_command_winning [of pa 0] unfolding slots most_urgent_winning [OF pa(2)]
    by (auto simp: read_property_def base_read_property_def get_current_command_priority_def pa split: option.split)
qed

section \<open>Writing other properties\<close>

lemma failed_write_keeps:
  assumes "write_property now pid v priority idx ob = (Inl e, ob')" "\<not> oc_min_time (ob_class ob)"
  shows "ob' = ob"
proof (cases "rbind (class_guard ob pid v) (\<lambda>u. write_access ob pid)")
  case (Inl e)
  then show ?thesis using assms by (simp add: write_property_def run)
next
  case (Inr d)
  then show ?thesis
    using assms
    by (auto simp: write_property_def store_property_def Let_def run seq_p_def bind_p_def write_with_priority_def
        base_write_with_priority_def write_array_element_def split: if_splits option.splits)
qed

lemma plain_write_runs:
  assumes "write_property now pid v priority None ob = (Inr r, ob')" "\<not> is_commandable ob pid"
  obtains d where "write_access ob pid = Inr d" "ob' = set_prop pid (coerce_value (pd_datatype d) v) ob"
proof (cases "rbind (class_guard ob pid v) (\<lambda>u. write_access ob pid)")
  case (Inl e)
  then show thesis using assms by (simp add: write_property_def run)
next
  case (Inr d)
  then have "write_access ob pid = Inr d" by auto
  moreover from this have "ob' = set_prop pid (coerce_value (pd_datatype d) v) ob"
    using assms Inr by (auto simp: write_property_def store_property_def Let_def run seq_p_def bind_p_def)
  ultimately show thesis using that by blast
qed

section \<open>Objects as event systems\<close>

datatype object_event =
    Object_write py_float int py_obj "int option" "int option"
  | Lock_checked py_float

fun object_event_proc :: "object_event \<Rightarrow> unit object_proc" where
  "object_event_proc (Object_write now pid v priority idx) =
     seq_p (write_property now pid v priority idx) (return_p ())"
| "object_event_proc (Lock_checked now) = seq_p (check_min_time_expiry now) (return_p ())"

abbreviation object_reach :: "bac_object \<Rightarrow> bac_object \<Rightarrow> bool" where
  "object_reach \<equiv> reachable (\<lambda>ob ev. True) object_event_proc"

lemma seq_return_state: "snd (seq_p m (return_p x) s) = snd (m s)"
  by (simp add: seq_p_def bind_p_def run split: prod.split sum.split)

interpretation object_machine: event_system "\<lambda>ob ev. True" object_event_proc object_inv
proof
  fix ob ev assume "object_inv ob"
  then show "object_inv (snd (object_event_proc ev ob))"
    by (cases ev) (simp_all add: seq_return_state write_property_inv check_expiry_inv)
qed

section \<open>What a lock holds\<close>

text \<open>An event that is over before the lock ends.\<close>

fun event_time :: "object_event \<Rightarrow> py_float" where
  "event_time (Object_write now pid v priority idx) = now"
| "event_time (Lock_checked now) = now"

definition before :: "py_number \<Rightarrow> bac_object \<Rightarrow> object_event \<Rightarrow> bool" where
  "before u ob ev \<longleftrightarrow> F (event_time ev) < u"

definition holding :: "py_number \<Rightarrow> py_obj \<Rightarrow> bac_object \<Rightarrow> bool" where
  "holding u v ob \<longleftrightarrow> object_inv ob \<and> ob_lock_until ob = Some u \<and> ob_locked_value ob = v"

lemma holding_value: "holding u v ob \<Longrightarrow> get_prop P_PRESENT_VALUE ob = v"
  by (simp add: holding_def object_inv_def lock_shown_def)

lemma holding_write:
  assumes h: "holding u v ob" and now: "F now < u"
  shows "holding u v (snd (write_property now pid w priority idx ob))"
proof -
  have inv: "object_inv ob" and lock: "ob_lock_until ob = Some u" "ob_locked_value ob = v"
    using h by (simp_all add: holding_def)
  then have mt: "oc_min_time (ob_class ob)" and pa: "ob_priority_array ob \<noteq> None"
    by (simp_all add: object_inv_def lock_shown_def)
  let ?same = "\<lambda>ob. ob_lock_until ob = Some u \<and> ob_locked_value ob = v"
  have "?same (snd (min_time_write_with_priority now P_PRESENT_VALUE x p None ob))" for x p
  proof (cases "fst (base_write_with_priority P_PRESENT_VALUE x p None ob)")
    case (Inl e)
    then have "base_write_with_priority P_PRESENT_VALUE x p None ob = (Inl e, ob)"
      by (auto simp: base_write_runs split: if_splits)
    then show ?thesis using lock by (simp add: min_time_write_with_priority_def run seq_p_def run_bind)
  next
    case (Inr y)
    then have b: "base_write_with_priority P_PRESENT_VALUE x p None ob = (Inr (), commanded (nat (p - 1)) x ob)"
      and idx: "nat (p - 1) < 16"
      by (auto simp: base_write_runs split: if_splits)
    obtain pa' where pa': "ob_priority_array ob = Some pa'" using pa by blast
    show ?thesis
      using commanded_facts(5,6) [OF pa' inv idx, of x] lock now
      by (simp add: min_time_write_with_priority_def run seq_p_def run_bind b)
  qed
  then have "?same (snd (store_property now d pid w priority idx ob))" for d
    using mt lock
    by (auto simp: store_property_def Let_def run seq_p_def bind_p_def is_commandable_def write_with_priority_def
        write_array_element_def split: prod.split sum.split option.split) (metis snd_conv)+
  then have "?same (snd (write_property now pid w priority idx ob))"
    using lock by (auto simp: write_property_def run bind_p_def split: sum.split)
  then show ?thesis using write_property_inv [OF inv] by (simp add: holding_def)
qed

lemma holding_step:
  assumes "holding u v ob" "before u ob ev"
  shows "holding u v (snd (object_event_proc ev ob))"
proof (cases ev)
  case (Object_write now pid w priority idx)
  then show ?thesis
    using assms holding_write [of u v ob now] by (simp add: before_def seq_return_state)
next
  case (Lock_checked now)
  then show ?thesis
    using assms by (simp add: before_def holding_def seq_return_state check_min_time_expiry_def run)
qed

interpretation holding_machine: event_system "before u" object_event_proc "holding u v" for u v
  by unfold_locales (rule holding_step)

text \<open>Whatever event switches the output, it starts the lock.\<close>

lemma lock_for_runs:
  assumes "0 < n" "num_add (F now) (I n) = Inr u"
  shows "lock_for now pv (OInt n) ob = (Inr (), ob\<lparr>ob_lock_until := Some u, ob_locked_value := pv\<rparr>)"
  using assms by (simp add: lock_for_def run obj_less_def num_zero_def)

definition min_time_of :: "int \<Rightarrow> bac_object \<Rightarrow> py_obj" where
  "min_time_of b ob = get_prop (if b = 1 then P_MINIMUM_ON_TIME else P_MINIMUM_OFF_TIME) ob"

lemma start_lock_runs:
  assumes "b \<in> {0, 1}" "min_time_of b ob = OInt n" "0 < n" "num_add (F now) (I n) = Inr u"
  shows "start_lock_if_needed now (OEnum ''BinaryPV'' b) ob
    = (Inr (), ob\<lparr>ob_lock_until := Some u, ob_locked_value := OEnum ''BinaryPV'' b\<rparr>)"
  using assms(1,2) lock_for_runs [OF assms(3,4)]
  by (auto simp: start_lock_if_needed_def run min_time_of_def)

lemma binary_values_differ: "b \<noteq> b' \<Longrightarrow> \<not> py_eq (OEnum ''BinaryPV'' b') (OEnum ''BinaryPV'' b)"
  by simp

lemma untouched_min_times: "untouched P_MINIMUM_ON_TIME" "untouched P_MINIMUM_OFF_TIME"
  by (simp_all add: untouched_def)

lemma command_locks:
  assumes inv: "object_inv ob" and pa: "ob_priority_array ob = Some pa"
    and ran: "min_time_write_with_priority now P_PRESENT_VALUE v p None ob = (Inr (), ob1)"
    and old: "get_prop P_PRESENT_VALUE ob = OEnum ''BinaryPV'' b"
    and new: "get_prop P_PRESENT_VALUE ob1 = OEnum ''BinaryPV'' b'" "b' \<noteq> b" "b' \<in> {0, 1}"
    and time: "min_time_of b' ob = OInt n" "0 < n" "num_add (F now) (I n) = Inr u"
  shows "ob_lock_until ob1 = Some u \<and> ob_locked_value ob1 = OEnum ''BinaryPV'' b'"
proof -
  have "\<exists>u. fst (base_write_with_priority P_PRESENT_VALUE v p None ob) = Inr u"
    using ran by (cases "base_write_with_priority P_PRESENT_VALUE v p None ob"; cases "fst (base_write_with_priority P_PRESENT_VALUE v p None ob)")
      (simp_all add: min_time_write_with_priority_def run seq_p_def run_bind)
  then have b: "base_write_with_priority P_PRESENT_VALUE v p None ob = (Inr (), commanded (nat (p - 1)) v ob)"
    and idx: "nat (p - 1) < 16"
    by (auto simp: base_write_runs split: if_splits)
  let ?ob = "commanded (nat (p - 1)) v ob"
  note f = commanded_facts [OF pa inv idx, where v = v]
  show ?thesis
  proof (cases "case ob_lock_until ob of None \<Rightarrow> False | Some w \<Rightarrow> F now < w")
    case True
    then have "ob_locked_value ob = OEnum ''BinaryPV'' b"
      using inv old by (auto simp: object_inv_def lock_shown_def split: option.splits)
    then have "get_prop P_PRESENT_VALUE ob1 = OEnum ''BinaryPV'' b"
      using ran True f(5,6) by (auto simp: min_time_write_with_priority_def run seq_p_def run_bind b split: option.splits)
    then show ?thesis using new by simp
  next
    case False
    let ?ob' = "if ob_lock_until ?ob \<noteq> None then ?ob\<lparr>ob_lock_until := None, ob_locked_value := ONone\<rparr> else ?ob"
    have rest: "(if \<not> py_eq (get_prop P_PRESENT_VALUE ?ob) (OEnum ''BinaryPV'' b)
        then start_lock_if_needed now (get_prop P_PRESENT_VALUE ?ob) else return_p ()) ?ob' = (Inr (), ob1)"
      using ran False f(5) old
      by (auto simp: min_time_write_with_priority_def run seq_p_def run_bind b split: option.splits)
    have "get_prop P_PRESENT_VALUE ob1 = get_prop P_PRESENT_VALUE ?ob"
    proof (cases "py_eq (get_prop P_PRESENT_VALUE ?ob) (OEnum ''BinaryPV'' b)")
      case True
      then show ?thesis using rest by (auto simp: return_p_def)
    next
      case False
      have "get_prop P_PRESENT_VALUE (snd (start_lock_if_needed now w s)) = get_prop P_PRESENT_VALUE s" for w s
        by (auto simp: start_lock_if_needed_def lock_for_def run bind_p_def split: option.split sum.split prod.split)
      from this [of "get_prop P_PRESENT_VALUE ?ob" ?ob'] show ?thesis using rest False by simp
    qed
    moreover have "min_time_of b' ?ob' = OInt n" "get_prop P_PRESENT_VALUE ?ob' = get_prop P_PRESENT_VALUE ?ob"
      using time(1) f(3) [OF untouched_min_times(1)] f(3) [OF untouched_min_times(2)]
      by (simp_all add: min_time_of_def split: if_splits)
    ultimately show ?thesis
      using rest new binary_values_differ [of b b'] start_lock_runs [OF new(3) _ time(2,3), of ?ob'] by auto
  qed
qed

lemma plain_write_shows:
  assumes "\<not> is_commandable ob pid" "ob_priority_array ob = Some pa"
  shows "get_prop P_PRESENT_VALUE (snd (write_property now pid v priority idx ob)) = get_prop P_PRESENT_VALUE ob"
  using assms
  by (auto simp: write_property_def store_property_def Let_def run seq_p_def bind_p_def write_array_element_def
      is_commandable_def split: sum.split option.split)

lemma expiry_locks:
  assumes inv: "object_inv ob" and pa: "ob_priority_array ob = Some pa"
    and ran: "check_min_time_expiry now ob = (Inr r, ob1)"
    and old: "get_prop P_PRESENT_VALUE ob = OEnum ''BinaryPV'' b"
    and new: "get_prop P_PRESENT_VALUE ob1 = OEnum ''BinaryPV'' b'" "b' \<noteq> b" "b' \<in> {0, 1}"
    and time: "min_time_of b' ob = OInt n" "0 < n" "num_add (F now) (I n) = Inr u"
  shows "ob_lock_until ob1 = Some u \<and> ob_locked_value ob1 = OEnum ''BinaryPV'' b'"
proof -
  obtain w where w: "ob_lock_until ob = Some w" "\<not> F now < w"
    using ran old new by (auto simp: check_min_time_expiry_def run split: option.splits if_splits)
  then have held: "ob_locked_value ob = OEnum ''BinaryPV'' b"
    using inv old by (simp add: object_inv_def lock_shown_def)
  define pv where "pv = (case winning_command pa 0 of Some (i, v) \<Rightarrow> v | None \<Rightarrow> get_prop P_RELINQUISH_DEFAULT ob)"
  let ?ob = "set_prop P_PRESENT_VALUE pv (ob\<lparr>ob_lock_until := None, ob_locked_value := ONone\<rparr>)"
  have rest: "seq_p (if \<not> py_eq pv (OEnum ''BinaryPV'' b) \<and> pv \<noteq> ONone then start_lock_if_needed now pv
      else return_p ()) (return_p True) ?ob = (Inr r, ob1)"
    using ran w held pa
    by (simp only: check_min_time_expiry_def run Let_def pv_def option.case id_apply if_False)
  have "get_prop P_PRESENT_VALUE (snd (start_lock_if_needed now w s)) = get_prop P_PRESENT_VALUE s" for w s
    by (auto simp: start_lock_if_needed_def lock_for_def run bind_p_def split: option.split sum.split prod.split)
  from this [of pv ?ob] have pv: "pv = OEnum ''BinaryPV'' b'"
    using rest new(1) by (auto simp: seq_p_def bind_p_def run split: if_splits prod.splits sum.splits)
  have "min_time_of b' ?ob = OInt n" using time(1) by (simp add: min_time_of_def)
  then show ?thesis
    using rest pv new(2) binary_values_differ [of b b'] start_lock_runs [OF new(3) _ time(2,3), of ?ob]
    by (auto simp: seq_p_def run run_bind)
qed

lemma lock_starts:
  assumes inv: "object_inv ob" and pa: "ob_priority_array ob = Some pa" and mt: "oc_min_time (ob_class ob)"
    and ran: "object_event_proc ev ob = (Inr (), ob1)"
    and old: "get_prop P_PRESENT_VALUE ob = OEnum ''BinaryPV'' b"
    and new: "get_prop P_PRESENT_VALUE ob1 = OEnum ''BinaryPV'' b'" "b' \<noteq> b" "b' \<in> {0, 1}"
    and time: "min_time_of b' ob = OInt n" "0 < n" "num_add (F (event_time ev)) (I n) = Inr u"
  shows "holding u (OEnum ''BinaryPV'' b') ob1"
proof -
  have inv1: "object_inv ob1" using object_machine.step_keeps [OF inv, of ev] ran by simp
  have "ob_lock_until ob1 = Some u \<and> ob_locked_value ob1 = OEnum ''BinaryPV'' b'"
  proof (cases ev)
    case (Lock_checked now)
    then obtain r where "check_min_time_expiry now ob = (Inr r, ob1)"
      using ran by (auto simp: seq_p_def bind_p_def run split: prod.splits sum.splits)
    from expiry_locks [OF inv pa this old new time(1,2)] time(3) Lock_checked show ?thesis by simp
  next
    case (Object_write now pid v priority idx)
    then obtain r where w: "write_property now pid v priority idx ob = (Inr r, ob1)"
      using ran by (auto simp: seq_p_def bind_p_def run split: prod.splits sum.splits)
    have "is_commandable ob pid"
      using plain_write_shows [OF _ pa, of pid now v priority idx] w old new by auto
    moreover from this have pid: "pid = P_PRESENT_VALUE" by (simp add: is_commandable_def)
    ultimately have "\<exists>d :: prop_def. min_time_write_with_priority now P_PRESENT_VALUE (coerce_value (pd_datatype d) v)
        (case priority of Some p \<Rightarrow> p | None \<Rightarrow> 16) None ob = (Inr (), ob1)"
      using w mt
      by (auto simp: write_property_def store_property_def Let_def run seq_p_def bind_p_def write_with_priority_def
          split: prod.splits sum.splits)
    then obtain d :: prop_def where "min_time_write_with_priority now P_PRESENT_VALUE (coerce_value (pd_datatype d) v)
        (case priority of Some p \<Rightarrow> p | None \<Rightarrow> 16) None ob = (Inr (), ob1)" by blast
    from command_locks [OF inv pa this old new time(1,2)] time(3) Object_write show ?thesis by simp
  qed
  with inv1 show ?thesis by (simp add: holding_def)
qed

end
