(* ===== verification/Object_Db.thy ===== *)
theory Object_Db
  imports Object_Commands
begin

text \<open>
  \<open>ObjectDatabase\<close> of \<open>objects/base.py\<close>: the objects of a device with the index of their names, the
  index by type, Database_Revision and the change callbacks; and the writes of objects that are in it.
  The objects are in the order they were added.  A callback is a number; its calls are logged, since what
  it raises is suppressed.
\<close>

section \<open>The database\<close>

record object_db =
  db_objects :: "(object_identifier \<times> bac_object) list"
  db_names :: "(py_obj \<times> object_identifier) list"
  db_types :: "(int \<times> object_identifier list) list"
  db_device :: "object_identifier option"
  db_callbacks :: "((object_identifier \<times> int) \<times> nat list) list"
  db_calls :: "(nat \<times> int \<times> py_obj \<times> py_obj) list"

type_synonym 'a db_proc = "(object_db, exc, 'a) eproc"

definition empty_db :: object_db where
  "empty_db = \<lparr>db_objects = [], db_names = [], db_types = [], db_device = None, db_callbacks = [], db_calls = []\<rparr>"

definition object_list :: "object_db \<Rightarrow> object_identifier list" where
  "object_list db = map fst (db_objects db)"

definition get_objects_of_type :: "int \<Rightarrow> object_db \<Rightarrow> object_identifier list" where
  "get_objects_of_type ty db = (case map_of (db_types db) ty of None \<Rightarrow> [] | Some ids \<Rightarrow> ids)"

text \<open>The dict of names: keys are equal when \<open>==\<close> says so, and have to be hashable.\<close>

fun hashable :: "py_obj \<Rightarrow> bool" where
  "hashable (OList xs) = False"
| "hashable (ODict xs) = False"
| "hashable (OTuple xs) = list_all hashable xs"
| "hashable (OCalendarEntry v) = hashable v"
| "hashable (OTimeValue t v) = hashable v"
| "hashable (OSpecialEvent v xs p) = (hashable v \<and> list_all hashable xs)"
| "hashable (OValueSource c v) = hashable v"
| "hashable (OTimeStamp c v) = hashable v"
| "hashable v = True"

fun name_entry :: "(py_obj \<times> object_identifier) list \<Rightarrow> py_obj \<Rightarrow> object_identifier option" where
  "name_entry [] name = None"
| "name_entry ((k, i) # names) name = (if py_eq k name then Some i else name_entry names name)"

definition named :: "object_db \<Rightarrow> py_obj \<Rightarrow> object_identifier option" where
  "named db = name_entry (db_names db)"

definition find_name :: "object_db \<Rightarrow> py_obj \<Rightarrow> exc + object_identifier option" where
  "find_name db name = (if hashable name then Inr (named db name) else Inl (Python TypeError))"

definition set_name :: "py_obj \<Rightarrow> object_identifier \<Rightarrow> object_db \<Rightarrow> object_db" where
  "set_name name i db = db\<lparr>db_names :=
     (if named db name = None then db_names db @ [(name, i)]
      else map (\<lambda>(k, j). if py_eq k name then (k, i) else (k, j)) (db_names db))\<rparr>"

definition del_name :: "py_obj \<Rightarrow> object_db \<Rightarrow> object_db" where
  "del_name name db = db\<lparr>db_names := filter (\<lambda>(k, i). \<not> py_eq k name) (db_names db)\<rparr>"

definition update_object :: "object_identifier \<Rightarrow> (bac_object \<Rightarrow> bac_object) \<Rightarrow> object_db \<Rightarrow> object_db" where
  "update_object i f db = db\<lparr>db_objects := map (\<lambda>(j, ob). (j, if j = i then f ob else ob)) (db_objects db)\<rparr>"

section \<open>Configuration\<close>

text \<open>\<open>current + 1\<close>\<close>

definition next_revision :: "bac_object \<Rightarrow> exc + py_obj" where
  "next_revision ob =
     (case map_of (ob_properties ob) P_DATABASE_REVISION of None \<Rightarrow> Inr (OInt 1)
      | Some v \<Rightarrow> (case as_number v of None \<Rightarrow> Inl (Python TypeError)
          | Some a \<Rightarrow> rbind (py (num_add a (I 1))) (\<lambda>n.
              Inr (case n of I k \<Rightarrow> OInt k | F x \<Rightarrow> OFloat x))))"

definition increment_database_revision :: "unit db_proc" where
  "increment_database_revision =
     bind_p (read_p (\<lambda>db. case db_device db of None \<Rightarrow> None
       | Some i \<Rightarrow> map_option (Pair i) (map_of (db_objects db) i))) (\<lambda>device.
     case device of None \<Rightarrow> return_p ()
     | Some (i, ob) \<Rightarrow> bind_p (lift_p (next_revision ob)) (\<lambda>v.
         write_p (update_object i (set_prop P_DATABASE_REVISION v))))"

definition insert_object :: "bac_object \<Rightarrow> object_db \<Rightarrow> object_db" where
  "insert_object ob db =
     (let i = ob_id ob; ty = object_type i; name = get_prop P_OBJECT_NAME ob;
          db = db\<lparr>db_objects := db_objects db @ [(i, ob\<lparr>ob_in_db := True\<rparr>)],
            db_types := AList.update ty (get_objects_of_type ty db @ [i]) (db_types db)\<rparr>;
          db = (if name \<noteq> ONone then set_name name i db else db)
      in if ty = OT_DEVICE then db\<lparr>db_device := Some i\<rparr> else db)"

definition db_add :: "bac_object \<Rightarrow> unit db_proc" where
  "db_add ob =
     bind_p (read_p id) (\<lambda>db.
     if ob_id ob \<in> set (object_list db)
     then raise_p (bacnet_error EC_OBJECT CODE_OBJECT_IDENTIFIER_ALREADY_EXISTS)
     else
       let name = get_prop P_OBJECT_NAME ob
       in bind_p (lift_p (if name = ONone then Inr None else find_name db name)) (\<lambda>taken.
          if taken \<noteq> None then raise_p (bacnet_error EC_OBJECT CODE_DUPLICATE_NAME)
          else seq_p (write_p (insert_object ob)) increment_database_revision))"

definition delete_object :: "object_identifier \<Rightarrow> bac_object \<Rightarrow> object_db \<Rightarrow> object_db" where
  "delete_object i ob db =
     (let name = get_prop P_OBJECT_NAME ob; ty = object_type i;
          db = (if name \<noteq> ONone \<and> named db name = Some i then del_name name db else db);
          bucket = filter (\<lambda>j. j \<noteq> i) (get_objects_of_type ty db)
      in db\<lparr>db_types := (if bucket = [] then AList.delete ty (db_types db) else AList.update ty bucket (db_types db)),
           db_objects := filter (\<lambda>(j, ob). j \<noteq> i) (db_objects db)\<rparr>)"

definition db_remove :: "object_identifier \<Rightarrow> unit db_proc" where
  "db_remove i =
     bind_p (read_p (\<lambda>db. map_of (db_objects db) i)) (\<lambda>found.
     case found of None \<Rightarrow> raise_p (bacnet_error EC_OBJECT CODE_UNKNOWN_OBJECT)
     | Some ob \<Rightarrow>
         if object_type i = OT_DEVICE
         then raise_p (bacnet_error EC_OBJECT CODE_OBJECT_DELETION_NOT_PERMITTED)
         else seq_p (write_p (delete_object i ob)) increment_database_revision)"

definition validate_name_unique :: "py_obj \<Rightarrow> object_identifier \<Rightarrow> object_db \<Rightarrow> exc + unit" where
  "validate_name_unique name exclude db =
     rbind (find_name db name) (\<lambda>existing.
       if existing \<noteq> None \<and> existing \<noteq> Some exclude
       then Inl (bacnet_error EC_PROPERTY CODE_DUPLICATE_NAME) else Inr ())"

definition update_name_index :: "object_identifier \<Rightarrow> py_obj \<Rightarrow> py_obj \<Rightarrow> object_db \<Rightarrow> object_db" where
  "update_name_index i old_name new_name db =
     set_name new_name i (if old_name \<noteq> ONone \<and> named db old_name = Some i then del_name old_name db else db)"

section \<open>Callbacks\<close>

definition callbacks_of :: "object_db \<Rightarrow> object_identifier \<Rightarrow> int \<Rightarrow> nat list" where
  "callbacks_of db i pid = (case map_of (db_callbacks db) (i, pid) of None \<Rightarrow> [] | Some cbs \<Rightarrow> cbs)"

definition register_change_callback :: "object_identifier \<Rightarrow> int \<Rightarrow> nat \<Rightarrow> unit db_proc" where
  "register_change_callback i pid cb =
     bind_p (read_p (\<lambda>db. callbacks_of db i pid)) (\<lambda>cbs.
     seq_p (write_p (\<lambda>db. db\<lparr>db_callbacks := AList.update (i, pid) cbs (db_callbacks db)\<rparr>))
     (if 100 \<le> length cbs then raise_p (Python ValueError)
      else write_p (\<lambda>db. update_object i (\<lambda>ob. ob\<lparr>ob_notifies := True\<rparr>)
             (db\<lparr>db_callbacks := AList.update (i, pid) (cbs @ [cb]) (db_callbacks db)\<rparr>))))"

definition unregister_change_callback :: "object_identifier \<Rightarrow> int \<Rightarrow> nat \<Rightarrow> unit db_proc" where
  "unregister_change_callback i pid cb =
     write_p (\<lambda>db. case map_of (db_callbacks db) (i, pid) of None \<Rightarrow> db
       | Some cbs \<Rightarrow>
           let rest = remove1 cb cbs
           in db\<lparr>db_callbacks := (if rest = [] then AList.delete (i, pid) (db_callbacks db)
                 else AList.update (i, pid) rest (db_callbacks db))\<rparr>)"

definition notify_change :: "object_identifier \<Rightarrow> int \<Rightarrow> py_obj \<times> py_obj \<Rightarrow> object_db \<Rightarrow> object_db" where
  "notify_change i pid change db =
     db\<lparr>db_calls := db_calls db @ map (\<lambda>cb. (cb, pid, fst change, snd change)) (callbacks_of db i pid)\<rparr>"

section \<open>Reading and writing\<close>

text \<open>A procedure of an object, run on the object in the database.\<close>

definition on_object :: "object_identifier \<Rightarrow> 'a object_proc \<Rightarrow> 'a db_proc" where
  "on_object i m db =
     (case map_of (db_objects db) i of None \<Rightarrow> (Inl (bacnet_error EC_OBJECT CODE_UNKNOWN_OBJECT), db)
      | Some ob \<Rightarrow> (case m ob of (r, ob') \<Rightarrow> (r, update_object i (\<lambda>ob. ob') db)))"

definition db_read :: "object_db \<Rightarrow> object_identifier \<Rightarrow> int \<Rightarrow> int option \<Rightarrow> exc + py_obj" where
  "db_read db i pid array_index =
     (case map_of (db_objects db) i of None \<Rightarrow> Inl (bacnet_error EC_OBJECT CODE_UNKNOWN_OBJECT)
      | Some ob \<Rightarrow>
          if oc_type (ob_class ob) = OT_DEVICE \<and> pid = P_OBJECT_LIST
          then index_value (OList (map OOid (object_list db))) array_index
          else read_property ob pid array_index)"

text \<open>The checks on a new Object_Name, between the access check and the assignment.\<close>

definition rename_checks :: "object_identifier \<Rightarrow> int \<Rightarrow> py_obj \<Rightarrow> unit db_proc" where
  "rename_checks i pid v =
     (if pid \<noteq> P_OBJECT_NAME then return_p ()
      else bind_p (read_p (validate_name_unique v i)) (\<lambda>r.
           seq_p (lift_p r)
           (seq_p (write_p (\<lambda>db. case map_of (db_objects db) i of None \<Rightarrow> db
               | Some ob \<Rightarrow> update_name_index i (get_prop P_OBJECT_NAME ob) v db))
           increment_database_revision)))"

definition db_write ::
  "py_float \<Rightarrow> object_identifier \<Rightarrow> int \<Rightarrow> py_obj \<Rightarrow> int option \<Rightarrow> int option \<Rightarrow> unit db_proc" where
  "db_write now i pid v priority array_index =
     bind_p (on_object i (bind_p (read_p (\<lambda>ob. rbind (class_guard ob pid v) (\<lambda>u. write_access ob pid))) lift_p)) (\<lambda>d.
     seq_p (rename_checks i pid v)
     (bind_p (on_object i (bind_p (store_property now d pid v priority array_index) (\<lambda>change.
          bind_p (read_p ob_notifies) (\<lambda>notifies. return_p (if notifies then change else None))))) (\<lambda>change.
      case change of None \<Rightarrow> return_p ()
      | Some c \<Rightarrow> write_p (notify_change i pid c))))"

section \<open>The database as an event system\<close>

datatype db_event =
    Db_add bac_object
  | Db_remove object_identifier
  | Db_write py_float object_identifier int py_obj "int option" "int option"
  | Db_register object_identifier int nat
  | Db_unregister object_identifier int nat

fun db_event_proc :: "db_event \<Rightarrow> unit db_proc" where
  "db_event_proc (Db_add ob) = db_add ob"
| "db_event_proc (Db_remove i) = db_remove i"
| "db_event_proc (Db_write now i pid v priority array_index) = db_write now i pid v priority array_index"
| "db_event_proc (Db_register i pid cb) = register_change_callback i pid cb"
| "db_event_proc (Db_unregister i pid cb) = unregister_change_callback i pid cb"

end
