(* ===== verification/Object_Typing.thy ===== *)
theory Object_Typing
  imports Object_Commands
begin

text \<open>
  Types at run time: the constructors of all registered classes build objects in which every property
  holds a value of its declared type, and writes of well-typed values keep it so, whatever route the
  value takes through the priority array, the relinquish default and the minimum time lock.
\<close>

section \<open>Typed objects\<close>

definition fits :: "definitions \<Rightarrow> int \<Rightarrow> py_obj \<Rightarrow> bool" where
  "fits defs pid v = (v = ONone \<or> (case map_of defs pid of None \<Rightarrow> True
     | Some d \<Rightarrow> has_type (pd_datatype d) v))"

definition typed :: "bac_object \<Rightarrow> bool" where
  "typed ob \<longleftrightarrow> (let defs = oc_definitions (ob_class ob) in
     (\<forall>pid. fits defs pid (get_prop pid ob))
     \<and> (case ob_priority_array ob of None \<Rightarrow> True
        | Some pa \<Rightarrow> list_all (fits defs P_PRESENT_VALUE) (get_prop P_RELINQUISH_DEFAULT ob # pa))
     \<and> (case ob_sources ob of None \<Rightarrow> True
        | Some (srcs, stamps) \<Rightarrow> list_all (fits defs P_VALUE_SOURCE) srcs)
     \<and> fits defs P_PRESENT_VALUE (ob_locked_value ob))"

definition declares :: "definitions \<Rightarrow> int \<Rightarrow> bool" where
  "declares defs pid \<longleftrightarrow> map_of defs pid \<noteq> None"

lemmas class_ok_parts = iffD1 [OF class_ok_def [unfolded definitions_ok_def]]

lemmas class_distinct = class_ok_parts [THEN conjunct1]
lemmas class_defaults = class_ok_parts [THEN conjunct2, THEN conjunct1]
lemmas class_standard = class_ok_parts [THEN conjunct2, THEN conjunct2, THEN conjunct1]
lemmas class_command_data = class_ok_parts [THEN conjunct2, THEN conjunct2, THEN conjunct2, THEN conjunct1]
lemmas class_relinquish = class_ok_parts [THEN conjunct2, THEN conjunct2, THEN conjunct2, THEN conjunct2]

abbreviation fitting :: "bac_object \<Rightarrow> int \<Rightarrow> py_obj \<Rightarrow> bool" where
  "fitting ob \<equiv> fits (oc_definitions (ob_class ob))"

lemma fits_None [simp]: "fits defs pid ONone"
  by (simp add: fits_def)

lemma fits_command_data:
  assumes "class_ok c" "(pid, ty) \<in> set command_data" "has_type ty v"
  shows "fits (oc_definitions c) pid v"
  using class_command_data [OF assms(1)] assms(2,3) by (auto simp: fits_def list_all_iff split: option.splits)

lemma fits_relinquish:
  assumes "class_ok c" "declares (oc_definitions c) P_RELINQUISH_DEFAULT"
  shows "fits (oc_definitions c) P_RELINQUISH_DEFAULT = fits (oc_definitions c) P_PRESENT_VALUE"
  using class_relinquish [OF assms(1)] assms(2) by (auto simp: fits_def declares_def fun_eq_iff split: option.splits)

lemma typedD:
  assumes "typed ob"
  shows "fitting ob pid (get_prop pid ob)" "fitting ob P_PRESENT_VALUE (ob_locked_value ob)"
    "ob_priority_array ob = Some pa \<Longrightarrow> fitting ob P_PRESENT_VALUE (get_prop P_RELINQUISH_DEFAULT ob)"
    "ob_priority_array ob = Some pa \<Longrightarrow> list_all (fitting ob P_PRESENT_VALUE) pa"
    "ob_sources ob = Some (srcs, stamps) \<Longrightarrow> list_all (fitting ob P_VALUE_SOURCE) srcs"
  using assms by (simp_all add: typed_def Let_def)

lemma typed_set_prop:
  assumes "typed ob" "fitting ob pid v" "pid = P_RELINQUISH_DEFAULT \<Longrightarrow> fitting ob P_PRESENT_VALUE v"
  shows "typed (set_prop pid v ob)"
  using assms by (auto simp: typed_def Let_def split: option.splits)

lemma typed_set_default:
  assumes "typed ob" "fitting ob pid v" "pid = P_RELINQUISH_DEFAULT \<Longrightarrow> fitting ob P_PRESENT_VALUE v"
  shows "typed (set_default pid v ob)"
  using assms typed_set_prop by (simp add: set_default_def)

section \<open>Constructors\<close>

definition fresh :: "bac_object \<Rightarrow> bool" where
  "fresh ob \<longleftrightarrow> typed ob \<and> object_inv ob \<and> ob_lock_until ob = None
     \<and> (case ob_priority_array ob of None \<Rightarrow> True | Some pa \<Rightarrow> list_all (\<lambda>v. v = ONone) pa)"

lemma fresh_set_default:
  assumes "fresh ob" "fitting ob pid v" "pid \<notin> {P_RELINQUISH_DEFAULT, P_PRIORITY_ARRAY}"
  shows "fresh (set_default pid v ob)"
proof -
  have "winning_command pa 0 = None" if "ob_priority_array ob = Some pa" for pa
    using assms(1) that by (simp add: fresh_def winning_command_None list_all_iff)
  moreover have "typed (set_default pid v ob)"
    using assms by (intro typed_set_default) (auto simp: fresh_def)
  ultimately show ?thesis
    using assms(1,3) unfolding fresh_def
    by (auto simp: set_default_def object_inv_def slots_ok_def lock_shown_def winner_shown_def split: option.splits)
qed

lemma fresh_status_flags: "fresh ob \<Longrightarrow> fresh (init_status_flags ob)"
  unfolding init_status_flags_def
  by (rule fresh_set_default)
    (auto simp: fresh_def object_inv_def command_data_def intro!: fits_command_data)

lemma init_classes [simp]:
  "ob_class (set_default pid v ob) = ob_class ob" "ob_class (init_status_flags ob) = ob_class ob"
  "ob_class (init_commandable d ob) = ob_class ob"
  by (simp_all add: set_default_def init_status_flags_def init_commandable_def Let_def)

lemma fresh_commandable:
  assumes "fresh ob" "fitting ob P_PRESENT_VALUE d" "declares (oc_definitions (ob_class ob)) P_RELINQUISH_DEFAULT"
  shows "fresh (init_commandable d ob)"
proof -
  let ?pa = "replicate 16 ONone"
  have c: "class_ok (ob_class ob)" using assms(1) by (simp add: fresh_def object_inv_def)
  note same = fits_relinquish [OF c assms(3)]
  have fit: "fitting ob P_PRIORITY_ARRAY (OList ?pa)" "fitting ob P_VALUE_SOURCE none_source"
    "fitting ob P_VALUE_SOURCE_ARRAY (OList xs)" "fitting ob P_COMMAND_TIME_ARRAY (OList xs)" for xs
    using c by (auto simp: command_data_def none_source_def intro!: fits_command_data)
  have rd: "fitting ob P_PRESENT_VALUE (get_prop P_RELINQUISH_DEFAULT ob)"
    using assms(1) typedD(1) [of ob P_RELINQUISH_DEFAULT] same by (simp add: fresh_def)
  have "typed (ob\<lparr>ob_priority_array := Some ?pa, 
      ob_sources := Some (replicate 16 none_source, xs)\<rparr>)" for xs
    using assms(1) rd fit(2) by (auto simp: typed_def Let_def fresh_def list_all_iff)
  then have "typed (init_commandable d ob)"
    unfolding init_commandable_def Let_def
    by (intro typed_set_prop typed_set_default) (auto simp: fit(2-) fit(1) [simplified] same assms(2))
  then show ?thesis
    using assms(1) winning_command_None [of ?pa 0] list_all_iff [of "\<lambda>v. v = ONone" ?pa]
    by (auto simp: fresh_def init_commandable_def Let_def object_inv_def slots_ok_def lock_shown_def winner_shown_def
        set_default_def split: option.splits)
qed

definition ok_build :: "(int \<Rightarrow> (int \<times> py_obj) list \<Rightarrow> py_error + bac_object) \<Rightarrow> bool" where
  "ok_build build \<longleftrightarrow> (\<forall>inst initial ob. build inst initial = Inr ob
     \<longrightarrow> list_all (\<lambda>(pid, v). fitting ob pid v) initial \<longrightarrow> fresh ob)"

lemma new_object_fresh:
  assumes "class_ok kind" "new_object kind inst initial = Inr ob" "enum_has ''ObjectType'' (oc_type kind)"
    and "list_all (\<lambda>(pid, v). fitting ob pid v) initial"
  shows "fresh ob" "ob_class ob = kind"
proof -
  obtain i where i: "ObjectIdentifier (oc_type kind) inst = Inr i" using assms(2) by (auto simp: new_object_def)
  let ?rows = "[(pid, pd_default d). (pid, d) \<leftarrow> oc_definitions kind, pd_default d \<noteq> ONone]
    @ [(P_OBJECT_IDENTIFIER, OOid i), (P_OBJECT_TYPE, OEnum ''ObjectType'' (oc_type kind))] @ initial"
  have ob: "ob_class ob = kind" "ob_priority_array ob = None" "ob_sources ob = None" "ob_lock_until ob = None"
    "ob_locked_value ob = ONone" "ob_properties ob = foldl (\<lambda>d (pid, v). AList.update pid v d) [] ?rows"
    using assms(2) i by (auto simp: new_object_def Let_def)
  have dist: "distinct (map fst d) \<Longrightarrow> distinct (map fst (foldl (\<lambda>d (pid, v). AList.update pid v d) d rows))"
    for d and rows :: "(int \<times> py_obj) list"
    by (induction rows arbitrary: d) (auto simp: distinct_update)
  have fold: "map_of (foldl (\<lambda>d (pid, v). AList.update pid v d) d rows) pid =
      (case map_of (rev rows) pid of Some x \<Rightarrow> Some x | None \<Rightarrow> map_of d pid)"
    for d pid and rows :: "(int \<times> py_obj) list"
    by (induction rows arbitrary: d) (auto simp: update_conv' map_add_def split: option.split)
  note defaults = class_defaults [OF assms(1)] and dd = class_distinct [OF assms(1)]
    and std = class_standard [OF assms(1)]
  have fit: "fits (oc_definitions kind) pid v" if row: "(pid, v) \<in> set ?rows" for pid v
  proof -
    consider d where "(pid, d) \<in> set (oc_definitions kind)" "v = pd_default d"
      | "pid = P_OBJECT_IDENTIFIER" "v = OOid i" | "pid = P_OBJECT_TYPE" "v = OEnum ''ObjectType'' (oc_type kind)"
      | "(pid, v) \<in> set initial"
      using row by auto
    then show ?thesis
    proof cases
      case (1 d)
      then show ?thesis using defaults dd by (auto simp: fits_def list_all_iff map_of_eq_Some_iff)
    next
      case 4
      then show ?thesis using assms(4) ob(1) by (auto simp: list_all_iff)
    qed (use std assms(3) in \<open>simp_all add: fits_def standard_properties_def pdef_def\<close>)
  qed
  have "fits (oc_definitions kind) pid (get_prop pid ob)" for pid
  proof (cases "map_of (ob_properties ob) pid")
    case (Some v)
    then have "map_of (rev ?rows) pid = Some v" unfolding ob(6) fold by (simp only: map_of.simps split: option.splits)
    then have "(pid, v) \<in> set (rev ?rows)" by (rule map_of_SomeD)
    then show ?thesis using fit [of pid v] Some by (simp only: set_rev get_prop_def option.case)
  qed (simp add: get_prop_def)
  then show "fresh ob" "ob_class ob = kind"
    using assms(1) ob dist [of "[]" ?rows]
    by (auto simp: fresh_def typed_def Let_def object_inv_def slots_ok_def lock_shown_def winner_shown_def)
qed

lemma ok_buildI:
  assumes kind: "class_ok kind" "enum_has ''ObjectType'' (oc_type kind)"
    and same: "\<And>inst ob. ob_class (f inst ob) = ob_class ob"
    and f: "\<And>inst ob. ob_class ob = kind \<Longrightarrow> fresh ob \<Longrightarrow> fresh (f inst ob)"
  shows "ok_build (\<lambda>inst initial. rbind (new_object kind inst initial) (\<lambda>ob. Inr (f inst ob)))"
  unfolding ok_build_def
proof (intro allI impI)
  fix inst initial ob
  assume b: "rbind (new_object kind inst initial) (\<lambda>ob. Inr (f inst ob)) = Inr ob"
    and fit: "list_all (\<lambda>(pid, v). fitting ob pid v) initial"
  then obtain ob0 where ob0: "new_object kind inst initial = Inr ob0" "ob = f inst ob0" by auto
  then have "fresh ob0" "ob_class ob0 = kind"
    using new_object_fresh [OF kind(1) ob0(1) kind(2)] fit same by simp_all
  then show "fresh ob" using f ob0(2) by blast
qed

text \<open>On a merged table the checks look at the rows.\<close>

definition rows_fit :: "definitions \<Rightarrow> int \<Rightarrow> py_obj \<Rightarrow> bool" where
  "rows_fit rows pid v \<longleftrightarrow> v = ONone \<or> (case map_of rows pid of None \<Rightarrow> True
     | Some d \<Rightarrow> has_type (pd_datatype d) v)"

lemma on_rows:
  "fits (merge_definitions ds) pid v = rows_fit (rev (concat ds)) pid v"
  "declares (merge_definitions ds) pid = declares (rev (concat ds)) pid"
  by (simp_all only: fits_def rows_fit_def declares_def map_of_merge)

lemma known_class: "kind \<in> set all_classes \<Longrightarrow> class_ok kind"
  using all_classes_ok by (simp add: list_all_iff)

lemmas known_classes = all_classes_def classes_1_def classes_2_def classes_3_def classes_4_def

lemmas fresh_intros = fresh_status_flags fresh_commandable fresh_set_default

section \<open>Writes\<close>

lemma typed_set_slot:
  assumes "typed ob" "object_inv ob" "ob_priority_array ob = Some pa" "fitting ob P_PRESENT_VALUE v"
  shows "typed (set_slot i v ob)"
proof -
  have "fitting ob P_PRIORITY_ARRAY (OList xs)" for xs
    using assms(2) by (auto simp: object_inv_def command_data_def intro!: fits_command_data)
  moreover have "list_all (fitting ob P_PRESENT_VALUE) (pa[i := v])"
    using typedD(4) [OF assms(1,3)] assms(4) by (auto simp: list_all_iff dest!: set_update_subset_insert [THEN subsetD])
  ultimately show ?thesis
    using assms(1,3) by (auto simp: set_slot_def typed_def Let_def)
qed

lemma typed_set_source:
  assumes "typed ob" "class_ok (ob_class ob)"
  shows "typed (set_source i v None ob)"
proof (cases "ob_sources ob")
  case (Some ss)
  obtain srcs stamps where ss: "ss = (srcs, stamps)" by force
  have fit: "fitting ob P_VALUE_SOURCE none_source" "fitting ob P_VALUE_SOURCE_ARRAY (OList xs)"
    "fitting ob P_COMMAND_TIME_ARRAY (OList xs)" for xs
    using assms(2) by (auto simp: command_data_def none_source_def intro!: fits_command_data)
  have "list_all (fitting ob P_VALUE_SOURCE) (srcs[i := none_source])"
    using typedD(5) [OF assms(1)] fit(1) Some ss
    by (auto simp: list_all_iff dest!: set_update_subset_insert [THEN subsetD])
  then show ?thesis
    using assms(1) Some ss fit by (auto simp: set_source_def typed_def Let_def split: option.splits)
qed (simp add: set_source_def assms)

lemma typed_apply_winner:
  assumes "typed ob" "class_ok (ob_class ob)" "ob_priority_array ob = Some pa" "length pa = 16"
    and srcs: "\<And>srcs stamps. ob_sources ob = Some (srcs, stamps) \<Longrightarrow> length srcs = 16"
  shows "typed (apply_winner P_PRESENT_VALUE ob)"
proof -
  let ?v = "case winning_command pa 0 of Some (i, v) \<Rightarrow> v | None \<Rightarrow> get_prop P_RELINQUISH_DEFAULT ob"
  have "fitting ob P_PRESENT_VALUE ?v"
    using typedD(3,4) [OF assms(1,3)] winning_command_Some [of pa 0]
    by (auto simp: list_all_iff split: option.split)
  note v = this
  have fit: "fitting ob P_VALUE_SOURCE none_source" "fitting ob P_LAST_COMMAND_TIME w" for w
    using assms(2) by (auto simp: command_data_def none_source_def intro!: fits_command_data)
  have "fitting ob P_VALUE_SOURCE (srcs ! i)"
    if "ob_sources ob = Some (srcs, stamps)" "winning_command pa 0 = Some (i, v)" for srcs stamps i v
    using typedD(5) [OF assms(1) that(1)] winning_command_Some [OF that(2)] assms(4) srcs [OF that(1)]
    by (simp add: list_all_iff)
  then show ?thesis
    using v fit assms(1,3)
    by (auto simp: apply_winner_def Let_def typed_set_prop split: option.splits)
qed

lemma typed_commanded:
  assumes "typed ob" "object_inv ob" "ob_priority_array ob = Some pa" "fitting ob P_PRESENT_VALUE v"
  shows "typed (commanded i v ob)"
  unfolding commanded_def
proof (rule typed_apply_winner)
  have c: "class_ok (ob_class ob)" using assms(2) by (simp add: object_inv_def)
  then show "class_ok (ob_class (set_source i v None (set_slot i v ob)))"
    by (auto simp: set_source_def set_slot_def Let_def split: option.split prod.split)
  have "class_ok (ob_class (set_slot i v ob))" using c by (simp add: set_slot_def split: option.split)
  then show "typed (set_source i v None (set_slot i v ob))"
    using typed_set_slot [OF assms] by (simp add: typed_set_source)
  show "ob_priority_array (set_source i v None (set_slot i v ob)) = Some (pa[i := v])"
    using assms(3) by (simp add: set_source_def set_slot_def Let_def split: option.split prod.split)
qed (use assms(2,3) in \<open>auto simp: set_source_def set_slot_def Let_def object_inv_def slots_ok_def
      split: option.splits\<close>)

lemma keeps_typed_lock:
  assumes "fits (oc_definitions c) P_PRESENT_VALUE pv"
  shows "keeps (\<lambda>ob. typed ob \<and> ob_class ob = c) (start_lock_if_needed now pv)"
  using assms unfolding start_lock_if_needed_def lock_for_def
  by (intro keeps_intros) (auto simp: typed_def Let_def split: option.splits)

lemma typed_set_pv: "typed ob \<Longrightarrow> fitting ob P_PRESENT_VALUE v \<Longrightarrow> typed (set_prop P_PRESENT_VALUE v ob)"
  by (simp add: typed_set_prop)

lemma typed_lock_cleared: "typed ob \<Longrightarrow> typed (ob\<lparr>ob_lock_until := u, ob_locked_value := ONone\<rparr>)"
  by (auto simp: typed_def Let_def split: option.splits)

lemma typed_min_time_write:
  assumes "typed ob" "object_inv ob" "ob_priority_array ob = Some pa" "fitting ob P_PRESENT_VALUE v"
  shows "typed (snd (min_time_write_with_priority now P_PRESENT_VALUE v p None ob))"
proof (cases "fst (base_write_with_priority P_PRESENT_VALUE v p None ob)")
  case (Inl e)
  then have "base_write_with_priority P_PRESENT_VALUE v p None ob = (Inl e, ob)"
    by (auto simp: base_write_runs split: if_splits)
  then show ?thesis using assms(1) by (simp add: min_time_write_with_priority_def run seq_p_def run_bind)
next
  case (Inr y)
  then have w: "base_write_with_priority P_PRESENT_VALUE v p None ob = (Inr (), commanded (nat (p - 1)) v ob)"
    by (auto simp: base_write_runs split: if_splits)
  let ?ob = "commanded (nat (p - 1)) v ob"
  have t: "typed ?ob" by (rule typed_commanded [OF assms])
  have rest: "typed (snd (bind_p (read_p (get_prop P_PRESENT_VALUE)) (\<lambda>new_pv.
         if \<not> py_eq new_pv old_pv \<and> old_pv \<noteq> ONone then start_lock_if_needed now new_pv
         else return_p ()) ob'))" if "typed ob'" for old_pv ob'
    using that typedD(1) [OF that, of P_PRESENT_VALUE]
      keepsD [OF keeps_typed_lock, of "ob_class ob'" "get_prop P_PRESENT_VALUE ob'" ob' now]
    by (simp add: run)
  have "typed (set_prop P_PRESENT_VALUE (ob_locked_value ?ob) ?ob)"
    using t typedD(2) [OF t] by (rule typed_set_pv)
  moreover have "typed (if ob_lock_until ?ob \<noteq> None then ?ob\<lparr>ob_lock_until := None, ob_locked_value := ONone\<rparr> else ?ob)"
    using t typed_lock_cleared by simp
  ultimately show ?thesis
    using rest by (simp add: min_time_write_with_priority_def run seq_p_def run_bind w)
qed

lemma typed_expiry:
  assumes t: "typed ob"
  shows "typed (snd (check_min_time_expiry now ob))"
proof (cases "ob_lock_until ob")
  case (Some u)
  let ?ob = "ob\<lparr>ob_lock_until := None, ob_locked_value := ONone\<rparr>"
  have c: "typed ?ob" using t by (rule typed_lock_cleared)
  have "typed (snd (seq_p (write_p (set_prop P_PRESENT_VALUE w))
      (seq_p (if b then start_lock_if_needed now w else return_p ()) (return_p True)) ?ob))"
    if fit: "fitting ob P_PRESENT_VALUE w" for w b
  proof -
    have "typed (set_prop P_PRESENT_VALUE w ?ob)" using typed_set_pv [OF c] fit by simp
    then show ?thesis
      using keepsD [OF keeps_typed_lock, of "ob_class ob" w "set_prop P_PRESENT_VALUE w ?ob" now] fit
      by (auto simp: run seq_return_state)
  qed
  note step = this
  show ?thesis
  proof (cases "ob_priority_array ob")
    case None
    then show ?thesis using Some t c by (simp add: check_min_time_expiry_def run)
  next
    case (Some pa)
    have "fitting ob P_PRESENT_VALUE (case winning_command pa 0 of Some (i, v) \<Rightarrow> v
        | None \<Rightarrow> get_prop P_RELINQUISH_DEFAULT ob)"
      using typedD(3,4) [OF t Some] winning_command_Some [of pa 0]
      by (auto simp: list_all_iff split: option.split)
    from step [OF this, of True] step [OF this, of False] show ?thesis
      using Some t \<open>ob_lock_until ob = Some u\<close> unfolding check_min_time_expiry_def id_def
      by (simp add: run Let_def)
  qed
qed (simp add: check_min_time_expiry_def run assms)

section \<open>Typed writes\<close>

text \<open>The value, as \<open>write_property\<close> coerces it, has the declared type; an element of a list may be anything.\<close>

fun typed_event :: "bac_object \<Rightarrow> object_event \<Rightarrow> bool" where
  "typed_event ob (Object_write now pid v priority idx) \<longleftrightarrow>
     (case map_of (oc_definitions (ob_class ob)) pid of None \<Rightarrow> True
      | Some d \<Rightarrow> idx \<noteq> None \<and> \<not> is_commandable ob pid
          \<or> fitting ob pid (coerce_value (pd_datatype d) v))"
| "typed_event ob (Lock_checked now) \<longleftrightarrow> True"

lemma has_type_list: "has_type ty (OList xs) \<Longrightarrow> has_type ty (OList ys)"
  by (cases ty) auto

lemma typed_element:
  assumes "typed ob" "as_list (get_prop pid ob) = Some xs"
  shows "fitting ob pid (OList ys)"
proof -
  have "get_prop pid ob = OList xs" using assms(2) by (cases "get_prop pid ob") auto
  then show ?thesis
    using typedD(1) [OF assms(1), of pid] has_type_list by (auto simp: fits_def split: option.splits)
qed

lemma typed_store:
  assumes t: "typed ob" and inv: "object_inv ob" and d: "write_access ob pid = Inr d"
    and ev: "typed_event ob (Object_write now pid v priority idx)"
  shows "typed (snd (store_property now d pid v priority idx ob))"
proof -
  let ?v = "coerce_value (pd_datatype d) v"
  let ?w = "if is_commandable ob pid
     then write_with_priority now pid ?v (case priority of Some p \<Rightarrow> p | None \<Rightarrow> 16)
     else case idx of Some i \<Rightarrow> write_array_element pid ?v i | None \<Rightarrow> write_p (set_prop pid ?v)"
  have c: "class_ok (ob_class ob)" using inv by (simp add: object_inv_def)
  note def = writable_cases(1) [OF c d]
  have rd: "fitting ob P_PRESENT_VALUE w" if "pid = P_RELINQUISH_DEFAULT" "fitting ob pid w" for w
    using fits_relinquish [OF c] def that by (simp add: declares_def)
  have "typed (snd (?w ob))"
  proof (cases "is_commandable ob pid")
    case True
    then obtain pa where pa: "pid = P_PRESENT_VALUE" "ob_priority_array ob = Some pa"
      by (auto simp: is_commandable_def)
    have fit: "fitting ob P_PRESENT_VALUE ?v" using ev True def pa by simp
    show ?thesis
      using True typed_min_time_write [OF t inv pa(2) fit] typed_commanded [OF t inv pa(2) fit] t pa(1)
      by (auto simp: write_with_priority_def run base_write_runs)
  next
    case False
    show ?thesis
    proof (cases idx)
      case None
      then have "fitting ob pid ?v" using ev False def by simp
      then have "typed (set_prop pid ?v ob)" using t rd by (intro typed_set_prop)
      then show ?thesis using False None by (simp add: run)
    next
      case (Some i)
      have "typed (set_prop pid (OList ys) ob)" if "as_list (get_prop pid ob) = Some xs" for xs ys
        by (intro typed_set_prop t typed_element [OF t that] rd)
      then show ?thesis
        using False Some t by (auto simp: write_array_element_def run Let_def split: option.split)
    qed
  qed
  then show ?thesis
    by (auto simp: store_property_def Let_def run seq_p_def bind_p_def split: prod.split sum.split)
qed

lemma typed_step:
  assumes t: "typed ob" and inv: "object_inv ob" and ev: "typed_event ob ev"
  shows "typed (snd (object_event_proc ev ob))"
proof (cases ev)
  case (Object_write now pid v priority idx)
  show ?thesis
  proof (cases "rbind (class_guard ob pid v) (\<lambda>u. write_access ob pid)")
    case (Inl e)
    then show ?thesis using t Object_write by (simp add: write_property_def run seq_return_state)
  next
    case (Inr d)
    then have "write_access ob pid = Inr d" by auto
    then show ?thesis
      using t inv ev Inr typed_store Object_write by (simp add: write_property_def run seq_return_state)
  qed
qed (simp add: seq_return_state typed_expiry t)

interpretation typed_machine: event_system typed_event object_event_proc "\<lambda>ob. typed ob \<and> object_inv ob"
proof
  fix ob ev assume "typed ob \<and> object_inv ob" "typed_event ob ev"
  then show "typed (snd (object_event_proc ev ob)) \<and> object_inv (snd (object_event_proc ev ob))"
    using typed_step object_machine.step_keeps by blast
qed

lemmas builder_defs =
  new_AccessDoorObject_def [abs_def] new_AccessPointObject_def [abs_def] new_AccessZoneObject_def [abs_def]
  new_AccessUserObject_def [abs_def] new_AccessRightsObject_def [abs_def] new_AccessCredentialObject_def [abs_def]
  new_CredentialDataInputObject_def [abs_def] new_AccumulatorObject_def [abs_def] new_AlertEnrollmentObject_def [abs_def]
  new_AnalogInputObject_def [abs_def] new_AnalogOutputObject_def [abs_def] new_AnalogValueObject_def [abs_def]
  new_AuditReporterObject_def [abs_def] new_AveragingObject_def [abs_def] new_BinaryInputObject_def [abs_def]
  new_BinaryOutputObject_def [abs_def] new_BinaryValueObject_def [abs_def] new_CalendarObject_def [abs_def]
  new_ChannelObject_def [abs_def] new_CommandObject_def [abs_def] new_DeviceObject_def [abs_def]
  new_EventEnrollmentObject_def [abs_def] new_EventLogObject_def [abs_def] new_GlobalGroupObject_def [abs_def]
   new_LifeSafetyPointObject_def [abs_def] new_LifeSafetyZoneObject_def [abs_def]
  new_LightingOutputObject_def [abs_def] new_BinaryLightingOutputObject_def [abs_def] new_LoadControlObject_def [abs_def]
  new_LoopObject_def [abs_def] new_MultiStateInputObject_def [abs_def] new_MultiStateOutputObject_def [abs_def]
  new_MultiStateValueObject_def [abs_def] new_NetworkPortObject_def [abs_def] new_NotificationClassObject_def [abs_def]
  new_NotificationForwarderObject_def [abs_def] new_ProgramObject_def [abs_def] new_PulseConverterObject_def [abs_def]
  new_ScheduleObject_def [abs_def] new_StagingObject_def [abs_def] 
  new_TimerObject_def [abs_def]  new_LiftObject_def [abs_def]
  new_EscalatorObject_def [abs_def] new_TrendLogObject_def [abs_def] new_TrendLogMultipleObject_def [abs_def]
  new_IntegerValueObject_def [abs_def] new_PositiveIntegerValueObject_def [abs_def] new_LargeAnalogValueObject_def [abs_def]
  new_CharacterStringValueObject_def [abs_def] new_DateTimeValueObject_def [abs_def] new_BitStringValueObject_def [abs_def]
  new_OctetStringValueObject_def [abs_def] new_DateValueObject_def [abs_def] new_DatePatternValueObject_def [abs_def]
  new_TimeValueObject_def [abs_def] new_TimePatternValueObject_def [abs_def] new_DateTimePatternValueObject_def [abs_def]

lemma builders_1:
  "ok_build new_AccessDoorObject"
  "ok_build new_AccessPointObject"
  "ok_build new_AccessZoneObject"
  "ok_build new_AccessUserObject"
  "ok_build new_AccessRightsObject"
  "ok_build new_AccessCredentialObject"
  "ok_build new_CredentialDataInputObject"
  "ok_build new_AccumulatorObject"
  "ok_build new_AlertEnrollmentObject"
  "ok_build new_AnalogInputObject"
  "ok_build new_AnalogOutputObject"
  "ok_build (new_AnalogValueObject c)"
  "ok_build new_AuditReporterObject"
  "ok_build new_AveragingObject"
  "ok_build new_BinaryInputObject"
  unfolding builder_defs
  apply (rule ok_buildI, (rule known_class, simp only: known_classes list.set set_append, blast)[1],
      simp only: class_defs object_class.select_convs, code_simp, simp, (auto intro!: fresh_intros)[1],
      (((erule thin_rl)+, simp only: class_defs object_class.select_convs on_rows, code_simp)+)?)+
  done

lemma builders_2:
  "ok_build new_BinaryOutputObject"
  "ok_build (new_BinaryValueObject c)"
  "ok_build new_CalendarObject"
  "ok_build (new_ChannelObject k)"
  "ok_build new_CommandObject"
  "ok_build new_DeviceObject"
  "ok_build new_EventEnrollmentObject"
  "ok_build new_EventLogObject"
  "ok_build new_GlobalGroupObject"
  "ok_build new_LifeSafetyPointObject"
  "ok_build new_LifeSafetyZoneObject"
  "ok_build new_LightingOutputObject"
  "ok_build new_BinaryLightingOutputObject"
  "ok_build new_LoadControlObject"
  unfolding builder_defs
  apply (rule ok_buildI, (rule known_class, simp only: known_classes list.set set_append, blast)[1],
      simp only: class_defs object_class.select_convs, code_simp, simp, (auto intro!: fresh_intros)[1],
      (((erule thin_rl)+, simp only: class_defs object_class.select_convs on_rows, code_simp)+)?)+
  done

lemma builders_3:
  "ok_build new_LoopObject"
  "ok_build (new_MultiStateInputObject k)"
  "ok_build (new_MultiStateOutputObject k)"
  "ok_build (new_MultiStateValueObject c k)"
  "ok_build (new_NetworkPortObject 5)"
  "ok_build new_NotificationClassObject"
  "ok_build new_NotificationForwarderObject"
  "ok_build new_ProgramObject"
  "ok_build (new_PulseConverterObject c)"
  "ok_build new_ScheduleObject"
  "ok_build new_StagingObject"
  "ok_build new_TimerObject"
  "ok_build new_LiftObject"
  unfolding builder_defs
  apply (rule ok_buildI, (rule known_class, simp only: known_classes list.set set_append, blast)[1],
      simp only: class_defs object_class.select_convs, code_simp, simp, (auto intro!: fresh_intros)[1],
      (((erule thin_rl)+, simp only: class_defs object_class.select_convs on_rows, code_simp)+)?)+
  done

lemma builders_4:
  "ok_build new_EscalatorObject"
  "ok_build new_TrendLogObject"
  "ok_build new_TrendLogMultipleObject"
  "ok_build (new_IntegerValueObject c)"
  "ok_build (new_PositiveIntegerValueObject c)"
  "ok_build (new_LargeAnalogValueObject c)"
  "ok_build (new_CharacterStringValueObject c)"
  "ok_build (new_DateTimeValueObject c)"
  "ok_build (new_BitStringValueObject c)"
  "ok_build (new_OctetStringValueObject c)"
  "ok_build (new_DateValueObject c)"
  "ok_build new_DatePatternValueObject"
  "ok_build (new_TimeValueObject c)"
  "ok_build new_TimePatternValueObject"
  "ok_build new_DateTimePatternValueObject"
  unfolding builder_defs
  apply (rule ok_buildI, (rule known_class, simp only: known_classes list.set set_append, blast)[1],
      simp only: class_defs object_class.select_convs, code_simp, simp, (auto intro!: fresh_intros)[1],
      (((erule thin_rl)+, simp only: class_defs object_class.select_convs on_rows, code_simp)+)?)+
  done

lemma builders_plain:
  "ok_build new_GroupObject" "ok_build new_StructuredViewObject" "ok_build new_ElevatorGroupObject"
proof -
  have "ok_build (new_object kind)" if "class_ok kind" "enum_has ''ObjectType'' (oc_type kind)" for kind
    using ok_buildI [OF that, of "\<lambda>i ob. ob"] by (simp add: ok_build_def)
  moreover have "enum_has ''ObjectType'' (oc_type GroupObject)" "enum_has ''ObjectType'' (oc_type StructuredViewObject)"
    "enum_has ''ObjectType'' (oc_type ElevatorGroupObject)"
    by (simp only: class_defs object_class.select_convs, code_simp)+
  moreover have "class_ok GroupObject" "class_ok StructuredViewObject" "class_ok ElevatorGroupObject"
    by (rule known_class, simp only: known_classes list.set set_append, blast)+
  ultimately show "ok_build new_GroupObject" "ok_build new_StructuredViewObject" "ok_build new_ElevatorGroupObject"
    by (simp_all add: new_GroupObject_def [abs_def] new_StructuredViewObject_def [abs_def]
        new_ElevatorGroupObject_def [abs_def])
qed

lemmas builders = builders_1 builders_2 builders_3 builders_4 builders_plain

lemma registry_ok: "list_all (\<lambda>(ty, build). ok_build build) OBJECT_REGISTRY"
  by (simp add: OBJECT_REGISTRY_def builders)

lemma created_fresh:
  assumes "create_object ty inst initial = Inr ob" "list_all (\<lambda>(pid, v). fitting ob pid v) initial"
  shows "fresh ob"
proof -
  obtain build where "map_of OBJECT_REGISTRY ty = Some build" "build inst initial = Inr ob"
    using assms(1) by (auto simp: create_object_def py_def split: option.splits sum.splits)
  moreover from this have "ok_build build"
    using registry_ok by (auto simp: list_all_iff dest!: map_of_SomeD)
  ultimately show ?thesis using assms(2) by (auto simp: ok_build_def)
qed

end
