(* ===== verification/Object_Db_Laws.thy ===== *)
theory Object_Db_Laws
  imports Object_Db Object_Typing
begin

text \<open>
  What the object database keeps: the two indexes agree with the objects, the device object stays, every
  object keeps the object invariant; names are unique, and a change reaches the registered callbacks.
\<close>

section \<open>Frames of object procedures\<close>

text \<open>What no write changes.\<close>

definition same_object :: "bac_object \<Rightarrow> bac_object \<Rightarrow> bool" where
  "same_object ob ob' \<longleftrightarrow> ob_id ob' = ob_id ob \<and> ob_class ob' = ob_class ob \<and> ob_in_db ob' = ob_in_db ob
     \<and> ob_notifies ob' = ob_notifies ob"

lemma same_object_refl [simp]: "same_object ob ob"
  by (simp add: same_object_def)

lemma set_slot_same [simp]: "same_object ob (set_slot i v ob') = same_object ob ob'"
  by (simp add: same_object_def set_slot_def split: option.split)

lemma set_source_same [simp]: "same_object ob (set_source i v w ob') = same_object ob ob'"
  by (simp add: same_object_def set_source_def Let_def split: option.split prod.split)

lemma apply_winner_same [simp]: "same_object ob (apply_winner pid ob') = same_object ob ob'"
  by (simp add: same_object_def apply_winner_def Let_def split: option.split prod.split)

lemma set_prop_same [simp]: "same_object ob (set_prop pid v ob') = same_object ob ob'"
  by (simp add: same_object_def)

lemma lock_same [simp]: "same_object ob (ob'\<lparr>ob_lock_until := u, ob_locked_value := v\<rparr>) = same_object ob ob'"
  by (simp add: same_object_def)

lemma keeps_same_store: "keeps (same_object ob) (store_property now d pid v priority idx)"
  unfolding store_property_def write_with_priority_def min_time_write_with_priority_def base_write_with_priority_def
    write_array_element_def start_lock_if_needed_def lock_for_def Let_def comp_def
  by (intro keeps_intros) simp_all

text \<open>A write of another property leaves a property alone, unless it is one that commands write.\<close>

definition written_by_commands :: "int list" where
  "written_by_commands = [P_PRESENT_VALUE, P_PRIORITY_ARRAY, P_VALUE_SOURCE, P_VALUE_SOURCE_ARRAY,
     P_LAST_COMMAND_TIME, P_COMMAND_TIME_ARRAY]"

lemma commanded_other:
  assumes "q \<notin> set written_by_commands"
  shows "get_prop q (set_slot i v ob) = get_prop q ob" "get_prop q (set_source i v w ob) = get_prop q ob"
    "get_prop q (apply_winner P_PRESENT_VALUE ob) = get_prop q ob"
  using assms
  by (simp_all add: written_by_commands_def set_slot_def set_source_def apply_winner_def Let_def
      split: option.split prod.split)

lemma keeps_other_store:
  assumes "pid \<noteq> q" "q \<notin> set written_by_commands"
  shows "keeps (\<lambda>ob. get_prop q ob = n) (store_property now d pid v priority idx)"
proof -
  have q: "q \<noteq> P_PRESENT_VALUE" using assms(2) by (auto simp: written_by_commands_def)
  have "keeps (\<lambda>ob. get_prop q ob = n) (write_with_priority now P_PRESENT_VALUE w p)" for w p
    unfolding write_with_priority_def min_time_write_with_priority_def base_write_with_priority_def
      start_lock_if_needed_def lock_for_def Let_def comp_def
    by (intro keeps_intros) (use q in \<open>simp_all add: commanded_other [OF assms(2)]\<close>)
  moreover have "is_commandable ob pid \<Longrightarrow> pid = P_PRESENT_VALUE" for ob by (simp add: is_commandable_def)
  moreover have "keeps (\<lambda>ob. get_prop q ob = n)
      (case idx of Some i \<Rightarrow> write_array_element pid w i | None \<Rightarrow> write_p (set_prop pid w))" for w
    using assms(1) unfolding write_array_element_def Let_def by (intro keeps_intros) simp_all
  ultimately show ?thesis
    unfolding store_property_def Let_def keeps_def
    by (auto simp: run seq_p_def bind_p_def keeps_def split: prod.split sum.split) (metis snd_conv)+
qed

lemma keeps_name_store:
  "pid \<noteq> P_OBJECT_NAME \<Longrightarrow> keeps (\<lambda>ob. get_prop P_OBJECT_NAME ob = n) (store_property now d pid v priority idx)"
  by (rule keeps_other_store) (simp_all add: written_by_commands_def)

section \<open>The invariant\<close>

definition indexed :: "object_db \<Rightarrow> bool" where
  "indexed db \<longleftrightarrow> distinct (object_list db)
     \<and> (\<forall>ty. get_objects_of_type ty db = filter (\<lambda>i. object_type i = ty) (object_list db))
     \<and> (case db_device db of None \<Rightarrow> True | Some i \<Rightarrow> i \<in> set (object_list db) \<and> object_type i = OT_DEVICE)"

definition objects_ok :: "object_db \<Rightarrow> bool" where
  "objects_ok db \<longleftrightarrow> list_all (\<lambda>(i, ob). ob_id ob = i \<and> ob_in_db ob \<and> object_inv ob) (db_objects db)"

definition names_ok :: "object_db \<Rightarrow> bool" where
  "names_ok db \<longleftrightarrow> (\<forall>(i, ob) \<in> set (db_objects db). \<forall>s. get_prop P_OBJECT_NAME ob = OStr s
     \<longrightarrow> named db (OStr s) = Some i)"

definition db_inv :: "object_db \<Rightarrow> bool" where
  "db_inv db \<longleftrightarrow> indexed db \<and> objects_ok db"

lemma empty_db_ok: "db_inv empty_db" "names_ok empty_db"
  by (simp_all add: db_inv_def indexed_def objects_ok_def names_ok_def empty_db_def object_list_def
      get_objects_of_type_def)

lemma object_found: "db_inv db \<Longrightarrow> map_of (db_objects db) i = Some ob \<Longrightarrow> ob_id ob = i \<and> ob_in_db ob \<and> object_inv ob"
  by (auto simp: db_inv_def objects_ok_def list_all_iff dest!: map_of_SomeD)

lemma update_object_list [simp]: "object_list (update_object i f db) = object_list db"
  by (auto simp: object_list_def update_object_def)

lemma update_object_fields [simp]:
  "db_names (update_object i f db) = db_names db" "db_types (update_object i f db) = db_types db"
  "db_device (update_object i f db) = db_device db" "db_callbacks (update_object i f db) = db_callbacks db"
  "db_calls (update_object i f db) = db_calls db"
  by (simp_all add: update_object_def)

lemma lookup_update:
  "map_of (db_objects (update_object i f db)) j = (if j = i then map_option f (map_of (db_objects db) i)
     else map_of (db_objects db) j)"
proof -
  have "map_of (map (\<lambda>(j, ob). (j, if j = i then f ob else ob)) xs) j =
      (if j = i then map_option f (map_of xs i) else map_of xs j)" for xs :: "(object_identifier \<times> bac_object) list"
    by (induction xs) auto
  then show ?thesis by (simp add: update_object_def)
qed

lemma named_update [simp]: "named (update_object i f db) = named db"
  by (simp add: named_def fun_eq_iff)

lemma indexed_update [simp]: "indexed (update_object i f db) = indexed db"
  by (simp add: indexed_def get_objects_of_type_def split: option.split)

lemma updated_objects:
  "(j, ob') \<in> set (db_objects (update_object i f db)) \<Longrightarrow>
   \<exists>ob. (j, ob) \<in> set (db_objects db) \<and> ob' = (if j = i then f ob else ob)"
  by (auto simp: update_object_def)

lemma db_inv_update:
  assumes "db_inv db" "\<And>ob. map_of (db_objects db) i = Some ob \<Longrightarrow> object_inv (f ob) \<and> same_object ob (f ob)
    \<or> f ob = ob\<lparr>ob_notifies := b\<rparr>"
  shows "db_inv (update_object i f db)"
proof -
  have "ob_id (f ob) = i \<and> ob_in_db (f ob) \<and> object_inv (f ob)" if "(i, ob) \<in> set (db_objects db)" for ob
  proof -
    have "distinct (map fst (db_objects db))" using assms(1) by (simp add: db_inv_def indexed_def object_list_def)
    then have "map_of (db_objects db) i = Some ob" using that by simp
    then show ?thesis
      using assms(2) [of ob] object_found [OF assms(1)] object_inv_frame [of ob "ob\<lparr>ob_notifies := b\<rparr>"]
      by (auto simp: same_object_def object_inv_def)
  qed
  then show ?thesis
    using assms(1) by (auto simp: db_inv_def objects_ok_def list_all_iff dest!: updated_objects)
qed

lemma names_ok_update:
  assumes "names_ok db" "\<And>ob. (i, ob) \<in> set (db_objects db) \<Longrightarrow> get_prop P_OBJECT_NAME (f ob) = get_prop P_OBJECT_NAME ob"
  shows "names_ok (update_object i f db)"
  unfolding names_ok_def
proof clarify
  fix j ob' s assume "(j, ob') \<in> set (db_objects (update_object i f db))" "get_prop P_OBJECT_NAME ob' = OStr s"
  then show "named (update_object i f db) (OStr s) = Some j"
    using assms updated_objects [of j ob' i f db] by (auto simp: names_ok_def split: if_splits)
qed

lemma object_unique:
  assumes "db_inv db" "(i, ob) \<in> set (db_objects db)"
  shows "map_of (db_objects db) i = Some ob"
  using assms by (simp add: db_inv_def indexed_def object_list_def)

section \<open>Names\<close>

text \<open>A string is equal to nothing but itself.\<close>

lemma py_eq_string [simp]: "py_eq v (OStr s) \<longleftrightarrow> v = OStr s" "py_eq (OStr s) v \<longleftrightarrow> v = OStr s"
  by (cases v; auto)+

lemma named_fields [simp]:
  "named (db\<lparr>db_objects := x\<rparr>) = named db" "named (db\<lparr>db_types := y\<rparr>) = named db"
  "named (db\<lparr>db_device := z\<rparr>) = named db" "named (db\<lparr>db_callbacks := w\<rparr>) = named db"
  "named (db\<lparr>db_calls := c\<rparr>) = named db"
  by (simp_all add: named_def)

lemma named_set: "named (set_name v i db) (OStr t) = (if v = OStr t then Some i else named db (OStr t))"
proof -
  have "name_entry (map (\<lambda>(k, j). if py_eq k v then (k, i) else (k, j)) xs) (OStr t)
      = (if v = OStr t \<and> name_entry xs (OStr t) \<noteq> None then Some i else name_entry xs (OStr t))" for xs
    by (induction xs) (auto split: if_splits)
  moreover have "name_entry (xs @ [(k, j)]) n = (case name_entry xs n of Some y \<Rightarrow> Some y
      | None \<Rightarrow> if py_eq k n then Some j else None)" for xs k j n
    by (induction xs) auto
  ultimately show ?thesis by (auto simp: set_name_def named_def split: option.split)
qed

lemma named_del: "named (del_name v db) (OStr t) = (if v = OStr t then None else named db (OStr t))"
proof -
  have "name_entry (filter (\<lambda>(k, i). \<not> py_eq k v) xs) (OStr t)
      = (if v = OStr t then None else name_entry xs (OStr t))" for xs
    by (induction xs) auto
  then show ?thesis by (simp add: del_name_def named_def)
qed

lemma name_fields [simp]:
  "db_objects (set_name v i db) = db_objects db" "db_types (set_name v i db) = db_types db"
  "db_device (set_name v i db) = db_device db" "db_objects (del_name v db) = db_objects db"
  "db_types (del_name v db) = db_types db" "db_device (del_name v db) = db_device db"
  "object_list (set_name v i db) = object_list db" "object_list (del_name v db) = object_list db"
  by (simp_all add: set_name_def del_name_def object_list_def)

lemma db_inv_fields:
  "db_objects db' = db_objects db \<Longrightarrow> db_types db' = db_types db \<Longrightarrow> db_device db' = db_device db \<Longrightarrow>
   db_inv db' = db_inv db"
  by (simp add: db_inv_def indexed_def objects_ok_def object_list_def get_objects_of_type_def split: option.split)

lemma db_inv_simps [simp]:
  "db_inv (set_name v i db) = db_inv db" "db_inv (del_name v db) = db_inv db"
  "db_inv (db\<lparr>db_callbacks := cbs\<rparr>) = db_inv db" "db_inv (db\<lparr>db_calls := log\<rparr>) = db_inv db"
  by (rule db_inv_fields; simp)+

lemma names_ok_fields: "db_objects db' = db_objects db \<Longrightarrow> db_names db' = db_names db \<Longrightarrow> names_ok db' = names_ok db"
  by (simp add: names_ok_def named_def)

lemma names_ok_simps [simp]:
  "names_ok (db\<lparr>db_callbacks := cbs\<rparr>) = names_ok db" "names_ok (db\<lparr>db_calls := log\<rparr>) = names_ok db"
  by (rule names_ok_fields; simp)+

section \<open>Adding and removing\<close>

lemma keeps_revision: "keeps db_inv increment_database_revision" "keeps names_ok increment_database_revision"
proof -
  have "object_inv (set_prop P_DATABASE_REVISION v ob)" if "object_inv ob" for v ob
    by (rule object_inv_frame [OF that]) (use that in \<open>simp_all add: object_inv_def\<close>)
  then show "keeps db_inv increment_database_revision"
    unfolding increment_database_revision_def
    by (intro keeps_intros db_inv_update) (auto dest: object_found)
  show "keeps names_ok increment_database_revision"
    unfolding increment_database_revision_def
    by (intro keeps_intros names_ok_update) auto
qed

lemma insert_inv:
  assumes "db_inv db" "object_inv ob" "ob_id ob \<notin> set (object_list db)"
  shows "db_inv (insert_object ob db)"
proof -
  let ?db = "db\<lparr>db_objects := db_objects db @ [(ob_id ob, ob\<lparr>ob_in_db := True\<rparr>)],
      db_types := AList.update (object_type (ob_id ob)) (get_objects_of_type (object_type (ob_id ob)) db @ [ob_id ob]) (db_types db)\<rparr>"
  have "object_inv (ob\<lparr>ob_in_db := True\<rparr>)"
    by (rule object_inv_frame [OF assms(2)]) (use assms(2) in \<open>simp_all add: object_inv_def\<close>)
  moreover have "get_objects_of_type ty ?db = filter (\<lambda>i. object_type i = ty) (object_list ?db)" for ty
    using assms(1) by (auto simp: db_inv_def indexed_def object_list_def get_objects_of_type_def update_conv')
  ultimately have inv: "db_inv ?db"
    using assms(1,3) by (auto simp: db_inv_def indexed_def objects_ok_def object_list_def split: option.splits)
  have named: "db_inv (if c then set_name v (ob_id ob) ?db else ?db)" for c v
    using inv by simp
  have "db_inv (d\<lparr>db_device := Some (ob_id ob)\<rparr>)"
    if "db_inv d" "object_type (ob_id ob) = OT_DEVICE" "ob_id ob \<in> set (object_list d)" for d
    using that by (simp add: db_inv_def indexed_def objects_ok_def object_list_def get_objects_of_type_def)
  moreover have "ob_id ob \<in> set (object_list (if c then set_name v (ob_id ob) ?db else ?db))" for c v
    by (simp add: object_list_def)
  ultimately show ?thesis
    using named unfolding insert_object_def Let_def by (auto split: if_splits)
qed

lemma insert_names:
  assumes "names_ok db" "find_name db (get_prop P_OBJECT_NAME ob) = Inr None \<or> get_prop P_OBJECT_NAME ob = ONone"
    and "ob_id ob \<notin> set (object_list db)"
  shows "names_ok (insert_object ob db)"
proof -
  have free: "named db (OStr s) = None" if "get_prop P_OBJECT_NAME ob = OStr s" for s
    using assms(2) that by (simp add: find_name_def)
  have objects: "db_objects (insert_object ob db) = db_objects db @ [(ob_id ob, ob\<lparr>ob_in_db := True\<rparr>)]"
    by (simp add: insert_object_def Let_def)
  have names: "named (insert_object ob db) (OStr s) =
      (if get_prop P_OBJECT_NAME ob = OStr s then Some (ob_id ob) else named db (OStr s))" for s
    by (auto simp: insert_object_def Let_def named_set)
  show ?thesis
    using assms(1) free by (fastforce simp: names_ok_def objects names)
qed

lemma delete_inv:
  assumes inv: "db_inv db" and i: "object_type i \<noteq> OT_DEVICE"
  shows "db_inv (delete_object i ob db)"
proof -
  let ?bucket = "filter (\<lambda>j. j \<noteq> i) (get_objects_of_type (object_type i) db)"
  let ?types = "if ?bucket = [] then AList.delete (object_type i) (db_types db)
    else AList.update (object_type i) ?bucket (db_types db)"
  have rest: "db_objects (delete_object i ob db) = filter (\<lambda>(j, ob). j \<noteq> i) (db_objects db)"
    "db_types (delete_object i ob db) = ?types" "db_device (delete_object i ob db) = db_device db"
    by (simp_all add: delete_object_def Let_def get_objects_of_type_def)
  have ids: "object_list (delete_object i ob db) = filter (\<lambda>j. j \<noteq> i) (object_list db)"
  proof -
    have "map fst (filter (\<lambda>(j, ob). j \<noteq> i) xs) = filter (\<lambda>j. j \<noteq> i) (map fst xs)"
      for xs :: "(object_identifier \<times> bac_object) list" by (induction xs) auto
    then show ?thesis by (simp add: object_list_def rest)
  qed
  have bucket: "get_objects_of_type ty (delete_object i ob db) =
      (if ty = object_type i then ?bucket else get_objects_of_type ty db)" for ty
    by (simp add: get_objects_of_type_def rest update_conv' delete_conv')
  have by_type: "get_objects_of_type ty db = filter (\<lambda>i. object_type i = ty) (object_list db)" for ty
    using inv by (simp add: db_inv_def indexed_def)
  have "get_objects_of_type ty (delete_object i ob db) =
      filter (\<lambda>i. object_type i = ty) (object_list (delete_object i ob db))" for ty
    unfolding bucket by_type ids filter_filter by (auto intro!: filter_cong)
  then show ?thesis
    using inv i by (auto simp: db_inv_def indexed_def objects_ok_def ids rest list_all_iff split: option.splits)
qed

lemma delete_names:
  assumes inv: "db_inv db" and names: "names_ok db" and ob: "map_of (db_objects db) i = Some ob"
  shows "names_ok (delete_object i ob db)"
proof -
  have objects: "db_objects (delete_object i ob db) = filter (\<lambda>(j, ob). j \<noteq> i) (db_objects db)"
    by (simp add: delete_object_def Let_def)
  have "named (delete_object i ob db) (OStr s) = Some j"
    if "(j, ob') \<in> set (db_objects db)" "j \<noteq> i" "get_prop P_OBJECT_NAME ob' = OStr s" for j ob' s
  proof -
    have "named db (OStr s) = Some j" using names that by (auto simp: names_ok_def)
    then show ?thesis
      using that(2) by (auto simp: delete_object_def Let_def named_del)
  qed
  then show ?thesis by (auto simp: names_ok_def objects)
qed

section \<open>Procedures of the database\<close>

lemma keeps_on_object:
  assumes "\<And>db ob. J db \<Longrightarrow> map_of (db_objects db) i = Some ob \<Longrightarrow> J (update_object i (\<lambda>_. snd (m ob)) db)"
  shows "keeps J (on_object i m)"
  using assms by (auto simp: keeps_def on_object_def split: option.split prod.split) (metis snd_conv)

lemma keeps_db_inv_object:
  assumes "\<And>ob. object_inv ob \<Longrightarrow> object_inv (snd (m ob)) \<and> same_object ob (snd (m ob))"
  shows "keeps db_inv (on_object i m)"
  using assms by (intro keeps_on_object db_inv_update) (auto dest: object_found)

lemma keeps_both_object:
  assumes "\<And>ob. object_inv ob \<Longrightarrow> object_inv (snd (m ob)) \<and> same_object ob (snd (m ob))"
    and "\<And>ob. get_prop P_OBJECT_NAME (snd (m ob)) = get_prop P_OBJECT_NAME ob"
  shows "keeps (\<lambda>db. db_inv db \<and> names_ok db) (on_object i m)"
  using assms by (intro keeps_on_object conjI db_inv_update names_ok_update)
    (auto dest: object_found object_unique)

text \<open>The three steps of a write.\<close>

abbreviation access_step :: "int \<Rightarrow> py_obj \<Rightarrow> prop_def object_proc" where
  "access_step pid v \<equiv> bind_p (read_p (\<lambda>ob. rbind (class_guard ob pid v) (\<lambda>u. write_access ob pid))) lift_p"

abbreviation store_step ::
  "py_float \<Rightarrow> prop_def \<Rightarrow> int \<Rightarrow> py_obj \<Rightarrow> int option \<Rightarrow> int option \<Rightarrow> (py_obj \<times> py_obj) option object_proc" where
  "store_step now d pid v priority idx \<equiv> bind_p (store_property now d pid v priority idx) (\<lambda>change.
     bind_p (read_p ob_notifies) (\<lambda>notifies. return_p (if notifies then change else None)))"

lemma access_step_runs: "access_step pid v ob = (rbind (class_guard ob pid v) (\<lambda>u. write_access ob pid), ob)"
  by (simp add: run)

lemma store_step_state: "snd (store_step now d pid v priority idx ob) = snd (store_property now d pid v priority idx ob)"
  by (simp add: bind_p_def run split: prod.split sum.split)

lemma on_object_access:
  "on_object i (access_step pid v) db = (case map_of (db_objects db) i of
     None \<Rightarrow> (Inl (bacnet_error EC_OBJECT CODE_UNKNOWN_OBJECT), db)
   | Some ob \<Rightarrow> (rbind (class_guard ob pid v) (\<lambda>u. write_access ob pid), update_object i (\<lambda>_. ob) db))"
  by (simp add: on_object_def access_step_runs split: option.split)

lemma update_object_same:
  assumes "distinct (object_list db)" "map_of (db_objects db) i = Some ob"
  shows "update_object i (\<lambda>_. ob) db = db"
proof -
  have "map (\<lambda>(j, ob'). (j, if j = i then ob else ob')) (db_objects db) = db_objects db"
    using assms by (intro map_idI) (auto simp: object_list_def dest: eq_key_imp_eq_value)
  then show ?thesis by (simp add: update_object_def)
qed

lemma db_write_runs:
  assumes inv: "db_inv db"
  shows "db_write now i pid v priority idx db =
    (case map_of (db_objects db) i of None \<Rightarrow> (Inl (bacnet_error EC_OBJECT CODE_UNKNOWN_OBJECT), db)
     | Some ob \<Rightarrow> (case rbind (class_guard ob pid v) (\<lambda>u. write_access ob pid) of Inl e \<Rightarrow> (Inl e, db)
         | Inr d \<Rightarrow> seq_p (rename_checks i pid v) (bind_p (on_object i (store_step now d pid v priority idx)) (\<lambda>change.
             case change of None \<Rightarrow> return_p () | Some c \<Rightarrow> write_p (notify_change i pid c))) db))"
proof -
  have "distinct (object_list db)" using inv by (simp add: db_inv_def indexed_def)
  from update_object_same [OF this] show ?thesis
    by (simp add: db_write_def bind_p_def [of "on_object i (access_step pid v)"] on_object_access split: option.split sum.split)
qed

lemma rename_inv: "keeps db_inv (rename_checks i pid v)"
  unfolding rename_checks_def update_name_index_def
  by (intro keeps_intros keeps_revision) (simp split: option.split)

lemma notify_keeps: "db_inv (notify_change i pid c db) = db_inv db" "names_ok (notify_change i pid c db) = names_ok db"
  by (simp_all add: notify_change_def)

lemma keeps_store:
  assumes "pid \<notin> fst ` set command_data"
  shows "keeps db_inv (on_object i (store_step now d pid v priority idx))"
proof (rule keeps_db_inv_object)
  fix ob assume "object_inv ob"
  then show "object_inv (snd (store_step now d pid v priority idx ob)) \<and> same_object ob (snd (store_step now d pid v priority idx ob))"
    using store_property_inv [OF _ assms] keepsD [OF keeps_same_store, of ob ob] by (simp add: store_step_state)
qed

lemma db_write_inv:
  assumes inv: "db_inv db"
  shows "db_inv (snd (db_write now i pid v priority idx db))"
proof (cases "map_of (db_objects db) i")
  case None
  then show ?thesis using inv by (simp add: db_write_runs)
next
  case (Some ob)
  show ?thesis
  proof (cases "rbind (class_guard ob pid v) (\<lambda>u. write_access ob pid)")
    case (Inl e)
    then show ?thesis using inv Some by (simp add: db_write_runs)
  next
    case (Inr d)
    then have d: "write_access ob pid = Inr d" by auto
    have "class_ok (ob_class ob)" using object_found [OF inv Some] by (simp add: object_inv_def)
    then have pid: "pid \<notin> fst ` set command_data"
      using writable_cases(2) [OF _ d] by (simp add: command_data_def)
    have "keeps db_inv (seq_p (rename_checks i pid v) (bind_p (on_object i (store_step now d pid v priority idx)) (\<lambda>change.
             case change of None \<Rightarrow> return_p () | Some c \<Rightarrow> write_p (notify_change i pid c))))"
      by (intro keeps_intros rename_inv keeps_store [OF pid]) (simp add: notify_keeps)
    from keepsD [OF this inv] show ?thesis using inv Some Inr by (simp add: db_write_runs)
  qed
qed

lemma register_inv: "keeps db_inv (register_change_callback i pid cb)" "keeps db_inv (unregister_change_callback i pid cb)"
proof -
  have "db_inv (update_object i (\<lambda>ob. ob\<lparr>ob_notifies := True\<rparr>) (db\<lparr>db_callbacks := cbs\<rparr>))" if "db_inv db" for db cbs
  proof (rule db_inv_update [where b = True])
    show "db_inv (db\<lparr>db_callbacks := cbs\<rparr>)" using that by simp
  qed simp
  then show "keeps db_inv (register_change_callback i pid cb)"
    unfolding register_change_callback_def by (intro keeps_intros) simp_all
  show "keeps db_inv (unregister_change_callback i pid cb)"
    unfolding unregister_change_callback_def Let_def
    by (intro keeps_intros) (simp split: option.split)
qed

lemma db_add_runs:
  "db_add ob db = (if ob_id ob \<in> set (object_list db)
       then (Inl (bacnet_error EC_OBJECT CODE_OBJECT_IDENTIFIER_ALREADY_EXISTS), db)
     else case (if get_prop P_OBJECT_NAME ob = ONone then Inr None else find_name db (get_prop P_OBJECT_NAME ob)) of
       Inl e \<Rightarrow> (Inl e, db)
     | Inr None \<Rightarrow> increment_database_revision (insert_object ob db)
     | Inr (Some j) \<Rightarrow> (Inl (bacnet_error EC_OBJECT CODE_DUPLICATE_NAME), db))"
  by (simp add: db_add_def run Let_def split: sum.split option.split)

lemma db_remove_runs:
  "db_remove i db = (case map_of (db_objects db) i of
       None \<Rightarrow> (Inl (bacnet_error EC_OBJECT CODE_UNKNOWN_OBJECT), db)
     | Some ob \<Rightarrow> if object_type i = OT_DEVICE then (Inl (bacnet_error EC_OBJECT CODE_OBJECT_DELETION_NOT_PERMITTED), db)
         else increment_database_revision (delete_object i ob db))"
  by (simp add: db_remove_def run split: option.split)

fun db_event_ok :: "object_db \<Rightarrow> db_event \<Rightarrow> bool" where
  "db_event_ok db (Db_add ob) \<longleftrightarrow> object_inv ob"
| "db_event_ok db ev \<longleftrightarrow> True"

interpretation db_machine: event_system db_event_ok db_event_proc db_inv
proof
  fix db ev assume inv: "db_inv db" and ok: "db_event_ok db ev"
  show "db_inv (snd (db_event_proc ev db))"
  proof (cases ev)
    case (Db_add ob)
    then show ?thesis
      using inv ok insert_inv [OF inv] keepsD [OF keeps_revision(1)]
      by (simp add: db_add_runs split: sum.split option.split)
  next
    case (Db_remove i)
    then show ?thesis
      using inv delete_inv [OF inv] keepsD [OF keeps_revision(1)] by (simp add: db_remove_runs split: option.split)
  qed (use inv in \<open>simp_all add: db_write_inv keepsD [OF register_inv(1)] keepsD [OF register_inv(2)]\<close>)
qed

section \<open>Unique names\<close>

text \<open>
  Names stay unique as long as Object_Name is not written with an array index (such a write changes the
  index of names and then fails) and the revision of the device is a number.
\<close>

definition revision_counted :: "object_db \<Rightarrow> bool" where
  "revision_counted db \<longleftrightarrow> (case db_device db of None \<Rightarrow> True | Some i \<Rightarrow> (case map_of (db_objects db) i of None \<Rightarrow> True
     | Some ob \<Rightarrow> (case next_revision ob of Inl e \<Rightarrow> False | Inr v \<Rightarrow> True)))"

fun name_event :: "object_db \<Rightarrow> db_event \<Rightarrow> bool" where
  "name_event db (Db_add ob) \<longleftrightarrow> object_inv ob"
| "name_event db (Db_write now i pid v priority idx) \<longleftrightarrow>
     (pid = P_OBJECT_NAME \<longrightarrow> idx = None \<and> revision_counted db)"
| "name_event db ev \<longleftrightarrow> True"

lemma revision_runs:
  assumes "revision_counted db"
  obtains db' where "increment_database_revision db = (Inr (), db')" "named db' = named db"
    "object_list db' = object_list db"
    and "\<And>j ob'. (j, ob') \<in> set (db_objects db') \<Longrightarrow>
      \<exists>ob. (j, ob) \<in> set (db_objects db) \<and> get_prop P_OBJECT_NAME ob' = get_prop P_OBJECT_NAME ob"
proof (cases "db_device db")
  case None
  then show thesis using that [of db] by (auto simp: increment_database_revision_def run)
next
  case (Some j)
  show thesis
  proof (cases "map_of (db_objects db) j")
    case None
    then show thesis using that [of db] Some by (auto simp: increment_database_revision_def run)
  next
    case found: (Some ob)
    obtain v where v: "next_revision ob = Inr v"
      using assms Some found by (auto simp: revision_counted_def split: sum.splits)
    let ?db = "update_object j (set_prop P_DATABASE_REVISION v) db"
    have "increment_database_revision db = (Inr (), ?db)"
      using Some found v by (simp add: increment_database_revision_def run)
    then show thesis by (rule that) (auto dest!: updated_objects)
  qed
qed

lemma named_update_index:
  "named (update_name_index i old v db) (OStr t) = (if v = OStr t then Some i
     else if old = OStr t \<and> named db old = Some i then None else named db (OStr t))"
  by (auto simp: update_name_index_def named_set named_del)

lemma plain_store_runs:
  assumes "\<not> is_commandable ob pid"
  shows "snd (store_property now d pid v priority None ob) = set_prop pid (coerce_value (pd_datatype d) v) ob"
  using assms by (simp add: store_property_def Let_def run)

lemma rename_names:
  assumes inv: "db_inv db" and names: "names_ok db" and ob: "map_of (db_objects db) i = Some ob"
    and counted: "revision_counted db" and valid: "validate_name_unique v i db = Inr ()"
    and d: "pd_datatype d = T_str"
  shows "names_ok (snd (seq_p (rename_checks i P_OBJECT_NAME v)
    (on_object i (store_step now d P_OBJECT_NAME v priority None)) db))"
proof -
  let ?old = "get_prop P_OBJECT_NAME ob" and ?db = "update_name_index i (get_prop P_OBJECT_NAME ob) v db"
  have objects: "db_objects ?db = db_objects db" "db_device ?db = db_device db"
    by (simp_all add: update_name_index_def)
  have "revision_counted ?db" using counted unfolding revision_counted_def objects .
  from revision_runs [OF this] obtain db' where db': "increment_database_revision ?db = (Inr (), db')"
    "named db' = named ?db"
    "object_list db' = object_list ?db"
    and same: "\<And>j ob'. (j, ob') \<in> set (db_objects db') \<Longrightarrow>
      \<exists>ob. (j, ob) \<in> set (db_objects db) \<and> get_prop P_OBJECT_NAME ob' = get_prop P_OBJECT_NAME ob"
    unfolding objects by metis
  have rename: "rename_checks i P_OBJECT_NAME v db = (Inr (), db')"
    using valid ob db'(1) by (simp add: rename_checks_def run seq_p_def run_bind)
  have str: "coerce_value (pd_datatype d) w = w" for w using d by (cases w) simp_all
  have stored: "snd (store_step now d P_OBJECT_NAME v priority None ob') = set_prop P_OBJECT_NAME v ob'" for ob'
    using plain_store_runs [of ob' P_OBJECT_NAME] by (simp add: store_step_state is_commandable_def str)
  have new: "names_ok (update_object i (\<lambda>_. set_prop P_OBJECT_NAME v ob') db')" for ob'
    unfolding names_ok_def
  proof clarify
    fix j ob'' s
    assume j: "(j, ob'') \<in> set (db_objects (update_object i (\<lambda>_. set_prop P_OBJECT_NAME v ob') db'))"
      and s: "get_prop P_OBJECT_NAME ob'' = OStr s"
    show "named (update_object i (\<lambda>_. set_prop P_OBJECT_NAME v ob') db') (OStr s) = Some j"
    proof (cases "j = i")
      case True
      then have "v = OStr s" using s updated_objects [OF j] by auto
      then show ?thesis using True by (simp add: db'(2) named_update_index)
    next
      case False
      then obtain ob2 where "(j, ob2) \<in> set (db_objects db)" "get_prop P_OBJECT_NAME ob2 = OStr s"
        using updated_objects [OF j] same s by fastforce
      then have n: "named db (OStr s) = Some j" using names by (auto simp: names_ok_def)
      then have "v \<noteq> OStr s" using valid False by (auto simp: validate_name_unique_def find_name_def)
      then show ?thesis using n False by (simp add: db'(2) named_update_index)
    qed
  qed
  have "i \<in> set (object_list db)" using ob by (force simp: object_list_def dest: map_of_SomeD)
  then have "i \<in> set (object_list db')" using db'(3) by (simp add: object_list_def objects)
  then have "map_of (db_objects db') i \<noteq> None" by (simp add: object_list_def map_of_eq_None_iff)
  then obtain ob' where "map_of (db_objects db') i = Some ob'" by blast
  then show ?thesis
    using new rename stored
    by (simp add: seq_p_def run_bind on_object_def split: prod.split) (metis snd_conv)
qed

lemma bind_state: "J (snd (m s)) \<Longrightarrow> (\<And>x. keeps J (f x)) \<Longrightarrow> J (snd (bind_p m f s))"
  by (auto simp: bind_p_def keeps_def split: prod.split sum.split)

lemma db_write_names:
  assumes inv: "db_inv db" and names: "names_ok db"
    and ok: "pid = P_OBJECT_NAME \<Longrightarrow> idx = None \<and> revision_counted db"
  shows "names_ok (snd (db_write now i pid v priority idx db))"
proof (cases "map_of (db_objects db) i")
  case None
  then show ?thesis using inv names by (simp add: db_write_runs)
next
  case (Some ob)
  let ?f = "\<lambda>change. case change of None \<Rightarrow> return_p () | Some c \<Rightarrow> write_p (notify_change i pid c)"
  have f: "keeps names_ok (?f x)" for x by (intro keeps_intros) (simp add: notify_keeps)
  have found: "object_inv ob" using object_found [OF inv Some] by simp
  show ?thesis
  proof (cases "rbind (class_guard ob pid v) (\<lambda>u. write_access ob pid)")
    case (Inl e)
    then show ?thesis using inv names Some by (simp add: db_write_runs)
  next
    case (Inr d)
    have runs: "snd (db_write now i pid v priority idx db) =
        snd (bind_p (seq_p (rename_checks i pid v) (on_object i (store_step now d pid v priority idx))) ?f db)"
      using inv Some Inr by (simp add: db_write_runs seq_p_def bind_assoc)
    have "names_ok (snd (seq_p (rename_checks i pid v) (on_object i (store_step now d pid v priority idx)) db))"
    proof (cases "pid = P_OBJECT_NAME")
      case True
      have "write_access ob pid = Inr d" using Inr by auto
      then have "map_of (oc_definitions (ob_class ob)) pid = Some d"
        using found writable_cases(1) by (simp add: object_inv_def)
      then have d: "pd_datatype d = T_str"
        using found class_standard [of "ob_class ob"] True by (auto simp: object_inv_def standard_properties_def pdef_def)
      show ?thesis
      proof (cases "validate_name_unique v i db")
        case (Inl e)
        then show ?thesis using names True by (simp add: rename_checks_def run seq_p_def bind_p_def)
      next
        case (Inr y)
        then show ?thesis using rename_names [OF inv names Some _ _ d] ok True by simp
      qed
    next
      case False
      have "names_ok (snd (on_object i (store_step now d pid v priority idx) db))"
      proof -
        have "names_ok (update_object i (\<lambda>_. snd (store_step now d pid v priority idx ob)) db)"
          using names keepsD [OF keeps_name_store [OF False]] object_unique [OF inv] Some
          by (intro names_ok_update) (simp_all add: store_step_state)
        then show ?thesis using Some by (simp add: on_object_def split: prod.split) (metis snd_conv)
      qed
      then show ?thesis using False by (simp add: rename_checks_def run)
    qed
    then show ?thesis unfolding runs by (rule bind_state [OF _ f])
  qed
qed

lemma db_add_names:
  assumes inv: "db_inv db" and names: "names_ok db"
  shows "names_ok (snd (db_add ob db))"
proof (cases "ob_id ob \<in> set (object_list db)")
  case False
  have "names_ok (snd (increment_database_revision (insert_object ob db)))"
    if "get_prop P_OBJECT_NAME ob = ONone \<or> find_name db (get_prop P_OBJECT_NAME ob) = Inr None"
    using that insert_names [OF names _ False] keepsD [OF keeps_revision(2)] by blast
  then show ?thesis using names False by (simp add: db_add_runs split: sum.split option.split)
qed (use names in \<open>simp add: db_add_runs\<close>)

interpretation name_machine: event_system name_event db_event_proc "\<lambda>db. db_inv db \<and> names_ok db"
proof
  fix db ev assume inv: "db_inv db \<and> names_ok db" and ok: "name_event db ev"
  have "db_event_ok db ev" using ok by (cases ev) auto
  then have "db_inv (snd (db_event_proc ev db))" using inv db_machine.step_keeps by blast
  moreover have "names_ok (snd (db_event_proc ev db))"
  proof (cases ev)
    case (Db_add ob)
    then show ?thesis using inv db_add_names by simp
  next
    case (Db_remove i)
    then show ?thesis
      using inv delete_names [of db i] keepsD [OF keeps_revision(2)] by (simp add: db_remove_runs split: option.split)
  next
    case (Db_write now i pid v priority idx)
    then show ?thesis using inv ok db_write_names by simp
  next
    case (Db_register i pid cb)
    have "keeps names_ok (register_change_callback i pid cb)"
      unfolding register_change_callback_def
      by (intro keeps_intros names_ok_update) simp_all
    then show ?thesis using inv Db_register by (simp add: keepsD)
  next
    case (Db_unregister i pid cb)
    have "keeps names_ok (unregister_change_callback i pid cb)"
      unfolding unregister_change_callback_def Let_def
      by (intro keeps_intros) (simp split: option.split)
    then show ?thesis using inv Db_unregister by (simp add: keepsD)
  qed
  ultimately show "db_inv (snd (db_event_proc ev db)) \<and> names_ok (snd (db_event_proc ev db))" by blast
qed

section \<open>Change callbacks\<close>

lemma store_change:
  assumes "store_property now d pid v priority None ob = (Inr r, ob')"
  shows "r = (if py_eq (get_prop pid ob) (get_prop pid ob') then None else Some (get_prop pid ob, get_prop pid ob'))"
  using assms
  by (auto simp: store_property_def Let_def run seq_p_def bind_p_def split: prod.splits sum.splits)

lemma write_calls:
  assumes inv: "db_inv db" and ob: "map_of (db_objects db) i = Some ob" and notifies: "ob_notifies ob"
    and pid: "pid \<noteq> P_OBJECT_NAME" and w: "db_write now i pid v priority None db = (Inr (), db')"
    and ob': "map_of (db_objects db') i = Some ob'"
  shows "db_calls db' = db_calls db @ (if py_eq (get_prop pid ob) (get_prop pid ob') then []
    else map (\<lambda>cb. (cb, pid, get_prop pid ob, get_prop pid ob')) (callbacks_of db i pid))"
proof -
  obtain d where d: "rbind (class_guard ob pid v) (\<lambda>u. write_access ob pid) = Inr d"
    using w inv ob by (auto simp: db_write_runs split: sum.splits)
  obtain r ob2 where s: "store_property now d pid v priority None ob = (r, ob2)" by force
  have "ob_notifies ob2" using keepsD [OF keeps_same_store, of ob ob] s notifies
    by (metis same_object_def same_object_refl snd_conv)
  then have step: "store_step now d pid v priority None ob = (r, ob2)"
    using s by (simp add: bind_p_def run split: sum.split)
  have on: "on_object i (store_step now d pid v priority None) db = (r, update_object i (\<lambda>_. ob2) db)"
    using step ob by (simp add: on_object_def)
  have runs: "db_write now i pid v priority None db = bind_p (on_object i (store_step now d pid v priority None)) (\<lambda>change.
      case change of None \<Rightarrow> return_p () | Some c \<Rightarrow> write_p (notify_change i pid c)) db"
    using inv ob d pid by (simp add: db_write_runs rename_checks_def run)
  obtain c where r: "r = Inr c" using w unfolding runs by (auto simp: bind_p_def on split: sum.splits)
  note change = store_change [OF s [unfolded r]]
  have db': "db' = (case c of None \<Rightarrow> update_object i (\<lambda>_. ob2) db
      | Some c \<Rightarrow> notify_change i pid c (update_object i (\<lambda>_. ob2) db))"
    using w unfolding runs by (auto simp: bind_p_def on r run split: option.splits)
  then have "ob' = ob2" using ob' ob by (auto simp: lookup_update notify_change_def split: option.splits)
  then show ?thesis
    using change db' by (auto simp: notify_change_def callbacks_of_def)
qed

end
