(* ===== verification/Event_Machine.thy ===== *)
theory Event_Machine
  imports Values Procs
begin

text \<open>
  The pure part of \<open>app/event_engine.py\<close> and \<open>services/fault_algorithms.py\<close>: the event state machine of
  Clause 13.2 with its time delays, the event algorithms of Clause 13.3 and the fault algorithms of
  Clause 13.4.  An \<open>EventState\<close> or \<open>Reliability\<close> is its number; times and delays are Python floats.
\<close>

section \<open>The state machine\<close>

record event_transition =
  from_state :: int
  to_state :: int
  timestamp :: py_float

record event_machine =
  event_state :: int
  event_enable :: "bool list"
  acked_transitions :: "bool list"
  time_delay :: py_float
  time_delay_normal :: "py_float option"
  pending_state :: "int option"
  pending_since :: "py_float option"

definition new_event_machine :: event_machine where
  "new_event_machine =
     \<lparr>event_state = EV_NORMAL, event_enable = [True, True, True], acked_transitions = [True, True, True],
      time_delay = 0, time_delay_normal = None, pending_state = None, pending_since = None\<rparr>"

type_synonym 'a machine_proc = "(event_machine, 'a) proc"

definition effective_time_delay_normal :: "event_machine \<Rightarrow> py_float" where
  "effective_time_delay_normal m = (case time_delay_normal m of Some d \<Rightarrow> d | None \<Rightarrow> time_delay m)"

definition transition_index :: "int \<Rightarrow> nat" where
  "transition_index s = (if s = EV_FAULT then 1 else if s = EV_NORMAL then 2 else 0)"

definition clear_pending :: "event_machine \<Rightarrow> event_machine" where
  "clear_pending m = m\<lparr>pending_state := None, pending_since := None\<rparr>"

definition take_transition :: "int \<Rightarrow> py_float \<Rightarrow> event_transition option machine_proc" where
  "take_transition target now =
     bind_p (read_p event_state) (\<lambda>old.
     seq_p (write_p (\<lambda>m. (clear_pending m)\<lparr>event_state := target,
         acked_transitions := (acked_transitions m)[transition_index target := False]\<rparr>))
     (return_p (Some \<lparr>from_state = old, to_state = target, timestamp = now\<rparr>)))"

definition apply_delay :: "int \<Rightarrow> py_float \<Rightarrow> bool \<Rightarrow> event_transition option machine_proc" where
  "apply_delay target now normal =
     bind_p (read_p id) (\<lambda>m.
     let delay = (if normal then effective_time_delay_normal m else time_delay m)
     in if pending_state m \<noteq> Some target
        then seq_p (write_p (\<lambda>m. m\<lparr>pending_state := Some target, pending_since := Some now\<rparr>))
               (if F delay \<le> I 0 then take_transition target now else return_p None)
        else case pending_since m of None \<Rightarrow> raise_p AssertionError
          | Some since \<Rightarrow> if F delay \<le> F (f_sub now since) then take_transition target now else return_p None)"

definition evaluate :: "int option \<Rightarrow> bool \<Rightarrow> py_float \<Rightarrow> event_transition option machine_proc" where
  "evaluate event_result has_fault now =
     bind_p (read_p id) (\<lambda>m.
     let state = event_state m; enable = event_enable m;
         clear = seq_p (write_p clear_pending) (return_p None)
     in if has_fault \<and> state \<noteq> EV_FAULT
        then if enable ! 1 then take_transition EV_FAULT now else return_p None
        else if has_fault then return_p None
        else if state = EV_FAULT
        then let target = (case event_result of Some s \<Rightarrow> s | None \<Rightarrow> EV_NORMAL)
             in if target = EV_NORMAL \<and> enable ! 2 then apply_delay target now True
                else if target \<noteq> EV_NORMAL \<and> enable ! 0 then apply_delay target now False
                else if pending_state m \<noteq> Some target then clear else return_p None
        else if state = EV_NORMAL
        then case event_result of None \<Rightarrow> clear
          | Some s \<Rightarrow> if s \<noteq> EV_NORMAL \<and> enable ! 0 then apply_delay s now False else clear
        else case event_result of
            None \<Rightarrow> if enable ! 2 then apply_delay EV_NORMAL now True else clear
          | Some s \<Rightarrow>
              if s = EV_NORMAL then if enable ! 2 then apply_delay EV_NORMAL now True else clear
              else if s \<noteq> state \<and> enable ! 0 then apply_delay s now False
              else clear)"

section \<open>Event algorithms\<close>

text \<open>Arithmetic and comparisons of the limits, which come from properties and parameters unchecked.\<close>

definition with_numbers :: "py_obj \<Rightarrow> py_obj \<Rightarrow> (py_number \<Rightarrow> py_number \<Rightarrow> py_error + 'a) \<Rightarrow> py_error + 'a" where
  "with_numbers v w f = (case (as_number v, as_number w) of (Some a, Some b) \<Rightarrow> f a b | _ \<Rightarrow> Inl TypeError)"

definition number_obj :: "py_number \<Rightarrow> py_obj" where
  "number_obj a = (case a of I n \<Rightarrow> OInt n | F x \<Rightarrow> OFloat x)"

definition obj_add :: "py_obj \<Rightarrow> py_obj \<Rightarrow> py_error + py_obj" where
  "obj_add v w = with_numbers v w (\<lambda>a b. rbind (num_add a b) (\<lambda>c. Inr (number_obj c)))"

definition obj_sub :: "py_obj \<Rightarrow> py_obj \<Rightarrow> py_error + py_obj" where
  "obj_sub v w = with_numbers v w (\<lambda>a b. rbind (num_sub a b) (\<lambda>c. Inr (number_obj c)))"

definition obj_le :: "py_obj \<Rightarrow> py_obj \<Rightarrow> py_error + bool" where
  "obj_le v w = with_numbers v w (\<lambda>a b. Inr (a \<le> b))"

definition evaluate_out_of_range ::
  "py_obj \<Rightarrow> py_obj \<Rightarrow> py_obj \<Rightarrow> py_obj \<Rightarrow> int \<Rightarrow> py_error + int option" where
  "evaluate_out_of_range v high low deadband current =
     rbind (obj_less high v) (\<lambda>above. if above then Inr (Some EV_HIGH_LIMIT) else
     rbind (obj_less v low) (\<lambda>below. if below then Inr (Some EV_LOW_LIMIT) else
     rbind (if current = EV_HIGH_LIMIT then rbind (obj_sub high deadband) (\<lambda>x. obj_le x v) else Inr False)
       (\<lambda>still_high. if still_high then Inr (Some EV_HIGH_LIMIT) else
     rbind (if current = EV_LOW_LIMIT then rbind (obj_add low deadband) (\<lambda>x. obj_le v x) else Inr False)
       (\<lambda>still_low. Inr (if still_low then Some EV_LOW_LIMIT else None)))))"

definition evaluate_double_out_of_range ::
  "py_obj \<Rightarrow> py_obj \<Rightarrow> py_obj \<Rightarrow> py_obj \<Rightarrow> int \<Rightarrow> py_error + int option" where
  "evaluate_double_out_of_range v high low deadband current = evaluate_out_of_range v high low deadband current"

definition evaluate_signed_out_of_range ::
  "py_obj \<Rightarrow> py_obj \<Rightarrow> py_obj \<Rightarrow> py_obj \<Rightarrow> int \<Rightarrow> py_error + int option" where
  "evaluate_signed_out_of_range v high low deadband current = evaluate_out_of_range v high low deadband current"

definition evaluate_unsigned_out_of_range ::
  "py_obj \<Rightarrow> py_obj \<Rightarrow> py_obj \<Rightarrow> py_obj \<Rightarrow> int \<Rightarrow> py_error + int option" where
  "evaluate_unsigned_out_of_range v high low deadband current = evaluate_out_of_range v high low deadband current"

definition evaluate_unsigned_range :: "py_obj \<Rightarrow> py_obj \<Rightarrow> py_obj \<Rightarrow> py_error + int option" where
  "evaluate_unsigned_range v high low =
     rbind (obj_less high v) (\<lambda>above. if above then Inr (Some EV_HIGH_LIMIT) else
     rbind (obj_less v low) (\<lambda>below. Inr (if below then Some EV_LOW_LIMIT else None)))"

definition evaluate_floating_limit ::
  "py_obj \<Rightarrow> py_obj \<Rightarrow> py_obj \<Rightarrow> py_obj \<Rightarrow> py_obj \<Rightarrow> int \<Rightarrow> py_error + int option" where
  "evaluate_floating_limit v setpoint high_diff low_diff deadband current =
     rbind (obj_add setpoint high_diff) (\<lambda>high.
     rbind (obj_sub setpoint low_diff) (\<lambda>low.
     evaluate_out_of_range v high low deadband current))"

text \<open>\<open>value in values\<close>\<close>

definition py_in :: "py_obj \<Rightarrow> py_obj list \<Rightarrow> bool" where
  "py_in v vs = list_ex (py_eq v) vs"

definition evaluate_change_of_state :: "py_obj \<Rightarrow> py_obj list \<Rightarrow> int option" where
  "evaluate_change_of_state v alarm_values = (if py_in v alarm_values then Some EV_OFFNORMAL else None)"

definition evaluate_change_of_bitstring :: "py_obj list \<Rightarrow> py_obj list \<Rightarrow> py_obj list \<Rightarrow> py_error + int option" where
  "evaluate_change_of_bitstring v bitmask alarm_values =
     rbind (sequence (map2 (\<lambda>a b. case (as_int a, as_int b) of
        (Some m, Some n) \<Rightarrow> Inr (OInt (m AND n)) | _ \<Rightarrow> Inl TypeError) v bitmask)) (\<lambda>masked.
     Inr (if py_in (OTuple masked) alarm_values then Some EV_OFFNORMAL else None))"

definition evaluate_change_of_life_safety :: "int \<Rightarrow> int \<Rightarrow> py_obj list \<Rightarrow> py_obj list \<Rightarrow> int option" where
  "evaluate_change_of_life_safety tracking_value mode alarm_values life_safety_alarm_values =
     (if py_in (OInt tracking_value) life_safety_alarm_values then Some EV_LIFE_SAFETY_ALARM
      else if py_in (OInt tracking_value) alarm_values then Some EV_OFFNORMAL else None)"

definition evaluate_change_of_characterstring :: "py_obj \<Rightarrow> py_obj list \<Rightarrow> int option" where
  "evaluate_change_of_characterstring v alarm_values = (if py_in v alarm_values then Some EV_OFFNORMAL else None)"

definition evaluate_access_event :: "int \<Rightarrow> py_obj list \<Rightarrow> int option" where
  "evaluate_access_event access_event access_event_list =
     (if py_in (OInt access_event) access_event_list then Some EV_OFFNORMAL else None)"

definition evaluate_change_of_value :: "py_number \<Rightarrow> py_number \<Rightarrow> py_number \<Rightarrow> py_error + int option" where
  "evaluate_change_of_value v previous cov_increment =
     rbind (num_sub v previous) (\<lambda>d. Inr (if cov_increment \<le> num_abs d then Some EV_OFFNORMAL else None))"

fun evaluate_change_of_status_flags :: "py_obj list \<Rightarrow> py_obj list \<Rightarrow> py_obj list \<Rightarrow> int option" where
  "evaluate_change_of_status_flags (cur # current) (prev # previous) (sel # selected) =
     (if truthy sel \<and> \<not> py_eq cur prev then Some EV_OFFNORMAL
      else evaluate_change_of_status_flags current previous selected)"
| "evaluate_change_of_status_flags current previous selected = None"

definition evaluate_change_of_reliability :: "int \<Rightarrow> int option" where
  "evaluate_change_of_reliability reliability =
     (if reliability \<noteq> REL_NO_FAULT_DETECTED then Some EV_OFFNORMAL else None)"

definition evaluate_command_failure :: "py_obj \<Rightarrow> py_obj \<Rightarrow> int option" where
  "evaluate_command_failure feedback_value command_value =
     (if \<not> py_eq feedback_value command_value then Some EV_OFFNORMAL else None)"

definition evaluate_buffer_ready :: "int \<Rightarrow> py_obj \<Rightarrow> py_obj \<Rightarrow> py_error + int option" where
  "evaluate_buffer_ready current_count previous_count notification_threshold =
     rbind (obj_sub (OInt current_count) previous_count) (\<lambda>d.
     rbind (obj_le notification_threshold d) (\<lambda>enough. Inr (if enough then Some EV_OFFNORMAL else None)))"

definition evaluate_extended ::
  "py_obj \<Rightarrow> 'p \<Rightarrow> (py_obj \<Rightarrow> 'p \<Rightarrow> int option) option \<Rightarrow> int option" where
  "evaluate_extended monitored_value params vendor_callback =
     (case vendor_callback of None \<Rightarrow> None | Some f \<Rightarrow> f monitored_value params)"

definition evaluate_change_of_timer :: "int \<Rightarrow> py_obj list \<Rightarrow> int option" where
  "evaluate_change_of_timer timer_state alarm_values =
     (if py_in (OInt timer_state) alarm_values then Some EV_OFFNORMAL else None)"

definition evaluate_change_of_discrete_value :: "py_obj \<Rightarrow> py_obj \<Rightarrow> int option" where
  "evaluate_change_of_discrete_value current_value previous_value =
     (if \<not> py_eq current_value previous_value then Some EV_OFFNORMAL else None)"

section \<open>Fault algorithms\<close>

text \<open>The parameter records carry more than the algorithms look at; only what is used is an argument.\<close>

definition evaluate_fault_characterstring :: "int list \<Rightarrow> int list list \<Rightarrow> int" where
  "evaluate_fault_characterstring v fault_values =
     (if v \<in> set fault_values then REL_MULTI_STATE_FAULT else REL_NO_FAULT_DETECTED)"

definition evaluate_fault_extended :: "py_obj \<Rightarrow> 'p \<Rightarrow> (py_obj \<Rightarrow> 'p \<Rightarrow> int) option \<Rightarrow> int" where
  "evaluate_fault_extended v params vendor_callback =
     (case vendor_callback of None \<Rightarrow> REL_NO_FAULT_DETECTED | Some f \<Rightarrow> f v params)"

definition evaluate_fault_life_safety :: "int \<Rightarrow> int list \<Rightarrow> int" where
  "evaluate_fault_life_safety v fault_values =
     (if v \<in> set fault_values then REL_MULTI_STATE_FAULT else REL_NO_FAULT_DETECTED)"

definition evaluate_fault_state :: "int \<Rightarrow> int list \<Rightarrow> int" where
  "evaluate_fault_state v fault_enum_values =
     (if v \<in> set fault_enum_values then REL_MULTI_STATE_FAULT else REL_NO_FAULT_DETECTED)"

definition evaluate_fault_status_flags :: "status_flags \<Rightarrow> int" where
  "evaluate_fault_status_flags flags = (if fault flags then REL_MEMBER_FAULT else REL_NO_FAULT_DETECTED)"

definition evaluate_fault_out_of_range :: "py_number \<Rightarrow> py_number \<Rightarrow> py_number \<Rightarrow> int" where
  "evaluate_fault_out_of_range v min_normal max_normal =
     (if v < min_normal then REL_UNDER_RANGE else if max_normal < v then REL_OVER_RANGE
      else REL_NO_FAULT_DETECTED)"

fun evaluate_fault_listed :: "py_obj \<Rightarrow> ('p \<times> (py_obj \<Rightarrow> 'p \<Rightarrow> int)) list \<Rightarrow> int" where
  "evaluate_fault_listed v [] = REL_NO_FAULT_DETECTED"
| "evaluate_fault_listed v ((sub_params, evaluator) # fault_list) =
     (let result = evaluator v sub_params
      in if result \<noteq> REL_NO_FAULT_DETECTED then result else evaluate_fault_listed v fault_list)"

section \<open>The machine as a delay over the history\<close>

text \<open>
  A reference for the machine: it keeps no timer, but looks back at the samples since the last
  transition.  A sample asks for a state, or for none; the transition is taken when the newest samples
  have all asked for it since at least the delay.
\<close>

record event_config =
  enable_offnormal :: bool
  enable_fault :: bool
  enable_normal :: bool
  delay_offnormal :: py_float
  delay_normal :: py_float

text \<open>What the event algorithm asks for in a state: \<open>None\<close> when nothing is to change.\<close>

definition wanted :: "event_config \<Rightarrow> int \<Rightarrow> int option \<Rightarrow> int option" where
  "wanted c state result =
     (let s = (case result of Some s \<Rightarrow> s | None \<Rightarrow> EV_NORMAL)
      in if s = state then None
         else if s = EV_NORMAL then if enable_normal c then Some s else None
         else if enable_offnormal c then Some s else None)"

text \<open>The oldest of the newest samples that all ask for \<open>s\<close>.\<close>

fun asked_since :: "int \<Rightarrow> (int option \<times> py_float) list \<Rightarrow> py_float \<Rightarrow> py_float" where
  "asked_since s [] t = t"
| "asked_since s ((w, t') # past) t = (if w = Some s then asked_since s past t' else t)"

definition due :: "event_config \<Rightarrow> int \<Rightarrow> (int option \<times> py_float) list \<Rightarrow> py_float \<Rightarrow> bool" where
  "due c s past now =
     (let delay = (if s = EV_NORMAL then delay_normal c else delay_offnormal c)
      in if past \<noteq> [] \<and> fst (hd past) = Some s then F delay \<le> F (f_sub now (asked_since s past now))
         else F delay \<le> I 0)"

definition reference_step ::
  "event_config \<Rightarrow> int \<times> (int option \<times> py_float) list \<Rightarrow> int option \<Rightarrow> bool \<Rightarrow> py_float
    \<Rightarrow> event_transition option \<times> int \<times> (int option \<times> py_float) list" where
  "reference_step c st result has_fault now =
     (case st of (state, past) \<Rightarrow>
        let go = (\<lambda>s. (Some \<lparr>from_state = state, to_state = s, timestamp = now\<rparr>, s, []))
        in if has_fault then if state \<noteq> EV_FAULT \<and> enable_fault c then go EV_FAULT else (None, state, past)
           else case wanted c state result of
               Some s \<Rightarrow> if due c s past now then go s else (None, state, (Some s, now) # past)
             | None \<Rightarrow> (None, state, (None, now) # past))"

text \<open>Samples: the result of the event algorithm, whether there is a fault, the time.\<close>

type_synonym event_sample = "int option \<times> bool \<times> py_float"

fun machine_run :: "event_sample list \<Rightarrow> event_machine \<Rightarrow> (py_error + event_transition option) list" where
  "machine_run [] m = []"
| "machine_run ((r, f, t) # samples) m = (case evaluate r f t m of (out, m') \<Rightarrow> out # machine_run samples m')"

fun reference_run ::
  "event_config \<Rightarrow> event_sample list \<Rightarrow> int \<times> (int option \<times> py_float) list \<Rightarrow> event_transition option list" where
  "reference_run c [] st = []"
| "reference_run c ((r, f, t) # samples) st =
     (case reference_step c st r f t of (out, st') \<Rightarrow> out # reference_run c samples st')"

end
