(* ===== verification/Event_Engine.thy ===== *)
theory Event_Engine
  imports Event_Machine Object_Db
begin

text \<open>
  \<open>EventEngine\<close> of \<open>app/event_engine.py\<close>: one evaluation cycle over the object database, for event
  enrollments and for objects with intrinsic reporting, and the notifications it sends.  The engine's
  state is the database, a state machine per object, and the notifications given to the network so far
  with where they went.  Whether a notification can be encoded and whether the network takes it are
  parameters of a cycle, since every exception there is suppressed; the timer loop is left out.
\<close>

section \<open>State\<close>

record event_notification =
  en_initiating_device :: object_identifier
  en_event_object :: object_identifier
  en_time_stamp :: int
  en_notification_class :: py_obj
  en_priority :: int
  en_event_type :: py_obj
  en_notify_type :: py_obj
  en_to_state :: int
  en_ack_required :: bool
  en_from_state :: int

datatype notification_route =
    Broadcast_notification
  | Unconfirmed_to "int option \<times> bytes"
  | Confirmed_to "int option \<times> bytes"

record event_engine =
  ee_db :: object_db
  ee_contexts :: "((int \<times> int) \<times> event_machine) list"
  ee_sent :: "(event_notification \<times> notification_route) list"

type_synonym 'a engine_proc = "(event_engine, exc, 'a) eproc"

text \<open>
  What a cycle finds around it: the two clocks, the identifier of the device, \<open>str()\<close> of a value that is
  no string, what a vendor's callback object does, whether \<open>encode()\<close> of a notification returns, whether the
  communication state lets an unconfirmed request out, and whether the network takes it.
\<close>

record event_environment =
  env_now :: py_float
  env_weekday :: nat
  env_time :: "int \<times> int \<times> int"
  env_device :: object_identifier
  env_str :: "py_obj \<Rightarrow> int list"
  env_callback :: "py_obj \<Rightarrow> py_obj \<Rightarrow> py_obj \<Rightarrow> int option"
  env_encodes :: "event_notification \<Rightarrow> bool"
  env_communicates :: bool
  env_network :: "event_notification \<Rightarrow> notification_route \<Rightarrow> bool"

section \<open>Python helpers\<close>

text \<open>\<open>d.get(key, default)\<close> on \<open>_properties\<close> and on a dict of parameters.\<close>

definition prop_or :: "int \<Rightarrow> py_obj \<Rightarrow> bac_object \<Rightarrow> py_obj" where
  "prop_or pid dflt ob = (case map_of (ob_properties ob) pid of None \<Rightarrow> dflt | Some v \<Rightarrow> v)"

definition param :: "(string \<times> py_obj) list \<Rightarrow> string \<Rightarrow> py_obj \<Rightarrow> py_obj" where
  "param ps key dflt = (case map_of ps key of None \<Rightarrow> dflt | Some v \<Rightarrow> v)"

text \<open>\<open>tuple(v)\<close>, and \<open>v if isinstance(v, tuple) else tuple(v)\<close>, which is the same.\<close>

definition as_tuple :: "py_obj \<Rightarrow> py_error + py_obj list" where
  "as_tuple v = (case v of
       OTuple xs \<Rightarrow> Inr xs
     | OList xs \<Rightarrow> Inr xs
     | OStr s \<Rightarrow> Inr (map (\<lambda>c. OStr [c]) s)
     | OBytes b \<Rightarrow> Inr (map (\<lambda>x. OInt (uint x)) b)
     | OBits b \<Rightarrow> sequence (map (\<lambda>i. rbind (bs_getitem b (int i)) (\<lambda>x. Inr (OBool x))) [0..<nat (bs_len b)])
     | ODict d \<Rightarrow> Inr (map (\<lambda>(k, v). OStr (map (\<lambda>c. int (of_char c)) k)) d)
     | _ \<Rightarrow> Inl TypeError)"

definition ints_of :: "py_obj \<Rightarrow> py_error + py_obj list" where
  "ints_of v = rbind (as_tuple v) (\<lambda>xs. sequence (map (\<lambda>x. rbind (int_obj x) (\<lambda>n. Inr (OInt n))) xs))"

definition float_value :: "py_obj \<Rightarrow> py_error + py_obj" where
  "float_value v = rbind (float_obj v) (\<lambda>x. Inr (OFloat x))"

definition int_value :: "py_obj \<Rightarrow> py_error + py_obj" where
  "int_value v = rbind (int_obj v) (\<lambda>n. Inr (OInt n))"

section \<open>Settings of the state machine\<close>

definition delay_setting :: "py_obj \<Rightarrow> py_error + py_float option" where
  "delay_setting v = (case as_number v of None \<Rightarrow> Inr None | Some a \<Rightarrow> rbind (float_of a) (\<lambda>x. Inr (Some x)))"

definition sync_state_machine :: "bac_object \<Rightarrow> unit machine_proc" where
  "sync_state_machine ob =
     seq_p (case get_prop P_EVENT_ENABLE ob of
         OList xs \<Rightarrow> if 3 \<le> length xs then write_p (event_enable_update (\<lambda>x. map truthy (take 3 xs))) else return_p ()
       | _ \<Rightarrow> return_p ())
     (bind_p (lift_p (delay_setting (get_prop P_TIME_DELAY ob))) (\<lambda>d.
      seq_p (case d of None \<Rightarrow> return_p () | Some x \<Rightarrow> write_p (time_delay_update (\<lambda>y. x)))
     (bind_p (lift_p (delay_setting (get_prop P_TIME_DELAY_NORMAL ob))) (\<lambda>dn.
      case dn of None \<Rightarrow> return_p () | Some x \<Rightarrow> write_p (time_delay_normal_update (\<lambda>y. Some x))))))"

definition sync_intrinsic_state_machine :: "bac_object \<Rightarrow> unit machine_proc" where
  "sync_intrinsic_state_machine ob =
     seq_p (sync_state_machine ob)
     (case get_prop P_EVENT_STATE ob of
        OEnum c n \<Rightarrow> if c = ''EventState''
          then write_p (\<lambda>m. if event_state m = EV_NORMAL then m\<lparr>event_state := n\<rparr> else m) else return_p ()
      | _ \<Rightarrow> return_p ())"

section \<open>Intrinsic algorithms\<close>

definition limit_enable_bits :: "py_obj \<Rightarrow> bool \<times> bool" where
  "limit_enable_bits v = (case as_sequence v of
     Some (a # b # rest) \<Rightarrow> (truthy a, truthy b) | _ \<Rightarrow> (True, True))"

definition run_intrinsic_algorithm :: "int option \<Rightarrow> py_obj \<Rightarrow> bac_object \<Rightarrow> int \<Rightarrow> py_error + int option" where
  "run_intrinsic_algorithm event_type pv ob current =
     (if event_type = Some ET_OUT_OF_RANGE then
        let high = get_prop P_HIGH_LIMIT ob; low = get_prop P_LOW_LIMIT ob;
            deadband = prop_or P_DEADBAND (OFloat 0) ob; limit_enable = get_prop P_LIMIT_ENABLE ob
        in if high = ONone \<or> low = ONone then Inr None
           else
             let bits = (if limit_enable = ONone then (True, True) else limit_enable_bits limit_enable);
                 high = (if fst bits then high else OFloat f_infinity);
                 low = (if snd bits then low else OFloat f_minus_infinity)
             in rbind (float_value pv) (\<lambda>v.
                rbind (float_value deadband) (\<lambda>d. evaluate_out_of_range v high low d current))
      else if event_type = Some ET_CHANGE_OF_STATE then
        let alarm_values = get_prop P_ALARM_VALUES ob; alarm_value = get_prop P_ALARM_VALUE ob
        in if alarm_values = ONone \<and> alarm_value = ONone then Inr None
           else rbind (if alarm_values = ONone then Inr [alarm_value] else as_tuple alarm_values) (\<lambda>values.
                Inr (evaluate_change_of_state pv values))
      else if event_type = Some ET_UNSIGNED_RANGE then
        let high = get_prop P_HIGH_LIMIT ob; low = get_prop P_LOW_LIMIT ob
        in if high = ONone \<or> low = ONone then Inr None
           else rbind (int_value pv) (\<lambda>v. rbind (int_value high) (\<lambda>h. rbind (int_value low) (\<lambda>l.
                evaluate_unsigned_range v h l)))
      else if event_type = Some ET_FLOATING_LIMIT then
        let setpoint = get_prop P_SETPOINT ob; error_limit = get_prop P_ERROR_LIMIT ob;
            deadband = prop_or P_DEADBAND (OFloat 0) ob
        in if setpoint = ONone \<or> error_limit = ONone then Inr None
           else rbind (float_value pv) (\<lambda>v. rbind (float_value setpoint) (\<lambda>s.
                rbind (float_value error_limit) (\<lambda>e. rbind (float_value deadband) (\<lambda>d.
                evaluate_floating_limit v s e e d current))))
      else if event_type = Some ET_CHANGE_OF_LIFE_SAFETY then
        let tracking = get_prop P_TRACKING_VALUE ob; tracking = (if tracking = ONone then pv else tracking);
            mode = prop_or P_MODE (OInt 0) ob
        in rbind (ints_of (prop_or P_ALARM_VALUES (OTuple []) ob)) (\<lambda>alarms.
           rbind (ints_of (prop_or P_LIFE_SAFETY_ALARM_VALUES (OTuple []) ob)) (\<lambda>life_alarms.
           rbind (int_obj mode) (\<lambda>m. rbind (int_obj tracking) (\<lambda>t.
           Inr (evaluate_change_of_life_safety t m alarms life_alarms)))))
      else Inr None)"

section \<open>Enrollment algorithms\<close>

definition str_value :: "event_environment \<Rightarrow> py_obj \<Rightarrow> py_obj" where
  "str_value env v = (case v of OStr s \<Rightarrow> v | _ \<Rightarrow> OStr (env_str env v))"

definition run_event_algorithm ::
  "event_environment \<Rightarrow> py_obj \<Rightarrow> py_obj \<Rightarrow> py_obj \<Rightarrow> int \<Rightarrow> py_error + int option" where
  "run_event_algorithm env event_type v params current =
     (case params of
        ODict ps \<Rightarrow>
          let is = (\<lambda>n. py_eq event_type (OEnum ''EventType'' n)); p = param ps
          in if is ET_OUT_OF_RANGE then
               rbind (float_value v) (\<lambda>x. evaluate_out_of_range x (p ''high_limit'' (OFloat f_infinity))
                 (p ''low_limit'' (OFloat f_minus_infinity)) (p ''deadband'' (OFloat 0)) current)
             else if is ET_CHANGE_OF_STATE then
               rbind (as_tuple (p ''alarm_values'' (OTuple []))) (\<lambda>values. Inr (evaluate_change_of_state v values))
             else if is ET_CHANGE_OF_BITSTRING then
               rbind (as_tuple (p ''bitmask'' (OTuple []))) (\<lambda>mask.
               rbind (case p ''alarm_values'' (OTuple []) of
                   OTuple xs \<Rightarrow> Inr xs
                 | other \<Rightarrow> rbind (as_tuple other) (\<lambda>xs. sequence (map (\<lambda>x. rbind (as_tuple x) (\<lambda>ys. Inr (OTuple ys))) xs)))
               (\<lambda>values. rbind (as_tuple v) (\<lambda>bits. evaluate_change_of_bitstring bits mask values)))
             else if is ET_CHANGE_OF_VALUE then
               rbind (float_obj v) (\<lambda>x. rbind (float_obj (p ''previous_value'' v)) (\<lambda>prev.
               rbind (float_obj (p ''cov_increment'' (OFloat 0))) (\<lambda>inc. evaluate_change_of_value (F x) (F prev) (F inc))))
             else if is ET_COMMAND_FAILURE then Inr (evaluate_command_failure (p ''feedback_value'' ONone) v)
             else if is ET_FLOATING_LIMIT then
               rbind (float_value v) (\<lambda>x. evaluate_floating_limit x (p ''setpoint'' (OFloat 0))
                 (p ''high_diff_limit'' (OFloat 0)) (p ''low_diff_limit'' (OFloat 0)) (p ''deadband'' (OFloat 0)) current)
             else if is ET_CHANGE_OF_LIFE_SAFETY then
               rbind (as_tuple (p ''alarm_values'' (OTuple []))) (\<lambda>alarms.
               rbind (as_tuple (p ''life_safety_alarm_values'' (OTuple []))) (\<lambda>life_alarms.
               rbind (int_obj v) (\<lambda>t. Inr (evaluate_change_of_life_safety t 0 alarms life_alarms))))
             else if is ET_EXTENDED then
               Inr (evaluate_extended v params
                 (case p ''vendor_callback'' ONone of ONone \<Rightarrow> None | f \<Rightarrow> Some (env_callback env f)))
             else if is ET_BUFFER_READY then
               rbind (int_obj v) (\<lambda>n. evaluate_buffer_ready n (p ''previous_count'' (OInt 0))
                 (p ''notification_threshold'' (OInt 1)))
             else if is ET_UNSIGNED_RANGE then
               rbind (int_value v) (\<lambda>n. evaluate_unsigned_range n (p ''high_limit'' (OInt 0)) (p ''low_limit'' (OInt 0)))
             else if is ET_ACCESS_EVENT then
               rbind (as_tuple (p ''access_event_list'' (OTuple []))) (\<lambda>events.
               rbind (int_obj v) (\<lambda>n. Inr (evaluate_access_event n events)))
             else if is ET_DOUBLE_OUT_OF_RANGE then
               rbind (float_value v) (\<lambda>x. evaluate_double_out_of_range x (p ''high_limit'' (OFloat f_infinity))
                 (p ''low_limit'' (OFloat f_minus_infinity)) (p ''deadband'' (OFloat 0)) current)
             else if is ET_SIGNED_OUT_OF_RANGE then
               rbind (int_value v) (\<lambda>n. evaluate_signed_out_of_range n (p ''high_limit'' (OInt 0))
                 (p ''low_limit'' (OInt 0)) (p ''deadband'' (OInt 0)) current)
             else if is ET_UNSIGNED_OUT_OF_RANGE then
               rbind (int_value v) (\<lambda>n. evaluate_unsigned_out_of_range n (p ''high_limit'' (OInt 0))
                 (p ''low_limit'' (OInt 0)) (p ''deadband'' (OInt 0)) current)
             else if is ET_CHANGE_OF_CHARACTERSTRING then
               rbind (as_tuple (p ''alarm_values'' (OTuple []))) (\<lambda>values.
               Inr (evaluate_change_of_characterstring (str_value env v) values))
             else if is ET_CHANGE_OF_STATUS_FLAGS then
               rbind (as_tuple v) (\<lambda>cur. rbind (as_tuple (p ''previous_flags'' (OTuple []))) (\<lambda>prev.
               rbind (as_tuple (p ''selected_flags'' (OTuple []))) (\<lambda>sel.
               Inr (evaluate_change_of_status_flags cur prev sel))))
             else if is ET_CHANGE_OF_RELIABILITY then
               rbind (case v of OEnum c n \<Rightarrow> if c = ''Reliability'' then Inr n else enum_of ''Reliability'' n
                 | _ \<Rightarrow> rbind (int_obj v) (enum_of ''Reliability'')) (\<lambda>r. Inr (evaluate_change_of_reliability r))
             else if is ET_CHANGE_OF_TIMER then
               rbind (as_tuple (p ''alarm_values'' (OTuple []))) (\<lambda>values.
               rbind (int_obj v) (\<lambda>t. Inr (evaluate_change_of_timer t values)))
             else if is ET_CHANGE_OF_DISCRETE_VALUE then
               Inr (evaluate_change_of_discrete_value v (p ''previous_value'' v))
             else Inr None
      | _ \<Rightarrow> Inr None)"

section \<open>Notification classes\<close>

text \<open>\<open>object_db.get(ObjectIdentifier(ObjectType.NOTIFICATION_CLASS, num))\<close>\<close>

definition notification_class_object :: "object_db \<Rightarrow> py_obj \<Rightarrow> py_error + bac_object option" where
  "notification_class_object db num =
     (case as_number num of None \<Rightarrow> Inl TypeError
      | Some a \<Rightarrow>
          if I 0 \<le> a \<and> a \<le> I 4194303
          then Inr (map_option snd (find (\<lambda>(i, ob). object_type i = OT_NOTIFICATION_CLASS
                 \<and> num_eq (I (instance_number i)) a) (db_objects db)))
          else Inl ValueError)"

definition get_priority :: "object_db \<Rightarrow> py_obj \<Rightarrow> int \<Rightarrow> py_error + int" where
  "get_priority db num target =
     rbind (notification_class_object db num) (\<lambda>nc.
     case nc of None \<Rightarrow> Inr 0
     | Some ob \<Rightarrow> (case as_list (get_prop P_PRIORITY ob) of None \<Rightarrow> Inr 0
         | Some xs \<Rightarrow> if length xs < 3 then Inr 0 else int_obj (xs ! transition_index target)))"

definition get_ack_required :: "object_db \<Rightarrow> py_obj \<Rightarrow> int \<Rightarrow> py_error + bool" where
  "get_ack_required db num target =
     rbind (notification_class_object db num) (\<lambda>nc.
     Inr (case nc of None \<Rightarrow> False
     | Some ob \<Rightarrow> (case as_list (get_prop P_ACK_REQUIRED ob) of None \<Rightarrow> False
         | Some xs \<Rightarrow> if length xs < 3 then False else truthy (xs ! transition_index target))))"

section \<open>Recipients\<close>

text \<open>A bit that is there and clear excludes the recipient; a bit that is missing does not.\<close>

definition bit_allows :: "bit_string \<Rightarrow> nat \<Rightarrow> bool" where
  "bit_allows b i = (bs_getitem b (int i) \<noteq> Inr False)"

definition unless_wild :: "int \<Rightarrow> int \<Rightarrow> int" where
  "unless_wild x d = (if x \<noteq> 255 then x else d)"

text \<open>\<open><=\<close> on tuples of hour, minute and second.\<close>

fun time_le :: "int \<times> int \<times> int \<Rightarrow> int \<times> int \<times> int \<Rightarrow> bool" where
  "time_le (h, m, s) (h', m', s') = (h < h' \<or> h = h' \<and> (m < m' \<or> m = m' \<and> s \<le> s'))"

definition recipient_matches :: "event_environment \<Rightarrow> py_obj \<Rightarrow> nat \<Rightarrow> bool" where
  "recipient_matches env dest i =
     (case dest of
        ODestination d \<Rightarrow>
          let from_t = from_time d; to_t = to_time d
          in bit_allows (dest_transitions d) i \<and> bit_allows (valid_days d) (env_weekday env)
             \<and> time_le (unless_wild (hour from_t) 0, unless_wild (minute from_t) 0, unless_wild (second from_t) 0)
                 (env_time env)
             \<and> time_le (env_time env)
                 (unless_wild (hour to_t) 23, unless_wild (minute to_t) 59, unless_wild (second to_t) 59)
      | _ \<Rightarrow> True)"

definition dest_issue_confirmed :: "py_obj \<Rightarrow> bool" where
  "dest_issue_confirmed dest = (case dest of ODestination d \<Rightarrow> issue_confirmed_notifications d | _ \<Rightarrow> False)"

definition dest_address :: "py_obj \<Rightarrow> address_value option" where
  "dest_address dest = (case dest of ODestination d \<Rightarrow> recipient_address d | _ \<Rightarrow> None)"

text \<open>
  Sending to an address that is none of the network layer raises an AttributeError, which is suppressed;
  without an address an unconfirmed notification is broadcast and a confirmed one is dropped.
\<close>

definition recipient_route :: "py_obj \<Rightarrow> notification_route list" where
  "recipient_route dest =
     (case dest_address dest of
        Some (Network_address net mac) \<Rightarrow>
          [if dest_issue_confirmed dest then Confirmed_to (net, mac) else Unconfirmed_to (net, mac)]
      | Some (Recipient_address net mac) \<Rightarrow> []
      | None \<Rightarrow> if dest_issue_confirmed dest then [] else [Broadcast_notification])"

definition notification_routes :: "event_environment \<Rightarrow> object_db \<Rightarrow> py_obj \<Rightarrow> int \<Rightarrow> py_error + notification_route list" where
  "notification_routes env db num target =
     rbind (notification_class_object db num) (\<lambda>nc.
     let recipients = (case nc of None \<Rightarrow> ONone | Some ob \<Rightarrow> get_prop P_RECIPIENT_LIST ob)
     in if \<not> truthy recipients then Inr [Broadcast_notification]
        else rbind (as_tuple recipients) (\<lambda>dests.
          Inr (concat (map recipient_route (filter (\<lambda>dest. recipient_matches env dest (transition_index target)) dests)))))"

text \<open>
  \<open>_send_notification_unconfirmed\<close> and \<open>_send_notification_confirmed\<close>: what leaves the engine.  A
  confirmed notification leaves it as a task that makes a confirmed request.
\<close>

definition goes_out :: "event_environment \<Rightarrow> event_notification \<Rightarrow> notification_route \<Rightarrow> bool" where
  "goes_out env notification route \<longleftrightarrow> env_encodes env notification
     \<and> (case route of
          Confirmed_to a \<Rightarrow> True
        | _ \<Rightarrow> env_communicates env \<and> env_network env notification route)"

definition route_notification :: "event_environment \<Rightarrow> event_notification \<Rightarrow> py_obj \<Rightarrow> int \<Rightarrow> unit engine_proc" where
  "route_notification env notification num target =
     bind_p (read_p (\<lambda>e. py (notification_routes env (ee_db e) num target))) (\<lambda>r.
     bind_p (lift_p r) (\<lambda>routes.
     write_p (\<lambda>e. e\<lparr>ee_sent := ee_sent e @ map (Pair notification) (filter (goes_out env notification) routes)\<rparr>)))"

section \<open>Dispatch\<close>

definition update_engine_object :: "object_identifier \<Rightarrow> (bac_object \<Rightarrow> bac_object) \<Rightarrow> event_engine \<Rightarrow> event_engine" where
  "update_engine_object i f e = e\<lparr>ee_db := update_object i f (ee_db e)\<rparr>"

definition update_event_timestamps :: "event_transition \<Rightarrow> bac_object \<Rightarrow> py_error + bac_object" where
  "update_event_timestamps t ob =
     (case as_list (get_prop P_EVENT_TIME_STAMPS ob) of None \<Rightarrow> Inr ob
      | Some xs \<Rightarrow>
          if length xs < 3 then Inr ob
          else rbind (int_of (F (timestamp t))) (\<lambda>n.
            Inr (set_prop P_EVENT_TIME_STAMPS
              (OList (xs[transition_index (to_state t) := OTimeStamp 1 (OInt n)])) ob)))"

definition stamp_object :: "object_identifier \<Rightarrow> event_transition \<Rightarrow> unit engine_proc" where
  "stamp_object i t =
     bind_p (read_p (\<lambda>e. case map_of (db_objects (ee_db e)) i of None \<Rightarrow> Inl TypeError
       | Some ob \<Rightarrow> update_event_timestamps t ob)) (\<lambda>r.
     bind_p (lift_p (py r)) (\<lambda>ob. write_p (update_engine_object i (\<lambda>x. ob))))"

definition announce ::
  "event_environment \<Rightarrow> object_identifier \<Rightarrow> event_transition \<Rightarrow> py_obj \<Rightarrow> py_obj \<Rightarrow> py_obj \<Rightarrow> unit engine_proc" where
  "announce env i t event_type notify_type num =
     bind_p (read_p ee_db) (\<lambda>db.
     bind_p (lift_p (py (get_priority db num (to_state t)))) (\<lambda>prio.
     bind_p (lift_p (py (get_ack_required db num (to_state t)))) (\<lambda>ack.
     bind_p (lift_p (py (int_of (F (timestamp t))))) (\<lambda>stamp.
     route_notification env
       \<lparr>en_initiating_device = env_device env, en_event_object = i, en_time_stamp = stamp,
        en_notification_class = num, en_priority = prio, en_event_type = event_type,
        en_notify_type = notify_type, en_to_state = to_state t, en_ack_required = ack,
        en_from_state = from_state t\<rparr> num (to_state t)))))"

definition engine_prop :: "object_identifier \<Rightarrow> int \<Rightarrow> event_engine \<Rightarrow> py_obj" where
  "engine_prop i pid e = (case db_read (ee_db e) i pid None of Inl err \<Rightarrow> ONone | Inr v \<Rightarrow> v)"

definition or_else :: "py_obj \<Rightarrow> py_obj \<Rightarrow> py_obj" where
  "or_else v w = (if v = ONone then w else v)"

definition dispatch_notification ::
  "event_environment \<Rightarrow> object_identifier \<Rightarrow> event_transition \<Rightarrow> py_obj \<Rightarrow> unit engine_proc" where
  "dispatch_notification env i t event_type =
     bind_p (read_p (engine_prop i P_NOTIFY_TYPE)) (\<lambda>nt.
     bind_p (read_p (engine_prop i P_NOTIFICATION_CLASS)) (\<lambda>num.
     seq_p (announce env i t
         (case event_type of OEnum c n \<Rightarrow> if c = ''EventType'' then event_type else OEnum ''EventType'' ET_CHANGE_OF_STATE
            | _ \<Rightarrow> OEnum ''EventType'' ET_CHANGE_OF_STATE)
         (or_else nt (OEnum ''NotifyType'' 0)) (or_else num (OInt 0)))
     (stamp_object i t)))"

definition dispatch_intrinsic_notification ::
  "event_environment \<Rightarrow> object_identifier \<Rightarrow> bac_object \<Rightarrow> event_transition \<Rightarrow> int \<Rightarrow> unit engine_proc" where
  "dispatch_intrinsic_notification env i ob t event_type =
     seq_p (announce env i t (OEnum ''EventType'' event_type)
         (prop_or P_NOTIFY_TYPE (OEnum ''NotifyType'' 0) ob) (prop_or P_NOTIFICATION_CLASS (OInt 0) ob))
     (seq_p (write_p (update_engine_object i (set_prop P_EVENT_STATE (OEnum ''EventState'' (to_state t)))))
     (stamp_object i t))"

section \<open>The evaluation cycle\<close>

definition machine_of :: "object_identifier \<Rightarrow> event_engine \<Rightarrow> event_machine" where
  "machine_of i e = (case map_of (ee_contexts e) (object_type i, instance_number i) of
     None \<Rightarrow> new_event_machine | Some m \<Rightarrow> m)"

definition set_machine :: "object_identifier \<Rightarrow> event_machine \<Rightarrow> event_engine \<Rightarrow> event_engine" where
  "set_machine i m e = e\<lparr>ee_contexts := AList.update (object_type i, instance_number i) m (ee_contexts e)\<rparr>"

text \<open>A procedure of the object's state machine; a machine that was not there is created first.\<close>

definition on_machine :: "object_identifier \<Rightarrow> 'a machine_proc \<Rightarrow> 'a engine_proc" where
  "on_machine i p e = (case p (machine_of i e) of (r, m) \<Rightarrow> (py r, set_machine i m e))"

text \<open>\<open>inhibit is True\<close>, and the result of the algorithm under it.\<close>

definition unless_inhibited :: "py_obj \<Rightarrow> 'a \<Rightarrow> 'a \<Rightarrow> 'a" where
  "unless_inhibited inhibit v w = (if inhibit = OBool True then v else w)"

definition evaluate_enrollment_fault :: "bac_object \<Rightarrow> int" where
  "evaluate_enrollment_fault ob =
     unless_inhibited (get_prop P_RELIABILITY_EVALUATION_INHIBIT ob) REL_NO_FAULT_DETECTED
       (case get_prop P_RELIABILITY ob of
          OEnum c n \<Rightarrow> if c = ''Reliability'' \<and> n \<noteq> REL_NO_FAULT_DETECTED then n else REL_NO_FAULT_DETECTED
        | _ \<Rightarrow> REL_NO_FAULT_DETECTED)"

text \<open>The value of the property an enrollment monitors; \<open>None\<close> where it cannot be read.\<close>

definition read_monitored_property :: "object_identifier \<Rightarrow> event_engine \<Rightarrow> py_error + py_obj option" where
  "read_monitored_property i e =
     (let monitored = (\<lambda>oid pid ix. case map_of (db_objects (ee_db e)) oid of None \<Rightarrow> None
            | Some ob \<Rightarrow> (case db_read (ee_db e) oid pid ix of Inl err \<Rightarrow> None | Inr v \<Rightarrow> Some v))
      in case engine_prop i P_OBJECT_PROPERTY_REFERENCE e of
           ONone \<Rightarrow> Inr None
         | OPropertyRef oid pid ix \<Rightarrow> Inr (monitored oid pid ix)
         | ODevicePropertyRef oid pid ix device \<Rightarrow> Inr (monitored oid pid ix)
         | _ \<Rightarrow> Inl AttributeError)"

definition evaluate_enrollment :: "event_environment \<Rightarrow> object_identifier \<Rightarrow> bac_object \<Rightarrow> unit engine_proc" where
  "evaluate_enrollment env i ob =
     bind_p (read_p (engine_prop i P_EVENT_DETECTION_ENABLE)) (\<lambda>detection_enable.
     if detection_enable = OBool False then return_p ()
     else seq_p (on_machine i (sync_state_machine ob))
       (bind_p (read_p (\<lambda>e. py (read_monitored_property i e))) (\<lambda>r.
        bind_p (lift_p r) (\<lambda>monitored.
        case monitored of None \<Rightarrow> return_p ()
        | Some v \<Rightarrow>
            bind_p (read_p (engine_prop i P_EVENT_TYPE)) (\<lambda>event_type.
            bind_p (read_p (\<lambda>e. run_event_algorithm env event_type v (engine_prop i P_EVENT_PARAMETERS e)
               (event_state (machine_of i e)))) (\<lambda>r.
            bind_p (lift_p (py r)) (\<lambda>result.
            bind_p (read_p (engine_prop i P_EVENT_ALGORITHM_INHIBIT)) (\<lambda>inhibit.
            bind_p (on_machine i (evaluate (unless_inhibited inhibit (Some EV_NORMAL) result)
               (evaluate_enrollment_fault ob \<noteq> REL_NO_FAULT_DETECTED) (env_now env))) (\<lambda>t.
            case t of None \<Rightarrow> return_p () | Some t \<Rightarrow> dispatch_notification env i t event_type)))))))))"

definition intrinsic_fault :: "bac_object \<Rightarrow> bool" where
  "intrinsic_fault ob =
     unless_inhibited (get_prop P_RELIABILITY_EVALUATION_INHIBIT ob) False
       (\<not> py_eq (prop_or P_RELIABILITY (OEnum ''Reliability'' REL_NO_FAULT_DETECTED) ob)
            (OEnum ''Reliability'' REL_NO_FAULT_DETECTED))"

definition evaluate_intrinsic :: "event_environment \<Rightarrow> object_identifier \<Rightarrow> bac_object \<Rightarrow> int \<Rightarrow> unit engine_proc" where
  "evaluate_intrinsic env i ob event_type =
     (if get_prop P_EVENT_DETECTION_ENABLE ob = OBool False then return_p ()
      else seq_p (on_machine i (sync_intrinsic_state_machine ob))
        (bind_p (read_p (\<lambda>e. db_read (ee_db e) i P_PRESENT_VALUE None)) (\<lambda>r.
         case r of Inl err \<Rightarrow> return_p ()
         | Inr pv \<Rightarrow>
             bind_p (read_p (\<lambda>e. run_intrinsic_algorithm (Some event_type) pv ob (event_state (machine_of i e)))) (\<lambda>r.
             bind_p (lift_p (py r)) (\<lambda>result.
             bind_p (on_machine i (evaluate
                (unless_inhibited (get_prop P_EVENT_ALGORITHM_INHIBIT ob) (Some EV_NORMAL) result)
                (intrinsic_fault ob) (env_now env))) (\<lambda>t.
             case t of None \<Rightarrow> return_p ()
             | Some t \<Rightarrow> dispatch_intrinsic_notification env i ob t event_type))))))"

definition with_engine_object :: "object_identifier \<Rightarrow> (bac_object \<Rightarrow> unit engine_proc) \<Rightarrow> unit engine_proc" where
  "with_engine_object i f =
     bind_p (read_p (\<lambda>e. map_of (db_objects (ee_db e)) i)) (\<lambda>found.
     case found of None \<Rightarrow> return_p () | Some ob \<Rightarrow> f ob)"

definition evaluate_cycle :: "event_environment \<Rightarrow> unit engine_proc" where
  "evaluate_cycle env =
     bind_p (read_p (\<lambda>e. (get_objects_of_type OT_EVENT_ENROLLMENT (ee_db e), object_list (ee_db e)))) (\<lambda>(enrollments, ids).
     seq_p (each_p (\<lambda>i. with_engine_object i (evaluate_enrollment env i)) enrollments)
     (each_p (\<lambda>i. with_engine_object i (\<lambda>ob. case oc_algorithm (ob_class ob) of
          None \<Rightarrow> return_p () | Some ty \<Rightarrow> evaluate_intrinsic env i ob ty)) ids))"

end
