(* ===== verification/Event_Machine_Laws.thy ===== *)
theory Event_Machine_Laws
  imports Event_Machine
begin

text \<open>
  The event state machine and its reference do the same; what follows for the delays: no transition
  before the condition has held for its delay, and a transition once it has.
\<close>

section \<open>Equivalence with the reference\<close>

definition enabled :: "event_config \<Rightarrow> int \<Rightarrow> bool" where
  "enabled c s = (if s = EV_NORMAL then enable_normal c else enable_offnormal c)"

definition config_of :: "event_machine \<Rightarrow> event_config" where
  "config_of m = \<lparr>enable_offnormal = event_enable m ! 0, enable_fault = event_enable m ! 1,
     enable_normal = event_enable m ! 2, delay_offnormal = time_delay m,
     delay_normal = effective_time_delay_normal m\<rparr>"

definition newest :: "(int option \<times> py_float) list \<Rightarrow> int option" where
  "newest past = (case past of [] \<Rightarrow> None | (w, t) # rest \<Rightarrow> w)"

definition related :: "event_config \<Rightarrow> event_machine \<Rightarrow> int \<times> (int option \<times> py_float) list \<Rightarrow> bool" where
  "related c m st \<longleftrightarrow> (case st of (state, past) \<Rightarrow> config_of m = c \<and> event_state m = state
     \<and> pending_state m = newest past
     \<and> (\<forall>s. newest past = Some s \<longrightarrow> enabled c s \<and> pending_since m = Some (asked_since s past 0)))"

lemma asked_since_newest: "newest past = Some s \<Longrightarrow> asked_since s past t = asked_since s past 0"
  by (cases past) (auto simp: newest_def)

lemma config_frame [simp]:
  "config_of (m\<lparr>pending_state := a, pending_since := b\<rparr>) = config_of m"
  "config_of (m\<lparr>event_state := x, acked_transitions := y\<rparr>) = config_of m"
  by (simp_all add: config_of_def effective_time_delay_normal_def split: option.split)

lemma clear_frame [simp]:
  "config_of (clear_pending m) = config_of m" "event_state (clear_pending m) = event_state m"
  "pending_state (clear_pending m) = None"
  by (simp_all add: clear_pending_def)

lemma take_transition_runs:
  "take_transition s now m = (Inr (Some \<lparr>from_state = event_state m, to_state = s, timestamp = now\<rparr>),
     (clear_pending m)\<lparr>event_state := s, acked_transitions := (acked_transitions m)[transition_index s := False]\<rparr>)"
  by (simp add: take_transition_def run)

lemma apply_delay_runs:
  assumes r: "related c m (state, past)" and s: "enabled c s"
  shows "\<exists>m'. apply_delay s now (s = EV_NORMAL) m =
      (Inr (if due c s past now then Some \<lparr>from_state = state, to_state = s, timestamp = now\<rparr> else None), m')
    \<and> related c m' (if due c s past now then (s, []) else (state, (Some s, now) # past))"
proof -
  let ?delay = "if s = EV_NORMAL then effective_time_delay_normal m else time_delay m"
  have state: "event_state m = state" and pending: "pending_state m = newest past"
    and cfg: "config_of m = c" using r by (simp_all add: related_def)
  have delay: "?delay = (if s = EV_NORMAL then delay_normal c else delay_offnormal c)"
    using cfg by (auto simp: config_of_def)
  have fired: "related c ((clear_pending m)\<lparr>event_state := s, acked_transitions := a\<rparr>) (s, [])" for a
    using cfg by (simp add: related_def newest_def clear_pending_def)
  show ?thesis
  proof (cases "newest past = Some s")
    case True
    then have since: "pending_since m = Some (asked_since s past 0)" using r by (simp add: related_def)
    have hd: "past \<noteq> [] \<and> fst (hd past) = Some s" using True by (cases past) (auto simp: newest_def)
    have due: "due c s past now \<longleftrightarrow> F ?delay \<le> F (f_sub now (asked_since s past 0))"
      using hd delay asked_since_newest [OF True, of now] by (simp add: due_def Let_def)
    have more: "related c m (state, (Some s, now) # past)"
      using r True asked_since_newest [OF True, of now] s by (simp add: related_def newest_def)
    show ?thesis
      using True pending since state due fired more
      by (auto simp: apply_delay_def run take_transition_runs Let_def)
  next
    case False
    have "due c s past now \<longleftrightarrow> F ?delay \<le> I 0"
      using False delay by (cases past) (auto simp: due_def newest_def Let_def)
    moreover have "asked_since s past now = now" using False by (cases past) (auto simp: newest_def)
    then have "related c (m\<lparr>pending_state := Some s, pending_since := Some now\<rparr>) (state, (Some s, now) # past)"
      using r s by (simp add: related_def newest_def)
    moreover have "clear_pending (m\<lparr>pending_state := Some s, pending_since := Some now\<rparr>) = clear_pending m"
      by (simp add: clear_pending_def)
    ultimately show ?thesis
      using False pending state fired
      by (auto simp: apply_delay_def run take_transition_runs Let_def)
  qed
qed

lemma evaluate_runs:
  assumes r: "related c m (state, past)" and ok: "result \<noteq> Some EV_FAULT"
  shows "\<exists>m'. evaluate result f now m = (Inr (fst (reference_step c (state, past) result f now)), m')
    \<and> related c m' (snd (reference_step c (state, past) result f now))"
proof -
  have state: "event_state m = state" and cfg: "config_of m = c" and pending: "pending_state m = newest past"
    using r by (simp_all add: related_def)
  have enable: "event_enable m ! 0 = enable_offnormal c" "event_enable m ! 1 = enable_fault c"
    "event_enable m ! 2 = enable_normal c"
    using cfg by (auto simp: config_of_def)
  have cleared: "related c (clear_pending m) (state, (None, now) # past)"
    using r by (simp add: related_def newest_def)
  have fired: "related c ((clear_pending m)\<lparr>event_state := s, acked_transitions := a\<rparr>) (s, [])" for s a
    using cfg by (simp add: related_def newest_def clear_pending_def)
  show ?thesis
  proof (cases f)
    case True
    then show ?thesis
      using r state enable fired
      by (auto simp: evaluate_def run reference_step_def take_transition_runs Let_def)
  next
    case False
    let ?s = "case result of Some s \<Rightarrow> s | None \<Rightarrow> EV_NORMAL"
    show ?thesis
    proof (cases "wanted c state result")
      case None
      have "newest past \<noteq> Some ?s" if "?s \<noteq> state"
        using None that r by (auto simp: wanted_def related_def enabled_def Let_def split: if_splits)
      then have "evaluate result False now m = (Inr None, clear_pending m)"
        using None state enable pending ok
        by (auto simp: evaluate_def run Let_def wanted_def split: option.splits if_splits)
      then show ?thesis using None False cleared by (simp add: reference_step_def)
    next
      case (Some s)
      then have s: "s = ?s" "s \<noteq> state" "enabled c s"
        by (auto simp: wanted_def enabled_def Let_def split: if_splits)
      have "evaluate result False now m = apply_delay s now (s = EV_NORMAL) m"
        using s state enable ok
        by (auto simp: evaluate_def run Let_def enabled_def split: option.splits if_splits)
      then show ?thesis
        using apply_delay_runs [OF r s(3), of now] Some False by (auto simp: reference_step_def)
    qed
  qed
qed

lemma machine_run_reference:
  assumes "related c m st" "list_all (\<lambda>(r, f, t). r \<noteq> Some EV_FAULT) samples"
  shows "machine_run samples m = map Inr (reference_run c samples st)"
  using assms
proof (induction samples arbitrary: m st)
  case (Cons x samples)
  obtain r f t state past where x: "x = (r, f, t)" "st = (state, past)" by (metis surj_pair)
  obtain m' where "evaluate r f t m = (Inr (fst (reference_step c st r f t)), m')"
    "related c m' (snd (reference_step c st r f t))"
    using evaluate_runs [of c m state past r f t] Cons.prems x by auto
  then show ?case using Cons.IH [of m'] Cons.prems(2) x(1) by (simp split: prod.split)
qed simp

lemma related_start:
  assumes "pending_state m = None"
  shows "related (config_of m) m (event_state m, [])"
  using assms by (simp add: related_def newest_def)

section \<open>What the delays guarantee\<close>

lemma asked_since_split:
  assumes "newest past = Some s"
  shows "\<exists>newer older. past = newer @ (Some s, asked_since s past t) # older \<and> list_all (\<lambda>(w, t). w = Some s) newer"
  using assms
proof (induction past arbitrary: t)
  case (Cons x past)
  obtain w u where x: "x = (w, u)" by force
  with Cons.prems have w: "w = Some s" by (simp add: newest_def)
  show ?case
  proof (cases "newest past = Some s")
    case True
    from Cons.IH [OF True, of u] obtain newer older where
      "past = newer @ (Some s, asked_since s past u) # older" "list_all (\<lambda>(w, t). w = Some s) newer" by blast
    then show ?thesis using x w by (intro exI [of _ "(Some s, u) # newer"] exI [of _ older]) simp
  next
    case False
    then have "asked_since s past u = u" by (cases past) (auto simp: newest_def)
    then show ?thesis using x w by (intro exI [of _ "[]"] exI [of _ past]) simp
  qed
qed (simp add: newest_def)

text \<open>The samples since the last transition.\<close>

fun reference_state ::
  "event_config \<Rightarrow> event_sample list \<Rightarrow> int \<times> (int option \<times> py_float) list \<Rightarrow> int \<times> (int option \<times> py_float) list" where
  "reference_state c [] st = st"
| "reference_state c ((r, f, t) # samples) st = reference_state c samples (snd (reference_step c st r f t))"

lemma reference_run_append:
  "reference_run c (xs @ ys) st = reference_run c xs st @ reference_run c ys (reference_state c xs st)"
  by (induction xs arbitrary: st) (auto split: prod.split)

lemma reference_state_append: "reference_state c (xs @ ys) st = reference_state c ys (reference_state c xs st)"
  by (induction c xs st rule: reference_state.induct) simp_all

lemma filter_split:
  "filter P xs = us @ x # vs \<Longrightarrow> \<exists>us' vs'. xs = us' @ x # vs' \<and> filter P vs' = vs \<and> P x"
proof (induction xs arbitrary: us)
  case (Cons a xs)
  show ?case
  proof (cases "P a \<and> us = []")
    case True
    then show ?thesis using Cons.prems by (intro exI [of _ "[]"] exI [of _ xs]) auto
  next
    case False
    then obtain us2 where "filter P xs = us2 @ x # vs" using Cons.prems by (cases us) (auto split: if_splits)
    from Cons.IH [OF this] show ?thesis by (metis append_Cons)
  qed
qed simp

definition history :: "event_config \<Rightarrow> int \<Rightarrow> event_sample list \<Rightarrow> (int option \<times> py_float) list" where
  "history c state samples = rev (map (\<lambda>(r, f, t). (wanted c state r, t)) (filter (\<lambda>(r, f, t). \<not> f) samples))"

lemma reference_history:
  "\<exists>older recent. samples = older @ recent
    \<and> snd (reference_state c samples (state0, [])) = history c (fst (reference_state c samples (state0, []))) recent"
proof (induction samples rule: rev_induct)
  case (snoc x samples)
  obtain r f t where x: "x = (r, f, t)" by (metis surj_pair)
  obtain state past where st: "reference_state c samples (state0, []) = (state, past)" by force
  obtain older recent where ih: "samples = older @ recent" "past = history c state recent"
    using snoc.IH st by auto
  have next_st: "reference_state c (samples @ [x]) (state0, []) = snd (reference_step c (state, past) r f t)"
    by (simp add: reference_state_append st x)
  show ?case
  proof (cases "snd (snd (reference_step c (state, past) r f t)) = []")
    case True
    then show ?thesis unfolding next_st by (intro exI [of _ "samples @ [x]"] exI [of _ "[]"]) (simp add: history_def)
  next
    case False
    then have "fst (snd (reference_step c (state, past) r f t)) = state
        \<and> snd (snd (reference_step c (state, past) r f t)) = history c state (recent @ [x])"
      by (auto simp: reference_step_def Let_def x ih(2) history_def split: option.splits if_splits)
    then show ?thesis unfolding next_st using ih(1) by (intro exI [of _ older] exI [of _ "recent @ [x]"]) simp
  qed
qed (simp add: history_def)

lemma reference_waits:
  assumes out: "fst (reference_step c (reference_state c samples (state0, [])) r False t) = Some tr"
    and delay: "d = (if to_state tr = EV_NORMAL then delay_normal c else delay_offnormal c)" "\<not> F d \<le> I 0"
  shows "\<exists>older r0 t0 newer. samples = older @ (r0, False, t0) # newer
    \<and> list_all (\<lambda>(r', f', t'). f' \<or> wanted c (from_state tr) r' = Some (to_state tr)) ((r0, False, t0) # newer @ [(r, False, t)])
    \<and> F d \<le> F (f_sub t t0)"
proof -
  obtain state past where st: "reference_state c samples (state0, []) = (state, past)" by force
  obtain older recent where h: "samples = older @ recent" "past = history c state recent"
    using reference_history [of samples c state0] st by auto
  let ?s = "to_state tr"
  have tr: "wanted c state r = Some ?s" "due c ?s past t" "from_state tr = state"
    using out st by (auto simp: reference_step_def Let_def split: option.splits if_splits)
  then have new: "newest past = Some ?s" and d: "F d \<le> F (f_sub t (asked_since ?s past t))"
    using delay by (cases past; auto simp: due_def newest_def Let_def split: if_splits)+
  obtain newer rest where split: "past = newer @ (Some ?s, asked_since ?s past t) # rest"
    "list_all (\<lambda>(w, t). w = Some ?s) newer" using asked_since_split [OF new] by blast
  have "map (\<lambda>(r, f, t). (wanted c state r, t)) (filter (\<lambda>(r, f, t). \<not> f) recent)
      = rev rest @ (Some ?s, asked_since ?s past t) # rev newer"
    using split(1) h(2) by (simp add: history_def rev_swap)
  then obtain us x vs where uv: "filter (\<lambda>(r, f, t). \<not> f) recent = us @ x # vs"
    "(\<lambda>(r, f, t). (wanted c state r, t)) x = (Some ?s, asked_since ?s past t)"
    "map (\<lambda>(r, f, t). (wanted c state r, t)) vs = rev newer"
    by (auto simp: map_eq_append_conv map_eq_Cons_conv)
  obtain us' vs' where rec: "recent = us' @ x # vs'" "filter (\<lambda>(r, f, t). \<not> f) vs' = vs"
    "(\<lambda>(r, f, t). \<not> f) x"
    using filter_split [OF uv(1)] by blast
  have "list_all (\<lambda>(r', f', t'). f' \<or> wanted c state r' = Some ?s) vs'"
  proof -
    have "wanted c state r' = Some ?s" if "(r', False, t') \<in> set vs'" for r' t'
    proof -
      have "(wanted c state r', t') \<in> set (rev newer)"
        unfolding uv(3) [symmetric] using that rec(2) by force
      then show ?thesis using split(2) by (auto simp: list_all_iff)
    qed
    then show ?thesis by (auto simp: list_all_iff) (metis (full_types))
  qed
  moreover obtain r0 t0 where "x = (r0, False, t0)" using rec(3) by (cases x) auto
  ultimately show ?thesis
    using rec(1) h(1) uv(2) tr d
    by (intro exI [of _ "older @ us'"] exI [of _ r0] exI [of _ t0] exI [of _ vs']) auto
qed

lemma reference_reports:
  assumes "\<And>r f t. (r, f, t) \<in> set samples \<Longrightarrow> \<not> f \<and> wanted c state r = Some s"
    and "wanted c state r1 = Some s" "newest past = Some s"
    and "F (if s = EV_NORMAL then delay_normal c else delay_offnormal c) \<le> F (f_sub t1 (asked_since s past 0))"
  shows "\<exists>tr \<in> set (reference_run c (samples @ [(r1, False, t1)]) (state, past)). \<exists>t. tr = Some \<lparr>from_state = state, to_state = s, timestamp = t\<rparr>"
  using assms
proof (induction samples arbitrary: past)
  case Nil
  have "due c s past t1"
    using Nil.prems(3,4) asked_since_newest [OF Nil.prems(3), of t1]
    by (cases past) (auto simp: due_def newest_def Let_def)
  then show ?case using Nil.prems(2) by (simp add: reference_step_def)
next
  case (Cons x samples)
  obtain r f t where x: "x = (r, f, t)" by (metis surj_pair)
  have w: "\<not> f" "wanted c state r = Some s" using Cons.prems(1) [of r f t] x by auto
  show ?case
  proof (cases "due c s past t")
    case True
    then show ?thesis using x w by (auto simp: reference_step_def split: prod.split)
  next
    case False
    have "asked_since s ((Some s, t) # past) 0 = asked_since s past 0"
      using asked_since_newest [OF Cons.prems(3), of t] by simp
    then have "\<exists>tr \<in> set (reference_run c (samples @ [(r1, False, t1)]) (state, (Some s, t) # past)).
        \<exists>t. tr = Some \<lparr>from_state = state, to_state = s, timestamp = t\<rparr>"
      using Cons.prems by (intro Cons.IH) (auto simp: newest_def)
    then show ?thesis using False x w by (simp add: reference_step_def)
  qed
qed

section \<open>Five seconds\<close>

text \<open>Some arithmetic on the float 5.0, for examples.\<close>

lemma five_rounded: "f_round (5 * 2 ^ 1074) = 0x4014000000000000"
proof -
  have "bit_length (5 * 2 ^ 1074) = Suc 1076" by (rule bit_length_unique) simp_all
  moreover have "round_half_even (5 * 2 ^ 1074) 1024 = 5 * 2 ^ 50" by (simp add: round_half_even_def Let_def)
  ultimately show ?thesis by (simp add: f_round_def)
qed

lemma five_seconds:
  "f_scaled 0x4014000000000000 = 5 * 2 ^ 1074" "\<not> f_nan 0x4014000000000000" "\<not> f_inf 0x4014000000000000"
  "\<not> f_nan 0" "\<not> f_inf 0" "f_scaled 0 = 0"
  by (simp_all add: f_nan_def f_inf_def f64_parts_def f_scaled_def)

lemma in_five_seconds: "num_add (F 0) (I 5) = Inr (F 0x4014000000000000)"
  unfolding num_add_def num_lift_def float_of_def f_add_def
  by (simp add: five_rounded five_seconds Let_def del: power_numeral)

lemma five_minus_zero: "f_sub 0x4014000000000000 0 = 0x4014000000000000"
proof -
  have "f_negate 0 = 0x8000000000000000" by (simp add: f_negate_def f64_parts_def f64_make_def)
  moreover have "\<not> f_nan 0x8000000000000000" "\<not> f_inf 0x8000000000000000" "f_scaled 0x8000000000000000 = 0"
    by (simp_all add: f_nan_def f_inf_def f64_parts_def f_scaled_def)
  ultimately show ?thesis
    unfolding f_sub_def f_add_def by (simp add: five_rounded five_seconds Let_def del: power_numeral)
qed

lemma five_positive: "\<not> F 0x4014000000000000 \<le> I 0" "F 0x4014000000000000 \<le> F 0x4014000000000000"
  by (simp_all add: num_order num_key_def num_nan_def five_seconds)

end
