(* ===== verification/Event_Engine_Laws.thy ===== *)
theory Event_Engine_Laws
  imports Event_Engine Event_Machine_Laws Object_Db_Laws
begin

text \<open>
  What the event engine shows and announces: the Event_State of an object with intrinsic reporting is the
  state of its machine, and a change of it is announced to the recipients of its notification class.
\<close>

section \<open>Running the machine\<close>

lemma evaluate_state:
  assumes "evaluate r f now m = (Inr t, m')"
  shows "event_state m' = (case t of None \<Rightarrow> event_state m | Some t \<Rightarrow> to_state t)
    \<and> (\<forall>t'. t = Some t' \<longrightarrow> from_state t' = event_state m \<and> timestamp t' = now)
    \<and> (r \<noteq> Some EV_FAULT \<longrightarrow> (\<forall>t'. t = Some t' \<longrightarrow> to_state t' \<noteq> event_state m))"
  using assms
  by (auto simp: evaluate_def run take_transition_runs apply_delay_def clear_pending_def Let_def proc_defs
      split: if_splits option.splits)

lemma sync_keeps: "keeps (\<lambda>m. event_state m = s) (sync_state_machine ob)"
proof -
  have enable: "keeps (\<lambda>m. event_state m = s) (case v of
      OList xs \<Rightarrow> if 3 \<le> length xs then write_p (event_enable_update (\<lambda>x. map truthy (take 3 xs))) else return_p ()
    | _ \<Rightarrow> return_p ())" for v
    by (cases v) (auto intro!: keeps_intros)
  show ?thesis
    unfolding sync_state_machine_def by (intro keeps_intros enable) simp_all
qed

lemma seq_runs: "seq_p m n s = (case m s of (Inl e, s') \<Rightarrow> (Inl e, s') | (Inr x, s') \<Rightarrow> n s')"
  by (simp add: proc_defs)

lemma sync_runs:
  assumes "sync_intrinsic_state_machine ob m = (Inr u, m')"
  shows "event_state m' = (case get_prop P_EVENT_STATE ob of
      OEnum c n \<Rightarrow> if c = ''EventState'' \<and> event_state m = EV_NORMAL then n else event_state m
    | _ \<Rightarrow> event_state m)"
proof -
  obtain r m1 where r: "sync_state_machine ob m = (r, m1)" by force
  have "event_state m1 = event_state m" using keepsD [OF sync_keeps refl, of ob m] r by simp
  then show ?thesis
    using assms r
    by (cases "get_prop P_EVENT_STATE ob") (auto simp: sync_intrinsic_state_machine_def seq_runs run split: sum.splits if_splits)
qed

lemma intrinsic_not_fault: "run_intrinsic_algorithm ty pv ob s = Inr r \<Longrightarrow> r \<noteq> Some EV_FAULT"
  by (auto simp: run_intrinsic_algorithm_def evaluate_out_of_range_def evaluate_change_of_state_def
      evaluate_unsigned_range_def evaluate_floating_limit_def evaluate_change_of_life_safety_def Let_def
      split: if_splits sum.splits prod.splits)

section \<open>Announcements\<close>

lemma goes_out_eq:
  "goes_out env n = (\<lambda>route. env_encodes env n \<and> (case route of Confirmed_to a \<Rightarrow> True
     | _ \<Rightarrow> env_communicates env \<and> env_network env n route))"
  by (simp add: goes_out_def fun_eq_iff)

text \<open>The notification of a transition and where it goes.\<close>

definition announcement ::
  "event_environment \<Rightarrow> object_db \<Rightarrow> object_identifier \<Rightarrow> event_transition \<Rightarrow> py_obj \<Rightarrow> py_obj \<Rightarrow> py_obj
    \<Rightarrow> py_error + (event_notification \<times> notification_route) list" where
  "announcement env db i t event_type notify_type num =
     rbind (get_priority db num (to_state t)) (\<lambda>prio.
     rbind (get_ack_required db num (to_state t)) (\<lambda>ack.
     rbind (int_of (F (timestamp t))) (\<lambda>stamp.
     rbind (notification_routes env db num (to_state t)) (\<lambda>routes.
     Inr (let n = \<lparr>en_initiating_device = env_device env, en_event_object = i, en_time_stamp = stamp,
        en_notification_class = num, en_priority = prio, en_event_type = event_type,
        en_notify_type = notify_type, en_to_state = to_state t, en_ack_required = ack,
        en_from_state = from_state t\<rparr> in map (Pair n) (filter (goes_out env n) routes))))))"

lemma announce_runs:
  "announce env i t event_type notify_type num e =
     (case announcement env (ee_db e) i t event_type notify_type num of
        Inl err \<Rightarrow> (Inl (Python err), e) | Inr sent \<Rightarrow> (Inr (), e\<lparr>ee_sent := ee_sent e @ sent\<rparr>))"
  by (cases "get_priority (ee_db e) num (to_state t)"; cases "get_ack_required (ee_db e) num (to_state t)";
      cases "int_of (F (timestamp t))"; cases "notification_routes env (ee_db e) num (to_state t)")
    (simp_all add: announce_def announcement_def route_notification_def run Let_def)

text \<open>What the dispatch for an object with intrinsic reporting does when nothing is raised.\<close>

lemma dispatch_runs:
  assumes "dispatch_intrinsic_notification env i ob t ty e = (Inr (), e')" "map_of (db_objects (ee_db e)) i = Some ob"
  shows "\<exists>sent ob'. announcement env (ee_db e) i t (OEnum ''EventType'' ty)
        (prop_or P_NOTIFY_TYPE (OEnum ''NotifyType'' 0) ob) (prop_or P_NOTIFICATION_CLASS (OInt 0) ob) = Inr sent
    \<and> update_event_timestamps t (set_prop P_EVENT_STATE (OEnum ''EventState'' (to_state t)) ob) = Inr ob'
    \<and> e' = e\<lparr>ee_sent := ee_sent e @ sent, ee_db := update_object i (\<lambda>x. ob')
        (update_object i (set_prop P_EVENT_STATE (OEnum ''EventState'' (to_state t))) (ee_db e))\<rparr>"
  using assms
  by (auto simp: dispatch_intrinsic_notification_def seq_runs announce_runs run stamp_object_def update_engine_object_def
      lookup_update proc_defs py_def split: sum.splits)

lemma reported_prop_inv:
  "object_inv ob \<Longrightarrow> pid \<in> {P_EVENT_STATE, P_EVENT_TIME_STAMPS} \<Longrightarrow> object_inv (set_prop pid v ob)"
  by (auto simp: object_inv_def slots_ok_def lock_shown_def winner_shown_def split: option.splits)

lemma stamp_frame:
  assumes "update_event_timestamps t ob = Inr ob'"
  shows "ob_class ob' = ob_class ob" "get_prop P_EVENT_STATE ob' = get_prop P_EVENT_STATE ob" "same_object ob ob'"
    "get_prop P_OBJECT_NAME ob' = get_prop P_OBJECT_NAME ob" "object_inv ob \<Longrightarrow> object_inv ob'"
  using assms by (auto simp: update_event_timestamps_def reported_prop_inv split: option.splits if_splits)

lemma num_eq_int: "num_eq (I a) (I b) \<longleftrightarrow> a = b"
  by (simp add: num_order num_nan_def num_key_def)

section \<open>One evaluation\<close>

text \<open>The state a machine starts an evaluation from: a machine that is normal takes Event_State over.\<close>

definition start_state :: "bac_object \<Rightarrow> int \<Rightarrow> int" where
  "start_state ob s = (case get_prop P_EVENT_STATE ob of
      OEnum c n \<Rightarrow> if c = ''EventState'' \<and> s = EV_NORMAL then n else s | _ \<Rightarrow> s)"

lemma machine_after_set [simp]:
  "machine_of i (set_machine i m e) = m" "ee_db (set_machine i m e) = ee_db e" "ee_sent (set_machine i m e) = ee_sent e"
  "set_machine i m (set_machine i m' e) = set_machine i m e"
  by (simp_all add: machine_of_def set_machine_def update_conv')

definition machine_moves ::
  "event_environment \<Rightarrow> object_identifier \<Rightarrow> bac_object \<Rightarrow> int \<Rightarrow> event_transition option \<Rightarrow> event_machine \<Rightarrow> event_engine
    \<Rightarrow> bool" where
  "machine_moves env i ob ty t m e \<longleftrightarrow>
     (let s = start_state ob (event_state (machine_of i e))
      in case t of None \<Rightarrow> event_state m = s
         | Some t \<Rightarrow> event_state m = to_state t \<and> to_state t \<noteq> s \<and> from_state t = s \<and> timestamp t = env_now env)"

lemma intrinsic_runs:
  assumes run_e: "evaluate_intrinsic env i ob ty e = (Inr (), e')"
    and on: "get_prop P_EVENT_DETECTION_ENABLE ob \<noteq> OBool False"
  shows "\<exists>t m. machine_moves env i ob ty t m e
    \<and> (case t of None \<Rightarrow> e' = set_machine i m e
       | Some t \<Rightarrow> dispatch_intrinsic_notification env i ob t ty (set_machine i m e) = (Inr (), e'))"
proof -
  let ?rest = "bind_p (read_p (\<lambda>e. db_read (ee_db e) i P_PRESENT_VALUE None)) (\<lambda>r.
         case r of Inl err \<Rightarrow> return_p ()
         | Inr pv \<Rightarrow>
             bind_p (read_p (\<lambda>e. run_intrinsic_algorithm (Some ty) pv ob (event_state (machine_of i e)))) (\<lambda>r.
             bind_p (lift_p (py r)) (\<lambda>result.
             bind_p (on_machine i (evaluate
                (unless_inhibited (get_prop P_EVENT_ALGORITHM_INHIBIT ob) (Some EV_NORMAL) result)
                (intrinsic_fault ob) (env_now env))) (\<lambda>t.
             case t of None \<Rightarrow> return_p ()
             | Some t \<Rightarrow> dispatch_intrinsic_notification env i ob t ty))))"
  obtain u m1 where sync: "sync_intrinsic_state_machine ob (machine_of i e) = (Inr u, m1)"
    and rest: "?rest (set_machine i m1 e) = (Inr (), e')"
    using run_e on by (auto simp: evaluate_intrinsic_def seq_runs on_machine_def py_def split: prod.splits sum.splits)
  have s1: "event_state m1 = start_state ob (event_state (machine_of i e))"
    using sync_runs [OF sync] by (simp add: start_state_def)
  show ?thesis
  proof (cases "db_read (ee_db e) i P_PRESENT_VALUE None")
    case (Inl err)
    then have "e' = set_machine i m1 e" using rest by (simp add: run)
    then show ?thesis using s1 by (intro exI [of _ None] exI [of _ m1]) (simp add: machine_moves_def)
  next
    case (Inr pv)
    then obtain r where r: "run_intrinsic_algorithm (Some ty) pv ob (event_state m1) = Inr r"
      using rest by (cases "run_intrinsic_algorithm (Some ty) pv ob (event_state m1)") (auto simp: run)
    let ?r = "unless_inhibited (get_prop P_EVENT_ALGORITHM_INHIBIT ob) (Some EV_NORMAL) r"
    obtain out m2 where ev: "evaluate ?r (intrinsic_fault ob) (env_now env) m1 = (out, m2)" by force
    then obtain t where t: "out = Inr t" using rest Inr r by (cases out) (auto simp: run bind_p_def on_machine_def)
    have "?r \<noteq> Some EV_FAULT" using intrinsic_not_fault [OF r] by (simp add: unless_inhibited_def)
    then have "machine_moves env i ob ty t m2 e"
      using evaluate_state [OF ev [unfolded t]] s1 by (auto simp: machine_moves_def split: option.splits)
    moreover have "case t of None \<Rightarrow> e' = set_machine i m2 e
       | Some t \<Rightarrow> dispatch_intrinsic_notification env i ob t ty (set_machine i m2 e) = (Inr (), e')"
      using rest Inr r ev t by (auto simp: run bind_p_def on_machine_def proc_defs split: option.splits)
    ultimately show ?thesis by blast
  qed
qed

section \<open>Event_State is the state of the machine\<close>

definition context_of :: "event_engine \<Rightarrow> object_identifier \<Rightarrow> event_machine option" where
  "context_of e i = map_of (ee_contexts e) (object_type i, instance_number i)"

definition reports :: "object_identifier \<Rightarrow> bac_object \<Rightarrow> bool" where
  "reports i ob \<longleftrightarrow> object_type i \<noteq> OT_EVENT_ENROLLMENT
     \<and> (case map_of (oc_definitions (ob_class ob)) P_EVENT_STATE of None \<Rightarrow> False | Some d \<Rightarrow> pd_access d = READ_ONLY)"

definition shown :: "event_machine option \<Rightarrow> object_identifier \<Rightarrow> bac_object \<Rightarrow> bool" where
  "shown c i ob \<longleftrightarrow> oc_algorithm (ob_class ob) = None \<or> reports i ob
     \<and> (\<exists>n. get_prop P_EVENT_STATE ob = OEnum ''EventState'' n \<and> (\<forall>m. c = Some m \<longrightarrow> event_state m = n))"

definition all_shown :: "(object_identifier \<Rightarrow> event_machine option) \<Rightarrow> object_db \<Rightarrow> bool" where
  "all_shown c db \<longleftrightarrow> (\<forall>i ob. map_of (db_objects db) i = Some ob \<longrightarrow> shown (c i) i ob)"

definition engine_inv :: "event_engine \<Rightarrow> bool" where
  "engine_inv e \<longleftrightarrow> db_inv (ee_db e) \<and> all_shown (context_of e) (ee_db e)"

lemma context_set: "context_of (set_machine i m e) = (context_of e)(i := Some m)"
proof -
  have "(object_type j, instance_number j) = (object_type i, instance_number i) \<longleftrightarrow> j = i" for j :: object_identifier
    by (cases i; cases j) auto
  then show ?thesis by (auto simp: context_of_def set_machine_def update_conv' fun_eq_iff)
qed

lemma context_fields [simp]:
  "context_of (e\<lparr>ee_db := db\<rparr>) = context_of e" "context_of (e\<lparr>ee_sent := sent\<rparr>) = context_of e"
  "context_of (e\<lparr>ee_sent := sent, ee_db := db\<rparr>) = context_of e"
  by (simp_all add: context_of_def fun_eq_iff)

lemma shown_update:
  assumes "all_shown c db" "\<And>ob. map_of (db_objects db) i = Some ob \<Longrightarrow> shown (c i) i ob \<Longrightarrow> shown (d i) i (f ob)"
    "\<And>j. j \<noteq> i \<Longrightarrow> d j = c j"
  shows "all_shown d (update_object i f db)"
  using assms unfolding all_shown_def lookup_update by (auto split: if_splits)

lemma machine_start:
  assumes "shown (context_of e i) i ob" "oc_algorithm (ob_class ob) \<noteq> None"
  shows "get_prop P_EVENT_STATE ob = OEnum ''EventState'' (start_state ob (event_state (machine_of i e)))"
  using assms
  by (auto simp: shown_def start_state_def machine_of_def context_of_def new_event_machine_def split: option.splits)

lemma intrinsic_inv:
  assumes inv: "engine_inv e" and ob: "map_of (db_objects (ee_db e)) i = Some ob" "oc_algorithm (ob_class ob) = Some ty"
    and go: "evaluate_intrinsic env i ob ty e = (Inr (), e')"
  shows "engine_inv e'"
proof (cases "get_prop P_EVENT_DETECTION_ENABLE ob = OBool False")
  case True
  then show ?thesis using go inv by (simp add: evaluate_intrinsic_def run)
next
  case False
  obtain t m where m: "machine_moves env i ob ty t m e"
    and e': "case t of None \<Rightarrow> e' = set_machine i m e
       | Some t \<Rightarrow> dispatch_intrinsic_notification env i ob t ty (set_machine i m e) = (Inr (), e')"
    using intrinsic_runs [OF go False] by blast
  have db: "db_inv (ee_db e)" and all: "all_shown (context_of e) (ee_db e)" using inv by (simp_all add: engine_inv_def)
  have sh: "shown (context_of e i) i ob" using all ob(1) by (simp add: all_shown_def)
  have start: "get_prop P_EVENT_STATE ob = OEnum ''EventState'' (start_state ob (event_state (machine_of i e)))"
    using machine_start [OF sh] ob(2) by simp
  have rep: "reports i ob" using sh ob(2) by (simp add: shown_def)
  show ?thesis
  proof (cases t)
    case None
    have "shown (Some m) i ob" using m rep start None by (simp add: shown_def machine_moves_def Let_def)
    then show ?thesis
      using e' None db all ob(1) by (auto simp: engine_inv_def context_set all_shown_def)
  next
    case (Some t')
    let ?f = "set_prop P_EVENT_STATE (OEnum ''EventState'' (to_state t'))"
    obtain sent ob' where ob': "update_event_timestamps t' (?f ob) = Inr ob'"
      and e': "e' = (set_machine i m e)\<lparr>ee_sent := ee_sent e @ sent, ee_db := update_object i (\<lambda>x. ob') (update_object i ?f (ee_db e))\<rparr>"
      using dispatch_runs [of env i ob t' ty "set_machine i m e" e'] e' Some ob(1) by auto
    have o': "object_inv ob'" "same_object ob ob'"
      using stamp_frame [OF ob'] object_found [OF db ob(1)] by (simp_all add: reported_prop_inv same_object_def)
    have "db_inv (update_object i ?f (ee_db e))"
      by (rule db_inv_update [OF db]) (use object_found [OF db ob(1)] ob in \<open>auto simp: reported_prop_inv\<close>)
    then have "db_inv (update_object i (\<lambda>x. ob') (update_object i ?f (ee_db e)))"
      by (rule db_inv_update) (use o' ob(1) in \<open>auto simp: lookup_update same_object_def\<close>)
    moreover have "shown (Some m) i ob'"
      using m rep Some stamp_frame(1,2) [OF ob'] by (simp add: shown_def machine_moves_def reports_def Let_def)
    then have "all_shown ((context_of e)(i := Some m)) (update_object i (\<lambda>x. ob') (update_object i ?f (ee_db e)))"
      using all by (auto simp: all_shown_def lookup_update)
    ultimately show ?thesis by (simp add: e' engine_inv_def context_set)
  qed
qed

section \<open>Enrollments\<close>

lemma enrollment_shown: "shown c i ob \<Longrightarrow> object_type i = OT_EVENT_ENROLLMENT \<Longrightarrow> shown c' i ob"
  by (auto simp: shown_def reports_def)

lemma keeps_stamp:
  assumes i: "object_type i = OT_EVENT_ENROLLMENT"
  shows "keeps engine_inv (stamp_object i t)"
  unfolding keeps_def
proof clarify
  fix e assume inv: "engine_inv e"
  show "engine_inv (snd (stamp_object i t e))"
  proof (cases "map_of (db_objects (ee_db e)) i")
    case None
    then show ?thesis using inv by (simp add: stamp_object_def run)
  next
    case (Some ob)
    have db: "db_inv (ee_db e)" and all: "all_shown (context_of e) (ee_db e)" using inv by (simp_all add: engine_inv_def)
    show ?thesis
    proof (cases "update_event_timestamps t ob")
      case (Inr ob')
      have "db_inv (update_object i (\<lambda>x. ob') (ee_db e))"
        by (rule db_inv_update [OF db]) (use stamp_frame [OF Inr] object_found [OF db Some] Some in auto)
      moreover have "all_shown (context_of e) (update_object i (\<lambda>x. ob') (ee_db e))"
        by (rule shown_update [OF all]) (use Some stamp_frame(1) [OF Inr] i in \<open>auto simp: shown_def reports_def\<close>)
      ultimately show ?thesis using Some Inr by (simp add: stamp_object_def run update_engine_object_def engine_inv_def)
    qed (use Some inv in \<open>simp add: stamp_object_def run\<close>)
  qed
qed

lemma keeps_machine:
  assumes i: "object_type i = OT_EVENT_ENROLLMENT"
  shows "keeps engine_inv (on_machine i p)"
  unfolding keeps_def
proof clarify
  fix e assume "engine_inv e"
  then have "engine_inv (set_machine i m e)" for m
    by (auto simp: engine_inv_def context_set all_shown_def intro: enrollment_shown [OF _ i])
  then show "engine_inv (snd (on_machine i p e))" by (simp add: on_machine_def split: prod.split)
qed

lemma keeps_announce: "keeps engine_inv (announce env i t event_type notify_type num)"
  by (simp add: keeps_def announce_runs engine_inv_def split: sum.split)

lemma enrollment_inv:
  assumes i: "object_type i = OT_EVENT_ENROLLMENT"
  shows "keeps engine_inv (evaluate_enrollment env i ob)"
  unfolding evaluate_enrollment_def dispatch_notification_def
  by (intro keeps_intros keeps_stamp keeps_machine keeps_announce i)

section \<open>Cycles\<close>

lemma each_p_returns:
  assumes "\<And>x s s'. P s \<Longrightarrow> f x s = (Inr (), s') \<Longrightarrow> P s'"
  shows "each_p f xs s = (Inr (), s') \<Longrightarrow> P s \<Longrightarrow> P s'"
proof (induction xs arbitrary: s)
  case (Cons a xs)
  obtain s1 where s1: "f a s = (Inr (), s1)" "each_p f xs s1 = (Inr (), s')"
    using Cons.prems(1) by (auto simp: seq_runs split: prod.splits sum.splits)
  show ?case using Cons.IH [OF s1(2)] assms [OF Cons.prems(2) s1(1)] by simp
qed (simp add: run)

lemma cycle_inv:
  assumes inv: "engine_inv e" and go: "evaluate_cycle env e = (Inr (), e')"
  shows "engine_inv e'"
proof -
  let ?ids = "get_objects_of_type OT_EVENT_ENROLLMENT (ee_db e)"
  let ?enr = "each_p (\<lambda>i. with_engine_object i (evaluate_enrollment env i)) ?ids"
  let ?int = "\<lambda>i. with_engine_object i (\<lambda>ob. case oc_algorithm (ob_class ob) of
          None \<Rightarrow> return_p () | Some ty \<Rightarrow> evaluate_intrinsic env i ob ty)"
  obtain e1 where e1: "?enr e = (Inr (), e1)" "each_p ?int (object_list (ee_db e)) e1 = (Inr (), e')"
    using go by (auto simp: evaluate_cycle_def seq_runs run split: prod.splits sum.splits)
  have "keeps engine_inv (each_p (\<lambda>i. with_engine_object i (evaluate_enrollment env i)) ids)"
    if "\<And>i. i \<in> set ids \<Longrightarrow> object_type i = OT_EVENT_ENROLLMENT" for ids
    using that
  proof (induction ids)
    case (Cons i ids)
    have "keeps engine_inv (evaluate_enrollment env i ob)" for ob by (rule enrollment_inv) (simp add: Cons.prems)
    then show ?case using Cons unfolding with_engine_object_def by (auto intro!: keeps_intros)
  qed (simp add: keeps_intros)
  moreover have "i \<in> set ?ids \<Longrightarrow> object_type i = OT_EVENT_ENROLLMENT" for i
    using inv by (auto simp: engine_inv_def db_inv_def indexed_def)
  ultimately have "keeps engine_inv ?enr" by blast
  from keepsD [OF this inv] have "engine_inv e1" using e1(1) by simp
  moreover have "engine_inv s'" if "engine_inv s" "?int i s = (Inr (), s')" for i s s'
    using that intrinsic_inv [of s i]
    by (auto simp: with_engine_object_def run split: option.splits)
  ultimately show ?thesis using each_p_returns [of engine_inv ?int, OF _ e1(2)] by blast
qed

section \<open>The database between cycles\<close>

datatype engine_event = Engine_cycle event_environment | Engine_db db_event

definition on_engine_db :: "'a db_proc \<Rightarrow> 'a engine_proc" where
  "on_engine_db p e = (case p (ee_db e) of (r, db) \<Rightarrow> (r, e\<lparr>ee_db := db\<rparr>))"

fun engine_event_proc :: "engine_event \<Rightarrow> unit engine_proc" where
  "engine_event_proc (Engine_cycle env) = evaluate_cycle env"
| "engine_event_proc (Engine_db ev) = on_engine_db (db_event_proc ev)"

text \<open>A cycle must return, and an object that is added must not meet the machine of an object that had its
  identifier before, in another state.\<close>

fun engine_event_ok :: "event_engine \<Rightarrow> engine_event \<Rightarrow> bool" where
  "engine_event_ok e (Engine_cycle env) \<longleftrightarrow> fst (evaluate_cycle env e) = Inr ()"
| "engine_event_ok e (Engine_db (Db_add ob)) \<longleftrightarrow> object_inv ob \<and> shown (context_of e (ob_id ob)) (ob_id ob) ob"
| "engine_event_ok e (Engine_db ev) \<longleftrightarrow> True"

lemma shown_frame:
  "shown c i ob \<Longrightarrow> ob_class ob' = ob_class ob \<Longrightarrow> get_prop P_EVENT_STATE ob' = get_prop P_EVENT_STATE ob \<Longrightarrow> shown c i ob'"
  by (simp add: shown_def reports_def)

lemma all_shown_fields:
  "db_objects db' = db_objects db \<Longrightarrow> all_shown c db' = all_shown c db"
  by (simp add: all_shown_def)

lemma shown_simps [simp]:
  "all_shown c (set_name v i db) = all_shown c db" "all_shown c (del_name v db) = all_shown c db"
  "all_shown c (db\<lparr>db_callbacks := cbs\<rparr>) = all_shown c db" "all_shown c (notify_change i pid change db) = all_shown c db"
  by (rule all_shown_fields; simp add: notify_change_def)+

lemma shown_update_same:
  assumes "all_shown c db"
    "\<And>ob. map_of (db_objects db) i = Some ob \<Longrightarrow> ob_class (f ob) = ob_class ob \<and> get_prop P_EVENT_STATE (f ob) = get_prop P_EVENT_STATE ob"
  shows "all_shown c (update_object i f db)"
  using assms by (intro shown_update [OF assms(1)]) (auto intro: shown_frame)

lemma keeps_shown_revision: "keeps (all_shown c) increment_database_revision"
  unfolding increment_database_revision_def by (intro keeps_intros shown_update_same) auto

definition shown_but :: "(object_identifier \<Rightarrow> event_machine option) \<Rightarrow> object_identifier \<Rightarrow> int \<Rightarrow> object_db \<Rightarrow> bool" where
  "shown_but c i pid db \<longleftrightarrow> all_shown c db
     \<and> (pid = P_EVENT_STATE \<longrightarrow> (\<forall>ob. map_of (db_objects db) i = Some ob \<longrightarrow> oc_algorithm (ob_class ob) = None))"

lemma shown_but_update:
  assumes "shown_but c i pid db" "\<And>ob. map_of (db_objects db) j = Some ob \<Longrightarrow> ob_class (f ob) = ob_class ob"
    "\<And>ob. map_of (db_objects db) j = Some ob \<Longrightarrow> pid \<noteq> P_EVENT_STATE \<or> j \<noteq> i \<Longrightarrow> get_prop P_EVENT_STATE (f ob) = get_prop P_EVENT_STATE ob"
  shows "shown_but c i pid (update_object j f db)"
proof -
  have "all_shown c (update_object j f db)"
  proof (rule shown_update)
    fix ob assume ob: "map_of (db_objects db) j = Some ob" "shown (c j) j ob"
    show "shown (c j) j (f ob)"
      using assms ob by (cases "pid \<noteq> P_EVENT_STATE \<or> j \<noteq> i") (auto simp: shown_but_def shown_def reports_def)
  qed (use assms(1) in \<open>simp_all add: shown_but_def\<close>)
  then show ?thesis using assms(1,2) by (auto simp: shown_but_def lookup_update)
qed

lemma write_shown:
  assumes inv: "db_inv db" and all: "all_shown c db"
  shows "all_shown c (snd (db_write now i pid v priority idx db))"
proof (cases "map_of (db_objects db) i")
  case None
  then show ?thesis using assms by (simp add: db_write_runs)
next
  case (Some ob)
  show ?thesis
  proof (cases "rbind (class_guard ob pid v) (\<lambda>u. write_access ob pid)")
    case (Inl e)
    then show ?thesis using assms Some by (simp add: db_write_runs)
  next
    case (Inr d)
    have "oc_algorithm (ob_class ob) = None" if "pid = P_EVENT_STATE"
      using Inr all Some that
      by (auto simp: all_shown_def shown_def reports_def write_access_def split: option.splits if_splits)
    then have start: "shown_but c i pid db" using all Some by (auto simp: shown_but_def)
    let ?rest = "seq_p (rename_checks i pid v) (bind_p (on_object i (store_step now d pid v priority idx)) (\<lambda>change.
             case change of None \<Rightarrow> return_p () | Some c \<Rightarrow> write_p (notify_change i pid c)))"
    have "keeps (shown_but c i pid) (rename_checks i pid v)"
      unfolding rename_checks_def update_name_index_def increment_database_revision_def
      by (intro keeps_intros shown_but_update) (auto simp: shown_but_def split: option.splits)
    moreover have "keeps (shown_but c i pid) (on_object i (store_step now d pid v priority idx))"
    proof (rule keeps_on_object)
      fix db' ob' assume "shown_but c i pid db'" "map_of (db_objects db') i = Some ob'"
      then show "shown_but c i pid (update_object i (\<lambda>_. snd (store_step now d pid v priority idx ob')) db')"
        using keepsD [OF keeps_same_store, of ob' ob' now d pid v priority idx]
          keepsD [OF keeps_other_store [of pid P_EVENT_STATE "get_prop P_EVENT_STATE ob'"], of ob' now d v priority idx]
        by (intro shown_but_update) (auto simp: store_step_state same_object_def written_by_commands_def)
    qed
    moreover have "shown_but c i pid db' \<Longrightarrow> shown_but c i pid (notify_change i pid change db')" for db' change
      by (simp add: shown_but_def notify_change_def all_shown_def)
    ultimately have "keeps (shown_but c i pid) ?rest" by (intro keeps_intros)
    from keepsD [OF this start] show ?thesis using inv Some Inr by (simp add: db_write_runs shown_but_def)
  qed
qed

lemma insert_shown:
  assumes "all_shown c db" "shown (c (ob_id ob)) (ob_id ob) ob"
  shows "all_shown c (insert_object ob db)"
proof -
  have "db_objects (insert_object ob db) = db_objects db @ [(ob_id ob, ob\<lparr>ob_in_db := True\<rparr>)]"
    by (simp add: insert_object_def Let_def)
  moreover have "shown (c (ob_id ob)) (ob_id ob) (ob\<lparr>ob_in_db := True\<rparr>)"
    using assms(2) by (rule shown_frame) (simp_all add: get_prop_def)
  ultimately show ?thesis
    using assms(1) by (auto simp: all_shown_def map_add_Some_iff split: if_splits)
qed

lemma delete_shown:
  assumes "all_shown c db"
  shows "all_shown c (delete_object i ob db)"
proof -
  have "map_of (filter (\<lambda>(j, ob). j \<noteq> i) xs) j = (if j = i then None else map_of xs j)"
    for xs :: "(object_identifier \<times> bac_object) list" and j by (induction xs) auto
  moreover have "db_objects (delete_object i ob db) = filter (\<lambda>(j, ob). j \<noteq> i) (db_objects db)"
    by (simp add: delete_object_def Let_def)
  ultimately show ?thesis using assms by (simp add: all_shown_def)
qed

lemma register_shown:
  "keeps (all_shown c) (register_change_callback i pid cb)" "keeps (all_shown c) (unregister_change_callback i pid cb)"
proof -
  have "all_shown c (update_object i (\<lambda>ob. ob\<lparr>ob_notifies := True\<rparr>) (db\<lparr>db_callbacks := cbs\<rparr>))" if "all_shown c db" for db cbs
    using that by (intro shown_update_same) (simp_all add: get_prop_def)
  then show "keeps (all_shown c) (register_change_callback i pid cb)"
    unfolding register_change_callback_def by (intro keeps_intros) simp_all
  show "keeps (all_shown c) (unregister_change_callback i pid cb)"
    unfolding unregister_change_callback_def Let_def by (intro keeps_intros) (simp split: option.split)
qed

lemma db_event_shown:
  assumes "db_inv db" "all_shown c db"
    and "\<And>ob. ev = Db_add ob \<Longrightarrow> shown (c (ob_id ob)) (ob_id ob) ob"
  shows "all_shown c (snd (db_event_proc ev db))"
proof (cases ev)
  case (Db_add ob)
  then show ?thesis
    using assms(2) keepsD [OF keeps_shown_revision insert_shown [OF assms(2) assms(3)], of ob]
    by (simp add: db_add_runs split: sum.split option.split)
next
  case (Db_remove i)
  then show ?thesis
    using assms(2) keepsD [OF keeps_shown_revision delete_shown [OF assms(2)]]
    by (simp add: db_remove_runs split: option.split)
qed (use assms(2) write_shown [OF assms(1,2)] keepsD [OF register_shown(1) assms(2)] keepsD [OF register_shown(2) assms(2)]
  in simp_all)

interpretation engine_machine: event_system engine_event_ok engine_event_proc engine_inv
proof
  fix e ev assume inv: "engine_inv e" and ok: "engine_event_ok e ev"
  show "engine_inv (snd (engine_event_proc ev e))"
  proof (cases ev)
    case (Engine_cycle env)
    then have "evaluate_cycle env e = (Inr (), snd (evaluate_cycle env e))" using ok by (simp add: prod_eq_iff)
    from cycle_inv [OF inv this] show ?thesis using Engine_cycle by simp
  next
    case (Engine_db dev)
    have db: "db_inv (ee_db e)" "all_shown (context_of e) (ee_db e)" using inv by (simp_all add: engine_inv_def)
    have "db_event_ok (ee_db e) dev" using ok Engine_db by (cases dev) simp_all
    then have "db_inv (snd (db_event_proc dev (ee_db e)))" using db_machine.step_keeps db(1) by blast
    moreover have "all_shown (context_of e) (snd (db_event_proc dev (ee_db e)))"
      by (rule db_event_shown [OF db]) (use ok Engine_db in simp)
    ultimately show ?thesis
      using Engine_db by (cases "db_event_proc dev (ee_db e)") (simp add: on_engine_db_def engine_inv_def)
  qed
qed

end
