(* ===== verification/Spec2Isabelle.thy ===== *)
theory Spec2Isabelle
  imports Primitive_Laws Npdu_Laws Network_Faults Router_Forwarding Bbmd_Forwarding Object_Db_Laws Event_Engine_Laws
begin

text \<open>
  This library models bac-py, an asynchronous BACnet stack in Python (ASHRAE 135), and proves what its
  parts promise.  Paths are relative to \<open>src/bac_py\<close>.

  The program.  A datagram comes in through a transport (\<open>transport/\<close>), is taken out of its BVLL frame,
  decoded as an NPDU and routed (\<open>network/\<close>), decoded as an APDU and given to the client or the server
  transaction machine (\<open>app/application.py\<close>, \<open>app/tsm.py\<close>), which put segments together
  (\<open>segmentation/manager.py\<close>).  A complete confirmed request goes to a handler that works on the object
  database (\<open>objects/\<close>); the event engine (\<open>app/event_engine.py\<close>) looks at the same objects in cycles.
  All of it is one thread: a callback, a timer and the part of a coroutine between two awaits run
  undisturbed, and are the steps of the models here.

  How Python is modelled.  \<open>Prelude\<close>: a result is \<open>Inl\<close> an exception or \<open>Inr\<close> a value, \<open>rbind\<close> sequences
  results, octets are 8-bit words and slices and indexing behave as in Python.  \<open>Procs\<close>: a procedure takes
  a state and gives a result and a state, so that an exception keeps what was changed before it; \<open>keeps I m\<close>
  says that a procedure maintains \<open>I\<close> whether it returns or raises, and the locale \<open>event_system\<close> carries
  an invariant along all \<open>reachable\<close> sequences of steps.  It is interpreted on the client
  transaction machine, the application, the router, the BBMD, an object, the database and the event engine.
  \<open>Errors\<close>: the exceptions of \<open>services/errors.py\<close> beside Python's own.  Integers are unbounded as in
  Python; floats are their 64 bits (\<open>Float_Bits\<close>, \<open>Numbers\<close>); strings are lists of code points
  (\<open>Charset\<close>).  A clock is an argument or a field; what is sent, broadcast, called back or logged is
  appended to a list in the state.  In the transaction machines and the application the network is that list
  and a function that says what \<open>send\<close> raises, if anything.

  Codecs.
  \<^item> \<open>Tags\<close>, \<open>Tag_Scan\<close> model \<open>encoding/tags.py\<close>: tag headers and the scanner for constructed values with
    its nesting limit.
  \<^item> \<open>Bacnet_Types\<close>, \<open>Primitives\<close>, \<open>Primitive_Laws\<close> model \<open>types/primitives.py\<close> and the primitive part of
    \<open>encoding/primitives.py\<close>; the locale \<open>app_codec\<close> states what an application-tagged encoder promises
    and is interpreted on each of them.
  \<^item> \<open>Apdu\<close>, \<open>Apdu_Laws\<close> model \<open>encoding/apdu.py\<close>; \<open>Npdu\<close>, \<open>Npdu_Laws\<close> model \<open>network/npdu.py\<close> and
    \<open>network/address.py\<close>; \<open>Net_Messages\<close>, \<open>Net_Message_Laws\<close> model \<open>network/messages.py\<close>; \<open>Bvll\<close>,
    \<open>Bvll_Laws\<close> model \<open>transport/bvll.py\<close>.  \<open>Codec\<close> holds the locales of codecs and of tables of
    fixed-width entries.
  The theorems are round trips and the errors a decoder can raise.

  Segmentation and transactions.
  \<^item> \<open>Segmentation\<close>, \<open>Segmentation_Laws\<close> model \<open>segmentation/manager.py\<close>: windows, the sender and the
    receiver.  An invariant ties the receiver's window to the segments of one payload; a lossless transfer
    delivers the payload, and no transfer delivers another one.
  \<^item> \<open>Client_Tsm\<close>, \<open>Client_Tsm_Laws\<close> and \<open>Server_Tsm\<close>, \<open>Server_Tsm_Laws\<close> model the two classes of
    \<open>app/tsm.py\<close>.  Timers are entries of the state that an event may fire; the coroutine \<open>send_request\<close> is
    cut at its await.  The server's transactions are objects in a store, because running handlers keep
    references to them.
  \<^item> \<open>Application\<close>, \<open>Application_Laws\<close> model the receive path of \<open>app/application.py\<close>: decoding, the spawned
    tasks, the handlers that are awaited, temporary listeners.  What a service handler returns or raises comes
    with the event that ends it.
  \<^item> \<open>Network_Faults\<close> compares a run of the receive path with the run on a network that takes everything:
    what the receive path raises is what a send raised.

  Network.
  \<^item> \<open>Router\<close>, \<open>Router_Laws\<close>, \<open>Router_Forwarding\<close> model \<open>network/router.py\<close>: the routing table with its
    invariant, forwarding, the network messages, and that a broadcast dies out whatever the topology.
  \<^item> \<open>Bbmd\<close>, \<open>Bbmd_Laws\<close>, \<open>Bbmd_Forwarding\<close> model \<open>transport/bbmd.py\<close>: the tables with their invariant,
    registrations that expire by the float clock, distribution of broadcasts, and the way of a broadcast through two BBMDs.

  Objects.
  \<^item> \<open>Enums\<close> holds the numbers of \<open>types/enums.py\<close> the code names and which numbers each enumeration has.
    \<open>Values\<close> is the datatype of the Python values that properties hold, with \<open>==\<close>, truth and conversion.
  \<^item> \<open>Objects\<close> models \<open>objects/base.py\<close> with the class hooks of \<open>analog.py\<close>, \<open>multistate.py\<close> and
    \<open>binary.py\<close>: reading, writing, the priority array, minimum on and off times.  \<open>Object_Types\<close> holds the
    property tables and constructors of the 60 registered classes.
  \<^item> \<open>Object_Laws\<close> has the invariant of an object, \<open>Object_Commands\<close> the refinement of the priority array by
    the list of commands, \<open>Object_Typing\<close> the types of property values.
  \<^item> \<open>Object_Db\<close>, \<open>Object_Db_Laws\<close> model \<open>ObjectDatabase\<close>: the indexes by name and by type, the database
    revision and the change callbacks, over any sequence of additions, removals, writes and registrations.

  Events.
  \<^item> \<open>Event_Machine\<close>, \<open>Event_Machine_Laws\<close> model \<open>EventStateMachine\<close> and the event and fault algorithms.  The
    machine is proved equal to a reference that keeps no timer but looks back at its samples.
  \<^item> \<open>Event_Engine\<close>, \<open>Event_Engine_Laws\<close> model the evaluation cycle over the database and the routing of
    notifications.  Event_State in the database is the state of the machine, and each change of it is
    announced.  Whether a notification can be encoded and the network takes it are parameters of a cycle.

  This theory holds the properties and, with each, a witness that applies it to a concrete input.

  Bounds.  No loop of the model is cut by fuel: recursion is on the data, on the octets left, or on the
  counter the code itself keeps (10000 decoded values, 32 levels of nesting, 256 invoke identifiers).
  A network in \<open>Router_Forwarding\<close> has any number of routers; the measure of a message is its hop count.

  Not modelled.  Sockets, websockets, TLS, raw Ethernet and the event loop itself (\<open>transport/bip.py\<close>,
  \<open>transport/sc/\<close>, \<open>transport/ethernet.py\<close>) are I/O around codecs; the BACnet/IPv6 and BACnet/SC frame
  codecs repeat the pattern of \<open>Bvll\<close> and are left for later.  The service codecs (\<open>services/\<close>) and the
  handlers of \<open>app/server.py\<close> are not modelled; \<open>Application\<close> takes what they return as given.  The client API (\<open>client.py\<close>,
  \<open>app/client.py\<close>) is glue over the transaction machine and the service codecs.  The schedule, trend and
  audit engines need calendar arithmetic and log buffers that are not modelled.  Parsing of user input,
  JSON and CSV export and the conformance statements produce text for people.  The Japanese character sets
  of Python are a parameter.
\<close>

section \<open>Tags and constructed values\<close>

text \<open>A tag header with number 0 to 254 and a length of at most 1 MiB survives the round
  trip at any position of a buffer, and the decoder stops right behind it.\<close>

theorem tag_roundtrip:
  assumes "0 \<le> n" "n \<le> 254" "0 \<le> len" "len \<le> 1048576"
  shows "\<exists>bs. encode_tag n c len = Inr bs \<and>
    decode_tag (p @ bs @ s) (length p) =
      Inr (\<lparr>number = n, cls = c, tag_length = len, is_opening = False, is_closing = False\<rparr>,
           length p + length bs)"
  using assms decode_tag_octets [of n len p c s] by (simp add: encode_tag_eq)

theorem tag_roundtrip_witness:
  "\<exists>bs. encode_tag 200 CONTEXT 70000 = Inr bs \<and>
    decode_tag ([1] @ bs @ [3]) 1 =
      Inr (\<lparr>number = 200, cls = CONTEXT, tag_length = 70000, is_opening = False,
            is_closing = False\<rparr>, 1 + length bs)"
  using tag_roundtrip [of 200 70000 CONTEXT "[1]" "[3]"] by simp

text \<open>Whatever the buffer holds, a decoded tag header lies inside it, takes one to seven
  octets, has a number up to 255 and a length up to 1 MiB, and an opening or closing tag is
  context specific, empty and not both.\<close>

theorem decoded_tag_bounded:
  assumes "decode_tag buf off = Inr (t, off')"
  shows "off < off' \<and> off' \<le> length buf \<and> off' \<le> off + 7
    \<and> 0 \<le> number t \<and> number t \<le> 255 \<and> 0 \<le> tag_length t \<and> tag_length t \<le> 1048576
    \<and> \<not> (is_opening t \<and> is_closing t)
    \<and> (is_opening t \<or> is_closing t \<longrightarrow> cls t = CONTEXT \<and> tag_length t = 0)"
  using assms by (rule decode_tag_bounds)

theorem decoded_tag_bounded_witness:
  "decode_tag [0xF9, 20] 0 = Inr (\<lparr>number = 20, cls = CONTEXT, tag_length = 1,
      is_opening = False, is_closing = False\<rparr>, 2) \<and> (0 :: nat) < 2 \<and> 2 \<le> length [0xF9, 20 :: byte]"
proof -
  have d: "decode_tag [0xF9, 20] 0 = Inr (\<lparr>number = 20, cls = CONTEXT, tag_length = 1,
      is_opening = False, is_closing = False\<rparr>, 2)"
    by code_simp
  from decoded_tag_bounded [OF d] d show ?thesis by simp
qed

text \<open>The scanner returns the octets between an opening tag and its closing tag: for any
  list of well-formed elements nested at most 31 levels deep, written with the library's own
  tag encoders and followed by the closing tag, it gives back exactly those octets and the
  offset behind the closing tag.\<close>

theorem constructed_value_extracted:
  assumes "list_all wf_element es" "\<forall>e\<in>set es. nesting e \<le> 31"
    "concat_results (map encode_element es) = Inr body"
    "0 \<le> n" "n \<le> 254" "encode_closing_tag n = Inr cl"
  shows "extract_context_value (p @ body @ cl @ s) (length p) n =
    Inr (body, length p + length body + length cl)"
  using assms by (rule extract_context_value_elements)

theorem constructed_value_extracted_witness:
  "extract_context_value ([0x3E] @ [0x2E, 0x09, 7, 0x2F, 0x11] @ [0x3F] @ [9]) 1 3 =
    Inr ([0x2E, 0x09, 7, 0x2F, 0x11], 7)"
  using constructed_value_extracted
    [of "[Constructed 2 [DataElem CONTEXT 0 [7]], BoolElem True]" "[0x2E, 0x09, 7, 0x2F, 0x11]"
      3 "[0x3F]" "[0x3E]" "[9]"]
  by (simp add: encode_tag_eq tag_octets_def hdr_def encode_opening_tag_eq encode_closing_tag_eq
      mark_octets_def)

text \<open>On any octets at all, what the scanner returns ends at a closing tag that carries
  the requested tag number; a mismatched pair is never returned as a value.\<close>

theorem extracted_value_is_delimited:
  assumes "extract_context_value data off n = Inr (v, off')"
  shows "\<exists>e t. off \<le> e \<and> v = py_slice data off e \<and> decode_tag data e = Inr (t, off')
    \<and> is_closing t \<and> number t = n"
  using assms extract_loop_result [of data off n off 1 v off'] by (simp add: extract_context_value_def)

theorem extracted_value_is_delimited_witness:
  "\<exists>e t. [0x21, 5] = py_slice [0x21, 5, 0x1F :: byte] 0 e \<and> decode_tag [0x21, 5, 0x1F] e = Inr (t, 3)
    \<and> is_closing t \<and> number t = 1"
proof -
  have d: "extract_context_value [0x21, 5, 0x1F] 0 1 = Inr ([0x21, 5], 3)" by code_simp
  from extracted_value_is_delimited [OF d] show ?thesis by blast
qed

text \<open>The nesting limit holds: 32 opening tags behind the one already read make the
  scanner raise ValueError, whatever their number and whatever follows.\<close>

theorem nesting_limit_enforced:
  assumes "0 \<le> k" "k \<le> 254" "encode_opening_tag k = Inr o'"
  shows "extract_context_value (p @ concat (replicate 32 o') @ s) (length p) n = Inl ValueError"
  using assms extract_loop_too_deep [of k 1 p "length p" s "length p" n]
  by (simp add: extract_context_value_def encode_opening_tag_eq)

theorem nesting_limit_enforced_witness:
  "extract_context_value ([] @ concat (replicate 32 [0x1E]) @ []) (length ([] :: bytes)) 1 = Inl ValueError"
  by (rule nesting_limit_enforced [of 1]) (simp_all add: encode_opening_tag_eq mark_octets_def hdr_def)

section \<open>Primitive values\<close>

text \<open>C40: A list of at most 10000 valid application-tagged values, encoded one after another,
  decodes to the list of the same values: the tags, lengths and contents of all thirteen primitive
  types agree between encoder and decoder.  A Real is a single on the wire; the claim is about Reals that
  binary32 represents exactly (zeros, infinities, normal and subnormal singles) and leaves out the others,
  which are rounded, and NaNs.  Valid values are those in the range of their encoder: 32-bit integers,
  octet strings up to 1 MiB, text of the character sets, dates and times of octets, object identifiers of
  10 and 22 bits.\<close>

theorem application_values_roundtrip:
  assumes "\<forall>v\<in>set vs. valid_app v \<and> exact_app v" "length vs \<le> MAX_DECODED_VALUES"
  shows "\<exists>bs. concat_results (map encode_app_value vs) = Inr bs \<and>
    decode_all_application_values jp bs = Inr (map value_of vs)"
proof -
  have valid: "\<forall>v\<in>set vs. valid_app v" using assms(1) by blast
  obtain bs where bs: "concat_results (map encode_app_value vs) = Inr bs"
    using concat_results_total [of vs encode_app_value] app_value_total valid by blast
  from app_values_elements [OF valid bs]
  obtain bss where "bs = concat bss" "list_all2 (element_for jp) bss (map decoded vs)" by blast
  moreover have same: "map decoded vs = map value_of vs" using assms(1) by (simp add: decoded_exact)
  ultimately have "decode_all_loop jp bs 0 [] = Inr (map value_of vs)"
    using assms(2) decode_all_stream [of jp bss "map value_of vs" "[]" "[]"] by simp
  with bs show ?thesis by (simp add: decode_all_application_values_def)
qed

theorem application_values_roundtrip_witness:
  "\<exists>bs. concat_results (map encode_app_value
      [ANull, ABool True, AReal 0x3FF8000000000000, ASigned (-5), AObjectId \<lparr>object_type = 8, instance_number = 99\<rparr>])
      = Inr bs \<and>
    decode_all_application_values (\<lambda>_. Inl ValueError) bs =
      Inr [VNone, VBool True, VFloat 0x3FF8000000000000, VInt (-5), VOid \<lparr>object_type = 8, instance_number = 99\<rparr>]"
proof -
  have "exact_single 0x3FF8000000000000" "valid_app (AReal 0x3FF8000000000000)" by code_simp+
  then show ?thesis
    using application_values_roundtrip [of "[ANull, ABool True, AReal 0x3FF8000000000000, ASigned (-5),
      AObjectId \<lparr>object_type = 8, instance_number = 99\<rparr>]" "\<lambda>_. Inl ValueError"]
    by (simp add: valid_oid_def MAX_DECODED_VALUES_def del: valid_app.simps(3))
qed

text \<open>A stream of more than 10000 values is refused with ValueError.\<close>

theorem decoded_values_capped:
  assumes "\<forall>v\<in>set vs. valid_app v" "MAX_DECODED_VALUES < length vs"
    "concat_results (map encode_app_value vs) = Inr bs"
  shows "decode_all_application_values jp bs = Inl ValueError"
proof -
  from app_values_elements [OF assms(1,3)]
  obtain bss where "bs = concat bss" "list_all2 (element_for jp) bss (map decoded vs)" by blast
  with assms(2) decode_all_stream [of jp bss "map decoded vs" "[]" "[]"] show ?thesis
    by (simp add: decode_all_application_values_def)
qed

theorem decoded_values_capped_witness:
  "decode_all_application_values (\<lambda>_. Inl ValueError) (replicate 10001 0) = Inl ValueError"
proof (rule decoded_values_capped [of "replicate 10001 ANull"])
  have "encode_application_null = Inr [0]" by code_simp
  then have "concat_results (map encode_app_value (replicate k ANull)) = Inr (replicate k 0)" for k
    by (induction k) simp_all
  then show "concat_results (map encode_app_value (replicate 10001 ANull)) = Inr (replicate 10001 0)" .
qed (simp_all add: MAX_DECODED_VALUES_def)

text \<open>\<open>encode_unsigned\<close> accepts exactly the 32-bit range, decodes back, and writes the
  fewest octets: no shorter big-endian octet string has that value.\<close>

theorem unsigned_minimal:
  "case encode_unsigned v of
     Inl e \<Rightarrow> e = ValueError \<and> \<not> (0 \<le> v \<and> v < 2 ^ 32)
   | Inr bs \<Rightarrow> 0 \<le> v \<and> v < 2 ^ 32 \<and> decode_unsigned bs = v \<and>
       (\<forall>cs. cs \<noteq> [] \<and> decode_unsigned cs = v \<longrightarrow> length bs \<le> length cs)"
proof (cases "0 \<le> v \<and> v < 2 ^ 32")
  case False
  then show ?thesis by (auto simp: encode_unsigned_eq)
next
  case True
  then obtain b where b: "encode_unsigned v = Inr b" "int_from_bytes b = v" "1 \<le> length b"
    "length b = 1 \<or> 256 ^ (length b - 1) \<le> v"
    using unsigned_octets by blast
  have "length b \<le> length cs" if "cs \<noteq> []" "int_from_bytes cs = v" for cs
    using no_shorter_octets [of cs "length b"] b that by simp
  with b True show ?thesis by (auto simp: decode_unsigned_def)
qed

theorem unsigned_minimal_witness:
  "encode_unsigned 256 = Inr [1, 0] \<and> decode_unsigned [1, 0] = 256 \<and>
    length [1, 0 :: byte] \<le> length [0, 1, 0 :: byte]"
proof -
  have e: "encode_unsigned 256 = Inr [1, 0]" by code_simp
  moreover have "decode_unsigned [0, 1, 0] = 256" by code_simp
  ultimately show ?thesis using unsigned_minimal [of 256] by simp
qed

text \<open>\<open>encode_signed\<close> accepts exactly the 32-bit two's complement range, decodes back, and
  uses the least number of octets whose range contains the value.\<close>

theorem signed_minimal:
  "case encode_signed v of
     Inl e \<Rightarrow> e = ValueError \<and> \<not> (- (2 ^ 31) \<le> v \<and> v < 2 ^ 31)
   | Inr bs \<Rightarrow> - (2 ^ 31) \<le> v \<and> v < 2 ^ 31 \<and> decode_signed bs = v \<and>
       (\<forall>k. 0 < k \<and> - (2 ^ (8 * k - 1)) \<le> v \<and> v < 2 ^ (8 * k - 1) \<longrightarrow> length bs \<le> k)"
proof (cases "- (2 ^ 31) \<le> v \<and> v < 2 ^ 31")
  case False
  then show ?thesis by (auto simp: encode_signed_def)
next
  case True
  then obtain b where b: "encode_signed v = Inr b" "decode_signed b = v"
    using signed_octets by blast
  then have "length b = min_signed_bytes v"
    by (auto simp: encode_signed_def int_to_bytes_signed_def split: if_splits dest: arg_cong [where f = length])
  with b True min_signed_bytes_least show ?thesis by auto
qed

theorem signed_minimal_witness:
  "encode_signed (-129) = Inr [0xFF, 0x7F] \<and> decode_signed [0xFF, 0x7F] = -129 \<and>
    length [0xFF, 0x7F :: byte] \<le> 3"
proof -
  have e: "encode_signed (-129) = Inr [0xFF, 0x7F]" by code_simp
  from signed_minimal [of "-129"] e show ?thesis by simp
qed

text \<open>Reading a 4-octet REAL and writing it again gives the same octets for every pattern
  that is not a NaN: zeros, subnormals, normals and infinities pass through the 64-bit float of
  Python without loss.\<close>

theorem real_octets_roundtrip:
  assumes "length bs = 4" "\<not> f32_nan (int_from_bytes bs)"
  shows "\<exists>x. decode_real bs = Inr x \<and> encode_real x = Inr bs"
  using assms pack_unpack_f [of bs] by (simp add: decode_real_def encode_real_def)

theorem real_octets_roundtrip_witness:
  "\<exists>x. decode_real [0x80, 0, 0, 1] = Inr x \<and> encode_real x = Inr [0x80, 0, 0, 1]"
  by (rule real_octets_roundtrip)
    (simp_all add: f32_nan_def f32_parts_def int_from_bytes_def)

text \<open>A text without surrogates is encoded by each of the four Unicode and Latin-1
  character sets the decoder knows to octets that decode to that text.\<close>

theorem character_string_roundtrip:
  assumes "\<forall>c\<in>set s. code_point c" "cs \<in> {0, 3, 4, 5}"
    "encode_character_string jpe s cs = Inr bs"
  shows "decode_character_string jp bs = Inr s"
  using assms utf8.dec_enc [of s] utf16.dec_enc [of s] utf32.dec_enc [of s] latin1.dec_enc [of s]
  by (auto simp: encode_character_string_def decode_character_string_def)

theorem character_string_roundtrip_witness:
  "encode_character_string (\<lambda>_. Inl ValueError) [0x1F600, 65] 4 = Inr [4, 0xD8, 0x3D, 0xDE, 0, 0, 65] \<and>
   decode_character_string (\<lambda>_. Inl ValueError) [4, 0xD8, 0x3D, 0xDE, 0, 0, 65] = Inr [0x1F600, 65]"
proof -
  have e: "encode_character_string (\<lambda>_. Inl ValueError) [0x1F600, 65] 4
      = Inr [4, 0xD8, 0x3D, 0xDE, 0, 0, 65]" by code_simp
  have c: "\<forall>c\<in>set [0x1F600, 65]. code_point c" by (simp add: code_point_def)
  from character_string_roundtrip [OF c _ e, of "\<lambda>_. Inl ValueError"] e show ?thesis by simp
qed

text \<open>Object identifiers and their 4 octets correspond one to one: every 4-octet string
  decodes to an identifier in range that encodes to it, and every identifier in range survives
  the round trip.\<close>

theorem object_identifier_bijection:
  "(length bs = 4 \<longrightarrow> (\<exists>oid. oid_decode bs = Inr oid \<and> valid_oid oid \<and> oid_encode oid = Inr bs))
   \<and> (valid_oid v \<longrightarrow> (\<exists>cs. oid_encode v = Inr cs \<and> length cs = 4 \<and> oid_decode cs = Inr v))"
  using oid_encode_decode [of bs] oid_decode_encode [of v _ "[]"] oid_encode_eq [of v] by auto

theorem object_identifier_bijection_witness:
  "(\<exists>oid. oid_decode [2, 0, 0, 7] = Inr oid \<and> oid_encode oid = Inr [2, 0, 0, 7]) \<and>
   (\<exists>cs. oid_encode \<lparr>object_type = 1023, instance_number = 4194303\<rparr> = Inr cs \<and>
      oid_decode cs = Inr \<lparr>object_type = 1023, instance_number = 4194303\<rparr>)"
  using object_identifier_bijection
    [of "[2, 0, 0, 7]" "\<lparr>object_type = 1023, instance_number = 4194303\<rparr>"]
  by (auto simp: valid_oid_def)

text \<open>Dates: the encoder accepts the year 2155, as its range check says, but writes the
  octet that means "unspecified", so that year and only that year does not decode to itself.\<close>

theorem date_roundtrip_except_2155:
  assumes "encode_date d = Inr bs"
  shows "length bs = 4 \<and>
    decode_date bs = Inr (d\<lparr>year := (if year d = 2155 then 0xFF else year d)\<rparr>)"
  using assms
  by (cases d)
    (auto simp: encode_date_def decode_date_eq mk_bytes_Inr_iff nth_append split: if_splits)

theorem date_roundtrip_except_2155_witness:
  "encode_date \<lparr>year = 2155, month = 12, day = 31, day_of_week = 255\<rparr> = Inr [0xFF, 12, 31, 0xFF] \<and>
   decode_date [0xFF, 12, 31, 0xFF] = Inr \<lparr>year = 0xFF, month = 12, day = 31, day_of_week = 255\<rparr>"
proof -
  have e: "encode_date \<lparr>year = 2155, month = 12, day = 31, day_of_week = 255\<rparr> = Inr [0xFF, 12, 31, 0xFF]"
    by code_simp
  from date_roundtrip_except_2155 [OF e] e show ?thesis by simp
qed

text \<open>The JSON form of a bit string keeps its length, its unused-bit count and every
  significant bit; the padding bits of the last octet come back as zero.\<close>

theorem bit_string_json_roundtrip:
  assumes "valid_bs b"
  shows "\<exists>d b'. bs_to_dict b = Inr d \<and> bs_from_dict d = Inr b' \<and> valid_bs b'
    \<and> unused_bits b' = unused_bits b \<and> length (bs_data b') = length (bs_data b)
    \<and> (\<forall>k < 8 * length (bs_data b).
          msb_bit (bs_data b') k \<longleftrightarrow> int k < bs_len b \<and> msb_bit (bs_data b) k)"
  using assms by (rule bs_json)

theorem bit_string_json_roundtrip_witness:
  "\<exists>d b'. bs_to_dict \<lparr>bs_data = [0xB7], unused_bits = 4\<rparr> = Inr d \<and> bs_from_dict d = Inr b'
    \<and> unused_bits b' = 4"
  using bit_string_json_roundtrip [of "\<lparr>bs_data = [0xB7], unused_bits = 4\<rparr>"]
  by (auto simp: valid_bs_def)

section \<open>APDUs\<close>

text \<open>C36: Every PDU whose header fields fit their octets is encoded, and decodes to the same
  PDU up to what the header can carry (max-segments and max-APDU fields of the standard's
  tables, sequence number and window only when segmented).\<close>

theorem apdu_roundtrip:
  assumes "apdu_ok pdu"
  shows "\<exists>bs. encode_apdu pdu = Inr bs \<and> decode_apdu bs = Inr (apdu_view pdu)"
  using assms by (rule apdu_round)

theorem apdu_roundtrip_witness:
  "\<exists>bs. encode_apdu (SegmentAckPDU \<lparr>sg_negative_ack = True, sg_sent_by_server = False,
      sg_invoke_id = 7, sg_sequence_number = 255, sg_actual_window_size = 16\<rparr>) = Inr bs \<and>
    decode_apdu bs = Inr (SegmentAckPDU \<lparr>sg_negative_ack = True, sg_sent_by_server = False,
      sg_invoke_id = 7, sg_sequence_number = 255, sg_actual_window_size = 16\<rparr>)"
  using apdu_roundtrip [of "SegmentAckPDU \<lparr>sg_negative_ack = True, sg_sent_by_server = False,
      sg_invoke_id = 7, sg_sequence_number = 255, sg_actual_window_size = 16\<rparr>"]
  by (simp add: octet_def)

text \<open>Decoding is canonical: whatever octets came in, the decoded PDU can be encoded again
  and those octets decode to the same PDU.\<close>

theorem apdu_decode_canonical:
  assumes "decode_apdu data = Inr pdu"
  shows "\<exists>bs. encode_apdu pdu = Inr bs \<and> decode_apdu bs = Inr pdu"
  using apdu_round [of pdu] decode_apdu_canonical [OF assms] by simp

theorem apdu_decode_canonical_witness:
  "\<exists>pdu bs. decode_apdu [0x10, 8, 1, 2] = Inr pdu \<and> encode_apdu pdu = Inr bs \<and> decode_apdu bs = Inr pdu"
proof -
  have d: "decode_apdu [0x10, 8, 1, 2] =
      Inr (UnconfirmedRequestPDU \<lparr>ur_service_choice = 8, ur_service_request = [1, 2]\<rparr>)" by code_simp
  from apdu_decode_canonical [OF d] d show ?thesis by blast
qed

text \<open>C37: On hostile input the APDU decoder raises nothing but ValueError: no IndexError, no
  struct error, no KeyError, for any octet string.\<close>

theorem apdu_decode_error_is_ValueError:
  "case decode_apdu data of Inl e \<Rightarrow> e = ValueError | Inr pdu \<Rightarrow> apdu_ok pdu"
  using decode_apdu_raises [of data] decode_apdu_canonical [of data]
  by (auto simp: raises_only_def split: sum.splits)

section \<open>NPDUs\<close>

text \<open>C38: Every NPDU the header can carry is encoded and decodes to itself (up to the version
  and the fields its kind does not use).\<close>

theorem npdu_roundtrip:
  assumes "npdu_ok n"
  shows "\<exists>bs. encode_npdu n = Inr bs \<and> decode_npdu bs = Inr (npdu_view n)"
  using encode_npdu_ok [OF assms] npdu_round [OF assms] by blast

theorem npdu_roundtrip_witness:
  "\<exists>bs. encode_npdu \<lparr>version = 1, is_network_message = False, expecting_reply = True, priority = URGENT,
      destination = Some \<lparr>network = Some 0xFFFF, mac_address = []\<rparr>,
      npdu_source = Some \<lparr>network = Some 5, mac_address = [10, 0, 0, 1, 0xBA, 0xC0]\<rparr>, hop_count = 254,
      message_type = None, vendor_id = None, apdu_data = [0x10, 8], network_message_data = []\<rparr> = Inr bs \<and>
    (\<exists>m. decode_npdu bs = Inr m \<and> hop_count m = 254)"
  using npdu_roundtrip [of "\<lparr>version = 1, is_network_message = False, expecting_reply = True,
      priority = URGENT, destination = Some \<lparr>network = Some 0xFFFF, mac_address = []\<rparr>,
      npdu_source = Some \<lparr>network = Some 5, mac_address = [10, 0, 0, 1, 0xBA, 0xC0]\<rparr>, hop_count = 254,
      message_type = None, vendor_id = None, apdu_data = [0x10, 8], network_message_data = []\<rparr>"]
  by (auto simp: npdu_ok_def dest_ok_def source_ok_def octet_def npdu_view_def)

text \<open>A decoded NPDU whose reserved control bits are zero encodes to exactly the octets it
  was decoded from, so a router that decodes and re-encodes forwards the packet unchanged.\<close>

theorem npdu_reencode_identity:
  assumes "decode_npdu data = Inr n" "uint (data ! 1) AND 0x50 = 0"
  shows "encode_npdu n = Inr data"
  using decode_npdu_inverse [OF assms] encode_npdu_ok by auto

theorem npdu_reencode_identity_witness:
  "\<exists>n. decode_npdu [1, 0x28, 0xFF, 0xFF, 0, 0, 5, 1, 9, 200, 0x10, 8] = Inr n \<and>
    encode_npdu n = Inr [1, 0x28, 0xFF, 0xFF, 0, 0, 5, 1, 9, 200, 0x10, 8]"
proof -
  have "case decode_npdu [1, 0x28, 0xFF, 0xFF, 0, 0, 5, 1, 9, 200, 0x10, 8] of Inr n \<Rightarrow> True | Inl e \<Rightarrow> False"
    by code_simp
  then have "\<exists>n. decode_npdu [1, 0x28, 0xFF, 0xFF, 0, 0, 5, 1, 9, 200, 0x10, 8] = Inr n"
    by (auto split: sum.splits)
  then obtain n where n: "decode_npdu [1, 0x28, 0xFF, 0xFF, 0, 0, 5, 1, 9, 200, 0x10, 8] = Inr n" ..
  from npdu_reencode_identity [OF n] n show ?thesis by simp
qed

text \<open>On hostile input the NPDU decoder raises nothing but ValueError.\<close>

theorem npdu_decode_error_is_ValueError:
  "case decode_npdu data of Inl e \<Rightarrow> e = ValueError | Inr n \<Rightarrow> version n = 1"
  using decode_npdu_raises [of data]
  by (auto simp: raises_only_def decode_npdu_eq Let_def split: sum.splits)

text \<open>The router's fast path for local delivery writes exactly what the general encoder
  writes for the NPDU without a destination and with the injected source.\<close>

theorem local_delivery_refines_encode:
  assumes "1 \<le> snet" "snet \<le> 65534" "smac \<noteq> []" "length smac \<le> 255"
    and "is_network_message n \<longrightarrow> message_type n \<noteq> None"
  shows "encode_npdu_local_delivery n snet smac =
    encode_npdu (n\<lparr>destination := None,
      npdu_source := Some \<lparr>network = Some snet, mac_address = smac\<rparr>\<rparr>)"
  using assms by (rule local_delivery_agrees [unfolded relayed_def])

theorem local_delivery_refines_encode_witness:
  "encode_npdu_local_delivery \<lparr>version = 1, is_network_message = False, expecting_reply = True,
      priority = NORMAL, destination = Some \<lparr>network = Some 3, mac_address = [1]\<rparr>, npdu_source = None,
      hop_count = 9, message_type = None, vendor_id = None, apdu_data = [0x10, 8],
      network_message_data = []\<rparr> 5 [7] = Inr [1, 0x0C, 0, 5, 1, 7, 0x10, 8] \<and>
   encode_npdu \<lparr>version = 1, is_network_message = False, expecting_reply = True,
      priority = NORMAL, destination = None, npdu_source = Some \<lparr>network = Some 5, mac_address = [7]\<rparr>,
      hop_count = 9, message_type = None, vendor_id = None, apdu_data = [0x10, 8],
      network_message_data = []\<rparr> = Inr [1, 0x0C, 0, 5, 1, 7, 0x10, 8]"
proof -
  let ?n = "\<lparr>version = 1, is_network_message = False, expecting_reply = True,
      priority = NORMAL, destination = Some \<lparr>network = Some 3, mac_address = [1]\<rparr>, npdu_source = None,
      hop_count = 9, message_type = None, vendor_id = None, apdu_data = [0x10, 8],
      network_message_data = []\<rparr>"
  have "encode_npdu_local_delivery ?n 5 [7] = Inr [1, 0x0C, 0, 5, 1, 7, 0x10, 8]" by code_simp
  with local_delivery_refines_encode [of 5 "[7]" ?n] show ?thesis by simp
qed

section \<open>Segmentation\<close>

text \<open>Splitting a payload loses nothing: the segments concatenate to the payload, none is
  longer than the segment size, and all but the last have exactly that size; a size that is not
  positive raises ValueError.\<close>

theorem split_payload_lossless:
  "if 0 < m
   then \<exists>segs. split_payload p m = Inr segs \<and> segs \<noteq> [] \<and> concat segs = p
     \<and> (\<forall>s\<in>set segs. int (length s) \<le> m)
     \<and> (\<forall>k. k + 1 < length segs \<longrightarrow> int (length (segs ! k)) = m)
   else split_payload p m = Inl ValueError"
  using split_payload_segments [of m p] by (simp add: split_payload_def)

theorem split_payload_lossless_witness:
  "\<exists>segs. split_payload [1, 2, 3, 4, 5] 2 = Inr segs \<and> concat segs = [1, 2, 3, 4, 5]"
  using split_payload_lossless [of 2 "[1, 2, 3, 4, 5]"] by auto

text \<open>What a sender puts on the wire for its window: consecutive segments from the window
  start, at most the window size many, each with its index modulo 256 as sequence number, its
  header and data together within the APDU limit, and more-follows set exactly on all but the
  last segment of the payload.\<close>

theorem window_segments_fit:
  assumes "create_sender payload iid sc max_apdu ty pw peer = Inr s0"
    and "ss_segments s = ss_segments s0" "fill_window s = ws" "k < length ws"
  shows "int (length ws) \<le> ss_actual_window_size s \<and>
    (case ws ! k of (seq, d, follows) \<Rightarrow>
       let i = ss_window_start_idx s + k
       in i < length (ss_segments s) \<and> seq = int i mod 256 \<and> d = ss_segments s ! i
          \<and> int (length d) \<le> compute_max_segment_payload max_apdu ty
          \<and> (follows \<longleftrightarrow> i + 1 < length (ss_segments s)))"
proof -
  let ?w = "ss_window_start_idx s" and ?n = "length (ss_segments s)"
  let ?e = "nat (min (int ?n) (int ?w + ss_actual_window_size s))"
  have ws: "ws = map (wire (ss_segments s)) [?w..<?e]" using assms(3) by (simp add: fill_window_eq)
  then have k: "?w + k < ?e" "ws ! k = wire (ss_segments s) (?w + k)" "length ws = ?e - ?w"
    using assms(4) by auto
  then have i: "?w + k < ?n" by linarith
  then have "ss_segments s ! (?w + k) \<in> set (ss_segments s0)" using assms(2) nth_mem by metis
  then have "int (length (ss_segments s ! (?w + k))) \<le> compute_max_segment_payload max_apdu ty"
    using create_sender_segments [OF assms(1)] by blast
  then show ?thesis using k i by (auto simp: wire_def bitarith)
qed

theorem window_segments_fit_witness:
  "\<exists>s0. create_sender [1, 2, 3, 4, 5] 9 12 8 Seg_confirmed_request 2 None = Inr s0 \<and>
    fill_window s0 = [(0, [1, 2], True), (1, [3, 4], True)] \<and>
    int (length (fill_window s0)) \<le> ss_actual_window_size s0"
proof -
  define s where "s = \<lparr>ss_segments = [[1, 2], [3, 4], [5 :: byte]], ss_invoke_id = 9,
    ss_service_choice = 12, ss_proposed_window_size = 2, ss_actual_window_size = 2,
    ss_window_start_idx = 0\<rparr>"
  have c: "create_sender [1, 2, 3, 4, 5] 9 12 8 Seg_confirmed_request 2 None = Inr s"
    by (simp add: s_def create_sender_def split_payload_def compute_max_segment_payload_def
        py_range_def check_segment_count_def upt_rec py_slice_def)
  have f: "fill_window s = [(0, [1, 2], True), (1, [3, 4], True)]"
    by (simp add: s_def fill_window_def upt_rec)
  from window_segments_fit [OF c refl f, of 0] c f show ?thesis by auto
qed

text \<open>Sequence numbers wrap at 256, yet an acknowledged number is mapped back to the one
  absolute index it was sent with, as long as that index is less than 256 above the search
  start (window start less the window).\<close>

theorem ack_maps_to_index:
  assumes "i < length (ss_segments s)"
    "int (ss_window_start_idx s) - ss_actual_window_size s \<le> int i"
    "int i < max 0 (int (ss_window_start_idx s) - ss_actual_window_size s) + 256"
  shows "seq_to_idx s (int i mod 256) = i"
  using seq_to_idx_correct [OF assms] by (simp add: bitarith)

theorem ack_maps_to_index_witness:
  "seq_to_idx \<lparr>ss_segments = replicate 600 [0], ss_invoke_id = 1, ss_service_choice = 1,
     ss_proposed_window_size = 16, ss_actual_window_size = 16, ss_window_start_idx = 300\<rparr> 51 = 307"
  using ack_maps_to_index [of 307 "\<lparr>ss_segments = replicate 600 [0], ss_invoke_id = 1,
     ss_service_choice = 1, ss_proposed_window_size = 16, ss_actual_window_size = 16,
     ss_window_start_idx = 300\<rparr>"] by simp

text \<open>C2: Reordering, duplication and loss cannot corrupt a reassembled payload of at most 1 MiB:
  whatever sequence of the sender's segments reaches the receiver after the first one, each with an index
  less than 256 above the one expected then and at most 256 less the window size below it (outside of that
  range sequence numbers modulo 256 are ambiguous, and nothing is claimed), reassembling gives the
  sender's payload or ValueError, and it gives the payload exactly when the receiver says it is
  complete.\<close>

theorem reassembly_never_corrupts:
  assumes "segs \<noteq> []" "int (length (concat segs)) \<le> MAX_REASSEMBLY_SIZE"
    and "all_timely segs (create_receiver (segs ! 0) sc pw (1 < length segs) our) ks"
    and "r = snd (deliver (create_receiver (segs ! 0) sc pw (1 < length segs) our) (map (wire segs) ks))"
  shows "reassemble r = (if receiver_is_complete r then Inr (concat segs) else Inl ValueError)"
  using deliver_preserves [OF create_receiver_inv [OF assms(1)] assms(3,2)] inv_reassemble assms(4)
  by simp

theorem reassembly_never_corrupts_witness:
  "reassemble (snd (deliver (create_receiver [1] 0 4 True 16) (map (wire [[1], [2], [3]]) [2, 2, 0, 1])))
     = Inr [1, 2, 3]"
proof -
  let ?r = "snd (deliver (create_receiver [1] 0 4 True 16) (map (wire [[1], [2], [3 :: byte]]) [2, 2, 0, 1]))"
  have t: "all_timely [[1], [2], [3]] (create_receiver [1] 0 4 True 16) [2, 2, 0, 1]"
    and c: "receiver_is_complete ?r" by (code_simp)+
  from reassembly_never_corrupts [of "[[1], [2], [3]]" 0 4 16 "[2, 2, 0, 1]" ?r] t c
  show ?thesis by (simp add: MAX_REASSEMBLY_SIZE_def)
qed

text \<open>C1: End to end: for a payload the sender accepts, of at most 1 MiB, and windows of 1 to 127,
  the exchange of the first segment and then window after window against the receiver ends within
  as many windows as there are segments, with the sender complete and the receiver's payload
  equal to the one sent.\<close>

theorem segmented_transfer_delivers_payload:
  assumes "create_sender payload iid sc max_apdu ty pw peer = Inr s"
    and "1 \<le> our" "our \<le> 127" "1 \<le> pw" "int (length payload) \<le> MAX_REASSEMBLY_SIZE"
    and "r = create_receiver (ss_segments s ! 0) sc pw (1 < length (ss_segments s)) our"
    and "sender_handle_segment_ack s 0 (sr_actual_window_size r) False = (finished, s')"
  shows "if finished then reassemble r = Inr payload
    else \<exists>s'' r''. transfer (length (ss_segments s)) s' r = Some (s'', r'')
      \<and> sender_is_complete s'' \<and> reassemble r'' = Inr payload"
  using assms by (rule transfer_payload)

theorem segmented_transfer_delivers_payload_witness:
  "\<exists>s s' r s'' r''. create_sender [1, 2, 3, 4, 5, 6, 7] 9 12 8 Seg_confirmed_request 4 None = Inr s \<and>
    transfer (length (ss_segments s)) s' r = Some (s'', r'') \<and> sender_is_complete s'' \<and>
    reassemble r'' = Inr [1, 2, 3, 4, 5, 6, 7]"
proof -
  define s where "s = \<lparr>ss_segments = [[1, 2], [3, 4], [5, 6], [7 :: byte]], ss_invoke_id = 9,
    ss_service_choice = 12, ss_proposed_window_size = 4, ss_actual_window_size = 4,
    ss_window_start_idx = 0\<rparr>"
  have c: "create_sender [1, 2, 3, 4, 5, 6, 7] 9 12 8 Seg_confirmed_request 4 None = Inr s"
    by (simp add: s_def create_sender_def split_payload_def compute_max_segment_payload_def
        py_range_def check_segment_count_def upt_rec py_slice_def)
  let ?r = "create_receiver (ss_segments s ! 0) 12 4 (1 < length (ss_segments s)) 2"
  have a: "sender_handle_segment_ack s 0 (sr_actual_window_size ?r) False = (False,
      s\<lparr>ss_actual_window_size := sr_actual_window_size ?r, ss_window_start_idx := 1\<rparr>)"
    using first_ack [of s "sr_actual_window_size ?r" False] by (simp add: s_def)
  from segmented_transfer_delivers_payload [OF c, of 2, OF _ _ _ _ refl a] c show ?thesis
    by (auto simp: MAX_REASSEMBLY_SIZE_def)
qed

text \<open>The memory bound: a segment that would take the stored bytes above 1 MiB is answered
  with ABORT, and after every other answer the stored bytes are within the bound.\<close>

theorem reassembly_size_bounded:
  assumes "receive_segment r seq d follows = ((a, ack), r')" "a \<noteq> ABORT"
    and "sr_total_bytes r \<le> MAX_REASSEMBLY_SIZE"
  shows "sr_total_bytes r' \<le> MAX_REASSEMBLY_SIZE"
  using assms by (auto simp: receive_segment_def Let_def split: if_splits)

theorem reassembly_size_bounded_witness:
  "sr_total_bytes (snd (receive_segment (create_receiver [1] 0 4 True 16) 1 [2, 3] True)) \<le> MAX_REASSEMBLY_SIZE"
proof -
  let ?x = "receive_segment (create_receiver [1] 0 4 True 16) 1 [2, 3] True"
  have "fst ?x = (CONTINUE, 1)" by code_simp
  then have x: "?x = ((CONTINUE, 1), snd ?x)" by (metis prod.collapse)
  have "sr_total_bytes (create_receiver [1] 0 4 True 16) \<le> MAX_REASSEMBLY_SIZE"
    by (simp add: create_receiver_def MAX_REASSEMBLY_SIZE_def)
  from reassembly_size_bounded [OF x _ this] show ?thesis by simp
qed

text \<open>An acknowledgement can cover segments that were never received: after segments 0 and 3
  of a window of 4, a repeated segment 0 is answered with an acknowledgement of 3, on which the sender
  moves past segments 1 and 2, which the receiver still expects; its next window is then
  partly outside the receiver's window and the transfer is aborted.\<close>

theorem repeated_segment_acknowledges_gap:
  "let r0 = create_receiver [10] 0 4 True 16;
       (a1, r1) = receive_segment r0 3 [13] True;
       (a2, r2) = receive_segment r1 0 [10] True;
       s = \<lparr>ss_segments = [[10], [11], [12], [13], [14], [15], [16], [17], [18]], ss_invoke_id = 0,
            ss_service_choice = 0, ss_proposed_window_size = 4, ss_actual_window_size = 4,
            ss_window_start_idx = 1\<rparr>;
       (finished, s') = sender_handle_segment_ack s (snd a2) 4 False
   in a1 = (CONTINUE, 3) \<and> a2 = (RESEND_LAST_ACK, 3) \<and> sr_expected_idx r2 = 1
      \<and> ss_window_start_idx s' = 4
      \<and> take 2 (map fst (fst (deliver r2 (fill_window s')))) = [CONTINUE, ABORT]"
  by code_simp

section \<open>Transactions\<close>

text \<open>C3: The receive path raises nothing of its own.  Take any state the application reaches while
  the network layer takes what it is given, and let the network layer raise from then on whatever it
  likes for whatever octets and destinations.  Then receiving any octets from any address, running
  the next task, ending a service handler (with octets, without, with any Python exception, or with a
  BACnet error whose code is a member of ErrorCode), firing any timer, resuming or cancelling a
  request, and changing the communication state or the handlers either return or raise an exception
  that the network layer raised from its send.  In particular they return if it raises nothing.
  (What an unconfirmed service handler raises ends its own task; only sending a new request may raise
  anything else, in its caller.)\<close>

theorem receive_path_raises_only_send_errors:
  assumes "valid_config retries window" "app_reach (app_init retries max_apdu max_segments window) a"
    and "app_event_ok a ev" "\<not> app_request ev"
  shows "case fst (app_step ev (with_network net a)) of
      Inr x \<Rightarrow> True
    | Inl e \<Rightarrow> \<exists>data dest. net data dest = Some e"
proof -
  have "app_inv a" by (rule app_machine.reachable_inv [OF assms(2) app_init_inv [OF assms(1)]])
  from app_step_blameless [OF this assms(3,4), of net] show ?thesis
    by (auto simp: blameless_def network_errors_def split: sum.split)
qed

theorem receive_path_raises_only_send_errors_witness:
  "fst (app_step (App_apdu [0x20, 7, 15] \<lparr>network = None, mac_address = [10]\<rparr>)
     (with_network network_up (snd (app_step (App_client (Ev_request 12 [1, 2]
        \<lparr>network = None, mac_address = [10]\<rparr> None)) (app_init 3 1476 None 16))))) = Inr ()"
proof -
  let ?a = "snd (app_step (App_client (Ev_request 12 [1, 2]
        \<lparr>network = None, mac_address = [10]\<rparr> None)) (app_init 3 1476 None 16))"
  have "case fst (app_step (App_apdu [0x20, 7, 15] \<lparr>network = None, mac_address = [10]\<rparr>)
      (with_network network_up ?a)) of Inr x \<Rightarrow> True | Inl e \<Rightarrow> \<exists>data dest. network_up data dest = Some e"
    by (rule receive_path_raises_only_send_errors [of 3 16 1476 None])
      (simp_all add: valid_config_def reach_event [OF reach_start] del: app_step.simps)
  then show ?thesis by (simp add: network_up_def del: app_step.simps split: sum.splits)
qed

text \<open>C4: The invariant of the client machine: in every state reachable on a network that takes what it is given, a transaction is filed
  under its own peer address and an invoke id in 0 to 255, has used at most the configured
  retries, and, while its outcome is open, is in one of three stages with the timer of that
  stage running and its sender or receiver at hand; once it has a response or an error, no timer
  is left.\<close>

theorem client_transactions_invariant:
  assumes "valid_config retries window"
    and "client_reach (client_init retries max_apdu max_segments window) s"
    and "cm_transactions s key = Some t"
  shows "key = (ct_destination t, ct_invoke_id t) \<and> 0 \<le> ct_invoke_id t \<and> ct_invoke_id t \<le> 255
    \<and> 0 \<le> ct_retry_count t \<and> ct_retry_count t \<le> cm_retries s
    \<and> 0 \<le> ct_seg_retry_count t \<and> ct_seg_retry_count t \<le> cm_retries s
    \<and> (ct_future t = Pending \<longrightarrow>
         ct_state t = CL_SEGMENTED_REQUEST \<and> ct_timeout_handle t = Some T_wait_for_seg
           \<and> ct_segment_sender t \<noteq> None
         \<or> ct_state t = AWAIT_CONFIRMATION \<and> ct_timeout_handle t = Some T_arr
         \<or> ct_state t = SEGMENTED_CONFIRMATION \<and> ct_timeout_handle t = Some T_seg
           \<and> ct_segment_receiver t \<noteq> None)
    \<and> (ct_future t \<noteq> Pending \<and> ct_future t \<noteq> Cancelled \<longrightarrow> ct_timeout_handle t = None)"
proof -
  have "client_inv s" by (rule client_machine.reachable_inv [OF assms(2) init_inv [OF assms(1)]])
  from client_inv_txn [OF this assms(3)] show ?thesis
    by (auto simp: txn_inv_def stage_ok_def octet_def split: client_state.splits)
qed

definition peer :: bacnet_address where
  "peer = \<lparr>network = None, mac_address = [10]\<rparr>"

lemma requested:
  "\<exists>s t. client_reach (client_init 3 1476 None 16) s \<and> cm_transactions s (peer, 0) = Some t
     \<and> ct_future t = Pending \<and> cm_retries s = 3"
proof -
  let ?c = "client_init 3 1476 None 16"
  let ?s = "snd (client_step (Ev_request 12 [1, 2] peer None) ?c)"
  have r: "client_reach ?c ?s" by (rule reach_event [OF reach_start]) simp
  have f: "map_option ct_future (cm_transactions ?s (peer, 0)) = Some Pending" by code_simp
  have n: "cm_retries ?s = 3" by code_simp
  from f obtain t where "cm_transactions ?s (peer, 0) = Some t" "ct_future t = Pending"
    by (auto simp del: client_step.simps)
  with r n show ?thesis by blast
qed

theorem client_transactions_invariant_witness:
  "\<exists>s t. client_reach (client_init 3 1476 None 16) s
     \<and> cm_transactions s (peer, 0) = Some t \<and> ct_future t = Pending
     \<and> (peer, 0) = (ct_destination t, ct_invoke_id t) \<and> ct_timeout_handle t \<noteq> None"
proof -
  obtain s t where r: "client_reach (client_init 3 1476 None 16) s"
    and t: "cm_transactions s (peer, 0) = Some t" "ct_future t = Pending"
    using requested by blast
  have "valid_config 3 16" by (simp add: valid_config_def)
  from client_transactions_invariant [OF this r t(1)] t have
    "(peer, 0) = (ct_destination t, ct_invoke_id t)" "ct_timeout_handle t \<noteq> None" by auto
  with r t show ?thesis by blast
qed

text \<open>C5: The invariant of the server machine: in every state the application can reach (on a network
  that takes what it is given), an entry of the dictionary refers to an existing transaction of that
  source and invoke id, and the transaction has the timer of its state running, except that one in
  AWAIT_RESPONSE with a segment receiver (its segmented request was completed) may have none.  How
  long such a transaction stays is not part of the claim.\<close>

theorem server_transactions_invariant:
  assumes "valid_config retries window" "app_reach (app_init retries max_apdu max_segments window) a"
    and "sv_transactions (ap_server a) (src, i) = Some r"
  shows "\<exists>t. sv_objects (ap_server a) r = Some t \<and> st_source t = src \<and> st_invoke_id t = i
    \<and> 0 \<le> i \<and> i \<le> 255
    \<and> (case st_state t of
         SV_IDLE \<Rightarrow> st_timeout_handle t = Some T_request
       | SV_SEGMENTED_REQUEST \<Rightarrow> st_timeout_handle t = Some T_srv_seg
       | SEGMENTED_RESPONSE \<Rightarrow> st_timeout_handle t = Some T_srv_wait
       | AWAIT_RESPONSE \<Rightarrow> st_timeout_handle t = Some T_request
           \<or> st_timeout_handle t = None \<and> st_segment_receiver t \<noteq> None)"
proof -
  have "server_inv (ap_server a)"
    using app_machine.reachable_inv [OF assms(2) app_init_inv [OF assms(1)]] by (simp add: app_inv_def)
  from server_inv_entryD [OF this assms(3)] server_inv_objD [OF this] show ?thesis
    by (auto simp: entry_ok_def obj_ok_def octet_def split: server_state.splits)
qed

theorem server_transactions_invariant_witness:
  "\<exists>(a :: application) r t. sv_transactions (ap_server a) (peer, 7) = Some r \<and> sv_objects (ap_server a) r = Some t
     \<and> st_invoke_id t = 7"
proof -
  let ?a0 = "app_init 3 1476 None 16"
  let ?a1 = "snd (app_step (App_apdu [0x00, 0x05, 7, 12, 9] peer) ?a0)"
  let ?a2 = "snd (app_step App_run_task ?a1)"
  have r: "app_reach ?a0 ?a2" by (intro reachable.intros) simp_all
  have c: "valid_config 3 16" by (simp add: valid_config_def)
  have e: "sv_transactions (ap_server ?a2) (peer, 7) = Some 0" by code_simp
  from server_transactions_invariant [OF c r e] e show ?thesis by blast
qed

text \<open>C8: The outcome of a request is final: once its future is done, no event (a response, a
  timer, another request, a cancellation) changes it or removes the transaction, except the
  coroutine picking the outcome up.\<close>

theorem outcome_is_final:
  assumes "cm_transactions s key = Some t" "ct_future t \<noteq> Pending" "ev \<noteq> Ev_resume key"
  shows "\<exists>t'. cm_transactions (snd (client_step ev s)) key = Some t' \<and> ct_future t' = ct_future t"
  using outcome_step [of key "ct_future t" s ev] assms by (auto simp: outcome_def)

theorem outcome_is_final_witness:
  "\<exists>(s :: client_tsm) t t'. cm_transactions s (peer, 0) = Some t \<and> ct_future t = Result [] \<and>
     cm_transactions (snd (client_step (Ev_response peer
       (RejectPDU \<lparr>rj_invoke_id = 0, rj_reject_reason = REJECT_OTHER\<rparr>)) s)) (peer, 0) = Some t'
     \<and> ct_future t' = Result []"
proof -
  let ?s = "snd (client_step (Ev_response peer (SimpleAckPDU \<lparr>sa_invoke_id = 0, sa_service_choice = 12\<rparr>))
    (snd (client_step (Ev_request 12 [1, 2] peer None) (client_init 3 1476 None 16))))"
  have "map_option ct_future (cm_transactions ?s (peer, 0)) = Some (Result [])" by code_simp
  then obtain t where t: "cm_transactions ?s (peer, 0) = Some t" "ct_future t = Result []" by blast
  from outcome_is_final [OF t(1), of "Ev_response peer
      (RejectPDU \<lparr>rj_invoke_id = 0, rj_reject_reason = REJECT_OTHER\<rparr>)"] t
  obtain t' where "cm_transactions (snd (client_step (Ev_response peer
      (RejectPDU \<lparr>rj_invoke_id = 0, rj_reject_reason = REJECT_OTHER\<rparr>)) ?s)) (peer, 0) = Some t'"
    "ct_future t' = Result []" by (auto simp del: client_step.simps)
  with t show ?thesis by blast
qed

text \<open>C9: Responses are correlated by peer address and invoke id: a response PDU leaves every
  transaction with another peer or another invoke id as it was, whatever the PDU is and whether
  or not it is expected.\<close>

theorem response_touches_its_own_transaction:
  assumes "key \<noteq> (src, response_id pdu)"
  shows "cm_transactions (snd (client_dispatch src pdu s)) key = cm_transactions s key"
  using dispatch_local [of src pdu s] assms unfolding same_but_def by blast

theorem response_touches_its_own_transaction_witness:
  "cm_transactions (snd (client_dispatch peer (SimpleAckPDU \<lparr>sa_invoke_id = 1, sa_service_choice = 12\<rparr>)
     (client_init 3 1476 None 16))) (peer, 0) = None"
  using response_touches_its_own_transaction
    [of "(peer, 0)" peer "SimpleAckPDU \<lparr>sa_invoke_id = 1, sa_service_choice = 12\<rparr>"
       "client_init 3 1476 None 16"]
  by (simp add: client_init_def)

text \<open>C6: A request to a peer that never answers fails: in every state reachable on a network that
  takes what it is given, firing the timer of a pending transaction again and again ends it with a
  timeout error or with an abort for the reason TSM_TIMEOUT, and nothing else, after at most one
  firing more than twice the number of retries, segmented or not.\<close>

theorem silent_peer_ends_the_request:
  assumes "valid_config retries window"
    and "client_reach (client_init retries max_apdu max_segments window) s"
    and "cm_transactions s key = Some t" "ct_future t = Pending"
  shows "\<exists>n t' s'. n \<le> Suc (2 * nat (cm_retries s)) \<and> fire_times n key s = (Inr (), s')
    \<and> cm_transactions s' key = Some t'
    \<and> (ct_future t' = Failed BACnetTimeoutError \<or> ct_future t' = Failed (BACnetAbortError TSM_TIMEOUT))"
proof -
  have inv: "client_inv s" by (rule client_machine.reachable_inv [OF assms(2) init_inv [OF assms(1)]])
  have "firings_left (cm_retries s) t \<le> Suc (2 * nat (cm_retries s))"
    using client_inv_txn [OF inv assms(3)] by (auto simp: firings_left_def txn_inv_def)
  moreover obtain n t' s' where "n \<le> firings_left (cm_retries s) t"
    "fire_times n key s = (Inr (), s')" "cm_transactions s' key = Some t'" "timed_out t'"
    using silent_peer [OF inv assms(3,4)] by blast
  ultimately show ?thesis
    by (intro exI [of _ n] exI [of _ t'] exI [of _ s']) (simp add: timed_out_def)
qed

theorem silent_peer_ends_the_request_witness:
  "\<exists>s n t' s'. fire_times n (peer, 0) s = (Inr (), s') \<and> n \<le> 7 \<and> cm_transactions s' (peer, 0) = Some t'
     \<and> (ct_future t' = Failed BACnetTimeoutError \<or> ct_future t' = Failed (BACnetAbortError TSM_TIMEOUT))"
proof -
  obtain s t where r: "client_reach (client_init 3 1476 None 16) s" "cm_retries s = 3"
    and t: "cm_transactions s (peer, 0) = Some t" "ct_future t = Pending"
    using requested by blast
  have "valid_config 3 16" by (simp add: valid_config_def)
  from silent_peer_ends_the_request [OF this r(1) t] obtain n t' s'
    where "n \<le> Suc (2 * nat (cm_retries s))" "fire_times n (peer, 0) s = (Inr (), s')"
      "cm_transactions s' (peer, 0) = Some t'"
      "ct_future t' = Failed BACnetTimeoutError \<or> ct_future t' = Failed (BACnetAbortError TSM_TIMEOUT)"
    by blast
  with r(2) show ?thesis by (intro exI [of _ s] exI [of _ n] exI [of _ t'] exI [of _ s']) simp
qed



text \<open>Allocation of invoke ids: the id given to a request is in 0 to 255 and no outstanding
  request to that peer has it; RuntimeError is raised exactly when all 256 are taken.\<close>

theorem invoke_id_is_fresh:
  "case allocate_invoke_id dest s of
     (Inr iid, s') \<Rightarrow> 0 \<le> iid \<and> iid \<le> 255 \<and> cm_transactions s (dest, iid) = None
       \<and> cm_transactions s' = cm_transactions s
   | (Inl e, s') \<Rightarrow> e = RuntimeError \<and> cm_transactions s' = cm_transactions s
       \<and> (\<forall>iid. cm_transactions s (dest, iid) = None \<longrightarrow> iid < 0 \<or> 255 < iid)"
proof -
  obtain x s1 where a: "allocate_invoke_id dest s = (x, s1)" by fastforce
  have "cm_transactions s1 = cm_transactions s" using allocate_state [of dest s] a by auto
  moreover have "iid < 0 \<or> 255 < iid" if "x = Inl e" "cm_transactions s (dest, iid) = None" for e iid
  proof (rule ccontr)
    assume "\<not> (iid < 0 \<or> 255 < iid)"
    then have "octet iid" by (simp add: octet_def)
    then show False using allocate_error(2) [of dest s e s1] a that by auto
  qed
  ultimately show ?thesis
    using a allocate_some [of dest s _ s1] allocate_error(1) [of dest s _ s1]
    by (cases x) (auto simp: octet_def)
qed

theorem invoke_id_is_fresh_witness:
  "0 \<le> (5 :: int) \<and> allocate_invoke_id peer ((client_init 3 1476 None 16)\<lparr>cm_next_invoke_id := 255\<rparr>)
     = (Inr 255, (client_init 3 1476 None 16)\<lparr>cm_next_invoke_id := 0\<rparr>)"
proof -
  let ?s = "(client_init 3 1476 None 16)\<lparr>cm_next_invoke_id := 255\<rparr>"
  have "allocate_invoke_id peer ?s = (Inr 255, ?s\<lparr>cm_next_invoke_id := 0\<rparr>)"
    by (simp add: allocate_invoke_id_def client_init_def upt_rec [of 0])
  with invoke_id_is_fresh [where dest = peer and s = ?s] show ?thesis by simp
qed

text \<open>C10: A confirmed request is processed at most once while its transaction lasts: a request
  with the source and invoke id of a transaction that is not collecting segments calls no
  handler; the only effect is that the response, if it is there, is sent again (or, if the network
  layer raises on it, that exception and no effect).\<close>

theorem repeated_request_is_not_processed_again:
  assumes "sv_transactions (ap_server a) (src, cr_invoke_id pdu) = Some r"
    and "sv_objects (ap_server a) r = Some t" "st_state t \<noteq> SV_SEGMENTED_REQUEST"
  shows "handle_confirmed_request pdu src a =
    (case st_cached_response t of
       None \<Rightarrow> (Inr (), a)
     | Some b \<Rightarrow>
         (case sv_network (ap_server a) b src of
            None \<Rightarrow> (Inr (), a\<lparr>ap_server := (ap_server a)\<lparr>sv_sent :=
              sv_sent (ap_server a) @ [(b, src, False)]\<rparr>\<rparr>)
          | Some e \<Rightarrow> (Inl e, a)))"
  using repeated_request [OF assms]
  by (simp add: handle_confirmed_request_def run_on on_server_def split: option.split)

theorem repeated_request_is_not_processed_again_witness:
  "\<exists>a pdu b. handle_confirmed_request pdu peer a = (Inr (), a\<lparr>ap_server := (ap_server a)\<lparr>sv_sent :=
     sv_sent (ap_server a) @ [(b, peer, False)]\<rparr>\<rparr>)"
proof -
  let ?pdu = "\<lparr>cr_segmented = False, cr_more_follows = False, cr_segmented_response_accepted = True,
    cr_max_segments = None, cr_max_apdu_length = 1476, cr_invoke_id = 7, cr_sequence_number = None,
    cr_proposed_window_size = None, cr_service_choice = 12, cr_service_request = [9]\<rparr>"
  let ?t = "(new_server_txn ?pdu peer)\<lparr>st_state := SV_IDLE, st_cached_response := Some [0x20, 7, 12]\<rparr>"
  let ?a = "(app_init 3 1476 None 16)\<lparr>ap_server := (server_init 3 16)
    \<lparr>sv_transactions := [(peer, 7) \<mapsto> 0], sv_objects := [0 \<mapsto> ?t], sv_next_ref := 1\<rparr>\<rparr>"
  have "sv_network (ap_server ?a) [0x20, 7, 12] peer = None" by (simp add: server_init_def network_up_def)
  with repeated_request_is_not_processed_again [where a = ?a and src = peer and pdu = ?pdu and r = 0 and t = ?t]
  have "handle_confirmed_request ?pdu peer ?a = (Inr (), ?a\<lparr>ap_server := (ap_server ?a)\<lparr>sv_sent :=
      sv_sent (ap_server ?a) @ [([0x20, 7, 12], peer, False)]\<rparr>\<rparr>)"
    by simp
  then show ?thesis by blast
qed

section \<open>The router\<close>

text \<open>C11: The routing tables stay well formed whatever frames arrive, timers fire and messages are
  sent: ports and networks are listed once, a port under its id and an entry under its network,
  an entry's port exists, a busy timer runs only for a BUSY entry, and at most 2048 networks that
  are not the number of a port are kept.\<close>

theorem router_tables_invariant:
  assumes "init_router ports app has_callback = Inr s0" "router_reach s0 s"
  shows "distinct (map fst (ro_ports s)) \<and> distinct (map fst (ro_entries s))
    \<and> (map_of (ro_ports s) pid = Some p \<longrightarrow> po_port_id p = pid)
    \<and> (map_of (ro_entries s) dnet = Some e \<longrightarrow> re_network_number e = dnet
        \<and> map_of (ro_ports s) (re_port_id e) \<noteq> None
        \<and> (re_busy_timer e \<noteq> None \<longrightarrow> re_reachability e = BUSY))
    \<and> card {d. map_of (ro_entries s) d \<noteq> None
        \<and> (\<forall>k p. map_of (ro_ports s) k = Some p \<longrightarrow> po_network_number p \<noteq> d)} \<le> 2048"
proof -
  have inv: "router_inv s"
    by (rule router_machine.reachable_inv [OF assms(2) init_router_inv [OF assms(1)]])
  have "remote_networks s = {d. map_of (ro_entries s) d \<noteq> None
      \<and> (\<forall>k p. map_of (ro_ports s) k = Some p \<longrightarrow> po_network_number p \<noteq> d)}"
    by (auto simp: remote_networks_def port_numbers_def ran_def)
  with inv show ?thesis by (auto simp: router_inv_def entry_fits_def MAX_ENTRIES_def)
qed

theorem router_tables_invariant_witness:
  "distinct (map fst (ro_entries (snd (router_event_proc (Frame_Arrives 1 [1, 0x80, 1, 0, 30] [5]) two_networks))))"
proof -
  have "router_reach two_networks (snd (router_event_proc (Frame_Arrives 1 [1, 0x80, 1, 0, 30] [5]) two_networks))"
    by (rule reach_event) (simp_all add: reach_start)
  from router_tables_invariant [OF two_networks_init this] show ?thesis by blast
qed

text \<open>C13: An application NPDU addressed to a network the router has a usable (reachable) route to is
  sent exactly once, on the port of the route: on a directly connected network to the station (or as a
  broadcast) with the destination removed and the source filled in, otherwise to the next hop with the
  hop count one less and the source filled in; only with its hop count used up (1 or 0) is it dropped on
  the way to a next hop.  Payload and priority are unchanged, and nothing is delivered locally.\<close>

theorem known_network_is_routed:
  assumes "init_router ports app has_callback = Inr s0" "router_reach s0 s" "attached s arrival mac"
    and "decode_npdu data = Inr n" "\<not> is_network_message n" "destination n = Some d"
    and "network d = Some dnet" "dnet \<noteq> 0xFFFF" "usable_route s dnet e"
  shows "if re_next_router_mac e \<noteq> None \<and> hop_count n \<le> 1 then on_port_receive arrival data mac s = (Inr (), s)
    else \<exists>frame. decode_npdu frame = Inr (rerouted e n (source_of s arrival n mac))
      \<and> on_port_receive arrival data mac s =
          (Inr (), s\<lparr>ro_sent := ro_sent s @ [(re_port_id e, frame, hop_of e (mac_address d))]\<rparr>)"
proof -
  have inv: "router_inv s"
    by (rule router_machine.reachable_inv [OF assms(2) init_router_inv [OF assms(1)]])
  show ?thesis
  proof (cases "re_next_router_mac e \<noteq> None \<and> hop_count n \<le> 1")
    case True
    then have "forward_to_network arrival n mac dnet s = (Inr (), s)"
      using routed_stops [OF inv decode_npdu_shape(2) [OF assms(4)] assms(3,9)] by simp
    then show ?thesis using True assms by (simp add: receive_runs process_npdu_def)
  next
    case False
    then have "re_next_router_mac e = None \<or> 1 < hop_count n" by auto
    then obtain frame where "decode_npdu frame = Inr (rerouted e n (source_of s arrival n mac))"
      "forward_to_network arrival n mac dnet s =
        (Inr (), s\<lparr>ro_sent := ro_sent s @ [(re_port_id e, frame, hop_of e (mac_address d))]\<rparr>)"
      by (rule routed_runs [OF inv decode_npdu_shape(1,2) [OF assms(4)] assms(6,3,9)])
    then have "\<exists>frame. decode_npdu frame = Inr (rerouted e n (source_of s arrival n mac))
      \<and> on_port_receive arrival data mac s =
          (Inr (), s\<lparr>ro_sent := ro_sent s @ [(re_port_id e, frame, hop_of e (mac_address d))]\<rparr>)"
      using assms by (intro exI [of _ frame]) (simp add: receive_runs process_npdu_def)
    then show ?thesis using False by (simp only: if_False)
  qed
qed

theorem known_network_is_routed_witness:
  "\<exists>frame. decode_npdu frame = Inr (rerouted (direct_entry 20 2)
        (npdu_to \<lparr>network = Some 20, mac_address = [9]\<rparr> [77])
        (source_of two_networks 1 (npdu_to \<lparr>network = Some 20, mac_address = [9]\<rparr> [77]) [5]))
    \<and> on_port_receive 1 [1, 0x20, 0, 20, 1, 9, 255, 77] [5] two_networks
      = (Inr (), two_networks\<lparr>ro_sent := ro_sent two_networks @ [(re_port_id (direct_entry 20 2), frame,
          hop_of (direct_entry 20 2) (mac_address \<lparr>network = Some 20, mac_address = [9]\<rparr>))]\<rparr>)"
proof -
  have d: "decode_npdu [1, 0x20, 0, 20, 1, 9, 255, 77]
      = Inr (npdu_to \<lparr>network = Some 20, mac_address = [9]\<rparr> [77])" by code_simp
  have "usable_route two_networks 20 (direct_entry 20 2)" "\<not> is_network_message (npdu_to \<lparr>network = Some 20, mac_address = [9]\<rparr> [77])"
    "destination (npdu_to \<lparr>network = Some 20, mac_address = [9]\<rparr> [77]) = Some \<lparr>network = Some 20, mac_address = [9]\<rparr>"
    by (simp_all add: usable_route_def two_networks_def direct_entry_def npdu_to_def)
  from known_network_is_routed [OF two_networks_init reach_start two_networks_attached d this(2,3) _ _ this(1)]
  show ?thesis by (simp add: direct_entry_def)
qed

text \<open>C15: A global broadcast that carries application data is delivered to the local application once
  (if one is registered) and flooded once on every other port, never back on the port it arrived on, with
  the hop count one less and the source filled in; with its hop count used up (1 or 0) it is delivered but
  not forwarded.  Network layer messages, which the router handles itself, are not part of this claim.\<close>

theorem global_broadcast_is_flooded:
  assumes "attached s arrival mac" "decode_npdu data = Inr n" "\<not> is_network_message n"
    and "destination n = Some d" "network d = Some 0xFFFF"
  shows "\<exists>frame. on_port_receive arrival data mac s = (Inr (),
      s\<lparr>ro_delivered := ro_delivered s @ local_copy s arrival n mac,
        ro_sent := ro_sent s @ (if hop_count n \<le> 1 then []
          else map (\<lambda>k. (k, frame, None)) (other_ports s arrival))\<rparr>)
    \<and> arrival \<notin> set (other_ports s arrival)
    \<and> (1 < hop_count n \<longrightarrow> decode_npdu frame = Inr (forwarded n (source_of s arrival n mac)))"
proof -
  let ?s = "s\<lparr>ro_delivered := ro_delivered s @ local_copy s arrival n mac\<rparr>"
  note ok = decode_npdu_shape(1,2) [OF assms(2)]
  have run: "on_port_receive arrival data mac s = (Inr (), s')"
    if "forward_global_broadcast arrival n mac ?s = (Inr (), s')" for s'
    using that assms(3-5) deliver_runs [OF assms(1), of n]
    by (intro receive_runs [OF assms(2)]) (simp add: process_npdu_def seq_p_def run_bind)
  show ?thesis
  proof (cases "hop_count n \<le> 1")
    case True
    with run [OF flood_stops [OF ok(2)]] assms(1) show ?thesis by simp
  next
    case False
    obtain frame where "decode_npdu frame = Inr (forwarded n (source_of ?s arrival n mac))"
      "forward_global_broadcast arrival n mac ?s = (Inr (), flooded ?s arrival frame)"
      by (rule flood_runs [OF ok, of ?s arrival mac]) (use assms False in simp_all)
    with run False show ?thesis by (intro exI [of _ frame]) (simp add: flooded_def)
  qed
qed

theorem global_broadcast_is_flooded_witness:
  "\<exists>frame. on_port_receive 1 [1, 0x20, 0xFF, 0xFF, 0, 255, 77] [5] two_networks = (Inr (),
      two_networks\<lparr>ro_delivered := [([77], \<lparr>network = Some 10, mac_address = [5]\<rparr>)],
        ro_sent := [(2, frame, None)]\<rparr>)"
proof -
  have d: "decode_npdu [1, 0x20, 0xFF, 0xFF, 0, 255, 77] = Inr (npdu_to GLOBAL_BROADCAST [77])"
    by code_simp
  show ?thesis
    using global_broadcast_is_flooded [OF two_networks_attached d]
    by (auto simp: GLOBAL_BROADCAST_def two_networks_def local_copy_def source_of_def npdu_to_def
        other_ports_def)
qed

text \<open>C16: An application NPDU for a network that is unknown, unreachable or busy is answered by exactly
  one Reject-Message-To-Network with the reason for that case, sent back along the route to its
  source, or to the station it came from; it is neither forwarded nor delivered.  (A network layer message
  is handled by the router itself, whatever its destination, and is not part of this claim.)\<close>

theorem unreachable_network_is_rejected:
  assumes "init_router ports app has_callback = Inr s0" "router_reach s0 s" "attached s arrival mac"
    and "decode_npdu data = Inr n" "\<not> is_network_message n" "destination n = Some d"
    and "network d = Some dnet" "dnet \<noteq> 0xFFFF" "refusal s dnet = Some reason"
  shows "\<exists>frame. carries_message frame (RejectMessageToNetwork reason dnet)
    \<and> on_port_receive arrival data mac s = (Inr (), s\<lparr>ro_sent := ro_sent s
        @ [(fst (reject_route s arrival n mac), frame, snd (reject_route s arrival n mac))]\<rparr>)"
proof -
  have inv: "router_inv s"
    by (rule router_machine.reachable_inv [OF assms(2) init_router_inv [OF assms(1)]])
  have "dest_ok d" using decode_npdu_shape(1) [OF assms(4)] assms(6) by (simp add: npdu_ok_def)
  then have net: "net_ok dnet" using assms(7) by (simp add: dest_ok_def net_ok_def)
  obtain frame where "carries_message frame (RejectMessageToNetwork reason dnet)"
    "send_reject_toward_source arrival n mac reason dnet s = (Inr (), s\<lparr>ro_sent := ro_sent s
      @ [(fst (reject_route s arrival n mac), frame, snd (reject_route s arrival n mac))]\<rparr>)"
    by (rule reject_runs [OF inv decode_npdu_shape(1) [OF assms(4)] assms(3) net])
  then show ?thesis
    using assms refused_runs [OF inv assms(9)]
    by (intro exI [of _ frame]) (simp add: receive_runs process_npdu_def)
qed

theorem unreachable_network_is_rejected_witness:
  "\<exists>frame. carries_message frame (RejectMessageToNetwork NOT_DIRECTLY_CONNECTED 99)
    \<and> on_port_receive 1 [1, 0x20, 0, 99, 1, 9, 255, 77] [5] two_networks
      = (Inr (), two_networks\<lparr>ro_sent := [(1, frame, Some [5])]\<rparr>)"
proof -
  have d: "decode_npdu [1, 0x20, 0, 99, 1, 9, 255, 77]
      = Inr (npdu_to \<lparr>network = Some 99, mac_address = [9]\<rparr> [77])" by code_simp
  have r: "refusal two_networks 99 = Some NOT_DIRECTLY_CONNECTED"
    by (simp add: refusal_def two_networks_def)
  show ?thesis
    using unreachable_network_is_rejected [OF two_networks_init reach_start two_networks_attached d
        _ _ _ _ r]
    by (simp add: reject_route_def routed_source_def npdu_to_def two_networks_def)
qed

text \<open>C12: Forwarding ends: an application NPDU is relayed at most one time more than its hop count,
  through any sequence of routers in any states, whatever loops their tables form.\<close>

theorem forwarding_dies_out:
  assumes "decode_npdu data = Inr n" "\<not> is_network_message n" "(relays ^^ k) data data'"
  shows "k \<le> nat (hop_count n) + 1"
  using relay_chain [OF assms] by (simp add: relays_left_def split: if_splits)

theorem forwarding_dies_out_witness:
  "\<exists>data'. (relays ^^ 1) [1, 0x20, 0, 20, 1, 9, 255, 77] data' \<and> (1 :: nat) \<le> 256"
proof -
  have d: "decode_npdu [1, 0x20, 0, 20, 1, 9, 255, 77]
      = Inr (npdu_to \<lparr>network = Some 20, mac_address = [9]\<rparr> [77])" by code_simp
  have "ro_sent (snd (on_port_receive 1 [1, 0x20, 0, 20, 1, 9, 255, 77] [5] two_networks))
      = [(2, [1, 8, 0, 10, 1, 5, 77], Some [9])]" by code_simp
  moreover have "application_frame [1, 8, 0, 10, 1, 5, 77]" by code_simp
  moreover have "ro_sent two_networks = []" by code_simp
  ultimately have "relays [1, 0x20, 0, 20, 1, 9, 255, 77] [1, 8, 0, 10, 1, 5, 77]"
    unfolding relays_def
    by (intro conjI exI [of _ two_networks] exI [of _ 1] exI [of _ "[5]"]
        exI [of _ "[(2, [1, 8, 0, 10, 1, 5, 77], Some [9])]"]) simp_all
  then have one: "(relays ^^ 1) [1, 0x20, 0, 20, 1, 9, 255, 77] [1, 8, 0, 10, 1, 5, 77]"
    by (simp add: eq_OO)
  from forwarding_dies_out [OF d _ one] have "(1 :: nat) \<le> 256" by simp
  with one show ?thesis by blast
qed



text \<open>C17: Congestion is temporary.  A network of the table, reachable or not, that is listed in a
  Router-Busy-To-Network is refused with the reason ROUTER_BUSY from then on, with its busy timer started;
  and in every later state of the router, whatever frames and events came in between, in which that timer
  still runs it is still refused so, and the firing of the timer makes it reachable over the port and
  next hop it then has (also if it was unreachable before it was busy).\<close>

theorem busy_network_recovers:
  assumes "init_router ports app has_callback = Inr s0" "router_reach s0 s"
    and "decode_npdu frame = Inr m" "is_network_message m" "message_type m = Some mt"
      "decode_network_message mt (network_message_data m) = Inr (RouterBusyToNetwork nets)"
    and "dnet \<in> set nets" "map_of (ro_entries s) dnet = Some e"
  shows "\<exists>s1. on_port_receive pid frame mac s = (Inr (), s1)
    \<and> map_of (ro_entries s1) dnet = Some (e\<lparr>re_reachability := BUSY, re_busy_timer := Some dnet\<rparr>)
    \<and> refusal s1 dnet = Some ROUTER_BUSY
    \<and> (\<forall>s2 e2. router_reach s1 s2 \<longrightarrow> map_of (ro_entries s2) dnet = Some e2 \<longrightarrow> re_busy_timer e2 = Some dnet \<longrightarrow>
         refusal s2 dnet = Some ROUTER_BUSY
         \<and> (\<exists>s3. router_event_proc (Busy_Timer_Fires dnet) s2 = (Inr (), s3)
              \<and> usable_route s3 dnet (learned_route dnet (re_port_id e2) (re_next_router_mac e2))))"
proof -
  have inv: "router_inv s"
    by (rule router_machine.reachable_inv [OF assms(2) init_router_inv [OF assms(1)]])
  obtain s1 where s1: "on_port_receive pid frame mac s = (Inr (), s1)"
    "map_of (ro_entries s1) dnet = Some (busy_entry dnet e)"
    by (rule busy_frame_runs [OF inv assms(3-8)])
  have inv1: "router_inv s1"
    using router_machine.step_keeps [OF inv, of "Frame_Arrives pid frame mac"] s1(1) by simp
  have later: "refusal s2 dnet = Some ROUTER_BUSY
      \<and> (\<exists>s3. router_event_proc (Busy_Timer_Fires dnet) s2 = (Inr (), s3)
           \<and> usable_route s3 dnet (learned_route dnet (re_port_id e2) (re_next_router_mac e2)))"
    if "router_reach s1 s2" and e2: "map_of (ro_entries s2) dnet = Some e2" "re_busy_timer e2 = Some dnet" for s2 e2
  proof -
    have "router_inv s2" by (rule router_machine.reachable_inv [OF that(1) inv1])
    then have fit: "re_network_number e2 = dnet" "re_reachability e2 = BUSY"
      using router_invD(4) [OF _ e2(1)] e2(2) by (auto simp: entry_fits_def)
    obtain es where "busy_timer_fires dnet s2 = (Inr (), s2\<lparr>ro_entries := es\<rparr>)"
      "map_of es dnet = Some (e2\<lparr>re_busy_timer := None, re_reachability := REACHABLE\<rparr>)"
      by (rule timer_runs [OF e2])
    moreover have "e2\<lparr>re_busy_timer := None, re_reachability := REACHABLE\<rparr>
        = learned_route dnet (re_port_id e2) (re_next_router_mac e2)"
      using fit by (cases e2) (simp add: learned_route_def)
    ultimately show ?thesis using e2(1) fit(2) by (simp add: refusal_def usable_route_def learned_route_def)
  qed
  show ?thesis
    using s1 later by (intro exI [of _ s1]) (auto simp: busy_entry_def refusal_def)
qed

text \<open>Every network layer message whose numbers fit the wire decodes to itself under its own
  message type.\<close>

theorem network_message_roundtrip:
  assumes "message_data_ok msg"
  shows "rbind (encode_network_message msg) (decode_network_message (message_type_for msg)) = Inr msg"
  using network_message_round [OF assms] by auto

theorem network_message_roundtrip_witness:
  "rbind (encode_network_message (RejectMessageToNetwork ROUTER_BUSY 20)) (decode_network_message 3)
     = Inr (RejectMessageToNetwork ROUTER_BUSY 20)"
  using network_message_roundtrip [of "RejectMessageToNetwork ROUTER_BUSY 20"]
  by (simp add: net_ok_def del: encode_network_message.simps)

theorem busy_network_recovers_witness:
  "\<exists>s1 s2. on_port_receive 2 [1, 0x80, 4, 0, 20] [8] two_networks = (Inr (), s1)
    \<and> refusal s1 20 = Some ROUTER_BUSY
    \<and> router_event_proc (Busy_Timer_Fires 20) s1 = (Inr (), s2)
    \<and> usable_route s2 20 (learned_route 20 2 None)"
proof -
  have d: "decode_npdu [1, 0x80, 4, 0, 20] = Inr (message_npdu (RouterBusyToNetwork [20]) [0, 20])" by code_simp
  have m: "is_network_message (message_npdu (RouterBusyToNetwork [20]) [0, 20])"
    "message_type (message_npdu (RouterBusyToNetwork [20]) [0, 20]) = Some 4"
    "decode_network_message 4 (network_message_data (message_npdu (RouterBusyToNetwork [20]) [0, 20]))
      = Inr (RouterBusyToNetwork [20])" by code_simp+
  have e: "map_of (ro_entries two_networks) 20 = Some (direct_entry 20 2)"
    "re_port_id (direct_entry 20 2) = 2" "re_next_router_mac (direct_entry 20 2) = None"
    by (simp_all add: two_networks_def direct_entry_def)
  obtain s1 where s1: "on_port_receive 2 [1, 0x80, 4, 0, 20] [8] two_networks = (Inr (), s1)"
    "map_of (ro_entries s1) 20 = Some (direct_entry 20 2\<lparr>re_reachability := BUSY, re_busy_timer := Some 20\<rparr>)"
    "refusal s1 20 = Some ROUTER_BUSY"
    and later: "\<forall>s2 e2. router_reach s1 s2 \<longrightarrow> map_of (ro_entries s2) 20 = Some e2 \<longrightarrow> re_busy_timer e2 = Some 20 \<longrightarrow>
         refusal s2 20 = Some ROUTER_BUSY
         \<and> (\<exists>s3. router_event_proc (Busy_Timer_Fires 20) s2 = (Inr (), s3)
              \<and> usable_route s3 20 (learned_route 20 (re_port_id e2) (re_next_router_mac e2)))"
    using busy_network_recovers [OF two_networks_init reach_start d m _ e(1), where pid = 2 and mac = "[8]"]
    by (metis list.set_intros(1))
  from later [rule_format, OF reach_start s1(2)] e obtain s3 where
    "router_event_proc (Busy_Timer_Fires 20) s1 = (Inr (), s3)" "usable_route s3 20 (learned_route 20 2 None)"
    by (auto simp del: router_event_proc.simps)
  with s1 show ?thesis by blast
qed

section \<open>The BACnet/IP virtual link layer\<close>

text \<open>C39: A virtual link layer frame, whatever datagram octets follow it, decodes to the function,
  payload and originating address it was encoded from.\<close>

theorem bvll_roundtrip:
  assumes "bvll_ok m"
  shows "rbind (encode_bvll (bv_function m) (bv_data m) (bv_originating_address m))
    (\<lambda>frame. decode_bvll (frame @ junk)) = Inr m"
  by (rule bvll_round [OF assms]) simp

theorem bvll_roundtrip_witness:
  "rbind (encode_bvll FORWARDED_NPDU [1, 0, 16] (Some \<lparr>host = dotted [10, 0, 0, 7], port = 47808\<rparr>))
     (\<lambda>frame. decode_bvll (frame @ [9, 9])) =
   Inr \<lparr>bv_function = FORWARDED_NPDU, bv_data = [1, 0, 16],
     bv_originating_address = Some \<lparr>host = dotted [10, 0, 0, 7], port = 47808\<rparr>\<rparr>"
  using bvll_roundtrip [of "\<lparr>bv_function = FORWARDED_NPDU, bv_data = [1, 0, 16],
     bv_originating_address = Some \<lparr>host = dotted [10, 0, 0, 7], port = 47808\<rparr>\<rparr>" "[9, 9]"]
  by (simp add: bvll_ok_def bip_ok_def exI [of _ "[10, 0, 0, 7]"] del: rbind_Inr_iff)

text \<open>C31: The tables of a BBMD stay well formed whatever datagrams arrive, however its settings are
  changed and however long it runs, started on any backup file and given any tables, as long as the
  entries of the file and of the tables that the program itself sets are well formed (a dotted address,
  a port of 16 bits, a mask of four octets; entries that arrive in a datagram are of that form): the
  forwarding cache, the mask table and the peer list agree with the broadcast distribution table, the
  one restored from the file as well; a foreign device is listed once, under its own address, with a
  time to live of 1 to 3600 seconds and the expiry computed from it at some clock reading not after the
  present one; the device table never exceeds its configured size.\<close>

theorem bbmd_tables_invariant:
  assumes "bbmd_reach (init_bbmd loc cb bcast max_fdt max_bdt accept allow glob file path now) s"
    and "case file of None \<Rightarrow> True | Some entries \<Rightarrow> list_all bdt_ok entries"
  shows "bm_forward_cache s = map forward_address (bm_bdt s)
    \<and> bm_unicast_mask s = unicast_masks (bm_bdt s)
    \<and> map fst (bm_peers s) = filter (\<lambda>e. bd_address e \<noteq> bm_local_address s) (bm_bdt s)
    \<and> distinct (map fst (bm_fdt s)) \<and> int (length (bm_fdt s)) \<le> max 0 (bm_max_fdt_entries s)
    \<and> (map_of (bm_fdt s) a = Some fd \<longrightarrow> fd_address fd = a \<and> 1 \<le> fd_ttl fd \<and> fd_ttl fd \<le> 3600
        \<and> (\<exists>t. (t = bm_clock s \<or> F t \<le> F (bm_clock s)) \<and> fd_expiry fd = expiry_at t (fd_ttl fd)))"
proof -
  have inv: "bbmd_inv s"
    by (rule bbmd_machine.reachable_inv [OF assms(1) init_bbmd_inv]) (use assms(2) in auto)
  have "map fst (bm_peers s) = filter (\<lambda>e. bd_address e \<noteq> bm_local_address s) (bm_bdt s)"
    using bbmd_invD(2) [OF inv] by (simp add: caches_ok_def comp_def)
  with inv bbmd_invD(4) [OF inv, of a fd] show ?thesis
    by (auto simp: bbmd_inv_def caches_ok_def fdt_entry_ok_def)
qed

theorem bbmd_tables_invariant_witness:
  "let s = snd (bbmd_event_proc Bbmd_Starts (init_bbmd (host_at 0 1) True None 5 5 True False None
       (Some [entry_at 0, entry_at 1]) True 0))
   in bm_bdt s = [entry_at 0, entry_at 1] \<and> bm_forward_cache s = map forward_address [entry_at 0, entry_at 1]"
proof -
  let ?s0 = "init_bbmd (host_at 0 1) True None 5 5 True False None (Some [entry_at 0, entry_at 1]) True 0"
  let ?s = "snd (bbmd_event_proc Bbmd_Starts ?s0)"
  have ok: "list_all bdt_ok [entry_at 0, entry_at 1]" by (simp add: bdt_ok_def host_ok ALL_ONES_MASK_def)
  have "bm_forward_cache ?s = map forward_address (bm_bdt ?s)"
    by (rule bbmd_tables_invariant [OF reach_event [OF reach_start], THEN conjunct1]) (use ok in simp_all)
  moreover have "bm_bdt ?s = [entry_at 0, entry_at 1]"
    using ok by (simp add: load_bdt_backup_def run catch_p_def rebuild_runs init_bbmd_def)
  ultimately show ?thesis unfolding Let_def by metis
qed

text \<open>C32: A broadcast heard on its subnet is sent by a BBMD once to every other BBMD of its table and
  once to every registered foreign device, and to nobody else; every copy is a Forwarded-NPDU
  with the same payload and the originator's (or the configured global) address.\<close>

theorem local_broadcast_is_distributed:
  assumes "bbmd_reach (init_bbmd loc cb bcast max_fdt max_bdt accept allow glob None path now) s"
    and "bip_ok orig" "length npdu + 10 < 65536"
    and "case bm_global_address s of None \<Rightarrow> True | Some g \<Rightarrow> bip_ok g"
  shows "\<exists>frame. carries_npdu frame npdu (announced_source s orig)
    \<and> handle_bvlc ORIGINAL_BROADCAST_NPDU npdu orig udp s
      = (Inr False, sends_to s frame (peer_targets s orig @ map fst (bm_fdt s)))"
proof -
  have inv: "bbmd_inv s" by (rule bbmd_machine.reachable_inv [OF assms(1) init_bbmd_inv]) simp
  have "bip_ok (announced_source s orig)"
    by (rule global_ok_source [OF assms(2)]) (use assms(4) in simp)
  then obtain frame where f: "encode_bvll FORWARDED_NPDU npdu (Some (announced_source s orig)) = Inr frame"
    "carries_npdu frame npdu (announced_source s orig)"
    by (rule forwarded_npdu_frame [OF _ assms(3)])
  have "device_targets s None = map fst (bm_fdt s)" by (simp add: device_targets_def)
  with f forward_runs [OF inv f(1), of None] show ?thesis
    by (intro exI [of _ frame]) (simp add: handle_bvlc_def handle_original_broadcast_def run seq_p_def run_bind)
qed

theorem local_broadcast_is_distributed_witness:
  "\<exists>frame. carries_npdu frame [1, 0, 16] (announced_source (bbmd_at 0) (host_at 0 9))
    \<and> handle_bvlc ORIGINAL_BROADCAST_NPDU [1, 0, 16] (host_at 0 9) None (bbmd_at 0)
      = (Inr False, sends_to (bbmd_at 0) frame
          (peer_targets (bbmd_at 0) (host_at 0 9) @ map fst (bm_fdt (bbmd_at 0))))"
  by (rule local_broadcast_is_distributed [OF reach_start host_ok]) (simp_all add: init_bbmd_def)

text \<open>C33: A broadcast forwarded by another BBMD is never passed on to a BBMD again: it goes to the
  registered foreign devices except its originator, to the local wire if the sender's entry has
  the all-ones mask, and once to the local application; one that this BBMD announced itself is
  dropped.\<close>

theorem forwarded_broadcast_goes_no_further:
  assumes "bbmd_reach (init_bbmd loc cb bcast max_fdt max_bdt accept allow glob None path now) s"
    and "bip_ok orig" "length npdu + 10 < 65536"
  shows "\<exists>frame. carries_npdu frame npdu orig
    \<and> handle_bvlc FORWARDED_NPDU npdu orig (Some udp) s =
      (if orig = bm_local_address s \<or> bm_global_address s = Some orig then (Inr True, s)
       else (Inr False, hands_up (sends_to s frame
         (filter (\<lambda>a. a \<noteq> orig) (map fst (bm_fdt s)) @ wire_targets s udp)) npdu orig))"
proof -
  have inv: "bbmd_inv s" by (rule bbmd_machine.reachable_inv [OF assms(1) init_bbmd_inv]) simp
  obtain frame where f: "encode_bvll FORWARDED_NPDU npdu (Some orig) = Inr frame" "carries_npdu frame npdu orig"
    by (rule forwarded_npdu_frame [OF assms(2,3)])
  have "device_targets s (Some orig) = filter (\<lambda>a. a \<noteq> orig) (map fst (bm_fdt s))"
    by (simp add: device_targets_def eq_commute)
  with f forwarded_runs [OF inv f(1), of udp] show ?thesis
    by (intro exI [of _ frame]) (auto simp: handle_bvlc_def run seq_p_def run_bind)
qed

theorem forwarded_broadcast_goes_no_further_witness:
  "handle_bvlc FORWARDED_NPDU [1, 0, 16] (host_at 0 1) (Some (host_at 1 1)) (bbmd_at 0) = (Inr True, bbmd_at 0)"
proof -
  have "bm_local_address (bbmd_at 0) = host_at 0 1" by (simp add: init_bbmd_def)
  moreover have "length [1, 0, 16 :: 8 word] + 10 < 65536" by simp
  note forwarded_broadcast_goes_no_further [OF reach_start host_ok this, where udp = "host_at 1 1"]
  ultimately show ?thesis by (metis (no_types, lifting))
qed

text \<open>C34: A foreign device registration is answered with success and kept, whatever else happens,
  until its time to live (at most an hour) and the 30 seconds of grace are over, unless the
  device registers again or is deleted; the first purge after that removes it.  Times are the floats of
  the monotonic clock: the expiry is the registration's clock reading plus the time to live plus 30, each
  sum rounded as Python rounds it, and it is over once a later reading is not below it.\<close>

theorem registration_lives_for_its_ttl:
  assumes "bbmd_reach (init_bbmd loc cb bcast max_fdt max_bdt accept allow glob None path now) s"
    and "granted s data src"
    and "reachable (untouched_event src) bbmd_event_proc
      (snd (bbmd_event_proc (Bvlc_Arrives REGISTER_FOREIGN_DEVICE data src src) s)) s'"
  shows "last (bm_sent (snd (bbmd_event_proc (Bvlc_Arrives REGISTER_FOREIGN_DEVICE data src src) s)))
      = (result_frame SUCCESSFUL_COMPLETION, src)
    \<and> (if F (f_add (f_add (bm_clock s) (float_of_int (min (int_from_bytes (take 2 data)) 3600)))
             (float_of_int 30)) \<le> F (bm_clock s')
       then map_of (bm_fdt (snd (bbmd_event_proc Purge_Runs s'))) src = None
       else map_of (bm_fdt s') src = Some (granted_entry s data src)
         \<and> map_of (bm_fdt (snd (bbmd_event_proc Purge_Runs s'))) src = Some (granted_entry s data src))"
proof -
  let ?e = "granted_entry s data src"
  let ?s1 = "snd (bbmd_event_proc (Bvlc_Arrives REGISTER_FOREIGN_DEVICE data src src) s)"
  have inv: "bbmd_inv s" by (rule bbmd_machine.reachable_inv [OF assms(1) init_bbmd_inv]) simp
  have s1: "?s1 = s\<lparr>bm_fdt := AList.update src ?e (bm_fdt s),
      bm_sent := bm_sent s @ [(result_frame SUCCESSFUL_COMPLETION, src)]\<rparr>"
    using register_runs [OF assms(2), of "Some src"] by (simp add: seq_p_def run_bind run)
  have "bbmd_inv ?s1" by (rule bbmd_machine.step_keeps [OF inv]) simp
  moreover have "living src ?e ?s1" unfolding s1 by (simp add: living_def fdt_at_def update_conv')
  ultimately have live: "bbmd_inv s'" "living src ?e s'"
    using living_machine.reachable_inv [OF assms(3)] by blast+
  have exp: "fd_expiry ?e = f_add (f_add (bm_clock s) (float_of_int (min (int_from_bytes (take 2 data)) 3600)))
      (float_of_int 30)"
    by (simp add: granted_entry_def Let_def expiry_at_def FDT_GRACE_PERIOD_SECONDS_def)
  have alive: "fdt_at src (Some ?e) s'" if "\<not> F (fd_expiry ?e) \<le> F (bm_clock s')"
    using live(2) that by (auto simp: living_def)
  have gone: "map_of (bm_fdt (snd (purge_expired_fdt_entries s'))) src = None"
    if "F (fd_expiry ?e) \<le> F (bm_clock s')"
    using live that purge_removes_expired [OF live(1) _ that]
    by (auto simp: living_def fdt_at_def purge_expired_fdt_entries_def run map_of_eq_None_iff)
  show ?thesis
    using alive gone purge_keeps_unexpired [OF live(1) alive]
    unfolding exp s1 by (auto simp: fdt_at_def not_less)
qed

theorem registration_lives_for_its_ttl_witness:
  "let s = snd (bbmd_event_proc (Bvlc_Arrives REGISTER_FOREIGN_DEVICE [0, 60] (host_at 0 7) (host_at 0 7))
      (bbmd_at 0));
    s' = snd (bbmd_event_proc (Clock_Reads 0x4056400000000000) s);
    s'' = snd (bbmd_event_proc (Clock_Reads 0x4056800000000000) s')
   in map_of (bm_fdt (snd (bbmd_event_proc Purge_Runs s'))) (host_at 0 7)
        = Some (granted_entry (bbmd_at 0) [0, 60] (host_at 0 7))
      \<and> map_of (bm_fdt (snd (bbmd_event_proc Purge_Runs s''))) (host_at 0 7) = None"
proof -
  define s where "s = snd (bbmd_event_proc (Bvlc_Arrives REGISTER_FOREIGN_DEVICE [0, 60] (host_at 0 7)
    (host_at 0 7)) (bbmd_at 0))"
  let ?s' = "snd (bbmd_event_proc (Clock_Reads 0x4056400000000000) s)"
  let ?s'' = "snd (bbmd_event_proc (Clock_Reads 0x4056800000000000) ?s')"
  have ttl: "int_from_bytes (take 2 [0, 60 :: 8 word]) = 60" by (simp add: int_from_bytes_def)
  then have granted: "granted (bbmd_at 0) [0, 60] (host_at 0 7)" by (simp add: granted_def init_bbmd_def)
  note lives = registration_lives_for_its_ttl [OF reach_start granted, folded s_def]
  have clock: "bm_clock (bbmd_at 0) = 0" "bm_clock s = 0"
    unfolding s_def bbmd_event_proc.simps seq_p_def using register_runs [OF granted]
    by (simp_all add: run run_bind init_bbmd_def)
  have r': "reachable (untouched_event (host_at 0 7)) bbmd_event_proc s ?s'"
    by (rule reach_event [OF reach_start]) (simp add: clock minute_order)
  then have r'': "reachable (untouched_event (host_at 0 7)) bbmd_event_proc s ?s''"
    by (rule reach_event) (simp add: run minute_order)
  have sums: "f_add (f_add 0 (float_of_int 60)) (float_of_int 30) = 0x4056800000000000"
    using minute_expires by (simp add: expiry_at_def FDT_GRACE_PERIOD_SECONDS_def)
  show ?thesis
    unfolding Let_def s_def [symmetric] using lives [OF r'] lives [OF r''] clock ttl
    by (simp add: run sums minute_order minute_floats del: num_le_refl)
qed



section \<open>Objects\<close>

text \<open>C18: Present_Value follows the command priorities.  Take a commandable object of a class without
  minimum on and off times, created with any initial values of the declared types, in whatever state
  earlier writes have left it, whose Present_Value is writable.  If every command of a non-empty sequence
  is acceptable (its priority is 1 to 16, and not 6 where the class defines a minimum time; its value
  passes the range checks of the class), then all of them succeed, in any order of priorities; afterwards
  the property shows the last command of the most urgent priority that was not relinquished, or the
  relinquish default, and Current_Command_Priority names that priority.\<close>

theorem present_value_follows_the_priorities:
  assumes "create_object ty inst initial = Inr ob0" "list_all (\<lambda>(pid, v). fitting ob0 pid v) initial"
    and "object_reach ob0 ob"
    and "ob_priority_array ob \<noteq> None" "\<not> oc_min_time (ob_class ob)" "pv_writable ob"
    and "list_all (accepts ob) cs" "cs \<noteq> []"
  defines "slots \<equiv> \<lambda>p. last_command (map (\<lambda>(p, v). (p, coerce_value (pv_type ob) v)) cs) (slot_of ob p) p"
  shows "\<exists>ob'. each_p (write_pv now) cs ob = (Inr (), ob')
    \<and> get_prop P_PRESENT_VALUE ob' = winner ONone slots (get_prop P_RELINQUISH_DEFAULT ob)
    \<and> read_property ob' P_CURRENT_COMMAND_PRIORITY None =
        Inr (case most_urgent ONone slots of None \<Rightarrow> ONone | Some p \<Rightarrow> OInt (int p))"
proof -
  have "object_inv ob0" using created_fresh [OF assms(1,2)] by (simp add: fresh_def)
  then have "object_inv ob" by (rule object_machine.reachable_inv [OF assms(3)])
  then have ob: "commandable ob" using assms(4,5) by (simp add: commandable_def)
  define cs' where "cs' = map (\<lambda>(p, v). (p, coerce_value (pv_type ob) v)) cs"
  have valid: "commands.valid cs'" "cs' \<noteq> []"
    using assms(7,8) by (auto simp: commands.valid_def cs'_def list_all_iff accepts_def)
  let ?ob = "commands.run_commands cs' ob"
  have slots: "slots = (\<lambda>p. last_command cs' (slot_of ob p) p)" by (simp add: slots_def cs'_def)
  have "most_urgent ONone (slot_of ?ob) = most_urgent ONone slots"
    unfolding slots by (rule most_urgent_cong) (rule commands.run_facts(3) [OF ob valid(1)])
  then have "read_property ?ob P_CURRENT_COMMAND_PRIORITY None =
      Inr (case most_urgent ONone slots of None \<Rightarrow> ONone | Some p \<Rightarrow> OInt (int p))"
    using read_command_priority [OF commands.run_facts(1) [OF ob valid(1)]] by simp
  then show ?thesis
    using write_pvs_run [OF ob assms(6,7)] commands.shown_history [OF ob valid] by (simp add: cs'_def slots)
qed

text \<open>A multi-state output and a binary output.\<close>

definition sample_output :: bac_object where
  "sample_output = (case create_object OT_MULTI_STATE_OUTPUT 7 [] of Inr ob \<Rightarrow> ob)"

lemma sample_output_created: "create_object OT_MULTI_STATE_OUTPUT 7 [] = Inr sample_output"
  by code_simp

lemma sample_output_facts:
  "ob_priority_array sample_output = Some (replicate 16 ONone)" "\<not> oc_min_time (ob_class sample_output)"
  "list_all (accepts sample_output) [(8, OInt 2), (3, OInt 1), (3, ONone)]" "pv_type sample_output = T_int"
  by code_simp+

lemma sample_output_writable: "pv_writable sample_output"
proof -
  have "map_option pd_access (map_of (oc_definitions (ob_class sample_output)) P_PRESENT_VALUE) = Some READ_WRITE"
    by code_simp
  then show ?thesis by (auto simp: pv_writable_def)
qed

theorem present_value_follows_the_priorities_witness:
  "\<exists>ob'. each_p (write_pv 0) [(8, OInt 2), (3, OInt 1), (3, ONone)] sample_output = (Inr (), ob')
    \<and> get_prop P_PRESENT_VALUE ob' = OInt 2
    \<and> read_property ob' P_CURRENT_COMMAND_PRIORITY None = Inr (OInt 8)"
proof -
  have slots: "slot_of sample_output = (\<lambda>p. replicate 16 ONone ! (p - 1))"
    by (simp add: slot_of_def sample_output_facts fun_eq_iff del: replicate.simps)
  have "most_urgent ONone (\<lambda>p. last_command [(8, OInt 2), (3, OInt 1), (3, ONone)] (slot_of sample_output p) p) = Some 8"
    unfolding slots by code_simp
  then show ?thesis
    using present_value_follows_the_priorities [OF sample_output_created _ reach_start _ sample_output_facts(2)
        sample_output_writable sample_output_facts(3), of 0]
    by (simp add: sample_output_facts winner_def last_command_def)
qed

text \<open>C20: Objects keep their state together.  Whatever is written to an object after its creation with
  initial values of the declared types, successful or not, with whatever priorities and indices, and
  whenever its lock is checked: the priority array has its sixteen slots and is what the property shows; a
  value held by a minimum time lock is what Present_Value shows; and while no such lock is set (which for
  a class without minimum times is always) Present_Value is the most urgent command whenever one is in
  force.\<close>

theorem object_state_invariant:
  assumes "create_object ty inst initial = Inr ob0" "list_all (\<lambda>(pid, v). fitting ob0 pid v) initial"
    and "object_reach ob0 ob"
  shows "(ob_priority_array ob = Some pa \<longrightarrow> length pa = 16 \<and> get_prop P_PRIORITY_ARRAY ob = OList pa
      \<and> (ob_lock_until ob = None \<longrightarrow> most_urgent ONone (slot_of ob) = Some p
          \<longrightarrow> get_prop P_PRESENT_VALUE ob = slot_of ob p))
    \<and> (ob_lock_until ob \<noteq> None \<longrightarrow> oc_min_time (ob_class ob) \<and> get_prop P_PRESENT_VALUE ob = ob_locked_value ob)
    \<and> distinct (map fst (ob_properties ob))"
proof -
  have "object_inv ob0" using created_fresh [OF assms(1,2)] by (simp add: fresh_def)
  then have inv: "object_inv ob" by (rule object_machine.reachable_inv [OF assms(3)])
  have "get_prop P_PRESENT_VALUE ob = slot_of ob p"
    if "ob_priority_array ob = Some pa" "ob_lock_until ob = None" "most_urgent ONone (slot_of ob) = Some p"
    using inv that(1,2) slot_winner [OF that(1) _ that(3)]
    by (auto simp: object_inv_def winner_shown_def slots_ok_def)
  then show ?thesis using inv by (auto simp: object_inv_def slots_ok_def lock_shown_def split: option.splits)
qed

definition sample_write :: object_event where
  "sample_write = Object_write 0 P_PRESENT_VALUE (OInt 2) (Some 3) None"

lemma sample_write_slots:
  "ob_priority_array (snd (object_event_proc sample_write sample_output)) = Some ((replicate 16 ONone)[2 := OInt 2])"
  by code_simp

theorem object_state_invariant_witness:
  "get_prop P_PRIORITY_ARRAY (snd (object_event_proc sample_write sample_output)) = OList ((replicate 16 ONone)[2 := OInt 2])"
proof -
  have "list_all (\<lambda>(pid, v). fitting sample_output pid v) []" by simp
  from object_state_invariant [OF sample_output_created this reach_event [OF reach_start]] sample_write_slots
  show ?thesis by blast
qed

text \<open>C19: Types at run time.  An object created with initial values of the declared types holds in every
  property nothing or a value of the declared type: an int (or a bool or an enum member, which are ints),
  a float, a bool, a string, octets, a list, a member of the declared enum, or an instance of the declared
  class of primitives or constructed types.  Writes whose value has the declared type after coercion keep
  it so, whatever priorities, relinquish defaults, array elements and minimum time locks are involved.
  (What the elements of a list are is not part of a declaration.)\<close>

theorem object_values_have_their_types:
  assumes "create_object ty inst initial = Inr ob0" "list_all (\<lambda>(pid, v). fitting ob0 pid v) initial"
    and "reachable typed_event object_event_proc ob0 ob"
    and "map_of (oc_definitions (ob_class ob)) pid = Some d" "get_prop pid ob \<noteq> ONone"
  shows "has_type (pd_datatype d) (get_prop pid ob)"
proof -
  have "typed ob0 \<and> object_inv ob0" using created_fresh [OF assms(1,2)] by (simp add: fresh_def)
  then have "typed ob" using typed_machine.reachable_inv [OF assms(3)] by blast
  from typedD(1) [OF this, of pid] assms(4,5) show ?thesis by (simp add: fits_def)
qed

theorem object_values_have_their_types_witness:
  "has_type T_int (get_prop P_PRESENT_VALUE (snd (object_event_proc sample_write sample_output)))"
proof -
  let ?ob = "snd (object_event_proc sample_write sample_output)"
  have "typed_event sample_output sample_write" by code_simp
  moreover have "map_option pd_datatype (map_of (oc_definitions (ob_class ?ob)) P_PRESENT_VALUE) = Some T_int"
    "get_prop P_PRESENT_VALUE ?ob = OInt 2"
    by code_simp+
  ultimately show ?thesis
    using object_values_have_their_types [OF sample_output_created _ reach_event [OF reach_start], of sample_write P_PRESENT_VALUE]
    by auto
qed

text \<open>C23: A write_property of an object that is in no database leaves the object as it was when it
  fails, with whatever exception, unless its class keeps minimum on and off times.  (The name index and the
  revision of a database are outside the object; they are not part of this claim.)\<close>

theorem failed_write_changes_nothing:
  assumes "write_property now pid v prio idx ob = (Inl e, ob')" "\<not> oc_min_time (ob_class ob)"
  shows "ob' = ob"
  by (rule failed_write_keeps [OF assms])

theorem failed_write_changes_nothing_witness:
  "\<exists>e. write_property 0 P_NUMBER_OF_STATES (OInt 0) None None sample_output = (Inl e, sample_output)"
proof -
  have "map_option (\<lambda>r. ()) (case fst (write_property 0 P_NUMBER_OF_STATES (OInt 0) None None sample_output) of
      Inl e \<Rightarrow> None | Inr r \<Rightarrow> Some r) = None"
    by code_simp
  then obtain e ob' where "write_property 0 P_NUMBER_OF_STATES (OInt 0) None None sample_output = (Inl e, ob')"
    by (cases "write_property 0 P_NUMBER_OF_STATES (OInt 0) None None sample_output") (auto split: sum.splits)
  then show ?thesis using failed_write_changes_nothing [OF _ sample_output_facts(2)] by blast
qed



text \<open>C21: A minimum on or off time is kept.  Take a commandable binary object of a class with minimum
  times, in any state that satisfies the object invariant, with a lock in force, an expired one, or none.
  Whatever event switches Present_Value between on and off (a command, a relinquish, a change that an
  expired lock had held back) and returns: if Minimum_On_Time, when it is switched on, or Minimum_Off_Time,
  when off, is a positive integer, then until that many seconds have passed Present_Value stays as it is,
  whatever is written to the object, at whatever priority.\<close>

theorem minimum_time_is_kept:
  assumes "object_inv ob" "ob_priority_array ob = Some pa" "oc_min_time (ob_class ob)"
    and "object_event_proc ev ob = (Inr (), ob1)"
    and "get_prop P_PRESENT_VALUE ob = OEnum ''BinaryPV'' b"
    and "get_prop P_PRESENT_VALUE ob1 = OEnum ''BinaryPV'' b'" "b' \<noteq> b" "b' \<in> {0, 1}"
    and "get_prop (if b' = 1 then P_MINIMUM_ON_TIME else P_MINIMUM_OFF_TIME) ob = OInt n" "0 < n"
    and "num_add (F (event_time ev)) (I n) = Inr until"
    and "reachable (before until) object_event_proc ob1 ob'"
  shows "get_prop P_PRESENT_VALUE ob' = OEnum ''BinaryPV'' b'"
proof -
  have "holding until (OEnum ''BinaryPV'' b') ob1"
    using lock_starts [OF assms(1-8) _ assms(10,11)] assms(9) by (simp add: min_time_of_def)
  then show ?thesis using holding_machine.reachable_inv [OF assms(12)] holding_value by blast
qed

definition sample_binary :: bac_object where
  "sample_binary = (case create_object OT_BINARY_OUTPUT 1 [(P_MINIMUM_ON_TIME, OInt 5)] of Inr ob \<Rightarrow> ob)"

definition switch_on :: object_event where
  "switch_on = Object_write 0 P_PRESENT_VALUE (OInt 1) (Some 8) None"

theorem minimum_time_is_kept_witness:
  "get_prop P_PRESENT_VALUE (snd (object_event_proc (Object_write 0x4000000000000000 P_PRESENT_VALUE (OInt 0) (Some 1) None)
     (snd (object_event_proc switch_on sample_binary)))) = OEnum ''BinaryPV'' 1"
proof -
  have created: "create_object OT_BINARY_OUTPUT 1 [(P_MINIMUM_ON_TIME, OInt 5)] = Inr sample_binary" by code_simp
  have fits: "list_all (\<lambda>(pid, v). fitting sample_binary pid v) [(P_MINIMUM_ON_TIME, OInt 5)]" by code_simp
  have inv: "object_inv sample_binary" using created_fresh [OF created fits] by (simp add: fresh_def)
  have facts: "ob_priority_array sample_binary = Some (replicate 16 ONone)" "oc_min_time (ob_class sample_binary)"
    "ob_lock_until sample_binary = None" "get_prop P_PRESENT_VALUE sample_binary = OEnum ''BinaryPV'' 0"
    "get_prop P_MINIMUM_ON_TIME sample_binary = OInt 5" "class_guard sample_binary P_PRESENT_VALUE (OInt 1) = Inr ()"
    "map_option (\<lambda>d. (pd_access d, pd_datatype d)) (map_of (oc_definitions (ob_class sample_binary)) P_PRESENT_VALUE)
       = Some (READ_WRITE, T_enum ''BinaryPV'')" "coerce_value (T_enum ''BinaryPV'') (OInt 1) = OEnum ''BinaryPV'' 1"
    "winning_command ((replicate 16 ONone)[nat (8 - 1) := OEnum ''BinaryPV'' 1]) 0 = Some (7, OEnum ''BinaryPV'' 1)"
    by code_simp+
  let ?on = "snd (object_event_proc switch_on sample_binary)" and ?c = "commanded 7 (OEnum ''BinaryPV'' 1) sample_binary"
  note f = commanded_facts [OF facts(1) inv, where idx = 7 and v = "OEnum ''BinaryPV'' 1"]
  have on: "?on = ?c\<lparr>ob_lock_until := Some (F 0x4014000000000000), ob_locked_value := OEnum ''BinaryPV'' 1\<rparr>"
    "fst (object_event_proc switch_on sample_binary) = Inr ()"
  proof -
    obtain d where d: "map_of (oc_definitions (ob_class sample_binary)) P_PRESENT_VALUE = Some d"
      "pd_access d = READ_WRITE" "pd_datatype d = T_enum ''BinaryPV''"
      using facts(7) by auto
    have mins: "min_time_of 1 ?c = OInt 5" using f(3) [OF _ untouched_min_times(1)] facts(5) by (simp add: min_time_of_def)
    have pv: "get_prop P_PRESENT_VALUE ?c = OEnum ''BinaryPV'' 1" "ob_lock_until ?c = None"
      using f(2,5) facts(3,9) by simp_all
    have "write_property 0 P_PRESENT_VALUE (OInt 1) (Some 8) None sample_binary
        = (Inr (Some (OEnum ''BinaryPV'' 0, OEnum ''BinaryPV'' 1)),
           ?c\<lparr>ob_lock_until := Some (F 0x4014000000000000), ob_locked_value := OEnum ''BinaryPV'' 1\<rparr>)"
      using d facts(1-4,6,8) mins pv start_lock_runs [of 1 ?c 5 0, OF _ mins _ in_five_seconds]
      by (simp add: write_property_def write_access_def store_property_def Let_def run seq_p_def run_bind
          is_commandable_def write_with_priority_def min_time_write_with_priority_def base_write_runs num_eq_int)
    then show "?on = ?c\<lparr>ob_lock_until := Some (F 0x4014000000000000), ob_locked_value := OEnum ''BinaryPV'' 1\<rparr>"
      "fst (object_event_proc switch_on sample_binary) = Inr ()"
      by (simp_all add: switch_on_def seq_p_def run_bind run)
  qed
  have "object_event_proc switch_on sample_binary = (Inr (), ?on)" using on(2) by (simp add: prod_eq_iff)
  moreover have "get_prop P_PRESENT_VALUE ?on = OEnum ''BinaryPV'' 1" using f(2) facts(9) by (simp add: on(1))
  moreover have soon: "before (F 0x4014000000000000) ob (Object_write 0x4000000000000000 P_PRESENT_VALUE (OInt 0) (Some 1) None)" for ob
    unfolding before_def num_order num_key_def num_nan_def
    by (simp add: five_seconds Let_def f_nan_def f_inf_def f64_parts_def f_scaled_def)
  moreover have "reachable (before (F 0x4014000000000000)) object_event_proc ob (snd (object_event_proc
      (Object_write 0x4000000000000000 P_PRESENT_VALUE (OInt 0) (Some 1) None) ob))" for ob
    by (rule reach_event [OF reach_start]) (rule soon)
  ultimately show ?thesis
    using minimum_time_is_kept [OF inv facts(1,2), of switch_on ?on 0 1 5] facts(4,5) in_five_seconds
    by (simp add: switch_on_def)
qed

section \<open>The object database\<close>

text \<open>C24: The object database keeps its indexes.  Whatever objects are added and removed, whatever is
  written to them and whatever callbacks come and go: identifiers are unique, the index by type lists
  exactly the objects of each type in the order they were added, the device object is there, and two
  objects never have the same name; the index of names finds each object by its name.  Two kinds of
  writes of Object_Name are left out, because they change the index of names before they fail: with an
  array index, and while the device's Database_Revision, which a rename counts up, is not a number.
  Objects are added in a state that satisfies their own invariant (as created ones do).\<close>

theorem object_database_invariant:
  assumes "reachable name_event db_event_proc empty_db db"
  shows "distinct (object_list db)
    \<and> get_objects_of_type ty db = filter (\<lambda>i. object_type i = ty) (object_list db)
    \<and> (db_device db = Some dev \<longrightarrow> dev \<in> set (object_list db) \<and> object_type dev = OT_DEVICE)
    \<and> (map_of (db_objects db) i = Some ob \<longrightarrow> ob_id ob = i \<and> object_inv ob
        \<and> (get_prop P_OBJECT_NAME ob = OStr s \<longrightarrow> find_name db (OStr s) = Inr (Some i)
           \<and> (map_of (db_objects db) j = Some ob' \<and> get_prop P_OBJECT_NAME ob' = OStr s \<longrightarrow> j = i)))"
proof -
  have inv: "db_inv db" "names_ok db"
    using name_machine.reachable_inv [OF assms] empty_db_ok by auto
  have found: "named db (OStr s) = Some i" if "map_of (db_objects db) i = Some ob" "get_prop P_OBJECT_NAME ob = OStr s" for i ob
    using inv(2) map_of_SomeD [OF that(1)] that(2) by (auto simp: names_ok_def)
  then have "j = i" if "map_of (db_objects db) i = Some ob" "map_of (db_objects db) j = Some ob'"
    "get_prop P_OBJECT_NAME ob = OStr s" "get_prop P_OBJECT_NAME ob' = OStr s"
    using that by (metis option.inject)
  then show ?thesis
    using inv(1) object_found [OF inv(1), of i ob] found [of i ob]
    by (auto simp: db_inv_def indexed_def find_name_def)
qed

definition sample_object :: "int \<Rightarrow> int list \<Rightarrow> bac_object" where
  "sample_object inst name = (case create_object OT_MULTI_STATE_OUTPUT inst [(P_OBJECT_NAME, OStr name)] of Inr ob \<Rightarrow> ob)"

lemma sample_object_inv: "object_inv (sample_object 1 [65])" "object_inv (sample_object 2 [66])"
proof -
  have "create_object OT_MULTI_STATE_OUTPUT 1 [(P_OBJECT_NAME, OStr [65])] = Inr (sample_object 1 [65])"
    "create_object OT_MULTI_STATE_OUTPUT 2 [(P_OBJECT_NAME, OStr [66])] = Inr (sample_object 2 [66])"
    by code_simp+
  moreover have "list_all (\<lambda>(pid, v). fitting (sample_object 1 [65]) pid v) [(P_OBJECT_NAME, OStr [65])]"
    "list_all (\<lambda>(pid, v). fitting (sample_object 2 [66]) pid v) [(P_OBJECT_NAME, OStr [66])]"
    by code_simp+
  ultimately have "fresh (sample_object 1 [65])" "fresh (sample_object 2 [66])"
    using created_fresh by blast+
  then show "object_inv (sample_object 1 [65])" "object_inv (sample_object 2 [66])" by (simp_all add: fresh_def)
qed

definition sample_db :: object_db where
  "sample_db = snd (db_event_proc (Db_add (sample_object 2 [66])) (snd (db_event_proc (Db_add (sample_object 1 [65])) empty_db)))"

lemma sample_db_reached: "reachable name_event db_event_proc empty_db sample_db"
  unfolding sample_db_def
  by (rule reach_event, rule reach_event [OF reach_start]) (simp_all add: sample_object_inv)

theorem object_database_invariant_witness:
  "get_objects_of_type OT_MULTI_STATE_OUTPUT sample_db = object_list sample_db \<and> length (object_list sample_db) = 2
   \<and> find_name sample_db (OStr [66]) = Inr (Some \<lparr>object_type = OT_MULTI_STATE_OUTPUT, instance_number = 2\<rparr>)"
proof -
  let ?i = "\<lparr>object_type = OT_MULTI_STATE_OUTPUT, instance_number = 2\<rparr>"
  have list: "object_list sample_db = [\<lparr>object_type = OT_MULTI_STATE_OUTPUT, instance_number = 1\<rparr>, ?i]" by code_simp
  have "map_option (get_prop P_OBJECT_NAME) (map_of (db_objects sample_db) ?i) = Some (OStr [66])" by code_simp
  then obtain ob where "map_of (db_objects sample_db) ?i = Some ob" "get_prop P_OBJECT_NAME ob = OStr [66]" by auto
  then show ?thesis
    using object_database_invariant [OF sample_db_reached, of OT_MULTI_STATE_OUTPUT _ ?i ob "[66]" ?i ob] list by simp
qed

text \<open>Renaming with an array index fails, but leaves the index of names without the old name, so that
  another object can take it.\<close>

theorem indexed_rename_breaks_uniqueness:
  "let i1 = \<lparr>object_type = OT_MULTI_STATE_OUTPUT, instance_number = 1\<rparr>;
       i2 = \<lparr>object_type = OT_MULTI_STATE_OUTPUT, instance_number = 2\<rparr>;
       failed = db_write 0 i2 P_OBJECT_NAME (OStr [67]) None (Some 1) sample_db;
       taken = db_write 0 i1 P_OBJECT_NAME (OStr [66]) None None (snd failed)
   in fst failed = Inl (bacnet_error EC_PROPERTY CODE_PROPERTY_IS_NOT_AN_ARRAY) \<and> fst taken = Inr ()
      \<and> db_read (snd taken) i1 P_OBJECT_NAME None = Inr (OStr [66])
      \<and> db_read (snd taken) i2 P_OBJECT_NAME None = Inr (OStr [66])"
  by code_simp

text \<open>C25: A change reaches the callbacks.  Take an object of a database that is wired to notify it (its
  change hook is installed, which every registration for an object then in the database does).
  A successful write of a whole property other than Object_Name, without an array index, calls the callbacks
  registered for that property, in order, each once, with the old and the new value, exactly when the value
  compares unequal to what it was; the callbacks of other properties and objects are not called.\<close>

theorem changes_reach_the_callbacks:
  assumes "db_inv db" "map_of (db_objects db) i = Some ob" "ob_notifies ob" "pid \<noteq> P_OBJECT_NAME"
    and "db_write now i pid v prio None db = (Inr (), db')" "map_of (db_objects db') i = Some ob'"
  shows "db_calls db' = db_calls db @ (if py_eq (get_prop pid ob) (get_prop pid ob') then []
    else map (\<lambda>cb. (cb, pid, get_prop pid ob, get_prop pid ob')) (callbacks_of db i pid))"
  by (rule write_calls [OF assms])

theorem changes_reach_the_callbacks_witness:
  "let i = \<lparr>object_type = OT_MULTI_STATE_OUTPUT, instance_number = 1\<rparr>;
       db = snd (db_event_proc (Db_register i P_PRESENT_VALUE 9) sample_db)
   in db_calls (snd (db_write 0 i P_PRESENT_VALUE (OInt 2) (Some 8) None db)) = [(9, P_PRESENT_VALUE, OInt 1, OInt 2)]"
proof -
  let ?i = "\<lparr>object_type = OT_MULTI_STATE_OUTPUT, instance_number = 1\<rparr>"
  let ?db = "snd (db_event_proc (Db_register ?i P_PRESENT_VALUE 9) sample_db)"
  let ?w = "db_write 0 ?i P_PRESENT_VALUE (OInt 2) (Some 8) None ?db"
  have "reachable name_event db_event_proc empty_db ?db" by (rule reach_event [OF sample_db_reached]) simp
  then have inv: "db_inv ?db" using name_machine.reachable_inv [of empty_db ?db] empty_db_ok by blast
  have "map_option (\<lambda>ob. (get_prop P_PRESENT_VALUE ob, ob_notifies ob)) (map_of (db_objects ?db) ?i) = Some (OInt 1, True)"
    "map_option (get_prop P_PRESENT_VALUE) (map_of (db_objects (snd ?w)) ?i) = Some (OInt 2)"
    "db_calls ?db = []" "callbacks_of ?db ?i P_PRESENT_VALUE = [9]" "fst ?w = Inr ()"
    by code_simp+
  moreover from this obtain ob ob' where "map_of (db_objects ?db) ?i = Some ob" "map_of (db_objects (snd ?w)) ?i = Some ob'"
    by auto
  ultimately show ?thesis
    using changes_reach_the_callbacks [OF inv, of ?i ob P_PRESENT_VALUE 0 "OInt 2" "Some 8" "snd ?w" ob']
    by (simp add: Let_def prod_eq_iff)
qed

section \<open>Events and alarms\<close>

text \<open>C26: The event state machine is a delay over its history.  The machine keeps one pending state and
  one time; the reference keeps nothing but the samples since the last transition and looks back for how
  long the newest ones have asked for the same state.  On every sequence of samples, with and without
  faults, in which the event algorithm itself never gives FAULT (of the algorithms only a vendor's callback
  for an EXTENDED event can), both report the same transitions, and the machine never raises.\<close>

theorem event_machine_is_a_delay:
  assumes "pending_state m = None" "list_all (\<lambda>(r, f, t). r \<noteq> Some EV_FAULT) samples"
  shows "machine_run samples m = map Inr (reference_run (config_of m) samples (event_state m, []))"
  by (rule machine_run_reference [OF related_start [OF assms(1)] assms(2)])

theorem event_machine_is_a_delay_witness:
  "machine_run [(Some EV_HIGH_LIMIT, False, 0), (None, True, 0)] new_event_machine =
     [Inr (Some \<lparr>from_state = EV_NORMAL, to_state = EV_HIGH_LIMIT, timestamp = 0\<rparr>),
      Inr (Some \<lparr>from_state = EV_HIGH_LIMIT, to_state = EV_FAULT, timestamp = 0\<rparr>)]"
proof -
  have "F 0 \<le> I 0" by (simp add: num_order num_key_def num_nan_def f_nan_def f_inf_def f_scaled_def f64_parts_def)
  then show ?thesis
    using event_machine_is_a_delay [of new_event_machine "[(Some EV_HIGH_LIMIT, False, 0), (None, True, 0)]"]
    by (simp add: new_event_machine_def config_of_def effective_time_delay_normal_def reference_step_def wanted_def due_def)
qed

text \<open>C27: No transition before its delay.  When a machine with a positive delay reports a transition that
  no fault caused, then from some earlier sample on every sample without a fault asked for that state, and
  since then at least the delay has passed.  (Samples with a fault that is not reported are skipped, so
  the condition need not have been observed during a fault.)\<close>

theorem no_transition_before_its_delay:
  assumes "pending_state m = None" "list_all (\<lambda>(r, f, t). r \<noteq> Some EV_FAULT) (samples @ [(r, False, t)])"
    and "last (machine_run (samples @ [(r, False, t)]) m) = Inr (Some tr)"
    and "d = (if to_state tr = EV_NORMAL then effective_time_delay_normal m else time_delay m)" "\<not> F d \<le> I 0"
  shows "\<exists>older r0 t0 newer. samples = older @ (r0, False, t0) # newer
    \<and> list_all (\<lambda>(r', f', t'). f' \<or> wanted (config_of m) (from_state tr) r' = Some (to_state tr))
        ((r0, False, t0) # newer @ [(r, False, t)])
    \<and> F d \<le> F (f_sub t t0)"
proof (rule reference_waits)
  show "fst (reference_step (config_of m) (reference_state (config_of m) samples (event_state m, [])) r False t) = Some tr"
    using assms(3) machine_run_reference [OF related_start [OF assms(1)] assms(2)]
    by (simp add: reference_run_append split: prod.splits)
  show "d = (if to_state tr = EV_NORMAL then delay_normal (config_of m) else delay_offnormal (config_of m))"
    using assms(4) by (simp add: config_of_def)
qed (rule assms(5))

definition sample_machine :: event_machine where
  "sample_machine = new_event_machine\<lparr>time_delay := 0x4014000000000000\<rparr>"

lemma sample_machine_fields [simp]:
  "pending_state sample_machine = None" "event_state sample_machine = EV_NORMAL"
  "event_enable sample_machine = [True, True, True]" "time_delay sample_machine = 0x4014000000000000"
  "effective_time_delay_normal sample_machine = 0x4014000000000000"
  by (simp_all add: sample_machine_def new_event_machine_def effective_time_delay_normal_def)

theorem no_transition_before_its_delay_witness:
  "\<exists>older r0 t0 newer. [(Some EV_HIGH_LIMIT, False, 0)] = older @ (r0, False, t0) # newer
    \<and> F 0x4014000000000000 \<le> F (f_sub 0x4014000000000000 t0)"
proof -
  let ?tr = "\<lparr>from_state = EV_NORMAL, to_state = EV_HIGH_LIMIT, timestamp = 0x4014000000000000\<rparr>"
  have "machine_run ([(Some EV_HIGH_LIMIT, False, 0)] @ [(Some EV_HIGH_LIMIT, False, 0x4014000000000000)]) sample_machine
      = [Inr None, Inr (Some ?tr)]"
    by (subst machine_run_reference [OF related_start])
      (simp_all add: config_of_def reference_step_def wanted_def due_def five_minus_zero five_positive five_seconds)
  then show ?thesis
    using no_transition_before_its_delay [of sample_machine "[(Some EV_HIGH_LIMIT, False, 0)]" "Some EV_HIGH_LIMIT"
        "0x4014000000000000" ?tr "0x4014000000000000"] five_positive by fastforce
qed

text \<open>C28: A lasting condition is reported.  Let a state other than FAULT be asked for that is not the
  present one, by an algorithm's result or, for the return to NORMAL, by no result, and let its transition
  be enabled in Event_Enable (the third bit for NORMAL, the first for any other state).  When every sample
  asks for that state, no fault occurs, and the last sample comes at least the delay after the first, the
  machine has reported the transition by then.\<close>

theorem lasting_condition_is_reported:
  assumes "pending_state m = None" "s \<noteq> event_state m" "s \<noteq> EV_FAULT"
    and "if s = EV_NORMAL then event_enable m ! 2 else event_enable m ! 0"
    and "list_all (\<lambda>(r, f, t). (case r of Some s' \<Rightarrow> s' | None \<Rightarrow> EV_NORMAL) = s \<and> \<not> f)
      ((r0, False, t0) # samples @ [(r1, False, t1)])"
    and "F (if s = EV_NORMAL then effective_time_delay_normal m else time_delay m) \<le> F (f_sub t1 t0)"
  shows "\<exists>t. Inr (Some \<lparr>from_state = event_state m, to_state = s, timestamp = t\<rparr>)
    \<in> set (machine_run ((r0, False, t0) # samples @ [(r1, False, t1)]) m)"
proof -
  let ?c = "config_of m" and ?samples = "(r0, False, t0) # samples @ [(r1, False, t1)]"
  have ok: "list_all (\<lambda>(r, f, t). r \<noteq> Some EV_FAULT) ?samples" using assms(3,5) by (fastforce simp: list_all_iff)
  have w: "wanted ?c (event_state m) r = Some s" if "(case r of Some s' \<Rightarrow> s' | None \<Rightarrow> EV_NORMAL) = s" for r
    using assms(2,4) that by (auto simp: wanted_def config_of_def Let_def split: option.splits)
  then have w0: "wanted ?c (event_state m) r0 = Some s" and w1: "wanted ?c (event_state m) r1 = Some s"
    using assms(5) by simp_all
  have "\<exists>t. Some \<lparr>from_state = event_state m, to_state = s, timestamp = t\<rparr>
      \<in> set (reference_run ?c ?samples (event_state m, []))"
  proof (cases "due ?c s [] t0")
    case True
    then show ?thesis using w0 by (auto simp: reference_step_def split: prod.split)
  next
    case False
    have "\<exists>tr \<in> set (reference_run ?c (samples @ [(r1, False, t1)]) (event_state m, [(Some s, t0)])).
        \<exists>t. tr = Some \<lparr>from_state = event_state m, to_state = s, timestamp = t\<rparr>"
      using assms(5,6) w w1 by (intro reference_reports) (fastforce simp: list_all_iff newest_def config_of_def)+
    then show ?thesis using False w0 by (auto simp: reference_step_def)
  qed
  then show ?thesis unfolding machine_run_reference [OF related_start [OF assms(1)] ok] by force
qed

definition alarm_machine :: event_machine where
  "alarm_machine = sample_machine\<lparr>event_state := EV_HIGH_LIMIT\<rparr>"

text \<open>Two samples in range, five seconds apart, in a state of alarm.\<close>

theorem lasting_condition_is_reported_witness:
  "\<exists>t. Inr (Some \<lparr>from_state = EV_HIGH_LIMIT, to_state = EV_NORMAL, timestamp = t\<rparr>)
    \<in> set (machine_run [(None, False, 0), (None, False, 0x4014000000000000)] alarm_machine)"
proof -
  have fields: "pending_state alarm_machine = None" "event_state alarm_machine = EV_HIGH_LIMIT"
    "event_enable alarm_machine = [True, True, True]" "effective_time_delay_normal alarm_machine = 0x4014000000000000"
    by (simp_all add: alarm_machine_def sample_machine_def new_event_machine_def effective_time_delay_normal_def)
  show ?thesis
    using lasting_condition_is_reported [of alarm_machine EV_NORMAL None 0 "[]" None "0x4014000000000000"] fields
    by (simp add: five_minus_zero five_positive five_seconds del: machine_run.simps)
qed

definition empty_engine :: event_engine where
  "empty_engine = \<lparr>ee_db = empty_db, ee_contexts = [], ee_sent = []\<rparr>"

text \<open>C29: The event state that is read is the state of the engine's machine.  Start from an empty database,
  and let objects be added, removed, written and watched and the engine run its cycles in any order: what
  Event_State of an object with intrinsic reporting holds is the state of its event state machine, and the
  in-alarm flag of Status_Flags is set exactly when that is not NORMAL.  (A cycle in which an object makes
  Python raise, and a new object that meets the machine of one that had its identifier before, are left
  out.)\<close>

theorem event_state_is_reported:
  assumes "reachable engine_event_ok engine_event_proc empty_engine e"
    and "map_of (db_objects (ee_db e)) i = Some ob" "oc_algorithm (ob_class ob) \<noteq> None"
    and "map_of (ee_contexts e) (object_type i, instance_number i) = Some m"
    and "map_of (oc_definitions (ob_class ob)) P_STATUS_FLAGS \<noteq> None"
  shows "get_prop P_EVENT_STATE ob = OEnum ''EventState'' (event_state m)
    \<and> (\<exists>f. db_read (ee_db e) i P_STATUS_FLAGS None = Inr (OFlags f) \<and> (in_alarm f \<longleftrightarrow> event_state m \<noteq> EV_NORMAL))"
proof -
  have "engine_inv empty_engine"
    using empty_db_ok(1) by (simp add: empty_engine_def engine_inv_def all_shown_def) (simp add: empty_db_def)
  then have "engine_inv e" using engine_machine.reachable_inv [OF assms(1)] by blast
  then have "shown (context_of e i) i ob" using assms(2) by (simp add: engine_inv_def all_shown_def)
  then have state: "get_prop P_EVENT_STATE ob = OEnum ''EventState'' (event_state m)"
    using assms(3,4) by (auto simp: shown_def context_of_def)
  then show ?thesis
    using assms(2,5) by (auto simp: db_read_def read_property_def base_read_property_def get_status_flags_def num_eq_int Let_def)
qed

definition sample_input :: bac_object where
  "sample_input = (case create_object OT_ANALOG_INPUT 1 [(P_OBJECT_NAME, OStr [65]),
     (P_PRESENT_VALUE, OFloat 0x4024000000000000), (P_HIGH_LIMIT, OFloat 0x4014000000000000), (P_LOW_LIMIT, OFloat 0),
     (P_NOTIFICATION_CLASS, OInt 7)] of Inr ob \<Rightarrow> ob)"

definition sample_class :: bac_object where
  "sample_class = (case create_object OT_NOTIFICATION_CLASS 7 [(P_OBJECT_NAME, OStr [66]),
     (P_PRIORITY, OList [OInt 10, OInt 20, OInt 30]),
     (P_ACK_REQUIRED, OList [OBool True, OBool False, OBool False])] of Inr ob \<Rightarrow> ob)"

definition sample_env :: event_environment where
  "sample_env = \<lparr>env_now = 0, env_weekday = 0, env_time = (12, 0, 0),
     env_device = \<lparr>object_type = OT_DEVICE, instance_number = 1\<rparr>, env_str = (\<lambda>v. []), env_callback = (\<lambda>f v p. None),
     env_encodes = (\<lambda>n. True), env_communicates = True, env_network = (\<lambda>n r. True)\<rparr>"

definition sample_engine :: event_engine where
  "sample_engine = snd (engine_event_proc (Engine_db (Db_add sample_class))
     (snd (engine_event_proc (Engine_db (Db_add sample_input)) empty_engine)))"

lemma sample_objects: "object_inv sample_input" "object_inv sample_class"
proof -
  have "create_object OT_ANALOG_INPUT 1 [(P_OBJECT_NAME, OStr [65]),
     (P_PRESENT_VALUE, OFloat 0x4024000000000000), (P_HIGH_LIMIT, OFloat 0x4014000000000000), (P_LOW_LIMIT, OFloat 0),
     (P_NOTIFICATION_CLASS, OInt 7)] = Inr sample_input"
    "list_all (\<lambda>(pid, v). fitting sample_input pid v) [(P_OBJECT_NAME, OStr [65]),
     (P_PRESENT_VALUE, OFloat 0x4024000000000000), (P_HIGH_LIMIT, OFloat 0x4014000000000000), (P_LOW_LIMIT, OFloat 0),
     (P_NOTIFICATION_CLASS, OInt 7)]"
    by code_simp+
  from created_fresh [OF this] show "object_inv sample_input" by (simp add: fresh_def)
  have "create_object OT_NOTIFICATION_CLASS 7 [(P_OBJECT_NAME, OStr [66]),
     (P_PRIORITY, OList [OInt 10, OInt 20, OInt 30]),
     (P_ACK_REQUIRED, OList [OBool True, OBool False, OBool False])] = Inr sample_class"
    "list_all (\<lambda>(pid, v). fitting sample_class pid v) [(P_OBJECT_NAME, OStr [66]),
     (P_PRIORITY, OList [OInt 10, OInt 20, OInt 30]),
     (P_ACK_REQUIRED, OList [OBool True, OBool False, OBool False])]"
    by code_simp+
  from created_fresh [OF this] show "object_inv sample_class" by (simp add: fresh_def)
qed

lemma sample_engine_reached: "reachable engine_event_ok engine_event_proc empty_engine sample_engine"
proof -
  have "context_of empty_engine i = None" for i by (simp add: context_of_def empty_engine_def)
  moreover have "ee_contexts (snd (engine_event_proc (Engine_db (Db_add sample_input)) empty_engine)) = []"
    by (simp add: on_engine_db_def empty_engine_def split: prod.split)
  then have "context_of (snd (engine_event_proc (Engine_db (Db_add sample_input)) empty_engine)) i = None" for i
    by (simp add: context_of_def)
  moreover have "reports (ob_id sample_input) sample_input"
    "get_prop P_EVENT_STATE sample_input = OEnum ''EventState'' EV_NORMAL" "oc_algorithm (ob_class sample_class) = None"
    by code_simp+
  ultimately show ?thesis
    unfolding sample_engine_def
    by (intro reach_event [OF reach_event [OF reach_start]]) (simp_all add: sample_objects shown_def)
qed

lemma sample_cycle:
  "fst (evaluate_cycle sample_env sample_engine) = Inr ()"
  "map_option event_state (map_of (ee_contexts (snd (evaluate_cycle sample_env sample_engine))) (OT_ANALOG_INPUT, 1))
     = Some EV_HIGH_LIMIT"
  by code_simp+

theorem event_state_is_reported_witness:
  "let e = snd (evaluate_cycle sample_env sample_engine); i = \<lparr>object_type = OT_ANALOG_INPUT, instance_number = 1\<rparr>
   in map_option event_state (map_of (ee_contexts e) (OT_ANALOG_INPUT, 1)) = Some EV_HIGH_LIMIT
      \<and> (\<exists>f. db_read (ee_db e) i P_STATUS_FLAGS None = Inr (OFlags f) \<and> in_alarm f)"
proof -
  let ?e = "snd (evaluate_cycle sample_env sample_engine)"
  let ?i = "\<lparr>object_type = OT_ANALOG_INPUT, instance_number = 1\<rparr>"
  have reached: "reachable engine_event_ok engine_event_proc empty_engine ?e"
    using reach_event [OF sample_engine_reached, of "Engine_cycle sample_env"] sample_cycle(1) by simp
  obtain m where m: "map_of (ee_contexts ?e) (object_type ?i, instance_number ?i) = Some m" "event_state m = EV_HIGH_LIMIT"
    using sample_cycle(2) by auto
  have "map_option (\<lambda>ob. (oc_algorithm (ob_class ob), map_of (oc_definitions (ob_class ob)) P_STATUS_FLAGS = None))
      (map_of (db_objects (ee_db ?e)) ?i) = Some (Some ET_OUT_OF_RANGE, False)"
    by code_simp
  then obtain ob where "map_of (db_objects (ee_db ?e)) ?i = Some ob" "oc_algorithm (ob_class ob) \<noteq> None"
    "map_of (oc_definitions (ob_class ob)) P_STATUS_FLAGS \<noteq> None" by auto
  from event_state_is_reported [OF reached this(1,2) m(1) this(3)] show ?thesis
    using m(2) sample_cycle(2) by simp
qed



end
